(* ===== verification/Prelude.thy ===== *)
theory Prelude
  imports Main "HOL-Library.Word" "HOL-Library.Sublist"
begin

text \<open>
  Shared notions of the development: results of a request step that may raise
  (a value of \<^verbatim>\<open>error + 'a\<close> beside the possibly dirty state), the Python string
  operations the code uses, JSON values as Python holds them after
  \<^verbatim>\<open>json.loads\<close>, and the textual form of UUIDs.

  Strings are lists of characters, so code points above 255 are outside the
  model; on the Latin-1 range \<^verbatim>\<open>lower\<close> and \<^verbatim>\<open>strip\<close> below agree with Python's.
\<close>

named_theorems act_simps "unfolding rules for the state-and-error combinators"
named_theorems store_simps "how the table operations read and change the database"

section \<open>Steps that may raise\<close>

text \<open>A step reads and changes a state and returns a value or raises; the state reached
  before the exception is kept, because only the end of the request decides between commit
  and rollback.\<close>

type_synonym ('e, 's, 'a) act = "'s \<Rightarrow> ('e + 'a) \<times> 's"

definition ret :: "'a \<Rightarrow> ('e, 's, 'a) act" where
  "ret a = (\<lambda>s. (Inr a, s))"

definition raise :: "'e \<Rightarrow> ('e, 's, 'a) act" where
  "raise e = (\<lambda>s. (Inl e, s))"

definition bind_act :: "('e, 's, 'a) act \<Rightarrow> ('a \<Rightarrow> ('e, 's, 'b) act) \<Rightarrow> ('e, 's, 'b) act" where
  "bind_act m f = (\<lambda>s. case m s of (Inl e, s') \<Rightarrow> (Inl e, s') | (Inr a, s') \<Rightarrow> f a s')"

definition get_st :: "('e, 's, 's) act" where
  "get_st = (\<lambda>s. (Inr s, s))"

definition upd_st :: "('s \<Rightarrow> 's) \<Rightarrow> ('e, 's, unit) act" where
  "upd_st f = (\<lambda>s. (Inr (), f s))"

definition guard_act :: "bool \<Rightarrow> 'e \<Rightarrow> ('e, 's, unit) act" where
  "guard_act b e = (if b then ret () else raise e)"

text \<open>Commit on success, rollback when an exception leaves the block.\<close>

definition transaction :: "('e, 's, 'a) act \<Rightarrow> ('e, 's, 'a) act" where
  "transaction m = (\<lambda>s. case m s of (Inl e, _) \<Rightarrow> (Inl e, s) | (Inr a, s') \<Rightarrow> (Inr a, s'))"

lemma ret_app [act_simps, simp]: "ret a s = (Inr a, s)"
  by (simp add: ret_def)

lemma raise_app [act_simps, simp]: "raise e s = (Inl e, s)"
  by (simp add: raise_def)

lemma get_st_app [act_simps, simp]: "get_st s = (Inr s, s)"
  by (simp add: get_st_def)

lemma upd_st_app [act_simps, simp]: "upd_st f s = (Inr (), f s)"
  by (simp add: upd_st_def)

lemma guard_act_app [act_simps, simp]:
  "guard_act b e s = (if b then (Inr (), s) else (Inl e, s))"
  by (simp add: guard_act_def)

lemma bind_act_Inr_iff:
  "bind_act m f s = (Inr b, s'') \<longleftrightarrow> (\<exists>a s'. m s = (Inr a, s') \<and> f a s' = (Inr b, s''))"
  by (auto simp: bind_act_def split: prod.splits sum.splits)

lemma bind_act_Inr_E:
  assumes "bind_act m f s = (Inr b, s'')"
  obtains a s' where "m s = (Inr a, s')" "f a s' = (Inr b, s'')"
  using assms by (auto simp: bind_act_Inr_iff)

lemma bind_act_step [act_simps]:
  "m s = (Inr a, s') \<Longrightarrow> bind_act m f s = f a s'"
  by (simp add: bind_act_def)

lemma bind_act_fail [act_simps]:
  "m s = (Inl e, s') \<Longrightarrow> bind_act m f s = (Inl e, s')"
  by (simp add: bind_act_def)

lemma bind_ret [simp]: "bind_act (ret a) f = f a"
  by (simp add: bind_act_def fun_eq_iff)

lemma bind_raise [simp]: "bind_act (raise e) f = raise e"
  by (simp add: bind_act_def fun_eq_iff)

lemma bind_get_st [simp]: "bind_act get_st f s = f s s"
  by (simp add: bind_act_def)

lemma bind_upd_st [simp]: "bind_act (upd_st g) f s = f () (g s)"
  by (simp add: bind_act_def)

lemma bind_guard [simp]:
  "bind_act (guard_act b e) f s = (if b then f () s else (Inl e, s))"
  by (simp add: bind_act_def)

lemma bind_act_assoc:
  "bind_act (bind_act m f) g = bind_act m (\<lambda>a. bind_act (f a) g)"
  by (auto simp: bind_act_def fun_eq_iff split: prod.splits sum.splits)

lemma transaction_Inr_iff:
  "transaction m s = (Inr a, s') \<longleftrightarrow> m s = (Inr a, s')"
  by (auto simp: transaction_def split: prod.splits sum.splits)

lemma transaction_Inl_state:
  "transaction m s = (Inl e, s') \<Longrightarrow> s' = s"
  by (auto simp: transaction_def split: prod.splits sum.splits)

lemma transaction_Inl_iff:
  "transaction m s = (Inl e, s') \<longleftrightarrow> s' = s \<and> (\<exists>t. m s = (Inl e, t))"
  by (auto simp: transaction_def split: prod.splits sum.splits)

lemma transaction_fst [simp]: "fst (transaction m s) = fst (m s)"
  by (auto simp: transaction_def split: prod.splits sum.splits)

text \<open>An invariant that a step keeps whenever it returns is kept by the transaction around it.\<close>

lemma transaction_keeps:
  assumes "P s" "\<And>a s'. m s = (Inr a, s') \<Longrightarrow> P s'"
  shows "P (snd (transaction m s))"
  using assms by (cases "m s") (auto simp: transaction_def split: sum.splits)

section \<open>Python strings\<close>

definition lower_char :: "char \<Rightarrow> char" where
  "lower_char c = (let n = (of_char c :: nat) in
     if (65 \<le> n \<and> n \<le> 90) \<or> (192 \<le> n \<and> n \<le> 222 \<and> n \<noteq> 215) then char_of (n + 32) else c)"

definition py_lower :: "string \<Rightarrow> string" where
  "py_lower s = map lower_char s"

definition is_space :: "char \<Rightarrow> bool" where
  "is_space c = (let n = (of_char c :: nat) in
     (9 \<le> n \<and> n \<le> 13) \<or> (28 \<le> n \<and> n \<le> 32) \<or> n = 133 \<or> n = 160)"

definition py_lstrip :: "string \<Rightarrow> string" where
  "py_lstrip s = dropWhile is_space s"

definition py_rstrip :: "string \<Rightarrow> string" where
  "py_rstrip s = rev (dropWhile is_space (rev s))"

definition py_strip :: "string \<Rightarrow> string" where
  "py_strip s = py_rstrip (py_lstrip s)"

fun starts_with :: "'a list \<Rightarrow> 'a list \<Rightarrow> bool" where
  "starts_with [] s = True"
| "starts_with (p # ps) [] = False"
| "starts_with (p # ps) (c # cs) = (p = c \<and> starts_with ps cs)"

definition ends_with :: "'a list \<Rightarrow> 'a list \<Rightarrow> bool" where
  "ends_with p s = starts_with (rev p) (rev s)"

fun contains_sub :: "'a list \<Rightarrow> 'a list \<Rightarrow> bool" where
  "contains_sub p [] = (p = [])"
| "contains_sub p (c # cs) = (starts_with p (c # cs) \<or> contains_sub p cs)"

text \<open>\<^verbatim>\<open>s.split(c)\<close> for a one-character separator, and \<^verbatim>\<open>sep.join(parts)\<close>.\<close>

fun split_on :: "char \<Rightarrow> string \<Rightarrow> string list" where
  "split_on d [] = [[]]"
| "split_on d (c # cs) =
     (if c = d then [] # split_on d cs
      else (case split_on d cs of [] \<Rightarrow> [[c]] | p # ps \<Rightarrow> (c # p) # ps))"

fun join_with :: "string \<Rightarrow> string list \<Rightarrow> string" where
  "join_with sep [] = []"
| "join_with sep [p] = p"
| "join_with sep (p # q # ps) = p @ sep @ join_with sep (q # ps)"

lemma starts_with_iff: "starts_with p s \<longleftrightarrow> (\<exists>t. s = p @ t)"
  by (induction p s rule: starts_with.induct) auto

lemma starts_with_append [simp]: "starts_with p (p @ t)"
  by (simp add: starts_with_iff)

lemma contains_sub_iff: "contains_sub p s \<longleftrightarrow> (\<exists>u v. s = u @ p @ v)"
proof (induction s)
  case (Cons c cs)
  show ?case
  proof
    assume "contains_sub p (c # cs)"
    then show "\<exists>u v. c # cs = u @ p @ v"
    proof (cases "starts_with p (c # cs)")
      case True
      then show ?thesis by (metis append_Nil starts_with_iff)
    next
      case False
      with \<open>contains_sub p (c # cs)\<close> Cons.IH obtain u v where "cs = u @ p @ v" by auto
      then show ?thesis by (intro exI[of _ "c # u"] exI[of _ v]) simp
    qed
  next
    assume "\<exists>u v. c # cs = u @ p @ v"
    then obtain u v where uv: "c # cs = u @ p @ v" by blast
    then show "contains_sub p (c # cs)"
    proof (cases u)
      case Nil
      with uv have "starts_with p (c # cs)" by (simp add: starts_with_iff)
      then show ?thesis by simp
    next
      case (Cons d ds)
      with uv \<open>contains_sub p cs = (\<exists>u v. cs = u @ p @ v)\<close> show ?thesis by auto
    qed
  qed
qed auto

lemma split_on_nonempty [simp]: "split_on d s \<noteq> []"
  by (induction s) (auto split: list.splits)

lemma join_split [simp]: "join_with [d] (split_on d s) = s"
proof (induction s)
  case (Cons c cs)
  obtain p ps where ps: "split_on d cs = p # ps" by (cases "split_on d cs") auto
  with Cons show ?case by (cases ps) auto
qed simp

lemma split_on_no_sep: "p \<in> set (split_on d s) \<Longrightarrow> d \<notin> set p"
proof (induction s arbitrary: p)
  case (Cons c cs)
  obtain q qs where "split_on d cs = q # qs" by (cases "split_on d cs") auto
  with Cons show ?case by (auto split: if_splits)
qed simp

lemma split_on_single: "d \<notin> set p \<Longrightarrow> split_on d p = [p]"
  by (induction p) auto

lemma split_on_append: "d \<notin> set p \<Longrightarrow> split_on d (p @ d # s) = p # split_on d s"
  by (induction p) auto

lemma split_join:
  "ps \<noteq> [] \<Longrightarrow> \<forall>p\<in>set ps. d \<notin> set p \<Longrightarrow> split_on d (join_with [d] ps) = ps"
  by (induction ps rule: induct_list012) (auto simp: split_on_single split_on_append)

lemma lower_char_idem [simp]: "lower_char (lower_char c) = lower_char c"
proof -
  have "of_char c < (256::nat)" by (rule nat_of_char_less_256)
  then show ?thesis
    by (auto simp: lower_char_def Let_def of_char_of take_bit_nat_eq_self)
qed

text \<open>The letters, for evaluation.\<close>

lemma lower_upper:
  "map lower_char ''ABCDEFGHIJKLMNOPQRSTUVWXYZ'' = ''abcdefghijklmnopqrstuvwxyz''"
  by code_simp

lemma lower_others:
  "map lower_char ''abcdefghijklmnopqrstuvwxyz0123456789_-.:@/ '' = ''abcdefghijklmnopqrstuvwxyz0123456789_-.:@/ ''"
  by code_simp

lemmas lower_letters = lower_upper [simplified list.map list.inject simp_thms]
  lower_others [simplified list.map list.inject simp_thms]

lemma is_space_lower [simp]: "is_space (lower_char c) = is_space c"
  by (auto simp: is_space_def lower_char_def Let_def of_char_of take_bit_nat_eq_self)

lemma dropWhile_space_lower: "dropWhile is_space (map lower_char s) = map lower_char (dropWhile is_space s)"
  by (induction s) auto

lemma py_strip_lower: "py_strip (py_lower s) = py_lower (py_strip s)"
  by (simp add: py_strip_def py_lstrip_def py_rstrip_def py_lower_def dropWhile_space_lower rev_map)

lemma rstrip_prefix: "\<exists>u. t = py_rstrip t @ u"
  unfolding py_rstrip_def
  by (metis rev_append rev_rev_ident takeWhile_dropWhile_id)

lemma py_strip_idem [simp]: "py_strip (py_strip s) = py_strip s"
proof -
  have l: "py_lstrip (py_rstrip (py_lstrip s)) = py_rstrip (py_lstrip s)"
  proof (cases "py_rstrip (py_lstrip s)")
    case (Cons c cs)
    then obtain u where "py_lstrip s = c # cs @ u" using rstrip_prefix[of "py_lstrip s"] by auto
    then have "\<not> is_space c" unfolding py_lstrip_def by (metis dropWhile_eq_Cons_conv)
    with Cons show ?thesis by (simp add: py_lstrip_def)
  qed (simp add: py_lstrip_def)
  show ?thesis by (simp add: py_strip_def l) (simp add: py_rstrip_def)
qed

lemma py_lower_idem [simp]: "py_lower (py_lower s) = py_lower s"
  by (simp add: py_lower_def)

section \<open>JSON values\<close>

datatype pyfloat = FFin int int | FPosInf | FNegInf | FNaN

text \<open>A finite float is kept as the fraction of two integers that
  \<^verbatim>\<open>float.as_integer_ratio\<close> returns. Dictionaries are association lists in insertion order
  with distinct keys.\<close>

datatype json =
    JNull
  | JBool bool
  | JInt int
  | JFloat pyfloat
  | JStr string
  | JArr "json list"
  | JObj "(string \<times> json) list"

type_synonym dict = "(string \<times> json) list"

text \<open>\<^verbatim>\<open>d.get(k)\<close> on a dictionary (\<^verbatim>\<open>None\<close> for a missing key), and Python truth.\<close>

definition obj_get :: "(string \<times> json) list \<Rightarrow> string \<Rightarrow> json" where
  "obj_get kvs k = (case map_of kvs k of Some v \<Rightarrow> v | None \<Rightarrow> JNull)"

fun truthy :: "json \<Rightarrow> bool" where
  "truthy JNull = False"
| "truthy (JBool b) = b"
| "truthy (JInt i) = (i \<noteq> 0)"
| "truthy (JFloat f) = (case f of FFin n d \<Rightarrow> n \<noteq> 0 | _ \<Rightarrow> True)"
| "truthy (JStr s) = (s \<noteq> [])"
| "truthy (JArr xs) = (xs \<noteq> [])"
| "truthy (JObj kvs) = (kvs \<noteq> [])"

definition opt_str :: "string option \<Rightarrow> json" where
  "opt_str x = (case x of None \<Rightarrow> JNull | Some s \<Rightarrow> JStr s)"

section \<open>Dictionaries as association lists\<close>

text \<open>\<^verbatim>\<open>d[k] = v\<close>: a key already there keeps its place.\<close>

definition dict_put :: "('k \<times> 'v) list \<Rightarrow> 'k \<Rightarrow> 'v \<Rightarrow> ('k \<times> 'v) list" where
  "dict_put kvs k v = (if map_of kvs k = None then kvs @ [(k, v)]
     else map (\<lambda>(k', v'). if k' = k then (k', v) else (k', v')) kvs)"

lemma dict_put_get [simp]: "map_of (dict_put kvs k v) k' = (if k' = k then Some v else map_of kvs k')"
proof (cases "map_of kvs k")
  case None
  then show ?thesis by (simp add: dict_put_def map_add_def split: option.splits)
next
  case (Some w)
  have "map_of (map (\<lambda>(k', v'). if k' = k then (k', v) else (k', v')) kvs) k'
      = (if k' = k \<and> map_of kvs k \<noteq> None then Some v else map_of kvs k')"
    by (induction kvs) auto
  with Some show ?thesis by (simp add: dict_put_def)
qed

lemma dict_put_keys:
  "map fst (dict_put kvs k v) = (if k \<in> fst ` set kvs then map fst kvs else map fst kvs @ [k])"
  by (auto simp: dict_put_def map_of_eq_None_iff split_def comp_def intro!: map_cong)

lemma dict_put_distinct: "distinct (map fst kvs) \<Longrightarrow> distinct (map fst (dict_put kvs k v))"
  by (auto simp: dict_put_keys)

section \<open>UUIDs\<close>

type_synonym uuid = "128 word"

definition hex_digit :: "nat \<Rightarrow> char" where
  "hex_digit n = ''0123456789abcdef'' ! n"

definition hex_digits :: "nat \<Rightarrow> nat \<Rightarrow> string" where
  "hex_digits len n = map (\<lambda>i. hex_digit ((n div 16 ^ i) mod 16)) (rev [0..<len])"

text \<open>\<^verbatim>\<open>str(uuid)\<close>: the canonical 8-4-4-4-12 form.\<close>

definition str_uuid :: "uuid \<Rightarrow> string" where
  "str_uuid u = (let h = hex_digits 32 (unat u) in
     take 8 h @ ''-'' @ take 4 (drop 8 h) @ ''-'' @ take 4 (drop 12 h) @ ''-'' @
     take 4 (drop 16 h) @ ''-'' @ drop 20 h)"

text \<open>\<^verbatim>\<open>uuid.UUID(s)\<close>: the marks \<^verbatim>\<open>urn:\<close> and \<^verbatim>\<open>uuid:\<close> and the dashes are removed wherever they are,
  braces at the ends, and what is left must be 32 characters long and an integer for
  \<^verbatim>\<open>int(s, 16)\<close>, which allows surrounding white space, a sign, a \<^verbatim>\<open>0x\<close> prefix and single
  underscores between digits; a negative value is out of range.\<close>

fun remove_sub :: "nat \<Rightarrow> string \<Rightarrow> string \<Rightarrow> string" where
  "remove_sub 0 p s = s"
| "remove_sub (Suc fuel) p [] = []"
| "remove_sub (Suc fuel) p (c # cs) =
     (if starts_with p (c # cs) then remove_sub fuel p (drop (length p) (c # cs))
      else c # remove_sub fuel p cs)"

definition replace_with_empty :: "string \<Rightarrow> string \<Rightarrow> string" where
  "replace_with_empty p s = remove_sub (length s) p s"

definition hex_val :: "char \<Rightarrow> nat option" where
  "hex_val c = (let n = (of_char c :: nat) in
     if 48 \<le> n \<and> n \<le> 57 then Some (n - 48)
     else if 65 \<le> n \<and> n \<le> 70 then Some (n - 55)
     else if 97 \<le> n \<and> n \<le> 102 then Some (n - 87)
     else None)"

fun hex_number :: "bool \<Rightarrow> nat \<Rightarrow> string \<Rightarrow> nat option" where
  "hex_number after_digit acc [] = (if after_digit then Some acc else None)"
| "hex_number after_digit acc (c # cs) =
     (if c = CHR ''_'' then (if after_digit then hex_number False acc cs else None)
      else (case hex_val c of None \<Rightarrow> None | Some d \<Rightarrow> hex_number True (16 * acc + d) cs))"

definition int16 :: "string \<Rightarrow> int option" where
  "int16 s = (let t = py_strip s;
     (neg, u) = (case t of c # cs \<Rightarrow> if c = CHR ''-'' then (True, cs)
         else if c = CHR ''+'' then (False, cs) else (False, t) | [] \<Rightarrow> (False, t));
     v = (if starts_with ''0x'' u \<or> starts_with ''0X'' u
          then (case drop 2 u of c # cs \<Rightarrow> if c = CHR ''_'' then cs else c # cs | [] \<Rightarrow> []) else u)
     in map_option (\<lambda>n. if neg then - int n else int n) (hex_number False 0 v))"

definition strip_braces :: "string \<Rightarrow> string" where
  "strip_braces s = (let b = (\<lambda>c. c = CHR ''{'' \<or> c = CHR ''}'') in
     rev (dropWhile b (rev (dropWhile b s))))"

definition parse_uuid :: "string \<Rightarrow> uuid option" where
  "parse_uuid s = (let h = replace_with_empty ''-'' (strip_braces
       (replace_with_empty ''uuid:'' (replace_with_empty ''urn:'' s))) in
     if length h \<noteq> 32 then None
     else (case int16 h of None \<Rightarrow> None
       | Some i \<Rightarrow> if 0 \<le> i \<and> i < 2 ^ 128 then Some (of_int i) else None))"

text \<open>\<^verbatim>\<open>str(i)\<close> of an integer.\<close>

function str_nat :: "nat \<Rightarrow> string" where
  "str_nat n = (if n < 10 then [char_of (48 + n)] else str_nat (n div 10) @ [char_of (48 + n mod 10)])"
  by auto
termination by (relation "measure id") auto

declare str_nat.simps [simp del]

definition str_int :: "int \<Rightarrow> string" where
  "str_int i = (if i < 0 then CHR ''-'' # str_nat (nat (- i)) else str_nat (nat i))"

lemma str_nat_text: "CHR 0x00 \<notin> set (str_nat n)"
proof (induction n rule: str_nat.induct)
  case (1 n)
  have "char_of (48 + m) \<noteq> CHR 0x00" if "m < 10" for m :: nat
  proof
    assume "char_of (48 + m) = CHR 0x00"
    then have "(of_char (char_of (48 + m) :: char) :: nat) = of_char CHR 0x00" by simp
    with that show False by (simp add: of_char_of)
  qed
  from this[of n] this[of "n mod 10"] 1 show ?case by (subst str_nat.simps) (auto dest: sym)
qed

lemma str_int_text [simp]: "CHR 0x00 \<notin> set (str_int i)"
  by (simp add: str_int_def str_nat_text)

lemma hex_digit_inj:
  assumes "m < 16" "n < 16" "hex_digit m = hex_digit n"
  shows "m = n"
proof -
  have d: "distinct ''0123456789abcdef''" by simp
  have l: "length ''0123456789abcdef'' = 16" by simp
  show ?thesis
    using nth_eq_iff_index_eq[OF d, of m n] assms by (simp only: l hex_digit_def)
qed

lemma hex_digits_length [simp]: "length (hex_digits len n) = len"
  by (simp add: hex_digits_def)

lemma hex_digits_Suc: "hex_digits (Suc len) n = hex_digit ((n div 16 ^ len) mod 16) # hex_digits len n"
  by (simp add: hex_digits_def)

lemma hex_digits_inj_mod:
  "hex_digits len m = hex_digits len n \<Longrightarrow> m mod 16 ^ len = n mod 16 ^ len"
proof (induction len)
  case (Suc len)
  then have tl: "m mod 16 ^ len = n mod 16 ^ len"
    and hd: "hex_digit ((m div 16 ^ len) mod 16) = hex_digit ((n div 16 ^ len) mod 16)"
    by (auto simp: hex_digits_Suc)
  from hd have "(m div 16 ^ len) mod 16 = (n div 16 ^ len) mod 16"
    by (rule hex_digit_inj[rotated 2]) auto
  with tl have "16 ^ len * ((m div 16 ^ len) mod 16) + m mod 16 ^ len
      = 16 ^ len * ((n div 16 ^ len) mod 16) + n mod 16 ^ len" by simp
  then show ?case
    by (simp add: mod_mult2_eq[symmetric] mult.commute)
qed simp

lemma hex_digits_inj:
  assumes "hex_digits len m = hex_digits len n" "m < 16 ^ len" "n < 16 ^ len"
  shows "m = n"
  using hex_digits_inj_mod[OF assms(1)] assms(2,3) by simp

lemma drop_eq_step:
  assumes "take k (drop n xs) = take k (drop n ys)" "drop (n + k) xs = drop (n + k) ys"
  shows "drop n xs = drop n ys"
proof -
  have "drop n zs = take k (drop n zs) @ drop (n + k) zs" for zs :: "'a list"
    by (metis append_take_drop_id drop_drop add.commute)
  with assms show ?thesis by metis
qed

lemma dashed_inj:
  assumes "length h = 32" "length h' = 32"
    and "take 8 h @ ''-'' @ take 4 (drop 8 h) @ ''-'' @ take 4 (drop 12 h) @ ''-'' @
         take 4 (drop 16 h) @ ''-'' @ drop 20 h
       = take 8 h' @ ''-'' @ take 4 (drop 8 h') @ ''-'' @ take 4 (drop 12 h') @ ''-'' @
         take 4 (drop 16 h') @ ''-'' @ drop 20 h'"
  shows "h = h'"
proof -
  have parts: "take 8 h = take 8 h'" "take 4 (drop 8 h) = take 4 (drop 8 h')"
    "take 4 (drop 12 h) = take 4 (drop 12 h')" "take 4 (drop 16 h) = take 4 (drop 16 h')"
    "drop 20 h = drop 20 h'"
    using assms by (auto simp: append_eq_append_conv)
  have s1: "drop 16 h = drop 16 h'" by (rule drop_eq_step[of 4]) (use parts in simp_all)
  have s2: "drop 12 h = drop 12 h'" by (rule drop_eq_step[of 4]) (use parts s1 in simp_all)
  have s3: "drop 8 h = drop 8 h'" by (rule drop_eq_step[of 4]) (use parts s2 in simp_all)
  have "drop 0 h = drop 0 h'" by (rule drop_eq_step[of 8]) (use parts s3 in simp_all)
  then show ?thesis by simp
qed

lemma str_uuid_inj [simp]: "str_uuid u = str_uuid v \<longleftrightarrow> u = v"
proof
  assume eq: "str_uuid u = str_uuid v"
  have "hex_digits 32 (unat u) = hex_digits 32 (unat v)"
    by (rule dashed_inj) (use eq in \<open>simp_all add: str_uuid_def Let_def\<close>)
  then have "unat u = unat v"
    by (rule hex_digits_inj) (use unsigned_less[of u, where ?'a = nat] unsigned_less[of v, where ?'a = nat] in simp_all)
  then show "u = v" by (rule unsigned_word_eqI)
qed simp

lemma hex_digit_val: "n < 16 \<Longrightarrow> hex_val (hex_digit n) = Some n"
proof -
  assume n: "n < 16"
  have "\<forall>k \<in> set [0..<16]. hex_val (hex_digit k) = Some k" by code_simp
  moreover have "n \<in> set [0..<16]" unfolding set_upt using n by simp
  ultimately show ?thesis by blast
qed

lemma hex_digit_plain: "n < 16 \<Longrightarrow> hex_digit n \<in> set ''0123456789abcdef''"
  unfolding hex_digit_def by (rule nth_mem) simp

lemma hex_digits_plain: "set (hex_digits len n) \<subseteq> set ''0123456789abcdef''"
  unfolding hex_digits_def using hex_digit_plain by (auto simp del: list.set)

lemma hex_number_digits:
  "hex_number b acc (hex_digits len n) =
     (if len = 0 \<and> \<not> b then None else Some (16 ^ len * acc + n mod 16 ^ len))"
proof (induction len arbitrary: b acc)
  case 0
  show ?case by (simp add: hex_digits_def)
next
  case (Suc len)
  let ?d = "(n div 16 ^ len) mod 16"
  have "hex_digit ?d \<noteq> CHR ''_''" using hex_digit_plain[of ?d] by auto
  then have "hex_number b acc (hex_digits (Suc len) n) = hex_number True (16 * acc + ?d) (hex_digits len n)"
    by (simp add: hex_digits_Suc hex_digit_val)
  also have "\<dots> = Some (16 ^ len * (16 * acc + ?d) + n mod 16 ^ len)"
    using Suc by simp
  also have "16 ^ len * (16 * acc + ?d) + n mod 16 ^ len = 16 ^ Suc len * acc + n mod 16 ^ Suc len"
    using mod_mult2_eq[of n "16 ^ len" 16] by (simp add: algebra_simps)
  finally show ?case by simp
qed

lemma starts_with_set: "starts_with p s \<Longrightarrow> set p \<subseteq> set s"
  by (auto simp: starts_with_iff)

lemma remove_sub_absent: "c \<in> set p \<Longrightarrow> c \<notin> set s \<Longrightarrow> remove_sub f p s = s"
proof (induction f p s rule: remove_sub.induct)
  case (3 f p d ds)
  then have "\<not> starts_with p (d # ds)" using starts_with_set by blast
  with 3 show ?case by simp
qed simp_all

lemma remove_sub_char: "length s \<le> f \<Longrightarrow> remove_sub f [d] s = filter (\<lambda>c. c \<noteq> d) s"
  by (induction f "[d]" s rule: remove_sub.induct) auto

lemma dropWhile_none: "(\<And>c. c \<in> set s \<Longrightarrow> \<not> b c) \<Longrightarrow> dropWhile b s = s"
  by (cases s) auto

lemma take_drop_chain: "n \<le> m \<Longrightarrow> take (m - n) (drop n xs) @ drop m xs = drop n xs"
  by (metis append_take_drop_id drop_drop le_add_diff_inverse2)

lemma str_uuid_digits: "filter (\<lambda>c. c \<noteq> CHR ''-'') (str_uuid u) = hex_digits 32 (unat u)"
proof -
  let ?h = "hex_digits 32 (unat u)"
  have "set ?h \<subseteq> set ''0123456789abcdef''" by (rule hex_digits_plain)
  then have "CHR ''-'' \<notin> set ?h" by auto
  then have "filter (\<lambda>c. c \<noteq> CHR ''-'') t = t" if "set t \<subseteq> set ?h" for t
    using that by (auto simp: filter_id_conv)
  note fl = this[OF set_take_subset] this[OF set_drop_subset]
    this[OF order_trans[OF set_take_subset set_drop_subset]]
  have "take 8 ?h @ take 4 (drop 8 ?h) @ take 4 (drop 12 ?h) @ take 4 (drop 16 ?h) @ drop 20 ?h = ?h"
    using take_drop_chain[of 16 20 ?h] take_drop_chain[of 12 16 ?h] take_drop_chain[of 8 12 ?h] by simp
  then show ?thesis by (simp add: str_uuid_def Let_def fl)
qed

lemma str_uuid_chars: "set (str_uuid u) \<subseteq> set ''0123456789abcdef-''"
proof
  fix c assume "c \<in> set (str_uuid u)"
  then have "c = CHR ''-'' \<or> c \<in> set (filter (\<lambda>c. c \<noteq> CHR ''-'') (str_uuid u))" by simp
  then have "c = CHR ''-'' \<or> c \<in> set ''0123456789abcdef''"
    unfolding str_uuid_digits using hex_digits_plain[of 32 "unat u"] by blast
  then show "c \<in> set ''0123456789abcdef-''" by auto
qed

text \<open>\<^verbatim>\<open>uuid.UUID(str(u))\<close> is \<^verbatim>\<open>u\<close>.\<close>

lemma parse_str_uuid [simp]: "parse_uuid (str_uuid u) = Some u"
proof -
  let ?h = "hex_digits 32 (unat u)"
  have c: "CHR '':'' \<notin> set (str_uuid u)" using str_uuid_chars[of u] by auto
  have u: "replace_with_empty ''urn:'' (str_uuid u) = str_uuid u"
    "replace_with_empty ''uuid:'' (str_uuid u) = str_uuid u"
    unfolding replace_with_empty_def by (rule remove_sub_absent[OF _ c], simp)+
  have "\<And>c. c \<in> set (str_uuid u) \<Longrightarrow> \<not> (c = CHR ''{'' \<or> c = CHR ''}'')"
    using str_uuid_chars[of u] by auto
  then have "dropWhile (\<lambda>c. c = CHR ''{'' \<or> c = CHR ''}'') (str_uuid u) = str_uuid u"
    "dropWhile (\<lambda>c. c = CHR ''{'' \<or> c = CHR ''}'') (rev (str_uuid u)) = rev (str_uuid u)"
    using dropWhile_none[of "str_uuid u"] dropWhile_none[of "rev (str_uuid u)"] by auto
  then have b: "strip_braces (str_uuid u) = str_uuid u" by (simp add: strip_braces_def)
  have d: "replace_with_empty ''-'' (str_uuid u) = ?h"
    by (simp add: replace_with_empty_def remove_sub_char str_uuid_digits)
  have pl: "set ?h \<subseteq> set ''0123456789abcdef''" by (rule hex_digits_plain)
  have "\<forall>c \<in> set ''0123456789abcdef''. \<not> is_space c" by code_simp
  then have ns: "\<And>c. c \<in> set ?h \<Longrightarrow> \<not> is_space c" using pl by blast
  then have "dropWhile is_space ?h = ?h" "dropWhile is_space (rev ?h) = rev ?h"
    using dropWhile_none[of ?h is_space] dropWhile_none[of "rev ?h" is_space] by auto
  then have st: "py_strip ?h = ?h" by (simp add: py_strip_def py_lstrip_def py_rstrip_def)
  obtain x y t where h: "?h = x # y # t"
    by (metis hex_digits_Suc numeral_eq_Suc pred_numeral_simps(2) pred_numeral_simps(3))
  have "y \<noteq> CHR ''x''" "y \<noteq> CHR ''X''" "x \<noteq> CHR ''-''" "x \<noteq> CHR ''+''" using pl h by auto
  then have "int16 ?h = map_option int (hex_number False 0 ?h)"
    by (simp add: int16_def Let_def st) (simp add: h)
  also have "\<dots> = Some (int (unat u))"
    using unsigned_less[of u, where ?'a = nat] by (simp add: hex_number_digits)
  finally show ?thesis
    using unsigned_less[of u, where ?'a = int] by (simp add: parse_uuid_def u b d Let_def)
qed

section \<open>Sorting\<close>

text \<open>\<^verbatim>\<open>ORDER BY\<close> with the order as an argument; rows equal in the order keep their places.\<close>

fun insert_by :: "('a \<Rightarrow> 'a \<Rightarrow> bool) \<Rightarrow> 'a \<Rightarrow> 'a list \<Rightarrow> 'a list" where
  "insert_by le x [] = [x]"
| "insert_by le x (y # ys) = (if le x y then x # y # ys else y # insert_by le x ys)"

definition sort_by :: "('a \<Rightarrow> 'a \<Rightarrow> bool) \<Rightarrow> 'a list \<Rightarrow> 'a list" where
  "sort_by le xs = foldr (insert_by le) xs []"

lemma sort_by_simps [simp]:
  "sort_by le [] = []" "sort_by le (x # xs) = insert_by le x (sort_by le xs)"
  by (simp_all add: sort_by_def)

lemma insert_by_set [simp]: "set (insert_by le x xs) = insert x (set xs)"
  by (induction xs) auto

lemma insert_by_length [simp]: "length (insert_by le x xs) = Suc (length xs)"
  by (induction xs) auto

lemma sort_by_set [simp]: "set (sort_by le xs) = set xs"
  by (induction xs) auto

lemma sort_by_length [simp]: "length (sort_by le xs) = length xs"
  by (induction xs) auto

lemma insert_by_distinct: "distinct (insert_by le x xs) \<longleftrightarrow> x \<notin> set xs \<and> distinct xs"
  by (induction xs) auto

lemma sort_by_distinct [simp]: "distinct (sort_by le xs) \<longleftrightarrow> distinct xs"
  by (induction xs) (auto simp: insert_by_distinct)

lemma insert_by_sorted:
  assumes "\<And>a b. le a b \<or> le b a" "\<And>a b c. le a b \<Longrightarrow> le b c \<Longrightarrow> le a c" "sorted_wrt le xs"
  shows "sorted_wrt le (insert_by le x xs)"
  using assms(3)
proof (induction xs)
  case (Cons y ys)
  then show ?case using assms(1)[of x y] assms(2)[of x y] by auto
qed simp

lemma sort_by_sorted:
  assumes "\<And>a b. le a b \<or> le b a" "\<And>a b c. le a b \<Longrightarrow> le b c \<Longrightarrow> le a c"
  shows "sorted_wrt le (sort_by le xs)"
  by (induction xs) (auto intro: insert_by_sorted[OF assms])

lemma sum_filter_le: "(\<forall>r \<in> set rs. 0 \<le> f r) \<Longrightarrow> sum_list (map f (filter P rs)) \<le> (sum_list (map f rs) :: int)"
  by (induction rs) auto

end
