(* ===== verification/Errors.thy ===== *)
theory Errors
  imports Prelude
begin

text \<open>
  The exception hierarchy of \<^verbatim>\<open>app/errors.py\<close>: one constructor per class, with the HTTP status
  and the machine-readable code the error handler serialises;
  \<^verbatim>\<open>AdaptyWebhookMisconfiguredError\<close> is declared beside its only use
  (\<^verbatim>\<open>app/billing_adapty/auth.py\<close>). \<^verbatim>\<open>DbError\<close> stands for any
  exception of the database driver (constraint or type violation) and \<^verbatim>\<open>PyError\<close> for any other
  uncaught Python exception; the generic handler answers 500 \<^verbatim>\<open>internal_error\<close> for both, as it
  does for the base class.
\<close>

datatype app_error =
    AppError
  | UnauthorizedError
  | ForbiddenError
  | SubscriptionRequiredError
  | NotFoundError
  | SessionNotFoundError
  | UserNotFoundError
  | WorkspaceNotFoundError
  | MessageNotFoundError
  | ConflictError
  | InsufficientCreditsError
  | PayloadTooLargeError
  | ValidationFailedError
  | UnsupportedDialogModeError
  | UnsupportedModelError
  | RateLimitedError
  | UpstreamError
  | ServiceUnavailableError
  | CloudPaymentsWebhookMisconfiguredError
  | CloudPaymentsVerificationUnavailableError
  | CloudPaymentsCheckoutNotConfiguredError
  | AdaptyWebhookMisconfiguredError
  | DbError
  | PyError

text \<open>The direct base class of each class, \<^verbatim>\<open>None\<close> above \<^verbatim>\<open>AppError\<close> and for the two kinds of
  exception that are not of this hierarchy.\<close>

fun parent_class :: "app_error \<Rightarrow> app_error option" where
  "parent_class AppError = None"
| "parent_class UnauthorizedError = Some AppError"
| "parent_class ForbiddenError = Some AppError"
| "parent_class SubscriptionRequiredError = Some ForbiddenError"
| "parent_class NotFoundError = Some AppError"
| "parent_class SessionNotFoundError = Some NotFoundError"
| "parent_class UserNotFoundError = Some NotFoundError"
| "parent_class WorkspaceNotFoundError = Some NotFoundError"
| "parent_class MessageNotFoundError = Some NotFoundError"
| "parent_class ConflictError = Some AppError"
| "parent_class InsufficientCreditsError = Some ConflictError"
| "parent_class PayloadTooLargeError = Some AppError"
| "parent_class ValidationFailedError = Some AppError"
| "parent_class UnsupportedDialogModeError = Some ValidationFailedError"
| "parent_class UnsupportedModelError = Some ValidationFailedError"
| "parent_class RateLimitedError = Some AppError"
| "parent_class UpstreamError = Some AppError"
| "parent_class ServiceUnavailableError = Some AppError"
| "parent_class CloudPaymentsWebhookMisconfiguredError = Some ServiceUnavailableError"
| "parent_class CloudPaymentsVerificationUnavailableError = Some AppError"
| "parent_class CloudPaymentsCheckoutNotConfiguredError = Some ServiceUnavailableError"
| "parent_class AdaptyWebhookMisconfiguredError = Some ServiceUnavailableError"
| "parent_class DbError = None"
| "parent_class PyError = None"

text \<open>The hierarchy is at most three classes deep, so \<^verbatim>\<open>isinstance\<close> looks two bases up.\<close>

definition is_instance :: "app_error \<Rightarrow> app_error \<Rightarrow> bool" where
  "is_instance e c = (e = c \<or> parent_class e = Some c \<or>
     (case parent_class e of None \<Rightarrow> False | Some p \<Rightarrow> parent_class p = Some c))"

text \<open>Class attributes as each class body assigns them; unassigned ones are looked up in the base.\<close>

fun own_status :: "app_error \<Rightarrow> nat option" where
  "own_status AppError = Some 500"
| "own_status UnauthorizedError = Some 401"
| "own_status ForbiddenError = Some 403"
| "own_status NotFoundError = Some 404"
| "own_status ConflictError = Some 409"
| "own_status PayloadTooLargeError = Some 413"
| "own_status ValidationFailedError = Some 422"
| "own_status RateLimitedError = Some 429"
| "own_status UpstreamError = Some 502"
| "own_status ServiceUnavailableError = Some 503"
| "own_status CloudPaymentsWebhookMisconfiguredError = Some 500"
| "own_status CloudPaymentsVerificationUnavailableError = Some 500"
| "own_status AdaptyWebhookMisconfiguredError = Some 500"
| "own_status _ = None"

fun error_code :: "app_error \<Rightarrow> string" where
  "error_code AppError = ''internal_error''"
| "error_code UnauthorizedError = ''unauthorized''"
| "error_code ForbiddenError = ''forbidden''"
| "error_code SubscriptionRequiredError = ''subscription_required''"
| "error_code NotFoundError = ''not_found''"
| "error_code SessionNotFoundError = ''session_not_found''"
| "error_code UserNotFoundError = ''user_not_found''"
| "error_code WorkspaceNotFoundError = ''workspace_not_found''"
| "error_code MessageNotFoundError = ''message_not_found''"
| "error_code ConflictError = ''conflict''"
| "error_code InsufficientCreditsError = ''insufficient_credits''"
| "error_code PayloadTooLargeError = ''payload_too_large''"
| "error_code ValidationFailedError = ''validation_error''"
| "error_code UnsupportedDialogModeError = ''unsupported_dialog_mode''"
| "error_code UnsupportedModelError = ''unsupported_model''"
| "error_code RateLimitedError = ''rate_limited''"
| "error_code UpstreamError = ''upstream_error''"
| "error_code ServiceUnavailableError = ''service_unavailable''"
| "error_code CloudPaymentsWebhookMisconfiguredError = ''cloudpayments_webhook_misconfigured''"
| "error_code CloudPaymentsVerificationUnavailableError =
     ''cloudpayments_verification_unavailable''"
| "error_code CloudPaymentsCheckoutNotConfiguredError =
     ''cloudpayments_checkout_not_configured''"
| "error_code AdaptyWebhookMisconfiguredError = ''adapty_webhook_misconfigured''"
| "error_code DbError = ''internal_error''"
| "error_code PyError = ''internal_error''"

definition status_code :: "app_error \<Rightarrow> nat" where
  "status_code e = (case own_status e of Some n \<Rightarrow> n | None \<Rightarrow>
     (case parent_class e of None \<Rightarrow> 500 | Some p \<Rightarrow>
       (case own_status p of Some n \<Rightarrow> n | None \<Rightarrow> 500)))"

lemma status_code_range: "status_code e \<in> {401, 403, 404, 409, 413, 422, 429, 500, 502, 503}"
  by (cases e) (simp_all add: status_code_def)

text \<open>Every exception of the hierarchy has a code of its own.\<close>

lemma error_code_distinct:
  "e \<notin> {DbError, PyError} \<Longrightarrow> e' \<notin> {DbError, PyError} \<Longrightarrow> error_code e = error_code e' \<Longrightarrow> e = e'"
  by (cases e; cases e'; simp)

lemma subclass_same_status:
  "is_instance e ConflictError \<Longrightarrow> status_code e = 409"
  by (cases e) (simp_all add: status_code_def is_instance_def)

text \<open>\<^verbatim>\<open>hmac.compare_digest\<close> on two \<^verbatim>\<open>str\<close>: equality, but a \<^verbatim>\<open>TypeError\<close> when either holds a character
  outside ASCII.\<close>

definition is_ascii :: "string \<Rightarrow> bool" where
  "is_ascii s = list_all (\<lambda>c. (of_char c :: nat) < 128) s"

definition compare_digest :: "string \<Rightarrow> string \<Rightarrow> app_error + bool" where
  "compare_digest a b = (if is_ascii a \<and> is_ascii b then Inr (a = b) else Inl PyError)"

end
