(* ===== verification/Store.thy ===== *)
theory Store
  imports Errors
begin

text \<open>
  The database of \<^verbatim>\<open>app/models/tables.py\<close> as a record of tables. Tables read by primary key only
  are maps; tables that queries scan, order or delete from are lists in insertion order. Columns no
  code reads back (\<^verbatim>\<open>wallets.updated_at\<close>, \<^verbatim>\<open>auth_devices.last_seen_at\<close>) are left out. The two tables of
  the embedded token issuer are declared by the migration \<^verbatim>\<open>0005_embedded_auth_issuer\<close> only. Timestamps are microseconds since the
  epoch, in UTC. \<^verbatim>\<open>db_now\<close> is PostgreSQL's \<^verbatim>\<open>now()\<close>, constant inside a transaction;
  \<^verbatim>\<open>db_gen\<close> with the counter \<^verbatim>\<open>db_next\<close> is \<^verbatim>\<open>gen_random_uuid()\<close>; \<^verbatim>\<open>db_rid\<close> is the request id
  of the request context. The statements on the tables check the constraints of the schema and
  raise \<^verbatim>\<open>DbError\<close> where PostgreSQL rejects them.
\<close>

section \<open>Column types\<close>

type_synonym time = int
type_synonym bytes = "8 word list"

datatype mode = ModeCredits | ModeByok
datatype sub_status = SubActive | SubExpired | SubNone
datatype ledger_type = Credit | Debit
datatype key_status = KsValid | KsInvalid | KsMissing | KsValidating | KsOffline | KsExpired
datatype role = RUser | RAssistant | RTool
datatype tc_status = TcPending | TcCompleted | TcErrored
datatype assistant_mode = AmChat | AmCode
datatype dialog_mode = DmSmart | DmDeepThinking | DmStudyLearn | DmSearch

lemma ex_mode: "(\<exists>m. P m) \<longleftrightarrow> P ModeCredits \<or> P ModeByok"
proof
  assume "\<exists>m. P m"
  then obtain m where "P m" ..
  then show "P ModeCredits \<or> P ModeByok" by (cases m) auto
qed auto

section \<open>Rows\<close>

record user_row =
  u_created :: time
  u_trial_used :: bool
  u_display_name :: "string option"

record sub_row =
  s_status :: sub_status
  s_plan :: "string option"
  s_expires :: "time option"
  s_updated :: time

record ledger_row =
  l_id :: uuid
  l_user :: uuid
  l_type :: ledger_type
  l_amount :: int
  l_meta :: json
  l_key :: string
  l_created :: time

record byok_row =
  b_encrypted_key :: bytes
  b_encrypted_dek :: bytes
  b_nonce :: bytes
  b_status :: key_status
  b_enabled :: bool
  b_provider :: "string option"
  b_updated :: time

record session_row =
  cs_id :: uuid
  cs_user :: uuid
  cs_project :: "string option"
  cs_mode :: mode
  cs_model :: "string option"
  cs_title :: "string option"
  cs_assistant_mode :: assistant_mode
  cs_dialog_mode :: dialog_mode
  cs_workspace :: "uuid option"
  cs_pinned :: bool
  cs_created :: time
  cs_updated :: time

record step_row =
  st_id :: uuid
  st_seq :: int
  st_session :: uuid
  st_message_step :: uuid
  st_role :: role
  st_payload :: json
  st_usage :: "json option"
  st_created :: time

record tool_call_row =
  tc_id :: uuid
  tc_session :: uuid
  tc_message_step :: uuid
  tc_tool_name :: string
  tc_provider_id :: string
  tc_args :: json
  tc_status :: tc_status
  tc_result :: "json option"
  tc_created :: time
  tc_completed :: "time option"

record audit_row =
  a_user :: uuid
  a_session :: "uuid option"
  a_event :: string
  a_payload :: json
  a_created :: time

record adapty_row =
  ae_event_id :: string
  ae_user :: uuid
  ae_event_type :: string
  ae_payload :: json

record cp_row =
  ce_transaction_id :: string
  ce_user :: uuid
  ce_product :: string
  ce_kind :: string
  ce_payload :: json

record identity_row =
  ai_user :: uuid
  ai_provider :: string
  ai_subject :: string
  ai_email :: "string option"

record device_row =
  ad_device :: string
  ad_user :: uuid

record refresh_row =
  rt_id :: uuid
  rt_user :: uuid
  rt_device :: string
  rt_hash :: string
  rt_expires :: time
  rt_used :: "time option"
  rt_revoked :: "time option"

record project_row =
  pr_id :: uuid
  pr_user :: uuid
  pr_external :: string
  pr_created :: time
  pr_updated :: time

record site_file_row =
  sf_project :: uuid
  sf_path :: string
  sf_content :: bytes
  sf_content_type :: string
  sf_size :: int
  sf_updated :: time

record image_row =
  gi_id :: uuid
  gi_user :: uuid
  gi_session :: "uuid option"
  gi_message_step :: "uuid option"
  gi_tool_call :: "uuid option"
  gi_content :: bytes
  gi_content_type :: string
  gi_size :: int
  gi_prompt :: "string option"
  gi_created :: time
  gi_expires :: "time option"

record workspace_row =
  ws_id :: uuid
  ws_user :: uuid
  ws_name :: string
  ws_description :: "string option"
  ws_instructions :: "string option"
  ws_created :: time
  ws_updated :: time

record workspace_file_row =
  wf_id :: uuid
  wf_workspace :: uuid
  wf_filename :: string
  wf_content :: bytes
  wf_media_type :: string
  wf_size :: int
  wf_text :: "string option"
  wf_created :: time

record prefs_row =
  up_assistant :: assistant_mode
  up_dialog :: dialog_mode
  up_notifications :: bool
  up_code_defaults :: json
  up_updated :: time

record db =
  db_now :: time
  db_rid :: "string option"
  db_gen :: "nat \<Rightarrow> uuid"
  db_next :: nat
  users :: "uuid \<Rightarrow> user_row option"
  subscriptions :: "uuid \<Rightarrow> sub_row option"
  wallets :: "uuid \<Rightarrow> int option"
  ledger :: "ledger_row list"
  byok_keys :: "uuid \<Rightarrow> byok_row option"
  sessions :: "session_row list"
  steps :: "step_row list"
  next_seq :: int
  tool_calls :: "tool_call_row list"
  audit_logs :: "audit_row list"
  projects :: "project_row list"
  site_files :: "site_file_row list"
  preferences :: "uuid \<Rightarrow> prefs_row option"
  adapty_events :: "adapty_row list"
  cp_events :: "cp_row list"
  identities :: "identity_row list"
  devices :: "device_row list"
  refresh_tokens :: "refresh_row list"
  generated_images :: "image_row list"
  workspaces :: "workspace_row list"
  workspace_files :: "workspace_file_row list"

type_synonym 'a db_act = "(app_error, db, 'a) act"

definition empty_db :: "(nat \<Rightarrow> uuid) \<Rightarrow> time \<Rightarrow> db" where
  "empty_db gen now = \<lparr>db_now = now, db_rid = None, db_gen = gen, db_next = 0,
     users = (\<lambda>_. None), subscriptions = (\<lambda>_. None), wallets = (\<lambda>_. None), ledger = [],
     byok_keys = (\<lambda>_. None), sessions = [], steps = [], next_seq = 1, tool_calls = [],
     audit_logs = [], projects = [], site_files = [], preferences = (\<lambda>_. None),
     adapty_events = [], cp_events = [], identities = [], devices = [], refresh_tokens = [],
     generated_images = [], workspaces = [], workspace_files = []\<rparr>"

section \<open>Statements shared by the services\<close>

text \<open>\<^verbatim>\<open>gen_random_uuid()\<close>.\<close>

definition fresh_uuid :: "uuid db_act" where
  "fresh_uuid = (\<lambda>db. (Inr (db_gen db (db_next db)), db\<lparr>db_next := Suc (db_next db)\<rparr>))"

text \<open>\<^verbatim>\<open>BIGINT\<close>: a value outside the 64-bit range is rejected by the driver or by the server.\<close>

definition bigint_ok :: "int \<Rightarrow> bool" where
  "bigint_ok i = (- (2 ^ 63) \<le> i \<and> i < 2 ^ 63)"

text \<open>What PostgreSQL accepts as \<^verbatim>\<open>JSONB\<close> of the text \<^verbatim>\<open>json.dumps\<close> writes: no \<^verbatim>\<open>NaN\<close> and no infinity,
  which Python's reader and writer both allow, and no NUL character in a string.\<close>

fun jsonb_ok :: "json \<Rightarrow> bool"
  and jsonb_ok_list :: "json list \<Rightarrow> bool"
  and jsonb_ok_dict :: "dict \<Rightarrow> bool"
where
  "jsonb_ok JNull = True"
| "jsonb_ok (JBool b) = True"
| "jsonb_ok (JInt i) = True"
| "jsonb_ok (JFloat f) = (case f of FFin n d \<Rightarrow> True | _ \<Rightarrow> False)"
| "jsonb_ok (JStr s) = (CHR 0x00 \<notin> set s)"
| "jsonb_ok (JArr vs) = jsonb_ok_list vs"
| "jsonb_ok (JObj kvs) = jsonb_ok_dict kvs"
| "jsonb_ok_list [] = True"
| "jsonb_ok_list (v # vs) = (jsonb_ok v \<and> jsonb_ok_list vs)"
| "jsonb_ok_dict [] = True"
| "jsonb_ok_dict ((k, v) # kvs) = (CHR 0x00 \<notin> set k \<and> jsonb_ok v \<and> jsonb_ok_dict kvs)"

text \<open>\<^verbatim>\<open>TEXT\<close> columns hold no NUL.\<close>

definition text_ok :: "string option \<Rightarrow> bool" where
  "text_ok s = (case s of None \<Rightarrow> True | Some t \<Rightarrow> CHR 0x00 \<notin> set t)"

definition find_session :: "db \<Rightarrow> uuid \<Rightarrow> session_row option" where
  "find_session db sid = find (\<lambda>s. cs_id s = sid) (sessions db)"

text \<open>\<^verbatim>\<open>INSERT INTO users (id) VALUES (:sub) ON CONFLICT (id) DO NOTHING\<close> (\<^verbatim>\<open>provision_user\<close>).\<close>

definition provision_user :: "uuid \<Rightarrow> unit db_act" where
  "provision_user uid = upd_st (\<lambda>db. case users db uid of
     Some _ \<Rightarrow> db
   | None \<Rightarrow> db\<lparr>users := (users db)(uid \<mapsto>
       \<lparr>u_created = db_now db, u_trial_used = False, u_display_name = None\<rparr>)\<rparr>)"

text \<open>\<^verbatim>\<open>session_scope\<close>: the request runs in one transaction.\<close>

definition session_scope :: "'a db_act \<Rightarrow> 'a db_act" where
  "session_scope m = transaction m"

lemma fresh_uuid_app [store_simps]:
  "fresh_uuid db = (Inr (db_gen db (db_next db)), db\<lparr>db_next := Suc (db_next db)\<rparr>)"
  by (simp add: fresh_uuid_def)

text \<open>Provisioning never touches an existing row, so it may run on every request.\<close>

lemma provision_user_keeps:
  "users db u = Some r \<Longrightarrow> users (snd (provision_user v db)) u = Some r"
  by (auto simp: provision_user_def split: option.splits)

lemma provision_user_provides:
  "users (snd (provision_user u db)) u \<noteq> None"
  by (auto simp: provision_user_def split: option.splits)

lemma provision_user_again:
  "provision_user u (snd (provision_user u db)) = provision_user u db"
  by (auto simp: provision_user_def split: option.splits)

end
