(* ===== verification/Redaction.thy ===== *)
theory Redaction
  imports Store
begin

text \<open>
  Redaction of log and audit payloads (\<^verbatim>\<open>app/observability/redaction.py\<close>) and the append-only
  audit log (\<^verbatim>\<open>app/audit/service.py\<close>), which stores redacted payloads only.
\<close>

section \<open>Redaction\<close>

definition redacted :: string where
  "redacted = ''***REDACTED***''"

definition deny_substrings :: "string list" where
  "deny_substrings = [''key'', ''token'', ''secret'', ''password'', ''authorization'', ''credential'']"

definition deny_exact :: "string list" where
  "deny_exact = [''apikey'', ''transaction'', ''jws'', ''receipt'', ''dek'', ''nonce'',
     ''encrypted_key'', ''x-admin-token'', ''x_admin_token'']"

definition is_sensitive_key :: "string \<Rightarrow> bool" where
  "is_sensitive_key k = (let l = py_lower k in
     if ends_with ''status'' l then False
     else if l \<in> set deny_exact then True
     else list_ex (\<lambda>sub. contains_sub sub l) deny_substrings)"

fun redact :: "json \<Rightarrow> json"
  and redact_list :: "json list \<Rightarrow> json list"
  and redact_dict :: "(string \<times> json) list \<Rightarrow> (string \<times> json) list"
  and redact_items :: "json list \<Rightarrow> json list"
  and redact_item :: "(string \<times> json) list \<Rightarrow> (string \<times> json) list"
where
  "redact (JObj kvs) = JObj (redact_dict kvs)"
| "redact (JArr xs) = JArr (redact_list xs)"
| "redact JNull = JNull"
| "redact (JBool b) = JBool b"
| "redact (JInt i) = JInt i"
| "redact (JFloat f) = JFloat f"
| "redact (JStr s) = JStr s"
| "redact_list [] = []"
| "redact_list (v # vs) = redact v # redact_list vs"
| "redact_dict [] = []"
| "redact_dict ((k, v) # kvs) =
     (k, if is_sensitive_key k then JStr redacted
         else if py_lower k = ''attachments''
           then (case v of JArr xs \<Rightarrow> JArr (redact_items xs) | _ \<Rightarrow> redact v)
         else redact v) # redact_dict kvs"
| "redact_items [] = []"
| "redact_items (v # vs) =
     (case v of JObj kvs \<Rightarrow> JObj (redact_item kvs) | _ \<Rightarrow> redact v) # redact_items vs"
| "redact_item [] = []"
| "redact_item ((k, v) # kvs) =
     (k, if k = ''data'' then JStr redacted else redact v) # redact_item kvs"

definition assert_no_secrets :: "json \<Rightarrow> json" where
  "assert_no_secrets payload = redact payload"

section \<open>What redaction guarantees\<close>

text \<open>No dictionary holds a sensitive key with anything but the marker, except that the items of an
  attachment list are only required to hide their \<^verbatim>\<open>data\<close>.\<close>

fun no_secrets :: "json \<Rightarrow> bool"
  and no_secrets_list :: "json list \<Rightarrow> bool"
  and no_secrets_dict :: "(string \<times> json) list \<Rightarrow> bool"
  and no_data_items :: "json list \<Rightarrow> bool"
  and no_data_item :: "(string \<times> json) list \<Rightarrow> bool"
where
  "no_secrets (JObj kvs) = no_secrets_dict kvs"
| "no_secrets (JArr xs) = no_secrets_list xs"
| "no_secrets JNull = True"
| "no_secrets (JBool b) = True"
| "no_secrets (JInt i) = True"
| "no_secrets (JFloat f) = True"
| "no_secrets (JStr s) = True"
| "no_secrets_list [] = True"
| "no_secrets_list (v # vs) = (no_secrets v \<and> no_secrets_list vs)"
| "no_secrets_dict [] = True"
| "no_secrets_dict ((k, v) # kvs) =
     ((if is_sensitive_key k then v = JStr redacted
       else if py_lower k = ''attachments''
         then (case v of JArr xs \<Rightarrow> no_data_items xs | _ \<Rightarrow> no_secrets v)
       else no_secrets v) \<and> no_secrets_dict kvs)"
| "no_data_items [] = True"
| "no_data_items (v # vs) =
     ((case v of JObj kvs \<Rightarrow> no_data_item kvs | _ \<Rightarrow> no_secrets v) \<and> no_data_items vs)"
| "no_data_item [] = True"
| "no_data_item ((k, v) # kvs) =
     ((if k = ''data'' then v = JStr redacted else no_secrets v) \<and> no_data_item kvs)"

lemma redact_no_secrets:
  "no_secrets (redact v)"
  "no_secrets_list (redact_list vs)"
  "no_secrets_dict (redact_dict kvs)"
  "no_data_items (redact_items vs)"
  "no_data_item (redact_item kvs)"
  by (induction v and vs and kvs and vs and kvs
      rule: redact_redact_list_redact_dict_redact_items_redact_item.induct)
    (auto split: json.splits)

text \<open>A value without secrets is left as it is, so redaction is idempotent.\<close>

lemma redact_clean:
  "no_secrets v \<Longrightarrow> redact v = v"
  "no_secrets_list vs \<Longrightarrow> redact_list vs = vs"
  "no_secrets_dict kvs \<Longrightarrow> redact_dict kvs = kvs"
  "no_data_items vs \<Longrightarrow> redact_items vs = vs"
  "no_data_item kvs \<Longrightarrow> redact_item kvs = kvs"
  by (induction v and vs and kvs and vs and kvs
      rule: redact_redact_list_redact_dict_redact_items_redact_item.induct)
    (auto split: json.splits if_splits)

lemma redact_dict_keys [simp]: "map fst (redact_dict kvs) = map fst kvs"
  by (induction kvs) auto

lemma redact_dict_get:
  "\<not> is_sensitive_key k \<Longrightarrow> py_lower k \<noteq> ''attachments'' \<Longrightarrow>
   map_of (redact_dict kvs) k = map_option redact (map_of kvs k)"
  by (induction kvs) auto

section \<open>Audit log\<close>

definition EVENT_BILLING_DEBIT :: string where "EVENT_BILLING_DEBIT = ''billing_debit''"
definition EVENT_BILLING_CREDIT :: string where "EVENT_BILLING_CREDIT = ''billing_credit''"
definition EVENT_POLICY_DECISION :: string where "EVENT_POLICY_DECISION = ''policy_decision''"
definition EVENT_TOOL_MUTATION :: string where "EVENT_TOOL_MUTATION = ''tool_mutation''"
definition EVENT_BYOK_CHANGE :: string where "EVENT_BYOK_CHANGE = ''byok_change''"
definition EVENT_SUBSCRIPTION_CHANGE :: string where
  "EVENT_SUBSCRIPTION_CHANGE = ''subscription_change''"
definition EVENT_ADAPTY_SUBSCRIPTION :: string where
  "EVENT_ADAPTY_SUBSCRIPTION = ''adapty_subscription''"
definition EVENT_CLOUDPAYMENTS_PAYMENT :: string where
  "EVENT_CLOUDPAYMENTS_PAYMENT = ''cloudpayments_payment''"
definition EVENT_CHAT_STEP :: string where "EVENT_CHAT_STEP = ''chat_step''"
definition EVENT_TOOL_CALL_INITIATED :: string where
  "EVENT_TOOL_CALL_INITIATED = ''tool_call_initiated''"
definition EVENT_TOOL_CALL_COMPLETED :: string where
  "EVENT_TOOL_CALL_COMPLETED = ''tool_call_completed''"
definition EVENT_ADMIN_GRANT :: string where "EVENT_ADMIN_GRANT = ''admin_grant''"
definition EVENT_ADMIN_SUBSCRIPTION_GRANT :: string where
  "EVENT_ADMIN_SUBSCRIPTION_GRANT = ''admin_subscription_grant''"

text \<open>\<^verbatim>\<open>record\<close> adds the request id to the payload, redacts it and inserts the row, whose payload
  must be acceptable as \<^verbatim>\<open>JSONB\<close> and whose two foreign keys are checked when it is flushed.\<close>

definition audit_payload :: "(string \<times> json) list \<Rightarrow> string option \<Rightarrow> json" where
  "audit_payload payload rid = assert_no_secrets (JObj (dict_put payload ''requestId'' (opt_str rid)))"

definition make_audit_row ::
  "uuid \<Rightarrow> uuid option \<Rightarrow> string \<Rightarrow> (string \<times> json) list \<Rightarrow> db \<Rightarrow> audit_row" where
  "make_audit_row uid sid event payload db = \<lparr>a_user = uid, a_session = sid, a_event = event,
     a_payload = audit_payload payload (db_rid db), a_created = db_now db\<rparr>"

definition audit_record ::
  "uuid \<Rightarrow> uuid option \<Rightarrow> string \<Rightarrow> (string \<times> json) list \<Rightarrow> unit db_act" where
  "audit_record uid sid event payload = (\<lambda>db.
     if \<not> jsonb_ok (audit_payload payload (db_rid db)) \<or> users db uid = None
        \<or> (case sid of None \<Rightarrow> False | Some i \<Rightarrow> find_session db i = None)
     then (Inl DbError, db)
     else (Inr (), db\<lparr>audit_logs := audit_logs db @ [make_audit_row uid sid event payload db]\<rparr>))"

text \<open>A storable payload stays storable, so the request id decides.\<close>

lemma redact_jsonb:
  "jsonb_ok v \<Longrightarrow> jsonb_ok (redact v)"
  "jsonb_ok_list vs \<Longrightarrow> jsonb_ok_list (redact_list vs)"
  "jsonb_ok_dict kvs \<Longrightarrow> jsonb_ok_dict (redact_dict kvs)"
  "jsonb_ok_list vs \<Longrightarrow> jsonb_ok_list (redact_items vs)"
  "jsonb_ok_dict kvs \<Longrightarrow> jsonb_ok_dict (redact_item kvs)"
  by (induction v and vs and kvs and vs and kvs
      rule: redact_redact_list_redact_dict_redact_items_redact_item.induct)
    (auto simp: redacted_def split: json.splits)

lemma jsonb_dict_iff: "jsonb_ok_dict kvs \<longleftrightarrow> (\<forall>(k, v) \<in> set kvs. CHR 0x00 \<notin> set k \<and> jsonb_ok v)"
  by (induction kvs) auto

lemma jsonb_dict_put: "jsonb_ok_dict kvs \<Longrightarrow> CHR 0x00 \<notin> set k \<Longrightarrow> jsonb_ok v \<Longrightarrow> jsonb_ok_dict (dict_put kvs k v)"
  by (auto simp: jsonb_dict_iff dict_put_def split: if_splits)

lemma jsonb_opt_str [simp]: "jsonb_ok (opt_str s) \<longleftrightarrow> text_ok s"
  by (cases s) (simp_all add: opt_str_def text_ok_def)

lemma text_ok_simps [simp]: "text_ok None" "text_ok (Some s) \<longleftrightarrow> CHR 0x00 \<notin> set s"
  by (simp_all add: text_ok_def)

lemma audit_payload_rid:
  "map_of (case audit_payload payload rid of JObj kvs \<Rightarrow> kvs | _ \<Rightarrow> []) ''requestId'' = Some (opt_str rid)"
proof -
  have "\<not> is_sensitive_key ''requestId''" "py_lower ''requestId'' \<noteq> ''attachments''" by code_simp+
  then show ?thesis
    by (cases rid) (simp_all add: audit_payload_def assert_no_secrets_def redact_dict_get opt_str_def)
qed

lemma audit_payload_ok:
  assumes "jsonb_ok_dict payload"
  shows "jsonb_ok (audit_payload payload rid) \<longleftrightarrow> text_ok rid"
proof
  assume "text_ok rid"
  then have "jsonb_ok (JObj (dict_put payload ''requestId'' (opt_str rid)))"
    using assms by (simp add: jsonb_dict_put)
  then show "jsonb_ok (audit_payload payload rid)"
    unfolding audit_payload_def assert_no_secrets_def by (rule redact_jsonb(1))
next
  assume "jsonb_ok (audit_payload payload rid)"
  moreover obtain kvs where "audit_payload payload rid = JObj kvs"
    by (simp add: audit_payload_def assert_no_secrets_def)
  ultimately show "text_ok rid"
    using audit_payload_rid[of payload rid] by (auto simp: jsonb_dict_iff dest!: map_of_SomeD)
qed

text \<open>A payload of plain values under keys that are not redacted is stored as it is.\<close>

definition plain_key :: "string \<Rightarrow> bool" where
  "plain_key k \<longleftrightarrow> \<not> is_sensitive_key k \<and> py_lower k \<noteq> ''attachments''"

lemma audit_payload_plain:
  assumes "list_all plain_key (map fst payload)" "\<forall>v \<in> snd ` set payload. redact v = v"
    and "''requestId'' \<notin> set (map fst payload)"
  shows "jsonb_ok (audit_payload payload rid) \<longleftrightarrow> jsonb_ok_dict payload \<and> text_ok rid"
proof -
  have "plain_key ''requestId''" by code_simp
  then have r: "redact_dict [(''requestId'', opt_str rid)] = [(''requestId'', opt_str rid)]"
    by (cases rid) (simp_all add: opt_str_def plain_key_def)
  have n: "map_of payload ''requestId'' = None" using assms(3) by (simp add: map_of_eq_None_iff)
  have a: "redact_dict (p @ q) = redact_dict p @ redact_dict q" for p q by (induction p) auto
  have "redact_dict payload = payload"
    using assms(1,2) by (induction payload) (auto simp: plain_key_def split: json.splits)
  then have "audit_payload payload rid = JObj (payload @ [(''requestId'', opt_str rid)])"
    using n r by (simp add: audit_payload_def assert_no_secrets_def dict_put_def a)
  then show ?thesis by (auto simp: jsonb_dict_iff)
qed

lemma redact_opt_str [simp]: "redact (opt_str s) = opt_str s"
  by (cases s) (simp_all add: opt_str_def)

lemma audit_row_clean: "no_secrets (a_payload (make_audit_row uid sid ev p db))"
  by (simp add: make_audit_row_def audit_payload_def assert_no_secrets_def redact_no_secrets(1) del: redact.simps)

lemma audit_record_Inr:
  "audit_record uid sid ev p db = (Inr x, db') \<Longrightarrow>
   users db uid \<noteq> None \<and> db' = db\<lparr>audit_logs := audit_logs db @ [make_audit_row uid sid ev p db]\<rparr>"
  by (simp add: audit_record_def split: if_splits)

lemma audit_record_Inl:
  "audit_record uid sid ev p db = (Inl e, db') \<Longrightarrow> e = DbError \<and> db' = db"
  by (simp add: audit_record_def split: if_splits)

text \<open>Everything except the audit log is left alone by recording an event.\<close>

lemma audit_record_frame:
  assumes "audit_record uid sid ev p db = (r, db')"
  shows "wallets db' = wallets db" "ledger db' = ledger db" "users db' = users db"
    "subscriptions db' = subscriptions db" "adapty_events db' = adapty_events db"
    "cp_events db' = cp_events db" "byok_keys db' = byok_keys db" "sessions db' = sessions db"
    "steps db' = steps db" "tool_calls db' = tool_calls db" "projects db' = projects db"
    "site_files db' = site_files db" "db_next db' = db_next db" "db_gen db' = db_gen db"
    "db_now db' = db_now db" "next_seq db' = next_seq db" "identities db' = identities db"
    "devices db' = devices db" "refresh_tokens db' = refresh_tokens db"
    "generated_images db' = generated_images db" "workspaces db' = workspaces db"
    "workspace_files db' = workspace_files db" "preferences db' = preferences db" "db_rid db' = db_rid db"
  using assms by (auto simp: audit_record_def split: if_splits)

lemma audit_record_append_only:
  "audit_record uid sid ev p db = (r, db') \<Longrightarrow> \<exists>rows. audit_logs db' = audit_logs db @ rows"
  by (auto simp: audit_record_def split: if_splits)

lemma audit_record_ok:
  "users db uid \<noteq> None \<Longrightarrow> jsonb_ok_dict p \<Longrightarrow> text_ok (db_rid db) \<Longrightarrow>
   audit_record uid None ev p db = (Inr (), db\<lparr>audit_logs := audit_logs db @ [make_audit_row uid None ev p db]\<rparr>)"
  by (simp add: audit_record_def audit_payload_ok)

lemma str_uuid_text [simp]: "CHR 0x00 \<notin> set (str_uuid u)"
  using str_uuid_chars[of u] by auto

end
