(* ===== verification/Policy.thy ===== *)
theory Policy
  imports Redaction
begin

text \<open>
  The access policy (\<^verbatim>\<open>app/policy/engine.py\<close>), a pure function of five facts about the user and
  the billing mode, and the service that loads those facts and answers \<^verbatim>\<open>/policy/effective\<close>
  (\<^verbatim>\<open>app/policy/loader.py\<close>). The loader's clock is an argument.
\<close>

section \<open>Engine\<close>

datatype byok_state =
    ByokMissing | ByokDisabled | ByokInvalid | ByokValid | ByokValidating | ByokOffline | ByokExpired

datatype block_reason =
    TrialUsed | SubscriptionRequired | SubscriptionExpired | CreditsEmpty | ByokDisabledReason
  | ByokInvalidReason | RateLimitedReason | PolicyDenied | MaxTokens | ImageCreditsEmpty

record policy_state =
  ps_subscription :: sub_status
  ps_trial_used :: bool
  ps_balance :: int
  ps_byok_enabled :: bool
  ps_byok_status :: byok_state

record decision =
  d_allow :: bool
  d_reason :: "block_reason option"

definition allowed :: decision where
  "allowed = \<lparr>d_allow = True, d_reason = None\<rparr>"

definition blocked :: "block_reason \<Rightarrow> decision" where
  "blocked r = \<lparr>d_allow = False, d_reason = Some r\<rparr>"

definition byok_effective_state :: "bool \<Rightarrow> byok_state \<Rightarrow> byok_state" where
  "byok_effective_state enabled status = (if \<not> enabled then ByokDisabled else status)"

definition evaluate :: "policy_state \<Rightarrow> mode \<Rightarrow> decision" where
  "evaluate state m =
    (if m = ModeByok then
       (if ps_subscription state \<noteq> SubActive then
          (if ps_subscription state = SubExpired then blocked SubscriptionExpired
           else blocked SubscriptionRequired)
        else
          (let effective = byok_effective_state (ps_byok_enabled state) (ps_byok_status state) in
           if effective = ByokDisabled then blocked ByokDisabledReason
           else if effective \<noteq> ByokValid then blocked ByokInvalidReason
           else allowed))
     else if ps_subscription state = SubActive then
       (if ps_balance state = 0 then blocked CreditsEmpty else allowed)
     else if ps_subscription state = SubExpired then blocked SubscriptionExpired
     else if ps_trial_used state then blocked TrialUsed
     else allowed)"

section \<open>Loader\<close>

record effective_policy =
  ep_is_subscribed :: bool
  ep_trial_remaining :: int
  ep_balance :: int
  ep_byok_enabled :: bool
  ep_can_credits :: bool
  ep_can_byok :: bool
  ep_reasons :: "block_reason list"

definition effective_subscription_status ::
  "time \<Rightarrow> sub_status option \<Rightarrow> time option \<Rightarrow> sub_status" where
  "effective_subscription_status now status expires =
    (case status of
       None \<Rightarrow> SubNone
     | Some SubNone \<Rightarrow> SubNone
     | Some SubExpired \<Rightarrow> SubExpired
     | Some SubActive \<Rightarrow>
         (case expires of
            Some e \<Rightarrow> if e \<le> now then SubExpired else SubActive
          | None \<Rightarrow> SubActive))"

text \<open>\<^verbatim>\<open>ByokState(byok.key_status)\<close>: the column's values name states of the enum.\<close>

fun byok_of_status :: "key_status \<Rightarrow> byok_state" where
  "byok_of_status KsValid = ByokValid"
| "byok_of_status KsInvalid = ByokInvalid"
| "byok_of_status KsMissing = ByokMissing"
| "byok_of_status KsValidating = ByokValidating"
| "byok_of_status KsOffline = ByokOffline"
| "byok_of_status KsExpired = ByokExpired"

definition load_policy_state :: "time \<Rightarrow> uuid \<Rightarrow> db \<Rightarrow> policy_state" where
  "load_policy_state now uid db =
    (let trial = (case users db uid of Some u \<Rightarrow> u_trial_used u | None \<Rightarrow> False);
         sub = subscriptions db uid;
         status = effective_subscription_status now (map_option s_status sub)
           (case sub of Some s \<Rightarrow> s_expires s | None \<Rightarrow> None);
         balance = (case wallets db uid of Some b \<Rightarrow> b | None \<Rightarrow> 0);
         (enabled, byok) = (case byok_keys db uid of
             None \<Rightarrow> (False, ByokMissing)
           | Some b \<Rightarrow> (b_enabled b, byok_of_status (b_status b)))
     in \<lparr>ps_subscription = status, ps_trial_used = trial, ps_balance = balance,
         ps_byok_enabled = enabled, ps_byok_status = byok\<rparr>)"

definition effective :: "time \<Rightarrow> uuid \<Rightarrow> db \<Rightarrow> effective_policy" where
  "effective now uid db =
    (let state = load_policy_state now uid db;
         credits_decision = evaluate state ModeCredits;
         byok_decision = evaluate state ModeByok;
         reasons0 = (if \<not> d_allow credits_decision then
             (case d_reason credits_decision of Some r \<Rightarrow> [r] | None \<Rightarrow> []) else []);
         reasons = (if \<not> d_allow byok_decision then
             (case d_reason byok_decision of
                Some r \<Rightarrow> if r \<notin> set reasons0 then reasons0 @ [r] else reasons0
              | None \<Rightarrow> reasons0) else reasons0);
         subscribed = (ps_subscription state = SubActive);
         trial_remaining =
           (if ps_subscription state = SubNone \<and> \<not> ps_trial_used state then 1 else 0)
     in \<lparr>ep_is_subscribed = subscribed, ep_trial_remaining = trial_remaining,
         ep_balance = ps_balance state,
         ep_byok_enabled = (ps_byok_enabled state \<and> ps_byok_status state = ByokValid),
         ep_can_credits = d_allow credits_decision, ep_can_byok = d_allow byok_decision,
         ep_reasons = reasons\<rparr>)"

section \<open>Properties\<close>

lemmas evaluate_defs = evaluate_def byok_effective_state_def allowed_def blocked_def Let_def

lemma allowed_sel [simp]: "d_allow allowed" "d_reason allowed = None"
  by (simp_all add: allowed_def)

lemma blocked_sel [simp]: "\<not> d_allow (blocked r)" "d_reason (blocked r) = Some r"
  by (simp_all add: blocked_def)

lemma evaluate_credits_allow:
  "d_allow (evaluate s ModeCredits) \<longleftrightarrow>
     ps_subscription s = SubActive \<and> ps_balance s \<noteq> 0 \<or>
     ps_subscription s = SubNone \<and> \<not> ps_trial_used s"
  by (cases "ps_subscription s") (auto simp: evaluate_def)

lemma evaluate_byok_allow:
  "d_allow (evaluate s ModeByok) \<longleftrightarrow>
     ps_subscription s = SubActive \<and> ps_byok_enabled s \<and> ps_byok_status s = ByokValid"
  by (cases "ps_subscription s") (auto simp: evaluate_def byok_effective_state_def Let_def)

text \<open>The reasons the engine can give are the first six of the enumeration; the others belong to the
  gateway and the orchestrator.\<close>

definition policy_reasons :: "mode \<Rightarrow> block_reason set" where
  "policy_reasons m = (if m = ModeByok
     then {SubscriptionRequired, SubscriptionExpired, ByokDisabledReason, ByokInvalidReason}
     else {TrialUsed, SubscriptionExpired, CreditsEmpty})"

lemma evaluate_decided:
  "(evaluate s m = allowed) \<or> (\<exists>r \<in> policy_reasons m. evaluate s m = blocked r)"
  by (auto simp: evaluate_def policy_reasons_def Let_def)

lemma evaluate_reason_iff:
  "d_reason (evaluate s m) = None \<longleftrightarrow> d_allow (evaluate s m)"
  using evaluate_decided[of s m] by auto

text \<open>Lazy expiry reads only the stored status and the expiry date.\<close>

lemma effective_status_active_iff:
  "effective_subscription_status now st e = SubActive \<longleftrightarrow>
     st = Some SubActive \<and> (\<forall>t. e = Some t \<longrightarrow> now < t)"
  by (auto simp: effective_subscription_status_def split: option.splits sub_status.splits)

lemma effective_status_mono:
  "effective_subscription_status now st e = SubExpired \<Longrightarrow> now \<le> now' \<Longrightarrow>
   effective_subscription_status now' st e = SubExpired"
  by (auto simp: effective_subscription_status_def split: option.splits sub_status.splits if_splits)

text \<open>The policy depends only on the four rows of the user it is asked about.\<close>

lemma load_policy_state_cong:
  assumes "users db uid = users db' uid" "subscriptions db uid = subscriptions db' uid"
    "wallets db uid = wallets db' uid" "byok_keys db uid = byok_keys db' uid"
  shows "load_policy_state now uid db = load_policy_state now uid db'"
  using assms by (simp add: load_policy_state_def)

lemma load_policy_state_balance [simp]:
  "ps_balance (load_policy_state now uid db) = (case wallets db uid of Some b \<Rightarrow> b | None \<Rightarrow> 0)"
  by (simp add: load_policy_state_def Let_def split: prod.splits)

text \<open>
  the answer of \<^verbatim>\<open>/policy/effective\<close> is exactly what \<^verbatim>\<open>/chat/run\<close> will decide: each of the two
  generation flags is the engine's decision on the loaded state, the listed reasons are without
  repetition and are exactly the reasons of the modes that are blocked, and no reason is listed
  exactly when both modes are open.
\<close>

lemma effective_agrees_with_engine:
  "ep_can_credits (effective now uid db)
       = d_allow (evaluate (load_policy_state now uid db) ModeCredits)
   \<and> ep_can_byok (effective now uid db)
       = d_allow (evaluate (load_policy_state now uid db) ModeByok)
   \<and> distinct (ep_reasons (effective now uid db))
   \<and> set (ep_reasons (effective now uid db))
       = {r. \<exists>m. d_reason (evaluate (load_policy_state now uid db) m) = Some r}
   \<and> (ep_reasons (effective now uid db) = []
       \<longleftrightarrow> ep_can_credits (effective now uid db) \<and> ep_can_byok (effective now uid db))"
proof -
  let ?s = "load_policy_state now uid db"
  obtain rc where c: "evaluate ?s ModeCredits = allowed \<or> evaluate ?s ModeCredits = blocked rc"
    using evaluate_decided[of ?s ModeCredits] by metis
  obtain rb where b: "evaluate ?s ModeByok = allowed \<or> evaluate ?s ModeByok = blocked rb"
    using evaluate_decided[of ?s ModeByok] by metis
  show ?thesis
    unfolding ex_mode using c b by (elim disjE) (simp_all add: effective_def Let_def, auto)
qed

text \<open>
  the engine opens each mode exactly in the states the product allows. Credits mode is open for
  a subscriber with a non-zero balance and for a user without a subscription who has not used the
  trial; BYOK mode is open only for a subscriber with an enabled key that is valid. A decision has
  a reason exactly when it blocks, and the reason is one of those of the mode, never one of the
  gateway's or the orchestrator's.
\<close>

lemma engine_characterised:
  "(d_allow (evaluate s ModeCredits) \<longleftrightarrow>
      ps_subscription s = SubActive \<and> ps_balance s \<noteq> 0 \<or>
      ps_subscription s = SubNone \<and> \<not> ps_trial_used s)
   \<and> (d_allow (evaluate s ModeByok) \<longleftrightarrow>
      ps_subscription s = SubActive \<and> ps_byok_enabled s \<and> ps_byok_status s = ByokValid)
   \<and> (d_reason (evaluate s m) = None \<longleftrightarrow> d_allow (evaluate s m))
   \<and> set_option (d_reason (evaluate s m)) \<subseteq> policy_reasons m"
  using evaluate_decided[of s m]
  by (auto simp: evaluate_credits_allow evaluate_byok_allow evaluate_reason_iff)

end
