(* ===== verification/LedgerSpec.thy ===== *)
theory LedgerSpec
  imports Prelude
begin

text \<open>
  The contract every payment path relies on: a ledger whose entries are addressed by a user and an
  idempotency key. Posting an entry under a free key records it and moves the balance by the
  entry's amount, posting the same entry again changes nothing, posting a different entry under a
  used key fails, and a failed posting leaves no trace. The lemmas are proved for any such ledger;
  the wallet of the program is one (theory \<^verbatim>\<open>Wallet\<close>).
\<close>

locale idem_ledger =
  fixes ok :: "'s \<Rightarrow> bool"
    and entry :: "'s \<Rightarrow> 'u \<Rightarrow> 'k \<Rightarrow> 'e option"
    and bal :: "'s \<Rightarrow> 'u \<Rightarrow> int"
    and delta :: "'e \<Rightarrow> int"
    and ready :: "'x \<Rightarrow> 'u \<Rightarrow> 's \<Rightarrow> bool"
    and post :: "'x \<Rightarrow> 'u \<Rightarrow> 'k \<Rightarrow> 'e \<Rightarrow> 's \<Rightarrow> ('err + bool) \<times> 's"
  assumes post_ok: "ok s \<Longrightarrow> post x u k e s = (r, s') \<Longrightarrow> ok s'"
    and post_fails: "post x u k e s = (Inl err, s') \<Longrightarrow> s' = s"
    and post_fresh: "ok s \<Longrightarrow> post x u k e s = (Inr False, s') \<Longrightarrow>
        entry s u k = None \<and> entry s' u k = Some e \<and> bal s' u = bal s u + delta e
        \<and> (\<forall>v l. (v, l) \<noteq> (u, k) \<longrightarrow> entry s' v l = entry s v l)
        \<and> (\<forall>v. v \<noteq> u \<longrightarrow> bal s' v = bal s v)"
    and post_replay: "ok s \<Longrightarrow> post x u k e s = (Inr True, s') \<Longrightarrow>
        entry s u k = Some e \<and> entry s' = entry s \<and> bal s' = bal s"
    and post_known: "ok s \<Longrightarrow> ready x u s \<Longrightarrow> entry s u k = Some e \<Longrightarrow>
        \<exists>s'. post x u k e s = (Inr True, s')"
begin

text \<open>One request after the other, whatever each of them answers.\<close>

fun run :: "('x \<times> 'u \<times> 'k \<times> 'e) list \<Rightarrow> 's \<Rightarrow> 's" where
  "run [] s = s"
| "run ((x, u, k, e) # ops) s = run ops (snd (post x u k e s))"

text \<open>The entries a sequence of requests really adds.\<close>

fun accepted :: "('x \<times> 'u \<times> 'k \<times> 'e) list \<Rightarrow> 's \<Rightarrow> ('u \<times> 'k \<times> 'e) list" where
  "accepted [] s = []"
| "accepted ((x, u, k, e) # ops) s =
     (if fst (post x u k e s) = Inr False then [(u, k, e)] else [])
       @ accepted ops (snd (post x u k e s))"

lemma post_cases:
  assumes "ok s" "post x u k e s = (r, s')"
  obtains (failed) err where "r = Inl err" "s' = s"
  | (fresh) "r = Inr False" "entry s u k = None" "entry s' u k = Some e"
      "bal s' u = bal s u + delta e"
      "\<And>v l. (v, l) \<noteq> (u, k) \<Longrightarrow> entry s' v l = entry s v l"
      "\<And>v. v \<noteq> u \<Longrightarrow> bal s' v = bal s v"
  | (replay) "r = Inr True" "entry s u k = Some e" "entry s' = entry s" "bal s' = bal s"
proof (cases r)
  case (Inl err)
  then show ?thesis using assms failed post_fails by blast
next
  case (Inr b)
  show ?thesis
  proof (cases b)
    case True
    with Inr assms post_replay[of s x u k e s'] show ?thesis by (intro replay) simp_all
  next
    case False
    with Inr assms post_fresh[of s x u k e s'] show ?thesis by (intro fresh) simp_all
  qed
qed

lemma post_keeps_entry:
  assumes "ok s" "entry s v l = Some e'"
  shows "entry (snd (post x u k e s)) v l = Some e'"
proof -
  obtain r s' where p: "post x u k e s = (r, s')" by fastforce
  from assms(1) p show ?thesis
  proof (cases rule: post_cases)
    case fresh
    then show ?thesis using p assms(2) by (cases "(v, l) = (u, k)") auto
  qed (use p assms(2) in auto)
qed

lemma run_ok: "ok s \<Longrightarrow> ok (run ops s)"
  by (induction ops s rule: run.induct) (auto, metis post_ok prod.collapse)

lemma post_snd_ok: "ok s \<Longrightarrow> ok (snd (post x u k e s))"
  by (metis post_ok prod.collapse)

lemma run_keeps_entry: "ok s \<Longrightarrow> entry s v l = Some e' \<Longrightarrow> entry (run ops s) v l = Some e'"
  by (induction ops s rule: run.induct) (auto simp: post_keeps_entry post_snd_ok)

text \<open>A request that was accepted once, in whatever history, is only ever replayed afterwards:
  the same request answers with the replay flag and moves no balance.\<close>

lemma accepted_once:
  assumes "ok s" "post x u k e s = (Inr b, s')" "ready y u (run ops s')"
  shows "\<exists>s''. post y u k e (run ops s') = (Inr True, s'') \<and> bal s'' = bal (run ops s')
     \<and> entry s'' = entry (run ops s')"
proof -
  have ok': "ok s'" using assms(1,2) post_ok by blast
  have "entry s' u k = Some e"
    using assms(1,2) by (cases rule: post_cases) auto
  then have "entry (run ops s') u k = Some e" by (rule run_keeps_entry[OF ok'])
  then obtain s'' where p: "post y u k e (run ops s') = (Inr True, s'')"
    using post_known run_ok ok' assms(3) by blast
  with run_ok[OF ok'] show ?thesis using post_replay by blast
qed

text \<open>The key of an accepted request can not be used for another entry.\<close>

lemma accepted_exclusive:
  assumes "ok s" "entry s u k = Some e" "e' \<noteq> e"
  shows "\<exists>err. post x u k e' s = (Inl err, s)"
proof -
  obtain r s' where p: "post x u k e' s = (r, s')" by fastforce
  from assms(1) p show ?thesis
    by (cases rule: post_cases) (use p assms in auto)
qed

lemma accepted_new:
  "ok s \<Longrightarrow> (u, k, e) \<in> set (accepted ops s) \<Longrightarrow> entry s u k = None"
proof (induction ops s rule: accepted.induct)
  case (2 x v l f ops s)
  obtain r s' where p: "post x v l f s = (r, s')" by fastforce
  show ?case
  proof (cases "(u, k, e) \<in> set (accepted ops s')")
    case True
    then have "entry s' u k = None" using 2 p post_snd_ok[OF 2(2), of x v l f] by simp
    then show ?thesis
      using post_keeps_entry[OF 2(2), of u k _ x v l f] p by (cases "entry s u k") auto
  next
    case False
    with 2(3) p have "r = Inr False" "(u, k, e) = (v, l, f)" by (auto split: if_splits)
    with post_fresh[OF 2(2), of x v l f s'] p show ?thesis by simp
  qed
qed simp

text \<open>No key is counted twice, and the balances are moved by the accepted entries alone.\<close>

lemma accepted_distinct:
  "ok s \<Longrightarrow> distinct (map (\<lambda>(u, k, e). (u, k)) (accepted ops s))"
proof (induction ops s rule: accepted.induct)
  case (2 x v l f ops s)
  obtain r s' where p: "post x v l f s = (r, s')" by fastforce
  have ok': "ok s'" using post_snd_ok[OF 2(2), of x v l f] p by simp
  show ?case
  proof (cases "r = Inr False")
    case True
    then have "entry s' v l = Some f" using post_fresh[OF 2(2)] p by blast
    then have "(v, l) \<notin> (\<lambda>(u, k, e). (u, k)) ` set (accepted ops s')"
      using accepted_new[OF ok'] by force
    with True p 2(1) ok' show ?thesis by simp
  next
    case False
    with p 2(1) ok' show ?thesis by simp
  qed
qed simp

lemma run_balance:
  "ok s \<Longrightarrow> bal (run ops s) u
     = bal s u + sum_list (map (\<lambda>(v, k, e). if v = u then delta e else 0) (accepted ops s))"
proof (induction ops s rule: accepted.induct)
  case (2 x v l f ops s)
  obtain r s' where p: "post x v l f s = (r, s')" by fastforce
  have ok': "ok s'" using post_snd_ok[OF 2(2), of x v l f] p by simp
  from 2(2) p show ?case
    by (cases rule: post_cases) (use p 2(1) ok' in \<open>auto\<close>)
qed simp

end

section \<open>Handlers that credit at most once\<close>

text \<open>The contract of the purchase paths, seen from outside: an incoming event names an account and
  a key of the ledger; handling it may move the balance of that account only, and only when its
  key was free before and is used afterwards. Entries never disappear.\<close>

locale once_crediting =
  fixes ok :: "'s \<Rightarrow> bool"
    and entry :: "'s \<Rightarrow> 'u \<Rightarrow> 'k \<Rightarrow> 'e option"
    and bal :: "'s \<Rightarrow> 'u \<Rightarrow> int"
    and account :: "'ev \<Rightarrow> 'u"
    and keyof :: "'ev \<Rightarrow> 'k"
    and handle :: "'ev \<Rightarrow> 's \<Rightarrow> 's"
  assumes handle_ok: "ok s \<Longrightarrow> ok (handle ev s)"
    and handle_keeps: "ok s \<Longrightarrow> entry s u k = Some e \<Longrightarrow> entry (handle ev s) u k = Some e"
    and handle_other: "ok s \<Longrightarrow> u \<noteq> account ev \<Longrightarrow> bal (handle ev s) u = bal s u"
    and handle_moves: "ok s \<Longrightarrow> bal (handle ev s) (account ev) \<noteq> bal s (account ev) \<Longrightarrow>
        entry s (account ev) (keyof ev) = None \<and> entry (handle ev s) (account ev) (keyof ev) \<noteq> None"
begin

fun handle_all :: "'ev list \<Rightarrow> 's \<Rightarrow> 's" where
  "handle_all [] s = s"
| "handle_all (ev # evs) s = handle_all evs (handle ev s)"

text \<open>The events of a history that moved the balance.\<close>

fun credited :: "'ev list \<Rightarrow> 's \<Rightarrow> 'ev list" where
  "credited [] s = []"
| "credited (ev # evs) s =
     (if bal (handle ev s) (account ev) \<noteq> bal s (account ev) then [ev] else [])
       @ credited evs (handle ev s)"

lemma handle_all_ok: "ok s \<Longrightarrow> ok (handle_all evs s)"
  by (induction evs s rule: handle_all.induct) (auto simp: handle_ok)

lemma handle_all_keeps:
  "ok s \<Longrightarrow> entry s u k = Some e \<Longrightarrow> entry (handle_all evs s) u k = Some e"
  by (induction evs s rule: handle_all.induct) (auto simp: handle_ok handle_keeps)

lemma credited_free:
  "ok s \<Longrightarrow> ev \<in> set (credited evs s) \<Longrightarrow> entry s (account ev) (keyof ev) = None"
proof (induction evs s rule: credited.induct)
  case (2 ev' evs s)
  show ?case
  proof (cases "ev \<in> set (credited evs (handle ev' s))")
    case True
    then have "entry (handle ev' s) (account ev) (keyof ev) = None"
      using 2 handle_ok by blast
    then show ?thesis using handle_keeps[OF 2(2)] by (metis option.exhaust option.distinct(1))
  next
    case False
    with 2(3) have "ev = ev'" "bal (handle ev' s) (account ev') \<noteq> bal s (account ev')"
      by (auto split: if_splits)
    with handle_moves[OF 2(2)] show ?thesis by simp
  qed
qed simp

text \<open>Among the events that moved a balance no two have the same account and key.\<close>

lemma credited_once:
  "ok s \<Longrightarrow> distinct (map (\<lambda>ev. (account ev, keyof ev)) (credited evs s))"
proof (induction evs s rule: credited.induct)
  case (2 ev evs s)
  have IH: "distinct (map (\<lambda>ev. (account ev, keyof ev)) (credited evs (handle ev s)))"
    using 2 handle_ok by blast
  show ?case
  proof (cases "bal (handle ev s) (account ev) \<noteq> bal s (account ev)")
    case True
    then have "entry (handle ev s) (account ev) (keyof ev) \<noteq> None"
      using handle_moves[OF 2(2)] by blast
    then have "(account ev, keyof ev) \<notin> (\<lambda>ev. (account ev, keyof ev)) ` set (credited evs (handle ev s))"
      using credited_free[OF handle_ok[OF 2(2)]] by fastforce
    with True IH show ?thesis by simp
  qed (use IH in simp)
qed simp

text \<open>An account none of the credited events names keeps its balance.\<close>

lemma handle_all_balance:
  "ok s \<Longrightarrow> u \<notin> account ` set (credited evs s) \<Longrightarrow> bal (handle_all evs s) u = bal s u"
proof (induction evs s rule: credited.induct)
  case (2 ev evs s)
  then have "bal (handle_all evs (handle ev s)) u = bal (handle ev s) u"
    by (auto simp: handle_ok split: if_splits)
  moreover have "bal (handle ev s) u = bal s u"
    using 2(2,3) handle_other[OF 2(2)] by (cases "u = account ev") (auto split: if_splits)
  ultimately show ?case by simp
qed simp

text \<open>Once an event was credited, handling it again at any later time moves no balance.\<close>

lemma credited_final:
  assumes "ok s" "bal (handle ev s) (account ev) \<noteq> bal s (account ev)"
    and "account ev' = account ev" "keyof ev' = keyof ev"
  shows "bal (handle ev' (handle_all evs (handle ev s))) u = bal (handle_all evs (handle ev s)) u"
proof (cases "u = account ev'")
  case True
  let ?t = "handle_all evs (handle ev s)"
  have ok: "ok ?t" using assms(1) by (simp add: handle_all_ok handle_ok)
  have "entry (handle ev s) (account ev) (keyof ev) \<noteq> None"
    using handle_moves[OF assms(1,2)] by blast
  then have "entry ?t (account ev') (keyof ev') \<noteq> None"
    using handle_all_keeps[OF handle_ok[OF assms(1)]] assms(3,4) by fastforce
  with handle_moves[OF ok, of ev'] True show ?thesis by auto
next
  case False
  with handle_other handle_all_ok handle_ok assms(1) show ?thesis by blast
qed

end

end
