(* ===== verification/Wallet.thy ===== *)
theory Wallet
  imports Policy LedgerSpec
begin

text \<open>
  The wallet (\<^verbatim>\<open>app/wallet/service.py\<close>): debits and credits that are idempotent by
  (user, idempotency key), the conditional balance update, and the wallet view. Every operation
  runs inside the transaction of its request, so a raised error undoes the ledger row that was
  already inserted.
\<close>

section \<open>Operations\<close>

record wallet_result =
  wr_balance :: int
  wr_tx :: uuid
  wr_replay :: bool

definition ensure_wallet :: "uuid \<Rightarrow> unit db_act" where
  "ensure_wallet uid = (\<lambda>db. case wallets db uid of
     Some _ \<Rightarrow> (Inr (), db)
   | None \<Rightarrow> if users db uid = None then (Inl DbError, db)
             else (Inr (), db\<lparr>wallets := (wallets db)(uid \<mapsto> 0)\<rparr>))"

definition existing_tx :: "uuid \<Rightarrow> string \<Rightarrow> db \<Rightarrow> ledger_row option" where
  "existing_tx uid key db = find (\<lambda>r. l_user r = uid \<and> l_key r = key) (ledger db)"

definition current_balance :: "uuid \<Rightarrow> db \<Rightarrow> int" where
  "current_balance uid db = (case wallets db uid of Some b \<Rightarrow> b | None \<Rightarrow> 0)"

definition validate_session :: "uuid \<Rightarrow> uuid \<Rightarrow> unit db_act" where
  "validate_session uid sid = (\<lambda>db. case find_session db sid of
     None \<Rightarrow> (Inl SessionNotFoundError, db)
   | Some s \<Rightarrow> if cs_user s \<noteq> uid then (Inl ForbiddenError, db) else (Inr (), db))"

text \<open>The \<^verbatim>\<open>INSERT INTO ledger_transactions ... ON CONFLICT DO NOTHING RETURNING id\<close> of both
  operations, with the checks of the column types and constraints.\<close>

definition insert_ledger ::
  "uuid \<Rightarrow> ledger_type \<Rightarrow> int \<Rightarrow> json \<Rightarrow> string \<Rightarrow> uuid option db_act" where
  "insert_ledger uid ty amount meta key = (\<lambda>db.
     if \<not> bigint_ok amount \<or> amount \<le> 0 \<or> \<not> jsonb_ok meta \<or> \<not> text_ok (Some key) then (Inl DbError, db)
     else if existing_tx uid key db \<noteq> None then (Inr None, db)
     else if users db uid = None then (Inl DbError, db)
     else (let i = db_gen db (db_next db) in
       (Inr (Some i), db\<lparr>db_next := Suc (db_next db), ledger := ledger db @
          [\<lparr>l_id = i, l_user = uid, l_type = ty, l_amount = amount, l_meta = meta, l_key = key,
            l_created = db_now db\<rparr>]\<rparr>)))"

text \<open>\<^verbatim>\<open>UPDATE wallets SET balance = balance - :amount WHERE ... AND balance >= :amount\<close>.\<close>

definition debit_balance :: "uuid \<Rightarrow> int \<Rightarrow> int option db_act" where
  "debit_balance uid amount = (\<lambda>db. case wallets db uid of
     None \<Rightarrow> (Inr None, db)
   | Some b \<Rightarrow> if b \<ge> amount
       then (Inr (Some (b - amount)), db\<lparr>wallets := (wallets db)(uid \<mapsto> b - amount)\<rparr>)
       else (Inr None, db))"

text \<open>\<^verbatim>\<open>UPDATE wallets SET balance = balance + :amount\<close>; the sum must be a \<^verbatim>\<open>BIGINT\<close> too.\<close>

definition credit_balance :: "uuid \<Rightarrow> int \<Rightarrow> int option db_act" where
  "credit_balance uid amount = (\<lambda>db. case wallets db uid of
     None \<Rightarrow> (Inr None, db)
   | Some b \<Rightarrow> if bigint_ok (b + amount)
       then (Inr (Some (b + amount)), db\<lparr>wallets := (wallets db)(uid \<mapsto> b + amount)\<rparr>)
       else (Inl DbError, db))"

definition replay_result :: "uuid \<Rightarrow> ledger_type \<Rightarrow> int \<Rightarrow> string \<Rightarrow> wallet_result db_act" where
  "replay_result uid ty amount key = (\<lambda>db. case existing_tx uid key db of
     None \<Rightarrow> (Inl ConflictError, db)
   | Some r \<Rightarrow> if l_type r \<noteq> ty \<or> l_amount r \<noteq> amount then (Inl ConflictError, db)
       else (Inr \<lparr>wr_balance = current_balance uid db, wr_tx = l_id r, wr_replay = True\<rparr>, db))"

definition meta_get :: "json \<Rightarrow> string \<Rightarrow> json" where
  "meta_get m k = (case m of JObj kvs \<Rightarrow> obj_get kvs k | _ \<Rightarrow> JNull)"

definition consume ::
  "uuid \<Rightarrow> int \<Rightarrow> string \<Rightarrow> json \<Rightarrow> uuid option \<Rightarrow> wallet_result db_act" where
  "consume uid amount key meta sid =
    (if amount \<le> 0 then raise ConflictError else
     bind_act (case sid of None \<Rightarrow> ret () | Some i \<Rightarrow> validate_session uid i) (\<lambda>_.
     bind_act (ensure_wallet uid) (\<lambda>_.
     bind_act (insert_ledger uid Debit amount meta key) (\<lambda>inserted.
     case inserted of
       None \<Rightarrow> replay_result uid Debit amount key
     | Some tx \<Rightarrow>
         bind_act (debit_balance uid amount) (\<lambda>updated.
         case updated of
           None \<Rightarrow> raise InsufficientCreditsError
         | Some b \<Rightarrow>
             bind_act (audit_record uid sid EVENT_BILLING_DEBIT
               [(''ledgerTxId'', JStr (str_uuid tx)), (''amount'', JInt amount),
                (''newBalance'', JInt b), (''sessionId'', opt_str (map_option str_uuid sid)),
                (''model'', meta_get meta ''model'')]) (\<lambda>_.
             ret \<lparr>wr_balance = b, wr_tx = tx, wr_replay = False\<rparr>))))))"

definition grant ::
  "uuid \<Rightarrow> int \<Rightarrow> string \<Rightarrow> json \<Rightarrow> string \<Rightarrow> wallet_result db_act" where
  "grant uid amount key meta reason =
    (if amount \<le> 0 then raise ConflictError else
     bind_act (ensure_wallet uid) (\<lambda>_.
     bind_act (insert_ledger uid Credit amount meta key) (\<lambda>inserted.
     case inserted of
       None \<Rightarrow> replay_result uid Credit amount key
     | Some tx \<Rightarrow>
         bind_act (credit_balance uid amount) (\<lambda>updated.
         let b = (case updated of Some b \<Rightarrow> b | None \<Rightarrow> amount) in
         bind_act (audit_record uid None EVENT_BILLING_CREDIT
           [(''ledgerTxId'', JStr (str_uuid tx)), (''amount'', JInt amount),
            (''newBalance'', JInt b), (''reason'', JStr reason)]) (\<lambda>_.
         ret \<lparr>wr_balance = b, wr_tx = tx, wr_replay = False\<rparr>)))))"

text \<open>Newest first; rows of the same instant come in an order the query leaves open, here that of
  insertion.\<close>

definition get_wallet_view :: "uuid \<Rightarrow> nat \<Rightarrow> (int \<times> ledger_row list) db_act" where
  "get_wallet_view uid n =
     bind_act (ensure_wallet uid) (\<lambda>_.
     bind_act get_st (\<lambda>db.
     ret (current_balance uid db,
       take n (sort_key (\<lambda>r. - l_created r) (filter (\<lambda>r. l_user r = uid) (ledger db))))))"

section \<open>The invariant\<close>

definition signed_amount :: "ledger_row \<Rightarrow> int" where
  "signed_amount r = (case l_type r of Credit \<Rightarrow> l_amount r | Debit \<Rightarrow> - l_amount r)"

definition ledger_sum :: "uuid \<Rightarrow> ledger_row list \<Rightarrow> int" where
  "ledger_sum uid rows = sum_list (map signed_amount (filter (\<lambda>r. l_user r = uid) rows))"

text \<open>Balances are non-negative 64-bit values and equal the signed sum of the user's ledger rows;
  a (user, key) pair has at most one row; amounts are positive and keys are \<^verbatim>\<open>TEXT\<close>; rows belong to
  provisioned users.\<close>

definition wallet_inv :: "db \<Rightarrow> bool" where
  "wallet_inv db \<longleftrightarrow>
     (\<forall>u. current_balance u db = ledger_sum u (ledger db))
   \<and> (\<forall>u. 0 \<le> current_balance u db \<and> bigint_ok (current_balance u db))
   \<and> distinct (map (\<lambda>r. (l_user r, l_key r)) (ledger db))
   \<and> (\<forall>r \<in> set (ledger db). 0 < l_amount r \<and> bigint_ok (l_amount r) \<and> text_ok (Some (l_key r)))
   \<and> (\<forall>u. wallets db u \<noteq> None \<longrightarrow> users db u \<noteq> None)
   \<and> (\<forall>r \<in> set (ledger db). wallets db (l_user r) \<noteq> None)"

text \<open>What a reader of the ledger sees under a key.\<close>

definition ledger_entry :: "db \<Rightarrow> uuid \<Rightarrow> string \<Rightarrow> (ledger_type \<times> int) option" where
  "ledger_entry db u k = map_option (\<lambda>r. (l_type r, l_amount r)) (existing_tx u k db)"

lemma wallet_invD:
  assumes "wallet_inv db"
  shows "current_balance u db = ledger_sum u (ledger db)" "0 \<le> current_balance u db"
    "bigint_ok (current_balance u db)" "distinct (map (\<lambda>r. (l_user r, l_key r)) (ledger db))"
  using assms unfolding wallet_inv_def by blast+

lemma wallet_inv_cong:
  assumes "wallets db' = wallets db" "ledger db' = ledger db" "users db' = users db"
  shows "wallet_inv db' = wallet_inv db"
  using assms by (simp add: wallet_inv_def current_balance_def)

lemma wallet_inv_empty: "wallet_inv (empty_db g n)"
  by (simp add: wallet_inv_def current_balance_def empty_db_def ledger_sum_def bigint_ok_def)

lemma ledger_sum_snoc [simp]:
  "ledger_sum u (rows @ [r]) = ledger_sum u rows + (if l_user r = u then signed_amount r else 0)"
  by (simp add: ledger_sum_def)

lemma existing_tx_None_iff:
  "existing_tx u k db = None \<longleftrightarrow> (u, k) \<notin> (\<lambda>r. (l_user r, l_key r)) ` set (ledger db)"
  by (auto simp: existing_tx_def find_None_iff)

lemma existing_tx_SomeD:
  "existing_tx u k db = Some r \<Longrightarrow> r \<in> set (ledger db) \<and> l_user r = u \<and> l_key r = k"
  by (auto simp: existing_tx_def find_Some_iff)

lemma find_snoc: "find P (xs @ [x]) = (case find P xs of Some y \<Rightarrow> Some y | None \<Rightarrow>
    if P x then Some x else None)"
  by (induction xs) auto

section \<open>Outcomes\<close>

text \<open>The tables the wallet never writes, as one value: equal frames mean that every other table is
  untouched.\<close>

definition wallet_frame :: "db \<Rightarrow> db" where
  "wallet_frame db = db\<lparr>wallets := (\<lambda>_. None), ledger := [], audit_logs := [], db_next := 0\<rparr>"

text \<open>The state after a row was inserted and the balance set, with the audit rows written.\<close>

definition posted ::
  "uuid \<Rightarrow> ledger_type \<Rightarrow> int \<Rightarrow> json \<Rightarrow> string \<Rightarrow> audit_row \<Rightarrow> db \<Rightarrow> db" where
  "posted uid ty amount meta key log db = db\<lparr>db_next := Suc (db_next db),
     wallets := (wallets db)(uid \<mapsto> current_balance uid db
        + (case ty of Credit \<Rightarrow> amount | Debit \<Rightarrow> - amount)),
     ledger := ledger db @ [\<lparr>l_id = db_gen db (db_next db), l_user = uid, l_type = ty,
        l_amount = amount, l_meta = meta, l_key = key, l_created = db_now db\<rparr>],
     audit_logs := audit_logs db @ [log]\<rparr>"

definition touched :: "uuid \<Rightarrow> db \<Rightarrow> db" where
  "touched uid db = db\<lparr>wallets := (wallets db)(uid \<mapsto> current_balance uid db)\<rparr>"

lemma ensure_wallet_Inr:
  "ensure_wallet uid db = (Inr x, db') \<Longrightarrow> db' = touched uid db"
  by (auto simp: ensure_wallet_def touched_def current_balance_def fun_upd_idem
      split: option.splits if_splits)

lemma ensure_wallet_dom:
  "ensure_wallet uid db = (Inr x, db') \<Longrightarrow> users db uid \<noteq> None \<or> wallets db uid \<noteq> None"
  by (auto simp: ensure_wallet_def split: option.splits if_splits)

lemma touched_sel [simp]:
  "users (touched uid db) = users db" "ledger (touched uid db) = ledger db"
  "existing_tx uid' key (touched uid db) = existing_tx uid' key db"
  "current_balance u (touched uid db) = current_balance u db"
  "wallet_frame (touched uid db) = wallet_frame db"
  "wallets (touched uid db) u = (if u = uid then Some (current_balance uid db) else wallets db u)"
  "db_gen (touched uid db) = db_gen db" "db_next (touched uid db) = db_next db"
  "db_now (touched uid db) = db_now db" "db_rid (touched uid db) = db_rid db"
  "audit_logs (touched uid db) = audit_logs db" "sessions (touched uid db) = sessions db"
  "touched uid (touched uid db) = touched uid db"
  by (auto simp: touched_def existing_tx_def current_balance_def wallet_frame_def)

lemma touched_same: "wallets db uid \<noteq> None \<Longrightarrow> touched uid db = db"
  by (auto simp: touched_def current_balance_def fun_upd_idem)

lemma posted_sel [simp]:
  "users (posted uid ty amount meta key log db) = users db"
  "ledger (posted uid ty amount meta key log db) = ledger db
     @ [\<lparr>l_id = db_gen db (db_next db), l_user = uid, l_type = ty,
        l_amount = amount, l_meta = meta, l_key = key, l_created = db_now db\<rparr>]"
  "wallets (posted uid ty amount meta key log db) = (wallets db)(uid \<mapsto> current_balance uid db
        + (case ty of Credit \<Rightarrow> amount | Debit \<Rightarrow> - amount))"
  "wallet_frame (posted uid ty amount meta key log db) = wallet_frame db"
  by (simp_all add: posted_def wallet_frame_def)

lemma posted_balance [simp]:
  "current_balance u (posted uid ty amount meta key log db) = current_balance u db
     + (if u = uid then (case ty of Credit \<Rightarrow> amount | Debit \<Rightarrow> - amount) else 0)"
  by (simp add: current_balance_def)

definition fresh_outcome ::
  "uuid \<Rightarrow> ledger_type \<Rightarrow> int \<Rightarrow> json \<Rightarrow> string \<Rightarrow> db \<Rightarrow> wallet_result \<Rightarrow> db \<Rightarrow> bool" where
  "fresh_outcome uid ty amount meta key db res db' \<longleftrightarrow>
     \<not> wr_replay res \<and> existing_tx uid key db = None \<and> users db uid \<noteq> None
   \<and> bigint_ok amount \<and> text_ok (Some key) \<and> jsonb_ok meta \<and> (ty = Credit \<longrightarrow> bigint_ok (current_balance uid db + amount))
   \<and> (ty = Debit \<longrightarrow> amount \<le> current_balance uid db)
   \<and> wr_tx res = db_gen db (db_next db) \<and> wr_balance res = current_balance uid db'
   \<and> (\<exists>log. db' = posted uid ty amount meta key log db)"

definition replay_outcome ::
  "uuid \<Rightarrow> ledger_type \<Rightarrow> int \<Rightarrow> string \<Rightarrow> db \<Rightarrow> wallet_result \<Rightarrow> db \<Rightarrow> bool" where
  "replay_outcome uid ty amount key db res db' \<longleftrightarrow>
     wr_replay res \<and> wr_balance res = current_balance uid db \<and> db' = touched uid db
   \<and> (\<exists>row. existing_tx uid key db = Some row \<and> l_type row = ty \<and> l_amount row = amount
        \<and> wr_tx res = l_id row)"

lemma replay_result_Inr:
  assumes "replay_result uid ty amount key (touched uid db) = (Inr res, db')"
  shows "replay_outcome uid ty amount key db res db'"
  using assms by (auto simp: replay_result_def replay_outcome_def split: option.splits if_splits)

lemma insert_ledger_Inr:
  assumes "insert_ledger uid ty amount meta key db = (Inr (Some tx), db')"
  shows "existing_tx uid key db = None" "users db uid \<noteq> None" "bigint_ok amount" "text_ok (Some key)"
    "jsonb_ok meta" "0 < amount" "tx = db_gen db (db_next db)"
    "db' = db\<lparr>db_next := Suc (db_next db), ledger := ledger db @
        [\<lparr>l_id = tx, l_user = uid, l_type = ty, l_amount = amount, l_meta = meta, l_key = key,
          l_created = db_now db\<rparr>]\<rparr>"
  using assms by (auto simp: insert_ledger_def Let_def split: if_splits)

lemma insert_ledger_None:
  assumes "insert_ledger uid ty amount meta key db = (Inr None, db')"
  shows "existing_tx uid key db \<noteq> None" "db' = db"
  using assms by (auto simp: insert_ledger_def Let_def split: if_splits)

lemma grant_Inr:
  assumes "grant uid amount key meta reason db = (Inr res, db')"
  shows "0 < amount \<and> (fresh_outcome uid Credit amount meta key db res db'
      \<or> replay_outcome uid Credit amount key db res db')"
proof -
  have pos: "0 < amount" using assms by (auto simp: grant_def split: if_splits)
  from assms pos obtain ins db1 where
    ins: "insert_ledger uid Credit amount meta key (touched uid db) = (Inr ins, db1)" and
    rest: "(case ins of None \<Rightarrow> replay_result uid Credit amount key
     | Some tx \<Rightarrow>
         bind_act (credit_balance uid amount) (\<lambda>updated.
         let b = (case updated of Some b \<Rightarrow> b | None \<Rightarrow> amount) in
         bind_act (audit_record uid None EVENT_BILLING_CREDIT
           [(''ledgerTxId'', JStr (str_uuid tx)), (''amount'', JInt amount),
            (''newBalance'', JInt b), (''reason'', JStr reason)]) (\<lambda>_.
         ret \<lparr>wr_balance = b, wr_tx = tx, wr_replay = False\<rparr>))) db1 = (Inr res, db')"
    by (auto simp: grant_def elim!: bind_act_Inr_E dest!: ensure_wallet_Inr)
  show ?thesis
  proof (cases ins)
    case None
    with insert_ledger_None[OF ins[unfolded None] ] rest have
      "replay_result uid Credit amount key (touched uid db) = (Inr res, db')" by simp
    then show ?thesis using pos replay_result_Inr by blast
  next
    case (Some tx)
    note I = insert_ledger_Inr[OF ins[unfolded Some] ]
    have w: "wallets db1 uid = Some (current_balance uid db)" by (simp add: I(8))
    from rest obtain upd db2 x db3 where
      upd: "credit_balance uid amount db1 = (Inr upd, db2)" and
      aud: "audit_record uid None EVENT_BILLING_CREDIT
        [(''ledgerTxId'', JStr (str_uuid tx)), (''amount'', JInt amount),
         (''newBalance'', JInt (case upd of Some b \<Rightarrow> b | None \<Rightarrow> amount)),
         (''reason'', JStr reason)] db2 = (Inr x, db3)" and
      fin: "res = \<lparr>wr_balance = (case upd of Some b \<Rightarrow> b | None \<Rightarrow> amount), wr_tx = tx,
        wr_replay = False\<rparr>" "db' = db3"
      unfolding Some by (auto simp: Let_def elim!: bind_act_Inr_E)
    from upd w have u: "bigint_ok (current_balance uid db + amount)"
      "upd = Some (current_balance uid db + amount)"
      "db2 = db1\<lparr>wallets := (wallets db1)(uid \<mapsto> current_balance uid db + amount)\<rparr>"
      by (auto simp: credit_balance_def split: if_splits)
    have "db' = posted uid Credit amount meta key (make_audit_row uid None EVENT_BILLING_CREDIT
        [(''ledgerTxId'', JStr (str_uuid tx)), (''amount'', JInt amount),
         (''newBalance'', JInt (current_balance uid db + amount)),
         (''reason'', JStr reason)] db2) db"
      using audit_record_Inr[OF aud] by (simp add: fin u(2,3) I(7,8) posted_def touched_def)
    moreover from this have "wr_balance res = current_balance uid db'" by (simp add: fin(1) u(2))
    ultimately have "fresh_outcome uid Credit amount meta key db res db'"
      using I(1-7) u(1) by (auto simp only: fresh_outcome_def fin(1) touched_sel
          wallet_result.select_convs ledger_type.distinct)
    with pos show ?thesis by simp
  qed
qed

lemma consume_Inr:
  assumes "consume uid amount key meta sid db = (Inr res, db')"
  shows "0 < amount \<and> (\<forall>i. sid = Some i \<longrightarrow> (\<exists>s. find_session db i = Some s \<and> cs_user s = uid))
    \<and> (fresh_outcome uid Debit amount meta key db res db'
      \<or> replay_outcome uid Debit amount key db res db')"
proof -
  have pos: "0 < amount" using assms by (auto simp: consume_def split: if_splits)
  have vs: "d = db \<and> (\<forall>i. sid = Some i \<longrightarrow> (\<exists>s. find_session db i = Some s \<and> cs_user s = uid))"
    if "(case sid of None \<Rightarrow> ret () | Some i \<Rightarrow> validate_session uid i) db = (Inr x, d)" for x d
    using that by (auto simp: validate_session_def split: option.splits if_splits)
  from assms pos obtain ins db1 where
    sess: "\<forall>i. sid = Some i \<longrightarrow> (\<exists>s. find_session db i = Some s \<and> cs_user s = uid)" and
    ins: "insert_ledger uid Debit amount meta key (touched uid db) = (Inr ins, db1)" and
    rest: "(case ins of None \<Rightarrow> replay_result uid Debit amount key
     | Some tx \<Rightarrow>
         bind_act (debit_balance uid amount) (\<lambda>updated.
         case updated of
           None \<Rightarrow> raise InsufficientCreditsError
         | Some b \<Rightarrow>
             bind_act (audit_record uid sid EVENT_BILLING_DEBIT
               [(''ledgerTxId'', JStr (str_uuid tx)), (''amount'', JInt amount),
                (''newBalance'', JInt b), (''sessionId'', opt_str (map_option str_uuid sid)),
                (''model'', meta_get meta ''model'')]) (\<lambda>_.
             ret \<lparr>wr_balance = b, wr_tx = tx, wr_replay = False\<rparr>))) db1 = (Inr res, db')"
    unfolding consume_def by (auto elim!: bind_act_Inr_E dest!: ensure_wallet_Inr vs)
  show ?thesis
  proof (cases ins)
    case None
    with insert_ledger_None[OF ins[unfolded None] ] rest have
      "replay_result uid Debit amount key (touched uid db) = (Inr res, db')" by simp
    then show ?thesis using pos sess replay_result_Inr by blast
  next
    case (Some tx)
    note I = insert_ledger_Inr[OF ins[unfolded Some] ]
    have w: "wallets db1 uid = Some (current_balance uid db)" by (simp add: I(8))
    from rest obtain upd db2 where
      upd: "debit_balance uid amount db1 = (Inr upd, db2)" and
      more: "(case upd of
           None \<Rightarrow> raise InsufficientCreditsError
         | Some b \<Rightarrow>
             bind_act (audit_record uid sid EVENT_BILLING_DEBIT
               [(''ledgerTxId'', JStr (str_uuid tx)), (''amount'', JInt amount),
                (''newBalance'', JInt b), (''sessionId'', opt_str (map_option str_uuid sid)),
                (''model'', meta_get meta ''model'')]) (\<lambda>_.
             ret \<lparr>wr_balance = b, wr_tx = tx, wr_replay = False\<rparr>)) db2 = (Inr res, db')"
      unfolding Some by (auto elim!: bind_act_Inr_E)
    from upd w more have u: "amount \<le> current_balance uid db"
      "upd = Some (current_balance uid db - amount)"
      "db2 = db1\<lparr>wallets := (wallets db1)(uid \<mapsto> current_balance uid db - amount)\<rparr>"
      by (auto simp: debit_balance_def split: if_splits)
    from more[unfolded u(2)] obtain log where
      fin: "res = \<lparr>wr_balance = current_balance uid db - amount, wr_tx = tx, wr_replay = False\<rparr>"
        "db' = db2\<lparr>audit_logs := audit_logs db2 @ [log]\<rparr>"
      by (auto elim!: bind_act_Inr_E dest!: audit_record_Inr)
    have "db' = posted uid Debit amount meta key log db"
      by (simp add: fin(2) u(3) I(7,8) posted_def touched_def)
    moreover from this have "wr_balance res = current_balance uid db'" by (simp add: fin(1))
    ultimately have "fresh_outcome uid Debit amount meta key db res db'"
      using I(1-7) u(1) by (auto simp only: fresh_outcome_def fin(1) touched_sel
          wallet_result.select_convs ledger_type.distinct)
    with pos sess show ?thesis by simp
  qed
qed

section \<open>Preservation of the invariant\<close>

lemma wallet_inv_touched: "wallet_inv db \<Longrightarrow> users db uid \<noteq> None \<Longrightarrow> wallet_inv (touched uid db)"
  by (auto simp: wallet_inv_def)

lemma fresh_keeps_inv:
  assumes inv: "wallet_inv db" and pos: "0 < amount"
    and out: "fresh_outcome uid ty amount meta key db res db'"
  shows "wallet_inv db'"
proof -
  from out obtain log where db': "db' = posted uid ty amount meta key log db"
    by (auto simp: fresh_outcome_def)
  have new: "(uid, key) \<notin> (\<lambda>r. (l_user r, l_key r)) ` set (ledger db)"
    using out by (simp add: fresh_outcome_def existing_tx_None_iff)
  have usr: "users db uid \<noteq> None" and big: "bigint_ok amount" and ktext: "text_ok (Some key)"
    and up: "ty = Credit \<Longrightarrow> bigint_ok (current_balance uid db + amount)"
    and low: "ty = Debit \<Longrightarrow> amount \<le> current_balance uid db"
    using out by (auto simp: fresh_outcome_def)
  have bal: "0 \<le> current_balance u db'" "bigint_ok (current_balance u db')" for u
  proof -
    have old: "0 \<le> current_balance u db" "bigint_ok (current_balance u db)"
      by (rule wallet_invD[OF inv])+
    show "0 \<le> current_balance u db'"
      using old pos low by (cases ty) (simp_all add: db')
    show "bigint_ok (current_balance u db')"
      using old pos low up by (cases ty; cases "u = uid") (simp_all add: db' bigint_ok_def)
  qed
  show ?thesis
    unfolding wallet_inv_def
  proof (intro conjI allI)
    fix u
    show "current_balance u db' = ledger_sum u (ledger db')"
      using inv by (cases ty) (auto simp: db' wallet_inv_def signed_amount_def)
    show "0 \<le> current_balance u db'" "bigint_ok (current_balance u db')" by (fact bal)+
    show "wallets db' u \<noteq> None \<longrightarrow> users db' u \<noteq> None"
      using inv usr by (simp add: db' wallet_inv_def)
  next
    show "distinct (map (\<lambda>r. (l_user r, l_key r)) (ledger db'))"
      using inv new by (simp add: db' wallet_inv_def)
    show "\<forall>r\<in>set (ledger db'). 0 < l_amount r \<and> bigint_ok (l_amount r) \<and> text_ok (Some (l_key r))"
      using inv pos big ktext by (simp add: db' wallet_inv_def)
    show "\<forall>r\<in>set (ledger db'). wallets db' (l_user r) \<noteq> None"
      using inv by (simp add: db' wallet_inv_def)
  qed
qed

lemma replay_state:
  assumes "wallet_inv db" "replay_outcome uid ty amount key db res db'"
  shows "db' = db"
proof -
  from assms(2) obtain row where "existing_tx uid key db = Some row" "db' = touched uid db"
    by (auto simp: replay_outcome_def)
  with assms(1) show ?thesis
    using existing_tx_SomeD[of uid key db row] by (auto simp: wallet_inv_def intro!: touched_same)
qed

text \<open>The two ways a wallet operation can return, and what they leave behind.\<close>

lemma fresh_entry:
  assumes "fresh_outcome uid ty amount meta key db res db'"
  shows "ledger_entry db uid key = None" "ledger_entry db' uid key = Some (ty, amount)"
    "(v, l) \<noteq> (uid, key) \<Longrightarrow> ledger_entry db' v l = ledger_entry db v l"
    "current_balance v db' = current_balance v db
      + (if v = uid then (case ty of Credit \<Rightarrow> amount | Debit \<Rightarrow> - amount) else 0)"
    "wallet_frame db' = wallet_frame db"
proof -
  from assms obtain log where db': "db' = posted uid ty amount meta key log db"
    by (auto simp: fresh_outcome_def)
  have new: "find (\<lambda>r. l_user r = uid \<and> l_key r = key) (ledger db) = None"
    using assms by (simp add: fresh_outcome_def existing_tx_def)
  show "ledger_entry db uid key = None" "ledger_entry db' uid key = Some (ty, amount)"
    using new by (simp_all add: ledger_entry_def existing_tx_def db' find_snoc)
  show "(v, l) \<noteq> (uid, key) \<Longrightarrow> ledger_entry db' v l = ledger_entry db v l"
    by (auto simp: ledger_entry_def existing_tx_def db' find_snoc split: option.splits)
  show "current_balance v db' = current_balance v db
      + (if v = uid then (case ty of Credit \<Rightarrow> amount | Debit \<Rightarrow> - amount) else 0)"
    "wallet_frame db' = wallet_frame db"
    by (simp_all add: db')
qed

lemma replay_entry:
  "replay_outcome uid ty amount key db res db' \<Longrightarrow> ledger_entry db uid key = Some (ty, amount)"
  by (auto simp: replay_outcome_def ledger_entry_def)

lemma ledger_entry_pos:
  "wallet_inv db \<Longrightarrow> ledger_entry db u k = Some (ty, a) \<Longrightarrow>
   0 < a \<and> bigint_ok a \<and> text_ok (Some k) \<and> wallets db u \<noteq> None"
  by (auto simp: ledger_entry_def wallet_inv_def dest!: existing_tx_SomeD)

lemma grant_known:
  assumes "wallet_inv db" "ledger_entry db uid key = Some (Credit, amount)" "jsonb_ok meta"
  shows "\<exists>res. grant uid amount key meta reason db = (Inr res, db) \<and> wr_replay res
     \<and> wr_balance res = current_balance uid db"
proof -
  note P = ledger_entry_pos[OF assms(1,2)]
  obtain b where b: "wallets db uid = Some b" using P by blast
  obtain row where "existing_tx uid key db = Some row" "l_type row = Credit" "l_amount row = amount"
    using assms(2) by (auto simp: ledger_entry_def)
  then show ?thesis
    using P b assms(3) by (simp add: grant_def bind_act_def ensure_wallet_def insert_ledger_def
        replay_result_def)
qed

lemma consume_known:
  assumes "wallet_inv db" "ledger_entry db uid key = Some (Debit, amount)" "jsonb_ok meta"
    and "\<forall>i. sid = Some i \<longrightarrow> (\<exists>s. find_session db i = Some s \<and> cs_user s = uid)"
  shows "\<exists>res. consume uid amount key meta sid db = (Inr res, db) \<and> wr_replay res
     \<and> wr_balance res = current_balance uid db"
proof -
  note P = ledger_entry_pos[OF assms(1,2)]
  obtain b where b: "wallets db uid = Some b" using P by blast
  have v: "(case sid of None \<Rightarrow> ret () | Some i \<Rightarrow> validate_session uid i) db = (Inr (), db)"
    using assms(4) by (auto simp: validate_session_def split: option.splits)
  obtain row where "existing_tx uid key db = Some row" "l_type row = Debit" "l_amount row = amount"
    using assms(2) by (auto simp: ledger_entry_def)
  then show ?thesis
    using P b assms(3) by (simp add: consume_def bind_act_def v ensure_wallet_def
        insert_ledger_def replay_result_def)
qed

lemma grant_keeps_inv:
  assumes "wallet_inv db" "grant uid amount key meta reason db = (Inr res, db')"
  shows "wallet_inv db'"
  using grant_Inr[OF assms(2)] assms(1) fresh_keeps_inv replay_state by metis

lemma consume_keeps_inv:
  assumes "wallet_inv db" "consume uid amount key meta sid db = (Inr res, db')"
  shows "wallet_inv db'"
  using consume_Inr[OF assms(2)] assms(1) fresh_keeps_inv replay_state by metis

lemma get_wallet_view_keeps_inv:
  assumes "wallet_inv db" "get_wallet_view uid n db = (Inr res, db')"
  shows "wallet_inv db'"
proof -
  from assms(2) have "db' = touched uid db" "users db uid \<noteq> None \<or> wallets db uid \<noteq> None"
    by (auto simp: get_wallet_view_def elim!: bind_act_Inr_E
        dest: ensure_wallet_Inr ensure_wallet_dom)
  with assms(1) show ?thesis
    using wallet_inv_touched touched_same by (metis wallet_inv_def)
qed

section \<open>Requests\<close>

text \<open>The wallet endpoints as one step each, in the transaction of its request, and the provisioning
  of a user that precedes them in every authenticated request.\<close>

datatype wallet_req =
    ReqProvision uuid
  | ReqConsume uuid int string json "uuid option"
  | ReqGrant uuid int string json string
  | ReqView uuid nat

fun wallet_step :: "wallet_req \<Rightarrow> db \<Rightarrow> db" where
  "wallet_step (ReqProvision u) db = snd (session_scope (provision_user u) db)"
| "wallet_step (ReqConsume u a k m s) db = snd (session_scope (consume u a k m s) db)"
| "wallet_step (ReqGrant u a k m r) db = snd (session_scope (grant u a k m r) db)"
| "wallet_step (ReqView u n) db = snd (session_scope (get_wallet_view u n) db)"

definition wallet_run :: "wallet_req list \<Rightarrow> db \<Rightarrow> db" where
  "wallet_run reqs db = fold wallet_step reqs db"

lemma wallet_inv_users:
  assumes "wallet_inv db" "wallets db' = wallets db" "ledger db' = ledger db"
    and "\<And>u. users db u \<noteq> None \<Longrightarrow> users db' u \<noteq> None"
  shows "wallet_inv db'"
proof -
  have cb: "current_balance u db' = current_balance u db" for u
    using assms(2) by (simp add: current_balance_def)
  show ?thesis using assms(1,4) unfolding wallet_inv_def cb assms(2,3) by blast
qed

lemma provision_keeps_wallet_inv:
  assumes "wallet_inv db" "provision_user u db = (r, db')"
  shows "wallet_inv db'"
proof (rule wallet_inv_users[OF assms(1)])
  show "wallets db' = wallets db" "ledger db' = ledger db"
    using assms(2) by (auto simp: provision_user_def split: option.splits)
  show "users db' v \<noteq> None" if "users db v \<noteq> None" for v
    using that assms(2) provision_user_keeps[of db v _ u] by auto
qed

lemma wallet_step_inv:
  assumes "wallet_inv db"
  shows "wallet_inv (wallet_step req db)"
proof (cases req)
  case (ReqProvision u)
  then show ?thesis
    by (simp only: wallet_step.simps session_scope_def)
      (rule transaction_keeps[where P = wallet_inv, OF assms], rule provision_keeps_wallet_inv[OF assms])
next
  case (ReqConsume u a k m s)
  then show ?thesis
    by (simp only: wallet_step.simps session_scope_def)
      (rule transaction_keeps[where P = wallet_inv, OF assms], rule consume_keeps_inv[OF assms])
next
  case (ReqGrant u a k m r)
  then show ?thesis
    by (simp only: wallet_step.simps session_scope_def)
      (rule transaction_keeps[where P = wallet_inv, OF assms], rule grant_keeps_inv[OF assms])
next
  case (ReqView u n)
  then show ?thesis
    by (simp only: wallet_step.simps session_scope_def)
      (rule transaction_keeps[where P = wallet_inv, OF assms], rule get_wallet_view_keeps_inv[OF assms])
qed

lemma wallet_run_inv: "wallet_inv db \<Longrightarrow> wallet_inv (wallet_run reqs db)"
  unfolding wallet_run_def by (induction reqs arbitrary: db) (simp_all add: wallet_step_inv)

section \<open>The wallet as an idempotent ledger\<close>

fun entry_delta :: "ledger_type \<times> int \<Rightarrow> int" where
  "entry_delta (ty, a) = (case ty of Credit \<Rightarrow> a | Debit \<Rightarrow> - a)"

fun wallet_post :: "json \<times> string \<times> uuid option \<Rightarrow> uuid \<Rightarrow> string \<Rightarrow> ledger_type \<times> int
    \<Rightarrow> db \<Rightarrow> (app_error + bool) \<times> db" where
  "wallet_post (meta, reason, sid) uid key (ty, amount) = session_scope
     (bind_act (case ty of Credit \<Rightarrow> grant uid amount key meta reason
        | Debit \<Rightarrow> consume uid amount key meta sid) (\<lambda>res. ret (wr_replay res)))"

fun wallet_ready :: "json \<times> string \<times> uuid option \<Rightarrow> uuid \<Rightarrow> db \<Rightarrow> bool" where
  "wallet_ready (meta, reason, sid) uid db \<longleftrightarrow> jsonb_ok meta \<and>
     (\<forall>i. sid = Some i \<longrightarrow> (\<exists>s. find_session db i = Some s \<and> cs_user s = uid))"

lemma wallet_post_Inr:
  assumes "wallet_post x uid key (ty, amount) db = (Inr b, db')"
  shows "0 < amount \<and> (\<exists>meta res. wr_replay res = b \<and>
     (fresh_outcome uid ty amount meta key db res db' \<or> replay_outcome uid ty amount key db res db'))"
proof -
  obtain meta reason sid where x: "x = (meta, reason, sid)" by (cases x)
  show ?thesis
  proof (cases ty)
    case Credit
    with assms x obtain res where "grant uid amount key meta reason db = (Inr res, db')"
      "wr_replay res = b"
      by (auto simp: session_scope_def transaction_Inr_iff elim!: bind_act_Inr_E)
    with grant_Inr Credit show ?thesis by metis
  next
    case Debit
    with assms x obtain res where "consume uid amount key meta sid db = (Inr res, db')"
      "wr_replay res = b"
      by (auto simp: session_scope_def transaction_Inr_iff elim!: bind_act_Inr_E)
    with consume_Inr Debit show ?thesis by metis
  qed
qed

lemma wallet_post_known:
  assumes "wallet_inv db" "wallet_ready x uid db" "ledger_entry db uid key = Some e"
  shows "\<exists>db'. wallet_post x uid key e db = (Inr True, db')"
proof -
  obtain meta reason sid where x: "x = (meta, reason, sid)" by (cases x)
  obtain ty a where e: "e = (ty, a)" by (cases e)
  show ?thesis
  proof (cases ty)
    case Credit
    have "jsonb_ok meta" using assms(2) by (simp add: x)
    from grant_known[OF assms(1) assms(3)[unfolded e Credit] this, of reason] Credit show ?thesis
      by (auto simp: x e session_scope_def transaction_Inr_iff bind_act_step)
  next
    case Debit
    have "jsonb_ok meta" "\<forall>i. sid = Some i \<longrightarrow> (\<exists>s. find_session db i = Some s \<and> cs_user s = uid)"
      using assms(2) by (simp_all add: x)
    from consume_known[OF assms(1) assms(3)[unfolded e Debit] this] Debit show ?thesis
      by (auto simp: x e session_scope_def transaction_Inr_iff bind_act_step)
  qed
qed

lemma wallet_post_Inl: "wallet_post x uid key e db = (Inl err, db') \<Longrightarrow> db' = db"
  by (cases x; cases e) (auto simp: session_scope_def dest: transaction_Inl_state)

lemma wallet_post_inv:
  assumes "wallet_inv db" "wallet_post x uid key e db = (r, db')"
  shows "wallet_inv db'"
proof (cases r)
  case (Inl err)
  with assms wallet_post_Inl show ?thesis by blast
next
  case (Inr b)
  with assms wallet_post_Inr[of x uid key "fst e" "snd e" db b db'] show ?thesis
    using fresh_keeps_inv replay_state by (cases e) (metis fst_conv snd_conv)
qed

interpretation wl: idem_ledger wallet_inv ledger_entry "\<lambda>db u. current_balance u db" entry_delta
  wallet_ready wallet_post
proof
  show "wallet_inv db'" if "wallet_inv db" "wallet_post x uid key e db = (r, db')"
    for db x uid key e r db'
    using that by (rule wallet_post_inv)
  show "db' = db" if "wallet_post x uid key e db = (Inl err, db')" for x uid key e db err db'
    using that by (rule wallet_post_Inl)
  show "ledger_entry db uid key = None \<and> ledger_entry db' uid key = Some e
      \<and> current_balance uid db' = current_balance uid db + entry_delta e
      \<and> (\<forall>v l. (v, l) \<noteq> (uid, key) \<longrightarrow> ledger_entry db' v l = ledger_entry db v l)
      \<and> (\<forall>v. v \<noteq> uid \<longrightarrow> current_balance v db' = current_balance v db)"
    if "wallet_inv db" "wallet_post x uid key e db = (Inr False, db')" for db x uid key e db'
  proof -
    obtain ty a where e: "e = (ty, a)" by (cases e)
    from wallet_post_Inr[OF that(2)[unfolded e] ] obtain meta res where
      "fresh_outcome uid ty a meta key db res db'" by (auto simp: replay_outcome_def)
    from fresh_entry[OF this] show ?thesis by (auto simp: e)
  qed
  show "ledger_entry db uid key = Some e \<and> ledger_entry db' = ledger_entry db
      \<and> (\<lambda>u. current_balance u db') = (\<lambda>u. current_balance u db)"
    if "wallet_inv db" "wallet_post x uid key e db = (Inr True, db')" for db x uid key e db'
  proof -
    obtain ty a where e: "e = (ty, a)" by (cases e)
    from wallet_post_Inr[OF that(2)[unfolded e] ] obtain res where
      "replay_outcome uid ty a key db res db'" by (auto simp: fresh_outcome_def)
    from replay_entry[OF this] replay_state[OF that(1) this] show ?thesis by (simp add: e)
  qed
  show "\<exists>db'. wallet_post x uid key e db = (Inr True, db')"
    if "wallet_inv db" "wallet_ready x uid db" "ledger_entry db uid key = Some e" for db x uid key e
    using that by (rule wallet_post_known)
qed

lemma snd_transaction_ret: "snd (transaction (bind_act m (\<lambda>a. ret (f a))) db) = snd (transaction m db)"
  by (auto simp: transaction_def bind_act_def split: prod.splits sum.splits)

lemma wallet_step_keeps_entry:
  assumes "wallet_inv db" "ledger_entry db u k = Some e"
  shows "ledger_entry (wallet_step req db) u k = Some e"
proof (cases req)
  case (ReqProvision v)
  then show ?thesis using assms(2)
    by (auto simp: session_scope_def provision_user_def transaction_def ledger_entry_def
        existing_tx_def split: option.splits)
next
  case (ReqConsume v a l m s)
  then have "wallet_step req db = snd (wallet_post (m, '''', s) v l (Debit, a) db)"
    by (simp add: session_scope_def snd_transaction_ret)
  with wl.post_keeps_entry[OF assms, of "(m, '''', s)" v l "(Debit, a)"] show ?thesis by simp
next
  case (ReqGrant v a l m r)
  then have "wallet_step req db = snd (wallet_post (m, r, None) v l (Credit, a) db)"
    by (simp add: session_scope_def snd_transaction_ret)
  with wl.post_keeps_entry[OF assms, of "(m, r, None)" v l "(Credit, a)"] show ?thesis by simp
next
  case (ReqView v n)
  have same: "ledger_entry db' u k = ledger_entry db u k"
    if "get_wallet_view v n db = (Inr r, db')" for r db'
    using that by (auto simp: get_wallet_view_def ledger_entry_def elim!: bind_act_Inr_E
        dest!: ensure_wallet_Inr)
  have "ledger_entry (snd (transaction (get_wallet_view v n) db)) u k = Some e"
    by (rule transaction_keeps[where P = "\<lambda>d. ledger_entry d u k = Some e"])
      (simp_all add: assms(2) same)
  with ReqView show ?thesis by (simp add: session_scope_def)
qed

lemma wallet_run_keeps_entry:
  "wallet_inv db \<Longrightarrow> ledger_entry db u k = Some e \<Longrightarrow> ledger_entry (wallet_run reqs db) u k = Some e"
  unfolding wallet_run_def
  by (induction reqs arbitrary: db) (simp_all add: wallet_step_inv wallet_step_keeps_entry)

section \<open>The answer of each operation\<close>

lemma ensure_wallet_user:
  "users db uid \<noteq> None \<Longrightarrow> ensure_wallet uid db = (Inr (), touched uid db)"
  by (auto simp: ensure_wallet_def touched_def current_balance_def fun_upd_idem
      split: option.splits)

lemma credit_payload_ok:
  "jsonb_ok (audit_payload [(''ledgerTxId'', JStr (str_uuid tx)), (''amount'', JInt a), (''newBalance'', JInt b),
     (''reason'', JStr reason)] rid) \<longleftrightarrow> text_ok (Some reason) \<and> text_ok rid"
proof -
  have "list_all plain_key [''ledgerTxId'', ''amount'', ''newBalance'', ''reason'']" by code_simp
  then show ?thesis by (subst audit_payload_plain) simp_all
qed

lemma meta_get_ok: "jsonb_ok m \<Longrightarrow> jsonb_ok (meta_get m k)"
  by (cases m) (auto simp: meta_get_def obj_get_def jsonb_dict_iff dest!: map_of_SomeD split: option.split)

lemma debit_payload_ok:
  assumes "jsonb_ok meta" "text_ok sid"
  shows "jsonb_ok (audit_payload [(''ledgerTxId'', JStr (str_uuid tx)), (''amount'', JInt a), (''newBalance'', JInt b),
     (''sessionId'', opt_str sid), (''model'', meta_get meta ''model'')] rid) \<longleftrightarrow> text_ok rid"
  by (subst audit_payload_ok) (simp_all add: assms meta_get_ok)

lemma grant_value:
  assumes "users db uid \<noteq> None"
  shows "fst (grant uid amount key meta reason db) =
    (if amount \<le> 0 then Inl ConflictError
     else if \<not> bigint_ok amount \<or> \<not> jsonb_ok meta \<or> \<not> text_ok (Some key) then Inl DbError
     else (case existing_tx uid key db of
       Some row \<Rightarrow> if l_type row = Credit \<and> l_amount row = amount
         then Inr \<lparr>wr_balance = current_balance uid db, wr_tx = l_id row, wr_replay = True\<rparr>
         else Inl ConflictError
     | None \<Rightarrow> if \<not> bigint_ok (current_balance uid db + amount) \<or> \<not> text_ok (Some reason)
            \<or> \<not> text_ok (db_rid db) then Inl DbError
         else Inr \<lparr>wr_balance = current_balance uid db + amount,
           wr_tx = db_gen db (db_next db), wr_replay = False\<rparr>))"
  using assms
  by (auto simp: grant_def bind_act_def insert_ledger_def replay_result_def Let_def
      ensure_wallet_user credit_balance_def audit_record_def credit_payload_ok split: option.split del: text_ok_simps)

lemma consume_value:
  assumes "users db uid \<noteq> None"
  shows "fst (consume uid amount key meta sid db) =
    (if amount \<le> 0 then Inl ConflictError
     else if \<exists>i. sid = Some i \<and> find_session db i = None then Inl SessionNotFoundError
     else if \<exists>i s. sid = Some i \<and> find_session db i = Some s \<and> cs_user s \<noteq> uid
       then Inl ForbiddenError
     else if \<not> bigint_ok amount \<or> \<not> jsonb_ok meta \<or> \<not> text_ok (Some key) then Inl DbError
     else (case existing_tx uid key db of
       Some row \<Rightarrow> if l_type row = Debit \<and> l_amount row = amount
         then Inr \<lparr>wr_balance = current_balance uid db, wr_tx = l_id row, wr_replay = True\<rparr>
         else Inl ConflictError
     | None \<Rightarrow> if current_balance uid db < amount then Inl InsufficientCreditsError
         else if \<not> text_ok (db_rid db) then Inl DbError
         else Inr \<lparr>wr_balance = current_balance uid db - amount,
           wr_tx = db_gen db (db_next db), wr_replay = False\<rparr>))"
proof -
  have f: "find_session (db'\<lparr>db_next := n, ledger := l\<rparr>) i = find_session db' i"
    "find_session (db'\<lparr>wallets := w\<rparr>) i = find_session db' i"
    "find_session (touched uid db) i = find_session db i" for db' n l w i
    by (simp_all add: find_session_def)
  show ?thesis
    using assms
    by (cases sid) (auto simp: consume_def bind_act_def insert_ledger_def replay_result_def Let_def f
        ensure_wallet_user debit_balance_def audit_record_def validate_session_def debit_payload_ok
        split: option.split)
qed

lemma scope_Inl: "fst (m db) = Inl e \<Longrightarrow> session_scope m db = (Inl e, db)"
  by (cases "m db") (auto simp: session_scope_def transaction_def)

lemma scope_Inr: "m db = (Inr a, db') \<Longrightarrow> session_scope m db = (Inr a, db')"
  by (simp add: session_scope_def transaction_def)

lemma grant_conflict:
  assumes "users db uid \<noteq> None" "ledger_entry db uid key = Some e" "e \<noteq> (Credit, amount)"
    and "0 < amount" "bigint_ok amount" "jsonb_ok meta" "text_ok (Some key)"
  shows "session_scope (grant uid amount key meta reason) db = (Inl ConflictError, db)"
  by (rule scope_Inl)
    (use assms in \<open>auto simp: grant_value ledger_entry_def split: option.splits\<close>)

lemma consume_conflict:
  assumes "users db uid \<noteq> None" "ledger_entry db uid key = Some e" "e \<noteq> (Debit, amount)"
    and "0 < amount" "bigint_ok amount" "wallet_ready (meta, reason, sid) uid db" "text_ok (Some key)"
  shows "session_scope (consume uid amount key meta sid) db = (Inl ConflictError, db)"
proof (rule scope_Inl)
  have "\<not> (\<exists>i. sid = Some i \<and> find_session db i = None)" "jsonb_ok meta"
    "\<not> (\<exists>i s. sid = Some i \<and> find_session db i = Some s \<and> cs_user s \<noteq> uid)"
    using assms(6) by auto
  moreover obtain row where "existing_tx uid key db = Some row" "\<not> (l_type row = Debit \<and> l_amount row = amount)"
    using assms(2,3) by (auto simp: ledger_entry_def)
  ultimately show "fst (consume uid amount key meta sid db) = Inl ConflictError"
    using assms(4,5,7) by (simp only: consume_value[OF assms(1)] option.case if_False if_True not_le
        order.asym HOL.simp_thms) simp
qed

text \<open>Metadata that is no \<^verbatim>\<open>JSONB\<close> fails before the key is looked at.\<close>

lemma unstorable_fails:
  assumes "users db uid \<noteq> None" "0 < amount" "\<not> jsonb_ok meta"
  shows "session_scope (grant uid amount key meta reason) db = (Inl DbError, db)"
    "session_scope (consume uid amount key meta None) db = (Inl DbError, db)"
  by (rule scope_Inl; use assms in \<open>simp add: grant_value consume_value\<close>)+

lemma wallet_inv_user: "wallet_inv db \<Longrightarrow> wallets db u \<noteq> None \<Longrightarrow> users db u \<noteq> None"
  by (simp add: wallet_inv_def)

lemma grant_records:
  "grant uid a key meta reason db = (Inr res, db') \<Longrightarrow> ledger_entry db' uid key = Some (Credit, a)"
  using grant_Inr fresh_entry(2) replay_entry
  by (metis ledger_entry_def replay_outcome_def touched_sel(3))

lemma consume_records:
  "consume uid a key meta sid db = (Inr res, db') \<Longrightarrow> ledger_entry db' uid key = Some (Debit, a)"
  using consume_Inr fresh_entry(2) replay_entry
  by (metis ledger_entry_def replay_outcome_def touched_sel(3))

text \<open>
  C9: a credit is applied at most once. After a grant was committed, and whatever wallet requests are
  served afterwards, the same grant answers with the replay flag and the current balance and leaves
  the database as it is, while any other use of its key (another amount, or a debit) is refused
  with a conflict and leaves the database as it is too. A repetition whose metadata PostgreSQL does not
  take as JSON fails before its key is compared, and changes nothing either.
\<close>

theorem credit_exactly_once:
  assumes "wallet_inv db" "session_scope (grant uid a key meta reason) db = (Inr res, db1)"
  shows "if jsonb_ok meta'
    then (\<exists>res'. session_scope (grant uid a key meta' reason') (wallet_run reqs db1)
             = (Inr res', wallet_run reqs db1)
           \<and> wr_replay res' \<and> wr_balance res' = current_balance uid (wallet_run reqs db1))
    \<and> (\<forall>b. b \<noteq> a \<and> 0 < b \<and> bigint_ok b \<longrightarrow>
         session_scope (grant uid b key meta' reason') (wallet_run reqs db1)
           = (Inl ConflictError, wallet_run reqs db1))
    \<and> (\<forall>b. 0 < b \<and> bigint_ok b \<longrightarrow>
         session_scope (consume uid b key meta' None) (wallet_run reqs db1)
           = (Inl ConflictError, wallet_run reqs db1))
    else (\<forall>b. 0 < b \<longrightarrow>
         session_scope (grant uid b key meta' reason') (wallet_run reqs db1) = (Inl DbError, wallet_run reqs db1)
       \<and> session_scope (consume uid b key meta' None) (wallet_run reqs db1) = (Inl DbError, wallet_run reqs db1))"
proof -
  let ?d = "wallet_run reqs db1"
  have g: "grant uid a key meta reason db = (Inr res, db1)"
    using assms(2) by (simp add: session_scope_def transaction_Inr_iff)
  have inv1: "wallet_inv db1" using grant_keeps_inv[OF assms(1) g] .
  have inv: "wallet_inv ?d" by (rule wallet_run_inv[OF inv1])
  have ent: "ledger_entry ?d uid key = Some (Credit, a)"
    by (rule wallet_run_keeps_entry[OF inv1 grant_records[OF g] ])
  have usr: "users ?d uid \<noteq> None" and ktext: "text_ok (Some key)"
    using wallet_inv_user[OF inv] ledger_entry_pos[OF inv ent] by blast+
  show ?thesis
  proof (cases "jsonb_ok meta'")
    case True
    obtain res' where "grant uid a key meta' reason' ?d = (Inr res', ?d)" "wr_replay res'"
      "wr_balance res' = current_balance uid ?d"
      using grant_known[OF inv ent True] by blast
    moreover from this(1) have "session_scope (grant uid a key meta' reason') ?d = (Inr res', ?d)"
      by (rule scope_Inr)
    moreover have "wallet_ready (meta', reason', None) uid ?d" using True by simp
    ultimately show ?thesis
      using True ktext grant_conflict[OF usr ent] consume_conflict[OF usr ent, of _ meta' reason' None]
      by (simp only: if_True) (intro conjI exI[of _ res'] allI impI; auto)
  next
    case False
    with unstorable_fails[OF usr] show ?thesis by simp
  qed
qed

text \<open>A database with one provisioned user, on which the hypotheses of the theorems are shown to hold.\<close>

definition demo_db :: db where
  "demo_db = snd (provision_user 7 (empty_db of_nat 0))"

lemma demo_db_sel [simp]:
  "users demo_db = (\<lambda>_. None)(7 \<mapsto> \<lparr>u_created = 0, u_trial_used = False, u_display_name = None\<rparr>)"
  "wallets demo_db = (\<lambda>_. None)" "ledger demo_db = []" "sessions demo_db = []"
  "db_next demo_db = 0" "db_gen demo_db = of_nat" "db_now demo_db = 0"
  "subscriptions demo_db = (\<lambda>_. None)" "byok_keys demo_db = (\<lambda>_. None)"
  "adapty_events demo_db = []" "cp_events demo_db = []" "steps demo_db = []"
  "tool_calls demo_db = []" "next_seq demo_db = 1" "audit_logs demo_db = []"
  "identities demo_db = []" "devices demo_db = []" "refresh_tokens demo_db = []"
  "projects demo_db = []" "site_files demo_db = []" "preferences demo_db = (\<lambda>_. None)"
  "db_rid demo_db = None"
  by (simp_all add: demo_db_def provision_user_def empty_db_def)

lemma demo_db_inv: "wallet_inv demo_db"
  unfolding demo_db_def
  by (rule provision_keeps_wallet_inv[OF wallet_inv_empty prod.collapse[symmetric] ])

theorem credit_exactly_once_witness:
  "\<exists>res db1 res'. session_scope (grant 7 10 ''k'' (JObj []) ''r'') demo_db = (Inr res, db1)
     \<and> session_scope (grant 7 10 ''k'' (JObj []) ''r'') (wallet_run [] db1) = (Inr res', wallet_run [] db1)
     \<and> wr_replay res'"
proof -
  have "fst (session_scope (grant 7 10 ''k'' (JObj []) ''r'') demo_db)
      = Inr \<lparr>wr_balance = 10, wr_tx = 0, wr_replay = False\<rparr>"
    by (simp add: session_scope_def grant_value bigint_ok_def existing_tx_def current_balance_def)
  then obtain db1 where "session_scope (grant 7 10 ''k'' (JObj []) ''r'') demo_db
      = (Inr \<lparr>wr_balance = 10, wr_tx = 0, wr_replay = False\<rparr>, db1)"
    by (metis prod.collapse)
  with credit_exactly_once[OF demo_db_inv this, of "JObj []" "''r''" "[]"] show ?thesis by auto
qed

lemma consume_effect:
  assumes "wallet_inv db" "session_scope (consume uid amount key meta sid) db = (r, db')"
  shows "\<forall>u. current_balance u db' = current_balance u db
       - (if u = uid \<and> (\<exists>res. r = Inr res \<and> \<not> wr_replay res) then amount else 0)"
    and "(\<exists>res. r = Inr res \<and> \<not> wr_replay res) \<or> db' = db"
    and "wallet_frame db' = wallet_frame db"
proof -
  consider (err) e where "r = Inl e" "db' = db"
    | (fresh) res where "r = Inr res" "fresh_outcome uid Debit amount meta key db res db'"
    | (replay) res where "r = Inr res" "wr_replay res" "db' = db"
  proof (cases r)
    case (Inl e)
    with assms(2) that(1) show ?thesis by (auto simp: session_scope_def dest: transaction_Inl_state)
  next
    case (Inr res)
    with assms(2) have "consume uid amount key meta sid db = (Inr res, db')"
      by (simp add: session_scope_def transaction_Inr_iff)
    from consume_Inr[OF this] show ?thesis
    proof (elim conjE disjE)
      assume "fresh_outcome uid Debit amount meta key db res db'"
      with Inr that(2) show ?thesis by blast
    next
      assume rep: "replay_outcome uid Debit amount key db res db'"
      then have "wr_replay res" by (simp add: replay_outcome_def)
      with Inr that(3) replay_state[OF assms(1) rep] show ?thesis by blast
    qed
  qed
  note outcome = this
  from outcome show "\<forall>u. current_balance u db' = current_balance u db
        - (if u = uid \<and> (\<exists>res. r = Inr res \<and> \<not> wr_replay res) then amount else 0)"
  proof cases
    case fresh
    then show ?thesis using fresh_entry(4)[OF fresh(2)] by (simp add: fresh_outcome_def)
  qed auto
  from outcome show "(\<exists>res. r = Inr res \<and> \<not> wr_replay res) \<or> db' = db"
    by cases (auto simp: fresh_outcome_def)
  from outcome show "wallet_frame db' = wallet_frame db"
    by cases (auto dest: fresh_entry(5))
qed

text \<open>
  C10: what a debit request answers, on every branch in the order of the checks: a non-positive amount
  is a conflict; an unknown session is 404 and a foreign one 403, before anything is written; an amount
  outside 64 bits, metadata that is no JSON to PostgreSQL (NaN, an infinity, a NUL) or a key with a NUL
  is a database error; a used key is replayed when type and amount match and is a conflict otherwise; a
  free key is refused for lack of credits exactly when the balance is below the amount, fails when the
  request id cannot be stored in the audit row, and is debited otherwise. A refused
  request leaves the database unchanged, ledger row included; an accepted one takes the amount off
  the user's balance, unless it was a replay, and no one else's.
\<close>

theorem consume_spec:
  assumes "wallet_inv db" "users db uid \<noteq> None"
    and "session_scope (consume uid amount key meta sid) db = (r, db')"
  shows "r = (if amount \<le> 0 then Inl ConflictError
     else if \<exists>i. sid = Some i \<and> find_session db i = None then Inl SessionNotFoundError
     else if \<exists>i s. sid = Some i \<and> find_session db i = Some s \<and> cs_user s \<noteq> uid
       then Inl ForbiddenError
     else if \<not> bigint_ok amount \<or> \<not> jsonb_ok meta \<or> \<not> text_ok (Some key) then Inl DbError
     else (case existing_tx uid key db of
       Some row \<Rightarrow> if l_type row = Debit \<and> l_amount row = amount
         then Inr \<lparr>wr_balance = current_balance uid db, wr_tx = l_id row, wr_replay = True\<rparr>
         else Inl ConflictError
     | None \<Rightarrow> if current_balance uid db < amount then Inl InsufficientCreditsError
         else if \<not> text_ok (db_rid db) then Inl DbError
         else Inr \<lparr>wr_balance = current_balance uid db - amount,
           wr_tx = db_gen db (db_next db), wr_replay = False\<rparr>))
   \<and> (\<forall>u. current_balance u db' = current_balance u db
        - (if u = uid \<and> (\<exists>res. r = Inr res \<and> \<not> wr_replay res) then amount else 0))
   \<and> ((\<exists>res. r = Inr res \<and> \<not> wr_replay res) \<or> db' = db)
   \<and> wallet_frame db' = wallet_frame db"
proof -
  have "r = fst (consume uid amount key meta sid db)"
    using assms(3) by (metis fst_conv session_scope_def transaction_fst)
  note answer = consume_value[OF assms(2), of amount key meta sid, folded this]
  show ?thesis by (intro conjI answer consume_effect[OF assms(1,3)])
qed

theorem consume_spec_witness:
  "\<exists>db'. session_scope (consume 7 1 ''k'' (JObj []) None) demo_db = (Inl InsufficientCreditsError, db')
     \<and> db' = demo_db"
proof -
  obtain r db' where s: "session_scope (consume 7 1 ''k'' (JObj []) None) demo_db = (r, db')"
    by fastforce
  have u: "users demo_db 7 \<noteq> None" by simp
  note c = consume_spec[OF demo_db_inv u s]
  have "r = Inl InsufficientCreditsError"
    using conjunct1[OF c] by (simp add: bigint_ok_def existing_tx_def current_balance_def)
  moreover note conjunct1[OF conjunct2[OF conjunct2[OF c] ] ]
  ultimately show ?thesis using s by auto
qed

end
