(* ===== verification/Config.thy ===== *)
theory Config
  imports Prelude
begin

text \<open>
  The settings of \<^verbatim>\<open>app/config.py\<close> the modelled services read, and the methods that interpret the
  raw values: product tables, payment statuses, model allowlists, PEM keys, domain and audience.
  \<^verbatim>\<open>json.loads\<close> is a parameter (\<^verbatim>\<open>None\<close> where it raises \<^verbatim>\<open>ValueError\<close>), and so is reading a file.
\<close>

record settings =
  llm_provider :: string
  anthropic_models_raw :: string
  openai_models_raw :: string
  openai_api_key :: string
  openai_model :: string
  deep_thinking_model :: string
  anthropic_model :: string
  openai_byok_default_model :: string
  byok_default_model :: string
  deep_thinking_effort :: string
  openai_search_context_size :: string
  image_credits_cost :: int
  image_default_size :: string
  image_default_quality :: string
  image_output_format :: string
  image_max_bytes :: int
  temporary_image_ttl_seconds :: int
  image_sweep_batch_size :: int
  jwt_private_key :: string
  jwt_private_key_path :: string
  jwt_public_key :: string
  jwt_public_key_path :: string
  jwt_jwks_url :: string
  jwt_issuer :: string
  jwt_audience :: string
  jwt_kid :: string
  auth_access_ttl_seconds :: int
  auth_refresh_ttl_seconds :: int
  auth_jwks_enabled :: bool
  apple_oidc_issuer :: string
  apple_test_mode :: bool
  apple_test_secret :: string
  rate_limit_chat_per_user :: int
  rate_limit_chat_per_device :: int
  rate_limit_chat_per_ip :: int
  rate_limit_other_per_user :: int
  rate_limit_window_seconds :: int
  admin_rate_limit_per_min :: int
  auth_rate_limit_per_ip :: int
  cloudpayments_webhook_rate_limit_per_ip :: int
  trusted_proxy_hop_count :: int
  appstore_bundle_id :: string
  apple_audience :: string
  subscription_credits_per_period :: int
  adapty_webhook_secret :: string
  adapty_product_tokens_raw :: string
  adapty_subscription_tokens_grant :: int
  cloudpayments_product_tokens_raw :: string
  cloudpayments_subscription_tokens_grant :: int
  cloudpayments_paid_statuses_raw :: string
  cloudpayments_payment_freshness_hours :: int
  cloudpayments_app_id :: string
  cloudpayments_api_token :: string
  token_products_raw :: string
  admin_api_secret :: string
  admin_api_secret_prev :: string
  preview_url_secret :: string
  preview_url_ttl_seconds :: int
  preview_max_file_bytes :: int
  preview_max_project_bytes :: int
  preview_max_files :: int
  max_server_tool_rounds :: int
  service_domain :: string
  session_soft_ttl_seconds :: int
  attachment_max_count :: int
  attachment_max_bytes_image :: int
  attachment_max_bytes_document :: int
  attachment_total_bytes :: int
  attachment_pdf_max_pages :: int
  workspace_file_max_count :: int
  workspace_file_max_bytes :: int
  workspace_files_total_bytes :: int
  workspace_context_max_chars :: int
  wallet_last_transactions :: int

type_synonym json_loads = "string \<Rightarrow> json option"

section \<open>Product tables\<close>

text \<open>Only the entries whose value is a positive integer survive; \<^verbatim>\<open>bool\<close>, a subclass of \<^verbatim>\<open>int\<close> in
  Python, is a constructor of its own here.\<close>

definition positive_ints :: "(string \<times> json) list \<Rightarrow> (string \<times> int) list" where
  "positive_ints kvs = List.map_filter (\<lambda>(k, v). case v of
     JInt i \<Rightarrow> if i \<le> 0 then None else Some (k, i) | _ \<Rightarrow> None) kvs"

definition or_default :: "string \<Rightarrow> string \<Rightarrow> string" where
  "or_default s d = (if s = [] then d else s)"

definition token_products :: "json_loads \<Rightarrow> settings \<Rightarrow> (string \<times> int) list" where
  "token_products loads cfg = (case loads (or_default (token_products_raw cfg) ''{}'') of
     Some (JObj kvs) \<Rightarrow> positive_ints kvs | _ \<Rightarrow> [])"

definition adapty_product_tokens :: "json_loads \<Rightarrow> settings \<Rightarrow> (string \<times> int) list" where
  "adapty_product_tokens loads cfg =
    (case loads (or_default (adapty_product_tokens_raw cfg) ''{}'') of
       Some (JObj kvs) \<Rightarrow> positive_ints kvs | _ \<Rightarrow> [])"

definition cloudpayments_product_tokens :: "json_loads \<Rightarrow> settings \<Rightarrow> (string \<times> int) list" where
  "cloudpayments_product_tokens loads cfg =
    (case loads (or_default (cloudpayments_product_tokens_raw cfg) ''{}'') of
       Some (JObj kvs) \<Rightarrow> positive_ints kvs | _ \<Rightarrow> [])"

lemma positive_ints_all: "list_all (\<lambda>(k, n). 0 < n) (positive_ints kvs)"
  by (induction kvs)
    (auto simp: positive_ints_def List.map_filter_simps split: json.splits if_splits)

lemma positive_ints_pos: "map_of (positive_ints kvs) k = Some n \<Longrightarrow> 0 < n"
  by (induction kvs)
    (auto simp: positive_ints_def List.map_filter_simps split: json.splits if_splits)

lemma positive_ints_get:
  assumes "distinct (map fst kvs)"
  shows "map_of (positive_ints kvs) k = Some n \<longleftrightarrow> map_of kvs k = Some (JInt n) \<and> 0 < n"
  using assms
proof (induction kvs)
  case (Cons kv kvs)
  obtain k' v where kv: "kv = (k', v)" by (cases kv)
  have "k' \<notin> fst ` set (positive_ints kvs)"
    using Cons.prems by (force simp: kv positive_ints_def List.map_filter_def split: json.splits if_splits)
  then have "map_of (positive_ints kvs) k' = None" by (simp add: map_of_eq_None_iff)
  moreover have "map_of kvs k' = None" using Cons.prems by (simp add: kv map_of_eq_None_iff)
  ultimately show ?case
    using Cons by (auto simp: kv positive_ints_def List.map_filter_simps split: json.splits if_splits)
qed (simp add: positive_ints_def List.map_filter_simps)

section \<open>CloudPayments\<close>

definition clamp_freshness_hours :: "int \<Rightarrow> int" where
  "clamp_freshness_hours v = (if v > 0 then v else 72)"

definition paid_status_items :: "json list \<Rightarrow> string list" where
  "paid_status_items items = List.map_filter (\<lambda>v. case v of
     JStr s \<Rightarrow> if py_strip s \<noteq> [] then Some (py_lower (py_strip s)) else None | _ \<Rightarrow> None) items"

definition cloudpayments_paid_statuses :: "json_loads \<Rightarrow> settings \<Rightarrow> string list" where
  "cloudpayments_paid_statuses loads cfg =
    (let raw = py_strip (cloudpayments_paid_statuses_raw cfg) in
     if raw = [] then [''succeeded'']
     else (let statuses =
             (if starts_with ''['' raw
              then (case loads raw of Some (JArr items) \<Rightarrow> paid_status_items items | _ \<Rightarrow> [])
              else filter (\<lambda>t. t \<noteq> []) (map (\<lambda>p. py_lower (py_strip p)) (split_on CHR '','' raw)))
           in if statuses \<noteq> [] then statuses else [''succeeded'']))"

definition cloudpayments_checkout_configured :: "settings \<Rightarrow> bool" where
  "cloudpayments_checkout_configured cfg \<longleftrightarrow>
     cloudpayments_app_id cfg \<noteq> [] \<and> cloudpayments_api_token cfg \<noteq> []"

section \<open>Models\<close>

definition norm_name :: "string \<Rightarrow> string" where
  "norm_name s = py_lower (py_strip s)"

definition default_model :: "settings \<Rightarrow> string" where
  "default_model cfg = (if norm_name (llm_provider cfg) = ''openai'' then openai_model cfg
     else anthropic_model cfg)"

definition byok_default_model_for :: "settings \<Rightarrow> string \<Rightarrow> string" where
  "byok_default_model_for cfg provider = (if norm_name provider = ''openai''
     then openai_byok_default_model cfg else byok_default_model cfg)"

fun parsed_models :: "(string \<times> json) list \<Rightarrow> (string \<times> string) list \<Rightarrow> (string \<times> string) list" where
  "parsed_models [] acc = acc"
| "parsed_models ((k, v) # kvs) acc = parsed_models kvs
     (let key = py_strip k in
      if key = [] then acc
      else (case v of JStr s \<Rightarrow> if s = [] then acc else dict_put acc key s | _ \<Rightarrow> acc))"

definition allowed_models_for :: "json_loads \<Rightarrow> settings \<Rightarrow> string \<Rightarrow> (string \<times> string) list" where
  "allowed_models_for loads cfg provider =
    (let is_openai = (norm_name provider = ''openai'');
         raw = (if is_openai then openai_models_raw cfg else anthropic_models_raw cfg);
         parsed = (case loads (or_default raw ''{}'') of Some v \<Rightarrow> v | None \<Rightarrow> JObj []);
         models = (case parsed of JObj kvs \<Rightarrow> parsed_models kvs [] | _ \<Rightarrow> []);
         default = (if is_openai then openai_model cfg else anthropic_model cfg)
     in if models = [] then [(default, default)]
        else if map_of models default \<noteq> None then models
        else (default, default) # models)"

definition allowed_models :: "json_loads \<Rightarrow> settings \<Rightarrow> (string \<times> string) list" where
  "allowed_models loads cfg = allowed_models_for loads cfg (norm_name (llm_provider cfg))"

lemma parsed_models_distinct:
  "distinct (map fst acc) \<Longrightarrow> distinct (map fst (parsed_models kvs acc))"
  by (induction kvs acc rule: parsed_models.induct)
    (auto simp: Let_def dict_put_distinct split: json.splits)

lemma norm_name_idem [simp]: "norm_name (norm_name s) = norm_name s"
  by (simp add: norm_name_def py_strip_lower)

text \<open>
  the model allowlist of an instance is never empty, has no repeated id, and always contains the
  model the instance falls back to when a request selects none, whatever the environment variable
  holds and even when it is not JSON.
\<close>

lemma default_model_allowed:
  "map_of (allowed_models loads cfg) (default_model cfg) \<noteq> None
   \<and> distinct (map fst (allowed_models loads cfg))"
proof -
  let ?def = "if norm_name (llm_provider cfg) = ''openai'' then openai_model cfg
    else anthropic_model cfg"
  have d: "default_model cfg = ?def" by (simp add: default_model_def)
  have "map_of (allowed_models_for loads cfg p) def \<noteq> None
      \<and> distinct (map fst (allowed_models_for loads cfg p))"
    if "def = (if norm_name p = ''openai'' then openai_model cfg else anthropic_model cfg)" for p def
    using that parsed_models_distinct[of "[]"]
    by (auto simp: allowed_models_for_def Let_def map_of_eq_None_iff split: json.splits option.splits)
  from this[of ?def "norm_name (llm_provider cfg)"] show ?thesis
    unfolding d allowed_models_def by (simp only: norm_name_idem simp_thms)
qed

section \<open>Values with a safe default\<close>

definition resolved_deep_thinking_effort :: "settings \<Rightarrow> string" where
  "resolved_deep_thinking_effort cfg = (let v = norm_name (deep_thinking_effort cfg) in
     if v \<in> {''low'', ''medium'', ''high''} then v else ''medium'')"

definition resolved_search_context_size :: "settings \<Rightarrow> string" where
  "resolved_search_context_size cfg = (let v = norm_name (openai_search_context_size cfg) in
     if v \<in> {''low'', ''medium'', ''high''} then v else ''medium'')"

definition IMAGE_SIZE_VALUES :: "string set" where
  "IMAGE_SIZE_VALUES = {''1024x1024'', ''1024x1536'', ''1536x1024'', ''auto''}"

definition IMAGE_QUALITY_VALUES :: "string set" where
  "IMAGE_QUALITY_VALUES = {''low'', ''medium'', ''high'', ''auto''}"

definition IMAGE_OUTPUT_FORMAT_VALUES :: "string set" where
  "IMAGE_OUTPUT_FORMAT_VALUES = {''png'', ''jpeg'', ''webp''}"

definition resolved_image_size :: "settings \<Rightarrow> string" where
  "resolved_image_size cfg = (let v = norm_name (image_default_size cfg) in
     if v \<in> IMAGE_SIZE_VALUES then v else ''1024x1024'')"

definition resolved_image_quality :: "settings \<Rightarrow> string" where
  "resolved_image_quality cfg = (let v = norm_name (image_default_quality cfg) in
     if v \<in> IMAGE_QUALITY_VALUES then v else ''high'')"

definition resolved_image_output_format :: "settings \<Rightarrow> string" where
  "resolved_image_output_format cfg = (let v = norm_name (image_output_format cfg) in
     if v \<in> IMAGE_OUTPUT_FORMAT_VALUES then v else ''png'')"

section \<open>Keys, audience and domain\<close>

text \<open>\<^verbatim>\<open>s.replace("\\n", "\n")\<close>: a backslash followed by an n becomes a newline.\<close>

fun unescape_newlines :: "string \<Rightarrow> string" where
  "unescape_newlines (c # d # s) = (if c = CHR 0x5C \<and> d = CHR ''n''
     then CHR 0x0A # unescape_newlines s else c # unescape_newlines (d # s))"
| "unescape_newlines s = s"

definition resolve_pem :: "(string \<Rightarrow> string) \<Rightarrow> string \<Rightarrow> string \<Rightarrow> string" where
  "resolve_pem read_file path_value string_value =
    (if path_value \<noteq> [] then read_file path_value
     else if string_value \<noteq> [] then unescape_newlines string_value
     else [])"

definition resolve_private_key :: "(string \<Rightarrow> string) \<Rightarrow> settings \<Rightarrow> string" where
  "resolve_private_key read_file cfg =
     resolve_pem read_file (jwt_private_key_path cfg) (jwt_private_key cfg)"

definition resolve_public_key :: "(string \<Rightarrow> string) \<Rightarrow> settings \<Rightarrow> string" where
  "resolve_public_key read_file cfg =
     resolve_pem read_file (jwt_public_key_path cfg) (jwt_public_key cfg)"

definition apple_audience_resolved :: "settings \<Rightarrow> string" where
  "apple_audience_resolved cfg = (let explicit = py_strip (apple_audience cfg) in
     if explicit \<noteq> [] then explicit else py_strip (appstore_bundle_id cfg))"

text \<open>\<^verbatim>\<open>s.strip("/")\<close>.\<close>

definition strip_slashes :: "string \<Rightarrow> string" where
  "strip_slashes s = rev (dropWhile (\<lambda>c. c = CHR ''/'') (rev (dropWhile (\<lambda>c. c = CHR ''/'') s)))"

definition normalized_service_domain :: "settings \<Rightarrow> string" where
  "normalized_service_domain cfg =
    (let value = py_strip (service_domain cfg); lowered = py_lower value;
         bare = (if starts_with ''https://'' lowered then drop 8 value
                 else if starts_with ''http://'' lowered then drop 7 value
                 else value)
     in strip_slashes bare)"

lemma strip_slashes_idem [simp]: "strip_slashes (strip_slashes s) = strip_slashes s"
proof -
  let ?sl = "\<lambda>c. c = CHR ''/''"
  define t where "t = dropWhile ?sl s"
  have s: "strip_slashes s = rev (dropWhile ?sl (rev t))" by (simp add: strip_slashes_def t_def)
  have "dropWhile ?sl (rev (dropWhile ?sl (rev t))) = rev (dropWhile ?sl (rev t))"
  proof (cases "rev (dropWhile ?sl (rev t))")
    case (Cons c cs)
    have "t = rev (dropWhile ?sl (rev t)) @ rev (takeWhile ?sl (rev t))"
      by (metis rev_append rev_rev_ident takeWhile_dropWhile_id)
    with Cons have "t = c # cs @ rev (takeWhile ?sl (rev t))" by simp
    then have "\<not> ?sl c" unfolding t_def by (metis (mono_tags, lifting) dropWhile_eq_Cons_conv)
    with Cons show ?thesis by simp
  next
    case Nil
    show ?thesis unfolding Nil by simp
  qed
  then have e: "dropWhile ?sl (strip_slashes s) = strip_slashes s" by (simp only: s)
  show ?thesis
    by (simp only: strip_slashes_def[of "strip_slashes s"] e) (simp only: s rev_rev_ident dropWhile_idem)
qed

lemma normalized_service_domain_stripped:
  "strip_slashes (normalized_service_domain cfg) = normalized_service_domain cfg"
  by (simp add: normalized_service_domain_def Let_def)

text \<open>
  however the environment is filled in, the settings hand only usable values to the services:
  every credit table maps products to positive amounts only, the set of statuses that count as paid
  is never empty, the freshness window is positive, the image and reasoning parameters are among
  those the provider accepts, and no slash is left at either end of the service domain.
\<close>

lemma settings_values_safe:
  "list_all (\<lambda>(p, n). 0 < n) (token_products loads cfg)
   \<and> list_all (\<lambda>(p, n). 0 < n) (adapty_product_tokens loads cfg)
   \<and> list_all (\<lambda>(p, n). 0 < n) (cloudpayments_product_tokens loads cfg)
   \<and> cloudpayments_paid_statuses loads cfg \<noteq> []
   \<and> 0 < clamp_freshness_hours h
   \<and> resolved_image_size cfg \<in> IMAGE_SIZE_VALUES
   \<and> resolved_image_quality cfg \<in> IMAGE_QUALITY_VALUES
   \<and> resolved_image_output_format cfg \<in> IMAGE_OUTPUT_FORMAT_VALUES
   \<and> resolved_deep_thinking_effort cfg \<in> {''low'', ''medium'', ''high''}
   \<and> resolved_search_context_size cfg \<in> {''low'', ''medium'', ''high''}
   \<and> strip_slashes (normalized_service_domain cfg) = normalized_service_domain cfg"
proof -
  have "list_all (\<lambda>(p, n). 0 < n) (token_products loads cfg)"
    "list_all (\<lambda>(p, n). 0 < n) (adapty_product_tokens loads cfg)"
    "list_all (\<lambda>(p, n). 0 < n) (cloudpayments_product_tokens loads cfg)"
    using positive_ints_all
    by (auto simp: token_products_def adapty_product_tokens_def cloudpayments_product_tokens_def
        split: option.splits json.splits)
  moreover have "cloudpayments_paid_statuses loads cfg \<noteq> []"
    by (simp add: cloudpayments_paid_statuses_def Let_def)
  moreover have "resolved_image_size cfg \<in> IMAGE_SIZE_VALUES"
    "resolved_image_quality cfg \<in> IMAGE_QUALITY_VALUES"
    "resolved_image_output_format cfg \<in> IMAGE_OUTPUT_FORMAT_VALUES"
    "resolved_deep_thinking_effort cfg \<in> {''low'', ''medium'', ''high''}"
    "resolved_search_context_size cfg \<in> {''low'', ''medium'', ''high''}"
    by (auto simp: resolved_image_size_def resolved_image_quality_def Let_def IMAGE_SIZE_VALUES_def
        resolved_image_output_format_def resolved_deep_thinking_effort_def IMAGE_QUALITY_VALUES_def
        resolved_search_context_size_def IMAGE_OUTPUT_FORMAT_VALUES_def)
  moreover have "0 < clamp_freshness_hours h" by (simp add: clamp_freshness_hours_def)
  ultimately show ?thesis using normalized_service_domain_stripped by blast
qed

text \<open>The settings the theorems are instantiated with: the defaults of the program where they are
  numbers, empty strings elsewhere.\<close>

definition demo_cfg :: settings where
  "demo_cfg = \<lparr>llm_provider = ''anthropic'', anthropic_models_raw = ''{}'', openai_models_raw = ''{}'',
     openai_api_key = [], openai_model = ''gpt-4o'', deep_thinking_model = ''o4-mini'', anthropic_model = ''claude-sonnet-4-5'',
     openai_byok_default_model = ''gpt-4o'', byok_default_model = ''claude-sonnet-4-6'',
     deep_thinking_effort = ''medium'', openai_search_context_size = ''medium'',
     image_credits_cost = 5, image_default_size = ''1024x1024'', image_default_quality = ''high'',
     image_output_format = ''png'', image_max_bytes = 16777216, temporary_image_ttl_seconds = 86400, image_sweep_batch_size = 100,
     jwt_private_key = [], jwt_private_key_path = [], jwt_public_key = [], jwt_public_key_path = [],
     jwt_jwks_url = [], jwt_issuer = ''iss'', jwt_audience = [], jwt_kid = [],
     auth_access_ttl_seconds = 3600, auth_refresh_ttl_seconds = 2592000, auth_jwks_enabled = True,
     apple_oidc_issuer = ''https://appleid.apple.com'', apple_test_mode = False,
     apple_test_secret = [], rate_limit_chat_per_user = 2, rate_limit_chat_per_device = 2,
     rate_limit_chat_per_ip = 2, rate_limit_other_per_user = 2, rate_limit_window_seconds = 60,
     admin_rate_limit_per_min = 2, auth_rate_limit_per_ip = 2,
     cloudpayments_webhook_rate_limit_per_ip = 2, trusted_proxy_hop_count = 1,
     appstore_bundle_id = [], apple_audience = [], subscription_credits_per_period = 1000,
     adapty_webhook_secret = ''s'', adapty_product_tokens_raw = ''{}'',
     adapty_subscription_tokens_grant = 1000, cloudpayments_product_tokens_raw = ''{}'',
     cloudpayments_subscription_tokens_grant = 1000, cloudpayments_paid_statuses_raw = ''succeeded'',
     cloudpayments_payment_freshness_hours = 72, cloudpayments_app_id = ''app'',
     cloudpayments_api_token = ''tok'', token_products_raw = ''{}'', admin_api_secret = [],
     admin_api_secret_prev = [], preview_url_secret = ''s'', preview_url_ttl_seconds = 900,
     preview_max_file_bytes = 1048576, preview_max_project_bytes = 10485760,
     preview_max_files = 200, max_server_tool_rounds = 16, service_domain = [],
     session_soft_ttl_seconds = 86400, attachment_max_count = 10,
     attachment_max_bytes_image = 5242880, attachment_max_bytes_document = 8388608,
     attachment_total_bytes = 10485760, attachment_pdf_max_pages = 100, workspace_file_max_count = 20,
     workspace_file_max_bytes = 8388608, workspace_files_total_bytes = 33554432,
     workspace_context_max_chars = 200000, wallet_last_transactions = 20\<rparr>"

end
