(* ===== verification/StoreKit.thy ===== *)
theory StoreKit
  imports Errors Config
begin

text \<open>
  Verification of StoreKit transactions (\<^verbatim>\<open>app/subscription/storekit.py\<close>): the choice between the
  test branch and the real one, the certificate chain walk, and the normalisation of the payload.
  The cryptographic and JWT libraries, base64 and \<^verbatim>\<open>json.loads\<close> are the fields of the record
  \<^verbatim>\<open>crypto\<close>. Certificates are values of an abstract type. An exception other than
  \<^verbatim>\<open>ValidationFailedError\<close> that leaves the module is \<^verbatim>\<open>PyError\<close>.
\<close>

record verified_transaction =
  vt_transaction_id :: string
  vt_original_id :: string
  vt_product_id :: string
  vt_expires :: "int option"
  vt_revoked :: bool
  vt_environment :: string

record 'c crypto =
  cr_header :: "string \<Rightarrow> json option"
    \<comment> \<open>\<^verbatim>\<open>json.loads(b64url(segment))\<close>, \<^verbatim>\<open>None\<close> on \<^verbatim>\<open>ValueError\<close>\<close>
  cr_load_cert :: "json \<Rightarrow> 'c option"
    \<comment> \<open>\<^verbatim>\<open>load_der_x509_certificate(b64decode(cert))\<close>, \<^verbatim>\<open>None\<close> when it raises\<close>
  cr_signed_by :: "'c \<Rightarrow> 'c \<Rightarrow> app_error option"
    \<comment> \<open>\<^verbatim>\<open>_verify_signed_by(child, issuer)\<close>: the exception it raises, if any\<close>
  cr_der :: "'c \<Rightarrow> string"
  cr_leaf_cns :: "'c \<Rightarrow> string list option"
    \<comment> \<open>the common names of the subject, \<^verbatim>\<open>None\<close> when extracting them raises\<close>
  cr_decode_es256 :: "'c \<Rightarrow> string \<Rightarrow> (string \<times> json) list option"
  cr_decode_hs256 :: "string \<Rightarrow> string \<Rightarrow> (string \<times> json) list option"
    \<comment> \<open>\<^verbatim>\<open>jwt.decode\<close>, \<^verbatim>\<open>None\<close> on \<^verbatim>\<open>InvalidTokenError\<close>\<close>
  cr_pystr :: "json \<Rightarrow> string"
    \<comment> \<open>\<^verbatim>\<open>str(v)\<close> of a value that is not a string\<close>
  cr_from_ms :: "json \<Rightarrow> int option"
    \<comment> \<open>\<^verbatim>\<open>datetime.fromtimestamp(int(v) / 1000)\<close>, \<^verbatim>\<open>None\<close> when it raises\<close>

record 'c verifier =
  vf_bundle_id :: string
  vf_environment :: string
  vf_roots :: "'c list"
  vf_test_mode_flag :: bool
  vf_test_secret :: string
  vf_trust_any_xcode_cert :: bool

definition XCODE_TESTING_CERT_CN :: string where
  "XCODE_TESTING_CERT_CN = ''StoreKit Testing in Xcode''"

definition vf_test_mode :: "'c verifier \<Rightarrow> bool" where
  "vf_test_mode vf \<longleftrightarrow> vf_test_mode_flag vf \<and> vf_test_secret vf \<noteq> []"

definition leaf_cn_matches_xcode :: "'c crypto \<Rightarrow> 'c \<Rightarrow> bool" where
  "leaf_cn_matches_xcode cr leaf = (case cr_leaf_cns cr leaf of
     None \<Rightarrow> False
   | Some cns \<Rightarrow> if length cns \<noteq> 1 then False else cns ! 0 = XCODE_TESTING_CERT_CN)"

definition str_of :: "'c crypto \<Rightarrow> json \<Rightarrow> string" where
  "str_of cr v = (case v of JStr s \<Rightarrow> s | _ \<Rightarrow> cr_pystr cr v)"

definition get_or :: "(string \<times> json) list \<Rightarrow> string \<Rightarrow> json \<Rightarrow> json" where
  "get_or kvs k d = (case map_of kvs k of Some v \<Rightarrow> v | None \<Rightarrow> d)"

definition jws_header :: "'c crypto \<Rightarrow> string \<Rightarrow> app_error + (string \<times> json) list" where
  "jws_header cr jws = (case cr_header cr (hd (split_on CHR ''.'' jws)) of
     None \<Rightarrow> Inl ValidationFailedError
   | Some (JObj kvs) \<Rightarrow> Inr kvs
   | Some _ \<Rightarrow> Inl ValidationFailedError)"

fun load_certs :: "'c crypto \<Rightarrow> json list \<Rightarrow> app_error + 'c list" where
  "load_certs cr [] = Inr []"
| "load_certs cr (v # vs) = (case cr_load_cert cr v of
     None \<Rightarrow> Inl PyError
   | Some c \<Rightarrow> (case load_certs cr vs of Inl e \<Rightarrow> Inl e | Inr cs \<Rightarrow> Inr (c # cs)))"

definition load_certificate_chain :: "'c crypto \<Rightarrow> string \<Rightarrow> app_error + 'c list" where
  "load_certificate_chain cr jws = (case jws_header cr jws of
     Inl e \<Rightarrow> Inl e
   | Inr header \<Rightarrow> (case obj_get header ''x5c'' of
         JArr certs \<Rightarrow> if certs = [] then Inl ValidationFailedError else load_certs cr certs
       | _ \<Rightarrow> Inl ValidationFailedError))"

text \<open>The first loop of \<^verbatim>\<open>_verify_chain\<close>: each certificate is checked against the next one.\<close>

fun verify_links :: "'c crypto \<Rightarrow> 'c list \<Rightarrow> app_error option" where
  "verify_links cr (c # d # cs) = (case cr_signed_by cr c d of
     Some e \<Rightarrow> Some e | None \<Rightarrow> verify_links cr (d # cs))"
| "verify_links cr cs = None"

definition verify_chain :: "'c crypto \<Rightarrow> 'c list \<Rightarrow> 'c list \<Rightarrow> app_error option" where
  "verify_chain cr chain roots = (case verify_links cr chain of
     Some e \<Rightarrow> Some e
   | None \<Rightarrow>
       if cr_der cr (last chain) \<in> cr_der cr ` set roots then None
       else if list_ex (\<lambda>trusted. cr_signed_by cr (last chain) trusted = None) roots then None
       else Some ValidationFailedError)"

definition normalize_payload ::
  "'c crypto \<Rightarrow> 'c verifier \<Rightarrow> (string \<times> json) list \<Rightarrow> app_error + verified_transaction" where
  "normalize_payload cr vf payload =
    (if vf_bundle_id vf \<noteq> [] \<and> obj_get payload ''bundleId'' \<noteq> JStr (vf_bundle_id vf)
     then Inl ValidationFailedError
     else (let env = py_lower (str_of cr (get_or payload ''environment'' (JStr (vf_environment vf))));
               expires = (case obj_get payload ''expiresDate'' of
                   JNull \<Rightarrow> Inr None
                 | v \<Rightarrow> (case cr_from_ms cr v of None \<Rightarrow> Inl PyError | Some t \<Rightarrow> Inr (Some t)))
           in case expires of
                Inl e \<Rightarrow> Inl e
              | Inr exp \<Rightarrow> (case map_of payload ''transactionId'' of
                    None \<Rightarrow> Inl ValidationFailedError
                  | Some tid \<Rightarrow> Inr \<lparr>vt_transaction_id = str_of cr tid,
                      vt_original_id = str_of cr (get_or payload ''originalTransactionId'' tid),
                      vt_product_id = str_of cr (get_or payload ''productId'' (JStr [])),
                      vt_expires = exp,
                      vt_revoked = (obj_get payload ''revocationDate'' \<noteq> JNull),
                      vt_environment = env\<rparr>)))"

definition trust_xcode :: "'c crypto \<Rightarrow> 'c verifier \<Rightarrow> 'c \<Rightarrow> bool" where
  "trust_xcode cr vf leaf \<longleftrightarrow> vf_trust_any_xcode_cert vf \<and> leaf_cn_matches_xcode cr leaf"

definition verify_real_transaction ::
  "'c crypto \<Rightarrow> 'c verifier \<Rightarrow> string \<Rightarrow> app_error + verified_transaction" where
  "verify_real_transaction cr vf jws = (case load_certificate_chain cr jws of
     Inl e \<Rightarrow> Inl e
   | Inr chain \<Rightarrow>
       (let leaf = hd chain;
            anchored = (if trust_xcode cr vf leaf then None
              else if vf_roots vf = [] then Some ValidationFailedError
              else verify_chain cr chain (vf_roots vf))
        in case anchored of
             Some e \<Rightarrow> Inl e
           | None \<Rightarrow> (case cr_decode_es256 cr leaf jws of
                 None \<Rightarrow> Inl ValidationFailedError
               | Some payload \<Rightarrow> normalize_payload cr vf payload)))"

definition verify_test_transaction ::
  "'c crypto \<Rightarrow> 'c verifier \<Rightarrow> string \<Rightarrow> app_error + verified_transaction" where
  "verify_test_transaction cr vf jws = (case cr_decode_hs256 cr (vf_test_secret vf) jws of
     None \<Rightarrow> Inl ValidationFailedError
   | Some payload \<Rightarrow> normalize_payload cr vf payload)"

definition verify :: "'c crypto \<Rightarrow> 'c verifier \<Rightarrow> string \<Rightarrow> app_error + verified_transaction" where
  "verify cr vf jws =
    (if count_list jws CHR ''.'' \<noteq> 2 then Inl ValidationFailedError
     else case jws_header cr jws of
       Inl e \<Rightarrow> Inl e
     | Inr header \<Rightarrow>
         if str_of cr (get_or header ''alg'' (JStr [])) = ''HS256'' then
           (if \<not> vf_test_mode vf then Inl ValidationFailedError
            else verify_test_transaction cr vf jws)
         else verify_real_transaction cr vf jws)"

section \<open>What acceptance means\<close>

text \<open>Every certificate but the last was checked against its successor.\<close>

lemma verify_links_None:
  "verify_links cr cs = None \<longleftrightarrow>
     (\<forall>i. Suc i < length cs \<longrightarrow> cr_signed_by cr (cs ! i) (cs ! Suc i) = None)"
proof (induction cr cs rule: verify_links.induct)
  case (1 cr c d cs)
  show ?case
  proof (cases "cr_signed_by cr c d")
    case None
    then show ?thesis using 1[OF None]
      by (auto simp: nth_Cons less_Suc_eq_0_disj split: nat.splits)
  next
    case (Some e)
    then have "\<not> (\<forall>i. Suc i < length (c # d # cs) \<longrightarrow>
        cr_signed_by cr ((c # d # cs) ! i) ((c # d # cs) ! Suc i) = None)"
      by (intro notI) (erule allE[of _ 0], simp)
    with Some show ?thesis by simp
  qed
qed auto

lemma load_certs_nonempty: "load_certs cr vs = Inr cs \<Longrightarrow> vs \<noteq> [] \<Longrightarrow> cs \<noteq> []"
  by (cases vs) (auto split: option.splits sum.splits)

text \<open>
  C13: a StoreKit transaction is accepted only with proof of origin. Either the instance runs in test
  mode, with the flag set and a non-empty secret, and the transaction decodes under that secret; or
  its ES256 signature decodes under the leaf certificate of its own chain, and that chain is
  anchored: every certificate is signed by the next, and the last one is a configured Apple root or
  signed by one. Anchoring is waived only for a leaf whose sole common name is Xcode's testing
  name, and only when the instance opted in; without roots and without that waiver nothing is
  accepted.
\<close>

theorem verify_accepts_only_proven:
  assumes "verify cr vf jws = Inr vt"
  shows "(vf_test_mode_flag vf \<and> vf_test_secret vf \<noteq> []
        \<and> cr_decode_hs256 cr (vf_test_secret vf) jws \<noteq> None)
   \<or> (\<exists>chain. load_certificate_chain cr jws = Inr chain \<and> chain \<noteq> []
        \<and> cr_decode_es256 cr (hd chain) jws \<noteq> None
        \<and> ((vf_trust_any_xcode_cert vf
             \<and> cr_leaf_cns cr (hd chain) = Some [XCODE_TESTING_CERT_CN])
          \<or> (vf_roots vf \<noteq> []
             \<and> (\<forall>i. Suc i < length chain \<longrightarrow> cr_signed_by cr (chain ! i) (chain ! Suc i) = None)
             \<and> (\<exists>root \<in> set (vf_roots vf). cr_der cr (last chain) = cr_der cr root
                  \<or> cr_signed_by cr (last chain) root = None))))"
proof -
  from assms obtain header where h: "jws_header cr jws = Inr header"
    by (auto simp: verify_def split: if_splits sum.splits)
  show ?thesis
  proof (cases "str_of cr (get_or header ''alg'' (JStr [])) = ''HS256''")
    case True
    with assms h show ?thesis
      by (auto simp: verify_def verify_test_transaction_def vf_test_mode_def
          split: if_splits option.splits)
  next
    case False
    with assms h have real: "verify_real_transaction cr vf jws = Inr vt"
      by (auto simp: verify_def split: if_splits)
    then obtain chain where c: "load_certificate_chain cr jws = Inr chain"
      by (auto simp: verify_real_transaction_def split: sum.splits)
    have ne: "chain \<noteq> []"
      using c load_certs_nonempty
      by (auto simp: load_certificate_chain_def split: sum.splits json.splits if_splits)
    have dec: "cr_decode_es256 cr (hd chain) jws \<noteq> None"
      using real c by (auto simp: verify_real_transaction_def Let_def split: option.splits if_splits)
    have cn: "leaf_cn_matches_xcode cr l \<Longrightarrow> cr_leaf_cns cr l = Some [XCODE_TESTING_CERT_CN]" for l
      by (auto simp: leaf_cn_matches_xcode_def length_Suc_conv split: option.splits if_splits)
    show ?thesis
    proof (cases "trust_xcode cr vf (hd chain)")
      case True
      with c ne dec cn show ?thesis by (auto simp: trust_xcode_def)
    next
      case False
      with real c have "vf_roots vf \<noteq> []" "verify_chain cr chain (vf_roots vf) = None"
        by (auto simp: verify_real_transaction_def Let_def split: option.splits if_splits)
      then have "vf_roots vf \<noteq> []" "verify_links cr chain = None"
        "\<exists>root \<in> set (vf_roots vf). cr_der cr (last chain) = cr_der cr root
                  \<or> cr_signed_by cr (last chain) root = None"
        by (auto simp: verify_chain_def list_ex_iff split: option.splits if_splits)
      with c ne dec show ?thesis unfolding verify_links_None by blast
    qed
  qed
qed

section \<open>A concrete instance\<close>

text \<open>Certificates are numbers: 1 is the root, 0 the leaf it signed, 9 a stranger whose signature
  check raises. The transaction names which chain its header carries.\<close>

definition demo_crypto :: "nat crypto" where
  "demo_crypto = \<lparr>
     cr_header = (\<lambda>s. Some (JObj [(''alg'', JStr ''ES256''),
        (''x5c'', JArr (if s = ''forged'' then [JInt 0, JInt 9] else [JInt 0, JInt 1]))])),
     cr_load_cert = (\<lambda>v. case v of JInt i \<Rightarrow> Some (nat i) | _ \<Rightarrow> None),
     cr_signed_by = (\<lambda>c d. if c = 0 \<and> d = 1 then None else Some PyError),
     cr_der = (\<lambda>c. if c = 1 then ''root'' else ''other''),
     cr_leaf_cns = (\<lambda>_. Some [''Apple'']),
     cr_decode_es256 = (\<lambda>c s. Some [(''transactionId'', JStr ''tx1''), (''productId'', JStr ''pro'')]),
     cr_decode_hs256 = (\<lambda>k s. None),
     cr_pystr = (\<lambda>_. []),
     cr_from_ms = (\<lambda>_. None)\<rparr>"

definition demo_verifier :: "nat verifier" where
  "demo_verifier = \<lparr>vf_bundle_id = [], vf_environment = ''sandbox'', vf_roots = [1],
     vf_test_mode_flag = False, vf_test_secret = [], vf_trust_any_xcode_cert = False\<rparr>"

lemmas verify_eval = verify_def jws_header_def str_of_def get_or_def obj_get_def
  verify_real_transaction_def load_certificate_chain_def verify_chain_def trust_xcode_def
  leaf_cn_matches_xcode_def normalize_payload_def Let_def demo_crypto_def demo_verifier_def

lemma demo_verify:
  "verify demo_crypto demo_verifier ''h.p.s'' = Inr \<lparr>vt_transaction_id = ''tx1'',
     vt_original_id = ''tx1'', vt_product_id = ''pro'', vt_expires = None, vt_revoked = False,
     vt_environment = ''sandbox''\<rparr>"
  by (simp add: verify_eval py_lower_def lower_char_def)

theorem verify_accepts_only_proven_witness:
  "\<exists>chain. load_certificate_chain demo_crypto ''h.p.s'' = Inr chain \<and> chain \<noteq> []"
proof -
  have "\<not> vf_test_mode_flag demo_verifier" by (simp add: demo_verifier_def)
  with verify_accepts_only_proven[OF demo_verify] show ?thesis by blast
qed

text \<open>
  an exception raised while a link of the certificate chain is checked leaves \<^verbatim>\<open>verify\<close> as it is.
  The docstring promises \<^verbatim>\<open>ValidationFailedError\<close> (422) on any verification failure, but a chain
  whose signature does not verify makes the cryptographic library raise its own exception, which
  nothing on this path converts, so a forged chain is answered with 500.
\<close>

lemma forged_chain_error_escapes:
  assumes "count_list jws CHR ''.'' = 2" "jws_header cr jws = Inr header"
    and "str_of cr (get_or header ''alg'' (JStr [])) \<noteq> ''HS256''"
    and "load_certificate_chain cr jws = Inr chain" "\<not> trust_xcode cr vf (hd chain)"
    and "vf_roots vf \<noteq> []" "verify_links cr chain = Some e"
  shows "verify cr vf jws = Inl e"
  using assms by (simp add: verify_def verify_real_transaction_def verify_chain_def Let_def)

theorem forged_chain_error_escapes_witness:
  "verify demo_crypto demo_verifier ''forged.p.s'' = Inl PyError \<and> status_code PyError = 500"
proof
  show "verify demo_crypto demo_verifier ''forged.p.s'' = Inl PyError"
    by (rule forged_chain_error_escapes[where chain = "[0, 9]"
        and header = "[(''alg'', JStr ''ES256''), (''x5c'', JArr [JInt 0, JInt 9])]"])
      (simp_all add: verify_eval)
  show "status_code PyError = 500" by (simp add: status_code_def)
qed

end
