(* ===== verification/Purchases.thy ===== *)
theory Purchases
  imports Wallet StoreKit
begin

text \<open>
  The services that turn a purchase or an operator's decision into credits: subscription sync
  (\<^verbatim>\<open>app/subscription/service.py\<close>), consumable token purchases
  (\<^verbatim>\<open>app/token_purchase/service.py\<close>) and the admin grants (\<^verbatim>\<open>app/admin/service.py\<close>). The StoreKit
  verifier is the argument \<^verbatim>\<open>vfy\<close>; theory \<^verbatim>\<open>StoreKit\<close> models the one the program passes. The
  idempotency keys of the different paths have different prefixes.
\<close>

type_synonym storekit = "string \<Rightarrow> app_error + verified_transaction"

definition from_sum :: "app_error + 'a \<Rightarrow> 'a db_act" where
  "from_sum r = (case r of Inl e \<Rightarrow> raise e | Inr a \<Rightarrow> ret a)"

lemma from_sum_app [simp]: "from_sum r db = (r, db)"
  by (cases r) (simp_all add: from_sum_def)

definition none_if_empty :: "string \<Rightarrow> string option" where
  "none_if_empty s = (if s = [] then None else Some s)"

lemma none_if_empty_text [simp]: "text_ok (none_if_empty s) \<longleftrightarrow> CHR 0x00 \<notin> set s"
  by (simp add: none_if_empty_def)

section \<open>Subscription sync\<close>

record subscription_result =
  sr_is_subscribed :: bool
  sr_expires :: "time option"
  sr_plan :: "string option"

definition transaction_active :: "time \<Rightarrow> verified_transaction \<Rightarrow> bool" where
  "transaction_active now vt \<longleftrightarrow> \<not> vt_revoked vt
     \<and> (case vt_expires vt of None \<Rightarrow> False | Some e \<Rightarrow> now < e)"

definition put_subscription ::
  "time \<Rightarrow> uuid \<Rightarrow> sub_status \<Rightarrow> string option \<Rightarrow> time option \<Rightarrow> unit db_act" where
  "put_subscription now uid status plan expires = (\<lambda>db. if \<not> text_ok plan then (Inl DbError, db) else
   case subscriptions db uid of
     None \<Rightarrow> if users db uid = None then (Inl DbError, db)
       else (Inr (), db\<lparr>subscriptions := (subscriptions db)(uid \<mapsto>
         \<lparr>s_status = status, s_plan = plan, s_expires = expires, s_updated = db_now db\<rparr>)\<rparr>)
   | Some row \<Rightarrow> (Inr (), db\<lparr>subscriptions := (subscriptions db)(uid \<mapsto>
       row\<lparr>s_status := status, s_plan := plan, s_expires := expires, s_updated := now\<rparr>)\<rparr>))"

definition sub_grant_key :: "string \<Rightarrow> string" where
  "sub_grant_key tid = ''sub-grant:'' @ tid"

definition subscription_sync ::
  "storekit \<Rightarrow> settings \<Rightarrow> time \<Rightarrow> uuid \<Rightarrow> string \<Rightarrow> subscription_result db_act" where
  "subscription_sync vfy cfg now uid jws =
     bind_act (from_sum (vfy jws)) (\<lambda>vt.
     let active = transaction_active now vt;
         status = (if active then SubActive else SubExpired);
         plan = none_if_empty (vt_product_id vt) in
     bind_act (put_subscription now uid status plan (vt_expires vt)) (\<lambda>_.
     bind_act (if active
       then bind_act (grant uid (subscription_credits_per_period cfg)
           (sub_grant_key (vt_transaction_id vt))
           (JObj [(''reason'', JStr ''subscription_period''),
             (''transactionId'', JStr (vt_transaction_id vt)),
             (''productId'', JStr (vt_product_id vt))])
           ''subscription_period'') (\<lambda>_. ret ())
       else ret ()) (\<lambda>_.
     bind_act (audit_record uid None EVENT_SUBSCRIPTION_CHANGE
       [(''status'', JStr (if active then ''active'' else ''expired'')), (''plan'', opt_str plan),
        (''transactionId'', JStr (vt_transaction_id vt)),
        (''environment'', JStr (vt_environment vt)), (''revoked'', JBool (vt_revoked vt))]) (\<lambda>_.
     ret \<lparr>sr_is_subscribed = active, sr_expires = vt_expires vt, sr_plan = plan\<rparr>))))"

section \<open>Token purchase\<close>

record purchase_result =
  pu_credits_added :: int
  pu_new_balance :: int
  pu_transaction_id :: string

definition require_active_subscription :: "time \<Rightarrow> uuid \<Rightarrow> unit db_act" where
  "require_active_subscription now uid = (\<lambda>db.
     if ps_subscription (load_policy_state now uid db) \<noteq> SubActive
     then (Inl SubscriptionRequiredError, db) else (Inr (), db))"

definition credits_for_product :: "json_loads \<Rightarrow> settings \<Rightarrow> string \<Rightarrow> app_error + int" where
  "credits_for_product loads cfg pid = (case map_of (token_products loads cfg) pid of
     None \<Rightarrow> Inl ValidationFailedError | Some c \<Rightarrow> Inr c)"

definition token_purchase_key :: "string \<Rightarrow> string" where
  "token_purchase_key tid = ''token-purchase:'' @ tid"

definition purchase ::
  "storekit \<Rightarrow> json_loads \<Rightarrow> settings \<Rightarrow> time \<Rightarrow> uuid \<Rightarrow> string \<Rightarrow> purchase_result db_act" where
  "purchase vfy loads cfg now uid jws =
     bind_act (require_active_subscription now uid) (\<lambda>_.
     bind_act (from_sum (vfy jws)) (\<lambda>vt.
     bind_act (from_sum (credits_for_product loads cfg (vt_product_id vt))) (\<lambda>credits.
     bind_act (grant uid credits (token_purchase_key (vt_transaction_id vt))
       (JObj [(''source'', JStr ''token_purchase''), (''productId'', JStr (vt_product_id vt)),
         (''transactionId'', JStr (vt_transaction_id vt))])
       ''token_purchase'') (\<lambda>res.
     ret \<lparr>pu_credits_added = (if wr_replay res then 0 else credits),
       pu_new_balance = wr_balance res, pu_transaction_id = vt_transaction_id vt\<rparr>))))"

section \<open>Admin\<close>

record admin_subscription_result =
  as_expires :: time
  as_plan :: string
  as_credits_granted :: int
  as_new_balance :: "int option"
  as_tx :: "uuid option"
  as_replay :: "bool option"

definition require_user_exists :: "uuid \<Rightarrow> unit db_act" where
  "require_user_exists uid = (\<lambda>db. if users db uid = None then (Inl UserNotFoundError, db)
     else (Inr (), db))"

definition admin_grant :: "uuid \<Rightarrow> int \<Rightarrow> string \<Rightarrow> string \<Rightarrow> wallet_result db_act" where
  "admin_grant uid amount key reason =
     bind_act (require_user_exists uid) (\<lambda>_.
     bind_act (grant uid amount key
       (JObj [(''source'', JStr ''admin''), (''reason'', JStr reason)]) reason) (\<lambda>res.
     bind_act (audit_record uid None EVENT_ADMIN_GRANT
       [(''actor'', JStr ''admin''), (''userId'', JStr (str_uuid uid)), (''amount'', JInt amount),
        (''reason'', JStr reason), (''idempotencyKey'', JStr key),
        (''ledgerTxId'', JStr (str_uuid (wr_tx res))),
        (''idempotentReplay'', JBool (wr_replay res))]) (\<lambda>_.
     ret res)))"

text \<open>The upsert is one statement; both branches stamp the row with \<^verbatim>\<open>now()\<close>.\<close>

definition upsert_active_subscription :: "uuid \<Rightarrow> string \<Rightarrow> time \<Rightarrow> unit db_act" where
  "upsert_active_subscription uid plan expires = (\<lambda>db.
     if users db uid = None \<or> \<not> text_ok (Some plan) then (Inl DbError, db)
     else (Inr (), db\<lparr>subscriptions := (subscriptions db)(uid \<mapsto>
       \<lparr>s_status = SubActive, s_plan = Some plan, s_expires = Some expires,
         s_updated = db_now db\<rparr>)\<rparr>))"

definition admin_sub_grant_key :: "string \<Rightarrow> string" where
  "admin_sub_grant_key key = ''admin-sub-grant:'' @ key"

definition admin_grant_subscription ::
  "(time \<Rightarrow> string) \<Rightarrow> settings \<Rightarrow> uuid \<Rightarrow> time \<Rightarrow> string \<Rightarrow> string \<Rightarrow> int option
     \<Rightarrow> admin_subscription_result db_act" where
  "admin_grant_subscription isof cfg uid expires plan key credits =
     bind_act (require_user_exists uid) (\<lambda>_.
     let effective_credits = (case credits of Some c \<Rightarrow> c
           | None \<Rightarrow> subscription_credits_per_period cfg) in
     bind_act (upsert_active_subscription uid plan expires) (\<lambda>_.
     bind_act (if effective_credits > 0
       then bind_act (grant uid effective_credits (admin_sub_grant_key key)
           (JObj [(''source'', JStr ''admin''), (''reason'', JStr ''admin_subscription_grant'')])
           ''admin_subscription_grant'') (\<lambda>res. ret (Some res))
       else ret None) (\<lambda>g.
     bind_act (audit_record uid None EVENT_ADMIN_SUBSCRIPTION_GRANT
       ([(''actor'', JStr ''admin''), (''userId'', JStr (str_uuid uid)), (''plan'', JStr plan),
         (''status'', JStr ''active''), (''expiresAt'', JStr (isof expires)),
         (''creditsGranted'', JInt effective_credits), (''idempotencyKey'', JStr key)]
        @ (case g of Some res \<Rightarrow> [(''ledgerTxId'', JStr (str_uuid (wr_tx res)))] | None \<Rightarrow> []))) (\<lambda>_.
     ret \<lparr>as_expires = expires, as_plan = plan, as_credits_granted = effective_credits,
       as_new_balance = map_option wr_balance g, as_tx = map_option wr_tx g,
       as_replay = map_option wr_replay g\<rparr>))))"

definition admin_wallet_view :: "uuid \<Rightarrow> nat \<Rightarrow> (int \<times> ledger_row list) db_act" where
  "admin_wallet_view uid n = bind_act (require_user_exists uid) (\<lambda>_. get_wallet_view uid n)"

section \<open>What a credit step does to the ledger\<close>

text \<open>The relation between the states before and after a service that posts at most one credit, under
  the given key, to the given user: nothing of the ledger disappears, and the balance of that user
  moves only together with a new entry under that key.\<close>

definition credits_only :: "uuid \<Rightarrow> string \<Rightarrow> db \<Rightarrow> db \<Rightarrow> bool" where
  "credits_only uid key db db' \<longleftrightarrow> wallet_inv db'
     \<and> (\<forall>u k e. ledger_entry db u k = Some e \<longrightarrow> ledger_entry db' u k = Some e)
     \<and> (\<forall>u. u \<noteq> uid \<longrightarrow> current_balance u db' = current_balance u db)
     \<and> (current_balance uid db' \<noteq> current_balance uid db \<longrightarrow>
          ledger_entry db uid key = None \<and> ledger_entry db' uid key \<noteq> None)"

lemma credits_only_refl: "wallet_inv db \<Longrightarrow> credits_only uid key db db"
  by (simp add: credits_only_def)

lemma grant_credits_only:
  assumes "wallet_inv db" "grant uid amount key meta reason db = (Inr res, db')"
  shows "credits_only uid key db db'"
proof (cases "fresh_outcome uid Credit amount meta key db res db'")
  case True
  note F = fresh_entry[OF True]
  show ?thesis
    unfolding credits_only_def
  proof (intro conjI allI impI)
    show "wallet_inv db'" using grant_keeps_inv[OF assms] .
    show "ledger_entry db' u k = Some e" if "ledger_entry db u k = Some e" for u k e
      using that F(1) F(3)[of u k] by (cases "(u, k) = (uid, key)") auto
    show "current_balance u db' = current_balance u db" if "u \<noteq> uid" for u
      using that F(4)[of u] by simp
    show "ledger_entry db uid key = None" "ledger_entry db' uid key \<noteq> None"
      using F(1,2) by simp_all
  qed
next
  case False
  with grant_Inr[OF assms(2)] replay_state[OF assms(1)] have "db' = db" by blast
  with assms(1) show ?thesis by (simp add: credits_only_refl)
qed

lemma grant_effect:
  assumes "wallet_inv db" "grant uid amount key meta reason db = (Inr res, db')"
  shows "wallet_frame db' = wallet_frame db
    \<and> current_balance uid db' = current_balance uid db
        + (if ledger_entry db uid key = None then amount else 0)
    \<and> (wr_replay res \<longleftrightarrow> ledger_entry db uid key \<noteq> None)
    \<and> wr_balance res = current_balance uid db'"
proof -
  from grant_Inr[OF assms(2)] consider "fresh_outcome uid Credit amount meta key db res db'"
    | "replay_outcome uid Credit amount key db res db'" by blast
  then show ?thesis
  proof cases
    case 1
    then have "\<not> wr_replay res" "wr_balance res = current_balance uid db'"
      by (simp_all add: fresh_outcome_def)
    with fresh_entry[OF 1] show ?thesis by auto
  next
    case 2
    then have "wr_replay res" "wr_balance res = current_balance uid db"
      by (simp_all add: replay_outcome_def)
    with replay_entry[OF 2] replay_state[OF assms(1) 2] show ?thesis by simp
  qed
qed

lemma frame_sel:
  assumes "wallet_frame a = wallet_frame b"
  shows "subscriptions a = subscriptions b" "users a = users b" "byok_keys a = byok_keys b"
    "sessions a = sessions b" "steps a = steps b" "tool_calls a = tool_calls b"
    "adapty_events a = adapty_events b" "cp_events a = cp_events b" "projects a = projects b"
    "site_files a = site_files b" "next_seq a = next_seq b" "db_now a = db_now b"
    "preferences a = preferences b" "devices a = devices b" "identities a = identities b" "db_rid a = db_rid b"
proof -
  show "db_rid a = db_rid b" using arg_cong[OF assms, of db_rid] by (simp add: wallet_frame_def)
  show "subscriptions a = subscriptions b" using arg_cong[OF assms, of subscriptions] by (simp add: wallet_frame_def)
  show "users a = users b" using arg_cong[OF assms, of users] by (simp add: wallet_frame_def)
  show "byok_keys a = byok_keys b" using arg_cong[OF assms, of byok_keys] by (simp add: wallet_frame_def)
  show "sessions a = sessions b" using arg_cong[OF assms, of sessions] by (simp add: wallet_frame_def)
  show "steps a = steps b" using arg_cong[OF assms, of steps] by (simp add: wallet_frame_def)
  show "tool_calls a = tool_calls b" using arg_cong[OF assms, of tool_calls] by (simp add: wallet_frame_def)
  show "adapty_events a = adapty_events b" using arg_cong[OF assms, of adapty_events] by (simp add: wallet_frame_def)
  show "cp_events a = cp_events b" using arg_cong[OF assms, of cp_events] by (simp add: wallet_frame_def)
  show "projects a = projects b" using arg_cong[OF assms, of projects] by (simp add: wallet_frame_def)
  show "site_files a = site_files b" using arg_cong[OF assms, of site_files] by (simp add: wallet_frame_def)
  show "next_seq a = next_seq b" using arg_cong[OF assms, of next_seq] by (simp add: wallet_frame_def)
  show "db_now a = db_now b" using arg_cong[OF assms, of db_now] by (simp add: wallet_frame_def)
  show "preferences a = preferences b" using arg_cong[OF assms, of preferences] by (simp add: wallet_frame_def)
  show "devices a = devices b" using arg_cong[OF assms, of devices] by (simp add: wallet_frame_def)
  show "identities a = identities b" using arg_cong[OF assms, of identities] by (simp add: wallet_frame_def)
qed

text \<open>Steps that leave users, wallets and ledger alone may come before and after.\<close>

definition same_money :: "db \<Rightarrow> db \<Rightarrow> bool" where
  "same_money db db' \<longleftrightarrow> wallets db' = wallets db \<and> ledger db' = ledger db \<and> users db' = users db"

lemma same_money_refl [simp]: "same_money db db"
  by (simp add: same_money_def)

lemma same_money_audit: "audit_record uid sid ev p db = (r, db') \<Longrightarrow> same_money db db'"
  by (simp add: same_money_def audit_record_frame)

lemma same_money_views:
  assumes "same_money db db'"
  shows "wallet_inv db' = wallet_inv db" "ledger_entry db' = ledger_entry db"
    "current_balance u db' = current_balance u db"
proof -
  from assms have eq: "wallets db' = wallets db" "ledger db' = ledger db" "users db' = users db"
    by (simp_all add: same_money_def)
  show "wallet_inv db' = wallet_inv db" by (rule wallet_inv_cong[OF eq])
  show "ledger_entry db' = ledger_entry db" "current_balance u db' = current_balance u db"
    by (simp_all add: ledger_entry_def existing_tx_def current_balance_def eq fun_eq_iff)
qed

lemma credits_only_before: "same_money db db1 \<Longrightarrow> credits_only uid key db1 db' \<Longrightarrow> credits_only uid key db db'"
  by (simp add: credits_only_def same_money_views)

lemma credits_only_after: "credits_only uid key db db1 \<Longrightarrow> same_money db1 db' \<Longrightarrow> credits_only uid key db db'"
  by (simp add: credits_only_def same_money_views)

lemma credits_only_scope:
  assumes "wallet_inv db" "\<And>r db'. m db = (Inr r, db') \<Longrightarrow> credits_only uid key db db'"
  shows "credits_only uid key db (snd (session_scope m db))"
  unfolding session_scope_def
  by (rule transaction_keeps[where P = "credits_only uid key db"])
    (use assms credits_only_refl in blast)+

lemma put_subscription_money:
  "put_subscription now uid st plan ex db = (r, db') \<Longrightarrow> same_money db db'"
  by (auto simp: put_subscription_def same_money_def split: option.splits if_splits)

lemma upsert_active_money:
  "upsert_active_subscription uid plan ex db = (r, db') \<Longrightarrow> same_money db db'"
  by (auto simp: upsert_active_subscription_def same_money_def split: if_splits)

lemma require_user_exists_Inr:
  "require_user_exists uid db = (Inr x, db') \<Longrightarrow> db' = db \<and> users db uid \<noteq> None"
  by (simp add: require_user_exists_def split: if_splits)

lemma require_active_Inr:
  "require_active_subscription now uid db = (Inr x, db') \<Longrightarrow>
   db' = db \<and> ps_subscription (load_policy_state now uid db) = SubActive"
  by (simp add: require_active_subscription_def split: if_splits)

lemma subscription_sync_credits:
  assumes "wallet_inv db" "subscription_sync vfy cfg now uid jws db = (Inr res, db')"
  shows "\<exists>vt. vfy jws = Inr vt \<and> credits_only uid (sub_grant_key (vt_transaction_id vt)) db db'"
proof -
  from assms(2) obtain vt where v: "vfy jws = Inr vt"
    by (auto simp: subscription_sync_def elim!: bind_act_Inr_E)
  let ?key = "sub_grant_key (vt_transaction_id vt)"
  from assms(2) obtain db1 db2 x y where
    one: "same_money db db1" and
    two: "(if transaction_active now vt
       then bind_act (grant uid (subscription_credits_per_period cfg) ?key
           (JObj [(''reason'', JStr ''subscription_period''),
             (''transactionId'', JStr (vt_transaction_id vt)),
             (''productId'', JStr (vt_product_id vt))])
           ''subscription_period'') (\<lambda>_. ret ())
       else ret ()) db1 = (Inr y, db2)" and
    three: "same_money db2 db'"
    by (auto simp: subscription_sync_def v Let_def elim!: bind_act_Inr_E
        dest!: put_subscription_money same_money_audit)
  have "wallet_inv db1" using one assms(1) by (simp add: same_money_views)
  with two have "credits_only uid ?key db1 db2"
    by (auto split: if_splits elim!: bind_act_Inr_E intro: grant_credits_only credits_only_refl)
  with v credits_only_before[OF one] credits_only_after three show ?thesis by blast
qed

lemma purchase_credits:
  assumes "wallet_inv db" "purchase vfy loads cfg now uid jws db = (Inr res, db')"
  shows "\<exists>vt. vfy jws = Inr vt \<and> credits_only uid (token_purchase_key (vt_transaction_id vt)) db db'"
  using assms(2) grant_credits_only[OF assms(1)]
  by (auto simp: purchase_def elim!: bind_act_Inr_E dest!: require_active_Inr)

lemma admin_grant_credits:
  assumes "wallet_inv db" "admin_grant uid amount key reason db = (Inr res, db')"
  shows "credits_only uid key db db'"
proof -
  from assms(2) obtain r db1 where "grant uid amount key
       (JObj [(''source'', JStr ''admin''), (''reason'', JStr reason)]) reason db = (Inr r, db1)"
    and "same_money db1 db'"
    by (auto simp: admin_grant_def elim!: bind_act_Inr_E
        dest!: require_user_exists_Inr dest: same_money_audit)
  with grant_credits_only[OF assms(1)] credits_only_after show ?thesis by blast
qed

lemma admin_grant_subscription_credits:
  assumes "wallet_inv db"
    and "admin_grant_subscription isof cfg uid expires plan key credits db = (Inr res, db')"
  shows "credits_only uid (admin_sub_grant_key key) db db'"
proof -
  let ?n = "case credits of Some c \<Rightarrow> c | None \<Rightarrow> subscription_credits_per_period cfg"
  from assms(2) obtain db1 db2 y where
    one: "same_money db db1" and
    two: "(if ?n > 0
       then bind_act (grant uid ?n (admin_sub_grant_key key)
           (JObj [(''source'', JStr ''admin''), (''reason'', JStr ''admin_subscription_grant'')])
           ''admin_subscription_grant'') (\<lambda>res. ret (Some res))
       else ret None) db1 = (Inr y, db2)" and
    three: "same_money db2 db'"
    unfolding admin_grant_subscription_def Let_def
    by (elim bind_act_Inr_E) (auto dest!: require_user_exists_Inr upsert_active_money same_money_audit)
  have "wallet_inv db1" using one assms(1) by (simp add: same_money_views)
  with two have "credits_only uid (admin_sub_grant_key key) db1 db2"
    by (auto split: if_splits elim!: bind_act_Inr_E intro: grant_credits_only credits_only_refl)
  with credits_only_before[OF one] credits_only_after three show ?thesis by blast
qed

section \<open>Mixed histories\<close>

text \<open>Every way a user or an operator can cause a credit, as one event type; the environment of the
  services (verifier, settings) stays fixed.\<close>

datatype credit_event =
    EvSync time uuid string
  | EvPurchase time uuid string
  | EvAdminGrant uuid int string string
  | EvAdminSubscription uuid time string string "int option"

fun event_account :: "credit_event \<Rightarrow> uuid" where
  "event_account (EvSync now uid jws) = uid"
| "event_account (EvPurchase now uid jws) = uid"
| "event_account (EvAdminGrant uid a k r) = uid"
| "event_account (EvAdminSubscription uid ex p k c) = uid"

definition verified_id :: "storekit \<Rightarrow> string \<Rightarrow> string" where
  "verified_id vfy jws = (case vfy jws of Inr vt \<Rightarrow> vt_transaction_id vt | Inl _ \<Rightarrow> [])"

fun event_key :: "storekit \<Rightarrow> credit_event \<Rightarrow> string" where
  "event_key vfy (EvSync now uid jws) = sub_grant_key (verified_id vfy jws)"
| "event_key vfy (EvPurchase now uid jws) = token_purchase_key (verified_id vfy jws)"
| "event_key vfy (EvAdminGrant uid a k r) = k"
| "event_key vfy (EvAdminSubscription uid ex p k c) = admin_sub_grant_key k"

fun credit_request ::
  "storekit \<Rightarrow> json_loads \<Rightarrow> (time \<Rightarrow> string) \<Rightarrow> settings \<Rightarrow> credit_event \<Rightarrow> db \<Rightarrow> db" where
  "credit_request vfy loads isof cfg (EvSync now uid jws) db =
     snd (session_scope (subscription_sync vfy cfg now uid jws) db)"
| "credit_request vfy loads isof cfg (EvPurchase now uid jws) db =
     snd (session_scope (purchase vfy loads cfg now uid jws) db)"
| "credit_request vfy loads isof cfg (EvAdminGrant uid a k r) db =
     snd (session_scope (admin_grant uid a k r) db)"
| "credit_request vfy loads isof cfg (EvAdminSubscription uid ex p k c) db =
     snd (session_scope (admin_grant_subscription isof cfg uid ex p k c) db)"

lemma credit_request_credits:
  assumes "wallet_inv db"
  shows "credits_only (event_account ev) (event_key vfy ev) db (credit_request vfy loads isof cfg ev db)"
proof (cases ev)
  case (EvSync now uid jws)
  then show ?thesis
    using subscription_sync_credits[OF assms]
    by (auto simp: verified_id_def intro!: credits_only_scope[OF assms])
      (metis sum.case(2))
next
  case (EvPurchase now uid jws)
  then show ?thesis
    using purchase_credits[OF assms]
    by (auto simp: verified_id_def intro!: credits_only_scope[OF assms])
      (metis sum.case(2))
next
  case (EvAdminGrant uid a k r)
  then show ?thesis
    using admin_grant_credits[OF assms] by (auto intro!: credits_only_scope[OF assms])
next
  case (EvAdminSubscription uid ex p k c)
  then show ?thesis
    using admin_grant_subscription_credits[OF assms] by (auto intro!: credits_only_scope[OF assms])
qed

interpretation pay: once_crediting wallet_inv ledger_entry "\<lambda>db u. current_balance u db"
  event_account "event_key vfy" "credit_request vfy loads isof cfg" for vfy loads isof cfg
proof
  fix db ev u k e
  assume inv: "wallet_inv db"
  note C = credit_request_credits[OF inv, where ev = ev and vfy = vfy and loads = loads
      and isof = isof and cfg = cfg, unfolded credits_only_def]
  show "wallet_inv (credit_request vfy loads isof cfg ev db)" using C by blast
  show "ledger_entry db u k = Some e \<Longrightarrow>
      ledger_entry (credit_request vfy loads isof cfg ev db) u k = Some e" using C by blast
  show "u \<noteq> event_account ev \<Longrightarrow>
      current_balance u (credit_request vfy loads isof cfg ev db) = current_balance u db" using C by blast
  show "current_balance (event_account ev) (credit_request vfy loads isof cfg ev db)
        \<noteq> current_balance (event_account ev) db \<Longrightarrow>
      ledger_entry db (event_account ev) (event_key vfy ev) = None \<and>
      ledger_entry (credit_request vfy loads isof cfg ev db) (event_account ev) (event_key vfy ev) \<noteq> None"
    using C by blast
qed

lemma handle_all_fold:
  "pay.handle_all vfy loads isof cfg evs db = fold (credit_request vfy loads isof cfg) evs db"
  by (induction evs arbitrary: db) simp_all

text \<open>
  C11: no purchase is credited twice, whatever else happens. Once a subscription sync, a token purchase
  or an admin grant has moved a balance, then after any further history of such requests every
  request for the same account and the same purchase (the same StoreKit transaction id on the same
  path, or the same operator key) leaves all balances as they are, including when it carries
  different data or fails.
\<close>

theorem purchase_credited_once:
  assumes "wallet_inv db"
    and "current_balance (event_account ev) (credit_request vfy loads isof cfg ev db)
       \<noteq> current_balance (event_account ev) db"
    and "event_account ev' = event_account ev" "event_key vfy ev' = event_key vfy ev"
  shows "current_balance u (credit_request vfy loads isof cfg ev'
           (fold (credit_request vfy loads isof cfg) evs (credit_request vfy loads isof cfg ev db)))
       = current_balance u
           (fold (credit_request vfy loads isof cfg) evs (credit_request vfy loads isof cfg ev db))"
  using pay.credited_final[OF assms, of u evs] unfolding handle_all_fold .

definition demo_vfy :: storekit where
  "demo_vfy jws = Inr \<lparr>vt_transaction_id = jws, vt_original_id = jws, vt_product_id = ''pro'',
     vt_expires = Some 100, vt_revoked = False, vt_environment = ''sandbox''\<rparr>"

theorem purchase_credited_once_witness:
  "\<exists>db1. db1 = credit_request demo_vfy (\<lambda>_. None) (\<lambda>_. []) demo_cfg (EvAdminGrant 7 5 ''k'' ''r'') demo_db
     \<and> current_balance 7 db1 = 5
     \<and> current_balance 7 (credit_request demo_vfy (\<lambda>_. None) (\<lambda>_. []) demo_cfg
           (EvAdminGrant 7 9 ''k'' ''other'') db1) = 5"
proof -
  let ?h = "credit_request demo_vfy (\<lambda>_. None) (\<lambda>_. []) demo_cfg"
  let ?ev = "EvAdminGrant 7 5 ''k'' ''r''"
  have b: "current_balance 7 (?h ?ev demo_db) = 5"
    by (simp add: session_scope_def transaction_def admin_grant_def bind_act_def require_user_exists_def
        grant_def ensure_wallet_def insert_ledger_def bigint_ok_def existing_tx_def Let_def
        credit_balance_def audit_record_def audit_payload_ok current_balance_def)
  have ne: "current_balance (event_account ?ev) (?h ?ev demo_db) \<noteq> current_balance (event_account ?ev) demo_db"
    by (simp only: event_account.simps b) (simp add: current_balance_def)
  have same: "event_account (EvAdminGrant 7 9 ''k'' ''other'') = event_account ?ev"
    "event_key demo_vfy (EvAdminGrant 7 9 ''k'' ''other'') = event_key demo_vfy ?ev"
    by simp_all
  from purchase_credited_once[OF demo_db_inv ne same, of 7 "[]"] b show ?thesis by simp
qed

lemma grant_answer:
  assumes "wallet_inv db" "grant uid amount key meta reason db = (Inr w, db')"
  shows "0 < amount \<and> wr_balance w = current_balance uid db'
    \<and> (wr_replay w \<longleftrightarrow> ledger_entry db uid key \<noteq> None)
    \<and> current_balance uid db' = current_balance uid db + (if wr_replay w then 0 else amount)"
  using grant_Inr[OF assms(2)]
proof (elim conjE disjE)
  assume F: "fresh_outcome uid Credit amount meta key db w db'" and "0 < amount"
  with fresh_entry(1)[OF F] fresh_entry(4)[OF F, of uid] show ?thesis by (simp add: fresh_outcome_def)
next
  assume R: "replay_outcome uid Credit amount key db w db'" and "0 < amount"
  with replay_entry[OF R] replay_state[OF assms(1) R] show ?thesis by (simp add: replay_outcome_def)
qed

lemma purchase_Inr:
  assumes "wallet_inv db" "purchase vfy loads cfg now uid jws db = (Inr res, db')"
  obtains vt credits where "vfy jws = Inr vt"
    "ps_subscription (load_policy_state now uid db) = SubActive"
    "map_of (token_products loads cfg) (vt_product_id vt) = Some credits" "0 < credits"
    "pu_transaction_id res = vt_transaction_id vt" "pu_new_balance res = current_balance uid db'"
    "current_balance uid db' = current_balance uid db + pu_credits_added res"
    "pu_credits_added res = (if ledger_entry db uid (token_purchase_key (vt_transaction_id vt)) = None
       then credits else 0)"
    "ledger_entry db' uid (token_purchase_key (vt_transaction_id vt)) = Some (Credit, credits)"
proof -
  from assms(2) obtain vt credits meta wres where
    act: "ps_subscription (load_policy_state now uid db) = SubActive" and
    v: "vfy jws = Inr vt" and
    c: "map_of (token_products loads cfg) (vt_product_id vt) = Some credits" and
    g: "grant uid credits (token_purchase_key (vt_transaction_id vt)) meta ''token_purchase'' db
       = (Inr wres, db')" and
    res: "res = \<lparr>pu_credits_added = (if wr_replay wres then 0 else credits),
       pu_new_balance = wr_balance wres, pu_transaction_id = vt_transaction_id vt\<rparr>"
    by (auto simp: purchase_def credits_for_product_def elim!: bind_act_Inr_E
        dest!: require_active_Inr split: option.splits)
  from grant_answer[OF assms(1) g] grant_records[OF g] show ?thesis
    by (intro that[OF v act c]) (auto simp: res)
qed

text \<open>
  C12: a token purchase returns only to a subscriber, only for a transaction the verifier accepted, and
  only for a product of the server's table, whose amount is the amount credited: the first time
  the transaction is seen the balance grows by exactly that amount and the answer says so; a
  repetition adds nothing and says 0. The balance in the answer is the balance in the database. A
  purchase that fails changes nothing.
\<close>

theorem purchase_spec:
  assumes "wallet_inv db" "session_scope (purchase vfy loads cfg now uid jws) db = (r, db')"
  shows "(\<exists>e. r = Inl e \<and> db' = db)
    \<or> (\<exists>res vt credits. r = Inr res \<and> vfy jws = Inr vt
        \<and> ps_subscription (load_policy_state now uid db) = SubActive
        \<and> map_of (token_products loads cfg) (vt_product_id vt) = Some credits \<and> 0 < credits
        \<and> pu_transaction_id res = vt_transaction_id vt
        \<and> pu_new_balance res = current_balance uid db'
        \<and> current_balance uid db' = current_balance uid db + pu_credits_added res
        \<and> pu_credits_added res =
            (if ledger_entry db uid (token_purchase_key (vt_transaction_id vt)) = None
             then credits else 0)
        \<and> ledger_entry db' uid (token_purchase_key (vt_transaction_id vt)) = Some (Credit, credits))"
proof (cases r)
  case (Inl e)
  with assms(2) show ?thesis by (auto simp: session_scope_def dest: transaction_Inl_state)
next
  case (Inr res)
  with assms(2) have p: "purchase vfy loads cfg now uid jws db = (Inr res, db')"
    by (simp add: session_scope_def transaction_Inr_iff)
  show ?thesis by (rule purchase_Inr[OF assms(1) p]) (use Inr in blast)
qed

theorem purchase_spec_witness:
  "\<exists>r db'. session_scope (purchase demo_vfy (\<lambda>_. None) demo_cfg 0 7 ''t'') demo_db = (r, db')
     \<and> db' = demo_db"
proof -
  obtain r db' where s: "session_scope (purchase demo_vfy (\<lambda>_. None) demo_cfg 0 7 ''t'') demo_db = (r, db')"
    by fastforce
  have "ps_subscription (load_policy_state 0 7 demo_db) \<noteq> SubActive"
    by (simp add: load_policy_state_def effective_subscription_status_def)
  with purchase_spec[OF demo_db_inv s] s show ?thesis by blast
qed

lemma token_key_inj [simp]: "token_purchase_key s = token_purchase_key t \<longleftrightarrow> s = t"
  by (simp add: token_purchase_key_def)

lemma sub_key_inj [simp]: "sub_grant_key s = sub_grant_key t \<longleftrightarrow> s = t"
  by (simp add: sub_grant_key_def)

lemma admin_sub_key_inj [simp]: "admin_sub_grant_key s = admin_sub_grant_key t \<longleftrightarrow> s = t"
  by (simp add: admin_sub_grant_key_def)

lemma token_purchase_key_text [simp]: "CHR 0x00 \<in> set (token_purchase_key s) \<longleftrightarrow> CHR 0x00 \<in> set s"
  by (simp add: token_purchase_key_def)

lemma sub_grant_key_text [simp]: "CHR 0x00 \<in> set (sub_grant_key s) \<longleftrightarrow> CHR 0x00 \<in> set s"
  by (simp add: sub_grant_key_def)

lemma key_namespaces:
  "sub_grant_key s \<noteq> token_purchase_key t" "sub_grant_key s \<noteq> admin_sub_grant_key t"
  "token_purchase_key s \<noteq> admin_sub_grant_key t"
  by (simp_all add: sub_grant_key_def token_purchase_key_def admin_sub_grant_key_def)

text \<open>
  idempotency of a token purchase is per account. A transaction that one account has already
  redeemed is credited again, in full, to every other subscribed account that submits it: the
  ledger's uniqueness is over (user, key) and nothing binds the transaction to the account. The
  documentation promises idempotency by transaction id alone.
\<close>

lemma transaction_credits_each_account:
  assumes "wallet_inv db" "u1 \<noteq> u2"
    and "session_scope (purchase vfy loads cfg now u1 jws) db = (Inr res1, db1)"
    and "session_scope (purchase vfy loads cfg now' u2 jws) db1 = (Inr res2, db2)"
    and "ledger_entry db u2 (token_purchase_key (verified_id vfy jws)) = None"
  shows "0 < pu_credits_added res2
    \<and> current_balance u2 db2 = current_balance u2 db + pu_credits_added res2
    \<and> pu_transaction_id res2 = pu_transaction_id res1"
proof -
  have p1: "purchase vfy loads cfg now u1 jws db = (Inr res1, db1)"
    and p2: "purchase vfy loads cfg now' u2 jws db1 = (Inr res2, db2)"
    using assms(3,4) by (simp_all add: session_scope_def transaction_Inr_iff)
  from purchase_Inr[OF assms(1) p1] obtain vt where v: "vfy jws = Inr vt"
    and t1: "pu_transaction_id res1 = vt_transaction_id vt" by metis
  from purchase_credits[OF assms(1) p1] v
  have c: "credits_only u1 (token_purchase_key (vt_transaction_id vt)) db db1" by simp
  then have inv1: "wallet_inv db1" and bal: "current_balance u2 db1 = current_balance u2 db"
    using assms(2) by (auto simp: credits_only_def)
  have "ledger_entry db1 u2 (token_purchase_key (vt_transaction_id vt)) = None"
  proof -
    from p1 v obtain credits meta r where
      "grant u1 credits (token_purchase_key (vt_transaction_id vt)) meta ''token_purchase'' db = (Inr r, db1)"
      by (auto simp: purchase_def elim!: bind_act_Inr_E dest!: require_active_Inr)
    from grant_Inr[OF this] show ?thesis
    proof (elim conjE disjE)
      assume F: "fresh_outcome u1 Credit credits meta (token_purchase_key (vt_transaction_id vt)) db r db1"
      show ?thesis using fresh_entry(3)[OF F] assms(2,5) v by (simp add: verified_id_def)
    next
      assume "replay_outcome u1 Credit credits (token_purchase_key (vt_transaction_id vt)) db r db1"
      from replay_state[OF assms(1) this] show ?thesis using assms(5) v by (simp add: verified_id_def)
    qed
  qed
  moreover from purchase_Inr[OF inv1 p2] obtain vt' credits where "vfy jws = Inr vt'" "0 < credits"
    "pu_transaction_id res2 = vt_transaction_id vt'"
    "current_balance u2 db2 = current_balance u2 db1 + pu_credits_added res2"
    "pu_credits_added res2 = (if ledger_entry db1 u2 (token_purchase_key (vt_transaction_id vt')) = None
       then credits else 0)" by metis
  ultimately show ?thesis using v bal t1 by simp
qed

text \<open>Two subscribers of the demo database, and a table that prices the product.\<close>

definition demo_subs :: db where
  "demo_subs = demo_db\<lparr>users := (users demo_db)(8 \<mapsto>
       \<lparr>u_created = 0, u_trial_used = False, u_display_name = None\<rparr>),
     subscriptions := (\<lambda>_. Some \<lparr>s_status = SubActive, s_plan = None, s_expires = None, s_updated = 0\<rparr>)\<rparr>"

definition demo_loads :: json_loads where
  "demo_loads s = Some (JObj [(''pro'', JInt 500)])"

lemma demo_subs_inv: "wallet_inv demo_subs"
  by (rule wallet_inv_users[OF demo_db_inv]) (auto simp: demo_subs_def)

lemmas purchase_eval = purchase_def bind_act_def require_active_subscription_def load_policy_state_def
  effective_subscription_status_def credits_for_product_def token_products_def positive_ints_def
  List.map_filter_simps grant_def ensure_wallet_def insert_ledger_def bigint_ok_def existing_tx_def
  Let_def credit_balance_def audit_record_def audit_payload_ok current_balance_def replay_result_def

theorem transaction_credits_each_account_witness:
  "\<exists>db1 db2 res1 res2.
      session_scope (purchase demo_vfy demo_loads demo_cfg 0 7 ''t'') demo_subs = (Inr res1, db1)
    \<and> session_scope (purchase demo_vfy demo_loads demo_cfg 0 8 ''t'') db1 = (Inr res2, db2)
    \<and> 0 < pu_credits_added res2"
proof -
  let ?p1 = "purchase demo_vfy demo_loads demo_cfg 0 7 ''t'' demo_subs"
  let ?p2 = "purchase demo_vfy demo_loads demo_cfg 0 8 ''t'' (snd ?p1)"
  have "fst ?p1 = Inr \<lparr>pu_credits_added = 500, pu_new_balance = 500, pu_transaction_id = ''t''\<rparr>"
    by (simp add: purchase_eval demo_subs_def demo_vfy_def demo_loads_def)
  then obtain res1 where "?p1 = (Inr res1, snd ?p1)" by (metis prod.collapse)
  then have s1: "session_scope (purchase demo_vfy demo_loads demo_cfg 0 7 ''t'') demo_subs = (Inr res1, snd ?p1)"
    by (rule scope_Inr)
  have "fst ?p2 = Inr \<lparr>pu_credits_added = 500, pu_new_balance = 500, pu_transaction_id = ''t''\<rparr>"
    by (simp add: purchase_eval demo_subs_def demo_vfy_def demo_loads_def)
  then obtain res2 where "?p2 = (Inr res2, snd ?p2)" by (metis prod.collapse)
  then have s2: "session_scope (purchase demo_vfy demo_loads demo_cfg 0 8 ''t'') (snd ?p1) = (Inr res2, snd ?p2)"
    by (rule scope_Inr)
  have "ledger_entry demo_subs 8 (token_purchase_key (verified_id demo_vfy ''t'')) = None"
    by (simp add: ledger_entry_def existing_tx_def demo_subs_def)
  from transaction_credits_each_account[OF demo_subs_inv _ s1 s2 this] s1 s2 show ?thesis by auto
qed

text \<open>
  what a subscription sync leaves behind. When it returns, the transaction was verified, the
  stored row carries its status, plan and expiry, and the policy sees a subscriber exactly when the
  transaction is unrevoked and not yet expired; an active transaction has its credits in the ledger
  exactly once, an inactive one credits nothing. When it fails nothing is changed.
\<close>

lemma subscription_sync_spec:
  assumes "wallet_inv db" "session_scope (subscription_sync vfy cfg now uid jws) db = (r, db')"
  shows "(\<exists>e. r = Inl e \<and> db' = db)
    \<or> (\<exists>res vt. r = Inr res \<and> vfy jws = Inr vt
        \<and> (\<exists>row. subscriptions db' uid = Some row \<and> s_expires row = vt_expires vt
             \<and> s_plan row = none_if_empty (vt_product_id vt)
             \<and> s_status row = (if transaction_active now vt then SubActive else SubExpired))
        \<and> sr_is_subscribed res = transaction_active now vt
        \<and> (ps_subscription (load_policy_state now uid db') = SubActive \<longleftrightarrow> transaction_active now vt)
        \<and> current_balance uid db' = current_balance uid db +
            (if transaction_active now vt
                \<and> ledger_entry db uid (sub_grant_key (vt_transaction_id vt)) = None
             then subscription_credits_per_period cfg else 0))"
proof (cases r)
  case (Inl e)
  with assms(2) show ?thesis by (auto simp: session_scope_def dest: transaction_Inl_state)
next
  case (Inr res)
  with assms(2) have s: "subscription_sync vfy cfg now uid jws db = (Inr res, db')"
    by (simp add: session_scope_def transaction_Inr_iff)
  then obtain vt where v: "vfy jws = Inr vt"
    by (auto simp: subscription_sync_def elim!: bind_act_Inr_E)
  let ?act = "transaction_active now vt" and ?key = "sub_grant_key (vt_transaction_id vt)"
  from s obtain db1 db2 x y where
    one: "put_subscription now uid (if ?act then SubActive else SubExpired)
        (none_if_empty (vt_product_id vt)) (vt_expires vt) db = (Inr x, db1)" and
    two: "(if ?act
       then bind_act (grant uid (subscription_credits_per_period cfg) ?key
           (JObj [(''reason'', JStr ''subscription_period''),
             (''transactionId'', JStr (vt_transaction_id vt)),
             (''productId'', JStr (vt_product_id vt))])
           ''subscription_period'') (\<lambda>_. ret ())
       else ret ()) db1 = (Inr y, db2)" and
    aud: "audit_record uid None EVENT_SUBSCRIPTION_CHANGE
       [(''status'', JStr (if ?act then ''active'' else ''expired'')),
        (''plan'', opt_str (none_if_empty (vt_product_id vt))),
        (''transactionId'', JStr (vt_transaction_id vt)),
        (''environment'', JStr (vt_environment vt)), (''revoked'', JBool (vt_revoked vt))] db2
       = (Inr (), db')" and
    res: "sr_is_subscribed res = ?act"
    by (auto simp: subscription_sync_def v Let_def elim!: bind_act_Inr_E)
  note three = same_money_audit[OF aud] audit_record_frame(4)[OF aud]
  have m1: "same_money db db1" by (rule put_subscription_money[OF one])
  obtain row where row: "subscriptions db1 uid = Some row" "s_expires row = vt_expires vt"
    "s_plan row = none_if_empty (vt_product_id vt)" "s_status row = (if ?act then SubActive else SubExpired)"
    using one by (auto simp: put_subscription_def split: option.splits if_splits)
  have inv1: "wallet_inv db1" using m1 assms(1) by (simp add: same_money_views)
  have ent: "ledger_entry db1 uid ?key = ledger_entry db uid ?key"
    "current_balance uid db1 = current_balance uid db" using m1 by (simp_all add: same_money_views)
  have mid: "subscriptions db2 = subscriptions db1 \<and> current_balance uid db2 = current_balance uid db1
     + (if ?act \<and> ledger_entry db1 uid ?key = None then subscription_credits_per_period cfg else 0)"
  proof (cases ?act)
    case True
    with two obtain wres where "grant uid (subscription_credits_per_period cfg) ?key
           (JObj [(''reason'', JStr ''subscription_period''),
             (''transactionId'', JStr (vt_transaction_id vt)),
             (''productId'', JStr (vt_product_id vt))])
           ''subscription_period'' db1 = (Inr wres, db2)"
      by (auto elim!: bind_act_Inr_E)
    note e = grant_effect[OF inv1 this]
    show ?thesis using e frame_sel(1)[OF conjunct1[OF e] ] True by simp
  next
    case False
    with two show ?thesis by simp
  qed
  have st: "subscriptions db' uid = Some row" using row three mid by simp
  have "ps_subscription (load_policy_state now uid db') = SubActive \<longleftrightarrow> ?act"
    using row(2,4) by (auto simp: load_policy_state_def st Let_def effective_status_active_iff
        transaction_active_def split: prod.splits option.splits if_splits)
  moreover have "current_balance uid db' = current_balance uid db +
            (if ?act \<and> ledger_entry db uid ?key = None then subscription_credits_per_period cfg else 0)"
    using mid ent same_money_views(3)[OF three(1)] by simp
  ultimately show ?thesis
    using Inr v st row(2-4) res
    by (intro disjI2 exI[of _ res] exI[of _ vt] conjI exI[of _ row]) assumption+
qed

theorem subscription_sync_spec_witness:
  "\<exists>res db'. session_scope (subscription_sync demo_vfy (demo_cfg\<lparr>subscription_credits_per_period := 1000\<rparr>) 0 7 ''t'')
       demo_db = (Inr res, db') \<and> current_balance 7 db' = 1000 \<and> sr_is_subscribed res"
proof -
  let ?m = "subscription_sync demo_vfy (demo_cfg\<lparr>subscription_credits_per_period := 1000\<rparr>) 0 7 ''t''"
  have "\<exists>res. fst (?m demo_db) = Inr res"
    by (simp add: subscription_sync_def put_subscription_def purchase_eval demo_vfy_def
        transaction_active_def)
  then obtain res db' where "?m demo_db = (Inr res, db')" by (metis prod.collapse)
  then have s: "session_scope ?m demo_db = (Inr res, db')" by (rule scope_Inr)
  have "verified_id demo_vfy ''t'' = ''t''" "transaction_active 0 (projr (demo_vfy ''t''))"
    "ledger_entry demo_db 7 k = None" for k
    by (simp_all add: verified_id_def demo_vfy_def transaction_active_def ledger_entry_def existing_tx_def)
  with subscription_sync_spec[OF demo_db_inv s] s show ?thesis
    by (auto simp: demo_vfy_def current_balance_def)
qed

text \<open>
  changing the size of the period grant breaks the restoration of purchases. If a transaction was
  credited with one amount and the operator configures another one, syncing that still active
  transaction again fails with a conflict, and because the whole request is rolled back the
  subscription row is not refreshed either.
\<close>

lemma resync_conflicts_after_regrant_change:
  assumes "users db uid \<noteq> None" "vfy jws = Inr vt" "transaction_active now vt"
    and "ledger_entry db uid (sub_grant_key (vt_transaction_id vt)) = Some (Credit, a)"
    and "a \<noteq> subscription_credits_per_period cfg"
    and "0 < subscription_credits_per_period cfg" "bigint_ok (subscription_credits_per_period cfg)"
    and "text_ok (Some (vt_transaction_id vt))" "text_ok (Some (vt_product_id vt))"
  shows "session_scope (subscription_sync vfy cfg now uid jws) db = (Inl ConflictError, db)"
proof (rule scope_Inl)
  let ?st = "put_subscription now uid SubActive (none_if_empty (vt_product_id vt)) (vt_expires vt)"
  have "\<exists>db1. ?st db = (Inr (), db1) \<and> users db1 = users db \<and> ledger db1 = ledger db"
    using assms(1,9) by (cases "subscriptions db uid") (auto simp: put_subscription_def)
  then obtain db1 where p: "?st db = (Inr (), db1)" "users db1 = users db" "ledger db1 = ledger db"
    by blast
  let ?meta = "JObj [(''reason'', JStr ''subscription_period''), (''transactionId'', JStr (vt_transaction_id vt)),
             (''productId'', JStr (vt_product_id vt))]"
  have "fst (grant uid (subscription_credits_per_period cfg) (sub_grant_key (vt_transaction_id vt))
      ?meta ''subscription_period'' db1) = Inl ConflictError"
    using assms p by (auto simp: grant_value ledger_entry_def existing_tx_def)
  then obtain d where "grant uid (subscription_credits_per_period cfg)
      (sub_grant_key (vt_transaction_id vt)) ?meta ''subscription_period'' db1 = (Inl ConflictError, d)"
    by (metis prod.collapse)
  then show "fst (subscription_sync vfy cfg now uid jws db) = Inl ConflictError"
    using assms(2,3) p(1) by (simp add: subscription_sync_def bind_act_def Let_def)
qed

theorem resync_conflicts_after_regrant_change_witness:
  "\<exists>db. session_scope (subscription_sync demo_vfy (demo_cfg\<lparr>subscription_credits_per_period := 2000\<rparr>) 0 7 ''t'') db
       = (Inl ConflictError, db) \<and> ledger_entry db 7 (sub_grant_key ''t'') = Some (Credit, 1000)"
proof -
  let ?g = "grant 7 1000 (sub_grant_key ''t'') (JObj []) [] demo_db"
  have "\<exists>res. fst ?g = Inr res" by (simp add: grant_value bigint_ok_def existing_tx_def current_balance_def)
  then obtain res db where g: "?g = (Inr res, db)" by (metis prod.collapse)
  have e: "ledger_entry db 7 (sub_grant_key ''t'') = Some (Credit, 1000)" by (rule grant_records[OF g])
  have "users db 7 \<noteq> None"
    using grant_keeps_inv[OF demo_db_inv g] e ledger_entry_pos wallet_inv_user by blast
  then have "session_scope (subscription_sync demo_vfy (demo_cfg\<lparr>subscription_credits_per_period := 2000\<rparr>)
      0 7 ''t'') db = (Inl ConflictError, db)"
    by (rule resync_conflicts_after_regrant_change[where a = 1000 and vt = "projr (demo_vfy ''t'')"])
      (use e in \<open>simp_all add: demo_vfy_def transaction_active_def bigint_ok_def\<close>)
  with e show ?thesis by blast
qed

end
