(* ===== verification/Calendar.thy ===== *)
theory Calendar
  imports Prelude
begin

text \<open>
  What the program uses of \<^verbatim>\<open>datetime\<close>: the proleptic Gregorian date of an instant,
  \<^verbatim>\<open>isoformat\<close> of an aware instant and the weekday. Instants are microseconds since the epoch; years
  outside 1..9999 are an exception, here \<^verbatim>\<open>None\<close>.
\<close>

definition US_PER_DAY :: int where "US_PER_DAY = 86400000000"

text \<open>Days since the first of March of the year 0, in 400-year eras of 146097 days.\<close>

definition civil :: "int \<Rightarrow> int \<times> int \<times> int" where
  "civil days =
    (let z = days + 719468; era = z div 146097; doe = z mod 146097;
         yoe = (doe - doe div 1460 + doe div 36524 - doe div 146096) div 365;
         doy = doe - (365 * yoe + yoe div 4 - yoe div 100);
         mp = (5 * doy + 2) div 153;
         d = doy - (153 * mp + 2) div 5 + 1;
         m = (if mp < 10 then mp + 3 else mp - 9);
         y = yoe + era * 400 + (if m \<le> 2 then 1 else 0) in (y, m, d))"

definition pad_int :: "nat \<Rightarrow> int \<Rightarrow> string" where
  "pad_int w i = (let s = str_nat (nat i) in replicate (w - length s) CHR ''0'' @ s)"

definition iso_offset :: "int \<Rightarrow> string" where
  "iso_offset off = (let a = \<bar>off\<bar>; us = a mod 1000000; secs = a div 1000000 in
     (if off < 0 then ''-'' else ''+'') @ pad_int 2 (secs div 3600) @ '':'' @ pad_int 2 (secs mod 3600 div 60)
     @ (if secs mod 60 = 0 \<and> us = 0 then [] else '':'' @ pad_int 2 (secs mod 60)
        @ (if us = 0 then [] else ''.'' @ pad_int 6 us)))"

definition isoformat :: "int \<Rightarrow> int \<Rightarrow> string option" where
  "isoformat t off =
    (let loc = t + off; (y, m, d) = civil (loc div US_PER_DAY); rest = loc mod US_PER_DAY;
         secs = rest div 1000000; us = rest mod 1000000 in
     if y < 1 \<or> 9999 < y then None
     else Some (pad_int 4 y @ ''-'' @ pad_int 2 m @ ''-'' @ pad_int 2 d @ ''T''
        @ pad_int 2 (secs div 3600) @ '':'' @ pad_int 2 (secs mod 3600 div 60) @ '':'' @ pad_int 2 (secs mod 60)
        @ (if us = 0 then [] else ''.'' @ pad_int 6 us) @ iso_offset off))"

text \<open>Monday is 0; the epoch was a Thursday.\<close>

definition weekday :: "int \<Rightarrow> nat" where
  "weekday t = nat ((t div US_PER_DAY + 3) mod 7)"

text \<open>What \<^verbatim>\<open>fromisoformat\<close> reads, as the instant it denotes; a naive value is taken as UTC.\<close>

datatype iso_value = Aware int | Naive int

type_synonym from_iso = "string \<Rightarrow> iso_value option"

definition as_utc :: "iso_value \<Rightarrow> int" where
  "as_utc v = (case v of Aware t \<Rightarrow> t | Naive t \<Rightarrow> t)"

lemma civil_examples: "civil 0 = (1970, 1, 1)" "civil 11016 = (2000, 2, 29)" "civil 2932896 = (9999, 12, 31)"
  "civil (- 719162) = (1, 1, 1)"
  by code_simp+

end
