(* ===== verification/Adapty.thy ===== *)
theory Adapty
  imports Purchases Calendar
begin

text \<open>
  The Adapty subscription webhook (\<^verbatim>\<open>app/billing_adapty\<close>): the authorisation by a static bearer
  secret, the defensive parser of the payload and the service that deduplicates, applies and
  credits an event. \<^verbatim>\<open>json.loads\<close>, \<^verbatim>\<open>datetime.fromisoformat\<close> and \<^verbatim>\<open>isoformat\<close> are parameters.
  Logging is left out.
\<close>

section \<open>Authorisation\<close>

definition require_adapty_webhook :: "settings \<Rightarrow> string option \<Rightarrow> app_error option" where
  "require_adapty_webhook cfg presented =
    (let secret = adapty_webhook_secret cfg in
     if secret = [] then Some AdaptyWebhookMisconfiguredError
     else (case presented of None \<Rightarrow> Some UnauthorizedError
       | Some p \<Rightarrow> (case compare_digest p secret of
             Inl e \<Rightarrow> Some e
           | Inr same \<Rightarrow> if \<not> same then Some UnauthorizedError else None)))"

section \<open>Parser\<close>

definition GRANTING_EVENTS :: "string list" where
  "GRANTING_EVENTS = [''trial_started'', ''subscription_started'', ''subscription_renewed'']"

definition EXPIRING_EVENTS :: "string list" where
  "EXPIRING_EVENTS = [''subscription_expired'', ''subscription_cancelled'']"

definition NOOP_EVENTS :: "string list" where
  "NOOP_EVENTS = [''subscription_renewal_cancelled'', ''trial_renewal_cancelled'']"

definition CONDITIONAL_EVENTS :: "string list" where
  "CONDITIONAL_EVENTS = [''access_level_updated'']"

definition KNOWN_EVENTS :: "string list" where
  "KNOWN_EVENTS = GRANTING_EVENTS @ EXPIRING_EVENTS @ NOOP_EVENTS @ CONDITIONAL_EVENTS"

datatype semantics = SemGranting | SemExpiring | SemNoop

fun semantics_name :: "semantics \<Rightarrow> string" where
  "semantics_name SemGranting = ''granting''"
| "semantics_name SemExpiring = ''expiring''"
| "semantics_name SemNoop = ''noop''"

record parsed_event =
  pe_event_id :: string
  pe_event_type :: string
  pe_user :: uuid
  pe_vendor_product :: "string option"
  pe_expires :: "time option"
  pe_transaction :: "string option"
  pe_original :: "string option"
  pe_is_active :: "bool option"
  pe_access_level :: "string option"
  pe_will_renew :: "bool option"

definition as_dict :: "json \<Rightarrow> dict" where
  "as_dict v = (case v of JObj kvs \<Rightarrow> kvs | _ \<Rightarrow> [])"

fun first_str :: "json list \<Rightarrow> string option" where
  "first_str [] = None"
| "first_str (JStr s # vs) = (if s \<noteq> [] then Some s else first_str vs)"
| "first_str (JInt i # vs) = Some (str_int i)"
| "first_str (_ # vs) = first_str vs"

fun first_bool :: "json list \<Rightarrow> bool option" where
  "first_bool [] = None"
| "first_bool (JBool b # vs) = Some b"
| "first_bool (_ # vs) = first_bool vs"

definition props_of :: "dict \<Rightarrow> dict" where
  "props_of body = as_dict (obj_get body ''event_properties'')"

definition profile_of :: "dict \<Rightarrow> dict" where
  "profile_of body = as_dict (obj_get body ''profile'')"

definition parse_event_id :: "dict \<Rightarrow> string option" where
  "parse_event_id body = first_str [obj_get body ''profile_event_id'',
     obj_get (props_of body) ''profile_event_id'', obj_get body ''event_id'', obj_get body ''id'']"

definition parse_event_type :: "dict \<Rightarrow> string" where
  "parse_event_type body = (case first_str [obj_get body ''event_type'', obj_get body ''event'',
       obj_get (props_of body) ''event_type'', obj_get body ''type''] of
     Some raw \<Rightarrow> py_lower raw | None \<Rightarrow> [])"

definition parse_customer_user_id :: "dict \<Rightarrow> uuid option" where
  "parse_customer_user_id body = (case first_str [obj_get body ''customer_user_id'',
       obj_get (profile_of body) ''customer_user_id'',
       obj_get (props_of body) ''customer_user_id'', obj_get body ''user_id''] of
     None \<Rightarrow> None | Some raw \<Rightarrow> parse_uuid raw)"

definition parse_vendor_product_id :: "dict \<Rightarrow> string option" where
  "parse_vendor_product_id body = first_str [obj_get (props_of body) ''vendor_product_id'',
     obj_get (props_of body) ''product_id'', obj_get body ''vendor_product_id'',
     obj_get body ''product_id'']"

definition parse_expires_at :: "from_iso \<Rightarrow> dict \<Rightarrow> time option" where
  "parse_expires_at fromiso body = (case first_str [obj_get (props_of body) ''subscription_expires_at'',
       obj_get (props_of body) ''expires_at'', obj_get body ''subscription_expires_at'',
       obj_get body ''expires_at'', obj_get (profile_of body) ''expires_at''] of
     None \<Rightarrow> None
   | Some raw \<Rightarrow>
       (let candidate = (if ends_with ''Z'' raw then butlast raw @ ''+00:00'' else raw)
        in map_option as_utc (fromiso candidate)))"

definition parse_transaction_id :: "dict \<Rightarrow> string option" where
  "parse_transaction_id body = first_str [obj_get (props_of body) ''transaction_id'',
     obj_get body ''transaction_id'']"

definition parse_original_transaction_id :: "dict \<Rightarrow> string option" where
  "parse_original_transaction_id body = first_str [obj_get (props_of body) ''original_transaction_id'',
     obj_get body ''original_transaction_id'']"

definition parse_is_active :: "dict \<Rightarrow> bool option" where
  "parse_is_active body = first_bool [obj_get (props_of body) ''is_active'', obj_get body ''is_active'']"

definition parse_access_level_id :: "dict \<Rightarrow> string option" where
  "parse_access_level_id body = first_str [obj_get (props_of body) ''access_level_id'',
     obj_get body ''access_level_id'']"

definition parse_will_renew :: "dict \<Rightarrow> bool option" where
  "parse_will_renew body = first_bool [obj_get (props_of body) ''will_renew'', obj_get body ''will_renew'']"

definition classify_event :: "parsed_event \<Rightarrow> semantics" where
  "classify_event ev =
    (if pe_event_type ev \<in> set GRANTING_EVENTS then SemGranting
     else if pe_event_type ev \<in> set EXPIRING_EVENTS then SemExpiring
     else if pe_event_type ev \<in> set NOOP_EVENTS then SemNoop
     else if pe_is_active ev = Some True \<and> pe_access_level ev = Some ''premium'' then SemGranting
     else if pe_is_active ev = Some False then SemExpiring
     else SemNoop)"

section \<open>Service\<close>

record webhook_outcome =
  wo_result :: string
  wo_reason :: "string option"
  wo_event_type :: "string option"

definition ignored :: "string option \<Rightarrow> string option \<Rightarrow> webhook_outcome" where
  "ignored reason event_type =
     \<lparr>wo_result = ''ignored'', wo_reason = reason, wo_event_type = event_type\<rparr>"

record adapty_env =
  ad_loads :: json_loads
  ad_from_iso :: from_iso
  ad_iso :: "time \<Rightarrow> string"
  ad_cfg :: settings

definition insert_adapty_event :: "parsed_event \<Rightarrow> dict \<Rightarrow> bool db_act" where
  "insert_adapty_event ev body = (\<lambda>db.
     if \<not> jsonb_ok (JObj body) then (Inl DbError, db)
     else if list_ex (\<lambda>r. ae_event_id r = pe_event_id ev) (adapty_events db) then (Inr False, db)
     else if users db (pe_user ev) = None then (Inl DbError, db)
     else (Inr True, db\<lparr>adapty_events := adapty_events db @
       [\<lparr>ae_event_id = pe_event_id ev, ae_user = pe_user ev, ae_event_type = pe_event_type ev,
         ae_payload = JObj body\<rparr>]\<rparr>))"

definition status_name :: "sub_status \<Rightarrow> string" where
  "status_name s = (case s of SubActive \<Rightarrow> ''active'' | SubExpired \<Rightarrow> ''expired'' | SubNone \<Rightarrow> ''none'')"

definition read_subscription :: "uuid \<Rightarrow> (string option \<times> string option) db_act" where
  "read_subscription uid = (\<lambda>db. case subscriptions db uid of
     None \<Rightarrow> (Inr (None, None), db)
   | Some row \<Rightarrow> (Inr (Some (status_name (s_status row)), s_plan row), db))"

definition adapty_upsert_subscription ::
  "time \<Rightarrow> parsed_event \<Rightarrow> semantics \<Rightarrow> (string option \<times> string option) db_act" where
  "adapty_upsert_subscription now ev sem = (\<lambda>db.
    let uid = pe_user ev in
    if sem = SemGranting \<and> \<not> text_ok (pe_vendor_product ev) then (Inl DbError, db)
    else case subscriptions db uid of
      None \<Rightarrow>
        (let row = (if sem = SemGranting
           then \<lparr>s_status = SubActive, s_plan = pe_vendor_product ev, s_expires = pe_expires ev,
                  s_updated = db_now db\<rparr>
           else \<lparr>s_status = SubExpired, s_plan = None, s_expires = None, s_updated = db_now db\<rparr>)
         in if users db uid = None then (Inl DbError, db)
            else (Inr (Some (status_name (s_status row)), s_plan row),
              db\<lparr>subscriptions := (subscriptions db)(uid \<mapsto> row)\<rparr>))
    | Some old \<Rightarrow>
        (let row = (if sem = SemGranting
           then old\<lparr>s_status := SubActive, s_plan := pe_vendor_product ev, s_expires := pe_expires ev,
                  s_updated := now\<rparr>
           else old\<lparr>s_status := SubExpired, s_updated := now\<rparr>)
         in (Inr (Some (status_name (s_status row)), s_plan row),
              db\<lparr>subscriptions := (subscriptions db)(uid \<mapsto> row)\<rparr>)))"

definition tier_for :: "adapty_env \<Rightarrow> string option \<Rightarrow> int" where
  "tier_for env vendor =
    (case map_of (adapty_product_tokens (ad_loads env) (ad_cfg env))
        (case vendor of Some v \<Rightarrow> v | None \<Rightarrow> []) of
       Some n \<Rightarrow> if n \<noteq> 0 then n else adapty_subscription_tokens_grant (ad_cfg env)
     | None \<Rightarrow> adapty_subscription_tokens_grant (ad_cfg env))"

definition adapty_key :: "string \<Rightarrow> string" where
  "adapty_key txn = ''adapty-txn:'' @ txn"

definition adapty_grant :: "adapty_env \<Rightarrow> parsed_event \<Rightarrow> string \<Rightarrow> wallet_result db_act" where
  "adapty_grant env ev txn = grant (pe_user ev) (tier_for env (pe_vendor_product ev)) (adapty_key txn)
     (JObj [(''transactionId'', JStr txn), (''eventType'', JStr (pe_event_type ev)),
       (''vendorProductId'', opt_str (pe_vendor_product ev))]) ''adapty_subscription''"

text \<open>\<^verbatim>\<open>event.transaction_id or event.original_transaction_id or event.event_id\<close>.\<close>

definition txn_of :: "parsed_event \<Rightarrow> string" where
  "txn_of ev = (case pe_transaction ev of
     Some t \<Rightarrow> if t \<noteq> [] then t else (case pe_original ev of
         Some q \<Rightarrow> if q \<noteq> [] then q else pe_event_id ev | None \<Rightarrow> pe_event_id ev)
   | None \<Rightarrow> (case pe_original ev of
         Some q \<Rightarrow> if q \<noteq> [] then q else pe_event_id ev | None \<Rightarrow> pe_event_id ev))"

definition adapty_apply :: "adapty_env \<Rightarrow> time \<Rightarrow> parsed_event \<Rightarrow> dict \<Rightarrow> webhook_outcome db_act" where
  "adapty_apply env now ev body =
     bind_act (insert_adapty_event ev body) (\<lambda>inserted.
     if \<not> inserted then ret \<lparr>wo_result = ''duplicate'', wo_reason = None, wo_event_type = None\<rparr>
     else
       (let sem = classify_event ev; txn = txn_of ev in
        bind_act (if sem = SemNoop then read_subscription (pe_user ev)
          else bind_act (adapty_upsert_subscription now ev sem) (\<lambda>sp.
            if sem = SemGranting then bind_act (adapty_grant env ev txn) (\<lambda>_. ret sp) else ret sp))
          (\<lambda>(status, plan).
        bind_act (audit_record (pe_user ev) None EVENT_ADAPTY_SUBSCRIPTION
          [(''adaptyEventId'', JStr (pe_event_id ev)), (''eventType'', JStr (pe_event_type ev)),
           (''semantics'', JStr (semantics_name sem)), (''status'', opt_str status),
           (''plan'', opt_str plan),
           (''expiresAt'', opt_str (map_option (ad_iso env) (pe_expires ev))),
           (''transactionId'', JStr txn),
           (''willRenew'', case pe_will_renew ev of Some b \<Rightarrow> JBool b | None \<Rightarrow> JNull),
           (''customerId'', JStr (str_uuid (pe_user ev)))]) (\<lambda>_.
        ret \<lparr>wo_result = ''applied'', wo_reason = None, wo_event_type = None\<rparr>))))"

text \<open>The stages of \<^verbatim>\<open>handle\<close> that need no database, as one function: either the outcome is already
  known, or the event identifier, type and user are.\<close>

definition adapty_front ::
  "adapty_env \<Rightarrow> string \<Rightarrow> webhook_outcome + (dict \<times> string \<times> string \<times> uuid)" where
  "adapty_front env raw =
    (if raw = [] then Inl (ignored (Some ''empty_body'') None)
     else case ad_loads env raw of
       None \<Rightarrow> Inl (ignored (Some ''invalid_json'') None)
     | Some (JObj body) \<Rightarrow>
         (case parse_event_id body of
            None \<Rightarrow> Inl (ignored (Some ''missing_event_id'') None)
          | Some eid \<Rightarrow>
              (case parse_customer_user_id body of
                 None \<Rightarrow> Inl (ignored (Some ''missing_customer_user_id'') None)
               | Some uid \<Rightarrow> Inr (body, eid, parse_event_type body, uid)))
     | Some _ \<Rightarrow> Inl (ignored (Some ''not_an_object'') None))"

definition adapty_event :: "adapty_env \<Rightarrow> dict \<Rightarrow> string \<Rightarrow> string \<Rightarrow> uuid \<Rightarrow> parsed_event" where
  "adapty_event env body eid etype uid = \<lparr>pe_event_id = eid, pe_event_type = etype, pe_user = uid,
     pe_vendor_product = parse_vendor_product_id body,
     pe_expires = parse_expires_at (ad_from_iso env) body,
     pe_transaction = parse_transaction_id body,
     pe_original = parse_original_transaction_id body,
     pe_is_active = parse_is_active body, pe_access_level = parse_access_level_id body,
     pe_will_renew = parse_will_renew body\<rparr>"

definition adapty_handle :: "adapty_env \<Rightarrow> time \<Rightarrow> string \<Rightarrow> webhook_outcome db_act" where
  "adapty_handle env now raw = (case adapty_front env raw of
     Inl outcome \<Rightarrow> ret outcome
   | Inr (body, eid, etype, uid) \<Rightarrow> (\<lambda>db.
       if users db uid = None then (Inr (ignored (Some ''user_not_found'') None), db)
       else if etype \<notin> set KNOWN_EVENTS then (Inr (ignored None (Some etype)), db)
       else adapty_apply env now (adapty_event env body eid etype uid) body db))"

section \<open>Outcomes\<close>

lemma insert_adapty_event_money: "insert_adapty_event ev body db = (r, db') \<Longrightarrow> same_money db db'"
  by (auto simp: insert_adapty_event_def same_money_def split: if_splits)

lemma insert_adapty_event_True:
  "insert_adapty_event ev body db = (Inr True, db') \<Longrightarrow>
   (\<forall>r \<in> set (adapty_events db). ae_event_id r \<noteq> pe_event_id ev)
   \<and> adapty_events db' = adapty_events db @
       [\<lparr>ae_event_id = pe_event_id ev, ae_user = pe_user ev, ae_event_type = pe_event_type ev,
         ae_payload = JObj body\<rparr>]
   \<and> subscriptions db' = subscriptions db \<and> users db' = users db"
  by (auto simp: insert_adapty_event_def list_ex_iff split: if_splits)

lemma insert_adapty_event_False:
  "insert_adapty_event ev body db = (Inr False, db') \<Longrightarrow>
   db' = db \<and> (\<exists>r \<in> set (adapty_events db). ae_event_id r = pe_event_id ev)"
  by (auto simp: insert_adapty_event_def list_ex_iff split: if_splits)

lemma adapty_upsert_money:
  "adapty_upsert_subscription now ev sem db = (r, db') \<Longrightarrow>
   same_money db db' \<and> adapty_events db' = adapty_events db"
  by (auto simp: adapty_upsert_subscription_def same_money_def Let_def split: option.splits if_splits)

lemma read_subscription_same: "read_subscription uid db = (r, db') \<Longrightarrow> db' = db"
  by (auto simp: read_subscription_def split: option.splits)

text \<open>The steps of an applied event, named.\<close>

lemma adapty_apply_applied:
  assumes "adapty_apply env now ev body db = (Inr out, db')" "wo_result out \<noteq> ''duplicate''"
  obtains db1 db2 db3 sp where
    "insert_adapty_event ev body db = (Inr True, db1)"
    "if classify_event ev = SemNoop then db2 = db1
     else adapty_upsert_subscription now ev (classify_event ev) db1 = (Inr sp, db2)"
    "if classify_event ev = SemGranting then \<exists>res. adapty_grant env ev (txn_of ev) db2 = (Inr res, db3)
     else db3 = db2"
    "\<exists>p. audit_record (pe_user ev) None EVENT_ADAPTY_SUBSCRIPTION p db3 = (Inr (), db')"
    "wo_result out = ''applied''"
proof -
  from assms(1) obtain ins db1 where i: "insert_adapty_event ev body db = (Inr ins, db1)"
    by (auto simp: adapty_apply_def elim!: bind_act_Inr_E)
  have ins: "ins" using assms i by (cases ins) (auto simp: adapty_apply_def bind_act_step)
  from assms(1) i ins obtain sp db3 p where
    mid: "(if classify_event ev = SemNoop then read_subscription (pe_user ev)
          else bind_act (adapty_upsert_subscription now ev (classify_event ev)) (\<lambda>sp.
            if classify_event ev = SemGranting
            then bind_act (adapty_grant env ev (txn_of ev)) (\<lambda>_. ret sp) else ret sp)) db1
        = (Inr sp, db3)" and
    aud: "audit_record (pe_user ev) None EVENT_ADAPTY_SUBSCRIPTION p db3 = (Inr (), db')" and
    out: "wo_result out = ''applied''"
    by (auto simp: adapty_apply_def bind_act_step Let_def split: prod.splits elim!: bind_act_Inr_E)
  show ?thesis
  proof (cases "classify_event ev = SemNoop")
    case True
    with mid have "db3 = db1" by (simp add: read_subscription_same)
    with True i ins aud out that[of db1 db1 sp db1] show ?thesis by auto
  next
    case False
    with mid obtain sp' db2 where "adapty_upsert_subscription now ev (classify_event ev) db1 = (Inr sp', db2)"
      "if classify_event ev = SemGranting then \<exists>res. adapty_grant env ev (txn_of ev) db2 = (Inr res, db3)
       else db3 = db2"
      by (auto elim!: bind_act_Inr_E split: if_splits)
    with False i ins aud out that[of db1 db2 sp' db3] show ?thesis by auto
  qed
qed

lemma adapty_apply_duplicate:
  assumes "adapty_apply env now ev body db = (Inr out, db')" "wo_result out = ''duplicate''"
  shows "db' = db \<and> (\<exists>r \<in> set (adapty_events db). ae_event_id r = pe_event_id ev)"
proof -
  from assms(1) obtain ins db1 where i: "insert_adapty_event ev body db = (Inr ins, db1)"
    by (auto simp: adapty_apply_def elim!: bind_act_Inr_E)
  have "\<not> ins"
    using assms i by (cases ins)
      (auto simp: adapty_apply_def bind_act_step Let_def split: prod.splits elim!: bind_act_Inr_E)
  with assms(1) i insert_adapty_event_False[of ev body db db1] show ?thesis
    by (auto simp: adapty_apply_def bind_act_step)
qed

lemma adapty_apply_credits:
  assumes "wallet_inv db" "adapty_apply env now ev body db = (Inr out, db')"
  shows "credits_only (pe_user ev) (adapty_key (txn_of ev)) db db'"
proof (cases "wo_result out = ''duplicate''")
  case True
  with adapty_apply_duplicate[OF assms(2)] assms(1) show ?thesis by (simp add: credits_only_refl)
next
  case False
  from adapty_apply_applied[OF assms(2) this] obtain db1 db2 db3 sp where
    i: "insert_adapty_event ev body db = (Inr True, db1)" and
    u: "if classify_event ev = SemNoop then db2 = db1
     else adapty_upsert_subscription now ev (classify_event ev) db1 = (Inr sp, db2)" and
    g: "if classify_event ev = SemGranting then \<exists>res. adapty_grant env ev (txn_of ev) db2 = (Inr res, db3)
     else db3 = db2" and
    a: "\<exists>p. audit_record (pe_user ev) None EVENT_ADAPTY_SUBSCRIPTION p db3 = (Inr (), db')" by metis
  have m1: "same_money db db1" by (rule insert_adapty_event_money[OF i])
  have m2: "same_money db1 db2" using u adapty_upsert_money by (auto split: if_splits)
  have m12: "same_money db db2" using m1 m2 by (simp add: same_money_def)
  then have inv: "wallet_inv db2" using assms(1) by (simp add: same_money_views)
  have "credits_only (pe_user ev) (adapty_key (txn_of ev)) db2 db3"
    using g grant_credits_only[OF inv] credits_only_refl[OF inv]
    by (auto simp: adapty_grant_def split: if_splits)
  with m12 a show ?thesis using credits_only_before credits_only_after same_money_audit by blast
qed

lemma adapty_handle_cases:
  assumes "adapty_handle env now raw db = (r, db')"
  obtains (ignored) out where "r = Inr out" "wo_result out = ''ignored''" "db' = db"
  | (dispatched) body eid etype uid where "adapty_front env raw = Inr (body, eid, etype, uid)"
      "users db uid \<noteq> None" "etype \<in> set KNOWN_EVENTS"
      "adapty_apply env now (adapty_event env body eid etype uid) body db = (r, db')"
  using assms unfolding adapty_handle_def
  by (auto simp: adapty_front_def ignored_def split: sum.splits prod.splits if_splits option.splits json.splits)

section \<open>Deliveries\<close>

text \<open>Deliveries arrive in any order, any number of times; each runs in its own transaction.\<close>

definition adapty_delivery :: "adapty_env \<Rightarrow> time \<times> string \<Rightarrow> db \<Rightarrow> db" where
  "adapty_delivery env d db = snd (session_scope (adapty_handle env (fst d) (snd d)) db)"

definition adapty_account :: "adapty_env \<Rightarrow> time \<times> string \<Rightarrow> uuid" where
  "adapty_account env d = (case adapty_front env (snd d) of
     Inr (body, eid, etype, uid) \<Rightarrow> uid | Inl _ \<Rightarrow> 0)"

definition adapty_event_key :: "adapty_env \<Rightarrow> time \<times> string \<Rightarrow> string" where
  "adapty_event_key env d = (case adapty_front env (snd d) of
     Inr (body, eid, etype, uid) \<Rightarrow> adapty_key (txn_of (adapty_event env body eid etype uid))
   | Inl _ \<Rightarrow> [])"

lemma adapty_delivery_credits:
  assumes "wallet_inv db"
  shows "credits_only (adapty_account env d) (adapty_event_key env d) db (adapty_delivery env d db)"
  unfolding adapty_delivery_def
proof (rule credits_only_scope[OF assms])
  fix out db'
  assume "adapty_handle env (fst d) (snd d) db = (Inr out, db')"
  then show "credits_only (adapty_account env d) (adapty_event_key env d) db db'"
  proof (cases rule: adapty_handle_cases)
    case ignored
    then show ?thesis using assms by (simp add: credits_only_refl)
  next
    case (dispatched body eid etype uid)
    from adapty_apply_credits[OF assms dispatched(4)] dispatched(1) show ?thesis
      by (simp add: adapty_account_def adapty_event_key_def adapty_event_def)
  qed
qed

interpretation ad: once_crediting wallet_inv ledger_entry "\<lambda>db u. current_balance u db"
  "adapty_account env" "adapty_event_key env" "adapty_delivery env" for env
proof
  fix db d u k e
  assume inv: "wallet_inv db"
  note C = adapty_delivery_credits[OF inv, where d = d and env = env, unfolded credits_only_def]
  show "wallet_inv (adapty_delivery env d db)" using C by blast
  show "ledger_entry db u k = Some e \<Longrightarrow> ledger_entry (adapty_delivery env d db) u k = Some e"
    using C by blast
  show "u \<noteq> adapty_account env d \<Longrightarrow>
      current_balance u (adapty_delivery env d db) = current_balance u db" using C by blast
  show "current_balance (adapty_account env d) (adapty_delivery env d db)
        \<noteq> current_balance (adapty_account env d) db \<Longrightarrow>
      ledger_entry db (adapty_account env d) (adapty_event_key env d) = None \<and>
      ledger_entry (adapty_delivery env d db) (adapty_account env d) (adapty_event_key env d) \<noteq> None"
    using C by blast
qed

lemma ad_handle_all_fold: "ad.handle_all env ds db = fold (adapty_delivery env) ds db"
  by (induction ds arbitrary: db) simp_all

text \<open>
  C15: Adapty may deliver events repeatedly and in any order, and several events may belong to one
  billing period; the period is credited once. After a delivery has moved a balance, no later
  delivery that resolves to the same user and the same transaction moves any balance.
\<close>

theorem adapty_period_credited_once:
  assumes "wallet_inv db"
    and "current_balance (adapty_account env d) (adapty_delivery env d db)
       \<noteq> current_balance (adapty_account env d) db"
    and "adapty_account env d' = adapty_account env d"
    and "adapty_event_key env d' = adapty_event_key env d"
  shows "current_balance u (adapty_delivery env d'
           (fold (adapty_delivery env) ds (adapty_delivery env d db)))
       = current_balance u (fold (adapty_delivery env) ds (adapty_delivery env d db))"
  using ad.credited_final[OF assms, of u ds] unfolding ad_handle_all_fold .

lemma adapty_upsert_effect:
  assumes "adapty_upsert_subscription now ev sem db = (Inr sp, db')"
  shows "\<exists>row. subscriptions db' = (subscriptions db)(pe_user ev \<mapsto> row)
     \<and> (sem = SemGranting \<longrightarrow> s_status row = SubActive \<and> s_plan row = pe_vendor_product ev
          \<and> s_expires row = pe_expires ev)
     \<and> (sem \<noteq> SemGranting \<longrightarrow> s_status row = SubExpired
          \<and> s_plan row = (case subscriptions db (pe_user ev) of Some old \<Rightarrow> s_plan old | None \<Rightarrow> None)
          \<and> s_expires row = (case subscriptions db (pe_user ev) of Some old \<Rightarrow> s_expires old | None \<Rightarrow> None))"
  using assms
  by (auto simp: adapty_upsert_subscription_def Let_def split: option.splits if_splits)

text \<open>The effect of an applied event on the tables, in terms of the states before and after.\<close>

definition adapty_effect :: "adapty_env \<Rightarrow> parsed_event \<Rightarrow> dict \<Rightarrow> db \<Rightarrow> db \<Rightarrow> bool" where
  "adapty_effect env ev body db db' \<longleftrightarrow>
     (\<forall>r \<in> set (adapty_events db). ae_event_id r \<noteq> pe_event_id ev)
   \<and> adapty_events db' = adapty_events db @
       [\<lparr>ae_event_id = pe_event_id ev, ae_user = pe_user ev, ae_event_type = pe_event_type ev,
         ae_payload = JObj body\<rparr>]
   \<and> (\<forall>u. u \<noteq> pe_user ev \<longrightarrow> subscriptions db' u = subscriptions db u
         \<and> current_balance u db' = current_balance u db)
   \<and> (case classify_event ev of
        SemNoop \<Rightarrow> subscriptions db' = subscriptions db
      | SemExpiring \<Rightarrow> (\<exists>row. subscriptions db' (pe_user ev) = Some row \<and> s_status row = SubExpired)
      | SemGranting \<Rightarrow> (\<exists>row. subscriptions db' (pe_user ev) = Some row \<and> s_status row = SubActive
           \<and> s_plan row = pe_vendor_product ev \<and> s_expires row = pe_expires ev))
   \<and> current_balance (pe_user ev) db' = current_balance (pe_user ev) db +
       (if classify_event ev = SemGranting
           \<and> ledger_entry db (pe_user ev) (adapty_key (txn_of ev)) = None
        then tier_for env (pe_vendor_product ev) else 0)"

lemma adapty_apply_effect:
  assumes "wallet_inv db" "adapty_apply env now ev body db = (Inr out, db')"
    and "wo_result out \<noteq> ''duplicate''"
  shows "adapty_effect env ev body db db' \<and> wo_result out = ''applied''"
proof -
  from adapty_apply_applied[OF assms(2,3)] obtain db1 db2 db3 sp p where
    i: "insert_adapty_event ev body db = (Inr True, db1)" and
    u: "if classify_event ev = SemNoop then db2 = db1
     else adapty_upsert_subscription now ev (classify_event ev) db1 = (Inr sp, db2)" and
    g: "if classify_event ev = SemGranting then \<exists>res. adapty_grant env ev (txn_of ev) db2 = (Inr res, db3)
     else db3 = db2" and
    a: "audit_record (pe_user ev) None EVENT_ADAPTY_SUBSCRIPTION p db3 = (Inr (), db')" and
    out: "wo_result out = ''applied''" by metis
  note I = insert_adapty_event_True[OF i]
  have m1: "same_money db db1" by (rule insert_adapty_event_money[OF i])
  have m2: "same_money db1 db2 \<and> adapty_events db2 = adapty_events db1"
    using u adapty_upsert_money by (auto split: if_splits)
  have m12: "same_money db db2" using m1 m2 by (simp add: same_money_def)
  then have inv: "wallet_inv db2" using assms(1) by (simp add: same_money_views)
  note A = audit_record_frame(4,5)[OF a] same_money_audit[OF a]
  have ent: "ledger_entry db2 = ledger_entry db" "current_balance v db2 = current_balance v db" for v
    using m12 by (simp_all add: same_money_views)
  have grant: "adapty_events db3 = adapty_events db2 \<and> subscriptions db3 = subscriptions db2
      \<and> current_balance (pe_user ev) db3 = current_balance (pe_user ev) db +
       (if classify_event ev = SemGranting
           \<and> ledger_entry db (pe_user ev) (adapty_key (txn_of ev)) = None
        then tier_for env (pe_vendor_product ev) else 0)
      \<and> (\<forall>v. v \<noteq> pe_user ev \<longrightarrow> current_balance v db3 = current_balance v db)"
  proof (cases "classify_event ev = SemGranting")
    case True
    with g obtain res where r: "adapty_grant env ev (txn_of ev) db2 = (Inr res, db3)" by auto
    note e = grant_effect[OF inv r[unfolded adapty_grant_def] ]
      and c = grant_credits_only[OF inv r[unfolded adapty_grant_def] ]
    have o: "\<forall>v. v \<noteq> pe_user ev \<longrightarrow> current_balance v db3 = current_balance v db"
      using c unfolding credits_only_def ent(2) by blast
    have b: "current_balance (pe_user ev) db3 = current_balance (pe_user ev) db +
       (if ledger_entry db (pe_user ev) (adapty_key (txn_of ev)) = None
        then tier_for env (pe_vendor_product ev) else 0)"
      using e unfolding ent by blast
    show ?thesis
      using frame_sel(1,7)[OF conjunct1[OF e] ] o b True by simp
  next
    case False
    with g ent show ?thesis by simp
  qed
  have subs: "(case classify_event ev of
        SemNoop \<Rightarrow> subscriptions db2 = subscriptions db
      | SemExpiring \<Rightarrow> (\<exists>row. subscriptions db2 (pe_user ev) = Some row \<and> s_status row = SubExpired)
      | SemGranting \<Rightarrow> (\<exists>row. subscriptions db2 (pe_user ev) = Some row \<and> s_status row = SubActive
           \<and> s_plan row = pe_vendor_product ev \<and> s_expires row = pe_expires ev))
      \<and> (\<forall>v. v \<noteq> pe_user ev \<longrightarrow> subscriptions db2 v = subscriptions db v)"
    using u I adapty_upsert_effect[of now ev "classify_event ev" db1 sp db2]
    by (cases "classify_event ev") auto
  have eqs: "subscriptions db' = subscriptions db2" "adapty_events db' = adapty_events db1"
    "current_balance v db' = current_balance v db3" for v
    using A grant m2 same_money_views(3)[OF A(3)] by simp_all
  show ?thesis
    unfolding adapty_effect_def eqs
    by (intro conjI allI impI)
      (use I grant subs out in blast)+
qed

text \<open>Everything the service takes from a body that is \<^verbatim>\<open>JSONB\<close> can be stored.\<close>

lemma first_str_text: "\<forall>v \<in> set vs. jsonb_ok v \<Longrightarrow> text_ok (first_str vs)"
  by (induction vs rule: first_str.induct) auto

lemma obj_get_jsonb: "jsonb_ok_dict kvs \<Longrightarrow> jsonb_ok (obj_get kvs k)"
  by (auto simp: obj_get_def jsonb_dict_iff dest!: map_of_SomeD split: option.split)

lemma as_dict_jsonb: "jsonb_ok v \<Longrightarrow> jsonb_ok_dict (as_dict v)"
  by (cases v) (simp_all add: as_dict_def)

lemma parsed_text:
  assumes "jsonb_ok (JObj body)" "parse_event_id body = Some eid"
  shows "text_ok (Some eid)" "text_ok (parse_vendor_product_id body)" "text_ok (parse_transaction_id body)"
    "text_ok (parse_original_transaction_id body)"
proof -
  have b: "jsonb_ok (obj_get body k)" "jsonb_ok (obj_get (props_of body) k)" for k
    using assms(1) by (simp_all add: obj_get_jsonb props_of_def as_dict_jsonb)
  show "text_ok (Some eid)"
    unfolding assms(2)[symmetric] parse_event_id_def by (rule first_str_text) (simp add: b)
  show "text_ok (parse_vendor_product_id body)" "text_ok (parse_transaction_id body)"
    "text_ok (parse_original_transaction_id body)"
    unfolding parse_vendor_product_id_def parse_transaction_id_def parse_original_transaction_id_def
    by (rule first_str_text, simp add: b)+
qed

lemma known_event_text: "e \<in> set KNOWN_EVENTS \<Longrightarrow> CHR 0x00 \<notin> set e"
  by (auto simp: KNOWN_EVENTS_def GRANTING_EVENTS_def EXPIRING_EVENTS_def NOOP_EVENTS_def CONDITIONAL_EVENTS_def)

lemma txn_of_text:
  "text_ok (pe_transaction ev) \<Longrightarrow> text_ok (pe_original ev) \<Longrightarrow> text_ok (Some (pe_event_id ev)) \<Longrightarrow>
   CHR 0x00 \<notin> set (txn_of ev)"
  by (auto simp: txn_of_def split: option.splits)

lemma semantics_name_text [simp]: "CHR 0x00 \<notin> set (semantics_name sem)"
  by (cases sem) simp_all

lemma adapty_key_text [simp]: "CHR 0x00 \<in> set (adapty_key s) \<longleftrightarrow> CHR 0x00 \<in> set s"
  by (simp add: adapty_key_def)

lemma adapty_payload_ok:
  "jsonb_ok (audit_payload [(''adaptyEventId'', JStr eid), (''eventType'', JStr ty), (''semantics'', JStr (semantics_name sem)),
     (''status'', opt_str st), (''plan'', opt_str pl), (''expiresAt'', opt_str ex), (''transactionId'', JStr txn),
     (''willRenew'', case w of Some b \<Rightarrow> JBool b | None \<Rightarrow> JNull), (''customerId'', JStr (str_uuid u))] rid)
   \<longleftrightarrow> text_ok (Some eid) \<and> text_ok (Some ty) \<and> text_ok st \<and> text_ok pl \<and> text_ok ex \<and> text_ok (Some txn) \<and> text_ok rid"
proof -
  have "list_all plain_key [''adaptyEventId'', ''eventType'', ''semantics'', ''status'', ''plan'', ''expiresAt'',
      ''transactionId'', ''willRenew'', ''customerId'']" by code_simp
  then show ?thesis by (subst audit_payload_plain) (auto split: option.split)
qed

text \<open>Why the credit of a granting event is refused, and what its audit row needs of the database: the
  request id, the text of the expiry, and the plan it echoes where the event does not set it.\<close>

definition adapty_refusal :: "adapty_env \<Rightarrow> parsed_event \<Rightarrow> db \<Rightarrow> app_error option" where
  "adapty_refusal env ev db =
    (let credits = tier_for env (pe_vendor_product ev) in
     if classify_event ev \<noteq> SemGranting then None
     else if credits \<le> 0 then Some ConflictError
     else if \<not> bigint_ok credits then Some DbError
     else (case ledger_entry db (pe_user ev) (adapty_key (txn_of ev)) of
         Some e \<Rightarrow> if e = (Credit, credits) then None else Some ConflictError
       | None \<Rightarrow> if bigint_ok (current_balance (pe_user ev) db + credits) then None else Some DbError))"

definition adapty_loggable :: "adapty_env \<Rightarrow> parsed_event \<Rightarrow> db \<Rightarrow> bool" where
  "adapty_loggable env ev db \<longleftrightarrow> text_ok (db_rid db) \<and> text_ok (map_option (ad_iso env) (pe_expires ev))
     \<and> (classify_event ev = SemGranting \<or> (case subscriptions db (pe_user ev) of None \<Rightarrow> True | Some row \<Rightarrow> text_ok (s_plan row)))"

definition applied :: webhook_outcome where
  "applied = \<lparr>wo_result = ''applied'', wo_reason = None, wo_event_type = None\<rparr>"

lemma status_name_text [simp]: "CHR 0x00 \<notin> set (status_name s)"
  by (cases s) (simp_all add: status_name_def)

lemma adapty_grant_answer:
  assumes "users db (pe_user ev) \<noteq> None" "text_ok (pe_vendor_product ev)" "CHR 0x00 \<notin> set (txn_of ev)"
    and "CHR 0x00 \<notin> set (pe_event_type ev)" "classify_event ev = SemGranting"
  shows "case fst (adapty_grant env ev (txn_of ev) db) of
      Inl e \<Rightarrow> adapty_refusal env ev db = Some e \<or> (adapty_refusal env ev db = None \<and> e = DbError \<and> \<not> text_ok (db_rid db))
    | Inr _ \<Rightarrow> adapty_refusal env ev db = None"
  using assms
  by (auto simp: adapty_grant_def grant_value adapty_refusal_def Let_def ledger_entry_def split: option.split)

lemma adapty_upsert_answer:
  assumes "users db (pe_user ev) \<noteq> None" "text_ok (pe_vendor_product ev)"
  shows "\<exists>st db'. adapty_upsert_subscription now ev sem db = (Inr (Some st,
        if sem = SemGranting then pe_vendor_product ev else Option.bind (subscriptions db (pe_user ev)) s_plan), db')
    \<and> CHR 0x00 \<notin> set st \<and> db_rid db' = db_rid db"
  using assms
  by (cases "subscriptions db (pe_user ev)") (auto simp: adapty_upsert_subscription_def Let_def)

lemma refusal_cong:
  assumes "same_money db db'"
  shows "adapty_refusal env ev db' = adapty_refusal env ev db"
  unfolding adapty_refusal_def same_money_views(2,3)[OF assms] ..

lemma adapty_apply_fresh:
  assumes usr: "users db (pe_user ev) \<noteq> None" and inv: "wallet_inv db" and body: "jsonb_ok (JObj body)"
    and clean: "text_ok (pe_vendor_product ev)" "CHR 0x00 \<notin> set (txn_of ev)" "CHR 0x00 \<notin> set (pe_event_type ev)"
      "CHR 0x00 \<notin> set (pe_event_id ev)"
    and new: "\<not> (\<exists>r \<in> set (adapty_events db). ae_event_id r = pe_event_id ev)"
  shows "fst (adapty_apply env now ev body db) = (case adapty_refusal env ev db of
      Some e \<Rightarrow> Inl e | None \<Rightarrow> if adapty_loggable env ev db then Inr applied else Inl DbError)"
proof -
  obtain db1 where i: "insert_adapty_event ev body db = (Inr True, db1)"
    and I: "same_money db db1" "subscriptions db1 = subscriptions db" "db_rid db1 = db_rid db"
  proof -
    let ?d = "db\<lparr>adapty_events := adapty_events db @ [\<lparr>ae_event_id = pe_event_id ev, ae_user = pe_user ev,
        ae_event_type = pe_event_type ev, ae_payload = JObj body\<rparr>]\<rparr>"
    have "insert_adapty_event ev body db = (Inr True, ?d)"
      using usr body new by (simp add: insert_adapty_event_def list_ex_iff)
    from that[OF this] show thesis by (simp add: same_money_def)
  qed
  have usr1: "users db1 (pe_user ev) \<noteq> None" using usr I(1) by (simp add: same_money_def)
  let ?txn = "txn_of ev" and ?sem = "classify_event ev"
  define log where "log st pl = [(''adaptyEventId'', JStr (pe_event_id ev)), (''eventType'', JStr (pe_event_type ev)),
     (''semantics'', JStr (semantics_name ?sem)), (''status'', opt_str st), (''plan'', opt_str pl),
     (''expiresAt'', opt_str (map_option (ad_iso env) (pe_expires ev))), (''transactionId'', JStr ?txn),
     (''willRenew'', case pe_will_renew ev of Some b \<Rightarrow> JBool b | None \<Rightarrow> JNull),
     (''customerId'', JStr (str_uuid (pe_user ev)))]" for st pl
  have logged: "fst (bind_act (audit_record (pe_user ev) None EVENT_ADAPTY_SUBSCRIPTION (log st pl)) (\<lambda>_. ret applied) d)
      = (if text_ok (db_rid db) \<and> text_ok (map_option (ad_iso env) (pe_expires ev)) \<and> text_ok pl then Inr applied else Inl DbError)"
    if "users d (pe_user ev) \<noteq> None" "db_rid d = db_rid db" "text_ok st" for st pl d
    using that clean by (auto simp: bind_act_def audit_record_def log_def adapty_payload_ok)
  have run: "adapty_apply env now ev body db = bind_act (if ?sem = SemNoop then read_subscription (pe_user ev)
      else bind_act (adapty_upsert_subscription now ev ?sem) (\<lambda>sp.
        if ?sem = SemGranting then bind_act (adapty_grant env ev ?txn) (\<lambda>_. ret sp) else ret sp))
      (\<lambda>(st, pl). bind_act (audit_record (pe_user ev) None EVENT_ADAPTY_SUBSCRIPTION (log st pl)) (\<lambda>_. ret applied)) db1"
    by (simp add: adapty_apply_def bind_act_step i Let_def log_def applied_def)
  have ref: "adapty_refusal env ev db = None" if "?sem \<noteq> SemGranting" using that by (simp add: adapty_refusal_def)
  obtain st db2 where u: "adapty_upsert_subscription now ev ?sem db1 = (Inr (Some st,
        if ?sem = SemGranting then pe_vendor_product ev else Option.bind (subscriptions db1 (pe_user ev)) s_plan), db2)"
    "CHR 0x00 \<notin> set st" "db_rid db2 = db_rid db1"
    using adapty_upsert_answer[OF usr1 clean(1)] by blast
  have m2: "same_money db db2" using I(1) adapty_upsert_money[OF u(1)] by (simp add: same_money_def)
  then have usr2: "users db2 (pe_user ev) \<noteq> None" using usr by (simp add: same_money_def)
  show ?thesis
  proof (cases ?sem)
    case SemNoop
    then show ?thesis unfolding run using logged[OF usr1 I(3)] ref I(2)
      by (cases "subscriptions db (pe_user ev)")
        (auto simp: bind_act_step read_subscription_def adapty_loggable_def)
  next
    case SemExpiring
    then show ?thesis unfolding run using logged[OF usr2, of "Some st"] u ref I(2,3)
      by (cases "subscriptions db (pe_user ev)") (auto simp: bind_act_step adapty_loggable_def)
  next
    case SemGranting
    obtain z db3 where g: "adapty_grant env ev ?txn db2 = (z, db3)" by fastforce
    note answer = adapty_grant_answer[OF usr2 clean(1-3) SemGranting, of env, unfolded refusal_cong[OF m2] ]
    show ?thesis
    proof (cases z)
      case (Inl e)
      with answer g SemGranting u I(3) show ?thesis
        unfolding run by (auto simp: bind_act_def adapty_loggable_def)
    next
      case (Inr w)
      have "wallet_inv db2" using inv m2 by (simp add: same_money_views)
      from grant_effect[OF this g[unfolded Inr adapty_grant_def] ]
      have "users db3 (pe_user ev) \<noteq> None" "db_rid db3 = db_rid db"
        using usr2 u(3) I(3) frame_sel(2,16) by metis+
      from logged[OF this, of "Some st"] show ?thesis
        unfolding run using answer g Inr SemGranting u clean(1)
        by (simp add: bind_act_step adapty_loggable_def)
    qed
  qed
qed

lemma adapty_event_sel:
  "pe_user (adapty_event env body eid etype uid) = uid" "pe_event_id (adapty_event env body eid etype uid) = eid"
  "pe_event_type (adapty_event env body eid etype uid) = etype"
  by (simp_all add: adapty_event_def)

lemma adapty_known_answer:
  assumes "wallet_inv db" "session_scope (adapty_handle env now raw) db = (r, db')"
    and "adapty_front env raw = Inr (body, eid, etype, uid)"
  shows "let ev = adapty_event env body eid etype uid in
        r = (if users db uid = None then Inr (ignored (Some ''user_not_found'') None)
             else if etype \<notin> set KNOWN_EVENTS then Inr (ignored None (Some etype))
             else if \<not> jsonb_ok (JObj body) then Inl DbError
             else if \<exists>row \<in> set (adapty_events db). ae_event_id row = eid
               then Inr \<lparr>wo_result = ''duplicate'', wo_reason = None, wo_event_type = None\<rparr>
             else case adapty_refusal env ev db of
               Some e \<Rightarrow> Inl e
             | None \<Rightarrow> if \<not> adapty_loggable env ev db then Inl DbError else Inr applied)
        \<and> (if r = Inr applied then adapty_effect env ev body db db' else db' = db)"
proof -
  let ?ev = "adapty_event env body eid etype uid"
  consider (early) "users db uid = None \<or> etype \<notin> set KNOWN_EVENTS"
    | (dispatched) "users db uid \<noteq> None" "etype \<in> set KNOWN_EVENTS" by blast
  then show ?thesis
  proof cases
    case early
    then show ?thesis using assms(2,3)
      by (auto simp: adapty_handle_def session_scope_def transaction_def ignored_def applied_def Let_def)
  next
    case dispatched
    then have "adapty_handle env now raw db = adapty_apply env now ?ev body db"
      using assms(3) by (auto simp: adapty_handle_def)
    then have s: "session_scope (adapty_apply env now ?ev body) db = (r, db')"
      using assms(2) by (simp add: session_scope_def transaction_def)
    have eid: "parse_event_id body = Some eid"
      using assms(3) by (auto simp: adapty_front_def split: if_splits option.splits json.splits)
    have refused: "\<not> jsonb_ok (JObj body) \<Longrightarrow> adapty_apply env now ?ev body db = (Inl DbError, db)"
      by (simp add: adapty_apply_def bind_act_def insert_adapty_event_def)
    have repeated: "adapty_apply env now ?ev body db = (Inr \<lparr>wo_result = ''duplicate'', wo_reason = None, wo_event_type = None\<rparr>, db)"
      if "jsonb_ok (JObj body)" "\<exists>row \<in> set (adapty_events db). ae_event_id row = eid"
    proof -
      have "insert_adapty_event ?ev body db = (Inr False, db)"
        using that by (auto simp: insert_adapty_event_def list_ex_iff adapty_event_sel)
      then show ?thesis by (simp add: adapty_apply_def bind_act_def)
    qed
    show ?thesis
    proof (cases "jsonb_ok (JObj body) \<and> \<not> (\<exists>row \<in> set (adapty_events db). ae_event_id row = eid)")
      case False
      then show ?thesis using s dispatched refused repeated
        by (cases "jsonb_ok (JObj body)") (auto simp: session_scope_def transaction_def applied_def Let_def simp del: jsonb_ok.simps)
    next
      case True
      have ok: "fst (adapty_apply env now ?ev body db) = (case adapty_refusal env ?ev db of
          Some e \<Rightarrow> Inl e | None \<Rightarrow> if adapty_loggable env ?ev db then Inr applied else Inl DbError)"
        using True dispatched parsed_text[OF _ eid] known_event_text[OF dispatched(2)]
        by (intro adapty_apply_fresh assms(1) txn_of_text) (auto simp: adapty_event_def)
      show ?thesis
      proof (cases r)
        case (Inl e)
        with s ok show ?thesis using True dispatched
          by (cases "adapty_apply env now ?ev body db")
            (auto simp: session_scope_def transaction_def applied_def Let_def split: sum.splits option.splits if_splits)
      next
        case (Inr out)
        with s have a: "adapty_apply env now ?ev body db = (Inr out, db')"
          by (simp add: session_scope_def transaction_Inr_iff)
        with ok have out: "out = applied" "adapty_refusal env ?ev db = None" "adapty_loggable env ?ev db"
          by (auto split: option.splits if_splits)
        then have "wo_result out \<noteq> ''duplicate''" by (simp add: applied_def)
        from adapty_apply_effect[OF assms(1) a this] out Inr True dispatched show ?thesis by (auto simp: Let_def)
      qed
    qed
  qed
qed

text \<open>
  C14: what one delivery does, on every branch and in the order of the checks. A body that is empty, no
  JSON, no object, or without event id or user is acknowledged as ignored with that reason; so is one
  whose user does not exist and one of an unknown type, whose type is echoed. A body PostgreSQL does not
  take as JSON fails; an event id that is recorded is acknowledged as a duplicate. Otherwise a granting
  event whose credit is refused fails (no positive amount, or the period credited with another one, is a
  conflict; an amount or balance outside 64 bits a database error), an event whose audit row cannot be
  stored fails, and every other event is applied. Only an applied event changes anything: it is recorded;
  a granting event activates the subscription with the event's product and expiry and credits the tier of
  that product unless the period was already credited, an expiring event expires the subscription, and a
  renewal cancellation leaves it as it is; other users' subscriptions and balances never change.
\<close>

theorem adapty_delivery_spec:
  assumes "wallet_inv db" "session_scope (adapty_handle env now raw) db = (r, db')"
  shows "case adapty_front env raw of
      Inl out \<Rightarrow> r = Inr (ignored (Some
          (if raw = [] then ''empty_body''
           else case ad_loads env raw of
             None \<Rightarrow> ''invalid_json''
           | Some (JObj body) \<Rightarrow> if parse_event_id body = None then ''missing_event_id'' else ''missing_customer_user_id''
           | Some _ \<Rightarrow> ''not_an_object'')) None) \<and> db' = db
    | Inr (body, eid, etype, uid) \<Rightarrow> (let ev = adapty_event env body eid etype uid in
        r = (if users db uid = None then Inr (ignored (Some ''user_not_found'') None)
             else if etype \<notin> set KNOWN_EVENTS then Inr (ignored None (Some etype))
             else if \<not> jsonb_ok (JObj body) then Inl DbError
             else if \<exists>row \<in> set (adapty_events db). ae_event_id row = eid
               then Inr \<lparr>wo_result = ''duplicate'', wo_reason = None, wo_event_type = None\<rparr>
             else case adapty_refusal env ev db of
               Some e \<Rightarrow> Inl e
             | None \<Rightarrow> if \<not> adapty_loggable env ev db then Inl DbError else Inr applied)
        \<and> (if r = Inr applied then adapty_effect env ev body db db' else db' = db))"
proof (cases "adapty_front env raw")
  case (Inl out)
  then show ?thesis using assms(2)
    by (auto simp: adapty_handle_def session_scope_def transaction_def adapty_front_def
        split: if_splits option.splits json.splits)
next
  case (Inr x)
  obtain body eid etype uid where x: "x = (body, eid, etype, uid)" by (cases x)
  show ?thesis using adapty_known_answer[OF assms Inr[unfolded x] ] unfolding Inr x by simp
qed

text \<open>
  an event whose period was already credited with another amount can never be acknowledged. The
  tier is part of what the ledger compares, so when a first event of the period was credited with
  the amount of one product and a later one resolves to another amount (typically because it lacks
  the product id and falls back to the default grant), the delivery fails with a conflict and is
  rolled back, event record included, and every redelivery fails in the same way.
\<close>

lemma adapty_tier_mismatch_never_acknowledged:
  assumes "adapty_front env raw = Inr (body, eid, etype, uid)"
    and "users db uid \<noteq> None" "etype \<in> set KNOWN_EVENTS" "jsonb_ok (JObj body)"
    and "\<forall>r \<in> set (adapty_events db). ae_event_id r \<noteq> eid"
    and "classify_event (adapty_event env body eid etype uid) = SemGranting"
    and "ledger_entry db uid (adapty_key (txn_of (adapty_event env body eid etype uid))) = Some (Credit, a)"
    and "a \<noteq> tier_for env (parse_vendor_product_id body)"
    and "0 < tier_for env (parse_vendor_product_id body)"
    and "bigint_ok (tier_for env (parse_vendor_product_id body))" "wallet_inv db"
  shows "session_scope (adapty_handle env now raw) db = (Inl ConflictError, db)"
proof -
  obtain r db' where s: "session_scope (adapty_handle env now raw) db = (r, db')" by fastforce
  have "adapty_refusal env (adapty_event env body eid etype uid) db = Some ConflictError"
    using assms(6-10) by (simp add: adapty_refusal_def adapty_event_sel adapty_event_def Let_def)
  with adapty_known_answer[OF assms(11) s assms(1)] assms(2-5) have "r = Inl ConflictError \<and> db' = db"
    by (auto simp: Let_def applied_def)
  with s show ?thesis by simp
qed

text \<open>
  a recognised event whose body cannot be stored as \<^verbatim>\<open>JSONB\<close> is never acknowledged. Python's JSON
  reader and writer accept \<^verbatim>\<open>NaN\<close> and infinities, and strings may hold an escaped NUL; PostgreSQL
  accepts neither, so the first statement of the event fails, although the service is documented
  never to raise on a malformed payload, and the same payload fails again on every redelivery.
\<close>

lemma adapty_unstorable_body_raises:
  assumes "adapty_front env raw = Inr (body, eid, etype, uid)"
    and "users db uid \<noteq> None" "etype \<in> set KNOWN_EVENTS" "\<not> jsonb_ok (JObj body)"
  shows "session_scope (adapty_handle env now raw) db = (Inl DbError, db)"
  by (rule scope_Inl)
    (use assms in \<open>simp add: adapty_handle_def adapty_apply_def bind_act_def insert_adapty_event_def\<close>)

section \<open>A concrete history\<close>

definition demo_event :: "string \<Rightarrow> string \<Rightarrow> json \<Rightarrow> dict \<Rightarrow> json" where
  "demo_event eid etype extra props = JObj [(''profile_event_id'', JStr eid), (''event_type'', JStr etype),
     (''customer_user_id'', JStr ''00000000000000000000000000000007''), (''price'', extra),
     (''event_properties'', JObj props)]"

definition demo_adapty :: adapty_env where
  "demo_adapty = \<lparr>ad_loads = (\<lambda>s.
       if s = ''tiers'' then Some (JObj [(''pro'', JInt 500)])
       else if s = ''first'' then Some (demo_event ''e1'' ''subscription_started'' JNull
         [(''transaction_id'', JStr ''t1''), (''vendor_product_id'', JStr ''pro'')])
       else if s = ''second'' then Some (demo_event ''e2'' ''access_level_updated'' JNull
         [(''transaction_id'', JStr ''t1''), (''is_active'', JBool True), (''access_level_id'', JStr ''premium'')])
       else if s = ''nan'' then Some (demo_event ''e3'' ''subscription_started'' (JFloat FNaN) [])
       else None),
     ad_from_iso = (\<lambda>_. None), ad_iso = (\<lambda>_. []),
     ad_cfg = demo_cfg\<lparr>adapty_product_tokens_raw := ''tiers''\<rparr>\<rparr>"

lemma demo_uuid: "parse_uuid ''00000000000000000000000000000007'' = Some 7"
  by (simp add: parse_uuid_def replace_with_empty_def strip_braces_def int16_def py_strip_def
      py_lstrip_def py_rstrip_def is_space_def hex_val_def Let_def)

lemmas adapty_eval = adapty_front_def demo_adapty_def demo_event_def parse_event_id_def obj_get_def
  props_of_def profile_of_def as_dict_def parse_customer_user_id_def demo_uuid parse_event_type_def
  py_lower_def lower_char_def adapty_event_def parse_vendor_product_id_def parse_expires_at_def
  parse_transaction_id_def parse_original_transaction_id_def parse_is_active_def
  parse_access_level_id_def parse_will_renew_def Let_def

lemma demo_front_first: "adapty_front demo_adapty ''first'' = Inr
   ([(''profile_event_id'', JStr ''e1''), (''event_type'', JStr ''subscription_started''),
     (''customer_user_id'', JStr ''00000000000000000000000000000007''), (''price'', JNull),
     (''event_properties'', JObj [(''transaction_id'', JStr ''t1''), (''vendor_product_id'', JStr ''pro'')])],
    ''e1'', ''subscription_started'', 7)"
  by (simp add: adapty_eval)

lemma demo_front_second: "adapty_front demo_adapty ''second'' = Inr
   ([(''profile_event_id'', JStr ''e2''), (''event_type'', JStr ''access_level_updated''),
     (''customer_user_id'', JStr ''00000000000000000000000000000007''), (''price'', JNull),
     (''event_properties'', JObj [(''transaction_id'', JStr ''t1''), (''is_active'', JBool True),
       (''access_level_id'', JStr ''premium'')])],
    ''e2'', ''access_level_updated'', 7)"
  by (simp add: adapty_eval)

lemma demo_front_nan: "adapty_front demo_adapty ''nan'' = Inr
   ([(''profile_event_id'', JStr ''e3''), (''event_type'', JStr ''subscription_started''),
     (''customer_user_id'', JStr ''00000000000000000000000000000007''), (''price'', JFloat FNaN),
     (''event_properties'', JObj [])], ''e3'', ''subscription_started'', 7)"
  by (simp add: adapty_eval)

lemma demo_tier: "tier_for demo_adapty (Some ''pro'') = 500" "tier_for demo_adapty None = 1000"
  by (simp_all add: tier_for_def adapty_product_tokens_def or_default_def demo_adapty_def
      positive_ints_def List.map_filter_simps demo_cfg_def)

lemma demo_first_answer:
  "fst (adapty_handle demo_adapty 0 ''first'' demo_db) = Inr applied"
proof -
  obtain r db' where s: "session_scope (adapty_handle demo_adapty 0 ''first'') demo_db = (r, db')" by fastforce
  have "text_ok (map_option (ad_iso demo_adapty) x)" for x by (cases x) (simp_all add: demo_adapty_def)
  then have "r = Inr applied"
    using adapty_known_answer[OF demo_db_inv s demo_front_first]
    by (simp add: Let_def KNOWN_EVENTS_def GRANTING_EVENTS_def adapty_refusal_def adapty_loggable_def classify_event_def
        adapty_event_def parse_vendor_product_id_def props_of_def as_dict_def obj_get_def demo_tier bigint_ok_def
        ledger_entry_def existing_tx_def current_balance_def)
  with s show ?thesis by (simp add: session_scope_def transaction_Inr_iff)
qed

theorem adapty_delivery_spec_witness:
  "\<exists>out db'. session_scope (adapty_handle demo_adapty 0 ''first'') demo_db = (Inr out, db')
     \<and> wo_result out = ''applied'' \<and> current_balance 7 db' = 500"
proof -
  obtain db' where "adapty_handle demo_adapty 0 ''first'' demo_db
      = (Inr applied, db')"
    using demo_first_answer by (metis prod.collapse)
  then have s: "session_scope (adapty_handle demo_adapty 0 ''first'') demo_db
      = (Inr applied, db')"
    by (rule scope_Inr)
  from adapty_delivery_spec[OF demo_db_inv s] have "current_balance 7 db' = 500"
    by (auto simp: demo_front_first Let_def applied_def adapty_effect_def adapty_event_def classify_event_def
        GRANTING_EVENTS_def ledger_entry_def existing_tx_def parse_vendor_product_id_def props_of_def
        as_dict_def obj_get_def demo_tier current_balance_def[of 7 demo_db])
  with s show ?thesis by (auto simp: applied_def)
qed

lemma demo_first_balance: "current_balance 7 (adapty_delivery demo_adapty (0, ''first'') demo_db) = 500"
proof -
  have "current_balance 7 (snd (adapty_handle demo_adapty 0 ''first'' demo_db)) = 500"
    by (simp add: adapty_handle_def demo_front_first KNOWN_EVENTS_def GRANTING_EVENTS_def
      adapty_apply_def insert_adapty_event_def adapty_event_def classify_event_def
      adapty_upsert_subscription_def adapty_grant_def parse_vendor_product_id_def props_of_def
      as_dict_def obj_get_def demo_tier txn_of_def parse_transaction_id_def purchase_eval)
  moreover obtain db' where "adapty_handle demo_adapty 0 ''first'' demo_db
      = (Inr applied, db')"
    using demo_first_answer by (metis prod.collapse)
  ultimately show ?thesis by (simp add: adapty_delivery_def scope_Inr)
qed

theorem adapty_period_credited_once_witness:
  "current_balance 7 (adapty_delivery demo_adapty (1, ''second'')
      (adapty_delivery demo_adapty (0, ''first'') demo_db)) = 500"
proof -
  have acc: "adapty_account demo_adapty (t, s) = 7" if "s = ''first'' \<or> s = ''second''" for t s
    using that by (auto simp: adapty_account_def demo_front_first demo_front_second)
  have key: "adapty_event_key demo_adapty (1, ''second'') = adapty_event_key demo_adapty (0, ''first'')"
    by (simp add: adapty_event_key_def demo_front_first demo_front_second txn_of_def adapty_event_def
        parse_transaction_id_def props_of_def as_dict_def obj_get_def)
  have moved: "current_balance (adapty_account demo_adapty (0, ''first''))
        (adapty_delivery demo_adapty (0, ''first'') demo_db)
      \<noteq> current_balance (adapty_account demo_adapty (0, ''first'')) demo_db"
    using demo_first_balance by (simp add: acc current_balance_def[of 7 demo_db])
  have "adapty_account demo_adapty (1, ''second'') = adapty_account demo_adapty (0, ''first'')"
    by (simp add: acc)
  from adapty_period_credited_once[OF demo_db_inv moved this key, of 7 "[]"] demo_first_balance
  show ?thesis by simp
qed

theorem adapty_unstorable_body_raises_witness:
  "session_scope (adapty_handle demo_adapty 0 ''nan'') demo_db = (Inl DbError, demo_db)"
  by (rule adapty_unstorable_body_raises[OF demo_front_nan])
    (simp_all add: KNOWN_EVENTS_def GRANTING_EVENTS_def)

theorem adapty_tier_mismatch_never_acknowledged_witness:
  "\<exists>db. ledger_entry db 7 (adapty_key ''t1'') = Some (Credit, 500)
     \<and> session_scope (adapty_handle demo_adapty 1 ''second'') db = (Inl ConflictError, db)"
proof -
  let ?g = "grant 7 500 (adapty_key ''t1'') (JObj []) [] demo_db"
  have "\<exists>res. fst ?g = Inr res" by (simp add: grant_value bigint_ok_def existing_tx_def current_balance_def)
  then obtain res db where g: "?g = (Inr res, db)" by (metis prod.collapse)
  have e: "ledger_entry db 7 (adapty_key ''t1'') = Some (Credit, 500)" by (rule grant_records[OF g])
  have u: "users db 7 \<noteq> None"
    using grant_keeps_inv[OF demo_db_inv g] e ledger_entry_pos wallet_inv_user by blast
  have "adapty_events db = []"
    using frame_sel(7)[OF conjunct1[OF grant_effect[OF demo_db_inv g] ] ] by simp
  with e u have "session_scope (adapty_handle demo_adapty 1 ''second'') db = (Inl ConflictError, db)"
    by (intro adapty_tier_mismatch_never_acknowledged[OF demo_front_second, where a = 500])
      (simp_all add: KNOWN_EVENTS_def CONDITIONAL_EVENTS_def classify_event_def adapty_event_def
        GRANTING_EVENTS_def EXPIRING_EVENTS_def NOOP_EVENTS_def parse_is_active_def props_of_def
        as_dict_def obj_get_def parse_access_level_id_def parse_vendor_product_id_def demo_tier
        txn_of_def parse_transaction_id_def bigint_ok_def grant_keeps_inv[OF demo_db_inv g])
  with e show ?thesis by blast
qed

end
