(* ===== verification/CloudPayments.thy ===== *)
theory CloudPayments
  imports Purchases
begin

text \<open>
  The CloudPayments webhook (\<^verbatim>\<open>app/billing_cloudpayments\<close>): the parser of the callback, the
  verification of payments with the aggregator, the pure reconciliation and the service that
  credits each confirmed payment in a transaction of its own. The HTTP answer of the aggregator,
  \<^verbatim>\<open>json.loads\<close>, \<^verbatim>\<open>str\<close> of a value that is not a string, \<^verbatim>\<open>fromisoformat\<close> and the clock are
  parameters; the transactions of one request see the same \<^verbatim>\<open>now()\<close>. Logging is left out.
\<close>

section \<open>Parser\<close>

definition CP_SUB_KEYWORDS :: "string list" where
  "CP_SUB_KEYWORDS = [''week'', ''month'', ''year'', ''day'']"

definition cp_as_dict :: "json \<Rightarrow> dict" where
  "cp_as_dict v = (case v of JObj kvs \<Rightarrow> kvs | _ \<Rightarrow> [])"

fun cp_first_str :: "json list \<Rightarrow> string option" where
  "cp_first_str [] = None"
| "cp_first_str (JStr s # vs) = (if s \<noteq> [] then Some s else cp_first_str vs)"
| "cp_first_str (JInt i # vs) = Some (str_int i)"
| "cp_first_str (_ # vs) = cp_first_str vs"

type_synonym pystr = "json \<Rightarrow> string"

text \<open>\<^verbatim>\<open>str(v or "")\<close>.\<close>

definition str_or_empty :: "pystr \<Rightarrow> json \<Rightarrow> string" where
  "str_or_empty pystr v = (if \<not> truthy v then [] else (case v of JStr s \<Rightarrow> s | _ \<Rightarrow> pystr v))"

definition cp_parse_data :: "json_loads \<Rightarrow> dict \<Rightarrow> dict option" where
  "cp_parse_data loads body = (case obj_get body ''Data'' of
     JObj kvs \<Rightarrow> Some kvs
   | JStr s \<Rightarrow> (case loads s of Some (JObj kvs) \<Rightarrow> Some kvs | _ \<Rightarrow> None)
   | _ \<Rightarrow> None)"

definition cp_parse_transaction_id :: "dict \<Rightarrow> string option" where
  "cp_parse_transaction_id body = cp_first_str [obj_get body ''TransactionId'']"

definition cp_parse_status :: "pystr \<Rightarrow> dict \<Rightarrow> string" where
  "cp_parse_status pystr body = py_lower (py_strip (str_or_empty pystr (obj_get body ''Status'')))"

definition cp_parse_operation_type :: "pystr \<Rightarrow> dict \<Rightarrow> string" where
  "cp_parse_operation_type pystr body =
     py_lower (py_strip (str_or_empty pystr (obj_get body ''OperationType'')))"

definition cp_parse_gate :: "string \<Rightarrow> string \<Rightarrow> bool" where
  "cp_parse_gate status operation_type \<longleftrightarrow> status = ''completed'' \<and> operation_type = ''payment''"

definition cp_parse_user_id :: "dict \<Rightarrow> dict \<Rightarrow> uuid option" where
  "cp_parse_user_id body data = (case cp_first_str [obj_get body ''AccountId'', obj_get data ''user_id''] of
     None \<Rightarrow> None | Some raw \<Rightarrow> parse_uuid (py_lower raw))"

text \<open>\<^verbatim>\<open>int(f)\<close> of a float raises on an infinity and on NaN; finite floats are truncated.\<close>

definition cp_parse_amount :: "dict \<Rightarrow> app_error + int option" where
  "cp_parse_amount body = (case obj_get body ''Amount'' of
     JInt i \<Rightarrow> Inr (Some i)
   | JFloat (FFin n d) \<Rightarrow> Inr (Some (if n \<ge> 0 then n div d else - ((- n) div d)))
   | JFloat _ \<Rightarrow> Inl PyError
   | _ \<Rightarrow> Inr None)"

definition looks_like_subscription :: "string \<Rightarrow> bool" where
  "looks_like_subscription product_id = (let l = py_lower product_id in
     if list_ex (\<lambda>k. contains_sub k l) CP_SUB_KEYWORDS then True
     else ends_with ''_nottrial'' l \<or> ends_with ''_trial'' l)"

definition is_digit :: "char \<Rightarrow> bool" where
  "is_digit c = (let n = (of_char c :: nat) in 48 \<le> n \<and> n \<le> 57)"

text \<open>The regular expression \<^verbatim>\<open>^\d+_tokens\<close>, ignoring case.\<close>

definition tokens_name :: "string \<Rightarrow> bool" where
  "tokens_name s \<longleftrightarrow> takeWhile is_digit s \<noteq> []
     \<and> starts_with ''_tokens'' (py_lower (dropWhile is_digit s))"

datatype product_kind = KindSubscription | KindTokens | KindUnknown

fun kind_name :: "product_kind \<Rightarrow> string" where
  "kind_name KindSubscription = ''subscription''"
| "kind_name KindTokens = ''tokens''"
| "kind_name KindUnknown = ''unknown''"

definition classify_product :: "string \<Rightarrow> string option \<Rightarrow> string list \<Rightarrow> product_kind" where
  "classify_product product_id unit token_ids =
    (if product_id \<in> set token_ids then KindTokens
     else if \<exists>u \<in> {''year'', ''month'', ''week'', ''day''}. unit = Some u then KindSubscription
     else if tokens_name product_id then KindTokens
     else if looks_like_subscription product_id then KindSubscription
     else KindUnknown)"

definition infer_interval_unit_from_code :: "string \<Rightarrow> string option" where
  "infer_interval_unit_from_code code =
     find (\<lambda>k. contains_sub k (py_lower code)) CP_SUB_KEYWORDS"

definition expiry_days :: "string option \<Rightarrow> int" where
  "expiry_days unit = (case unit of
     None \<Rightarrow> 30
   | Some u \<Rightarrow> if u = ''day'' then 1 else if u = ''week'' then 7 else if u = ''month'' then 30
       else if u = ''year'' then 365 else 30)"

definition microseconds_per_day :: int where
  "microseconds_per_day = 86400000000"

definition compute_expiry :: "time \<Rightarrow> string option \<Rightarrow> int \<Rightarrow> time" where
  "compute_expiry now unit count = now + expiry_days unit * max count 1 * microseconds_per_day"

section \<open>Verification with the aggregator\<close>

record payment =
  py_id :: string
  py_code :: string
  py_type :: string
  py_status :: string
  py_paid_at :: time

datatype http_answer =
    HttpTimeout
  | HttpRequestError
  | HttpResponse int "json option"
    \<comment> \<open>the status code, and the decoded body unless decoding raises\<close>

definition list_payments :: "http_answer \<Rightarrow> app_error + dict list" where
  "list_payments answer = (case answer of
     HttpTimeout \<Rightarrow> Inl CloudPaymentsVerificationUnavailableError
   | HttpRequestError \<Rightarrow> Inl CloudPaymentsVerificationUnavailableError
   | HttpResponse status body \<Rightarrow>
       if status = 404 then Inr []
       else if \<not> (200 \<le> status \<and> status < 300) then Inl CloudPaymentsVerificationUnavailableError
       else (case body of
           Some (JObj kvs) \<Rightarrow> (case obj_get kvs ''data'' of
               JArr items \<Rightarrow> Inr (List.map_filter (\<lambda>v. case v of JObj d \<Rightarrow> Some d | _ \<Rightarrow> None) items)
             | _ \<Rightarrow> Inl CloudPaymentsVerificationUnavailableError)
         | _ \<Rightarrow> Inl CloudPaymentsVerificationUnavailableError))"

definition parse_paid_at :: "(string \<Rightarrow> time option) \<Rightarrow> json \<Rightarrow> time option" where
  "parse_paid_at fromiso v = (case v of
     JStr s \<Rightarrow>
       if py_strip s = [] then None
       else (let text = py_strip s;
                 text' = (if ends_with ''Z'' text \<or> ends_with ''z'' text
                   then butlast text @ ''+00:00'' else text)
             in fromiso text')
   | _ \<Rightarrow> None)"

text \<open>One item of the answer: the creditable payment it describes, if any.\<close>

definition creditable_item ::
  "pystr \<Rightarrow> (string \<Rightarrow> time option) \<Rightarrow> string list \<Rightarrow> time \<Rightarrow> dict \<Rightarrow> payment option" where
  "creditable_item pystr fromiso paid_statuses cutoff item =
    (let status = py_lower (py_strip (str_or_empty pystr (obj_get item ''status''))) in
     if status \<notin> set paid_statuses then None
     else (case parse_paid_at fromiso (obj_get item ''paid_at'') of
         None \<Rightarrow> None
       | Some paid_at \<Rightarrow>
           if paid_at < cutoff then None
           else (case (obj_get item ''payment_id'', obj_get item ''product'') of
               (JStr pid, JObj product) \<Rightarrow>
                 (if py_strip pid = [] then None
                  else (case (obj_get product ''code'', obj_get product ''payment_type'') of
                      (JStr code, JStr ptype) \<Rightarrow>
                        (if py_strip code = [] \<or> py_strip ptype = [] then None
                         else Some \<lparr>py_id = py_strip pid, py_code = py_strip code,
                           py_type = py_lower (py_strip ptype), py_status = status,
                           py_paid_at = paid_at\<rparr>)
                    | _ \<Rightarrow> None))
             | _ \<Rightarrow> None)))"

definition microseconds_per_hour :: int where
  "microseconds_per_hour = 3600000000"

definition select_creditable_payments ::
  "pystr \<Rightarrow> (string \<Rightarrow> time option) \<Rightarrow> dict list \<Rightarrow> string list \<Rightarrow> time \<Rightarrow> int \<Rightarrow> payment list" where
  "select_creditable_payments pystr fromiso data paid_statuses now freshness_hours =
     List.map_filter
       (creditable_item pystr fromiso paid_statuses (now - freshness_hours * microseconds_per_hour)) data"

section \<open>Service\<close>

record cp_env =
  cp_loads :: json_loads
  cp_pystr :: pystr
  cp_from_iso :: "string \<Rightarrow> time option"
    \<comment> \<open>\<^verbatim>\<open>fromisoformat\<close>, a naive value read as UTC\<close>
  cp_iso :: "time \<Rightarrow> string"
  cp_answer :: "uuid \<Rightarrow> http_answer"
  cp_clock :: "nat \<Rightarrow> time"
    \<comment> \<open>the readings of the clock: the first for the reconciliation, one more per payment\<close>
  cp_cfg :: settings

record cp_outcome =
  co_result :: string
  co_reason :: "string option"

definition cp_ignored :: "string \<Rightarrow> cp_outcome" where
  "cp_ignored reason = \<lparr>co_result = ''ignored'', co_reason = Some reason\<rparr>"

definition resolve_user :: "uuid \<Rightarrow> db \<Rightarrow> (uuid \<times> string) option" where
  "resolve_user x db =
    (if users db x \<noteq> None then Some (x, ''user_id'')
     else (case find (\<lambda>d. ad_device d = str_uuid x) (devices db) of
         Some d \<Rightarrow> Some (ad_user d, ''device_id'')
       | None \<Rightarrow> None))"

text \<open>Kind, amount and reason of a payment, from the server's own tables; \<^verbatim>\<open>None\<close> where the payment is
  skipped.\<close>

definition payment_terms :: "cp_env \<Rightarrow> payment \<Rightarrow> (product_kind \<times> int \<times> string) option" where
  "payment_terms env p =
    (if py_type p = ''one_time'' then
       (case map_of (token_products (cp_loads env) (cp_cfg env)) (py_code p) of
          None \<Rightarrow> None
        | Some c \<Rightarrow> if c \<le> 0 then None else Some (KindTokens, c, ''cloudpayments_tokens''))
     else if py_type p = ''subscription'' then
       Some (KindSubscription,
         (case map_of (cloudpayments_product_tokens (cp_loads env) (cp_cfg env)) (py_code p) of
            Some n \<Rightarrow> if n \<noteq> 0 then n else cloudpayments_subscription_tokens_grant (cp_cfg env)
          | None \<Rightarrow> cloudpayments_subscription_tokens_grant (cp_cfg env)),
         ''cloudpayments_subscription'')
     else None)"

definition insert_cp_event :: "payment \<Rightarrow> uuid \<Rightarrow> product_kind \<Rightarrow> bool db_act" where
  "insert_cp_event p uid kind = (\<lambda>db.
    let sanitized = JObj [(''paymentId'', JStr (py_id p)), (''productCode'', JStr (py_code p)),
      (''paymentType'', JStr (py_type p)), (''status'', JStr (py_status p)),
      (''kind'', JStr (kind_name kind))] in
    if \<not> jsonb_ok sanitized then (Inl DbError, db)
    else if list_ex (\<lambda>r. ce_transaction_id r = py_id p) (cp_events db) then (Inr False, db)
    else if users db uid = None then (Inl DbError, db)
    else (Inr True, db\<lparr>cp_events := cp_events db @
      [\<lparr>ce_transaction_id = py_id p, ce_user = uid, ce_product = py_code p,
        ce_kind = kind_name kind, ce_payload = sanitized\<rparr>]\<rparr>))"

definition cp_key :: "string \<Rightarrow> string" where
  "cp_key pid = ''cp-txn:'' @ pid"

definition cp_upsert_subscription :: "uuid \<Rightarrow> string \<Rightarrow> time \<Rightarrow> unit db_act" where
  "cp_upsert_subscription uid plan expires = upsert_active_subscription uid plan expires"

text \<open>The transaction of one payment; \<^verbatim>\<open>False\<close> where the payment was recorded before.\<close>

definition payment_transaction ::
  "cp_env \<Rightarrow> time \<Rightarrow> payment \<Rightarrow> uuid \<Rightarrow> product_kind \<Rightarrow> int \<Rightarrow> string \<Rightarrow> bool db_act" where
  "payment_transaction env now p uid kind credits reason =
     bind_act (insert_cp_event p uid kind) (\<lambda>inserted.
     if \<not> inserted then ret False
     else
      (let expires = (if kind = KindSubscription
             then Some (compute_expiry now (infer_interval_unit_from_code (py_code p)) 1) else None);
           sub = (kind = KindSubscription) in
       bind_act (case expires of Some e \<Rightarrow> cp_upsert_subscription uid (py_code p) e | None \<Rightarrow> ret ()) (\<lambda>_.
       bind_act (grant uid credits (cp_key (py_id p))
         (JObj [(''paymentId'', JStr (py_id p)), (''productCode'', JStr (py_code p)),
           (''kind'', JStr (kind_name kind))]) reason) (\<lambda>_.
       bind_act (audit_record uid None EVENT_CLOUDPAYMENTS_PAYMENT
         [(''transactionId'', JStr (py_id p)), (''paymentId'', JStr (py_id p)),
          (''productId'', JStr (py_code p)), (''kind'', JStr (kind_name kind)),
          (''semantics'', JStr (kind_name kind)), (''paymentType'', JStr (py_type p)),
          (''status'', if sub then JStr ''active'' else JNull),
          (''plan'', if sub then JStr (py_code p) else JNull),
          (''expiresAt'', opt_str (map_option (cp_iso env) expires)),
          (''creditsGranted'', JInt credits), (''paidAt'', JStr (cp_iso env (py_paid_at p)))]) (\<lambda>_.
       ret True)))))"

text \<open>\<^verbatim>\<open>_apply_payment\<close>, from committed state to committed state: a repeated payment and an exception
  roll their transaction back.\<close>

definition apply_payment :: "cp_env \<Rightarrow> time \<Rightarrow> payment \<Rightarrow> uuid \<Rightarrow> bool db_act" where
  "apply_payment env now p uid = (\<lambda>db. case payment_terms env p of
     None \<Rightarrow> (Inr False, db)
   | Some (kind, credits, reason) \<Rightarrow>
       (case payment_transaction env now p uid kind credits reason db of
          (Inl e, _) \<Rightarrow> (Inl e, db)
        | (Inr False, _) \<Rightarrow> (Inr False, db)
        | (Inr True, db') \<Rightarrow> (Inr True, db')))"

text \<open>The loop over the selected payments: it stops at the first exception, keeping what the earlier
  transactions committed.\<close>

fun credit_payments :: "cp_env \<Rightarrow> nat \<Rightarrow> payment list \<Rightarrow> uuid \<Rightarrow> nat \<Rightarrow> nat db_act" where
  "credit_payments env i [] uid n db = (Inr n, db)"
| "credit_payments env i (p # ps) uid n db =
     (case apply_payment env (cp_clock env i) p uid db of
        (Inl e, db') \<Rightarrow> (Inl e, db')
      | (Inr b, db') \<Rightarrow> credit_payments env (Suc i) ps uid (if b then Suc n else n) db')"

text \<open>\<^verbatim>\<open>handle\<close> up to the device id; no database access.\<close>

definition cp_front :: "cp_env \<Rightarrow> string \<Rightarrow> cp_outcome + uuid" where
  "cp_front env raw =
    (if raw = [] then Inl (cp_ignored ''empty_body'')
     else case cp_loads env raw of
       None \<Rightarrow> Inl (cp_ignored ''invalid_json'')
     | Some (JObj body) \<Rightarrow>
         (if \<not> cp_parse_gate (cp_parse_status (cp_pystr env) body)
               (cp_parse_operation_type (cp_pystr env) body)
          then Inl (cp_ignored ''not_a_completed_payment'')
          else (let data = (case cp_parse_data (cp_loads env) body of Some d \<Rightarrow> d | None \<Rightarrow> []) in
            case cp_parse_user_id body data of
              None \<Rightarrow> Inl (cp_ignored ''invalid_account_id'')
            | Some device \<Rightarrow> Inr device))
     | Some _ \<Rightarrow> Inl (cp_ignored ''not_an_object''))"

definition cp_selected :: "cp_env \<Rightarrow> dict list \<Rightarrow> payment list" where
  "cp_selected env data = select_creditable_payments (cp_pystr env) (cp_from_iso env) data
     (cloudpayments_paid_statuses (cp_loads env) (cp_cfg env)) (cp_clock env 0)
     (cloudpayments_payment_freshness_hours (cp_cfg env))"

definition cp_handle :: "cp_env \<Rightarrow> string \<Rightarrow> cp_outcome db_act" where
  "cp_handle env raw = (\<lambda>db.
    if cloudpayments_api_token (cp_cfg env) = [] then (Inl CloudPaymentsWebhookMisconfiguredError, db)
    else case cp_front env raw of
      Inl outcome \<Rightarrow> (Inr outcome, db)
    | Inr device \<Rightarrow>
        (case resolve_user device db of
           None \<Rightarrow> (Inr (cp_ignored ''user_not_found''), db)
         | Some (uid, via) \<Rightarrow>
             (case list_payments (cp_answer env device) of
                Inl e \<Rightarrow> (Inl e, db)
              | Inr data \<Rightarrow>
                  (if cp_selected env data = []
                   then (Inr (cp_ignored ''no_creditable_payment''), db)
                   else (case credit_payments env 1 (cp_selected env data) uid 0 db of
                       (Inl e, db') \<Rightarrow> (Inl e, db')
                     | (Inr n, db') \<Rightarrow>
                         (Inr \<lparr>co_result = (if n \<ge> 1 then ''applied'' else ''duplicate''),
                            co_reason = None\<rparr>, db'))))))"

section \<open>One payment\<close>

definition journal :: "db \<Rightarrow> string list" where
  "journal db = map ce_transaction_id (cp_events db)"

text \<open>Only payments in the journal have credits under their keys, and the journal names each once.\<close>

definition cp_inv :: "db \<Rightarrow> bool" where
  "cp_inv db \<longleftrightarrow> wallet_inv db \<and> distinct (journal db)
     \<and> (\<forall>u pid. ledger_entry db u (cp_key pid) \<noteq> None \<longrightarrow> pid \<in> set (journal db))"

lemma cp_key_inj [simp]: "cp_key s = cp_key t \<longleftrightarrow> s = t"
  by (simp add: cp_key_def)

lemma insert_cp_event_True:
  assumes "insert_cp_event p uid kind db = (Inr True, db')"
  shows "py_id p \<notin> set (journal db)" "journal db' = journal db @ [py_id p]"
    "same_money db db'" "subscriptions db' = subscriptions db"
    "map ce_user (cp_events db') = map ce_user (cp_events db) @ [uid]"
  using assms by (auto simp: insert_cp_event_def Let_def journal_def list_ex_iff same_money_def
      split: if_splits)

lemma insert_cp_event_False:
  "insert_cp_event p uid kind db = (Inr False, db') \<Longrightarrow> py_id p \<in> set (journal db)"
  by (force simp: insert_cp_event_def Let_def journal_def list_ex_iff split: if_splits)

lemma upsert_active_journal:
  "upsert_active_subscription uid plan ex db = (r, db') \<Longrightarrow> cp_events db' = cp_events db"
  by (auto simp: upsert_active_subscription_def split: if_splits)

lemma payment_transaction_True:
  assumes "payment_transaction env now p uid kind credits reason db = (Inr True, db')"
  obtains db1 db2 db3 res pl where
    "insert_cp_event p uid kind db = (Inr True, db1)"
    "if kind = KindSubscription then upsert_active_subscription uid (py_code p)
        (compute_expiry now (infer_interval_unit_from_code (py_code p)) 1) db1 = (Inr (), db2)
     else db2 = db1"
    "grant uid credits (cp_key (py_id p))
         (JObj [(''paymentId'', JStr (py_id p)), (''productCode'', JStr (py_code p)),
           (''kind'', JStr (kind_name kind))]) reason db2 = (Inr res, db3)"
    "audit_record uid None EVENT_CLOUDPAYMENTS_PAYMENT pl db3 = (Inr (), db')"
proof -
  from assms obtain ins db1 where i: "insert_cp_event p uid kind db = (Inr ins, db1)"
    by (auto simp: payment_transaction_def elim!: bind_act_Inr_E)
  have ins: ins using assms i by (cases ins) (auto simp: payment_transaction_def bind_act_step)
  from assms i ins that[of db1] show ?thesis
    by (cases "kind = KindSubscription")
      (auto simp: payment_transaction_def bind_act_step Let_def cp_upsert_subscription_def
        elim!: bind_act_Inr_E)
qed

lemma apply_payment_unchanged:
  "apply_payment env now p uid db = (r, db') \<Longrightarrow> r \<noteq> Inr True \<Longrightarrow> db' = db"
  by (auto simp: apply_payment_def split: option.splits prod.splits sum.splits bool.splits)

lemma apply_payment_True:
  assumes inv: "cp_inv db" and ap: "apply_payment env now p uid db = (Inr True, db')"
  shows "cp_inv db'" "py_id p \<notin> set (journal db)" "journal db' = journal db @ [py_id p]"
    "\<exists>kind credits reason. payment_terms env p = Some (kind, credits, reason)
       \<and> current_balance uid db' = current_balance uid db + credits
       \<and> (kind \<noteq> KindSubscription \<longrightarrow> subscriptions db' = subscriptions db)"
    "u \<noteq> uid \<Longrightarrow> current_balance u db' = current_balance u db"
    "map ce_user (cp_events db') = map ce_user (cp_events db) @ [uid]"
proof -
  from ap obtain kind credits reason where t: "payment_terms env p = Some (kind, credits, reason)"
    and tr: "payment_transaction env now p uid kind credits reason db = (Inr True, db')"
    by (auto simp: apply_payment_def split: option.splits prod.splits sum.splits bool.splits)
  from payment_transaction_True[OF tr] obtain db1 db2 db3 res pl where
    i: "insert_cp_event p uid kind db = (Inr True, db1)" and
    u: "if kind = KindSubscription then upsert_active_subscription uid (py_code p)
        (compute_expiry now (infer_interval_unit_from_code (py_code p)) 1) db1 = (Inr (), db2)
     else db2 = db1" and
    g: "grant uid credits (cp_key (py_id p))
         (JObj [(''paymentId'', JStr (py_id p)), (''productCode'', JStr (py_code p)),
           (''kind'', JStr (kind_name kind))]) reason db2 = (Inr res, db3)" and
    a: "audit_record uid None EVENT_CLOUDPAYMENTS_PAYMENT pl db3 = (Inr (), db')" by metis
  note I = insert_cp_event_True[OF i]
  have m2: "same_money db1 db2" "cp_events db2 = cp_events db1"
    using u upsert_active_money upsert_active_journal by (auto split: if_splits)
  have m: "same_money db db2" using I(3) m2(1) by (simp add: same_money_def)
  note M = same_money_views[OF m]
  have w2: "wallet_inv db2" using inv M(1) by (simp add: cp_inv_def)
  note G = grant_effect[OF w2 g] and C = grant_credits_only[OF w2 g]
  have F: "cp_events db3 = cp_events db2" "subscriptions db3 = subscriptions db2"
    using frame_sel(1,8)[OF conjunct1[OF G] ] by auto
  note A = audit_record_frame(4,6)[OF a] and N = same_money_views[OF same_money_audit[OF a] ]
  show jn: "py_id p \<notin> set (journal db)" by (rule I(1))
  have ev: "cp_events db' = cp_events db1" using A(2) F(1) m2(2) by simp
  show jr: "journal db' = journal db @ [py_id p]" using I(2) ev by (simp add: journal_def)
  show "map ce_user (cp_events db') = map ce_user (cp_events db) @ [uid]" using I(5) ev by simp
  have free: "ledger_entry db2 uid (cp_key (py_id p)) = None"
    using inv jn unfolding cp_inv_def M(2) by blast
  have bal: "current_balance uid db' = current_balance uid db + credits"
    using G free unfolding N(3) M(3) by simp
  have "kind \<noteq> KindSubscription \<longrightarrow> subscriptions db' = subscriptions db"
    using u A(1) F(2) I(4) by auto
  with t bal show "\<exists>kind credits reason. payment_terms env p = Some (kind, credits, reason)
       \<and> current_balance uid db' = current_balance uid db + credits
       \<and> (kind \<noteq> KindSubscription \<longrightarrow> subscriptions db' = subscriptions db)" by blast
  show "current_balance u db' = current_balance u db" if "u \<noteq> uid"
    using that C unfolding credits_only_def N(3) M(3) by blast
  have "wallet_inv db'" using C unfolding credits_only_def N(1) by blast
  moreover have "pid \<in> set (journal db')" if "ledger_entry db' v (cp_key pid) \<noteq> None" for v pid
  proof (cases "(v, cp_key pid) = (uid, cp_key (py_id p))")
    case False
    have "ledger_entry db3 v (cp_key pid) = ledger_entry db2 v (cp_key pid)"
    proof (cases "fresh_outcome uid Credit credits (JObj [(''paymentId'', JStr (py_id p)),
        (''productCode'', JStr (py_code p)), (''kind'', JStr (kind_name kind))]) (cp_key (py_id p)) db2 res db3")
      case True
      from fresh_entry(3)[OF this False] show ?thesis .
    next
      case False
      with grant_Inr[OF g] replay_state[OF w2] have "db3 = db2" by blast
      then show ?thesis by simp
    qed
    with that have "ledger_entry db v (cp_key pid) \<noteq> None" unfolding N(2) M(2) by simp
    with inv jr show ?thesis unfolding cp_inv_def by auto
  qed (simp add: jr)
  ultimately show "cp_inv db'"
    using inv jn jr by (auto simp: cp_inv_def)
qed

section \<open>All payments of a callback\<close>

definition payment_credits :: "cp_env \<Rightarrow> payment \<Rightarrow> int" where
  "payment_credits env p = (case payment_terms env p of Some (kind, credits, reason) \<Rightarrow> credits | None \<Rightarrow> 0)"

text \<open>From \<^verbatim>\<open>db\<close> to \<^verbatim>\<open>db'\<close> exactly the payments \<^verbatim>\<open>qs\<close> were credited, to one user.\<close>

definition credited_exactly :: "cp_env \<Rightarrow> payment list \<Rightarrow> uuid \<Rightarrow> db \<Rightarrow> db \<Rightarrow> bool" where
  "credited_exactly env qs uid db db' \<longleftrightarrow>
     distinct (map py_id qs) \<and> set (map py_id qs) \<inter> set (journal db) = {}
   \<and> journal db' = journal db @ map py_id qs
   \<and> (\<forall>p \<in> set qs. payment_terms env p \<noteq> None)
   \<and> current_balance uid db' = current_balance uid db + sum_list (map (payment_credits env) qs)
   \<and> (\<forall>u. u \<noteq> uid \<longrightarrow> current_balance u db' = current_balance u db)"

lemma credited_exactly_refl: "credited_exactly env [] uid db db"
  by (simp add: credited_exactly_def)

lemma credited_exactly_Cons:
  assumes "cp_inv db" "apply_payment env now p uid db = (Inr True, db1)"
    and "credited_exactly env qs uid db1 db'"
  shows "credited_exactly env (p # qs) uid db db'"
proof -
  note T = apply_payment_True[OF assms(1,2)]
  from T(4) obtain kind credits reason where t: "payment_terms env p = Some (kind, credits, reason)"
    "current_balance uid db1 = current_balance uid db + credits" by blast
  then have c: "payment_credits env p = credits" by (simp add: payment_credits_def)
  from assms(3) T(2,3,5) t show ?thesis
    unfolding credited_exactly_def by (auto simp: c)
qed

lemma credit_payments_effect:
  "cp_inv db \<Longrightarrow> credit_payments env i ps uid n db = (r, db') \<Longrightarrow>
   cp_inv db' \<and> (\<exists>qs. subseq qs ps \<and> credited_exactly env qs uid db db'
      \<and> (\<forall>m. r = Inr m \<longrightarrow> m = n + length qs))"
proof (induction ps arbitrary: i n db)
  case Nil
  then show ?case by (auto intro: credited_exactly_refl)
next
  case (Cons p ps)
  obtain b db1 where a: "apply_payment env (cp_clock env i) p uid db = (b, db1)" by fastforce
  consider (err) e where "b = Inl e" | (no) "b = Inr False" | (yes) "b = Inr True"
    by (cases b) auto
  then show ?case
  proof cases
    case err
    with Cons.prems a apply_payment_unchanged[OF a] show ?thesis
      by (auto intro!: exI[of _ "[]"] credited_exactly_refl)
  next
    case no
    with a apply_payment_unchanged[OF a] Cons.prems Cons.IH[of db "Suc i" n]
    obtain qs where "cp_inv db'" "subseq qs ps" "credited_exactly env qs uid db db'"
      "\<forall>m. r = Inr m \<longrightarrow> m = n + length qs" by auto
    then show ?thesis by (auto intro!: exI[of _ qs] list_emb_Cons)
  next
    case yes
    note T = apply_payment_True(1)[OF Cons.prems(1) a[unfolded yes] ]
    from a yes Cons.prems(2) Cons.IH[OF T, of "Suc i" "Suc n"]
    obtain qs where q: "cp_inv db'" "subseq qs ps" "credited_exactly env qs uid db1 db'"
      "\<forall>m. r = Inr m \<longrightarrow> m = Suc n + length qs" by auto
    from credited_exactly_Cons[OF Cons.prems(1) a[unfolded yes] q(3)] q
    show ?thesis by (intro conjI exI[of _ "p # qs"]) auto
  qed
qed

lemma cp_handle_changes:
  assumes "cp_inv db" "cp_handle env raw db = (r, db')" "db' \<noteq> db"
  obtains device uid via data qs where
    "cp_front env raw = Inr device" "resolve_user device db = Some (uid, via)"
    "list_payments (cp_answer env device) = Inr data" "cp_inv db'"
    "subseq qs (cp_selected env data)" "credited_exactly env qs uid db db'"
    "r = Inr \<lparr>co_result = ''duplicate'', co_reason = None\<rparr> \<longrightarrow> qs = []"
    "r = Inr \<lparr>co_result = ''applied'', co_reason = None\<rparr> \<longrightarrow> qs \<noteq> []"
proof -
  from assms(2,3) obtain device where f: "cp_front env raw = Inr device"
    by (auto simp: cp_handle_def split: if_splits sum.splits)
  with assms(2,3) obtain uid via where u: "resolve_user device db = Some (uid, via)"
    by (auto simp: cp_handle_def split: if_splits option.splits)
  with f assms(2,3) obtain data where d: "list_payments (cp_answer env device) = Inr data"
    by (auto simp: cp_handle_def split: if_splits sum.splits)
  obtain c db1 where c: "credit_payments env 1 (cp_selected env data) uid 0 db = (c, db1)" by fastforce
  with f u d assms(2,3) have e: "db1 = db'"
    and r: "r = (case c of Inl e \<Rightarrow> Inl e | Inr n \<Rightarrow>
        Inr \<lparr>co_result = (if n \<ge> 1 then ''applied'' else ''duplicate''), co_reason = None\<rparr>)"
    by (auto simp: cp_handle_def split: if_splits sum.splits)
  from credit_payments_effect[OF assms(1) c] obtain qs where
    q: "cp_inv db1" "subseq qs (cp_selected env data)" "credited_exactly env qs uid db db1"
      "\<forall>m. c = Inr m \<longrightarrow> m = length qs" by auto
  have "r = Inr \<lparr>co_result = ''duplicate'', co_reason = None\<rparr> \<longrightarrow> qs = []"
    "r = Inr \<lparr>co_result = ''applied'', co_reason = None\<rparr> \<longrightarrow> qs \<noteq> []"
    using r q(4) by (cases qs; auto split: sum.splits if_splits)+
  with q[unfolded e] show ?thesis by (intro that[OF f u d]) simp_all
qed

text \<open>
  C16: what one callback can do. A callback never moves credits by what it says: either the database is
  unchanged, or the callback named a device that resolves to an existing account, the aggregator
  itself answered for that device, and the credited payments are among those of the answer that the
  reconciliation selected. Each credited payment is new to the journal, is recorded in it once, and
  adds the amount of the server's own tables to that account and nothing to any other; this holds
  also when the same payment occurs twice in the answer, and when a later payment fails, whose
  failure leaves the earlier ones credited and the callback unacknowledged.
\<close>

theorem cp_callback_spec:
  assumes "cp_inv db" "cp_handle env raw db = (r, db')"
  shows "cp_inv db'
    \<and> (db' = db \<or> (\<exists>device uid via data qs.
          cp_front env raw = Inr device \<and> resolve_user device db = Some (uid, via)
        \<and> list_payments (cp_answer env device) = Inr data
        \<and> subseq qs (cp_selected env data) \<and> credited_exactly env qs uid db db'
        \<and> (r = Inr \<lparr>co_result = ''duplicate'', co_reason = None\<rparr> \<longrightarrow> qs = [])
        \<and> (r = Inr \<lparr>co_result = ''applied'', co_reason = None\<rparr> \<longrightarrow> qs \<noteq> [])))"
proof (cases "db' = db")
  case True
  with assms(1) show ?thesis by simp
next
  case False
  show ?thesis by (rule cp_handle_changes[OF assms False]) blast
qed

text \<open>Callbacks arrive in any order and number.\<close>

definition cp_run :: "cp_env \<Rightarrow> string list \<Rightarrow> db \<Rightarrow> db" where
  "cp_run env raws db = fold (\<lambda>raw db. snd (cp_handle env raw db)) raws db"

lemma cp_handle_journal:
  "cp_inv db \<Longrightarrow> cp_inv (snd (cp_handle env raw db))
     \<and> set (journal db) \<subseteq> set (journal (snd (cp_handle env raw db)))"
proof (cases "snd (cp_handle env raw db) = db")
  case False
  assume "cp_inv db"
  then show ?thesis
    by (rule cp_handle_changes[OF _ prod.collapse[symmetric] False]) (auto simp: credited_exactly_def)
qed simp

lemma cp_run_journal:
  "cp_inv db \<Longrightarrow> cp_inv (cp_run env raws db) \<and> set (journal db) \<subseteq> set (journal (cp_run env raws db))"
  unfolding cp_run_def
proof (induction raws arbitrary: db)
  case (Cons raw raws)
  note h = cp_handle_journal[OF Cons.prems, of env raw]
  with Cons.IH[OF conjunct1[OF h] ] show ?case by auto
qed simp

lemma apply_payment_journaled:
  assumes "py_id p \<in> set (journal db)" "cp_inv db"
  shows "snd (apply_payment env now p uid db) = db"
proof -
  obtain r db' where a: "apply_payment env now p uid db = (r, db')" by fastforce
  with apply_payment_unchanged[OF a] apply_payment_True(2)[OF assms(2), of env now p uid db'] assms(1)
  show ?thesis by auto
qed

text \<open>
  C17: a payment of the aggregator is credited at most once, whatever device, account or callback it
  comes back under. Once it is in the journal, then after any further callbacks an attempt to
  credit it to any account leaves the database as it is.
\<close>

theorem cp_payment_credited_once:
  assumes "cp_inv db" "py_id p \<in> set (journal db)"
  shows "snd (apply_payment env now p uid (cp_run env raws db)) = cp_run env raws db"
  using assms cp_run_journal[OF assms(1), of env raws] by (intro apply_payment_journaled) auto

text \<open>
  which payments are selected. A selected payment stands in the aggregator's list with a status
  among the paid ones, a date not older than the freshness window, and non-empty identifier, product
  code and type; its fields are those of the item, trimmed. Nothing else is read from the item, in
  particular no amount.
\<close>

lemma cp_selected_sound:
  assumes "p \<in> set (select_creditable_payments pystr fromiso data statuses now hours)"
  shows "\<exists>item \<in> set data. py_status p \<in> set statuses
     \<and> py_status p = py_lower (py_strip (str_or_empty pystr (obj_get item ''status'')))
     \<and> parse_paid_at fromiso (obj_get item ''paid_at'') = Some (py_paid_at p)
     \<and> now - hours * microseconds_per_hour \<le> py_paid_at p
     \<and> (\<exists>pid. obj_get item ''payment_id'' = JStr pid \<and> py_id p = py_strip pid \<and> py_id p \<noteq> [])
     \<and> (\<exists>product code ptype. obj_get item ''product'' = JObj product
          \<and> obj_get product ''code'' = JStr code \<and> obj_get product ''payment_type'' = JStr ptype
          \<and> py_code p = py_strip code \<and> py_code p \<noteq> [] \<and> py_type p = py_lower (py_strip ptype))"
proof -
  from assms obtain item where i: "item \<in> set data"
    "creditable_item pystr fromiso statuses (now - hours * microseconds_per_hour) item = Some p"
    by (auto simp: select_creditable_payments_def List.map_filter_def)
  have "py_status p \<in> set statuses
     \<and> py_status p = py_lower (py_strip (str_or_empty pystr (obj_get item ''status'')))
     \<and> parse_paid_at fromiso (obj_get item ''paid_at'') = Some (py_paid_at p)
     \<and> now - hours * microseconds_per_hour \<le> py_paid_at p
     \<and> (\<exists>pid. obj_get item ''payment_id'' = JStr pid \<and> py_id p = py_strip pid \<and> py_id p \<noteq> [])
     \<and> (\<exists>product code ptype. obj_get item ''product'' = JObj product
          \<and> obj_get product ''code'' = JStr code \<and> obj_get product ''payment_type'' = JStr ptype
          \<and> py_code p = py_strip code \<and> py_code p \<noteq> [] \<and> py_type p = py_lower (py_strip ptype))"
    using i(2) by (auto simp: creditable_item_def Let_def split: if_splits option.splits json.splits)
  with i(1) show ?thesis by blast
qed

section \<open>A concrete callback\<close>

definition demo_item :: "string \<Rightarrow> dict" where
  "demo_item pid = [(''status'', JStr ''succeeded''), (''paid_at'', JStr ''t''), (''payment_id'', JStr pid),
     (''product'', JObj [(''code'', JStr ''pack''), (''payment_type'', JStr ''one_time'')])]"

definition demo_cp :: cp_env where
  "demo_cp = \<lparr>cp_loads = (\<lambda>s.
       if s = ''table'' then Some (JObj [(''pack'', JInt 100)])
       else if s = ''cb'' then Some (JObj [(''Status'', JStr ''Completed''),
         (''OperationType'', JStr ''Payment''), (''AccountId'', JStr ''00000000000000000000000000000007'')])
       else None),
     cp_pystr = (\<lambda>_. []), cp_from_iso = (\<lambda>_. Some 0), cp_iso = (\<lambda>_. []),
     cp_answer = (\<lambda>_. HttpResponse 200 (Some (JObj [(''data'',
       JArr [JObj (demo_item ''p1''), JObj (demo_item ''p1'')])]))),
     cp_clock = (\<lambda>_. 10), cp_cfg = demo_cfg\<lparr>token_products_raw := ''table''\<rparr>\<rparr>"

lemma demo_cp_inv: "cp_inv demo_db"
  using demo_db_inv by (simp add: cp_inv_def journal_def ledger_entry_def existing_tx_def)

lemma demo_cp_uuid: "parse_uuid ''00000000000000000000000000000007'' = Some 7"
  by (simp add: parse_uuid_def replace_with_empty_def strip_braces_def int16_def py_strip_def
      py_lstrip_def py_rstrip_def is_space_def hex_val_def Let_def)

lemma demo_cp_front: "cp_front demo_cp ''cb'' = Inr 7"
  by (simp add: cp_front_def demo_cp_def cp_parse_gate_def cp_parse_status_def str_or_empty_def
      obj_get_def cp_parse_operation_type_def py_strip_def py_lstrip_def py_rstrip_def is_space_def
      py_lower_def lower_letters Let_def cp_parse_data_def cp_parse_user_id_def
      demo_cp_uuid)

definition demo_payment :: payment where
  "demo_payment = \<lparr>py_id = ''p1'', py_code = ''pack'', py_type = ''one_time'',
     py_status = ''succeeded'', py_paid_at = 0\<rparr>"

lemma demo_cp_selected:
  "cp_selected demo_cp [demo_item ''p1'', demo_item ''p1''] = [demo_payment, demo_payment]"
  by (simp add: cp_selected_def select_creditable_payments_def List.map_filter_simps
      creditable_item_def demo_item_def demo_payment_def demo_cp_def demo_cfg_def str_or_empty_def
      obj_get_def cloudpayments_paid_statuses_def parse_paid_at_def py_strip_def py_lstrip_def
      py_rstrip_def is_space_def py_lower_def lower_char_def Let_def ends_with_def
      microseconds_per_hour_def)

lemma demo_cp_terms:
  "payment_terms demo_cp demo_payment = Some (KindTokens, 100, ''cloudpayments_tokens'')"
  by (simp add: payment_terms_def demo_payment_def token_products_def or_default_def demo_cp_def
      demo_cfg_def positive_ints_def List.map_filter_simps)

lemmas cp_eval = apply_payment_def demo_cp_terms payment_transaction_def insert_cp_event_def
  demo_payment_def purchase_eval

lemma demo_cp_answer:
  "list_payments (cp_answer demo_cp 7) = Inr [demo_item ''p1'', demo_item ''p1'']"
  by (simp add: list_payments_def demo_cp_def obj_get_def List.map_filter_simps)

lemma demo_payment_first:
  "\<exists>db'. apply_payment demo_cp now demo_payment 7 demo_db = (Inr True, db')"
proof -
  have t: "payment_terms demo_cp \<lparr>py_id = ''p1'', py_code = ''pack'', py_type = ''one_time'',
     py_status = ''succeeded'', py_paid_at = 0\<rparr> = Some (KindTokens, 100, ''cloudpayments_tokens'')"
    using demo_cp_terms by (simp add: demo_payment_def)
  have iso: "cp_iso demo_cp x = []" for x by (simp add: demo_cp_def)
  have "fst (apply_payment demo_cp now demo_payment 7 demo_db) = Inr True"
    by (simp add: cp_eval t cp_key_def iso)
  then show ?thesis by (metis prod.collapse)
qed

theorem cp_callback_spec_witness:
  "\<exists>db'. cp_handle demo_cp ''cb'' demo_db = (Inr \<lparr>co_result = ''applied'', co_reason = None\<rparr>, db')
     \<and> current_balance 7 db' = 100 \<and> journal db' = [''p1'']"
proof -
  obtain db1 where a: "apply_payment demo_cp 10 demo_payment 7 demo_db = (Inr True, db1)"
    using demo_payment_first by blast
  note T = apply_payment_True[OF demo_cp_inv a]
  have j: "journal db1 = [''p1'']" using T(3) by (simp add: demo_payment_def journal_def)
  obtain r db2 where b: "apply_payment demo_cp 10 demo_payment 7 db1 = (r, db2)" by fastforce
  have db2: "db2 = db1"
    using apply_payment_journaled[OF _ T(1), of demo_payment demo_cp 10 7] j b
    by (simp add: demo_payment_def)
  have "fst (insert_cp_event demo_payment 7 KindTokens db1) = Inr False"
    using j by (auto simp: insert_cp_event_def demo_payment_def journal_def list_ex_iff map_eq_Cons_conv)
  then have "r = Inr False"
    using b by (auto simp: apply_payment_def demo_cp_terms payment_transaction_def bind_act_def
        split: prod.splits sum.splits if_splits)
  with a b db2 have h: "cp_handle demo_cp ''cb'' demo_db
      = (Inr \<lparr>co_result = ''applied'', co_reason = None\<rparr>, db1)"
    by (simp add: cp_handle_def demo_cp_front resolve_user_def demo_cp_answer demo_cp_selected)
      (simp add: demo_cp_def demo_cfg_def)
  have ne: "db1 \<noteq> demo_db" using j by (auto simp: journal_def)
  from cp_callback_spec[OF demo_cp_inv h] ne obtain uid via qs where
    "resolve_user 7 demo_db = Some (uid, via)" "credited_exactly demo_cp qs uid demo_db db1"
    by (auto simp: demo_cp_front)
  moreover have "current_balance 7 db1 = 100"
    using T(4) by (auto simp: demo_cp_terms current_balance_def[of 7 demo_db])
  ultimately show ?thesis using h j by blast
qed

theorem cp_payment_credited_once_witness:
  "\<exists>db. journal db = [''p1''] \<and> snd (apply_payment demo_cp 0 demo_payment 7 (cp_run demo_cp [''cb''] db))
      = cp_run demo_cp [''cb''] db"
proof -
  obtain db1 where a: "apply_payment demo_cp 10 demo_payment 7 demo_db = (Inr True, db1)"
    using demo_payment_first by blast
  note T = apply_payment_True[OF demo_cp_inv a]
  have j: "journal db1 = [''p1'']" using T(3) by (simp add: demo_payment_def journal_def)
  then have "py_id demo_payment \<in> set (journal db1)" by (simp add: demo_payment_def)
  from cp_payment_credited_once[OF T(1) this] j show ?thesis by blast
qed

theorem cp_selected_sound_witness:
  "\<exists>item. py_status demo_payment = py_lower (py_strip (str_or_empty (\<lambda>_. []) (obj_get item ''status'')))"
proof -
  have "demo_payment \<in> set (select_creditable_payments (\<lambda>_. []) (\<lambda>_. Some 0) [demo_item ''p1'']
      [''succeeded''] 10 72)"
    by (simp add: select_creditable_payments_def List.map_filter_simps
      creditable_item_def demo_item_def demo_payment_def str_or_empty_def
      obj_get_def parse_paid_at_def py_strip_def py_lstrip_def
      py_rstrip_def is_space_def py_lower_def lower_char_def Let_def ends_with_def
      microseconds_per_hour_def)
  from cp_selected_sound[OF this] show ?thesis by blast
qed

end
