(* ===== verification/Tokens.thy ===== *)
theory Tokens
  imports Store Config
begin

text \<open>
  Access tokens: the issuer (\<^verbatim>\<open>app/auth/issuer.py\<close>), the verifier of the gateway
  (\<^verbatim>\<open>app/api_gateway/auth.py\<close>), the bearer and admin authorisation
  (\<^verbatim>\<open>app/deps.py\<close>, \<^verbatim>\<open>require_admin\<close>) and the verifier of Apple identity tokens
  (\<^verbatim>\<open>app/auth/apple.py\<close>). PyJWT, the key sets and SHA-256 are parameters; what the code does with
  their answers and with each class of their exceptions is modelled.
\<close>

section \<open>Issuer\<close>

definition or_none :: "string \<Rightarrow> string option" where
  "or_none s = (if s = [] then None else Some s)"

record token_issuer =
  ti_private_key :: string
  ti_iss :: "string option"
  ti_aud :: "string option"
  ti_kid :: "string option"
  ti_access_ttl :: int

definition make_token_issuer :: "(string \<Rightarrow> string) \<Rightarrow> settings \<Rightarrow> token_issuer" where
  "make_token_issuer read_file cfg =
    \<lparr>ti_private_key = resolve_private_key read_file cfg, ti_iss = or_none (jwt_issuer cfg),
     ti_aud = or_none (jwt_audience cfg), ti_kid = or_none (jwt_kid cfg),
     ti_access_ttl = auth_access_ttl_seconds cfg\<rparr>"

definition issuer_configured :: "token_issuer \<Rightarrow> bool" where
  "issuer_configured ti \<longleftrightarrow> ti_private_key ti \<noteq> []"

text \<open>\<^verbatim>\<open>jwt.encode(claims, key, algorithm="RS256", headers=...)\<close>; \<^verbatim>\<open>None\<close> where it raises.\<close>

type_synonym jwt_encode = "dict \<Rightarrow> string \<Rightarrow> dict option \<Rightarrow> string option"

datatype issue_error = IssuerNotConfigured | EncodeRaises

definition access_claims :: "token_issuer \<Rightarrow> time \<Rightarrow> uuid \<Rightarrow> string \<Rightarrow> dict" where
  "access_claims ti now uid device =
     [(''sub'', JStr (str_uuid uid)), (''device_id'', JStr device),
      (''iat'', JInt (now div 1000000)),
      (''exp'', JInt ((now + ti_access_ttl ti * 1000000) div 1000000))]
     @ (case ti_iss ti of Some i \<Rightarrow> [(''iss'', JStr i)] | None \<Rightarrow> [])
     @ (case ti_aud ti of Some a \<Rightarrow> [(''aud'', JStr a)] | None \<Rightarrow> [])"

definition issue_access_token ::
  "jwt_encode \<Rightarrow> token_issuer \<Rightarrow> time \<Rightarrow> uuid \<Rightarrow> string \<Rightarrow> issue_error + string" where
  "issue_access_token enc ti now uid device =
    (if ti_private_key ti = [] then Inl IssuerNotConfigured
     else (case enc (access_claims ti now uid device) (ti_private_key ti)
             (map_option (\<lambda>k. [(''kid'', JStr k)]) (ti_kid ti)) of
         None \<Rightarrow> Inl EncodeRaises
       | Some t \<Rightarrow> Inr t))"

section \<open>Decoding\<close>

text \<open>What the library calls answer: \<^verbatim>\<open>get_signing_key_from_jwt\<close> a key, an exception the callers catch
  (\<^verbatim>\<open>PyJWKClientError\<close>, \<^verbatim>\<open>httpx.HTTPError\<close>) or another one (for instance the \<^verbatim>\<open>DecodeError\<close> of a token
  that is not a JWT); \<^verbatim>\<open>jwt.decode\<close> the claims, an \<^verbatim>\<open>InvalidTokenError\<close> or another exception.\<close>

datatype 'k key_lookup = SigningKey 'k | KeyUnavailable | LookupRaises
datatype decoded = Claims dict | InvalidToken | DecodeRaises

text \<open>The arguments of \<^verbatim>\<open>jwt.decode\<close> beside the token: the key, the algorithm, the audience, the issuer, the
  required claims, and whether the audience is verified.\<close>

type_synonym 'k jwt_decode =
  "string \<Rightarrow> 'k \<Rightarrow> string \<Rightarrow> string option \<Rightarrow> string option \<Rightarrow> string list \<Rightarrow> bool \<Rightarrow> decoded"

record jwt_verifier =
  jv_iss :: "string option"
  jv_aud :: "string option"
  jv_jwks_url :: "string option"
  jv_public_key :: "string option"

definition make_jwt_verifier :: "(string \<Rightarrow> string) \<Rightarrow> settings \<Rightarrow> jwt_verifier" where
  "make_jwt_verifier read_file cfg =
    \<lparr>jv_iss = or_none (jwt_issuer cfg), jv_aud = or_none (jwt_audience cfg),
     jv_jwks_url = or_none (jwt_jwks_url cfg),
     jv_public_key = or_none (resolve_public_key read_file cfg)\<rparr>"

text \<open>The library as the gateway sees it: the key set of the configured URL and the decoder.\<close>

record jwt_lib =
  jl_jwks :: "string \<Rightarrow> string \<Rightarrow> string key_lookup"
  jl_decode :: "string jwt_decode"
  jl_pystr :: "json \<Rightarrow> string"
    \<comment> \<open>\<^verbatim>\<open>str(v)\<close> of a value that is not a string\<close>

definition claim_str :: "jwt_lib \<Rightarrow> json \<Rightarrow> string" where
  "claim_str lib v = (case v of JStr s \<Rightarrow> s | _ \<Rightarrow> jl_pystr lib v)"

definition signing_key :: "jwt_lib \<Rightarrow> jwt_verifier \<Rightarrow> string \<Rightarrow> app_error + string" where
  "signing_key lib jv tok = (case jv_jwks_url jv of
     Some url \<Rightarrow> (case jl_jwks lib url tok of
         SigningKey k \<Rightarrow> Inr k
       | KeyUnavailable \<Rightarrow> Inl UnauthorizedError
       | LookupRaises \<Rightarrow> Inl PyError)
   | None \<Rightarrow> (case jv_public_key jv of
         Some k \<Rightarrow> Inr k
       | None \<Rightarrow> Inl UnauthorizedError))"

record authenticated_user =
  au_user :: uuid
  au_device :: json

definition jwt_verify :: "jwt_lib \<Rightarrow> jwt_verifier \<Rightarrow> string \<Rightarrow> app_error + authenticated_user" where
  "jwt_verify lib jv tok = (case signing_key lib jv tok of
     Inl e \<Rightarrow> Inl e
   | Inr key \<Rightarrow>
       (case jl_decode lib tok key ''RS256'' (jv_aud jv) (jv_iss jv) [''exp'', ''sub'']
               (jv_aud jv \<noteq> None) of
          InvalidToken \<Rightarrow> Inl UnauthorizedError
        | DecodeRaises \<Rightarrow> Inl PyError
        | Claims claims \<Rightarrow>
            (let sub = obj_get claims ''sub'' in
             if \<not> truthy sub then Inl UnauthorizedError
             else (case parse_uuid (claim_str lib sub) of
                 None \<Rightarrow> Inl UnauthorizedError
               | Some uid \<Rightarrow> Inr \<lparr>au_user = uid, au_device = obj_get claims ''device_id''\<rparr>))))"

section \<open>Authorisation of requests\<close>

definition verify_bearer_token ::
  "jwt_lib \<Rightarrow> jwt_verifier \<Rightarrow> string option \<Rightarrow> app_error + authenticated_user" where
  "verify_bearer_token lib jv authorization = (case authorization of
     None \<Rightarrow> Inl UnauthorizedError
   | Some a \<Rightarrow>
       (if a = [] \<or> \<not> starts_with ''bearer '' (py_lower a) then Inl UnauthorizedError
        else jwt_verify lib jv (py_strip (drop 1 (dropWhile (\<lambda>c. c \<noteq> CHR '' '') a)))))"

definition get_current_user ::
  "jwt_lib \<Rightarrow> jwt_verifier \<Rightarrow> string option \<Rightarrow> authenticated_user db_act" where
  "get_current_user lib jv credentials =
    (case verify_bearer_token lib jv (map_option (\<lambda>c. ''Bearer '' @ c) credentials) of
       Inl e \<Rightarrow> raise e
     | Inr user \<Rightarrow> bind_act (provision_user (au_user user)) (\<lambda>_. ret user))"

definition require_owner :: "uuid \<Rightarrow> authenticated_user \<Rightarrow> app_error option" where
  "require_owner body_user current =
     (if body_user \<noteq> au_user current then Some ForbiddenError else None)"

text \<open>The two secrets are both compared; the comparison raises on a character outside ASCII.\<close>

fun admin_token_loop :: "string \<Rightarrow> string list \<Rightarrow> bool \<Rightarrow> app_error + bool" where
  "admin_token_loop presented [] matched = Inr matched"
| "admin_token_loop presented (c # cs) matched =
     (if c = [] then admin_token_loop presented cs matched
      else (case compare_digest presented c of
          Inl e \<Rightarrow> Inl e
        | Inr same \<Rightarrow> admin_token_loop presented cs (if same then True else matched)))"

definition admin_token_matches :: "settings \<Rightarrow> string \<Rightarrow> app_error + bool" where
  "admin_token_matches cfg presented =
     admin_token_loop presented [admin_api_secret cfg, admin_api_secret_prev cfg] False"

definition require_admin :: "settings \<Rightarrow> string option \<Rightarrow> app_error option" where
  "require_admin cfg presented = (case presented of
     None \<Rightarrow> Some UnauthorizedError
   | Some p \<Rightarrow> (case admin_token_matches cfg p of
         Inl e \<Rightarrow> Some e
       | Inr ok \<Rightarrow> if ok then None else Some UnauthorizedError))"

section \<open>Apple identity tokens\<close>

record apple_verifier =
  av_issuer :: string
  av_audience :: string
  av_test_secret :: string
  av_test_mode :: bool

definition make_apple_verifier :: "settings \<Rightarrow> apple_verifier" where
  "make_apple_verifier cfg =
    \<lparr>av_issuer = apple_oidc_issuer cfg, av_audience = apple_audience_resolved cfg,
     av_test_secret = apple_test_secret cfg,
     av_test_mode = (apple_test_mode cfg \<and> apple_test_secret cfg \<noteq> [])\<rparr>"

record apple_lib =
  al_header :: "string \<Rightarrow> dict option"
    \<comment> \<open>\<^verbatim>\<open>get_unverified_header\<close>, \<^verbatim>\<open>None\<close> where it raises \<^verbatim>\<open>InvalidTokenError\<close>\<close>
  al_jwks :: "string \<Rightarrow> string key_lookup"
  al_decode :: "string jwt_decode"
  al_sha256 :: "string \<Rightarrow> string"
  al_pystr :: "json \<Rightarrow> string"

record apple_identity =
  aid_sub :: string
  aid_email :: json
  aid_email_verified :: bool

definition json_str :: "apple_lib \<Rightarrow> json \<Rightarrow> string" where
  "json_str lib v = (case v of JStr s \<Rightarrow> s | _ \<Rightarrow> al_pystr lib v)"

definition apple_required :: "string list" where
  "apple_required = [''sub'', ''iss'', ''aud'', ''exp'']"

definition decode_real :: "apple_lib \<Rightarrow> apple_verifier \<Rightarrow> string \<Rightarrow> app_error + dict" where
  "decode_real lib av tok = (case al_jwks lib tok of
     KeyUnavailable \<Rightarrow> Inl UnauthorizedError
   | LookupRaises \<Rightarrow> Inl PyError
   | SigningKey k \<Rightarrow>
       (case al_decode lib tok k ''RS256'' (Some (av_audience av)) (Some (av_issuer av))
               apple_required True of
          Claims claims \<Rightarrow> Inr claims
        | InvalidToken \<Rightarrow> Inl UnauthorizedError
        | DecodeRaises \<Rightarrow> Inl PyError))"

definition decode_test :: "apple_lib \<Rightarrow> apple_verifier \<Rightarrow> string \<Rightarrow> app_error + dict" where
  "decode_test lib av tok =
     (case al_decode lib tok (av_test_secret av) ''HS256'' (Some (av_audience av))
             (Some (av_issuer av)) apple_required True of
        Claims claims \<Rightarrow> Inr claims
      | InvalidToken \<Rightarrow> Inl UnauthorizedError
      | DecodeRaises \<Rightarrow> Inl PyError)"

definition check_nonce :: "apple_lib \<Rightarrow> dict \<Rightarrow> string option \<Rightarrow> bool" where
  "check_nonce lib claims nonce = (let claim = obj_get claims ''nonce'' in
     case nonce of
       None \<Rightarrow> True
     | Some n \<Rightarrow> if truthy claim \<and> n \<noteq> [] then al_sha256 lib n = json_str lib claim else True)"

definition apple_verify ::
  "apple_lib \<Rightarrow> apple_verifier \<Rightarrow> string \<Rightarrow> string option \<Rightarrow> app_error + apple_identity" where
  "apple_verify lib av tok nonce =
    (if av_audience av = [] then Inl ServiceUnavailableError
     else case al_header lib tok of
       None \<Rightarrow> Inl UnauthorizedError
     | Some header \<Rightarrow>
        (let alg = (case map_of header ''alg'' of None \<Rightarrow> [] | Some v \<Rightarrow> json_str lib v) in
         case (if alg = ''HS256''
               then (if \<not> av_test_mode av then Inl UnauthorizedError else decode_test lib av tok)
               else decode_real lib av tok) of
           Inl e \<Rightarrow> Inl e
         | Inr claims \<Rightarrow>
             (if \<not> check_nonce lib claims nonce then Inl UnauthorizedError
              else if \<not> truthy (obj_get claims ''sub'') then Inl UnauthorizedError
              else Inr \<lparr>aid_sub = json_str lib (obj_get claims ''sub''),
                   aid_email = obj_get claims ''email'',
                   aid_email_verified = truthy (obj_get claims ''email_verified'')\<rparr>)))"

section \<open>What is accepted\<close>

text \<open>The checks PyJWT documents for a token whose signature matches, at the time \<^verbatim>\<open>at\<close>: issuer and
  audience where they are asked for, presence of the required claims, not issued in the future, not
  expired.\<close>

definition claims_ok ::
  "time \<Rightarrow> string option \<Rightarrow> string option \<Rightarrow> string list \<Rightarrow> bool \<Rightarrow> dict \<Rightarrow> bool" where
  "claims_ok at aud iss req verify_aud claims \<longleftrightarrow>
     list_all (\<lambda>k. obj_get claims k \<noteq> JNull) req
     \<and> (case iss of None \<Rightarrow> True | Some i \<Rightarrow> obj_get claims ''iss'' = JStr i)
     \<and> (if verify_aud then (case aud of None \<Rightarrow> False | Some a \<Rightarrow> obj_get claims ''aud'' = JStr a) else True)
     \<and> (case obj_get claims ''iat'' of JInt i \<Rightarrow> i * 1000000 \<le> at | _ \<Rightarrow> False)
     \<and> (case obj_get claims ''exp'' of JInt e \<Rightarrow> at < e * 1000000 | _ \<Rightarrow> False)"

lemma str_uuid_nonempty: "str_uuid u \<noteq> []"
  by (simp add: str_uuid_def Let_def)

lemmas claim_gets = obj_get_def access_claims_def

lemma access_claims_get:
  "obj_get (access_claims ti now uid device) ''sub'' = JStr (str_uuid uid)"
  "obj_get (access_claims ti now uid device) ''device_id'' = JStr device"
  "obj_get (access_claims ti now uid device) ''iat'' = JInt (now div 1000000)"
  "obj_get (access_claims ti now uid device) ''exp'' =
     JInt ((now + ti_access_ttl ti * 1000000) div 1000000)"
  "obj_get (access_claims ti now uid device) ''iss'' = opt_str (ti_iss ti)"
  "obj_get (access_claims ti now uid device) ''aud'' = opt_str (ti_aud ti)"
  by (cases "ti_iss ti"; cases "ti_aud ti"; simp add: claim_gets opt_str_def)+

lemma access_claims_ok:
  assumes "now \<le> at" "at < (now + ti_access_ttl ti * 1000000) div 1000000 * 1000000"
  shows "claims_ok at (ti_aud ti) (ti_iss ti) [''exp'', ''sub''] (ti_aud ti \<noteq> None)
           (access_claims ti now uid device)"
proof -
  have "now div 1000000 * 1000000 \<le> at"
    using assms(1) by linarith
  with assms(2) show ?thesis
    by (auto simp: claims_ok_def access_claims_get opt_str_def split: option.splits)
qed

lemma bearer_token:
  "verify_bearer_token lib jv (Some (''Bearer '' @ t)) = jwt_verify lib jv (py_strip t)"
  by (simp add: verify_bearer_token_def py_lower_def lower_letters)

text \<open>
  C19: an access token of the issuer authenticates its owner. Issuer and verifier are built from one
  configuration, the verifier with the static public key; the encoder and the decoder are related
  as PyJWT documents (a token signed with the private key decodes, under the public key, to its
  claims when they pass the checks). Then a token issued for a user and a device is accepted as
  bearer credentials until it expires, and yields that user and that device.
\<close>

theorem issued_token_authenticates:
  assumes lib: "\<And>claims hdr t aud iss req va. enc claims (resolve_private_key rd cfg) hdr = Some t \<Longrightarrow>
      claims_ok at aud iss req va claims \<Longrightarrow>
      jl_decode lib t (resolve_public_key rd cfg) ''RS256'' aud iss req va = Claims claims"
    and "jwt_jwks_url cfg = []" "resolve_public_key rd cfg \<noteq> []"
    and tok: "issue_access_token enc (make_token_issuer rd cfg) now uid device = Inr t" "py_strip t = t"
    and "now \<le> at" "at < (now + auth_access_ttl_seconds cfg * 1000000) div 1000000 * 1000000"
  shows "\<exists>db'. get_current_user lib (make_jwt_verifier rd cfg) (Some t) db
      = (Inr \<lparr>au_user = uid, au_device = JStr device\<rparr>, db') \<and> users db' uid \<noteq> None"
proof -
  let ?ti = "make_token_issuer rd cfg" and ?jv = "make_jwt_verifier rd cfg"
  have "enc (access_claims ?ti now uid device) (resolve_private_key rd cfg)
      (map_option (\<lambda>k. [(''kid'', JStr k)]) (ti_kid ?ti)) = Some t"
    using tok(1) by (simp add: issue_access_token_def make_token_issuer_def split: if_splits option.splits)
  moreover have "claims_ok at (ti_aud ?ti) (ti_iss ?ti) [''exp'', ''sub''] (ti_aud ?ti \<noteq> None)
      (access_claims ?ti now uid device)"
    using assms(6,7) by (intro access_claims_ok) (simp_all add: make_token_issuer_def)
  ultimately have "jl_decode lib t (resolve_public_key rd cfg) ''RS256'' (jv_aud ?jv) (jv_iss ?jv)
      [''exp'', ''sub''] (jv_aud ?jv \<noteq> None) = Claims (access_claims ?ti now uid device)"
    using lib by (simp add: make_token_issuer_def make_jwt_verifier_def)
  then have "jwt_verify lib ?jv t = Inr \<lparr>au_user = uid, au_device = JStr device\<rparr>"
    using assms(2,3)
    by (simp add: jwt_verify_def signing_key_def make_jwt_verifier_def or_none_def access_claims_get
        claim_str_def str_uuid_nonempty)
  then have v: "verify_bearer_token lib ?jv (Some (''Bearer '' @ t)) = Inr \<lparr>au_user = uid, au_device = JStr device\<rparr>"
    using tok(2) by (simp only: bearer_token)
  then show ?thesis
    using provision_user_provides[of uid db]
    by (simp add: get_current_user_def bind_act_def provision_user_def)
qed

lemma jwt_verify_Inr:
  assumes "jwt_verify lib jv tok = Inr user"
  obtains key claims where "signing_key lib jv tok = Inr key"
    "jl_decode lib tok key ''RS256'' (jv_aud jv) (jv_iss jv) [''exp'', ''sub''] (jv_aud jv \<noteq> None)
       = Claims claims"
    "parse_uuid (claim_str lib (obj_get claims ''sub'')) = Some (au_user user)"
    "truthy (obj_get claims ''sub'')"
  using assms
  by (auto simp: jwt_verify_def Let_def split: sum.splits decoded.splits if_splits option.splits)

text \<open>
  only a verified token opens a request. Credentials are accepted only when the library decoded
  the trimmed token under the configured key, with RS256 as the only algorithm, the configured issuer
  and audience and with expiry and subject required, and when the subject names the user that the
  request acts for; a request that is refused provisions nobody, and one that is accepted provisions
  its own user and leaves every existing row alone.
\<close>

lemma bearer_access_sound:
  assumes "get_current_user lib jv credentials db = (r, db')"
  shows "(\<exists>e. r = Inl e \<and> db' = db)
    \<or> (\<exists>t key claims user. credentials = Some t \<and> r = Inr user
        \<and> (case jv_jwks_url jv of Some url \<Rightarrow> jl_jwks lib url (py_strip t) = SigningKey key
             | None \<Rightarrow> jv_public_key jv = Some key)
        \<and> jl_decode lib (py_strip t) key ''RS256'' (jv_aud jv) (jv_iss jv) [''exp'', ''sub'']
             (jv_aud jv \<noteq> None) = Claims claims
        \<and> parse_uuid (claim_str lib (obj_get claims ''sub'')) = Some (au_user user)
        \<and> users db' (au_user user) \<noteq> None
        \<and> (\<forall>u. u \<noteq> au_user user \<or> users db u \<noteq> None \<longrightarrow> users db' u = users db u))"
proof (cases "verify_bearer_token lib jv (map_option (\<lambda>c. ''Bearer '' @ c) credentials)")
  case (Inl e)
  with assms have "r = Inl e" "db' = db" by (auto simp: get_current_user_def)
  then show ?thesis by simp
next
  case (Inr user)
  then obtain t where t: "credentials = Some t" by (cases credentials) (auto simp: verify_bearer_token_def)
  with Inr have "jwt_verify lib jv (py_strip t) = Inr user"
    using bearer_token[of lib jv t] by (simp del: append.simps append_Cons)
  then obtain key claims where c: "signing_key lib jv (py_strip t) = Inr key"
    "jl_decode lib (py_strip t) key ''RS256'' (jv_aud jv) (jv_iss jv) [''exp'', ''sub'']
       (jv_aud jv \<noteq> None) = Claims claims"
    "parse_uuid (claim_str lib (obj_get claims ''sub'')) = Some (au_user user)"
    by (rule jwt_verify_Inr)
  have p: "r = Inr user" "db' = snd (provision_user (au_user user) db)"
    using assms Inr by (auto simp: get_current_user_def bind_act_def provision_user_def)
  have "users db' (au_user user) \<noteq> None" using p provision_user_provides by simp
  moreover have "users db' u = users db u" if "u \<noteq> au_user user \<or> users db u \<noteq> None" for u
    using that p(2) by (auto simp: provision_user_def split: option.splits)
  moreover have "case jv_jwks_url jv of Some url \<Rightarrow> jl_jwks lib url (py_strip t) = SigningKey key
      | None \<Rightarrow> jv_public_key jv = Some key"
    using c(1) by (auto simp: signing_key_def split: option.splits key_lookup.splits)
  ultimately show ?thesis using t p(1) c(2,3) by blast
qed

lemma admin_token_loop_eq:
  "admin_token_loop p cs m =
     (if list_all (\<lambda>c. c = [] \<or> is_ascii p \<and> is_ascii c) cs then Inr (m \<or> (p \<in> set cs \<and> p \<noteq> []))
      else Inl PyError)"
  by (induction p cs m rule: admin_token_loop.induct) (auto simp: compare_digest_def)

text \<open>
  who passes the operator gate. It opens exactly for a token equal to one of the two configured
  secrets; a secret that is not set matches nothing, the empty token included. A refusal is the same
  401 for a missing and for a wrong token, except that once a secret is set a token (or a secret)
  with a character outside ASCII makes the comparison itself raise.
\<close>

lemma admin_gate:
  "require_admin cfg presented = (case presented of
     None \<Rightarrow> Some UnauthorizedError
   | Some p \<Rightarrow>
       if \<not> (admin_api_secret cfg = [] \<and> admin_api_secret_prev cfg = [])
          \<and> \<not> (is_ascii p \<and> is_ascii (admin_api_secret cfg) \<and> is_ascii (admin_api_secret_prev cfg))
       then Some PyError
       else if p \<noteq> [] \<and> p \<in> {admin_api_secret cfg, admin_api_secret_prev cfg} then None
       else Some UnauthorizedError)"
  by (auto simp: require_admin_def admin_token_matches_def admin_token_loop_eq is_ascii_def
      simp del: admin_token_loop.simps split: option.splits)

lemma decode_real_Inr:
  "decode_real lib av tok = Inr claims \<Longrightarrow> \<exists>k. al_jwks lib tok = SigningKey k
     \<and> al_decode lib tok k ''RS256'' (Some (av_audience av)) (Some (av_issuer av)) apple_required True = Claims claims"
  by (auto simp: decode_real_def split: key_lookup.splits decoded.splits)

lemma decode_test_Inr:
  "decode_test lib av tok = Inr claims \<Longrightarrow>
     al_decode lib tok (av_test_secret av) ''HS256'' (Some (av_audience av)) (Some (av_issuer av))
       apple_required True = Claims claims"
  by (auto simp: decode_test_def split: decoded.splits)

text \<open>The algorithm a header names.\<close>

definition header_alg :: "apple_lib \<Rightarrow> dict \<Rightarrow> string" where
  "header_alg lib header = (case map_of header ''alg'' of None \<Rightarrow> [] | Some v \<Rightarrow> json_str lib v)"

text \<open>
  C20: which Apple identities are accepted. The audience is configured, and the claims were decoded either
  under a key of Apple's set with RS256, when the token's header does not say HS256, or, when it does
  and the configuration sets both the test flag and a test secret, under that secret with HS256; never the
  one kind of token under the other's algorithm. The subject is that of the claims, and a nonce that both the client
  and the token give matches by its SHA-256.
\<close>

theorem apple_verify_sound:
  assumes "apple_verify lib (make_apple_verifier cfg) tok nonce = Inr identity"
  shows "apple_audience_resolved cfg \<noteq> [] \<and>
    (\<exists>header claims. al_header lib tok = Some header \<and>
      ((header_alg lib header \<noteq> ''HS256'' \<and> (\<exists>k. al_jwks lib tok = SigningKey k \<and> al_decode lib tok k ''RS256''
          (Some (apple_audience_resolved cfg)) (Some (apple_oidc_issuer cfg)) apple_required True = Claims claims))
       \<or> (header_alg lib header = ''HS256'' \<and> apple_test_mode cfg \<and> apple_test_secret cfg \<noteq> [] \<and> al_decode lib tok (apple_test_secret cfg) ''HS256''
          (Some (apple_audience_resolved cfg)) (Some (apple_oidc_issuer cfg)) apple_required True = Claims claims))
      \<and> truthy (obj_get claims ''sub'') \<and> aid_sub identity = json_str lib (obj_get claims ''sub'')
      \<and> (\<forall>n. nonce = Some n \<and> n \<noteq> [] \<and> truthy (obj_get claims ''nonce'') \<longrightarrow>
            json_str lib (obj_get claims ''nonce'') = al_sha256 lib n))"
proof -
  let ?av = "make_apple_verifier cfg"
  obtain header where h: "al_header lib tok = Some header"
    using assms by (auto simp: apple_verify_def split: if_splits option.splits)
  define alg where "alg = (case map_of header ''alg'' of None \<Rightarrow> [] | Some v \<Rightarrow> json_str lib v)"
  obtain claims where c: "(if alg = ''HS256''
        then (if \<not> av_test_mode ?av then Inl UnauthorizedError else decode_test lib ?av tok)
        else decode_real lib ?av tok) = Inr claims"
    and ok: "check_nonce lib claims nonce" "truthy (obj_get claims ''sub'')"
      "identity = \<lparr>aid_sub = json_str lib (obj_get claims ''sub''), aid_email = obj_get claims ''email'',
         aid_email_verified = truthy (obj_get claims ''email_verified'')\<rparr>"
    using assms h by (auto simp: apple_verify_def Let_def alg_def split: if_splits sum.splits)
  have "av_audience ?av \<noteq> []" using assms by (auto simp: apple_verify_def split: if_splits)
  moreover have "(alg \<noteq> ''HS256'' \<and> (\<exists>k. al_jwks lib tok = SigningKey k \<and> al_decode lib tok k ''RS256''
          (Some (av_audience ?av)) (Some (av_issuer ?av)) apple_required True = Claims claims))
       \<or> (alg = ''HS256'' \<and> av_test_mode ?av \<and> al_decode lib tok (av_test_secret ?av) ''HS256''
          (Some (av_audience ?av)) (Some (av_issuer ?av)) apple_required True = Claims claims)"
    using c decode_real_Inr decode_test_Inr by (auto split: if_splits)
  moreover have "\<forall>n. nonce = Some n \<and> n \<noteq> [] \<and> truthy (obj_get claims ''nonce'') \<longrightarrow>
            json_str lib (obj_get claims ''nonce'') = al_sha256 lib n"
    using ok(1) by (auto simp: check_nonce_def Let_def split: if_splits)
  ultimately show ?thesis using ok(2,3) h by (auto simp: make_apple_verifier_def alg_def header_alg_def)
qed

text \<open>
  a token the key set cannot read is answered with 500. The key lookup catches the library's
  key-set exceptions only; any other exception of it (\<^verbatim>\<open>get_signing_key_from_jwt\<close> decodes the token
  first and raises \<^verbatim>\<open>DecodeError\<close>, an \<^verbatim>\<open>InvalidTokenError\<close>, for one that is not well formed) leaves the
  bearer verifier with a configured key-set URL, and the Apple verifier, although both are documented
  to answer 401 on every failure.
\<close>

lemma key_lookup_exception_escapes:
  assumes "jwt_jwks_url cfg \<noteq> []" "jl_jwks lib (jwt_jwks_url cfg) (py_strip t) = LookupRaises"
    and "apple_audience_resolved cfg \<noteq> []" "al_header alib idt = Some [(''alg'', JStr ''RS256'')]"
      "al_jwks alib idt = LookupRaises"
  shows "get_current_user lib (make_jwt_verifier rd cfg) (Some t) db = (Inl PyError, db)
    \<and> apple_verify alib (make_apple_verifier cfg) idt nonce = Inl PyError
    \<and> status_code PyError = 500"
proof -
  have "jwt_verify lib (make_jwt_verifier rd cfg) (py_strip t) = Inl PyError"
    using assms(1,2) by (simp add: jwt_verify_def signing_key_def make_jwt_verifier_def or_none_def)
  then have "get_current_user lib (make_jwt_verifier rd cfg) (Some t) db = (Inl PyError, db)"
    using bearer_token[of lib "make_jwt_verifier rd cfg" t]
    by (simp add: get_current_user_def del: append.simps append_Cons)
  moreover have "apple_verify alib (make_apple_verifier cfg) idt nonce = Inl PyError"
    using assms(3-5)
    by (simp add: apple_verify_def decode_real_def make_apple_verifier_def json_str_def)
  ultimately show ?thesis by (simp add: status_code_def)
qed

section \<open>Concrete instances\<close>

definition demo_claims :: dict where
  "demo_claims = access_claims (make_token_issuer (\<lambda>_. ''pem'')
     (demo_cfg\<lparr>jwt_private_key_path := ''k'', jwt_public_key_path := ''p''\<rparr>)) 0 7 ''dev''"

text \<open>A signer that knows the demo claims only, and the decoder that goes with it.\<close>

definition demo_encode :: jwt_encode where
  "demo_encode claims key hdr = (if claims = demo_claims then Some ''tok'' else None)"

definition demo_lib :: "time \<Rightarrow> jwt_lib" where
  "demo_lib at = \<lparr>jl_jwks = (\<lambda>url tok. LookupRaises),
     jl_decode = (\<lambda>tok key alg aud iss req va.
       if tok = ''tok'' \<and> claims_ok at aud iss req va demo_claims then Claims demo_claims else InvalidToken),
     jl_pystr = (\<lambda>v. [])\<rparr>"

definition demo_apple :: apple_lib where
  "demo_apple = \<lparr>al_header = (\<lambda>tok. Some [(''alg'', JStr ''RS256'')]),
     al_jwks = (\<lambda>tok. if tok = ''apple'' then SigningKey ''k'' else LookupRaises),
     al_decode = (\<lambda>tok key alg aud iss req va. Claims [(''sub'', JStr ''sub1''), (''email'', JNull)]),
     al_sha256 = (\<lambda>s. s), al_pystr = (\<lambda>v. [])\<rparr>"

definition demo_auth_cfg :: settings where
  "demo_auth_cfg = demo_cfg\<lparr>jwt_private_key_path := ''k'', jwt_public_key_path := ''p'',
     apple_audience := ''aud''\<rparr>"

lemma demo_auth_sel [simp]:
  "jwt_jwks_url demo_auth_cfg = []" "jwt_private_key_path demo_auth_cfg = ''k''"
  "jwt_public_key_path demo_auth_cfg = ''p''" "auth_access_ttl_seconds demo_auth_cfg = 3600"
  "auth_refresh_ttl_seconds demo_auth_cfg = 2592000" "apple_test_mode demo_auth_cfg = False"
  "apple_audience_resolved demo_auth_cfg = ''aud''"
  by (simp_all add: demo_auth_cfg_def demo_cfg_def apple_audience_resolved_def py_strip_def
      py_lstrip_def py_rstrip_def is_space_def)

lemma demo_issuer:
  "make_token_issuer (\<lambda>_. ''pem'') demo_auth_cfg
     = make_token_issuer (\<lambda>_. ''pem'') (demo_cfg\<lparr>jwt_private_key_path := ''k'', jwt_public_key_path := ''p''\<rparr>)"
  by (simp add: make_token_issuer_def demo_auth_cfg_def resolve_private_key_def resolve_pem_def)

lemma demo_issued:
  "issue_access_token demo_encode (make_token_issuer (\<lambda>_. ''pem'') demo_auth_cfg) 0 7 ''dev'' = Inr ''tok''"
proof -
  have "ti_private_key (make_token_issuer (\<lambda>_. ''pem'') demo_auth_cfg) = ''pem''"
    by (simp add: make_token_issuer_def resolve_private_key_def resolve_pem_def)
  then show ?thesis
    by (simp add: issue_access_token_def demo_encode_def demo_claims_def demo_issuer)
qed

theorem issued_token_authenticates_witness:
  "\<exists>db'. get_current_user (demo_lib 5) (make_jwt_verifier (\<lambda>_. ''pem'') demo_auth_cfg) (Some ''tok'')
      (empty_db of_nat 0) = (Inr \<lparr>au_user = 7, au_device = JStr ''dev''\<rparr>, db') \<and> users db' 7 \<noteq> None"
proof (rule issued_token_authenticates[where enc = demo_encode and now = 0 and at = 5])
  show "jl_decode (demo_lib 5) t (resolve_public_key (\<lambda>_. ''pem'') demo_auth_cfg) ''RS256'' aud iss req va
      = Claims claims"
    if "demo_encode claims (resolve_private_key (\<lambda>_. ''pem'') demo_auth_cfg) hdr = Some t"
      "claims_ok 5 aud iss req va claims" for claims hdr t aud iss req va
    using that by (auto simp: demo_lib_def demo_encode_def split: if_splits)
  show "issue_access_token demo_encode (make_token_issuer (\<lambda>_. ''pem'') demo_auth_cfg) 0 7 ''dev'' = Inr ''tok''"
    by (rule demo_issued)
qed (simp_all add: resolve_public_key_def resolve_pem_def py_strip_def py_lstrip_def py_rstrip_def is_space_def)

theorem bearer_access_sound_witness:
  "get_current_user (demo_lib 5) (make_jwt_verifier (\<lambda>_. ''pem'') demo_auth_cfg) None (empty_db of_nat 0)
     = (Inl UnauthorizedError, empty_db of_nat 0)
   \<and> (\<exists>e. (Inl UnauthorizedError :: app_error + authenticated_user) = Inl e)"
proof -
  have g: "get_current_user (demo_lib 5) (make_jwt_verifier (\<lambda>_. ''pem'') demo_auth_cfg) None (empty_db of_nat 0)
     = (Inl UnauthorizedError, empty_db of_nat 0)"
    by (simp add: get_current_user_def verify_bearer_token_def)
  from bearer_access_sound[OF g] g show ?thesis by blast
qed

theorem apple_verify_sound_witness:
  "apple_verify demo_apple (make_apple_verifier demo_auth_cfg) ''apple'' None
     = Inr \<lparr>aid_sub = ''sub1'', aid_email = JNull, aid_email_verified = False\<rparr>
   \<and> (\<exists>k. al_jwks demo_apple ''apple'' = SigningKey k)"
proof -
  have v: "apple_verify demo_apple (make_apple_verifier demo_auth_cfg) ''apple'' None
     = Inr \<lparr>aid_sub = ''sub1'', aid_email = JNull, aid_email_verified = False\<rparr>"
    by (simp add: apple_verify_def make_apple_verifier_def demo_apple_def decode_real_def json_str_def
        check_nonce_def obj_get_def)
  from apple_verify_sound[OF v] v show ?thesis by (simp add: demo_apple_def)
qed

theorem key_lookup_exception_escapes_witness:
  "get_current_user (demo_lib 5) (make_jwt_verifier (\<lambda>_. ''pem'') (demo_auth_cfg\<lparr>jwt_jwks_url := ''u''\<rparr>))
     (Some ''x'') (empty_db of_nat 0) = (Inl PyError, empty_db of_nat 0)
   \<and> apple_verify demo_apple (make_apple_verifier (demo_auth_cfg\<lparr>jwt_jwks_url := ''u''\<rparr>)) ''bad'' None
     = Inl PyError"
  using key_lookup_exception_escapes[of "demo_auth_cfg\<lparr>jwt_jwks_url := ''u''\<rparr>" "demo_lib 5" "''x''"
      demo_apple "''bad''" "\<lambda>_. ''pem''" "empty_db of_nat 0" None]
  by (simp add: demo_lib_def demo_apple_def demo_auth_cfg_def apple_audience_resolved_def demo_cfg_def
      py_strip_def py_lstrip_def py_rstrip_def is_space_def)

end
