(* ===== verification/Histories.thy ===== *)
theory Histories
  imports Prelude
begin

text \<open>
  Facts that outlive requests. A component whose every operation moves its state forward in some
  preorder (rows are only added, marks are only set) keeps, along any history, each fact that is
  stable in the preorder; an invariant is the special case of the preorder "if it holds before, it
  holds after". The first locale composes such operations, the second follows them through
  histories.
\<close>

definition moves :: "('s \<Rightarrow> 's \<Rightarrow> bool) \<Rightarrow> ('e, 's, 'a) act \<Rightarrow> bool" where
  "moves le m \<longleftrightarrow> (\<forall>s r s'. m s = (r, s') \<longrightarrow> le s s')"

lemma movesI: "(\<And>s r s'. m s = (r, s') \<Longrightarrow> le s s') \<Longrightarrow> moves le m"
  by (simp add: moves_def)

lemma movesD: "moves le m \<Longrightarrow> m s = (r, s') \<Longrightarrow> le s s'"
  by (simp add: moves_def)

lemma moves_snd: "moves le m \<Longrightarrow> le s (snd (m s))"
  by (metis movesD prod.collapse)

locale preordered =
  fixes le :: "'s \<Rightarrow> 's \<Rightarrow> bool"
  assumes le_refl: "le s s"
    and le_trans: "le s t \<Longrightarrow> le t u \<Longrightarrow> le s u"
begin

lemma moves_ret: "moves le (ret a)"
  by (rule movesI) (auto intro: le_refl)

lemma moves_raise: "moves le (raise e)"
  by (rule movesI) (auto intro: le_refl)

lemma moves_get: "moves le get_st"
  by (rule movesI) (auto intro: le_refl)

lemma moves_guard: "moves le (guard_act b e)"
  by (rule movesI) (auto intro: le_refl split: if_splits)

lemma moves_upd: "(\<And>s. le s (f s)) \<Longrightarrow> moves le (upd_st f)"
  by (rule movesI) auto

lemma moves_bind:
  assumes "moves le m" "\<And>a. moves le (f a)"
  shows "moves le (bind_act m f)"
proof (rule movesI)
  fix s r s' assume "bind_act m f s = (r, s')"
  then show "le s s'"
    using assms le_trans unfolding bind_act_def moves_def
    by (fastforce split: prod.splits sum.splits)
qed

lemma moves_transaction: "moves le m \<Longrightarrow> moves le (transaction m)"
  unfolding transaction_def moves_def
  by (fastforce intro: le_refl split: prod.splits sum.splits)

lemmas moves_basic = moves_ret moves_raise moves_get moves_guard moves_bind moves_transaction

end

locale forward_history = preordered +
  fixes step :: "'op \<Rightarrow> 'a \<Rightarrow> 'a"
  assumes step_le: "le s (step op s)"
begin

lemma run_le: "le s (fold step ops s)"
proof (induction ops arbitrary: s)
  case (Cons op ops)
  then show ?case using step_le le_trans by (metis fold_simps(2))
qed (simp add: le_refl)

text \<open>A fact that moves forward with the preorder holds at every later moment.\<close>

lemma run_stable:
  assumes "P s" "\<And>a b. le a b \<Longrightarrow> P a \<Longrightarrow> P b"
  shows "P (fold step ops s)"
  using assms run_le by blast

end

end
