(* ===== verification/AuthSessions.thy ===== *)
theory AuthSessions
  imports Tokens Histories
begin

text \<open>
  The embedded authentication service (\<^verbatim>\<open>app/auth/service.py\<close>): device identities, Sign in with
  Apple, and single-use refresh tokens with reuse detection. The random tokens of
  \<^verbatim>\<open>secrets.token_urlsafe\<close> are arguments of the requests, \<^verbatim>\<open>uuid.uuid4\<close> draws from the database's
  supply, SHA-256 and the signer are parameters. A request is modelled from committed state to
  committed state, so that the commit before the exception of the reuse path is visible.
\<close>

record auth_env =
  sx_cfg :: settings
  sx_read :: "string \<Rightarrow> string"
  sx_encode :: jwt_encode
  sx_sha256 :: "string \<Rightarrow> string"
  sx_apple :: apple_lib

definition sx_issuer :: "auth_env \<Rightarrow> token_issuer" where
  "sx_issuer env = make_token_issuer (sx_read env) (sx_cfg env)"

record issued_tokens =
  it_user :: uuid
  it_device :: string
  it_access :: string
  it_expires_in :: int
  it_refresh :: string
  it_refresh_expires_in :: int

definition hash_refresh :: "auth_env \<Rightarrow> string \<Rightarrow> string" where
  "hash_refresh env token = sx_sha256 env token"

definition require_issuer :: "auth_env \<Rightarrow> unit db_act" where
  "require_issuer env = guard_act (issuer_configured (sx_issuer env)) ServiceUnavailableError"

section \<open>Device identities\<close>

definition find_device :: "string \<Rightarrow> db \<Rightarrow> device_row option" where
  "find_device d db = find (\<lambda>r. ad_device r = d) (devices db)"

text \<open>\<^verbatim>\<open>INSERT INTO auth_devices ... ON CONFLICT (device_id) DO NOTHING\<close>.\<close>

definition insert_device :: "uuid \<Rightarrow> string \<Rightarrow> unit db_act" where
  "insert_device uid d = (\<lambda>db.
     if find_device d db \<noteq> None then (Inr (), db)
     else if users db uid = None then (Inl DbError, db)
     else (Inr (), db\<lparr>devices := devices db @ [\<lparr>ad_device = d, ad_user = uid\<rparr>]\<rparr>))"

definition find_or_create_identity :: "string \<Rightarrow> uuid db_act" where
  "find_or_create_identity d = (\<lambda>db. case find_device d db of
     Some r \<Rightarrow> (Inr (ad_user r), db)
   | None \<Rightarrow>
       bind_act fresh_uuid (\<lambda>new_user.
       bind_act (provision_user new_user) (\<lambda>_.
       bind_act (insert_device new_user d) (\<lambda>_.
       bind_act get_st (\<lambda>db'. case find_device d db' of
          None \<Rightarrow> raise ServiceUnavailableError
        | Some r \<Rightarrow> ret (ad_user r))))) db)"

text \<open>\<^verbatim>\<open>INSERT INTO auth_refresh_tokens\<close>: key, token hash and both references are constrained.\<close>

definition insert_refresh :: "uuid \<Rightarrow> string \<Rightarrow> string \<Rightarrow> time \<Rightarrow> unit db_act" where
  "insert_refresh uid d h expires = bind_act fresh_uuid (\<lambda>i db.
     if list_ex (\<lambda>r. rt_id r = i \<or> rt_hash r = h) (refresh_tokens db)
        \<or> users db uid = None \<or> find_device d db = None
     then (Inl DbError, db)
     else (Inr (), db\<lparr>refresh_tokens := refresh_tokens db @
       [\<lparr>rt_id = i, rt_user = uid, rt_device = d, rt_hash = h, rt_expires = expires,
         rt_used = None, rt_revoked = None\<rparr>]\<rparr>))"

definition issue_pair :: "auth_env \<Rightarrow> time \<Rightarrow> string \<Rightarrow> uuid \<Rightarrow> string \<Rightarrow> issued_tokens db_act" where
  "issue_pair env now tok uid d =
    (case issue_access_token (sx_encode env) (sx_issuer env) now uid d of
       Inl IssuerNotConfigured \<Rightarrow> raise ServiceUnavailableError
     | Inl EncodeRaises \<Rightarrow> raise PyError
     | Inr access \<Rightarrow>
         bind_act (insert_refresh uid d (hash_refresh env tok)
           (now + auth_refresh_ttl_seconds (sx_cfg env) * 1000000)) (\<lambda>_.
         ret \<lparr>it_user = uid, it_device = d, it_access = access,
           it_expires_in = ti_access_ttl (sx_issuer env), it_refresh = tok,
           it_refresh_expires_in = auth_refresh_ttl_seconds (sx_cfg env)\<rparr>))"

text \<open>\<^verbatim>\<open>device_id or str(uuid.uuid4())\<close>.\<close>

definition resolve_device :: "string option \<Rightarrow> string db_act" where
  "resolve_device device = (case device of
     Some d \<Rightarrow> if d \<noteq> [] then ret d else bind_act fresh_uuid (\<lambda>u. ret (str_uuid u))
   | None \<Rightarrow> bind_act fresh_uuid (\<lambda>u. ret (str_uuid u)))"

definition register_or_token ::
  "auth_env \<Rightarrow> time \<Rightarrow> string \<Rightarrow> string option \<Rightarrow> issued_tokens db_act" where
  "register_or_token env now tok device = transaction
    (bind_act (require_issuer env) (\<lambda>_.
     bind_act (resolve_device device) (\<lambda>d.
     bind_act (find_or_create_identity d) (\<lambda>uid.
     issue_pair env now tok uid d))))"

section \<open>Sign in with Apple\<close>

definition find_identity :: "string \<Rightarrow> db \<Rightarrow> identity_row option" where
  "find_identity sub db = find (\<lambda>r. ai_provider r = ''apple'' \<and> ai_subject r = sub) (identities db)"

definition has_apple :: "uuid \<Rightarrow> db \<Rightarrow> bool" where
  "has_apple uid db = list_ex (\<lambda>r. ai_user r = uid \<and> ai_provider r = ''apple'') (identities db)"

text \<open>\<^verbatim>\<open>INSERT INTO auth_identities ... ON CONFLICT (provider, subject) DO NOTHING\<close>; the driver rejects an
  \<^verbatim>\<open>email\<close> claim that is neither a string nor null.\<close>

definition insert_identity :: "uuid \<Rightarrow> string \<Rightarrow> json \<Rightarrow> unit db_act" where
  "insert_identity uid sub email = (\<lambda>db.
    case (case email of JNull \<Rightarrow> Some None | JStr s \<Rightarrow> Some (Some s) | _ \<Rightarrow> None) of
      None \<Rightarrow> (Inl DbError, db)
    | Some e \<Rightarrow>
        if find_identity sub db \<noteq> None then (Inr (), db)
        else if users db uid = None then (Inl DbError, db)
        else (Inr (), db\<lparr>identities := identities db @
          [\<lparr>ai_user = uid, ai_provider = ''apple'', ai_subject = sub, ai_email = e\<rparr>]\<rparr>))"

definition resolve_apple_user :: "string \<Rightarrow> json \<Rightarrow> string \<Rightarrow> uuid db_act" where
  "resolve_apple_user sub email d = (\<lambda>db. case find_identity sub db of
     Some r \<Rightarrow> (Inr (ai_user r), db)
   | None \<Rightarrow>
       bind_act (find_or_create_identity d) (\<lambda>device_user.
       bind_act get_st (\<lambda>db1.
       bind_act (if \<not> has_apple device_user db1 then ret device_user
                 else bind_act fresh_uuid (\<lambda>u. bind_act (provision_user u) (\<lambda>_. ret u))) (\<lambda>link_to.
       bind_act (insert_identity link_to sub email) (\<lambda>_.
       bind_act get_st (\<lambda>db2. case find_identity sub db2 of
          None \<Rightarrow> raise ServiceUnavailableError
        | Some r \<Rightarrow> ret (ai_user r)))))) db)"

text \<open>\<^verbatim>\<open>INSERT ... ON CONFLICT (device_id) DO UPDATE SET user_id\<close>.\<close>

definition upsert_device :: "string \<Rightarrow> uuid \<Rightarrow> unit db_act" where
  "upsert_device d uid = (\<lambda>db.
     if users db uid = None then (Inl DbError, db)
     else if find_device d db \<noteq> None
     then (Inr (), db\<lparr>devices := map (\<lambda>r. if ad_device r = d then r\<lparr>ad_user := uid\<rparr> else r) (devices db)\<rparr>)
     else (Inr (), db\<lparr>devices := devices db @ [\<lparr>ad_device = d, ad_user = uid\<rparr>]\<rparr>))"

definition sign_in_with_apple ::
  "auth_env \<Rightarrow> time \<Rightarrow> string \<Rightarrow> string \<Rightarrow> string option \<Rightarrow> string option \<Rightarrow> issued_tokens db_act" where
  "sign_in_with_apple env now tok identity_token device nonce = transaction
    (bind_act (require_issuer env) (\<lambda>_.
     case apple_verify (sx_apple env) (make_apple_verifier (sx_cfg env)) identity_token nonce of
       Inl e \<Rightarrow> raise e
     | Inr identity \<Rightarrow>
         bind_act (resolve_device device) (\<lambda>d.
         bind_act (resolve_apple_user (aid_sub identity) (aid_email identity) d) (\<lambda>target.
         bind_act (upsert_device d target) (\<lambda>_.
         issue_pair env now tok target d)))))"

section \<open>Refresh\<close>

definition refresh_select :: "auth_env \<Rightarrow> string \<Rightarrow> db \<Rightarrow> refresh_row option" where
  "refresh_select env rt db = find (\<lambda>r. rt_hash r = hash_refresh env rt) (refresh_tokens db)"

definition revoke_chain :: "uuid \<Rightarrow> string \<Rightarrow> db \<Rightarrow> db" where
  "revoke_chain uid d db = db\<lparr>refresh_tokens := map (\<lambda>r.
     if rt_user r = uid \<and> rt_device r = d \<and> rt_revoked r = None
     then r\<lparr>rt_revoked := Some (db_now db)\<rparr> else r) (refresh_tokens db)\<rparr>"

definition mark_used :: "uuid \<Rightarrow> db \<Rightarrow> db" where
  "mark_used i db = db\<lparr>refresh_tokens := map (\<lambda>r.
     if rt_id r = i then r\<lparr>rt_used := Some (db_now db)\<rparr> else r) (refresh_tokens db)\<rparr>"

text \<open>What follows the \<^verbatim>\<open>SELECT\<close>, given the row it returned. The database may have moved on since:
  the row is read without a lock.\<close>

definition refresh_apply ::
  "auth_env \<Rightarrow> time \<Rightarrow> string \<Rightarrow> refresh_row option \<Rightarrow> issued_tokens db_act" where
  "refresh_apply env now tok row = (\<lambda>db. case row of
     None \<Rightarrow> (Inl UnauthorizedError, db)
   | Some r \<Rightarrow>
       if rt_used r \<noteq> None
       then (Inl UnauthorizedError, revoke_chain (rt_user r) (rt_device r) db)
       else if rt_revoked r \<noteq> None then (Inl UnauthorizedError, db)
       else if rt_expires r \<le> now then (Inl UnauthorizedError, db)
       else transaction (bind_act (upd_st (mark_used (rt_id r))) (\<lambda>_.
              issue_pair env now tok (rt_user r) (rt_device r))) db)"

definition refresh :: "auth_env \<Rightarrow> time \<Rightarrow> string \<Rightarrow> string \<Rightarrow> issued_tokens db_act" where
  "refresh env now tok rt = (\<lambda>db.
     if \<not> issuer_configured (sx_issuer env) then (Inl ServiceUnavailableError, db)
     else refresh_apply env now tok (refresh_select env rt db) db)"

section \<open>Histories of requests\<close>

datatype auth_op =
    OpRegister "string option" string time
  | OpApple string "string option" "string option" string time
  | OpRefresh string string time

fun auth_step :: "auth_env \<Rightarrow> auth_op \<Rightarrow> db \<Rightarrow> db" where
  "auth_step env (OpRegister device tok now) db = snd (register_or_token env now tok device db)"
| "auth_step env (OpApple idt device nonce tok now) db =
     snd (sign_in_with_apple env now tok idt device nonce db)"
| "auth_step env (OpRefresh rt tok now) db = snd (refresh env now tok rt db)"

definition auth_run :: "auth_env \<Rightarrow> auth_op list \<Rightarrow> db \<Rightarrow> db" where
  "auth_run env ops db = fold (auth_step env) ops db"

section \<open>Requests only move the tables forward\<close>

definition token_le :: "refresh_row \<Rightarrow> refresh_row \<Rightarrow> bool" where
  "token_le r r' \<longleftrightarrow> rt_id r' = rt_id r \<and> rt_user r' = rt_user r \<and> rt_device r' = rt_device r
     \<and> rt_hash r' = rt_hash r \<and> rt_expires r' = rt_expires r
     \<and> (rt_used r \<noteq> None \<longrightarrow> rt_used r' \<noteq> None) \<and> (rt_revoked r \<noteq> None \<longrightarrow> rt_revoked r' \<noteq> None)"

text \<open>Refresh tokens are only added and marked, identities only added, devices added or given to
  another user, users only added.\<close>

definition grows :: "('r \<Rightarrow> 'r \<Rightarrow> bool) \<Rightarrow> 'r list \<Rightarrow> 'r list \<Rightarrow> bool" where
  "grows le rs rs' \<longleftrightarrow> (\<exists>ms zs. rs' = ms @ zs \<and> list_all2 le rs ms)"

definition auth_le :: "db \<Rightarrow> db \<Rightarrow> bool" where
  "auth_le db db' \<longleftrightarrow> grows token_le (refresh_tokens db) (refresh_tokens db')
     \<and> grows (=) (identities db) (identities db')
     \<and> grows (\<lambda>a b. ad_device a = ad_device b) (devices db) (devices db')
     \<and> (\<forall>u. users db u \<noteq> None \<longrightarrow> users db' u \<noteq> None)"

lemma grows_refl: "(\<And>r. le r r) \<Longrightarrow> grows le rs rs"
  unfolding grows_def by (metis append_Nil2 list_all2_refl)

lemma grows_append: "(\<And>r. le r r) \<Longrightarrow> grows le rs (rs @ zs)"
  unfolding grows_def by (metis list_all2_refl)

lemma grows_map: "(\<And>r. le r (f r)) \<Longrightarrow> grows le rs (map f rs)"
  unfolding grows_def by (rule exI[of _ "map f rs"]) (simp add: list_all2_conv_all_nth)

lemma grows_trans:
  assumes "grows le rs ss" "grows le ss ts" "\<And>a b c. le a b \<Longrightarrow> le b c \<Longrightarrow> le a c"
  shows "grows le rs ts"
proof -
  obtain ms zs where 1: "ss = ms @ zs" "list_all2 le rs ms" using assms(1) by (auto simp: grows_def)
  obtain ns ys where 2: "ts = ns @ ys" "list_all2 le (ms @ zs) ns" using assms(2) 1 by (auto simp: grows_def)
  then obtain n1 n2 where 3: "ns = n1 @ n2" "list_all2 le ms n1" by (auto simp: list_all2_append1)
  then have "list_all2 le rs n1" using 1(2) assms(3) list_all2_trans[of le le le] by blast
  with 2 3 show ?thesis unfolding grows_def by (metis append_assoc)
qed

lemma grows_find:
  assumes "grows le rs rs'" "find P rs = Some r" "\<And>a b. le a b \<Longrightarrow> P a = P b"
  shows "\<exists>r'. find P rs' = Some r' \<and> le r r'"
proof -
  obtain ms zs where 1: "rs' = ms @ zs" "list_all2 le rs ms" using assms(1) by (auto simp: grows_def)
  from 1(2) assms(2) have "\<exists>r'. find P (ms @ zs) = Some r' \<and> le r r'"
    by (induction rs ms rule: list_all2_induct) (auto simp: assms(3) split: if_splits)
  with 1 show ?thesis by simp
qed

lemma token_le_refl: "token_le r r"
  by (simp add: token_le_def)

lemma token_le_trans: "token_le a b \<Longrightarrow> token_le b c \<Longrightarrow> token_le a c"
  by (auto simp: token_le_def)

lemma auth_le_refl: "auth_le db db"
  by (auto simp: auth_le_def intro!: grows_refl token_le_refl)

lemma auth_le_trans: "auth_le a b \<Longrightarrow> auth_le b c \<Longrightarrow> auth_le a c"
  unfolding auth_le_def by (auto intro: grows_trans token_le_trans)

lemma auth_leI:
  assumes "grows token_le (refresh_tokens db) (refresh_tokens db')"
    "grows (=) (identities db) (identities db')"
    "grows (\<lambda>a b. ad_device a = ad_device b) (devices db) (devices db')"
    "\<And>u. users db u \<noteq> None \<Longrightarrow> users db' u \<noteq> None"
  shows "auth_le db db'"
  using assms by (auto simp: auth_le_def)

lemmas grow_intros = grows_refl grows_append grows_map token_le_refl

lemma fresh_le: "moves auth_le fresh_uuid"
  by (rule movesI) (auto simp: fresh_uuid_def intro!: auth_leI grow_intros)

lemma provision_le: "moves auth_le (provision_user u)"
  by (rule movesI) (auto simp: provision_user_def intro!: auth_leI grow_intros split: option.splits if_splits)

lemma insert_device_le: "moves auth_le (insert_device u d)"
  by (rule movesI) (auto simp: insert_device_def intro!: auth_leI grow_intros split: if_splits)

lemma upsert_device_le: "moves auth_le (upsert_device d u)"
  by (rule movesI) (auto simp: upsert_device_def intro!: auth_leI grow_intros split: if_splits)

lemma insert_identity_le: "moves auth_le (insert_identity u s e)"
  by (rule movesI)
    (auto simp: insert_identity_def intro!: auth_leI grow_intros split: if_splits option.splits)

lemma insert_refresh_le: "moves auth_le (insert_refresh u d h e)"
  by (rule movesI) (auto simp: insert_refresh_def bind_act_def fresh_uuid_def intro!: auth_leI grow_intros split: if_splits)

lemma mark_used_le: "auth_le db (mark_used i db)"
  by (auto simp: mark_used_def token_le_def intro!: auth_leI grow_intros)

lemma revoke_chain_le: "auth_le db (revoke_chain u d db)"
  by (auto simp: revoke_chain_def token_le_def intro!: auth_leI grow_intros)

text \<open>What the requests do to the database follows, in any preorder, from what their statements do.\<close>

locale auth_moves = preordered le for le :: "db \<Rightarrow> db \<Rightarrow> bool" +
  assumes le_fresh: "moves le fresh_uuid"
    and le_provision: "moves le (provision_user u)"
    and le_insert_device: "moves le (insert_device u d)"
    and le_upsert_device: "moves le (upsert_device d u)"
    and le_insert_identity: "moves le (insert_identity u s e)"
    and le_insert_refresh: "moves le (insert_refresh u d h x)"
    and le_mark_used: "le db (mark_used i db)"
    and le_revoke_chain: "le db (revoke_chain u d db)"
begin

lemma issue_pair_le: "moves le (issue_pair env now tok u d)"
  unfolding issue_pair_def
  by (auto intro!: moves_basic le_insert_refresh split: sum.splits issue_error.splits)

lemma find_or_create_le: "moves le (find_or_create_identity d)"
proof -
  let ?m = "bind_act fresh_uuid (\<lambda>new_user. bind_act (provision_user new_user) (\<lambda>_.
     bind_act (insert_device new_user d) (\<lambda>_. bind_act get_st (\<lambda>db'. case find_device d db' of
          None \<Rightarrow> raise ServiceUnavailableError | Some r \<Rightarrow> ret (ad_user r)))))"
  have m: "moves le ?m"
    by (intro moves_bind le_fresh le_provision le_insert_device moves_get)
      (auto intro!: moves_basic split: option.splits)
  show ?thesis
    by (rule movesI) (auto simp: find_or_create_identity_def le_refl split: option.splits intro: movesD[OF m])
qed

lemma resolve_device_le: "moves le (resolve_device device)"
  unfolding resolve_device_def by (auto intro!: moves_basic le_fresh split: option.splits)

lemma register_le: "moves le (register_or_token env now tok device)"
  unfolding register_or_token_def require_issuer_def
  by (intro moves_basic resolve_device_le find_or_create_le issue_pair_le)

lemma resolve_apple_le: "moves le (resolve_apple_user sub email d)"
proof -
  let ?m = "bind_act (find_or_create_identity d) (\<lambda>device_user.
       bind_act get_st (\<lambda>db1.
       bind_act (if \<not> has_apple device_user db1 then ret device_user
                 else bind_act fresh_uuid (\<lambda>u. bind_act (provision_user u) (\<lambda>_. ret u))) (\<lambda>link_to.
       bind_act (insert_identity link_to sub email) (\<lambda>_.
       bind_act get_st (\<lambda>db2. case find_identity sub db2 of
          None \<Rightarrow> raise ServiceUnavailableError
        | Some r \<Rightarrow> ret (ai_user r))))))"
  have m: "moves le ?m"
    by (intro moves_bind find_or_create_le le_insert_identity moves_get)
      (auto intro!: moves_basic le_fresh le_provision split: option.splits)
  show ?thesis
    by (rule movesI) (auto simp: resolve_apple_user_def le_refl split: option.splits intro: movesD[OF m])
qed

lemma apple_le: "moves le (sign_in_with_apple env now tok idt device nonce)"
  unfolding sign_in_with_apple_def require_issuer_def
  by (auto intro!: moves_basic resolve_device_le resolve_apple_le le_upsert_device issue_pair_le
      split: sum.splits)

lemma refresh_apply_le: "moves le (refresh_apply env now tok row)"
proof -
  have m: "moves le (transaction (bind_act (upd_st (mark_used i)) (\<lambda>_. issue_pair env now tok u d)))"
    for i u d by (intro moves_basic moves_upd le_mark_used issue_pair_le)
  show ?thesis
    by (rule movesI) (auto simp: refresh_apply_def le_refl le_revoke_chain
        split: option.splits if_splits intro: movesD[OF m])
qed

lemma refresh_le: "moves le (refresh env now tok rt)"
  by (rule movesI) (auto simp: refresh_def le_refl split: if_splits intro: movesD[OF refresh_apply_le])

end

interpretation al: auth_moves auth_le
  by unfold_locales (auto intro: auth_le_refl auth_le_trans fresh_le provision_le insert_device_le upsert_device_le
      insert_identity_le insert_refresh_le mark_used_le revoke_chain_le)

lemma auth_step_le: "auth_le db (auth_step env op db)"
  by (cases op) (simp_all add: moves_snd al.register_le al.apple_le al.refresh_le)

interpretation ah: forward_history auth_le "auth_step env" for env
  by unfold_locales (rule auth_step_le)

lemma auth_run_le: "auth_le db (auth_run env ops db)"
  unfolding auth_run_def by (rule ah.run_le)

section \<open>Refresh tokens\<close>

lemma select_le:
  "auth_le a b \<Longrightarrow> refresh_select env rt a = Some r \<Longrightarrow> \<exists>r'. refresh_select env rt b = Some r' \<and> token_le r r'"
proof -
  assume a: "auth_le a b" and r: "refresh_select env rt a = Some r"
  have "token_le x y \<Longrightarrow> (rt_hash x = hash_refresh env rt) = (rt_hash y = hash_refresh env rt)" for x y
    by (simp add: token_le_def)
  with grows_find[of token_le "refresh_tokens a" "refresh_tokens b" "\<lambda>r. rt_hash r = hash_refresh env rt" r] a r
  show ?thesis unfolding refresh_select_def auth_le_def by blast
qed

definition live_token :: "auth_env \<Rightarrow> string \<Rightarrow> db \<Rightarrow> uuid \<Rightarrow> string \<Rightarrow> bool" where
  "live_token env rt db uid d \<longleftrightarrow> (\<exists>r. refresh_select env rt db = Some r \<and> rt_user r = uid
     \<and> rt_device r = d \<and> rt_used r = None \<and> rt_revoked r = None)"

definition dead_token :: "auth_env \<Rightarrow> string \<Rightarrow> db \<Rightarrow> bool" where
  "dead_token env rt db \<longleftrightarrow>
     (\<exists>r. refresh_select env rt db = Some r \<and> (rt_used r \<noteq> None \<or> rt_revoked r \<noteq> None))"

lemma dead_stays: "auth_le a b \<Longrightarrow> dead_token env rt a \<Longrightarrow> dead_token env rt b"
  using select_le unfolding dead_token_def token_le_def by blast

lemma dead_refused:
  "issuer_configured (sx_issuer env) \<Longrightarrow> dead_token env rt db \<Longrightarrow>
     fst (refresh env now tok rt db) = Inl UnauthorizedError"
  by (auto simp: dead_token_def refresh_def refresh_apply_def)

lemma find_map_keep:
  "(\<And>r. P (f r) = P r) \<Longrightarrow> find P (map f rs) = map_option f (find P rs)"
  by (induction rs) auto

lemma find_append: "find P (xs @ ys) = (case find P xs of Some r \<Rightarrow> Some r | None \<Rightarrow> find P ys)"
  by (induction xs) auto

lemma select_mark_used:
  "refresh_select env rt db = Some r \<Longrightarrow>
     refresh_select env rt (mark_used (rt_id r) db) = Some (r\<lparr>rt_used := Some (db_now db)\<rparr>)"
  unfolding refresh_select_def mark_used_def by (simp add: find_map_keep)

lemma insert_refresh_select:
  assumes "insert_refresh u d h e db = (Inr x, db')" "h = hash_refresh env tok"
  shows "live_token env tok db' u d \<and> users db u \<noteq> None \<and> find_device d db \<noteq> None
    \<and> devices db' = devices db \<and> identities db' = identities db \<and> users db' = users db
    \<and> (\<forall>rt r. refresh_select env rt db = Some r \<longrightarrow> refresh_select env rt db' = Some r)
    \<and> (\<forall>x r'. x \<in> set (refresh_tokens db) \<and> refresh_select env tok db' = Some r' \<longrightarrow> rt_id r' \<noteq> rt_id x)"
proof -
  have n: "\<not> list_ex (\<lambda>r. rt_id r = db_gen db (db_next db) \<or> rt_hash r = h) (refresh_tokens db)"
    "db' = db\<lparr>db_next := Suc (db_next db), refresh_tokens := refresh_tokens db @
       [\<lparr>rt_id = db_gen db (db_next db), rt_user = u, rt_device = d, rt_hash = h, rt_expires = e,
         rt_used = None, rt_revoked = None\<rparr>]\<rparr>" "users db u \<noteq> None" "find_device d db \<noteq> None"
    using assms(1)
    by (auto simp: insert_refresh_def bind_act_def fresh_uuid_def find_device_def list_ex_iff split: if_splits)
  then have "find (\<lambda>r. rt_hash r = h) (refresh_tokens db) = None"
    by (auto simp: find_None_iff list_ex_iff)
  with n assms(2) show ?thesis
    by (auto simp: live_token_def refresh_select_def find_append list_ex_iff)
qed

lemma issue_pair_Inr:
  assumes "issue_pair env now tok u d db = (Inr t, db')"
  shows "it_user t = u \<and> it_device t = d \<and> it_refresh t = tok \<and> live_token env tok db' u d
    \<and> issuer_configured (sx_issuer env) \<and> users db u \<noteq> None \<and> find_device d db \<noteq> None
    \<and> devices db' = devices db \<and> identities db' = identities db \<and> users db' = users db
    \<and> (\<forall>rt r. refresh_select env rt db = Some r \<longrightarrow> refresh_select env rt db' = Some r)
    \<and> (\<forall>x r'. x \<in> set (refresh_tokens db) \<and> refresh_select env tok db' = Some r' \<longrightarrow> rt_id r' \<noteq> rt_id x)"
proof -
  obtain a x db1 where "issue_access_token (sx_encode env) (sx_issuer env) now u d = Inr a"
    and i: "insert_refresh u d (hash_refresh env tok) (now + auth_refresh_ttl_seconds (sx_cfg env) * 1000000) db
        = (Inr x, db')"
    and t: "t = \<lparr>it_user = u, it_device = d, it_access = a,
           it_expires_in = ti_access_ttl (sx_issuer env), it_refresh = tok,
           it_refresh_expires_in = auth_refresh_ttl_seconds (sx_cfg env)\<rparr>"
    using assms
    by (auto simp: issue_pair_def bind_act_Inr_iff split: sum.splits issue_error.splits)
  moreover then have "issuer_configured (sx_issuer env)"
    by (auto simp: issuer_configured_def issue_access_token_def split: if_splits)
  ultimately show ?thesis using insert_refresh_select[OF i refl] by simp
qed

lemma refresh_Inr:
  assumes "refresh env now tok rt db = (Inr t, db1)"
  obtains r where "refresh_select env rt db = Some r" "rt_used r = None" "rt_revoked r = None"
    "now < rt_expires r" "it_user t = rt_user r" "it_device t = rt_device r" "it_refresh t = tok"
    "issuer_configured (sx_issuer env)"
    "issue_pair env now tok (rt_user r) (rt_device r) (mark_used (rt_id r) db) = (Inr t, db1)"
    "refresh_select env rt db1 = Some (r\<lparr>rt_used := Some (db_now db)\<rparr>)"
    "live_token env tok db1 (rt_user r) (rt_device r)"
proof -
  obtain r where r: "refresh_select env rt db = Some r" "rt_used r = None" "rt_revoked r = None"
    "now < rt_expires r"
    and p: "issue_pair env now tok (rt_user r) (rt_device r) (mark_used (rt_id r) db) = (Inr t, db1)"
    using assms
    by (auto simp: refresh_def refresh_apply_def transaction_Inr_iff not_le split: if_splits option.splits)
  from that[OF r] issue_pair_Inr[OF p] p select_mark_used[OF r(1)] show ?thesis by blast
qed

lemma select_mem: "refresh_select env rt db = Some r \<Longrightarrow> r \<in> set (refresh_tokens db)"
  unfolding refresh_select_def by (metis find_Some_iff nth_mem)

lemma revoked_all:
  assumes "r \<in> set (refresh_tokens (revoke_chain u d db))" "rt_user r = u" "rt_device r = d"
  shows "rt_revoked r \<noteq> None"
proof -
  have "(\<exists>x. r = x\<lparr>rt_revoked := Some (db_now db)\<rparr>)
      \<or> (rt_device r = d \<longrightarrow> rt_user r = u \<longrightarrow> (\<exists>y. rt_revoked r = Some y))"
    using assms(1) by (simp add: revoke_chain_def image_iff) blast
  then show ?thesis using assms(2,3) by fastforce
qed

lemma revoked_dead:
  assumes "refresh_select env rt db = Some r" "rt_user r = u" "rt_device r = d"
  shows "dead_token env rt (revoke_chain u d db)"
proof -
  obtain r' where r': "refresh_select env rt (revoke_chain u d db) = Some r'" "token_le r r'"
    using select_le[OF revoke_chain_le assms(1)] by blast
  moreover have "rt_user r' = u" "rt_device r' = d" using r'(2) assms(2,3) by (auto simp: token_le_def)
  ultimately have "rt_revoked r' \<noteq> None" using revoked_all[OF select_mem] by blast
  with r'(1) show ?thesis by (auto simp: dead_token_def)
qed

text \<open>
  C18: a refresh token is redeemed once, and a second use closes the chain. After a token was exchanged,
  presenting it again at any later time, whatever requests came in between, answers 401 and revokes
  every token of that user and device, although the answer is an exception; the pair it was
  exchanged for can then never be used again either.
\<close>

theorem refresh_single_use:
  assumes "refresh env now tok rt db = (Inr t, db1)"
  shows "\<exists>db2. refresh env now' tok' rt (auth_run env ops db1) = (Inl UnauthorizedError, db2)
    \<and> (\<forall>r. r \<in> set (refresh_tokens db2) \<and> rt_user r = it_user t \<and> rt_device r = it_device t
         \<longrightarrow> rt_revoked r \<noteq> None)
    \<and> (\<forall>ops' now'' tok''. fst (refresh env now'' tok'' (it_refresh t) (auth_run env ops' db2))
         = Inl UnauthorizedError)"
proof -
  obtain r where r: "it_user t = rt_user r" "it_device t = rt_device r" "it_refresh t = tok"
    "issuer_configured (sx_issuer env)" "refresh_select env rt db1 = Some (r\<lparr>rt_used := Some (db_now db)\<rparr>)"
    "live_token env tok db1 (rt_user r) (rt_device r)"
    using assms by (rule refresh_Inr)
  let ?db = "auth_run env ops db1"
  obtain r1 where r1: "refresh_select env rt ?db = Some r1" "rt_used r1 \<noteq> None"
    "rt_user r1 = it_user t" "rt_device r1 = it_device t"
    using select_le[OF auth_run_le[of db1 env ops] r(5)] r(1,2) by (auto simp: token_le_def)
  let ?db2 = "revoke_chain (it_user t) (it_device t) ?db"
  have again: "refresh env now' tok' rt ?db = (Inl UnauthorizedError, ?db2)"
    using r(4) r1 by (simp add: refresh_def refresh_apply_def)
  obtain r2 where "refresh_select env tok ?db = Some r2" "rt_user r2 = it_user t" "rt_device r2 = it_device t"
    using r(1,2,6) select_le[OF auth_run_le] unfolding live_token_def token_le_def by metis
  then have "dead_token env tok ?db2" by (rule revoked_dead)
  then have "fst (refresh env now'' tok'' (it_refresh t) (auth_run env ops' ?db2)) = Inl UnauthorizedError"
    for ops' now'' tok'' using r(3,4) dead_stays[OF auth_run_le] by (simp add: dead_refused)
  with again revoked_all show ?thesis by blast
qed

lemma issue_pair_ok:
  assumes "issue_access_token (sx_encode env) (sx_issuer env) now u d = Inr a"
    and "\<not> list_ex (\<lambda>r. rt_id r = db_gen db (db_next db) \<or> rt_hash r = hash_refresh env tok) (refresh_tokens db)"
    and "users db u \<noteq> None" "find_device d db \<noteq> None"
  shows "\<exists>t db'. issue_pair env now tok u d db = (Inr t, db') \<and> it_access t = a"
  using assms
  by (simp add: issue_pair_def bind_act_def insert_refresh_def fresh_uuid_def find_device_def)

lemma live_token_mark_used:
  assumes "live_token env tok db u d" "\<And>x. refresh_select env tok db = Some x \<Longrightarrow> rt_id x \<noteq> i"
  shows "live_token env tok (mark_used i db) u d"
proof -
  obtain x where x: "refresh_select env tok db = Some x" "rt_user x = u" "rt_device x = d"
    "rt_used x = None" "rt_revoked x = None" using assms(1) by (auto simp: live_token_def)
  with assms(2) have "refresh_select env tok (mark_used i db) = Some x"
    unfolding refresh_select_def mark_used_def by (simp add: find_map_keep)
  with x show ?thesis by (auto simp: live_token_def)
qed

text \<open>
  C21: two refreshes at the same time both succeed. The row is read without a lock and marked without a
  condition, so when a second request with the same token has read the row before the first one
  commits, it is accepted as well: both receive a pair, both new refresh tokens are usable
  afterwards, and the reuse is not detected. (The signer answers, and the second random token and
  row id are new.)
\<close>

theorem refresh_race:
  assumes "refresh env now tok1 rt db = (Inr t1, db1)"
    and "now2 < rt_expires (the (refresh_select env rt db))"
    and "issue_access_token (sx_encode env) (sx_issuer env) now2 (it_user t1) (it_device t1) = Inr a2"
    and "\<forall>r \<in> set (refresh_tokens db1). rt_id r \<noteq> db_gen db1 (db_next db1) \<and> rt_hash r \<noteq> hash_refresh env tok2"
  shows "\<exists>t2 db2. refresh_apply env now2 tok2 (refresh_select env rt db) db1 = (Inr t2, db2)
    \<and> live_token env (it_refresh t1) db2 (it_user t1) (it_device t1)
    \<and> live_token env (it_refresh t2) db2 (it_user t1) (it_device t1)
    \<and> it_refresh t1 = tok1 \<and> it_refresh t2 = tok2"
proof -
  obtain r where r: "refresh_select env rt db = Some r" "rt_used r = None" "rt_revoked r = None"
    "it_user t1 = rt_user r" "it_device t1 = rt_device r" "it_refresh t1 = tok1"
    and p1: "issue_pair env now tok1 (rt_user r) (rt_device r) (mark_used (rt_id r) db) = (Inr t1, db1)"
    and l1: "live_token env tok1 db1 (rt_user r) (rt_device r)"
    using assms(1) by (rule refresh_Inr)
  note i1 = issue_pair_Inr[OF p1]
  let ?m = "mark_used (rt_id r) db1"
  have same: "users db1 = users (mark_used (rt_id r) db)" "devices db1 = devices (mark_used (rt_id r) db)"
    "users (mark_used (rt_id r) db) (rt_user r) \<noteq> None"
    "find_device (rt_device r) (mark_used (rt_id r) db) \<noteq> None" using i1 by blast+
  have "\<not> list_ex (\<lambda>x. rt_id x = db_gen ?m (db_next ?m) \<or> rt_hash x = hash_refresh env tok2) (refresh_tokens ?m)"
    using assms(4) by (auto simp: list_ex_iff mark_used_def)
  moreover have "users ?m (rt_user r) \<noteq> None" "find_device (rt_device r) ?m \<noteq> None"
    using same by (simp_all add: mark_used_def find_device_def)
  ultimately obtain t2 db2 where p2: "issue_pair env now2 tok2 (rt_user r) (rt_device r) ?m = (Inr t2, db2)"
    using assms(3) r(4,5) issue_pair_ok[of env now2 "rt_user r" "rt_device r" a2 ?m tok2] by auto
  have ap: "refresh_apply env now2 tok2 (refresh_select env rt db) db1 = (Inr t2, db2)"
    using r(1-3) assms(2) p2 by (simp add: refresh_apply_def transaction_Inr_iff)
  have "rt_id x \<noteq> rt_id r" if "refresh_select env tok1 db1 = Some x" for x
  proof -
    have "rt_id x \<noteq> rt_id (r\<lparr>rt_used := Some (db_now db)\<rparr>)"
      using i1 that select_mem[OF select_mark_used[OF r(1)] ] by blast
    then show ?thesis by simp
  qed
  note l2 = live_token_mark_used[OF l1 this]
  from issue_pair_Inr[OF p2] have i2: "it_refresh t2 = tok2" "live_token env tok2 db2 (rt_user r) (rt_device r)"
    "\<And>rt x. refresh_select env rt ?m = Some x \<Longrightarrow> refresh_select env rt db2 = Some x" by blast+
  then have "live_token env tok1 db2 (rt_user r) (rt_device r)"
    using l2 unfolding live_token_def by blast
  with ap i2(1,2) r(4-6) show ?thesis by simp
qed

section \<open>Accounts\<close>

lemma find_identity_le:
  "auth_le a b \<Longrightarrow> find_identity s a = Some r \<Longrightarrow> find_identity s b = Some r"
  unfolding find_identity_def auth_le_def
  using grows_find[of "(=)" "identities a" "identities b" "\<lambda>r. ai_provider r = ''apple'' \<and> ai_subject r = s" r]
  by blast

lemma find_or_create_Inr:
  assumes "find_or_create_identity d db = (Inr u, db')"
  shows "(case find_device d db of Some r \<Rightarrow> u = ad_user r \<and> db' = db
      | None \<Rightarrow> u = db_gen db (db_next db) \<and> db_next db' = Suc (db_next db) \<and> users db' u \<noteq> None)
    \<and> (\<exists>r. find_device d db' = Some r \<and> ad_user r = u)
    \<and> db_gen db' = db_gen db \<and> identities db' = identities db \<and> refresh_tokens db' = refresh_tokens db"
proof (cases "find_device d db")
  case (Some r)
  with assms show ?thesis by (auto simp: find_or_create_identity_def)
next
  case None
  define v where "v = db_gen db (db_next db)"
  obtain x db1 where p: "provision_user v (db\<lparr>db_next := Suc (db_next db)\<rparr>) = (Inr x, db1)"
    by (simp add: provision_user_def)
  have s: "devices db1 = devices db" "identities db1 = identities db" "db_gen db1 = db_gen db"
    "refresh_tokens db1 = refresh_tokens db" "db_next db1 = Suc (db_next db)" "users db1 v \<noteq> None"
    using p by (auto simp: provision_user_def split: option.splits)
  have n: "find_device d db1 = None" using None s(1) by (simp add: find_device_def)
  define db2 where "db2 = db1\<lparr>devices := devices db1 @ [\<lparr>ad_device = d, ad_user = v\<rparr>]\<rparr>"
  have i: "insert_device v d db1 = (Inr (), db2)" using n s(6) by (simp add: insert_device_def db2_def)
  have f: "find_device d db2 = Some \<lparr>ad_device = d, ad_user = v\<rparr>"
    using n by (simp add: find_device_def find_append db2_def)
  have "find_or_create_identity d db = (Inr v, db2)"
    using None p i f by (simp add: find_or_create_identity_def bind_act_def fresh_uuid_def v_def)
  with assms have "u = v" "db' = db2" by simp_all
  with None s f show ?thesis by (simp add: db2_def v_def)
qed

lemma resolve_device_Inr:
  assumes "resolve_device device db = (Inr d, db')"
  shows "(\<exists>k. db' = db\<lparr>db_next := k\<rparr> \<and> db_next db \<le> k) \<and> (\<forall>x. device = Some x \<and> x \<noteq> [] \<longrightarrow> d = x)"
proof -
  have "db = db\<lparr>db_next := db_next db\<rparr>" by simp
  then show ?thesis using assms
    by (auto simp: resolve_device_def bind_act_def fresh_uuid_def split: option.splits if_splits
        intro: exI[of _ "db_next db"])
qed

lemma upsert_device_Inr:
  assumes "upsert_device d u db = (r, db')" "r = Inr x"
  shows "(\<exists>row. find_device d db' = Some row \<and> ad_user row = u) \<and> users db u \<noteq> None
    \<and> identities db' = identities db"
proof (cases "find_device d db")
  case None
  with assms show ?thesis by (auto simp: upsert_device_def find_device_def find_append split: if_splits)
next
  case (Some row)
  let ?f = "\<lambda>r. if ad_device r = d then r\<lparr>ad_user := u\<rparr> else r"
  have db': "db' = db\<lparr>devices := map ?f (devices db)\<rparr>" "users db u \<noteq> None"
    using assms Some by (auto simp: upsert_device_def split: if_splits)
  have "find_device d db' = map_option ?f (find_device d db)"
    unfolding db'(1) find_device_def by (simp add: find_map_keep)
  moreover have "ad_device row = d" using Some by (auto simp: find_device_def find_Some_iff)
  ultimately show ?thesis using db' Some by simp
qed

lemma resolve_apple_Inr:
  assumes "resolve_apple_user sub email d db = (Inr u, db')"
  shows "\<exists>r. find_identity sub db' = Some r \<and> ai_user r = u"
  using assms
  by (auto simp: resolve_apple_user_def bind_act_Inr_iff split: option.splits)

lemma sign_in_Inr:
  assumes "sign_in_with_apple env now tok idt device nonce db = (Inr t, db1)"
  obtains identity dbd db2 where
    "apple_verify (sx_apple env) (make_apple_verifier (sx_cfg env)) idt nonce = Inr identity"
    "resolve_device device db = (Inr (it_device t), dbd)"
    "resolve_apple_user (aid_sub identity) (aid_email identity) (it_device t) dbd = (Inr (it_user t), db2)"
    "\<exists>r. find_identity (aid_sub identity) db1 = Some r \<and> ai_user r = it_user t"
    "\<exists>r. find_device (it_device t) db1 = Some r \<and> ad_user r = it_user t"
    "live_token env (it_refresh t) db1 (it_user t) (it_device t)"
proof -
  obtain identity d dbd u db2 x db3 where
    v: "apple_verify (sx_apple env) (make_apple_verifier (sx_cfg env)) idt nonce = Inr identity"
    and d: "resolve_device device db = (Inr d, dbd)"
    and u: "resolve_apple_user (aid_sub identity) (aid_email identity) d dbd = (Inr u, db2)"
    and up: "upsert_device d u db2 = (Inr x, db3)"
    and p: "issue_pair env now tok u d db3 = (Inr t, db1)"
    using assms
    by (auto simp: sign_in_with_apple_def require_issuer_def transaction_Inr_iff bind_act_Inr_iff
        split: sum.splits if_splits)
  note i = issue_pair_Inr[OF p]
  have td: "it_device t = d" "it_user t = u" using i by blast+
  obtain r where "find_identity (aid_sub identity) db2 = Some r" "ai_user r = u"
    using resolve_apple_Inr[OF u] by blast
  moreover have "auth_le db2 db1"
    using movesD[OF upsert_device_le up] movesD[OF al.issue_pair_le p] auth_le_trans by blast
  ultimately have "\<exists>r. find_identity (aid_sub identity) db1 = Some r \<and> ai_user r = u"
    using find_identity_le by blast
  moreover have "\<exists>r. find_device d db1 = Some r \<and> ad_user r = u"
  proof -
    have "find_device d db1 = find_device d db3" using i by (simp add: find_device_def)
    with upsert_device_Inr[OF up refl] show ?thesis by simp
  qed
  ultimately show ?thesis using that[of identity dbd db2] v d u i td by metis
qed

text \<open>
  one Apple account is one user. Once a sign-in with Apple succeeded for a subject, every later
  sign-in whose token verifies to the same subject, from whatever device and after whatever other
  requests, yields the same user, and binds the device it comes from to that user.
\<close>

lemma apple_account_stable:
  assumes "sign_in_with_apple env now1 tok1 idt1 device1 nonce1 db = (Inr t1, db1)"
    and "sign_in_with_apple env now2 tok2 idt2 device2 nonce2 (auth_run env ops db1) = (Inr t2, db2)"
    and "apple_verify (sx_apple env) (make_apple_verifier (sx_cfg env)) idt1 nonce1 = Inr identity1"
    and "apple_verify (sx_apple env) (make_apple_verifier (sx_cfg env)) idt2 nonce2 = Inr identity2"
    and "aid_sub identity2 = aid_sub identity1"
  shows "it_user t2 = it_user t1 \<and> (\<exists>r. find_device (it_device t2) db2 = Some r \<and> ad_user r = it_user t1)"
proof -
  obtain r1 where r1: "find_identity (aid_sub identity1) db1 = Some r1" "ai_user r1 = it_user t1"
    using assms(1) by (rule sign_in_Inr) (use assms(3) in auto)
  obtain dbd db3 r2 where r2: "find_identity (aid_sub identity1) db2 = Some r2" "ai_user r2 = it_user t2"
    and dev: "\<exists>r. find_device (it_device t2) db2 = Some r \<and> ad_user r = it_user t2"
    using assms(2) by (rule sign_in_Inr) (use assms(4,5) in auto)
  have "auth_le db1 db2"
    using auth_run_le[of db1 env ops] movesD[OF al.apple_le assms(2)] auth_le_trans by blast
  then have "find_identity (aid_sub identity1) db2 = Some r1" using r1(1) find_identity_le by blast
  with r1 r2 dev show ?thesis by simp
qed

lemma resolve_apple_account:
  assumes "resolve_apple_user sub email d db = (Inr u, db')"
  shows "case find_identity sub db of
      Some row \<Rightarrow> u = ai_user row
    | None \<Rightarrow> (case find_device d db of
        Some row \<Rightarrow> if has_apple (ad_user row) db then u = db_gen db (db_next db) else u = ad_user row
      | None \<Rightarrow> \<exists>k \<ge> db_next db. u = db_gen db k)"
proof (cases "find_identity sub db")
  case (Some row)
  with assms show ?thesis by (simp add: resolve_apple_user_def)
next
  case None
  obtain du db1 l db2 x row where du: "find_or_create_identity d db = (Inr du, db1)"
    and l: "(if \<not> has_apple du db1 then ret du
             else bind_act fresh_uuid (\<lambda>u. bind_act (provision_user u) (\<lambda>_. ret u))) db1 = (Inr l, db2)"
    and i: "insert_identity l sub email db2 = (Inr x, db')"
    and r: "find_identity sub db' = Some row" "ai_user row = u"
    using assms None
    by (auto simp: resolve_apple_user_def bind_act_Inr_iff simp del: if_not_P split: option.splits)
  note f = find_or_create_Inr[OF du]
  have db2: "identities db2 = identities db1"
    using l by (auto simp: bind_act_def fresh_uuid_def provision_user_def split: if_splits option.splits)
  then have "find_identity sub db2 = None" using f None by (simp add: find_identity_def)
  then have ul: "u = l"
    using i r by (auto simp: insert_identity_def find_identity_def find_append split: json.splits if_splits)
  have lu: "l = (if has_apple du db then db_gen db1 (db_next db1) else du)"
    using l f by (auto simp: has_apple_def bind_act_def fresh_uuid_def provision_user_def split: if_splits)
  show ?thesis
  proof (cases "find_device d db")
    case (Some drow)
    with f have "du = ad_user drow" "db1 = db" by simp_all
    with lu ul None Some show ?thesis by simp
  next
    case n: None
    then have "du = db_gen db (db_next db)" "db_next db1 = Suc (db_next db)" "db_gen db1 = db_gen db"
      using f by simp_all
    then have "\<exists>k \<ge> db_next db. u = db_gen db k"
      using lu ul by (cases "has_apple du db") (auto intro: exI[of _ "Suc (db_next db)"])
    with None n show ?thesis by simp
  qed
qed

text \<open>
  which account a sign-in with Apple opens. A failed sign-in changes nothing. A successful one
  verified the token, and the account is that of the identity when its subject is known; otherwise
  the account of the device, if the device is known and its account has no Apple identity yet, and
  else a new user. The device is bound to the account afterwards, whomever it belonged to, and the
  refresh token handed out is usable.
\<close>

lemma apple_account_spec:
  assumes "sign_in_with_apple env now tok idt device nonce db = (r, db1)"
  shows "(\<exists>e. r = Inl e \<and> db1 = db)
    \<or> (\<exists>t identity. r = Inr t
      \<and> apple_verify (sx_apple env) (make_apple_verifier (sx_cfg env)) idt nonce = Inr identity
      \<and> (\<forall>d. device = Some d \<and> d \<noteq> [] \<longrightarrow> it_device t = d)
      \<and> (case find_identity (aid_sub identity) db of
           Some row \<Rightarrow> it_user t = ai_user row
         | None \<Rightarrow> (case find_device (it_device t) db of
             Some row \<Rightarrow> if has_apple (ad_user row) db then \<exists>k \<ge> db_next db. it_user t = db_gen db k
                         else it_user t = ad_user row
           | None \<Rightarrow> \<exists>k \<ge> db_next db. it_user t = db_gen db k))
      \<and> (\<exists>row. find_device (it_device t) db1 = Some row \<and> ad_user row = it_user t)
      \<and> live_token env (it_refresh t) db1 (it_user t) (it_device t))"
proof (cases r)
  case (Inl e)
  with assms show ?thesis by (auto simp: sign_in_with_apple_def transaction_Inl_iff)
next
  case (Inr t)
  obtain identity dbd db2 where
    v: "apple_verify (sx_apple env) (make_apple_verifier (sx_cfg env)) idt nonce = Inr identity"
    and d: "resolve_device device db = (Inr (it_device t), dbd)"
    and u: "resolve_apple_user (aid_sub identity) (aid_email identity) (it_device t) dbd = (Inr (it_user t), db2)"
    and bound: "\<exists>r. find_device (it_device t) db1 = Some r \<and> ad_user r = it_user t"
    and live: "live_token env (it_refresh t) db1 (it_user t) (it_device t)"
    using assms unfolding Inr by (rule sign_in_Inr)
  obtain k where k: "dbd = db\<lparr>db_next := k\<rparr>" "db_next db \<le> k" using resolve_device_Inr[OF d] by blast
  then have same: "find_identity (aid_sub identity) dbd = find_identity (aid_sub identity) db"
    "find_device (it_device t) dbd = find_device (it_device t) db" "\<And>u. has_apple u dbd = has_apple u db"
    "db_gen dbd = db_gen db" "db_next dbd = k"
    by (simp_all add: find_identity_def find_device_def has_apple_def)
  have up: "\<exists>k \<ge> db_next db. it_user t = db_gen db k" if "j \<ge> k" "it_user t = db_gen db j" for j
    using that k(2) by (intro exI[of _ j]) simp
  have "case find_identity (aid_sub identity) db of
           Some row \<Rightarrow> it_user t = ai_user row
         | None \<Rightarrow> (case find_device (it_device t) db of
             Some row \<Rightarrow> if has_apple (ad_user row) db then \<exists>k \<ge> db_next db. it_user t = db_gen db k
                         else it_user t = ad_user row
           | None \<Rightarrow> \<exists>k \<ge> db_next db. it_user t = db_gen db k)"
    using resolve_apple_account[OF u] up unfolding same by (auto split: option.splits if_splits)
  with v bound live Inr resolve_device_Inr[OF d] show ?thesis by blast
qed

text \<open>
  registration finds or creates. A failed registration changes nothing. A successful one is for the
  device the client named, or a generated one; a known device keeps its account, a new one gets a new
  account; the refresh token handed out is usable and no other token is touched.
\<close>

lemma device_account_spec:
  assumes "register_or_token env now tok device db = (r, db1)"
  shows "(\<exists>e. r = Inl e \<and> db1 = db)
    \<or> (\<exists>t. r = Inr t \<and> (\<forall>d. device = Some d \<and> d \<noteq> [] \<longrightarrow> it_device t = d)
      \<and> (case find_device (it_device t) db of
           Some row \<Rightarrow> it_user t = ad_user row
         | None \<Rightarrow> \<exists>k \<ge> db_next db. it_user t = db_gen db k)
      \<and> (\<exists>row. find_device (it_device t) db1 = Some row \<and> ad_user row = it_user t)
      \<and> live_token env (it_refresh t) db1 (it_user t) (it_device t)
      \<and> (\<forall>rt row. refresh_select env rt db = Some row \<longrightarrow> refresh_select env rt db1 = Some row)
      \<and> identities db1 = identities db)"
proof (cases r)
  case (Inl e)
  with assms show ?thesis by (auto simp: register_or_token_def transaction_Inl_iff)
next
  case (Inr t)
  obtain d dbd u db2 where d: "resolve_device device db = (Inr d, dbd)"
    and u: "find_or_create_identity d dbd = (Inr u, db2)"
    and p: "issue_pair env now tok u d db2 = (Inr t, db1)"
    using assms unfolding Inr
    by (auto simp: register_or_token_def require_issuer_def transaction_Inr_iff bind_act_Inr_iff
        split: if_splits)
  obtain k where k: "dbd = db\<lparr>db_next := k\<rparr>" "db_next db \<le> k" using resolve_device_Inr[OF d] by blast
  note f = find_or_create_Inr[OF u] and i = issue_pair_Inr[OF p]
  have td: "it_user t = u" "it_device t = d" using i by blast+
  have dev: "find_device d dbd = find_device d db" "db_gen dbd = db_gen db" "db_next dbd = k"
    using k by (simp_all add: find_device_def)
  have tokens: "refresh_tokens db2 = refresh_tokens db" "identities db1 = identities db"
    using f i k by auto
  have "case find_device d db of Some row \<Rightarrow> u = ad_user row
      | None \<Rightarrow> \<exists>k \<ge> db_next db. u = db_gen db k"
    using f k(2) unfolding dev by (auto split: option.splits)
  moreover have "find_device d db1 = find_device d db2" using i by (simp add: find_device_def)
  moreover have "\<forall>rt row. refresh_select env rt db = Some row \<longrightarrow> refresh_select env rt db1 = Some row"
    using i tokens(1) by (simp add: refresh_select_def)
  moreover have "live_token env (it_refresh t) db1 u d" using i by blast
  ultimately show ?thesis using Inr td f tokens(2) resolve_device_Inr[OF d] by auto
qed

section \<open>Concrete instances\<close>

definition demo_auth :: auth_env where
  "demo_auth = \<lparr>sx_cfg = demo_auth_cfg, sx_read = (\<lambda>_. ''pem''), sx_encode = (\<lambda>claims key hdr. Some ''jwt''),
     sx_sha256 = (\<lambda>s. s), sx_apple = demo_apple\<rparr>"

lemma demo_auth_eval [simp]:
  "issuer_configured (sx_issuer demo_auth)"
  "issue_access_token (sx_encode demo_auth) (sx_issuer demo_auth) now u d = Inr ''jwt''"
  "hash_refresh demo_auth s = s" "sx_cfg demo_auth = demo_auth_cfg" "sx_apple demo_auth = demo_apple"
  by (simp_all add: demo_auth_def sx_issuer_def make_token_issuer_def issuer_configured_def
      resolve_private_key_def resolve_pem_def issue_access_token_def hash_refresh_def)

lemma demo_apple_verify [simp]:
  "apple_verify demo_apple (make_apple_verifier demo_auth_cfg) ''apple'' None
     = Inr \<lparr>aid_sub = ''sub1'', aid_email = JNull, aid_email_verified = False\<rparr>"
  by (simp add: apple_verify_def make_apple_verifier_def demo_apple_def decode_real_def json_str_def
      check_nonce_def obj_get_def)

lemmas auth_eval = register_or_token_def sign_in_with_apple_def refresh_def refresh_apply_def
  require_issuer_def resolve_device_def find_or_create_identity_def resolve_apple_user_def
  insert_identity_def has_apple_def upsert_device_def insert_device_def provision_user_def
  issue_pair_def insert_refresh_def transaction_def bind_act_def fresh_uuid_def refresh_select_def
  find_device_def find_identity_def empty_db_def mark_used_def

definition demo_registered :: db where
  "demo_registered = snd (register_or_token demo_auth 0 ''rt1'' (Some ''dev'') (empty_db of_nat 0))"

lemma demo_register:
  "\<exists>t. register_or_token demo_auth 0 ''rt1'' (Some ''dev'') (empty_db of_nat 0) = (Inr t, demo_registered)
     \<and> it_user t = 0"
  unfolding demo_registered_def by (simp add: auth_eval)

lemma demo_refresh:
  "\<exists>t db1. refresh demo_auth 0 ''rt2'' ''rt1'' demo_registered = (Inr t, db1)
     \<and> it_user t = 0 \<and> it_device t = ''dev''
     \<and> (\<forall>r \<in> set (refresh_tokens db1). rt_id r \<noteq> db_gen db1 (db_next db1) \<and> rt_hash r \<noteq> ''rt3'')
     \<and> 0 < rt_expires (the (refresh_select demo_auth ''rt1'' demo_registered))"
  unfolding demo_registered_def by (simp add: auth_eval)

theorem device_account_spec_witness:
  "\<exists>t. register_or_token demo_auth 0 ''rt1'' (Some ''dev'') (empty_db of_nat 0) = (Inr t, demo_registered)
     \<and> it_device t = ''dev'' \<and> live_token demo_auth (it_refresh t) demo_registered (it_user t) ''dev''"
proof -
  obtain t where t: "register_or_token demo_auth 0 ''rt1'' (Some ''dev'') (empty_db of_nat 0)
      = (Inr t, demo_registered)" using demo_register by blast
  from device_account_spec[OF t] t show ?thesis by auto
qed

theorem refresh_single_use_witness:
  "\<exists>t db1 db2. refresh demo_auth 0 ''rt2'' ''rt1'' demo_registered = (Inr t, db1)
     \<and> refresh demo_auth 1 ''rt3'' ''rt1'' (auth_run demo_auth [OpRefresh ''rt2'' ''rt4'' 0] db1)
         = (Inl UnauthorizedError, db2)"
proof -
  obtain t db1 where t: "refresh demo_auth 0 ''rt2'' ''rt1'' demo_registered = (Inr t, db1)"
    using demo_refresh by blast
  from refresh_single_use[OF t, of 1 "''rt3''" "[OpRefresh ''rt2'' ''rt4'' 0]"] t show ?thesis by blast
qed

theorem refresh_race_witness:
  "\<exists>t1 db1 t2 db2. refresh demo_auth 0 ''rt2'' ''rt1'' demo_registered = (Inr t1, db1)
     \<and> refresh_apply demo_auth 0 ''rt3'' (refresh_select demo_auth ''rt1'' demo_registered) db1 = (Inr t2, db2)"
proof -
  obtain t1 db1 where t: "refresh demo_auth 0 ''rt2'' ''rt1'' demo_registered = (Inr t1, db1)"
    "it_user t1 = 0" "it_device t1 = ''dev''"
    "\<forall>r \<in> set (refresh_tokens db1). rt_id r \<noteq> db_gen db1 (db_next db1) \<and> rt_hash r \<noteq> ''rt3''"
    "0 < rt_expires (the (refresh_select demo_auth ''rt1'' demo_registered))"
    using demo_refresh by blast
  from refresh_race[OF t(1), of 0 "''jwt''" "''rt3''"] t show ?thesis by auto
qed

definition demo_apple_in :: db where
  "demo_apple_in = snd (sign_in_with_apple demo_auth 0 ''rt2'' ''apple'' (Some ''dev'') None demo_registered)"

lemma demo_sign_in:
  "\<exists>t. sign_in_with_apple demo_auth 0 ''rt2'' ''apple'' (Some ''dev'') None demo_registered = (Inr t, demo_apple_in)
     \<and> it_user t = 0"
  unfolding demo_apple_in_def demo_registered_def by (simp add: auth_eval)

lemma demo_sign_in_again:
  "\<exists>t db2. sign_in_with_apple demo_auth 0 ''rt3'' ''apple'' (Some ''dev2'') None (auth_run demo_auth [] demo_apple_in)
     = (Inr t, db2)"
  unfolding demo_apple_in_def demo_registered_def auth_run_def by (simp add: auth_eval)

theorem apple_account_stable_witness:
  "\<exists>t db2. sign_in_with_apple demo_auth 0 ''rt3'' ''apple'' (Some ''dev2'') None (auth_run demo_auth [] demo_apple_in)
     = (Inr t, db2) \<and> it_user t = 0"
proof -
  obtain t1 where t1: "sign_in_with_apple demo_auth 0 ''rt2'' ''apple'' (Some ''dev'') None demo_registered
      = (Inr t1, demo_apple_in)" "it_user t1 = 0" using demo_sign_in by blast
  obtain t2 db2 where t2: "sign_in_with_apple demo_auth 0 ''rt3'' ''apple'' (Some ''dev2'') None
      (auth_run demo_auth [] demo_apple_in) = (Inr t2, db2)" using demo_sign_in_again by blast
  have v: "apple_verify (sx_apple demo_auth) (make_apple_verifier (sx_cfg demo_auth)) ''apple'' None
     = Inr \<lparr>aid_sub = ''sub1'', aid_email = JNull, aid_email_verified = False\<rparr>" by simp
  from apple_account_stable[OF t1(1) t2 v v refl] t1(2) t2 show ?thesis by auto
qed

theorem apple_account_spec_witness:
  "\<exists>t. sign_in_with_apple demo_auth 0 ''rt2'' ''apple'' (Some ''dev'') None demo_registered = (Inr t, demo_apple_in)
     \<and> it_device t = ''dev'' \<and> live_token demo_auth (it_refresh t) demo_apple_in (it_user t) ''dev''"
proof -
  obtain t1 where t1: "sign_in_with_apple demo_auth 0 ''rt2'' ''apple'' (Some ''dev'') None demo_registered
      = (Inr t1, demo_apple_in)" using demo_sign_in by blast
  from apple_account_spec[OF t1] t1 show ?thesis by auto
qed

end
