(* ===== verification/Base64.thy ===== *)
theory Base64
  imports Prelude
begin

text \<open>
  The Base64 codecs of Python's standard library as the code calls them: encoding with padding, the
  lenient decoder of \<^verbatim>\<open>binascii.a2b_base64\<close>, which skips characters outside the alphabet and stops at
  a complete padding, the strict decoder (\<^verbatim>\<open>validate=True\<close>), and the URL-safe variants with the
  padding removed that \<^verbatim>\<open>app/website/signed_url.py\<close> uses. Decoding what was encoded is shown to give
  the bytes back.
\<close>

section \<open>Encoding\<close>

definition b64_alphabet :: string where
  "b64_alphabet = ''ABCDEFGHIJKLMNOPQRSTUVWXYZabcdefghijklmnopqrstuvwxyz0123456789+/''"

definition b64_char :: "nat \<Rightarrow> char" where
  "b64_char n = b64_alphabet ! n"

fun b64_encode :: "8 word list \<Rightarrow> string" where
  "b64_encode [] = []"
| "b64_encode [a] = [b64_char (unat a div 4), b64_char (unat a mod 4 * 16), CHR ''='', CHR ''='']"
| "b64_encode [a, b] = [b64_char (unat a div 4), b64_char (unat a mod 4 * 16 + unat b div 16),
     b64_char (unat b mod 16 * 4), CHR ''='']"
| "b64_encode (a # b # c # bs) =
     [b64_char (unat a div 4), b64_char (unat a mod 4 * 16 + unat b div 16),
      b64_char (unat b mod 16 * 4 + unat c div 64), b64_char (unat c mod 64)] @ b64_encode bs"

section \<open>Decoding\<close>

definition b64_val :: "char \<Rightarrow> nat option" where
  "b64_val c = (let n = (of_char c :: nat) in
     if 65 \<le> n \<and> n \<le> 90 then Some (n - 65)
     else if 97 \<le> n \<and> n \<le> 122 then Some (n - 71)
     else if 48 \<le> n \<and> n \<le> 57 then Some (n + 4)
     else if n = 43 then Some 62
     else if n = 47 then Some 63
     else None)"

text \<open>The position in the quad, the bits left over and the padding characters seen are the state of the
  lenient decoder.\<close>

fun a2b :: "nat \<Rightarrow> nat \<Rightarrow> nat \<Rightarrow> string \<Rightarrow> 8 word list option" where
  "a2b q left pads [] = (if q = 0 then Some [] else None)"
| "a2b q left pads (c # cs) =
     (if c = CHR ''='' then
        (if 2 \<le> q \<and> 4 \<le> q + (pads + 1) then Some []
         else a2b q left (if 2 \<le> q then pads + 1 else pads) cs)
      else (case b64_val c of
          None \<Rightarrow> a2b q left pads cs
        | Some v \<Rightarrow>
            if q = 0 then a2b 1 v 0 cs
            else if q = 1 then map_option (Cons (of_nat (left * 4 + v div 16))) (a2b 2 (v mod 16) 0 cs)
            else if q = 2 then map_option (Cons (of_nat (left * 16 + v div 4))) (a2b 3 (v mod 4) 0 cs)
            else map_option (Cons (of_nat (left * 64 + v))) (a2b 0 0 0 cs)))"

definition b64_decode :: "string \<Rightarrow> 8 word list option" where
  "b64_decode s = a2b 0 0 0 s"

text \<open>\<^verbatim>\<open>b64decode(s, validate=True)\<close> of Python 3.12: whole quads of the alphabet. Padding that completes a quad
  ends the text; after a complete quad any number of padding characters is read over, but nothing else may
  follow them; a text may not start with padding.\<close>

fun b64_quads :: "string \<Rightarrow> 8 word list option" where
  "b64_quads (c1 # c2 # c3 # c4 # cs) =
     (if c1 = CHR ''='' then (if list_all (\<lambda>c. c = CHR ''='') (c2 # c3 # c4 # cs) then Some [] else None)
      else case (b64_val c1, b64_val c2, b64_val c3, b64_val c4) of
        (Some u, Some v, Some w, Some x) \<Rightarrow>
          map_option (\<lambda>bs. of_nat (u * 4 + v div 16) # of_nat (v mod 16 * 16 + w div 4)
            # of_nat (w mod 4 * 64 + x) # bs) (b64_quads cs)
      | (Some u, Some v, Some w, None) \<Rightarrow>
          if c4 = CHR ''='' \<and> cs = []
          then Some [of_nat (u * 4 + v div 16), of_nat (v mod 16 * 16 + w div 4)] else None
      | (Some u, Some v, None, _) \<Rightarrow>
          if c3 = CHR ''='' \<and> c4 = CHR ''='' \<and> cs = [] then Some [of_nat (u * 4 + v div 16)] else None
      | _ \<Rightarrow> None)"
| "b64_quads cs = (if list_all (\<lambda>c. c = CHR ''='') cs then Some [] else None)"

definition b64_decode_strict :: "string \<Rightarrow> 8 word list option" where
  "b64_decode_strict s = (if starts_with ''='' s then None else b64_quads s)"

section \<open>URL-safe, without padding\<close>

definition url_char :: "char \<Rightarrow> char" where
  "url_char c = (if c = CHR ''+'' then CHR ''-'' else if c = CHR ''/'' then CHR ''_'' else c)"

definition std_char :: "char \<Rightarrow> char" where
  "std_char c = (if c = CHR ''-'' then CHR ''+'' else if c = CHR ''_'' then CHR ''/'' else c)"

definition strip_pad :: "string \<Rightarrow> string" where
  "strip_pad s = rev (dropWhile (\<lambda>c. c = CHR ''='') (rev s))"

definition b64url_encode :: "8 word list \<Rightarrow> string" where
  "b64url_encode bs = strip_pad (map url_char (b64_encode bs))"

definition pad_len :: "nat \<Rightarrow> nat" where
  "pad_len n = nat ((- int n) mod 4)"

text \<open>A character outside ASCII is rejected before the decoder runs.\<close>

definition b64url_decode :: "string \<Rightarrow> 8 word list option" where
  "b64url_decode s = (if list_all (\<lambda>c. (of_char c :: nat) < 128) s
     then b64_decode (map std_char (s @ replicate (pad_len (length s)) CHR ''='')) else None)"

section \<open>Round trips\<close>

lemma b64_vals: "map b64_val b64_alphabet = map Some [0..<64]"
  by code_simp

lemma b64_chars:
  "list_all (\<lambda>c. c \<noteq> CHR ''='' \<and> std_char (url_char c) = c \<and> url_char c \<noteq> CHR ''=''
     \<and> url_char c \<noteq> CHR ''.'' \<and> (of_char (url_char c) :: nat) < 128) b64_alphabet"
  by code_simp

lemma b64_length: "length b64_alphabet = 64"
  by (simp add: b64_alphabet_def)

lemma b64_char_props [simp]:
  assumes "n < 64"
  shows "b64_val (b64_char n) = Some n" "b64_char n \<noteq> CHR ''=''"
    "std_char (url_char (b64_char n)) = b64_char n" "url_char (b64_char n) \<noteq> CHR ''=''"
    "url_char (b64_char n) \<noteq> CHR ''.''" "(of_char (url_char (b64_char n)) :: nat) < 128"
proof -
  have "map b64_val b64_alphabet ! n = map Some [0..<64] ! n" by (simp only: b64_vals)
  then show "b64_val (b64_char n) = Some n"
    using assms by (simp add: b64_char_def b64_length del: upt_rec_numeral)
  have "b64_alphabet ! n \<in> set b64_alphabet" using assms b64_length by simp
  then show "b64_char n \<noteq> CHR ''=''"
    "std_char (url_char (b64_char n)) = b64_char n" "url_char (b64_char n) \<noteq> CHR ''=''"
    "url_char (b64_char n) \<noteq> CHR ''.''" "(of_char (url_char (b64_char n)) :: nat) < 128"
    using b64_chars unfolding b64_char_def list_all_iff by blast+
qed

lemma byte_bounds:
  "unat (a :: 8 word) div 4 < 64" "unat (a :: 8 word) mod 4 * 16 + unat (b :: 8 word) div 16 < 64"
  "unat (a :: 8 word) mod 4 * 16 < 64" "unat (a :: 8 word) mod 16 * 4 < 64"
  "unat (a :: 8 word) mod 16 * 4 + unat (b :: 8 word) div 64 < 64" "unat (a :: 8 word) mod 64 < 64"
  using unsigned_less[of a, where ?'a = nat] unsigned_less[of b, where ?'a = nat] by simp_all

lemma join_bits:
  fixes a b c :: nat
  assumes "a < 256" "b < 256"
  shows "a div 4 * 4 + (a mod 4 * 16 + b div 16) div 16 = a"
    "a div 4 * 4 + (a mod 4 * 16) div 16 = a"
    "(c mod 4 * 16 + a div 16) mod 16 * 16 + (a mod 16 * 4 + b div 64) div 4 = a"
    "(c mod 4 * 16 + a div 16) mod 16 * 16 + (a mod 16 * 4) div 4 = a"
    "(c mod 16 * 4 + a div 64) mod 4 * 64 + a mod 64 = a"
proof -
  have r: "a div 16 < 16" "b div 16 < 16" "a div 64 < 4" "b div 64 < 4" using assms by auto
  have "(a mod 4 * 16 + b div 16) div 16 = a mod 4" using r(2) by (subst div_mult_self3) auto
  then show "a div 4 * 4 + (a mod 4 * 16 + b div 16) div 16 = a" by simp
  show "a div 4 * 4 + (a mod 4 * 16) div 16 = a" by simp
  have m: "(c mod 4 * 16 + a div 16) mod 16 = a div 16" using r(1) by (subst mod_mult_self3) auto
  have "(a mod 16 * 4 + b div 64) div 4 = a mod 16" using r(4) by (subst div_mult_self3) auto
  with m show "(c mod 4 * 16 + a div 16) mod 16 * 16 + (a mod 16 * 4 + b div 64) div 4 = a" by simp
  from m show "(c mod 4 * 16 + a div 16) mod 16 * 16 + (a mod 16 * 4) div 4 = a" by simp
  have "(c mod 16 * 4 + a div 64) mod 4 = a div 64" using r(3) by (subst mod_mult_self3) auto
  then show "(c mod 16 * 4 + a div 64) mod 4 * 64 + a mod 64 = a" by simp
qed

lemma byte_join:
  "(of_nat (unat a div 4 * 4 + (unat a mod 4 * 16 + unat b div 16) div 16) :: 8 word) = a"
  "(of_nat (unat a div 4 * 4 + (unat a mod 4 * 16) div 16) :: 8 word) = a"
  "(of_nat ((unat c mod 4 * 16 + unat a div 16) mod 16 * 16 + (unat a mod 16 * 4 + unat b div 64) div 4) :: 8 word) = a"
  "(of_nat ((unat c mod 4 * 16 + unat a div 16) mod 16 * 16 + (unat a mod 16 * 4) div 4) :: 8 word) = a"
  "(of_nat ((unat c mod 16 * 4 + unat a div 64) mod 4 * 64 + unat a mod 64) :: 8 word) = a"
  for a b c :: "8 word"
  using unsigned_less[of a, where ?'a = nat] unsigned_less[of b, where ?'a = nat]
    unsigned_less[of c, where ?'a = nat]
  by (simp_all add: join_bits)

lemma byte_parts:
  "unat b div 16 div 16 = 0" "unat b div 16 mod 16 = unat b div 16"
  "unat b div 64 div 4 = 0" "unat b div 64 mod 4 = unat b div 64"
  "(of_nat (unat b div 16) * 16 + of_nat (unat b mod 16) :: 8 word) = b"
  "(of_nat (unat b div 64) * 64 + of_nat (unat b mod 64) :: 8 word) = b"
  for b :: "8 word"
proof -
  have b: "unat b < 256" using unsigned_less[of b, where ?'a = nat] by simp
  have "unat b div 16 < 16" "unat b div 64 < 4" using b by auto
  then show "unat b div 16 div 16 = 0" "unat b div 16 mod 16 = unat b div 16"
    "unat b div 64 div 4 = 0" "unat b div 64 mod 4 = unat b div 64" by auto
  have "(of_nat (unat b div k * k + unat b mod k) :: 8 word) = b" for k by simp
  from this[of 16] this[of 64]
  show "(of_nat (unat b div 16) * 16 + of_nat (unat b mod 16) :: 8 word) = b"
    "(of_nat (unat b div 64) * 64 + of_nat (unat b mod 64) :: 8 word) = b"
    unfolding of_nat_add of_nat_mult by simp_all
qed

lemma b64_decode_encode: "b64_decode (b64_encode bs) = Some bs"
  unfolding b64_decode_def
  by (induction bs rule: b64_encode.induct) (simp_all add: byte_bounds byte_join byte_parts)

lemma b64_quads_encode: "b64_quads (b64_encode bs) = Some bs"
proof (induction bs rule: b64_encode.induct)
  case (2 a)
  have "b64_val CHR ''='' = None" by code_simp
  then show ?case by (simp add: byte_bounds byte_join byte_parts)
next
  case (3 a b)
  have "b64_val CHR ''='' = None" by code_simp
  then show ?case by (simp add: byte_bounds byte_join byte_parts)
qed (simp_all add: byte_bounds byte_join byte_parts)

lemma b64_strict_encode: "b64_decode_strict (b64_encode bs) = Some bs"
proof -
  have "\<not> starts_with ''='' (b64_encode bs)"
    by (cases bs rule: b64_encode.cases) (simp_all add: byte_bounds b64_char_props(2)[THEN not_sym] b64_char_props(2))
  then show ?thesis by (simp add: b64_decode_strict_def b64_quads_encode)
qed

text \<open>Stripping the padding and adding it again by the length is the identity on encoded text.\<close>

lemma strip_pad_app:
  assumes "xs \<noteq> []" "last xs \<noteq> CHR ''=''"
  shows "strip_pad (xs @ replicate n CHR ''='') = xs"
proof -
  have "dropWhile (\<lambda>c. c = CHR ''='') (rev xs) = rev xs"
    using assms by (cases xs rule: rev_cases) auto
  moreover have "dropWhile (\<lambda>c. c = CHR ''='') (replicate n CHR ''='' @ ys) = dropWhile (\<lambda>c. c = CHR ''='') ys"
    for ys by (induction n) auto
  ultimately show ?thesis by (simp add: strip_pad_def)
qed

lemma encode_split:
  "\<exists>xs n. map url_char (b64_encode bs) = xs @ replicate n CHR ''='' \<and> n = pad_len (length xs)
     \<and> (xs = [] \<or> last xs \<noteq> CHR ''='') \<and> (xs = [] \<longrightarrow> n = 0)
     \<and> CHR ''.'' \<notin> set xs \<and> list_all (\<lambda>c. (of_char c :: nat) < 128) xs
     \<and> map std_char (xs @ replicate n CHR ''='') = b64_encode bs"
proof (induction bs rule: b64_encode.induct)
  case 1
  show ?case by (rule exI[of _ "[]"], rule exI[of _ 0]) (simp add: pad_len_def)
next
  case (2 a)
  have "pad_len 2 = 2" "url_char CHR ''='' = CHR ''=''" "std_char CHR ''='' = CHR ''=''"
    by (simp_all add: pad_len_def url_char_def std_char_def)
  then show ?case
    by (intro exI[of _ "[url_char (b64_char (unat a div 4)), url_char (b64_char (unat a mod 4 * 16))]"] exI[of _ 2])
      (simp add: byte_bounds numeral_2_eq_2 b64_char_props(5)[THEN not_sym])
next
  case (3 a b)
  have "pad_len 3 = 1" "url_char CHR ''='' = CHR ''=''" "std_char CHR ''='' = CHR ''=''"
    by (simp_all add: pad_len_def url_char_def std_char_def)
  then show ?case
    by (intro exI[of _ "[url_char (b64_char (unat a div 4)),
          url_char (b64_char (unat a mod 4 * 16 + unat b div 16)), url_char (b64_char (unat b mod 16 * 4))]"]
        exI[of _ 1]) (simp add: byte_bounds numeral_3_eq_3 b64_char_props(5)[THEN not_sym])
next
  case (4 a b c bs)
  then obtain xs n where IH: "map url_char (b64_encode bs) = xs @ replicate n CHR ''=''" "n = pad_len (length xs)"
    "xs = [] \<or> last xs \<noteq> CHR ''=''" "xs = [] \<longrightarrow> n = 0" "CHR ''.'' \<notin> set xs"
    "list_all (\<lambda>c. (of_char c :: nat) < 128) xs" "map std_char (xs @ replicate n CHR ''='') = b64_encode bs"
    by blast
  let ?q = "map url_char [b64_char (unat a div 4), b64_char (unat a mod 4 * 16 + unat b div 16),
      b64_char (unat b mod 16 * 4 + unat c div 64), b64_char (unat c mod 64)]"
  have "(- 4 - k) mod 4 = (- k) mod (4 :: int)" for k by presburger
  then have "pad_len (length (?q @ xs)) = pad_len (length xs)" by (simp add: pad_len_def)
  with IH show ?case
    by (intro exI[of _ "?q @ xs"] exI[of _ n]) (auto simp: byte_bounds b64_char_props(5)[THEN not_sym] simp del: length_append)
qed

lemma b64url_decode_encode: "b64url_decode (b64url_encode bs) = Some bs"
  and b64url_no_dot: "CHR ''.'' \<notin> set (b64url_encode bs)"
proof -
  obtain xs n where x: "map url_char (b64_encode bs) = xs @ replicate n CHR ''=''" "n = pad_len (length xs)"
    "xs = [] \<or> last xs \<noteq> CHR ''=''" "xs = [] \<longrightarrow> n = 0" "CHR ''.'' \<notin> set xs"
    "list_all (\<lambda>c. (of_char c :: nat) < 128) xs" "map std_char (xs @ replicate n CHR ''='') = b64_encode bs"
    using encode_split by blast
  have "strip_pad (xs @ replicate n CHR ''='') = xs"
  proof (cases "xs = []")
    case True
    then show ?thesis using x(4) by (simp add: strip_pad_def)
  next
    case False
    then show ?thesis using x(3) by (intro strip_pad_app) auto
  qed
  then have e: "b64url_encode bs = xs" by (simp add: b64url_encode_def x(1))
  then show "CHR ''.'' \<notin> set (b64url_encode bs)" using x(5) by simp
  show "b64url_decode (b64url_encode bs) = Some bs"
    using x(6,7) e by (simp add: b64url_decode_def x(2)[symmetric] b64_decode_encode)
qed

end
