(* ===== verification/Sites.thy ===== *)
theory Sites
  imports Base64 Store Config
begin

text \<open>
  Website projects: the path guard (\<^verbatim>\<open>app/website/paths.py\<close>), the signed preview links
  (\<^verbatim>\<open>signed_url.py\<close>), the file store with its limits (\<^verbatim>\<open>service.py\<close>) and the public preview
  endpoint (\<^verbatim>\<open>app/api_gateway/routers/preview.py\<close>). HMAC-SHA256 and the order the database sorts
  paths by are parameters.
\<close>

section \<open>Paths\<close>

definition normalize_site_path :: "string \<Rightarrow> string option" where
  "normalize_site_path raw =
    (if raw = [] \<or> CHR 0x00 \<in> set raw \<or> CHR 0x5C \<in> set raw \<or> starts_with ''/'' raw then None
     else (let parts = split_on CHR ''/'' raw in
       if ''..'' \<in> set parts then None
       else (let segments = filter (\<lambda>s. s \<noteq> [] \<and> s \<noteq> ''.'') parts in
         if segments = [] then None else Some (join_with ''/'' segments))))"

text \<open>Canonical relative paths: non-empty segments, none of them a directory reference, no separator of
  another system and no NUL.\<close>

definition safe_path :: "string \<Rightarrow> bool" where
  "safe_path p \<longleftrightarrow> CHR 0x00 \<notin> set p \<and> CHR 0x5C \<notin> set p
     \<and> list_all (\<lambda>s. s \<noteq> [] \<and> s \<noteq> ''.'' \<and> s \<noteq> ''..'') (split_on CHR ''/'' p)"

lemma set_join: "set (join_with sep ps) \<subseteq> set sep \<union> \<Union> (set ` set ps)"
  by (induction sep ps rule: join_with.induct) auto

lemma set_split: "p \<in> set (split_on d s) \<Longrightarrow> set p \<subseteq> set s"
proof (induction s arbitrary: p)
  case (Cons c cs)
  obtain q qs where "split_on d cs = q # qs" by (cases "split_on d cs") auto
  with Cons show ?case by (fastforce split: if_splits)
qed simp

lemma normalize_safe:
  assumes "normalize_site_path raw = Some p"
  shows "safe_path p"
proof -
  let ?parts = "split_on CHR ''/'' raw"
  define segs where "segs = filter (\<lambda>s. s \<noteq> [] \<and> s \<noteq> ''.'') ?parts"
  have raw: "CHR 0x00 \<notin> set raw" "CHR 0x5C \<notin> set raw" "''..'' \<notin> set ?parts" "segs \<noteq> []"
    "p = join_with ''/'' segs"
    using assms by (auto simp: normalize_site_path_def Let_def segs_def split: if_splits)
  have "set p \<subseteq> insert CHR ''/'' (set raw)"
    unfolding raw(5) using set_join[of "''/''" segs] set_split[of _ "CHR ''/''" raw]
    by (fastforce simp: segs_def)
  then have "CHR 0x00 \<notin> set p" "CHR 0x5C \<notin> set p" using raw(1,2) by auto
  moreover have "split_on CHR ''/'' p = segs"
    unfolding raw(5) using raw(4) split_on_no_sep[of _ "CHR ''/''" raw] by (intro split_join) (auto simp: segs_def)
  ultimately show ?thesis using raw(3) by (auto simp: safe_path_def segs_def list_all_iff)
qed

lemma normalize_canonical:
  assumes "safe_path p"
  shows "normalize_site_path p = Some p"
proof -
  let ?parts = "split_on CHR ''/'' p"
  have s: "list_all (\<lambda>s. s \<noteq> [] \<and> s \<noteq> ''.'' \<and> s \<noteq> ''..'') ?parts" "CHR 0x00 \<notin> set p" "CHR 0x5C \<notin> set p"
    using assms by (simp_all add: safe_path_def)
  have "p \<noteq> []" using s(1) by auto
  moreover have "\<not> starts_with ''/'' p"
  proof
    assume "starts_with ''/'' p"
    then obtain t where "p = CHR ''/'' # t" by (auto simp: starts_with_iff)
    with s(1) show False by simp
  qed
  moreover have "filter (\<lambda>s. s \<noteq> [] \<and> s \<noteq> ''.'') ?parts = ?parts" "''..'' \<notin> set ?parts"
    using s(1) by (auto simp: list_all_iff intro: filter_True)
  ultimately show ?thesis using s(2,3) by (simp add: normalize_site_path_def Let_def)
qed

lemma normalize_idem: "normalize_site_path raw = Some p \<Longrightarrow> normalize_site_path p = Some p"
  by (rule normalize_canonical[OF normalize_safe])

section \<open>Decimal numbers\<close>

text \<open>\<^verbatim>\<open>int(s)\<close>: surrounding white space, a sign and single underscores between digits are allowed, more than
  4300 digits are not.\<close>

definition dec_val :: "char \<Rightarrow> nat option" where
  "dec_val c = (let n = (of_char c :: nat) in if 48 \<le> n \<and> n \<le> 57 then Some (n - 48) else None)"

fun dec_number :: "bool \<Rightarrow> nat \<Rightarrow> string \<Rightarrow> nat option" where
  "dec_number after_digit acc [] = (if after_digit then Some acc else None)"
| "dec_number after_digit acc (c # cs) =
     (if c = CHR ''_'' then (if after_digit then dec_number False acc cs else None)
      else (case dec_val c of None \<Rightarrow> None | Some d \<Rightarrow> dec_number True (10 * acc + d) cs))"

definition py_int :: "string \<Rightarrow> int option" where
  "py_int s = (let t = py_strip s;
     (neg, u) = (case t of c # cs \<Rightarrow> if c = CHR ''-'' then (True, cs)
         else if c = CHR ''+'' then (False, cs) else (False, t) | [] \<Rightarrow> (False, t)) in
     if 4300 < length (filter (\<lambda>c. dec_val c \<noteq> None) u) then None
     else map_option (\<lambda>n. if neg then - int n else int n) (dec_number False 0 u))"

lemma dec_char: "n < 10 \<Longrightarrow> dec_val (char_of (48 + n)) = Some n \<and> char_of (48 + n) \<noteq> CHR ''_''
    \<and> \<not> is_space (char_of (48 + n)) \<and> char_of (48 + n) \<noteq> CHR ''-'' \<and> char_of (48 + n) \<noteq> CHR ''+''
    \<and> (of_char (char_of (48 + n)) :: nat) < 128"
proof -
  assume n: "n < 10"
  have "\<forall>n \<in> set [0..<10]. dec_val (char_of (48 + n :: nat)) = Some n \<and> char_of (48 + n) \<noteq> CHR ''_''
    \<and> \<not> is_space (char_of (48 + n)) \<and> char_of (48 + n) \<noteq> CHR ''-'' \<and> char_of (48 + n) \<noteq> CHR ''+''
    \<and> (of_char (char_of (48 + n)) :: nat) < 128" by code_simp
  moreover have "n \<in> set [0..<10]" unfolding set_upt using n by simp
  ultimately show ?thesis by blast
qed

lemma dec_number_app:
  "dec_number b acc s = Some n \<Longrightarrow> dec_number b acc (s @ t) = dec_number True n t"
  by (induction b acc s rule: dec_number.induct) (auto split: option.splits if_splits)

lemma str_nat_digits:
  "dec_number False 0 (str_nat n) = Some n \<and> str_nat n \<noteq> []
   \<and> list_all (\<lambda>c. dec_val c \<noteq> None \<and> \<not> is_space c \<and> c \<noteq> CHR ''-'' \<and> c \<noteq> CHR ''+'' \<and> (of_char c :: nat) < 128) (str_nat n)"
proof (induction n rule: str_nat.induct)
  case (1 n)
  show ?case
  proof (cases "n < 10")
    case True
    then show ?thesis using dec_char[OF True] by (simp add: str_nat.simps[of n])
  next
    case False
    let ?d = "n mod 10"
    have d: "?d < 10" by simp
    note IH = 1[OF False]
    have "dec_number False 0 (str_nat (n div 10) @ [char_of (48 + ?d)]) = Some n"
      using IH dec_char[OF d] dec_number_app[of False 0 "str_nat (n div 10)" "n div 10" "[char_of (48 + ?d)]"] by simp
    then show ?thesis using False IH dec_char[OF d] by (simp add: str_nat.simps[of n])
  qed
qed

lemma str_nat_length: "n < 10 ^ Suc k \<Longrightarrow> length (str_nat n) \<le> Suc k"
proof (induction k arbitrary: n)
  case 0
  then show ?case by (simp add: str_nat.simps[of n])
next
  case (Suc k)
  show ?case
  proof (cases "n < 10")
    case False
    have "n div 10 < 10 ^ Suc k" using Suc.prems by (simp add: less_mult_imp_div_less)
    from Suc.IH[OF this] False show ?thesis by (simp add: str_nat.simps[of n])
  qed (simp add: str_nat.simps[of n])
qed

lemma strip_no_space: "list_all (\<lambda>c. \<not> is_space c) s \<Longrightarrow> py_strip s = s"
proof -
  assume "list_all (\<lambda>c. \<not> is_space c) s"
  then have "dropWhile is_space s = s" "dropWhile is_space (rev s) = rev s"
    using dropWhile_none[of s is_space] dropWhile_none[of "rev s" is_space] by (auto simp: list_all_iff)
  then show ?thesis by (simp add: py_strip_def py_lstrip_def py_rstrip_def)
qed

lemma py_int_str:
  assumes "0 \<le> i" "i < 10 ^ 4300"
  shows "py_int (str_int i) = Some i"
proof -
  let ?s = "str_nat (nat i)"
  have d: "dec_number False 0 ?s = Some (nat i)" "?s \<noteq> []"
    "list_all (\<lambda>c. dec_val c \<noteq> None \<and> \<not> is_space c \<and> c \<noteq> CHR ''-'' \<and> c \<noteq> CHR ''+'' \<and> (of_char c :: nat) < 128) ?s"
    using str_nat_digits by blast+
  have "nat i < 10 ^ Suc 4299" using assms by (simp add: nat_less_iff del: power_numeral)
  from str_nat_length[OF this] have len: "length ?s \<le> 4300" by simp
  have "py_strip ?s = ?s" using d(3) by (intro strip_no_space) (auto simp: list_all_iff)
  moreover obtain c cs where c: "?s = c # cs" using d(2) by (cases ?s) auto
  moreover have "c \<noteq> CHR ''-''" "c \<noteq> CHR ''+''" using d(3) c by auto
  moreover have "length (filter (\<lambda>c. dec_val c \<noteq> None) ?s) \<le> 4300"
    using len length_filter_le[of "\<lambda>c. dec_val c \<noteq> None" ?s] by linarith
  ultimately show ?thesis using assms(1) d(1) by (simp add: py_int_def str_int_def)
qed

section \<open>Signed preview links\<close>

record site_env =
  sv_cfg :: settings
  sv_hmac :: "string \<Rightarrow> string \<Rightarrow> bytes"
    \<comment> \<open>HMAC-SHA256 of a message under a secret\<close>
  sv_path_le :: "string \<Rightarrow> string \<Rightarrow> bool"
    \<comment> \<open>the collation of \<^verbatim>\<open>ORDER BY path\<close>\<close>

record signed_preview =
  sp_token :: string
  sp_expires :: int

definition site_secret :: "site_env \<Rightarrow> string option" where
  "site_secret env = (let secret = preview_url_secret (sv_cfg env) in if secret = [] then None else Some secret)"

definition canonical :: "uuid \<Rightarrow> uuid \<Rightarrow> int \<Rightarrow> string" where
  "canonical pid owner exp = str_uuid pid @ ''|'' @ str_uuid owner @ ''|'' @ str_int exp"

text \<open>\<^verbatim>\<open>None\<close> where \<^verbatim>\<open>PreviewSecretMissingError\<close> is raised.\<close>

definition sign :: "site_env \<Rightarrow> uuid \<Rightarrow> uuid \<Rightarrow> int \<Rightarrow> bytes option" where
  "sign env pid owner exp = map_option (\<lambda>s. sv_hmac env s (canonical pid owner exp)) (site_secret env)"

definition ascii_encode :: "string \<Rightarrow> bytes" where
  "ascii_encode s = map of_char s"

definition ascii_decode :: "bytes \<Rightarrow> string option" where
  "ascii_decode bs = (if list_all (\<lambda>b. unat b < 128) bs then Some (map (\<lambda>b. char_of (unat b)) bs) else None)"

definition build_token :: "site_env \<Rightarrow> int \<Rightarrow> uuid \<Rightarrow> uuid \<Rightarrow> signed_preview option" where
  "build_token env now pid owner =
    (let exp = now + preview_url_ttl_seconds (sv_cfg env) in
     case sign env pid owner exp of
       None \<Rightarrow> None
     | Some mac \<Rightarrow> Some \<lparr>sp_token = b64url_encode (ascii_encode (str_int exp)) @ ''.'' @ b64url_encode mac,
         sp_expires = exp\<rparr>)"

text \<open>The answer, or \<^verbatim>\<open>None\<close> where the missing secret is raised; a malformed token is answered before
  the secret is needed.\<close>

definition verify_token :: "site_env \<Rightarrow> int \<Rightarrow> uuid \<Rightarrow> uuid \<Rightarrow> string \<Rightarrow> bool option" where
  "verify_token env now pid owner token =
    (case split_on CHR ''.'' token of
       [exp_part, mac_part] \<Rightarrow>
         (case (case b64url_decode exp_part of None \<Rightarrow> None
                | Some bs \<Rightarrow> (case ascii_decode bs of None \<Rightarrow> None | Some s \<Rightarrow> py_int s)) of
            None \<Rightarrow> Some False
          | Some exp \<Rightarrow>
              (case b64url_decode mac_part of
                 None \<Rightarrow> Some False
               | Some presented \<Rightarrow>
                   (case sign env pid owner exp of
                      None \<Rightarrow> None
                    | Some expected \<Rightarrow> Some (presented = expected \<and> now \<le> exp))))
     | _ \<Rightarrow> Some False)"

lemma ascii_decode_encode:
  "list_all (\<lambda>c. (of_char c :: nat) < 128) s \<Longrightarrow> ascii_decode (ascii_encode s) = Some s"
proof -
  assume s: "list_all (\<lambda>c. (of_char c :: nat) < 128) s"
  have c: "unat (of_char c :: 8 word) = of_char c" for c
  proof -
    have "unat (of_nat (of_char c) :: 8 word) = of_char c"
      using nat_of_char_less_256[of c] by (simp only: unat_of_nat) simp
    then show ?thesis by (simp only: of_nat_of_char)
  qed
  have "map (\<lambda>b. char_of (unat b)) (map of_char s :: 8 word list) = s"
    by (simp add: comp_def c)
  moreover have "list_all (\<lambda>b. unat b < 128) (map of_char s :: 8 word list)"
    using s by (simp add: list.pred_map comp_def c)
  ultimately show ?thesis by (simp only: ascii_decode_def ascii_encode_def if_True)
qed

lemma str_uuid_length: "length (str_uuid u) = 36"
  by (simp add: str_uuid_def Let_def)

lemma canonical_inj: "canonical p o1 e = canonical q o2 e \<Longrightarrow> p = q \<and> o1 = o2"
  using str_uuid_length by (auto simp: canonical_def append_eq_append_conv)

lemma built_token_verify:
  assumes "build_token env issued pid owner = Some sp" "0 \<le> sp_expires sp" "sp_expires sp < 10 ^ 4300"
  shows "verify_token env now p' o' (sp_token sp) = (case sign env p' o' (sp_expires sp) of
      None \<Rightarrow> None
    | Some expected \<Rightarrow> Some (sign env pid owner (sp_expires sp) = Some expected \<and> now \<le> sp_expires sp))"
proof -
  let ?e = "sp_expires sp"
  obtain mac where mac: "sign env pid owner ?e = Some mac"
    and tok: "sp_token sp = b64url_encode (ascii_encode (str_int ?e)) @ ''.'' @ b64url_encode mac"
    using assms(1) by (auto simp: build_token_def Let_def split: option.splits)
  have "split_on CHR ''.'' (sp_token sp) = [b64url_encode (ascii_encode (str_int ?e)), b64url_encode mac]"
    unfolding tok using b64url_no_dot by (simp add: split_on_append split_on_single)
  moreover have "list_all (\<lambda>c. (of_char c :: nat) < 128) (str_int ?e)"
    using assms(2) str_nat_digits[of "nat ?e"] by (auto simp: str_int_def list_all_iff)
  ultimately show ?thesis
    using py_int_str[OF assms(2,3)]
    by (simp add: verify_token_def b64url_decode_encode ascii_decode_encode mac split: option.splits)
qed

text \<open>
  C24: a preview link opens exactly what it was issued for. A link built for a project and its owner,
  presented for any project and owner, is accepted until its expiry, the last second included, if
  and only if the HMAC of the two identifier pairs with that expiry agree; the messages themselves
  agree for no other project or owner, so a link that opens something else is an HMAC collision of
  two known messages. (Expiries of at most 4300 digits, which is what \<^verbatim>\<open>int\<close> reads back.)
\<close>

theorem preview_token_exact:
  assumes "build_token env issued pid owner = Some sp" "0 \<le> sp_expires sp" "sp_expires sp < 10 ^ 4300"
  shows "verify_token env now p' o' (sp_token sp) =
      Some (sv_hmac env (preview_url_secret (sv_cfg env)) (canonical p' o' (issued + preview_url_ttl_seconds (sv_cfg env)))
          = sv_hmac env (preview_url_secret (sv_cfg env)) (canonical pid owner (issued + preview_url_ttl_seconds (sv_cfg env)))
        \<and> now \<le> issued + preview_url_ttl_seconds (sv_cfg env))
    \<and> (canonical p' o' (issued + preview_url_ttl_seconds (sv_cfg env))
        = canonical pid owner (issued + preview_url_ttl_seconds (sv_cfg env)) \<longleftrightarrow> p' = pid \<and> o' = owner)"
proof -
  have e: "sp_expires sp = issued + preview_url_ttl_seconds (sv_cfg env)" and s: "site_secret env \<noteq> None"
    using assms(1) by (auto simp: build_token_def Let_def sign_def split: option.splits)
  from s have "site_secret env = Some (preview_url_secret (sv_cfg env))"
    by (simp add: site_secret_def Let_def split: if_splits)
  then show ?thesis using built_token_verify[OF assms, of now p' o'] canonical_inj
    by (auto simp: sign_def e)
qed

section \<open>The file store\<close>

datatype site_code = InvalidPath | InvalidContentType | FileTooLarge | ProjectTooLarge | TooManyFiles
  | ProjectUnresolved

text \<open>A \<^verbatim>\<open>SiteFileError\<close>, which the tool handlers turn into a tool error without rolling back, or any other
  exception.\<close>

datatype site_exc = SiteErr site_code | SiteRaise app_error

type_synonym 'a site_act = "(site_exc, db, 'a) act"

definition PREVIEW_CONTENT_TYPE_ALLOWLIST :: "string list" where
  "PREVIEW_CONTENT_TYPE_ALLOWLIST = [''text/html'', ''text/css'', ''text/javascript'', ''application/json'',
     ''image/png'', ''image/jpeg'', ''image/svg+xml'', ''image/gif'', ''image/webp'', ''font/woff2'',
     ''text/plain'']"

record write_result =
  wr_path :: string
  wr_bytes :: int
  wr_file_count :: int
  wr_project_bytes :: int

record file_content =
  fc_path :: string
  fc_content :: bytes
  fc_content_type :: string
  fc_size :: int

definition get_existing_project :: "uuid \<Rightarrow> string \<Rightarrow> db \<Rightarrow> project_row option" where
  "get_existing_project uid ext db = find (\<lambda>r. pr_user r = uid \<and> pr_external r = ext) (projects db)"

definition get_project_by_id :: "uuid \<Rightarrow> db \<Rightarrow> project_row option" where
  "get_project_by_id pid db = find (\<lambda>r. pr_id r = pid) (projects db)"

text \<open>\<^verbatim>\<open>INSERT ... ON CONFLICT (user_id, external_project_id) DO NOTHING\<close>, then the \<^verbatim>\<open>SELECT\<close>.\<close>

definition insert_project :: "uuid \<Rightarrow> string \<Rightarrow> unit site_act" where
  "insert_project uid ext = (\<lambda>db.
     if CHR 0x00 \<in> set ext then (Inl (SiteRaise DbError), db)
     else if get_existing_project uid ext db \<noteq> None then (Inr (), db)
     else if users db uid = None \<or> get_project_by_id (db_gen db (db_next db)) db \<noteq> None
     then (Inl (SiteRaise DbError), db)
     else (Inr (), db\<lparr>db_next := Suc (db_next db), projects := projects db @
       [\<lparr>pr_id = db_gen db (db_next db), pr_user = uid, pr_external = ext,
         pr_created = db_now db, pr_updated = db_now db\<rparr>]\<rparr>))"

definition resolve_project :: "uuid \<Rightarrow> string \<Rightarrow> project_row site_act" where
  "resolve_project uid ext =
     bind_act (insert_project uid ext) (\<lambda>_.
     bind_act get_st (\<lambda>db. case get_existing_project uid ext db of
        None \<Rightarrow> raise (SiteErr ProjectUnresolved)
      | Some r \<Rightarrow> ret r))"

definition project_files :: "uuid \<Rightarrow> db \<Rightarrow> site_file_row list" where
  "project_files pid db = filter (\<lambda>r. sf_project r = pid) (site_files db)"

definition project_stats :: "uuid \<Rightarrow> db \<Rightarrow> int \<times> int" where
  "project_stats pid db =
     (int (length (project_files pid db)), sum_list (map sf_size (project_files pid db)))"

definition find_file :: "uuid \<Rightarrow> string \<Rightarrow> db \<Rightarrow> site_file_row option" where
  "find_file pid p db = find (\<lambda>r. sf_project r = pid \<and> sf_path r = p) (site_files db)"

definition put_file :: "uuid \<Rightarrow> string \<Rightarrow> bytes \<Rightarrow> string \<Rightarrow> db \<Rightarrow> db" where
  "put_file pid p content ct db =
    (if find_file pid p db \<noteq> None
     then db\<lparr>site_files := map (\<lambda>r. if sf_project r = pid \<and> sf_path r = p
        then r\<lparr>sf_content := content, sf_content_type := ct, sf_size := int (length content),
               sf_updated := db_now db\<rparr> else r) (site_files db)\<rparr>
     else db\<lparr>site_files := site_files db @
       [\<lparr>sf_project = pid, sf_path = p, sf_content = content, sf_content_type = ct,
         sf_size = int (length content), sf_updated = db_now db\<rparr>]\<rparr>)"

definition write_file :: "site_env \<Rightarrow> uuid \<Rightarrow> string \<Rightarrow> bytes \<Rightarrow> string \<Rightarrow> write_result site_act" where
  "write_file env pid path content ct = (\<lambda>db.
    if ct \<notin> set PREVIEW_CONTENT_TYPE_ALLOWLIST then (Inl (SiteErr InvalidContentType), db)
    else case normalize_site_path path of
      None \<Rightarrow> (Inl (SiteErr InvalidPath), db)
    | Some p \<Rightarrow>
       (let size = int (length content) in
        if preview_max_file_bytes (sv_cfg env) < size then (Inl (SiteErr FileTooLarge), db)
        else
         (let existing = find_file pid p db;
              (count, total) = project_stats pid db;
              prior = (case existing of Some r \<Rightarrow> sf_size r | None \<Rightarrow> 0) in
          if preview_max_project_bytes (sv_cfg env) < total - prior + size
          then (Inl (SiteErr ProjectTooLarge), db)
          else if preview_max_files (sv_cfg env) < count + (if existing = None then 1 else 0)
          then (Inl (SiteErr TooManyFiles), db)
          else
           (let db' = put_file pid p content ct db; (count', total') = project_stats pid db' in
            (Inr \<lparr>wr_path = p, wr_bytes = size, wr_file_count = count', wr_project_bytes = total'\<rparr>, db')))))"

definition list_files :: "site_env \<Rightarrow> uuid \<Rightarrow> db \<Rightarrow> (string \<times> string \<times> int) list \<times> (int \<times> int)" where
  "list_files env pid db =
    (map (\<lambda>r. (sf_path r, sf_content_type r, sf_size r))
       (sort_by (\<lambda>r q. sv_path_le env (sf_path r) (sf_path q)) (project_files pid db)),
     project_stats pid db)"

definition read_file :: "uuid \<Rightarrow> string \<Rightarrow> db \<Rightarrow> file_content option" where
  "read_file pid path db = (case normalize_site_path path of
     None \<Rightarrow> None
   | Some p \<Rightarrow> map_option (\<lambda>r. \<lparr>fc_path = sf_path r, fc_content = sf_content r,
       fc_content_type = sf_content_type r, fc_size = sf_size r\<rparr>) (find_file pid p db))"

definition delete_file :: "uuid \<Rightarrow> string \<Rightarrow> (bool \<times> int \<times> int) site_act" where
  "delete_file pid path = (\<lambda>db. case normalize_site_path path of
     None \<Rightarrow> (Inl (SiteErr InvalidPath), db)
   | Some p \<Rightarrow>
       (if find_file pid p db = None then (Inr (False, project_stats pid db), db)
        else (let db' = db\<lparr>site_files :=
                filter (\<lambda>r. \<not> (sf_project r = pid \<and> sf_path r = p)) (site_files db)\<rparr> in
          (Inr (True, project_stats pid db'), db'))))"

section \<open>The preview endpoint\<close>

datatype preview_answer = PreviewFile bytes string | PreviewForbidden | PreviewNotFound

definition get_preview :: "site_env \<Rightarrow> int \<Rightarrow> uuid \<Rightarrow> string \<Rightarrow> string \<Rightarrow> db \<Rightarrow> preview_answer" where
  "get_preview env now pid token path db = (case get_project_by_id pid db of
     None \<Rightarrow> PreviewNotFound
   | Some project \<Rightarrow>
       (case verify_token env now pid (pr_user project) token of
          None \<Rightarrow> PreviewForbidden
        | Some valid \<Rightarrow>
            (if \<not> valid then PreviewForbidden
             else case read_file pid path db of
               None \<Rightarrow> PreviewNotFound
             | Some file \<Rightarrow> PreviewFile (fc_content file) (fc_content_type file))))"

end

