(* ===== verification/FileSpec.thy ===== *)
theory FileSpec
  imports Prelude
begin

text \<open>
  The contract of a keyed file store whose operations may refuse: an accepted write puts the file
  under the name the raw name stands for and touches nothing else, an accepted deletion removes it,
  and a refused request changes nothing. Along a history such a store is the finite map of the
  updates it accepted; the store of website files is one (theory \<^verbatim>\<open>SiteStore\<close>).
\<close>

datatype ('raw, 'f) file_op = PutFile 'raw 'f | DelFile 'raw

locale file_store =
  fixes inv :: "'s \<Rightarrow> bool"
    and look :: "'s \<Rightarrow> 'p \<Rightarrow> 'f option"
    and norm :: "'raw \<Rightarrow> 'p option"
    and put :: "'raw \<Rightarrow> 'f \<Rightarrow> 's \<Rightarrow> ('e + 'r) \<times> 's"
    and del :: "'raw \<Rightarrow> 's \<Rightarrow> ('e + 'd) \<times> 's"
  assumes put_ok: "inv s \<Longrightarrow> put raw f s = (Inr x, s') \<Longrightarrow>
        inv s' \<and> (\<exists>p. norm raw = Some p \<and> look s' = (look s)(p \<mapsto> f))"
    and put_fail: "put raw f s = (Inl e, s') \<Longrightarrow> s' = s"
    and del_ok: "inv s \<Longrightarrow> del raw s = (Inr y, s') \<Longrightarrow>
        inv s' \<and> (\<exists>p. norm raw = Some p \<and> look s' = (look s)(p := None))"
    and del_fail: "del raw s = (Inl e, s') \<Longrightarrow> s' = s"
begin

fun step :: "('raw, 'f) file_op \<Rightarrow> 's \<Rightarrow> 's" where
  "step (PutFile raw f) s = snd (put raw f s)"
| "step (DelFile raw) s = snd (del raw s)"

text \<open>The update of the map that a request makes; \<^verbatim>\<open>None\<close> when it is refused.\<close>

fun update_of :: "('raw, 'f) file_op \<Rightarrow> 's \<Rightarrow> ('p \<times> 'f option) option" where
  "update_of (PutFile raw f) s = (case fst (put raw f s) of
     Inl _ \<Rightarrow> None | Inr _ \<Rightarrow> map_option (\<lambda>p. (p, Some f)) (norm raw))"
| "update_of (DelFile raw) s = (case fst (del raw s) of
     Inl _ \<Rightarrow> None | Inr _ \<Rightarrow> map_option (\<lambda>p. (p, None)) (norm raw))"

fun updates :: "('raw, 'f) file_op list \<Rightarrow> 's \<Rightarrow> ('p \<times> 'f option) list" where
  "updates [] s = []"
| "updates (op # ops) s = (case update_of op s of None \<Rightarrow> [] | Some u \<Rightarrow> [u]) @ updates ops (step op s)"

definition apply_update :: "('p \<times> 'f option) \<Rightarrow> ('p \<Rightarrow> 'f option) \<Rightarrow> 'p \<Rightarrow> 'f option" where
  "apply_update u m = m(fst u := snd u)"

lemma step_inv: "inv s \<Longrightarrow> inv (step op s)"
proof (cases op)
  case (PutFile raw f)
  assume "inv s"
  then show ?thesis using PutFile put_ok put_fail
    by (cases "put raw f s"; cases "fst (put raw f s)") (auto, metis)
next
  case (DelFile raw)
  assume "inv s"
  then show ?thesis using DelFile del_ok del_fail
    by (cases "del raw s"; cases "fst (del raw s)") (auto, metis)
qed

lemma step_look:
  assumes "inv s"
  shows "look (step op s) = (case update_of op s of None \<Rightarrow> look s | Some u \<Rightarrow> apply_update u (look s))"
proof (cases op)
  case (PutFile raw f)
  obtain r s' where p: "put raw f s = (r, s')" by fastforce
  show ?thesis
  proof (cases r)
    case (Inl e)
    with p put_fail have "s' = s" by blast
    with p PutFile Inl show ?thesis by simp
  next
    case (Inr x)
    with p put_ok[OF assms] obtain q where "norm raw = Some q" "look s' = (look s)(q \<mapsto> f)" by blast
    with p PutFile Inr show ?thesis by (simp add: apply_update_def)
  qed
next
  case (DelFile raw)
  obtain r s' where p: "del raw s = (r, s')" by fastforce
  show ?thesis
  proof (cases r)
    case (Inl e)
    with p del_fail have "s' = s" by blast
    with p DelFile Inl show ?thesis by simp
  next
    case (Inr x)
    with p del_ok[OF assms] obtain q where "norm raw = Some q" "look s' = (look s)(q := None)" by blast
    with p DelFile Inr show ?thesis by (simp add: apply_update_def)
  qed
qed

text \<open>The store is the map of the accepted updates.\<close>

lemma run_look: "inv s \<Longrightarrow> look (fold step ops s) = fold apply_update (updates ops s) (look s)"
  by (induction ops arbitrary: s) (auto simp: step_inv step_look split: option.splits)

lemma run_inv: "inv s \<Longrightarrow> inv (fold step ops s)"
  by (induction ops arbitrary: s) (auto simp: step_inv)

text \<open>What is found under a name is what the last accepted update of that name left there.\<close>

lemma fold_updates:
  "fold apply_update us m p = (case map_of (rev us) p of None \<Rightarrow> m p | Some v \<Rightarrow> v)"
  by (induction us arbitrary: m) (auto simp: apply_update_def map_add_def split: option.splits)

lemma run_last_write:
  "inv s \<Longrightarrow> look (fold step ops s) p = (case map_of (rev (updates ops s)) p of None \<Rightarrow> look s p | Some v \<Rightarrow> v)"
  by (simp add: run_look fold_updates)

end

end
