(* ===== verification/SiteStore.thy ===== *)
theory SiteStore
  imports Sites FileSpec
begin

text \<open>
  The file store of website projects refines a finite map from projects and canonical paths to file
  contents, keeps its limits, and the preview endpoint serves from it only what a valid link
  addresses.
\<close>

section \<open>Invariant\<close>

definition site_inv :: "site_env \<Rightarrow> db \<Rightarrow> bool" where
  "site_inv env db \<longleftrightarrow>
     distinct (map (\<lambda>r. (sf_project r, sf_path r)) (site_files db))
     \<and> (\<forall>r \<in> set (site_files db). safe_path (sf_path r)
          \<and> sf_content_type r \<in> set PREVIEW_CONTENT_TYPE_ALLOWLIST
          \<and> sf_size r = int (length (sf_content r)) \<and> sf_size r \<le> preview_max_file_bytes (sv_cfg env))
     \<and> (\<forall>pid. project_files pid db \<noteq> [] \<longrightarrow>
          fst (project_stats pid db) \<le> preview_max_files (sv_cfg env)
          \<and> snd (project_stats pid db) \<le> preview_max_project_bytes (sv_cfg env))"

lemma find_file_project: "find_file pid p db = find (\<lambda>r. sf_path r = p) (project_files pid db)"
proof -
  have "find (\<lambda>r. sf_project r = pid \<and> sf_path r = p) rs
      = find (\<lambda>r. sf_path r = p) (filter (\<lambda>r. sf_project r = pid) rs)" for rs
    by (induction rs) auto
  then show ?thesis by (simp add: find_file_def project_files_def)
qed

lemma project_files_distinct:
  "distinct (map (\<lambda>r. (sf_project r, sf_path r)) (site_files db)) \<Longrightarrow> distinct (map sf_path (project_files pid db))"
  by (auto simp: distinct_map inj_on_def project_files_def)

definition new_row :: "uuid \<Rightarrow> string \<Rightarrow> bytes \<Rightarrow> string \<Rightarrow> db \<Rightarrow> site_file_row" where
  "new_row pid p content ct db = \<lparr>sf_project = pid, sf_path = p, sf_content = content, sf_content_type = ct,
         sf_size = int (length content), sf_updated = db_now db\<rparr>"

definition renewed :: "string \<Rightarrow> bytes \<Rightarrow> string \<Rightarrow> db \<Rightarrow> site_file_row \<Rightarrow> site_file_row" where
  "renewed p content ct db r = (if sf_path r = p
     then r\<lparr>sf_content := content, sf_content_type := ct, sf_size := int (length content),
            sf_updated := db_now db\<rparr> else r)"

lemma put_file_projects:
  "project_files q (put_file pid p content ct db) =
     (if q \<noteq> pid then project_files q db
      else if find_file pid p db \<noteq> None then map (renewed p content ct db) (project_files pid db)
      else project_files pid db @ [new_row pid p content ct db])"
proof (cases "find_file pid p db")
  case None
  then show ?thesis by (auto simp: put_file_def project_files_def new_row_def)
next
  case (Some r)
  have "filter (\<lambda>r. sf_project r = q) (map (\<lambda>r. if sf_project r = pid \<and> sf_path r = p
        then r\<lparr>sf_content := content, sf_content_type := ct, sf_size := int (length content),
               sf_updated := db_now db\<rparr> else r) rs)
      = (if q \<noteq> pid then filter (\<lambda>r. sf_project r = q) rs
         else map (renewed p content ct db) (filter (\<lambda>r. sf_project r = pid) rs))" for rs
    by (induction rs) (auto simp: renewed_def)
  with Some show ?thesis by (simp add: put_file_def project_files_def)
qed

lemma sum_renewed:
  assumes "distinct (map sf_path rs)" "find (\<lambda>r. sf_path r = p) rs = Some r"
  shows "sum_list (map sf_size (map (renewed p content ct db) rs))
    = sum_list (map sf_size rs) - sf_size r + int (length content)"
  using assms
proof (induction rs)
  case (Cons x rs)
  show ?case
  proof (cases "sf_path x = p")
    case True
    then have "\<forall>r \<in> set rs. sf_path r \<noteq> p" using Cons.prems(1) by (force simp: image_iff)
    then have "map (renewed p content ct db) rs = rs"
      by (intro map_idI) (simp add: renewed_def)
    moreover have "sf_size (renewed p content ct db x) = int (length content)"
      using True by (simp add: renewed_def)
    ultimately show ?thesis using True Cons.prems(2) by simp
  next
    case False
    with Cons show ?thesis by (simp add: renewed_def)
  qed
qed simp

lemma put_file_stats:
  assumes "distinct (map (\<lambda>r. (sf_project r, sf_path r)) (site_files db))"
  shows "project_stats pid (put_file pid p content ct db) =
    (fst (project_stats pid db) + (if find_file pid p db = None then 1 else 0),
     snd (project_stats pid db) - (case find_file pid p db of Some r \<Rightarrow> sf_size r | None \<Rightarrow> 0) + int (length content))"
  using sum_renewed[OF project_files_distinct[OF assms], of p pid]
  by (auto simp: project_stats_def put_file_projects new_row_def find_file_project split: option.splits)

lemma put_file_distinct:
  assumes "distinct (map (\<lambda>r. (sf_project r, sf_path r)) (site_files db))"
  shows "distinct (map (\<lambda>r. (sf_project r, sf_path r)) (site_files (put_file pid p content ct db)))"
proof (cases "find_file pid p db")
  case None
  then have "\<forall>r \<in> set (site_files db). \<not> (sf_project r = pid \<and> sf_path r = p)"
    by (auto simp: find_file_def find_None_iff)
  with None assms show ?thesis by (auto simp: put_file_def)
next
  case (Some r)
  have "map (\<lambda>r. (sf_project r, sf_path r)) (site_files (put_file pid p content ct db))
      = map (\<lambda>r. (sf_project r, sf_path r)) (site_files db)"
    using Some by (auto simp: put_file_def)
  with assms show ?thesis by simp
qed

lemma find_put_file:
  "find_file q x (put_file pid p content ct db) =
     (if q = pid \<and> x = p then Some (case find_file pid p db of
        Some r \<Rightarrow> renewed p content ct db r | None \<Rightarrow> new_row pid p content ct db)
      else find_file q x db)"
proof -
  have m: "find (\<lambda>r. sf_path r = y) (map (renewed p' content ct db) rs)
      = map_option (renewed p' content ct db) (find (\<lambda>r. sf_path r = y) rs)" for rs p' y
    by (induction rs) (auto simp: renewed_def)
  have keep: "sf_path r \<noteq> p' \<Longrightarrow> renewed p' content ct db r = r" for r p' by (simp add: renewed_def)
  have app: "find P (rs @ [r]) = (case find P rs of Some y \<Rightarrow> Some y | None \<Rightarrow> if P r then Some r else None)"
    for P r and rs :: "site_file_row list" by (induction rs) auto
  have path: "find (\<lambda>r. sf_path r = z) rs = Some y \<Longrightarrow> sf_path y = z" for rs y z
    by (auto simp: find_Some_iff)
  show ?thesis
    by (auto simp: find_file_project put_file_projects m app new_row_def split: option.splits dest: path)
      (auto simp: keep dest: path)
qed

lemma write_file_Inr:
  assumes "write_file env pid path content ct db = (Inr x, db')"
  obtains p where "normalize_site_path path = Some p" "ct \<in> set PREVIEW_CONTENT_TYPE_ALLOWLIST"
    "int (length content) \<le> preview_max_file_bytes (sv_cfg env)"
    "snd (project_stats pid db) - (case find_file pid p db of Some r \<Rightarrow> sf_size r | None \<Rightarrow> 0)
       + int (length content) \<le> preview_max_project_bytes (sv_cfg env)"
    "fst (project_stats pid db) + (if find_file pid p db = None then 1 else 0) \<le> preview_max_files (sv_cfg env)"
    "db' = put_file pid p content ct db"
  using assms
  by (auto simp: write_file_def Let_def not_less split: if_splits option.splits prod.splits)

lemma write_file_Inl: "write_file env pid path content ct db = (Inl e, db') \<Longrightarrow> db' = db"
  by (auto simp: write_file_def Let_def split: if_splits option.splits prod.splits)

lemma put_file_rows:
  "r \<in> set (site_files (put_file pid p content ct db)) \<Longrightarrow>
     r \<in> set (site_files db) \<or> (sf_path r = p \<and> sf_content r = content \<and> sf_content_type r = ct
        \<and> sf_size r = int (length content))"
  by (auto simp: put_file_def split: if_splits)

lemma write_file_inv:
  assumes "site_inv env db" "write_file env pid path content ct db = (Inr x, db')"
  shows "site_inv env db'"
proof -
  obtain p where p: "normalize_site_path path = Some p" "ct \<in> set PREVIEW_CONTENT_TYPE_ALLOWLIST"
    "int (length content) \<le> preview_max_file_bytes (sv_cfg env)"
    "snd (project_stats pid db) - (case find_file pid p db of Some r \<Rightarrow> sf_size r | None \<Rightarrow> 0)
       + int (length content) \<le> preview_max_project_bytes (sv_cfg env)"
    "fst (project_stats pid db) + (if find_file pid p db = None then 1 else 0) \<le> preview_max_files (sv_cfg env)"
    "db' = put_file pid p content ct db"
    using assms(2) by (rule write_file_Inr)
  have d: "distinct (map (\<lambda>r. (sf_project r, sf_path r)) (site_files db))"
    using assms(1) by (simp add: site_inv_def)
  have rows: "\<forall>r \<in> set (site_files db'). safe_path (sf_path r)
          \<and> sf_content_type r \<in> set PREVIEW_CONTENT_TYPE_ALLOWLIST
          \<and> sf_size r = int (length (sf_content r)) \<and> sf_size r \<le> preview_max_file_bytes (sv_cfg env)"
    using assms(1) p(2,3,6) normalize_safe[OF p(1)] put_file_rows unfolding site_inv_def by metis
  have "fst (project_stats q db') \<le> preview_max_files (sv_cfg env)
      \<and> snd (project_stats q db') \<le> preview_max_project_bytes (sv_cfg env)" if "project_files q db' \<noteq> []" for q
  proof (cases "q = pid")
    case True
    then show ?thesis using p(4-6) put_file_stats[OF d] by simp
  next
    case False
    then have "project_files q db' = project_files q db" using p(6) by (simp add: put_file_projects)
    with assms(1) that show ?thesis by (simp add: site_inv_def project_stats_def)
  qed
  with rows put_file_distinct[OF d] p(6) show ?thesis unfolding site_inv_def by blast
qed

lemma delete_file_Inr:
  assumes "delete_file pid path db = (Inr x, db')"
  obtains p where "normalize_site_path path = Some p"
    "db' = db\<lparr>site_files := filter (\<lambda>r. \<not> (sf_project r = pid \<and> sf_path r = p)) (site_files db)\<rparr>"
proof -
  obtain p where p: "normalize_site_path path = Some p"
    using assms by (auto simp: delete_file_def split: option.splits)
  have "db' = db\<lparr>site_files := filter (\<lambda>r. \<not> (sf_project r = pid \<and> sf_path r = p)) (site_files db)\<rparr>"
  proof (cases "find_file pid p db")
    case None
    then have "filter (\<lambda>r. \<not> (sf_project r = pid \<and> sf_path r = p)) (site_files db) = site_files db"
      by (auto simp: find_file_def find_None_iff intro: filter_True)
    with assms p None show ?thesis by (simp add: delete_file_def)
  next
    case (Some r)
    with assms p show ?thesis by (simp add: delete_file_def Let_def)
  qed
  with p show thesis by (rule that)
qed

lemma delete_file_Inl: "delete_file pid path db = (Inl e, db') \<Longrightarrow> db' = db"
  by (auto simp: delete_file_def Let_def split: if_splits option.splits)

lemma delete_file_inv:
  assumes "site_inv env db" "delete_file pid path db = (Inr x, db')"
  shows "site_inv env db'"
proof -
  obtain p where db': "db' = db\<lparr>site_files := filter (\<lambda>r. \<not> (sf_project r = pid \<and> sf_path r = p)) (site_files db)\<rparr>"
    using assms(2) by (rule delete_file_Inr)
  have f: "project_files q db' = filter (\<lambda>r. \<not> (sf_project r = pid \<and> sf_path r = p)) (project_files q db)" for q
    by (simp add: db' project_files_def filter_filter conj_commute)
  have nn: "\<forall>r \<in> set (project_files q db). 0 \<le> sf_size r" for q
    using assms(1) by (auto simp: site_inv_def project_files_def)
  have "fst (project_stats q db') \<le> fst (project_stats q db)" "snd (project_stats q db') \<le> snd (project_stats q db)" for q
    using sum_filter_le[OF nn] by (simp_all add: project_stats_def f)
  moreover have "project_files q db' \<noteq> [] \<Longrightarrow> project_files q db \<noteq> []" for q by (auto simp: f)
  ultimately have "project_files q db' \<noteq> [] \<Longrightarrow> fst (project_stats q db') \<le> preview_max_files (sv_cfg env)
      \<and> snd (project_stats q db') \<le> preview_max_project_bytes (sv_cfg env)" for q
    using assms(1) unfolding site_inv_def by (meson order_trans)
  moreover have "distinct (map (\<lambda>r. (sf_project r, sf_path r)) (site_files db'))"
    using assms(1) by (simp add: site_inv_def db' distinct_map_filter)
  moreover have "set (site_files db') \<subseteq> set (site_files db)" by (auto simp: db')
  ultimately show ?thesis using assms(1) unfolding site_inv_def by blast
qed

section \<open>Refinement of a finite map\<close>

text \<open>What the store holds, as a map from projects and paths to contents with their types.\<close>

definition site_map :: "db \<Rightarrow> uuid \<times> string \<Rightarrow> (bytes \<times> string) option" where
  "site_map db k = map_option (\<lambda>r. (sf_content r, sf_content_type r)) (find_file (fst k) (snd k) db)"

definition site_name :: "uuid \<times> string \<Rightarrow> (uuid \<times> string) option" where
  "site_name raw = map_option (Pair (fst raw)) (normalize_site_path (snd raw))"

definition site_put :: "site_env \<Rightarrow> uuid \<times> string \<Rightarrow> bytes \<times> string \<Rightarrow> write_result site_act" where
  "site_put env raw f = write_file env (fst raw) (snd raw) (fst f) (snd f)"

definition site_del :: "uuid \<times> string \<Rightarrow> (bool \<times> int \<times> int) site_act" where
  "site_del raw = delete_file (fst raw) (snd raw)"

interpretation fs: file_store "site_inv env" site_map site_name "site_put env" site_del for env
proof unfold_locales
  fix raw f s x s' assume i: "site_inv env s" and w: "site_put env raw f s = (Inr x, s')"
  from w obtain p where p: "normalize_site_path (snd raw) = Some p" "s' = put_file (fst raw) p (fst f) (snd f) s"
    unfolding site_put_def by (rule write_file_Inr)
  have "site_map s' = (site_map s)((fst raw, p) \<mapsto> f)"
    by (auto simp: fun_eq_iff site_map_def p(2) find_put_file renewed_def new_row_def split: option.splits)
      (auto simp: find_file_def find_Some_iff)
  with p(1) write_file_inv[OF i w[unfolded site_put_def]]
  show "site_inv env s' \<and> (\<exists>p. site_name raw = Some p \<and> site_map s' = (site_map s)(p \<mapsto> f))"
    by (auto simp: site_name_def)
next
  fix raw s x s' assume i: "site_inv env s" and w: "site_del raw s = (Inr x, s')"
  from w obtain p where p: "normalize_site_path (snd raw) = Some p"
    "s' = s\<lparr>site_files := filter (\<lambda>r. \<not> (sf_project r = fst raw \<and> sf_path r = p)) (site_files s)\<rparr>"
    unfolding site_del_def by (rule delete_file_Inr)
  have "find (\<lambda>r. sf_project r = q \<and> sf_path r = y) (filter (\<lambda>r. \<not> (sf_project r = a \<and> sf_path r = b)) rs)
      = (if q = a \<and> y = b then None else find (\<lambda>r. sf_project r = q \<and> sf_path r = y) rs)" for q y a b rs
    by (induction rs) auto
  moreover have "site_files s' = filter (\<lambda>r. \<not> (sf_project r = fst raw \<and> sf_path r = p)) (site_files s)"
    using p(2) by simp
  ultimately have "find_file q y s' = (if q = fst raw \<and> y = p then None else find_file q y s)" for q y
    by (simp only: find_file_def)
  then have "site_map s' = (site_map s)((fst raw, p) := None)"
    by (auto simp: fun_eq_iff site_map_def)
  with p(1) delete_file_inv[OF i w[unfolded site_del_def]]
  show "site_inv env s' \<and> (\<exists>p. site_name raw = Some p \<and> site_map s' = (site_map s)(p := None))"
    by (auto simp: site_name_def)
qed (auto simp: site_put_def site_del_def dest: write_file_Inl delete_file_Inl)

section \<open>Properties\<close>

text \<open>Requests on any project, in any order.\<close>

type_synonym site_op = "(uuid \<times> string, bytes \<times> string) file_op"

fun site_step :: "site_env \<Rightarrow> site_op \<Rightarrow> db \<Rightarrow> db" where
  "site_step env (PutFile (pid, path) (content, ct)) db = snd (write_file env pid path content ct db)"
| "site_step env (DelFile (pid, path)) db = snd (delete_file pid path db)"

text \<open>The update of the abstract map that a request makes, by its answer alone.\<close>

fun site_update :: "site_env \<Rightarrow> site_op \<Rightarrow> db \<Rightarrow> ((uuid \<times> string) \<times> (bytes \<times> string) option) list" where
  "site_update env (PutFile (pid, path) (content, ct)) db =
     (case fst (write_file env pid path content ct db) of
        Inl _ \<Rightarrow> [] | Inr w \<Rightarrow> [((pid, wr_path w), Some (content, ct))])"
| "site_update env (DelFile (pid, path)) db = (case fst (delete_file pid path db) of
        Inl _ \<Rightarrow> [] | Inr _ \<Rightarrow> [((pid, the (normalize_site_path path)), None)])"

fun site_updates :: "site_env \<Rightarrow> site_op list \<Rightarrow> db \<Rightarrow> ((uuid \<times> string) \<times> (bytes \<times> string) option) list" where
  "site_updates env [] db = []"
| "site_updates env (op # ops) db = site_update env op db @ site_updates env ops (site_step env op db)"

lemma site_step_fs: "site_step env op db = fs.step env op db"
  by (cases "(env, op, db)" rule: site_step.cases) (simp_all add: site_put_def site_del_def)

lemma write_file_path: "write_file env pid path content ct db = (Inr x, db') \<Longrightarrow> normalize_site_path path = Some (wr_path x)"
  by (auto simp: write_file_def Let_def split: if_splits option.splits prod.splits)

lemma site_update_fs:
  "site_update env op db = (case fs.update_of env op db of None \<Rightarrow> [] | Some u \<Rightarrow> [u])"
proof (cases "(env, op, db)" rule: site_update.cases)
  case (1 env' pid path content ct db')
  then show ?thesis
    by (cases "write_file env pid path content ct db")
      (auto simp: site_put_def site_name_def dest: write_file_path split: sum.splits)
next
  case (2 env' pid path db')
  then show ?thesis
    by (cases "delete_file pid path db")
      (auto simp: site_del_def site_name_def elim: delete_file_Inr split: sum.splits)
qed

lemma site_updates_fs: "site_updates env ops db = fs.updates env ops db"
  by (induction ops arbitrary: db) (auto simp: site_update_fs site_step_fs)

text \<open>
  C22: the file store is the map of the updates it accepted. After any history of writes and deletions
  on any projects, reading a path answers the content and type of the last accepted write to that
  path of that project, with the length as its size, unless an accepted deletion followed; a path
  nothing was accepted for reads as before, and an unsafe path as absent. Two spellings of one
  path are the same file.
\<close>

theorem site_store_refines:
  assumes "site_inv env db"
  shows "read_file pid path (fold (site_step env) ops db) =
    (case normalize_site_path path of
       None \<Rightarrow> None
     | Some p \<Rightarrow> map_option (\<lambda>(content, ct).
         \<lparr>fc_path = p, fc_content = content, fc_content_type = ct, fc_size = int (length content)\<rparr>)
         (case map_of (rev (site_updates env ops db)) (pid, p) of
            Some change \<Rightarrow> change | None \<Rightarrow> site_map db (pid, p)))"
proof (cases "normalize_site_path path")
  case None
  then show ?thesis by (simp add: read_file_def)
next
  case (Some p)
  let ?db = "fold (site_step env) ops db"
  have step: "site_step env = fs.step env" by (simp add: fun_eq_iff site_step_fs)
  have inv: "site_inv env ?db" unfolding step by (rule fs.run_inv[OF assms])
  have "site_map ?db (pid, p) = (case map_of (rev (site_updates env ops db)) (pid, p) of
            Some change \<Rightarrow> change | None \<Rightarrow> site_map db (pid, p))"
    unfolding step site_updates_fs using fs.run_last_write[OF assms, of ops "(pid, p)"]
    by (simp split: option.splits)
  moreover have "read_file pid path ?db = map_option (\<lambda>(content, ct).
         \<lparr>fc_path = p, fc_content = content, fc_content_type = ct, fc_size = int (length content)\<rparr>)
         (site_map ?db (pid, p))"
  proof (cases "find_file pid p ?db")
    case None
    then show ?thesis by (simp add: read_file_def Some site_map_def)
  next
    case (Some r)
    then have "r \<in> set (site_files ?db)" "sf_path r = p"
      unfolding find_file_def by (metis (mono_tags, lifting) find_Some_iff nth_mem)+
    then have "sf_size r = int (length (sf_content r))" using inv by (simp add: site_inv_def)
    with \<open>normalize_site_path path = Some p\<close> Some \<open>sf_path r = p\<close> show ?thesis
      by (simp add: read_file_def site_map_def)
  qed
  ultimately show ?thesis using Some by simp
qed

text \<open>
  C23: the limits hold in every reachable state. From a state that keeps them, whatever is written and
  deleted, every stored file has a canonical path, an allowed content type, its true size and at
  most the allowed size, no two files of a project have the same path, and no project has more
  files or more bytes in total than allowed.
\<close>

theorem site_limits_kept:
  assumes "site_inv env db" and "db' = fold (site_step env) ops db"
  shows "distinct (map (\<lambda>r. (sf_project r, sf_path r)) (site_files db'))
     \<and> (\<forall>r \<in> set (site_files db'). normalize_site_path (sf_path r) = Some (sf_path r)
          \<and> sf_content_type r \<in> set PREVIEW_CONTENT_TYPE_ALLOWLIST
          \<and> sf_size r = int (length (sf_content r)) \<and> sf_size r \<le> preview_max_file_bytes (sv_cfg env))
     \<and> (\<forall>pid. project_files pid db' \<noteq> [] \<longrightarrow>
          int (length (project_files pid db')) \<le> preview_max_files (sv_cfg env)
          \<and> (\<Sum>r\<leftarrow>project_files pid db'. int (length (sf_content r))) \<le> preview_max_project_bytes (sv_cfg env))"
proof -
  have "site_step env = fs.step env" by (simp add: fun_eq_iff site_step_fs)
  then have inv: "site_inv env db'" unfolding assms(2) using fs.run_inv[OF assms(1), of ops] by simp
  have "map (\<lambda>r. int (length (sf_content r))) (project_files pid db') = map sf_size (project_files pid db')" for pid
    using inv by (auto simp: site_inv_def project_files_def)
  then have sum: "(\<Sum>r\<leftarrow>project_files pid db'. int (length (sf_content r))) = snd (project_stats pid db')" for pid
    by (simp only: project_stats_def snd_conv)
  have count: "int (length (project_files pid db')) = fst (project_stats pid db')" for pid
    by (simp add: project_stats_def)
  show ?thesis using inv normalize_canonical unfolding site_inv_def sum count by blast
qed

text \<open>
  C25: the public endpoint serves only what a valid link addresses. A file is answered only for an
  existing project whose identifier and owner the link's authentication code covers, together with
  an expiry that has not passed; the file is one of that project, under a canonical path, so no
  link reaches another project or leaves the store.
\<close>

theorem preview_sound:
  assumes "get_preview env now pid token path db = PreviewFile content ct"
  shows "\<exists>project exp_part mac_part exp mac r.
      project \<in> set (projects db) \<and> pr_id project = pid
    \<and> token = exp_part @ ''.'' @ mac_part \<and> b64url_decode mac_part = Some mac
    \<and> sign env pid (pr_user project) exp = Some mac \<and> now \<le> exp
    \<and> r \<in> set (site_files db) \<and> sf_project r = pid \<and> normalize_site_path path = Some (sf_path r)
    \<and> safe_path (sf_path r) \<and> content = sf_content r \<and> ct = sf_content_type r"
proof -
  obtain project f where p: "get_project_by_id pid db = Some project"
    "verify_token env now pid (pr_user project) token = Some True" "read_file pid path db = Some f"
    "content = fc_content f" "ct = fc_content_type f"
    using assms by (auto simp: get_preview_def split: option.splits if_splits)
  have pr: "project \<in> set (projects db)" "pr_id project = pid"
    using p(1) unfolding get_project_by_id_def by (metis (mono_tags, lifting) find_Some_iff nth_mem)+
  obtain e m exp mac where t: "split_on CHR ''.'' token = [e, m]" "b64url_decode m = Some mac"
    "sign env pid (pr_user project) exp = Some mac" "now \<le> exp"
    using p(2) by (auto simp: verify_token_def split: list.splits option.splits)
  have "token = e @ ''.'' @ m" using join_split[of "CHR ''.''" token] t(1) by simp
  moreover obtain q r where r: "normalize_site_path path = Some q" "find_file pid q db = Some r"
    "f = \<lparr>fc_path = sf_path r, fc_content = sf_content r, fc_content_type = sf_content_type r, fc_size = sf_size r\<rparr>"
    using p(3) by (auto simp: read_file_def split: option.splits)
  moreover have "r \<in> set (site_files db)" "sf_project r = pid" "sf_path r = q"
    using r(2) unfolding find_file_def by (metis (mono_tags, lifting) find_Some_iff nth_mem)+
  ultimately show ?thesis using pr t(2-4) p(4,5) normalize_safe[OF r(1)]
    by (intro exI[of _ project] exI[of _ e] exI[of _ m] exI[of _ exp] exI[of _ mac] exI[of _ r] conjI) simp_all
qed

section \<open>Concrete instances\<close>

definition demo_site :: site_env where
  "demo_site = \<lparr>sv_cfg = demo_cfg, sv_hmac = (\<lambda>s m. ascii_encode m), sv_path_le = (\<lambda>p q. length p \<le> length q)\<rparr>"

definition demo_site_db :: db where
  "demo_site_db = (empty_db of_nat 0)\<lparr>projects := [\<lparr>pr_id = 1, pr_user = 7, pr_external = ''p'',
     pr_created = 0, pr_updated = 0\<rparr>]\<rparr>"

lemma demo_site_inv: "site_inv demo_site demo_site_db"
  by (simp add: site_inv_def demo_site_db_def empty_db_def project_files_def)

definition demo_ops :: "site_op list" where
  "demo_ops = [PutFile (1, ''a//./b.txt'') ([72, 105], ''text/plain''), PutFile (1, ''../x'') ([1], ''text/plain''),
     DelFile (1, ''c'')]"

lemmas site_eval = write_file_def delete_file_def normalize_site_path_def PREVIEW_CONTENT_TYPE_ALLOWLIST_def
  find_file_def put_file_def project_stats_def project_files_def

lemma demo_updates:
  "site_updates demo_site demo_ops demo_site_db = [((1, ''a/b.txt''), Some ([72, 105], ''text/plain'')), ((1, ''c''), None)]"
  by (simp add: demo_ops_def demo_site_def demo_site_db_def empty_db_def demo_cfg_def site_eval)

theorem site_store_refines_witness:
  "read_file 1 ''a/b.txt'' (fold (site_step demo_site) demo_ops demo_site_db)
     = Some \<lparr>fc_path = ''a/b.txt'', fc_content = [72, 105], fc_content_type = ''text/plain'', fc_size = 2\<rparr>"
  using site_store_refines[OF demo_site_inv, of 1 "''a/b.txt''" demo_ops]
  by (simp add: demo_updates normalize_site_path_def)

theorem site_limits_kept_witness:
  "distinct (map (\<lambda>r. (sf_project r, sf_path r)) (site_files (fold (site_step demo_site) demo_ops demo_site_db)))"
  using site_limits_kept[OF demo_site_inv refl, of demo_ops] by blast

definition demo_link :: signed_preview where
  "demo_link = \<lparr>sp_token = b64url_encode (ascii_encode (str_int 900)) @ ''.'' @
     b64url_encode (ascii_encode (canonical 1 7 900)), sp_expires = 900\<rparr>"

lemma demo_build: "build_token demo_site 0 1 7 = Some demo_link"
  by (simp add: build_token_def demo_site_def demo_cfg_def sign_def site_secret_def demo_link_def)

lemma demo_expiry: "0 \<le> sp_expires demo_link" "sp_expires demo_link < 10 ^ 4300"
proof -
  have e: "sp_expires demo_link = 900" by (simp add: demo_link_def)
  then show "0 \<le> sp_expires demo_link" by simp
  have "(10 :: int) ^ 3 \<le> 10 ^ 4300" by (rule power_increasing) simp_all
  moreover have "(900 :: int) < 10 ^ 3" by simp
  ultimately show "sp_expires demo_link < 10 ^ 4300" unfolding e by (rule less_le_trans[rotated])
qed

theorem preview_token_exact_witness:
  "verify_token demo_site 900 1 7 (sp_token demo_link) = Some True
   \<and> verify_token demo_site 901 1 7 (sp_token demo_link) = Some False"
  using preview_token_exact[OF demo_build demo_expiry, of 900 1 7] preview_token_exact[OF demo_build demo_expiry, of 901 1 7]
  by (simp add: demo_site_def demo_cfg_def)

lemma demo_preview:
  "\<exists>c ct. get_preview demo_site 0 1 (sp_token demo_link) ''a/b.txt'' (fold (site_step demo_site) demo_ops demo_site_db)
     = PreviewFile c ct"
proof -
  have "verify_token demo_site 0 1 7 (sp_token demo_link) = Some True"
    using built_token_verify[OF demo_build demo_expiry, of 0 1 7]
    by (simp add: demo_link_def demo_site_def sign_def site_secret_def demo_cfg_def)
  moreover have "\<exists>r. read_file 1 ''a/b.txt'' (fold (site_step demo_site) demo_ops demo_site_db) = Some r"
    by (simp add: demo_ops_def demo_site_def demo_site_db_def empty_db_def demo_cfg_def site_eval read_file_def)
  moreover have "get_project_by_id 1 (fold (site_step demo_site) demo_ops demo_site_db)
      = Some \<lparr>pr_id = 1, pr_user = 7, pr_external = ''p'', pr_created = 0, pr_updated = 0\<rparr>"
    by (simp add: demo_ops_def demo_site_def demo_site_db_def empty_db_def demo_cfg_def site_eval get_project_by_id_def)
  ultimately show ?thesis by (auto simp: get_preview_def)
qed

theorem preview_sound_witness:
  "\<exists>content ct (r :: site_file_row). get_preview demo_site 0 1 (sp_token demo_link) ''a/b.txt''
       (fold (site_step demo_site) demo_ops demo_site_db) = PreviewFile content ct
     \<and> sf_project r = 1 \<and> content = sf_content r"
proof -
  obtain content ct where g: "get_preview demo_site 0 1 (sp_token demo_link) ''a/b.txt''
      (fold (site_step demo_site) demo_ops demo_site_db) = PreviewFile content ct"
    using demo_preview by blast
  from preview_sound[OF g] obtain r :: site_file_row where "sf_project r = 1" "content = sf_content r"
    by blast
  with g show ?thesis by blast
qed

end
