(* ===== verification/RateLimit.thy ===== *)
theory RateLimit
  imports Config
begin

text \<open>
  The sliding-window rate limiter of \<^verbatim>\<open>app/api_gateway/rate_limit.py\<close> on Redis sorted sets. A set is
  kept as the list of its scores (the members carry a fresh UUID and never collide) with the
  deadline \<^verbatim>\<open>EXPIRE\<close> gave its key; times are microseconds and Redis reads the same clock. Which calls
  Redis fails is an argument, and a failure is answered open, as in the code.
\<close>

record bucket =
  bk_scores :: "int list"
  bk_deadline :: int

type_synonym redis = "string \<Rightarrow> bucket option"

definition live_scores :: "int \<Rightarrow> bucket option \<Rightarrow> int list" where
  "live_scores now b = (case b of None \<Rightarrow> []
     | Some r \<Rightarrow> if bk_deadline r \<le> now then [] else bk_scores r)"

text \<open>The transaction \<^verbatim>\<open>ZREMRANGEBYSCORE key 0 cutoff; ZADD; ZCARD; EXPIRE\<close>; a non-positive expiry
  deletes the key at once.\<close>

definition allow :: "int \<Rightarrow> int \<Rightarrow> string \<Rightarrow> int \<Rightarrow> redis \<Rightarrow> bool \<times> redis" where
  "allow now window_seconds key limit rs =
    (let window = window_seconds * 1000000; cutoff = now - window;
         kept = filter (\<lambda>s. \<not> (0 \<le> s \<and> s \<le> cutoff)) (live_scores now (rs key));
         scores = kept @ [now] in
     (int (length scores) \<le> limit,
      rs(key := if window_seconds \<le> 0 then None else Some \<lparr>bk_scores = scores, bk_deadline = now + window\<rparr>)))"

text \<open>One check after the other until one refuses; a Redis error answers \<^verbatim>\<open>True\<close>.\<close>

fun run_checks :: "(string \<Rightarrow> bool) \<Rightarrow> int \<Rightarrow> int \<Rightarrow> (string \<times> int) list \<Rightarrow> redis \<Rightarrow> bool \<times> redis" where
  "run_checks up now window [] rs = (True, rs)"
| "run_checks up now window ((key, limit) # checks) rs =
     (if \<not> up key then (True, rs)
      else (case allow now window key limit rs of
          (ok, rs') \<Rightarrow> if \<not> ok then (False, rs') else run_checks up now window checks rs'))"

definition chat_checks :: "settings \<Rightarrow> uuid \<Rightarrow> string option \<Rightarrow> string option \<Rightarrow> (string \<times> int) list" where
  "chat_checks cfg uid device ip =
     [(''rl:user:'' @ str_uuid uid, rate_limit_chat_per_user cfg)]
     @ (case device of Some d \<Rightarrow> if d \<noteq> [] then [(''rl:dev:'' @ d, rate_limit_chat_per_device cfg)] else [] | None \<Rightarrow> [])
     @ (case ip of Some i \<Rightarrow> if i \<noteq> [] then [(''rl:ip:'' @ i, rate_limit_chat_per_ip cfg)] else [] | None \<Rightarrow> [])"

definition enforce_chat_limits ::
  "settings \<Rightarrow> (string \<Rightarrow> bool) \<Rightarrow> int \<Rightarrow> uuid \<Rightarrow> string option \<Rightarrow> string option \<Rightarrow> redis \<Rightarrow> bool \<times> redis" where
  "enforce_chat_limits cfg up now uid device ip rs =
     run_checks up now (rate_limit_window_seconds cfg) (chat_checks cfg uid device ip) rs"

definition ip_bucket :: "string option \<Rightarrow> string" where
  "ip_bucket ip = (case ip of Some i \<Rightarrow> if i \<noteq> [] then i else ''unknown'' | None \<Rightarrow> ''unknown'')"

definition enforce_admin_limits ::
  "settings \<Rightarrow> (string \<Rightarrow> bool) \<Rightarrow> int \<Rightarrow> string option \<Rightarrow> redis \<Rightarrow> bool \<times> redis" where
  "enforce_admin_limits cfg up now ip rs = run_checks up now (rate_limit_window_seconds cfg)
     [(''rl:admin:'' @ ip_bucket ip, admin_rate_limit_per_min cfg)] rs"

definition enforce_auth_limits ::
  "settings \<Rightarrow> (string \<Rightarrow> bool) \<Rightarrow> int \<Rightarrow> string option \<Rightarrow> redis \<Rightarrow> bool \<times> redis" where
  "enforce_auth_limits cfg up now ip rs = run_checks up now (rate_limit_window_seconds cfg)
     [(''rl:auth:'' @ ip_bucket ip, auth_rate_limit_per_ip cfg)] rs"

definition enforce_cloudpayments_webhook_limits ::
  "settings \<Rightarrow> (string \<Rightarrow> bool) \<Rightarrow> int \<Rightarrow> string option \<Rightarrow> redis \<Rightarrow> bool \<times> redis" where
  "enforce_cloudpayments_webhook_limits cfg up now ip rs = run_checks up now (rate_limit_window_seconds cfg)
     [(''rl:cpwebhook:'' @ ip_bucket ip, cloudpayments_webhook_rate_limit_per_ip cfg)] rs"

definition enforce_other_limits ::
  "settings \<Rightarrow> (string \<Rightarrow> bool) \<Rightarrow> int \<Rightarrow> uuid \<Rightarrow> redis \<Rightarrow> bool \<times> redis" where
  "enforce_other_limits cfg up now uid rs = run_checks up now (rate_limit_window_seconds cfg)
     [(''rl:other:'' @ str_uuid uid, rate_limit_other_per_user cfg)] rs"

section \<open>The window is exact\<close>

text \<open>Calls of the limiter in the order Redis executes them, each with its time, key and limit.\<close>

type_synonym rl_call = "int \<times> string \<times> int"

definition rl_run :: "int \<Rightarrow> rl_call list \<Rightarrow> redis \<Rightarrow> redis" where
  "rl_run w calls rs = fold (\<lambda>(t, k, l) r. snd (allow t w k l r)) calls rs"

definition key_times :: "string \<Rightarrow> rl_call list \<Rightarrow> int list" where
  "key_times k calls = map fst (filter (\<lambda>c. fst (snd c) = k) calls)"

text \<open>The reference: a call is allowed when it and the earlier calls for its key in the window before it
  are at most the limit.\<close>

definition in_window :: "int \<Rightarrow> int \<Rightarrow> int list \<Rightarrow> int list" where
  "in_window w t ts = filter (\<lambda>s. t - w * 1000000 < s) ts"

definition clocked :: "rl_call list \<Rightarrow> bool" where
  "clocked calls \<longleftrightarrow> sorted (map fst calls) \<and> (\<forall>c \<in> set calls. 0 \<le> fst c)"

lemma key_times_sorted: "clocked calls \<Longrightarrow> sorted (key_times k calls)"
  unfolding clocked_def key_times_def by (simp add: sorted_filter)

text \<open>What the set holds, seen from a later time.\<close>

lemma rl_scores:
  assumes "0 < w" "clocked calls" "\<forall>c \<in> set calls. fst c \<le> t"
  shows "filter (\<lambda>s. \<not> (0 \<le> s \<and> s \<le> t - w * 1000000)) (live_scores t (rl_run w calls (\<lambda>_. None) k))
    = in_window w t (key_times k calls)"
  using assms(2,3)
proof (induction calls arbitrary: t rule: rev_induct)
  case Nil
  show ?case by (simp add: rl_run_def live_scores_def in_window_def key_times_def)
next
  case (snoc c calls)
  obtain s k' l where c: "c = (s, k', l)" by (cases c) auto
  have cl: "clocked calls" "\<forall>c \<in> set calls. fst c \<le> s" "0 \<le> s" "s \<le> t"
    using snoc.prems by (auto simp: clocked_def sorted_append c)
  let ?rs = "rl_run w calls (\<lambda>_. None)"
  have run: "rl_run w (calls @ [c]) (\<lambda>_. None) = snd (allow s w k' l ?rs)"
    by (simp add: rl_run_def c)
  show ?case
  proof (cases "k' = k")
    case False
    then have "rl_run w (calls @ [c]) (\<lambda>_. None) k = ?rs k" by (simp add: run allow_def Let_def)
    moreover have "key_times k (calls @ [c]) = key_times k calls" using False by (simp add: key_times_def c)
    moreover have "\<forall>c \<in> set calls. fst c \<le> t" using cl(2,4) by auto
    ultimately show ?thesis using snoc.IH[OF cl(1)] by simp
  next
    case True
    let ?kept = "in_window w s (key_times k calls)"
    have b: "rl_run w (calls @ [c]) (\<lambda>_. None) k
        = Some \<lparr>bk_scores = ?kept @ [s], bk_deadline = s + w * 1000000\<rparr>"
      using True assms(1) snoc.IH[OF cl(1,2)] by (simp add: run allow_def Let_def)
    have kt: "key_times k (calls @ [c]) = key_times k calls @ [s]" using True by (simp add: key_times_def c)
    have le: "\<forall>x \<in> set (key_times k calls). 0 \<le> x \<and> x \<le> s"
      using cl(1,2) by (auto simp: key_times_def clocked_def)
    have twice: "filter (\<lambda>x. \<not> (0 \<le> x \<and> x \<le> t - w * 1000000)) ?kept = in_window w t (key_times k calls)"
      unfolding in_window_def filter_filter using le cl(4) by (intro filter_cong) auto
    show ?thesis
    proof (cases "s + w * 1000000 \<le> t")
      case True
      have "in_window w t (key_times k calls @ [s]) = []"
        using True le by (fastforce simp: in_window_def filter_empty_conv)
      with True show ?thesis by (simp add: b kt live_scores_def)
    next
      case False
      with twice cl(3) show ?thesis by (auto simp: b kt live_scores_def in_window_def)
    qed
  qed
qed

text \<open>
  C26: the limiter is the sliding window it is meant to be. Over any history of calls on any keys, with
  a clock that does not run backwards, the transaction on the sorted set (trimming, expiry of idle
  keys included) answers exactly the reference: a call is allowed when it and the calls for the
  same key in the window before it, refused ones included, are at most the limit.
\<close>

theorem rate_limit_exact:
  assumes "0 < w" "clocked (calls @ [(t, k, limit)])"
  shows "fst (allow t w k limit (rl_run w calls (\<lambda>_. None)))
    = (int (length (in_window w t (key_times k calls))) + 1 \<le> limit)"
proof -
  have "clocked calls" "\<forall>c \<in> set calls. fst c \<le> t"
    using assms(2) by (auto simp: clocked_def sorted_append)
  from rl_scores[OF assms(1) this, of k] show ?thesis by (simp add: allow_def Let_def add.commute)
qed

text \<open>Two calls in the second before are within a limit of 3, and the minute-old one is not counted.\<close>

theorem rate_limit_exact_witness:
  "fst (allow 61000000 60 ''k'' 3 (rl_run 60 [(1000000, ''k'', 3), (60000000, ''k'', 3), (60500000, ''q'', 3), (60500000, ''k'', 3)] (\<lambda>_. None)))
    \<and> length (in_window 60 61000000 (key_times ''k'' [(1000000, ''k'', 3), (60000000, ''k'', 3), (60500000, ''q'', 3), (60500000, ''k'', 3)])) = 2"
  using rate_limit_exact[of 60 "[(1000000, ''k'', 3), (60000000, ''k'', 3), (60500000, ''q'', 3), (60500000, ''k'', 3)]"
      61000000 "''k''" 3]
  by (simp add: clocked_def key_times_def in_window_def)

section \<open>Who gets in again\<close>

text \<open>A caller that repeats its call every \<^verbatim>\<open>d\<close> microseconds.\<close>

definition retries :: "string \<Rightarrow> int \<Rightarrow> int \<Rightarrow> nat \<Rightarrow> rl_call list" where
  "retries k limit d n = map (\<lambda>i. (int i * d, k, limit)) [0..<n]"

lemma retries_clocked: "0 \<le> d \<Longrightarrow> clocked (retries k limit d n)"
  unfolding clocked_def retries_def by (auto simp: sorted_iff_nth_mono mult_right_mono)

lemma retries_times: "key_times k (retries k limit d n) = map (\<lambda>i. int i * d) [0..<n]"
  by (simp add: key_times_def retries_def comp_def)

text \<open>Of calls spaced by \<^verbatim>\<open>d\<close>, the last \<^verbatim>\<open>m\<close> lie in the window as long as \<^verbatim>\<open>m\<close> spacings do.\<close>

lemma retries_recent:
  assumes "0 < d" "int m * d < w * 1000000"
  shows "min m n \<le> length (in_window w (int n * d) (map (\<lambda>i. int i * d) [0..<n]))"
proof -
  have recent: "int n * d - w * 1000000 < int i * d" if "n - m \<le> i" for i
  proof -
    have "(int n - int i) * d \<le> int m * d" using that assms(1) by (intro mult_right_mono) auto
    with assms(2) show ?thesis by (simp add: left_diff_distrib)
  qed
  have "map (\<lambda>i. int i * d) [0..<n] = map (\<lambda>i. int i * d) [0..<n - m] @ map (\<lambda>i. int i * d) [n - m..<n]"
    by (simp flip: map_append add: upt_add_eq_append[of 0 "n - m" "n - (n - m)", simplified])
  moreover have "in_window w (int n * d) (map (\<lambda>i. int i * d) [n - m..<n]) = map (\<lambda>i. int i * d) [n - m..<n]"
    unfolding in_window_def by (rule filter_True) (use recent in auto)
  ultimately show ?thesis by (simp add: in_window_def)
qed

text \<open>
  C40: Refused calls count too: a caller that keeps repeating its call often enough that more than the limit fall into
  one window gets the first calls through, as many as the limit, and then none, however long it goes on;
  after it has been silent for one window its next call is answered again, so nobody is shut out for
  good.
\<close>

theorem retries_starve_then_reopen:
  assumes "0 < w" "0 < d" "1 \<le> limit" "int limit * d < w * 1000000"
  shows "fst (allow (int n * d) w k (int limit) (rl_run w (retries k (int limit) d n) (\<lambda>_. None))) = (n < limit)
    \<and> fst (allow (int n * d + w * 1000000) w k (int limit) (rl_run w (retries k (int limit) d n) (\<lambda>_. None)))"
proof -
  let ?rs = "rl_run w (retries k (int limit) d n) (\<lambda>_. None)"
  have cl: "clocked (retries k (int limit) d n)" using assms(2) by (simp add: retries_clocked)
  have before: "\<forall>c \<in> set (retries k (int limit) d n). fst c \<le> t" if "int n * d \<le> t" for t
  proof
    fix c assume "c \<in> set (retries k (int limit) d n)"
    then have "\<exists>i. fst c = int i * d \<and> i < n" unfolding retries_def by auto
    then obtain i where i: "fst c = int i * d" "i < n" by blast
    have "int i * d \<le> int n * d" using i(2) assms(2) by (intro mult_right_mono) auto
    with i that show "fst c \<le> t" by simp
  qed
  have answer: "fst (allow t w k (int limit) ?rs) \<longleftrightarrow> Suc (length (in_window w t (map (\<lambda>i. int i * d) [0..<n]))) \<le> limit"
    if "int n * d \<le> t" for t
    using rl_scores[OF assms(1) cl before[OF that], of k] by (simp add: allow_def Let_def retries_times)
  have "length (in_window w (int n * d) (map (\<lambda>i. int i * d) [0..<n])) \<le> n"
    unfolding in_window_def by (rule order_trans[OF length_filter_le]) simp
  with retries_recent[OF assms(2,4), of n] have now: "fst (allow (int n * d) w k (int limit) ?rs) = (n < limit)"
    unfolding answer[OF order_refl] by (cases "limit \<le> n") auto
  have "in_window w (int n * d + w * 1000000) (map (\<lambda>i. int i * d) [0..<n]) = []"
  proof -
    have "int i * d \<le> int n * d" if "i < n" for i using that assms(2) by (intro mult_right_mono) auto
    then show ?thesis unfolding in_window_def by (auto simp: filter_empty_conv not_less)
  qed
  with answer[of "int n * d + w * 1000000"] assms(1,3) have "fst (allow (int n * d + w * 1000000) w k (int limit) ?rs)" by simp
  with now show ?thesis by blast
qed

text \<open>Four calls per second against a limit of 3 per minute: the hundredth is refused, one after a silent minute is not.\<close>

theorem retries_starve_then_reopen_witness:
  "\<not> fst (allow 25000000 60 ''k'' 3 (rl_run 60 (retries ''k'' 3 250000 100) (\<lambda>_. None)))
   \<and> fst (allow 85000000 60 ''k'' 3 (rl_run 60 (retries ''k'' 3 250000 100) (\<lambda>_. None)))"
  using retries_starve_then_reopen[of 60 250000 3 100 "''k''"] by simp

end
