(* ===== verification/ChatTools.thy ===== *)
theory ChatTools
  imports Config Store
begin

text \<open>
  The tool registry of \<^verbatim>\<open>app/chat/tools.py\<close>: names and their transport names, the argument models with
  \<^verbatim>\<open>validate_tool_args\<close>, the gates that choose the tools offered to the provider, the catalogue and
  the OpenAI serialisation. The argument models are Pydantic classes: the field constraints and
  validators the classes state are definitions here; Pydantic's own coercion of a number or a
  numeric string to \<^verbatim>\<open>int\<close> and the JSON Schema it derives from a model are parameters.
\<close>

section \<open>Names\<close>

definition TOOL_SITE_WRITE_FILE :: string where "TOOL_SITE_WRITE_FILE = ''site.write_file''"
definition TOOL_SITE_PREVIEW :: string where "TOOL_SITE_PREVIEW = ''site.preview''"
definition TOOL_SITE_LIST :: string where "TOOL_SITE_LIST = ''site.list''"
definition TOOL_SITE_READ :: string where "TOOL_SITE_READ = ''site.read''"
definition TOOL_SITE_DELETE :: string where "TOOL_SITE_DELETE = ''site.delete''"
definition TOOL_TIME_NOW :: string where "TOOL_TIME_NOW = ''time.now''"
definition TOOL_QUIZ_GENERATE :: string where "TOOL_QUIZ_GENERATE = ''quiz.generate''"
definition TOOL_IMAGE_GENERATE :: string where "TOOL_IMAGE_GENERATE = ''image.generate''"

lemmas tool_names = TOOL_SITE_WRITE_FILE_def TOOL_SITE_PREVIEW_def TOOL_SITE_LIST_def TOOL_SITE_READ_def
  TOOL_SITE_DELETE_def TOOL_TIME_NOW_def TOOL_QUIZ_GENERATE_def TOOL_IMAGE_GENERATE_def

definition SERVER_SIDE_TOOLS :: "string list" where
  "SERVER_SIDE_TOOLS = [TOOL_SITE_WRITE_FILE, TOOL_SITE_PREVIEW, TOOL_SITE_LIST, TOOL_SITE_READ, TOOL_SITE_DELETE]"

definition GLOBAL_SERVER_SIDE_TOOLS :: "string list" where
  "GLOBAL_SERVER_SIDE_TOOLS = [TOOL_TIME_NOW, TOOL_QUIZ_GENERATE, TOOL_IMAGE_GENERATE]"

definition ALL_TOOL_NAMES :: "string list" where
  "ALL_TOOL_NAMES = SERVER_SIDE_TOOLS @ GLOBAL_SERVER_SIDE_TOOLS"

definition MUTATING_TOOLS :: "string list" where
  "MUTATING_TOOLS = [TOOL_SITE_WRITE_FILE, TOOL_SITE_DELETE, TOOL_IMAGE_GENERATE]"

definition DOMAIN_TO_ANTHROPIC :: "(string \<times> string) list" where
  "DOMAIN_TO_ANTHROPIC = [(TOOL_SITE_WRITE_FILE, ''site_write_file''), (TOOL_SITE_PREVIEW, ''site_preview''),
     (TOOL_SITE_LIST, ''site_list''), (TOOL_SITE_READ, ''site_read''), (TOOL_SITE_DELETE, ''site_delete''),
     (TOOL_TIME_NOW, ''time_now''), (TOOL_QUIZ_GENERATE, ''quiz_generate''), (TOOL_IMAGE_GENERATE, ''image_generate'')]"

definition ANTHROPIC_TO_DOMAIN :: "(string \<times> string) list" where
  "ANTHROPIC_TO_DOMAIN = map (\<lambda>(d, a). (a, d)) DOMAIN_TO_ANTHROPIC"

text \<open>\<^verbatim>\<open>None\<close> where \<^verbatim>\<open>UnknownToolNameError\<close> is raised.\<close>

definition to_anthropic_tool_name :: "string \<Rightarrow> string option" where
  "to_anthropic_tool_name d = map_of DOMAIN_TO_ANTHROPIC d"

definition to_domain_tool_name :: "string \<Rightarrow> string option" where
  "to_domain_tool_name a = map_of ANTHROPIC_TO_DOMAIN a"

text \<open>What both providers accept as a tool name: \<^verbatim>\<open>^[a-zA-Z0-9_-]{1,64}$\<close>.\<close>

definition transport_char :: "char \<Rightarrow> bool" where
  "transport_char c = (let n = (of_char c :: nat) in (48 \<le> n \<and> n \<le> 57) \<or> (65 \<le> n \<and> n \<le> 90)
     \<or> (97 \<le> n \<and> n \<le> 122) \<or> n = 95 \<or> n = 45)"

definition transport_name :: "string \<Rightarrow> bool" where
  "transport_name s = (s \<noteq> [] \<and> length s \<le> 64 \<and> list_all transport_char s)"

text \<open>
  the name table is a bijection between the registered tools and legal transport names. Every
  registered tool has a transport name that both providers accept, nothing else has one, and each
  direction undoes the other, so a name the model returns is the tool that was offered.
\<close>

lemma tool_name_roundtrip:
  "(to_anthropic_tool_name d = Some a) = (to_domain_tool_name a = Some d)
   \<and> (to_anthropic_tool_name d \<noteq> None) = (d \<in> set ALL_TOOL_NAMES)
   \<and> list_all (\<lambda>(d, a). transport_name a) DOMAIN_TO_ANTHROPIC"
proof -
  have "list_all (\<lambda>(d, a). transport_name a) DOMAIN_TO_ANTHROPIC" by code_simp
  moreover have "(to_anthropic_tool_name d \<noteq> None) = (d \<in> set ALL_TOOL_NAMES)"
    by (simp add: to_anthropic_tool_name_def DOMAIN_TO_ANTHROPIC_def ALL_TOOL_NAMES_def SERVER_SIDE_TOOLS_def
        GLOBAL_SERVER_SIDE_TOOLS_def map_of_eq_None_iff tool_names)
  moreover have "distinct (map fst DOMAIN_TO_ANTHROPIC)" "distinct (map fst ANTHROPIC_TO_DOMAIN)"
    by (simp_all add: DOMAIN_TO_ANTHROPIC_def ANTHROPIC_TO_DOMAIN_def tool_names)
  then have "(to_anthropic_tool_name d = Some a) = (to_domain_tool_name a = Some d)"
    by (auto simp: to_anthropic_tool_name_def to_domain_tool_name_def ANTHROPIC_TO_DOMAIN_def
        dest: map_of_SomeD intro: map_of_is_SomeI)
  ultimately show ?thesis by blast
qed

section \<open>Argument models\<close>

definition has_dotdot :: "string \<Rightarrow> bool" where
  "has_dotdot value = (''..'' \<in> set (split_on CHR ''/'' (map (\<lambda>c. if c = CHR 0x5C then CHR ''/'' else c) value)))"

text \<open>A model accepts a dictionary that has only its fields (\<^verbatim>\<open>extra='forbid'\<close>); \<^verbatim>\<open>None\<close> where validation
  raises, the dump of the model otherwise. A \<^verbatim>\<open>str\<close> field takes strings only.\<close>

definition only_keys :: "string list \<Rightarrow> dict \<Rightarrow> bool" where
  "only_keys ks kvs = list_all (\<lambda>(k, v). k \<in> set ks) kvs"

definition str_field :: "dict \<Rightarrow> string \<Rightarrow> string option" where
  "str_field kvs k = (case map_of kvs k of Some (JStr s) \<Rightarrow> Some s | _ \<Rightarrow> None)"

definition opt_str_field :: "dict \<Rightarrow> string \<Rightarrow> string option option" where
  "opt_str_field kvs k = (case map_of kvs k of None \<Rightarrow> Some None | Some JNull \<Rightarrow> Some None
     | Some (JStr s) \<Rightarrow> Some (Some s) | _ \<Rightarrow> None)"

definition safe_path_field :: "dict \<Rightarrow> string option" where
  "safe_path_field kvs = (case str_field kvs ''path'' of
     Some p \<Rightarrow> if p = [] \<or> has_dotdot p then None else Some p | None \<Rightarrow> None)"

definition SiteWriteFileArgs :: "dict \<Rightarrow> dict option" where
  "SiteWriteFileArgs kvs = (if \<not> only_keys [''path'', ''content'', ''contentType'', ''encoding''] kvs then None
     else (case (safe_path_field kvs, str_field kvs ''content'', str_field kvs ''contentType'', str_field kvs ''encoding'') of
       (Some p, Some c, Some ct, Some e) \<Rightarrow> if e = ''utf8'' \<or> e = ''base64''
         then Some [(''path'', JStr p), (''content'', JStr c), (''contentType'', JStr ct), (''encoding'', JStr e)]
         else None
     | _ \<Rightarrow> None))"

definition SitePreviewArgs :: "dict \<Rightarrow> dict option" where
  "SitePreviewArgs kvs = (if \<not> only_keys [''entry''] kvs then None
     else map_option (\<lambda>e. [(''entry'', opt_str e)]) (opt_str_field kvs ''entry''))"

definition SiteListArgs :: "dict \<Rightarrow> dict option" where
  "SiteListArgs kvs = (if only_keys [] kvs then Some [] else None)"

definition SiteReadArgs :: "dict \<Rightarrow> dict option" where
  "SiteReadArgs kvs = (if \<not> only_keys [''path''] kvs then None
     else map_option (\<lambda>p. [(''path'', JStr p)]) (safe_path_field kvs))"

definition SiteDeleteArgs :: "dict \<Rightarrow> dict option" where
  "SiteDeleteArgs kvs = SiteReadArgs kvs"

definition TIME_NOW_TZ_MAX_LENGTH :: nat where "TIME_NOW_TZ_MAX_LENGTH = 64"

definition TimeNowArgs :: "dict \<Rightarrow> dict option" where
  "TimeNowArgs kvs = (if \<not> only_keys [''tz''] kvs then None
     else map_option (\<lambda>z. [(''tz'', opt_str z)]) (opt_str_field kvs ''tz''))"

definition QUIZ_QUESTION_MAX_LENGTH :: nat where "QUIZ_QUESTION_MAX_LENGTH = 1000"
definition QUIZ_OPTION_MAX_LENGTH :: nat where "QUIZ_OPTION_MAX_LENGTH = 400"
definition QUIZ_EXPLANATION_MAX_LENGTH :: nat where "QUIZ_EXPLANATION_MAX_LENGTH = 2000"
definition QUIZ_MIN_OPTIONS :: nat where "QUIZ_MIN_OPTIONS = 2"
definition QUIZ_MAX_OPTIONS :: nat where "QUIZ_MAX_OPTIONS = 10"
definition QUIZ_MIN_QUESTIONS :: nat where "QUIZ_MIN_QUESTIONS = 3"
definition QUIZ_MAX_QUESTIONS :: nat where "QUIZ_MAX_QUESTIONS = 10"

text \<open>The lax integer of Pydantic: integers as they are, floats and strings as the parameter reads
  them. A \<^verbatim>\<open>bool\<close> is refused by the validator that runs before.\<close>

definition index_field :: "(json \<Rightarrow> int option) \<Rightarrow> dict \<Rightarrow> int option" where
  "index_field lax kvs = (case map_of kvs ''correctIndex'' of
     Some (JInt i) \<Rightarrow> Some i | Some (JStr s) \<Rightarrow> lax (JStr s) | Some (JFloat f) \<Rightarrow> lax (JFloat f) | _ \<Rightarrow> None)"

definition capped :: "nat \<Rightarrow> string option \<Rightarrow> string option" where
  "capped n s = (case s of Some t \<Rightarrow> if 1 \<le> length t \<and> length t \<le> n then Some t else None | None \<Rightarrow> None)"

definition option_texts :: "json list \<Rightarrow> string list option" where
  "option_texts vs = those (map (\<lambda>v. case v of JStr s \<Rightarrow> capped QUIZ_OPTION_MAX_LENGTH (Some s) | _ \<Rightarrow> None) vs)"

definition options_field :: "dict \<Rightarrow> string list option" where
  "options_field kvs = (case map_of kvs ''options'' of
     Some (JArr vs) \<Rightarrow> if QUIZ_MIN_OPTIONS \<le> length vs \<and> length vs \<le> QUIZ_MAX_OPTIONS then option_texts vs else None
   | _ \<Rightarrow> None)"

definition QuizQuestionArgs :: "(json \<Rightarrow> int option) \<Rightarrow> json \<Rightarrow> dict option" where
  "QuizQuestionArgs lax v = (case v of
     JObj kvs \<Rightarrow> if \<not> only_keys [''question'', ''options'', ''correctIndex'', ''explanation''] kvs then None
       else (case (capped QUIZ_QUESTION_MAX_LENGTH (str_field kvs ''question''),
                   options_field kvs, index_field lax kvs,
                   capped QUIZ_EXPLANATION_MAX_LENGTH (str_field kvs ''explanation'')) of
           (Some q, Some opts, Some i, Some e) \<Rightarrow> if 0 \<le> i \<and> i < int (length opts)
             then Some [(''question'', JStr q), (''options'', JArr (map JStr opts)), (''correctIndex'', JInt i),
                        (''explanation'', JStr e)]
             else None
         | _ \<Rightarrow> None)
   | _ \<Rightarrow> None)"

definition QuizGenerateArgs :: "(json \<Rightarrow> int option) \<Rightarrow> dict \<Rightarrow> dict option" where
  "QuizGenerateArgs lax kvs = (if \<not> only_keys [''questions''] kvs then None
     else (case map_of kvs ''questions'' of
       Some (JArr vs) \<Rightarrow> if QUIZ_MIN_QUESTIONS \<le> length vs \<and> length vs \<le> QUIZ_MAX_QUESTIONS
         then map_option (\<lambda>qs. [(''questions'', JArr (map JObj qs))]) (those (map (QuizQuestionArgs lax) vs))
         else None
     | _ \<Rightarrow> None))"

definition IMAGE_PROMPT_MAX_LENGTH :: nat where "IMAGE_PROMPT_MAX_LENGTH = 4000"

definition ImageGenerateArgs :: "dict \<Rightarrow> dict option" where
  "ImageGenerateArgs kvs = (if \<not> only_keys [''prompt'', ''size'', ''quality''] kvs then None
     else (case (capped IMAGE_PROMPT_MAX_LENGTH (str_field kvs ''prompt''), opt_str_field kvs ''size'', opt_str_field kvs ''quality'') of
       (Some p, Some s, Some q) \<Rightarrow>
         if (case s of Some x \<Rightarrow> x \<in> IMAGE_SIZE_VALUES | None \<Rightarrow> True)
            \<and> (case q of Some x \<Rightarrow> x \<in> IMAGE_QUALITY_VALUES | None \<Rightarrow> True)
         then Some [(''prompt'', JStr p), (''size'', opt_str s), (''quality'', opt_str q)] else None
     | _ \<Rightarrow> None))"

definition ARGS_BY_TOOL :: "(json \<Rightarrow> int option) \<Rightarrow> (string \<times> (dict \<Rightarrow> dict option)) list" where
  "ARGS_BY_TOOL lax = [(TOOL_SITE_WRITE_FILE, SiteWriteFileArgs), (TOOL_SITE_PREVIEW, SitePreviewArgs),
     (TOOL_SITE_LIST, SiteListArgs), (TOOL_SITE_READ, SiteReadArgs), (TOOL_SITE_DELETE, SiteDeleteArgs),
     (TOOL_TIME_NOW, TimeNowArgs), (TOOL_QUIZ_GENERATE, QuizGenerateArgs lax), (TOOL_IMAGE_GENERATE, ImageGenerateArgs)]"

definition validate_tool_args :: "(json \<Rightarrow> int option) \<Rightarrow> string \<Rightarrow> dict \<Rightarrow> dict option" where
  "validate_tool_args lax name args = (case map_of (ARGS_BY_TOOL lax) name of None \<Rightarrow> None | Some model \<Rightarrow> model args)"


section \<open>What validation guarantees\<close>

lemma those_map_Some: "those (map f xs) = Some ys \<longleftrightarrow> list_all2 (\<lambda>x y. f x = Some y) xs ys"
proof (induction xs arbitrary: ys)
  case (Cons x xs)
  show ?case
    by (cases ys; cases "f x") (auto simp: Cons.IH[symmetric] split: option.splits)
qed auto

lemma those_map_again:
  assumes "those (map f xs) = Some ys" "\<And>x y. f x = Some y \<Longrightarrow> f (g y) = Some y"
  shows "those (map f (map g ys)) = Some ys"
  using assms by (auto simp: those_map_Some list_all2_conv_all_nth)

lemma those_length: "those xs = Some ys \<Longrightarrow> length ys = length xs"
  by (induction xs arbitrary: ys) (auto split: option.splits)

lemma capped_Some: "capped n s = Some t \<longleftrightarrow> s = Some t \<and> 1 \<le> length t \<and> length t \<le> n"
  by (auto simp: capped_def split: option.splits)

lemma option_texts_again: "option_texts vs = Some opts \<Longrightarrow> option_texts (map JStr opts) = Some opts"
  unfolding option_texts_def by (erule those_map_again) (auto simp: capped_Some split: json.splits)

lemma option_texts_all: "option_texts vs = Some opts \<Longrightarrow>
    list_all (\<lambda>t. 1 \<le> length t \<and> length t \<le> QUIZ_OPTION_MAX_LENGTH) opts \<and> length opts = length vs"
  unfolding option_texts_def those_map_Some
  by (induction vs opts rule: list_all2_induct) (auto simp: capped_Some split: json.splits)

lemma capped_ok: "1 \<le> length t \<Longrightarrow> length t \<le> n \<Longrightarrow> capped n (Some t) = Some t"
  by (simp add: capped_def)

lemma options_Some: "options_field kvs = Some opts \<longleftrightarrow> (\<exists>vs. map_of kvs ''options'' = Some (JArr vs)
    \<and> QUIZ_MIN_OPTIONS \<le> length vs \<and> length vs \<le> QUIZ_MAX_OPTIONS \<and> option_texts vs = Some opts)"
proof (cases "map_of kvs ''options''")
  case (Some v)
  then show ?thesis by (cases v) (auto simp: options_field_def)
qed (simp add: options_field_def)

lemma options_again: "options_field kvs = Some opts \<Longrightarrow>
    options_field ((''question'', q) # (''options'', JArr (map JStr opts)) # r) = Some opts"
  using option_texts_again[of _ opts] option_texts_all[of _ opts] by (auto simp: options_Some)

lemma quiz_question_again:
  assumes "QuizQuestionArgs lax v = Some q"
  shows "QuizQuestionArgs lax (JObj q) = Some q"
proof -
  obtain kvs where v: "v = JObj kvs" using assms by (cases v) (simp_all add: QuizQuestionArgs_def)
  obtain qn opts i e where *: "capped QUIZ_QUESTION_MAX_LENGTH (str_field kvs ''question'') = Some qn"
    "options_field kvs = Some opts" "capped QUIZ_EXPLANATION_MAX_LENGTH (str_field kvs ''explanation'') = Some e"
    "0 \<le> i" "i < int (length opts)"
    "q = [(''question'', JStr qn), (''options'', JArr (map JStr opts)), (''correctIndex'', JInt i), (''explanation'', JStr e)]"
    using assms unfolding QuizQuestionArgs_def v by (simp split: option.splits if_splits)
  have "capped QUIZ_QUESTION_MAX_LENGTH (Some qn) = Some qn" "capped QUIZ_EXPLANATION_MAX_LENGTH (Some e) = Some e"
    using *(1,3) by (auto simp: capped_Some)
  with *(4-6) show ?thesis
    by (simp add: QuizQuestionArgs_def only_keys_def str_field_def index_field_def options_again[OF *(2)])
qed

lemma quiz_args_again:
  assumes "QuizGenerateArgs lax kvs = Some d"
  shows "QuizGenerateArgs lax d = Some d"
proof -
  obtain vs qs where *: "those (map (QuizQuestionArgs lax) vs) = Some qs" "QUIZ_MIN_QUESTIONS \<le> length vs"
    "length vs \<le> QUIZ_MAX_QUESTIONS" "d = [(''questions'', JArr (map JObj qs))]"
    using assms unfolding QuizGenerateArgs_def by (auto split: json.splits option.splits if_splits)
  have "those (map (QuizQuestionArgs lax) (map JObj qs)) = Some qs"
    using *(1) quiz_question_again by (rule those_map_again)
  with * those_length[OF *(1)] show ?thesis by (simp add: QuizGenerateArgs_def only_keys_def)
qed

lemma opt_str_eq [simp]: "opt_str a = opt_str b \<longleftrightarrow> a = b"
  by (cases a; cases b) (simp_all add: opt_str_def)

lemma opt_str_again: "opt_str_field ((k, opt_str s) # kvs) k = Some s"
  by (cases s) (simp_all add: opt_str_field_def opt_str_def)

lemma opt_str_skip: "k \<noteq> k' \<Longrightarrow> opt_str_field ((k', v) # kvs) k = opt_str_field kvs k"
  by (simp add: opt_str_field_def)

lemma image_args_again: "ImageGenerateArgs kvs = Some d \<Longrightarrow> ImageGenerateArgs d = Some d"
proof -
  assume a: "ImageGenerateArgs kvs = Some d"
  then obtain p s q where "1 \<le> length p" "length p \<le> IMAGE_PROMPT_MAX_LENGTH"
    "case s of Some x \<Rightarrow> x \<in> IMAGE_SIZE_VALUES | None \<Rightarrow> True" "case q of Some x \<Rightarrow> x \<in> IMAGE_QUALITY_VALUES | None \<Rightarrow> True"
    "d = [(''prompt'', JStr p), (''size'', opt_str s), (''quality'', opt_str q)]"
    unfolding ImageGenerateArgs_def by (auto simp: capped_Some split: option.splits if_splits)
  then show ?thesis
    by (simp add: ImageGenerateArgs_def only_keys_def str_field_def capped_ok opt_str_again opt_str_skip)
qed

lemma write_args_Some: "SiteWriteFileArgs kvs = Some d \<longleftrightarrow> (\<exists>p c ct e.
    only_keys [''path'', ''content'', ''contentType'', ''encoding''] kvs \<and> safe_path_field kvs = Some p
    \<and> str_field kvs ''content'' = Some c \<and> str_field kvs ''contentType'' = Some ct
    \<and> str_field kvs ''encoding'' = Some e \<and> (e = ''utf8'' \<or> e = ''base64'')
    \<and> d = [(''path'', JStr p), (''content'', JStr c), (''contentType'', JStr ct), (''encoding'', JStr e)])"
  by (auto simp: SiteWriteFileArgs_def split: option.splits)

lemma safe_path_Some: "safe_path_field kvs = Some p \<longleftrightarrow> str_field kvs ''path'' = Some p \<and> p \<noteq> [] \<and> \<not> has_dotdot p"
  by (auto simp: safe_path_field_def split: option.splits)

lemma write_args_again: "SiteWriteFileArgs kvs = Some d \<Longrightarrow> SiteWriteFileArgs d = Some d"
  unfolding write_args_Some by (elim exE conjE) (simp add: only_keys_def safe_path_Some str_field_def)

lemma read_args_again: "SiteReadArgs kvs = Some d \<Longrightarrow> SiteReadArgs d = Some d"
  by (auto simp: SiteReadArgs_def only_keys_def safe_path_Some str_field_def split: if_splits)

lemma site_args_again:
  "SitePreviewArgs kvs = Some d \<Longrightarrow> SitePreviewArgs d = Some d"
  "SiteListArgs kvs = Some d \<Longrightarrow> SiteListArgs d = Some d"
  "SiteDeleteArgs kvs = Some d \<Longrightarrow> SiteDeleteArgs d = Some d"
  "TimeNowArgs kvs = Some d \<Longrightarrow> TimeNowArgs d = Some d"
  using read_args_again
  by (auto simp: SitePreviewArgs_def SiteListArgs_def SiteDeleteArgs_def TimeNowArgs_def only_keys_def opt_str_again
      split: if_splits)

lemma validate_again:
  assumes "validate_tool_args lax name args = Some d"
  shows "validate_tool_args lax name d = Some d"
proof -
  obtain model where m: "map_of (ARGS_BY_TOOL lax) name = Some model" "model args = Some d"
    using assms by (auto simp: validate_tool_args_def split: option.splits)
  from m(1) have "model d = Some d"
    using m(2) write_args_again read_args_again site_args_again image_args_again quiz_args_again
    by (auto simp: ARGS_BY_TOOL_def split: if_splits)
  with m(1) show ?thesis by (simp add: validate_tool_args_def)
qed

lemma validate_known: "validate_tool_args lax name args = Some d \<Longrightarrow> name \<in> set ALL_TOOL_NAMES"
  by (auto simp: validate_tool_args_def ARGS_BY_TOOL_def ALL_TOOL_NAMES_def SERVER_SIDE_TOOLS_def
      GLOBAL_SERVER_SIDE_TOOLS_def split: option.splits if_splits)

text \<open>The shape of a validated dump: which keys it has, in which order, and the type of each value.\<close>

fun json_kind :: "json \<Rightarrow> string" where
  "json_kind JNull = ''null''"
| "json_kind (JStr s) = ''str''"
| "json_kind (JArr vs) = ''list''"
| "json_kind (JObj kvs) = ''dict''"
| "json_kind (JBool b) = ''bool''"
| "json_kind (JInt i) = ''int''"
| "json_kind (JFloat f) = ''float''"

definition args_shape :: "string \<Rightarrow> (string \<times> string list) list" where
  "args_shape name =
     (if name = TOOL_SITE_WRITE_FILE then
        [(''path'', [''str'']), (''content'', [''str'']), (''contentType'', [''str'']), (''encoding'', [''str''])]
      else if name = TOOL_SITE_PREVIEW then [(''entry'', [''str'', ''null''])]
      else if name = TOOL_SITE_LIST then []
      else if name = TOOL_SITE_READ \<or> name = TOOL_SITE_DELETE then [(''path'', [''str''])]
      else if name = TOOL_TIME_NOW then [(''tz'', [''str'', ''null''])]
      else if name = TOOL_QUIZ_GENERATE then [(''questions'', [''list''])]
      else [(''prompt'', [''str'']), (''size'', [''str'', ''null'']), (''quality'', [''str'', ''null''])])"

definition has_shape :: "(string \<times> string list) list \<Rightarrow> dict \<Rightarrow> bool" where
  "has_shape sh d = list_all2 (\<lambda>(k, ts) (k', v). k' = k \<and> json_kind v \<in> set ts) sh d"

lemma opt_str_kind [simp]: "json_kind (opt_str s) \<in> {''str'', ''null''}"
  by (cases s) (simp_all add: opt_str_def)

lemma opt_str_kinds [simp]: "json_kind (opt_str s) = ''str'' \<or> json_kind (opt_str s) = ''null''"
  by (cases s) (simp_all add: opt_str_def)

lemma validate_shape:
  assumes "validate_tool_args lax name args = Some d"
  shows "has_shape (args_shape name) d"
proof -
  obtain model where m: "map_of (ARGS_BY_TOOL lax) name = Some model" "model args = Some d"
    using assms by (auto simp: validate_tool_args_def split: option.splits)
  from m(1) have "(name, model) \<in> set (ARGS_BY_TOOL lax)" by (rule map_of_SomeD)
  then have n: "(name = TOOL_SITE_WRITE_FILE \<and> model = SiteWriteFileArgs) \<or> (name = TOOL_SITE_PREVIEW \<and> model = SitePreviewArgs)
      \<or> (name = TOOL_SITE_LIST \<and> model = SiteListArgs) \<or> (name = TOOL_SITE_READ \<and> model = SiteReadArgs)
      \<or> (name = TOOL_SITE_DELETE \<and> model = SiteDeleteArgs) \<or> (name = TOOL_TIME_NOW \<and> model = TimeNowArgs)
      \<or> (name = TOOL_QUIZ_GENERATE \<and> model = QuizGenerateArgs lax) \<or> (name = TOOL_IMAGE_GENERATE \<and> model = ImageGenerateArgs)"
    by (simp add: ARGS_BY_TOOL_def)
  have "SiteWriteFileArgs args = Some d \<Longrightarrow> has_shape (args_shape TOOL_SITE_WRITE_FILE) d"
    "SitePreviewArgs args = Some d \<Longrightarrow> has_shape (args_shape TOOL_SITE_PREVIEW) d"
    "SiteListArgs args = Some d \<Longrightarrow> has_shape (args_shape TOOL_SITE_LIST) d"
    "SiteReadArgs args = Some d \<Longrightarrow> has_shape (args_shape TOOL_SITE_READ) d"
    "SiteDeleteArgs args = Some d \<Longrightarrow> has_shape (args_shape TOOL_SITE_DELETE) d"
    "TimeNowArgs args = Some d \<Longrightarrow> has_shape (args_shape TOOL_TIME_NOW) d"
    "QuizGenerateArgs lax args = Some d \<Longrightarrow> has_shape (args_shape TOOL_QUIZ_GENERATE) d"
    "ImageGenerateArgs args = Some d \<Longrightarrow> has_shape (args_shape TOOL_IMAGE_GENERATE) d"
    by (auto simp: has_shape_def args_shape_def tool_names SiteWriteFileArgs_def SitePreviewArgs_def SiteListArgs_def
        SiteReadArgs_def SiteDeleteArgs_def TimeNowArgs_def QuizGenerateArgs_def ImageGenerateArgs_def
        split: option.splits if_splits json.splits)
  with n m(2) show ?thesis by auto
qed

text \<open>
  C27: validated tool arguments are well typed and stable. Whatever the model sent, arguments that pass
  have exactly the fields of the tool's model in order, each with a value of its type; paths are
  non-empty and have no \<^verbatim>\<open>..\<close> segment under either separator; and validating the dump again
  returns it unchanged, so the second validation of a quiz never refuses what the first accepted.
\<close>

theorem validated_args_typed:
  assumes "validate_tool_args lax name args = Some d"
  shows "name \<in> set ALL_TOOL_NAMES \<and> has_shape (args_shape name) d
    \<and> validate_tool_args lax name d = Some d
    \<and> (case map_of d ''path'' of Some (JStr p) \<Rightarrow> p \<noteq> [] \<and> \<not> has_dotdot p | _ \<Rightarrow> True)"
proof -
  obtain model where m: "map_of (ARGS_BY_TOOL lax) name = Some model" "model args = Some d"
    using assms by (auto simp: validate_tool_args_def split: option.splits)
  from m(1) have "(name, model) \<in> set (ARGS_BY_TOOL lax)" by (rule map_of_SomeD)
  then have "model \<in> {SiteWriteFileArgs, SitePreviewArgs, SiteListArgs, SiteReadArgs, SiteDeleteArgs, TimeNowArgs,
      QuizGenerateArgs lax, ImageGenerateArgs}" by (auto simp: ARGS_BY_TOOL_def)
  with m(2) have "case map_of d ''path'' of Some (JStr p) \<Rightarrow> p \<noteq> [] \<and> \<not> has_dotdot p | _ \<Rightarrow> True"
    by (auto simp: SiteWriteFileArgs_def SitePreviewArgs_def SiteListArgs_def
        SiteReadArgs_def SiteDeleteArgs_def TimeNowArgs_def QuizGenerateArgs_def ImageGenerateArgs_def
        safe_path_Some split: option.splits if_splits json.splits)
  then show ?thesis using validate_known[OF assms] validate_shape[OF assms] validate_again[OF assms] by blast
qed

theorem validated_args_typed_witness:
  "validate_tool_args (\<lambda>_. None) ''site.read'' [(''path'', JStr ''a/b'')] = Some [(''path'', JStr ''a/b'')]
   \<and> has_shape (args_shape ''site.read'') [(''path'', JStr ''a/b'')] \<and> \<not> has_dotdot ''a/b''"
proof -
  have v: "validate_tool_args (\<lambda>_. None) ''site.read'' [(''path'', JStr ''a/b'')] = Some [(''path'', JStr ''a/b'')]"
    by code_simp
  from validated_args_typed[OF v] v show ?thesis by simp
qed

section \<open>The offered tools and the catalogue\<close>

text \<open>What the registry takes from elsewhere: Pydantic's lax integer and the JSON Schema of each model,
  and the prose of \<^verbatim>\<open>TOOL_DESCRIPTIONS\<close>.\<close>

record tool_lib =
  tl_int :: "json \<Rightarrow> int option"
  tl_schema :: "string \<Rightarrow> dict"
  tl_description :: "string \<Rightarrow> string"

definition tool_input_schema :: "tool_lib \<Rightarrow> string \<Rightarrow> json" where
  "tool_input_schema lib name = JObj (filter (\<lambda>(k, v). k \<noteq> ''title'') (tl_schema lib name))"

definition registered :: "string list" where
  "registered = map fst (ARGS_BY_TOOL (\<lambda>_. None))"

definition is_client_side :: "string \<Rightarrow> bool" where
  "is_client_side name = (name \<notin> set SERVER_SIDE_TOOLS \<and> name \<notin> set GLOBAL_SERVER_SIDE_TOOLS)"

definition tool_catalog :: "tool_lib \<Rightarrow> json list" where
  "tool_catalog lib = map (\<lambda>name. JObj [(''name'', JStr name), (''description'', JStr (tl_description lib name)),
     (''mutating'', JBool (name \<in> set MUTATING_TOOLS)),
     (''execution'', JStr (if name \<in> set SERVER_SIDE_TOOLS \<or> name \<in> set GLOBAL_SERVER_SIDE_TOOLS then ''server'' else ''client'')),
     (''inputSchema'', tool_input_schema lib name)]) registered"

definition dialog_mode_excludes :: "string \<Rightarrow> dialog_mode option \<Rightarrow> bool" where
  "dialog_mode_excludes name dm = (name = TOOL_QUIZ_GENERATE \<and> dm \<noteq> Some DmStudyLearn)"

definition openai_key_missing_excludes :: "settings \<Rightarrow> string \<Rightarrow> bool" where
  "openai_key_missing_excludes cfg name =
     (if name \<noteq> TOOL_IMAGE_GENERATE then False else py_strip (openai_api_key cfg) = [])"

definition offered_tools :: "settings \<Rightarrow> bool \<Rightarrow> bool \<Rightarrow> dialog_mode option \<Rightarrow> string list" where
  "offered_tools cfg server client dm = filter (\<lambda>name.
     \<not> (\<not> server \<and> name \<in> set SERVER_SIDE_TOOLS) \<and> \<not> (\<not> client \<and> is_client_side name)
     \<and> \<not> dialog_mode_excludes name dm \<and> \<not> openai_key_missing_excludes cfg name) registered"

definition neutral_tool_definitions :: "tool_lib \<Rightarrow> settings \<Rightarrow> bool \<Rightarrow> bool \<Rightarrow> dialog_mode option \<Rightarrow> dict list" where
  "neutral_tool_definitions lib cfg server client dm = map (\<lambda>name. [(''name'', JStr name),
     (''description'', JStr (tl_description lib name)), (''input_schema'', tool_input_schema lib name)])
     (offered_tools cfg server client dm)"

text \<open>\<^verbatim>\<open>None\<close> where a name has no transport name.\<close>

definition anthropic_tool_definitions :: "tool_lib \<Rightarrow> settings \<Rightarrow> bool \<Rightarrow> bool \<Rightarrow> dialog_mode option \<Rightarrow> dict list option" where
  "anthropic_tool_definitions lib cfg server client dm = those (map (\<lambda>name.
     map_option (\<lambda>a. [(''name'', JStr a), (''description'', JStr (tl_description lib name)),
       (''input_schema'', tool_input_schema lib name)]) (to_anthropic_tool_name name)) (offered_tools cfg server client dm))"

lemma registered_all: "registered = ALL_TOOL_NAMES"
  by (simp add: registered_def ARGS_BY_TOOL_def ALL_TOOL_NAMES_def SERVER_SIDE_TOOLS_def GLOBAL_SERVER_SIDE_TOOLS_def)

lemma all_transport: "list_all (\<lambda>n. to_anthropic_tool_name n \<noteq> None) ALL_TOOL_NAMES"
  by code_simp

lemma no_client_tool: "name \<in> set registered \<Longrightarrow> \<not> is_client_side name"
  by (auto simp: registered_all is_client_side_def ALL_TOOL_NAMES_def)

text \<open>
  the provider is offered exactly the tools the turn may use, whatever the client flag: the
  registered tools, less the site tools when the session has no project, the quiz outside study
  mode and image generation on an instance without an OpenAI key; each once, and for the Anthropic
  wire each under its transport name, so serialisation cannot fail.
\<close>

lemma offered_tools_exact:
  "distinct (offered_tools cfg server client dm)
   \<and> n \<in> set (offered_tools cfg server client dm) =
      (n \<in> set ALL_TOOL_NAMES \<and> (if n \<in> set SERVER_SIDE_TOOLS then server else True)
       \<and> (if n = TOOL_QUIZ_GENERATE then dm = Some DmStudyLearn else True)
       \<and> (if n = TOOL_IMAGE_GENERATE then py_strip (openai_api_key cfg) \<noteq> [] else True))
   \<and> map (\<lambda>d. obj_get d ''name'') (neutral_tool_definitions lib cfg server client dm)
      = map JStr (offered_tools cfg server client dm)
   \<and> map_option (map (\<lambda>d. obj_get d ''name'')) (anthropic_tool_definitions lib cfg server client dm)
      = Some (map (\<lambda>n. JStr (the (to_anthropic_tool_name n))) (offered_tools cfg server client dm))"
proof -
  have "distinct registered"
    by (simp add: registered_all ALL_TOOL_NAMES_def SERVER_SIDE_TOOLS_def GLOBAL_SERVER_SIDE_TOOLS_def tool_names)
  then have "distinct (offered_tools cfg server client dm)" by (simp add: offered_tools_def)
  moreover have "n \<in> set (offered_tools cfg server client dm) =
      (n \<in> set ALL_TOOL_NAMES \<and> (if n \<in> set SERVER_SIDE_TOOLS then server else True)
       \<and> (if n = TOOL_QUIZ_GENERATE then dm = Some DmStudyLearn else True)
       \<and> (if n = TOOL_IMAGE_GENERATE then py_strip (openai_api_key cfg) \<noteq> [] else True))"
  proof (cases "n \<in> set registered")
    case True
    then have "\<not> is_client_side n" by (rule no_client_tool)
    with True show ?thesis
      by (simp add: offered_tools_def registered_all dialog_mode_excludes_def openai_key_missing_excludes_def)
  qed (simp add: offered_tools_def registered_all)
  moreover have "map (\<lambda>d. obj_get d ''name'') (neutral_tool_definitions lib cfg server client dm)
      = map JStr (offered_tools cfg server client dm)"
    by (simp add: neutral_tool_definitions_def obj_get_def)
  moreover have "\<forall>n \<in> set xs. to_anthropic_tool_name n \<noteq> None \<Longrightarrow>
      map_option (map (\<lambda>d. obj_get d ''name'')) (those (map (\<lambda>name.
        map_option (\<lambda>a. [(''name'', JStr a), (''description'', JStr (tl_description lib name)),
         (''input_schema'', tool_input_schema lib name)]) (to_anthropic_tool_name name)) xs))
      = Some (map (\<lambda>n. JStr (the (to_anthropic_tool_name n))) xs)" for xs
    by (induction xs) (auto simp: obj_get_def)
  moreover have "\<forall>n \<in> set (offered_tools cfg server client dm). to_anthropic_tool_name n \<noteq> None"
    using all_transport by (simp add: offered_tools_def registered_all list_all_iff)
  ultimately show ?thesis by (simp add: anthropic_tool_definitions_def)
qed

section \<open>OpenAI serialisation\<close>

definition OPENAI_STRICT_TOOLS :: "string list" where "OPENAI_STRICT_TOOLS = [TOOL_QUIZ_GENERATE]"

definition OPENAI_STRICT_ALLOWED_KEYWORDS :: "string list" where
  "OPENAI_STRICT_ALLOWED_KEYWORDS = [''type'', ''properties'', ''items'', ''required'', ''additionalProperties'',
     ''description'', ''enum'', ''const'', ''anyOf'', ''$ref'', ''$defs'']"

text \<open>\<^verbatim>\<open>None\<close> where Python raises (a \<^verbatim>\<open>properties\<close> that is no dictionary, an \<^verbatim>\<open>anyOf\<close> that cannot be
  iterated; a dictionary iterates its keys and a string its characters).\<close>

fun clean_for_openai_strict :: "json \<Rightarrow> json option"
  and clean_schema :: "dict \<Rightarrow> dict option"
  and clean_key :: "string \<Rightarrow> json \<Rightarrow> json option"
  and clean_values :: "dict \<Rightarrow> dict option"
  and clean_list :: "json list \<Rightarrow> json list option"
where
  "clean_for_openai_strict (JObj kvs) = map_option JObj (clean_schema kvs)"
| "clean_for_openai_strict JNull = Some JNull"
| "clean_for_openai_strict (JBool b) = Some (JBool b)"
| "clean_for_openai_strict (JInt i) = Some (JInt i)"
| "clean_for_openai_strict (JFloat f) = Some (JFloat f)"
| "clean_for_openai_strict (JStr s) = Some (JStr s)"
| "clean_for_openai_strict (JArr vs) = Some (JArr vs)"
| "clean_schema [] = Some []"
| "clean_schema ((k, v) # kvs) =
     (if k \<notin> set OPENAI_STRICT_ALLOWED_KEYWORDS then clean_schema kvs
      else (case clean_key k v of None \<Rightarrow> None | Some v' \<Rightarrow> map_option (Cons (k, v')) (clean_schema kvs)))"
| "clean_key k v =
     (if k = ''properties'' \<or> k = ''$defs'' then
        (case v of JObj m \<Rightarrow> map_option JObj (clean_values m) | _ \<Rightarrow> None)
      else if k = ''anyOf'' then
        (case v of JArr vs \<Rightarrow> map_option JArr (clean_list vs)
           | JObj m \<Rightarrow> Some (JArr (map (\<lambda>(k, v). JStr k) m))
           | JStr s \<Rightarrow> Some (JArr (map (\<lambda>c. JStr [c]) s)) | _ \<Rightarrow> None)
      else if k = ''items'' then
        (case v of JArr vs \<Rightarrow> map_option JArr (clean_list vs) | _ \<Rightarrow> clean_for_openai_strict v)
      else if k = ''additionalProperties'' then clean_for_openai_strict v
      else Some v)"
| "clean_values [] = Some []"
| "clean_values ((k, v) # kvs) = (case clean_for_openai_strict v of None \<Rightarrow> None
     | Some v' \<Rightarrow> map_option (Cons (k, v')) (clean_values kvs))"
| "clean_list [] = Some []"
| "clean_list (v # vs) = (case clean_for_openai_strict v of None \<Rightarrow> None
     | Some v' \<Rightarrow> map_option (Cons v') (clean_list vs))"

text \<open>\<^verbatim>\<open>None\<close> where a lookup or the name table raises.\<close>

definition openai_tool_function :: "dict \<Rightarrow> dict option" where
  "openai_tool_function d = (if obj_get d ''type'' = JStr ''function'' then Some d
     else (let name = (case obj_get d ''name'' of JStr n \<Rightarrow> n | _ \<Rightarrow> []); strict = name \<in> set OPENAI_STRICT_TOOLS in
       (case (if CHR ''.'' \<in> set name then to_anthropic_tool_name name else Some name,
              map_of d ''description'',
              (case map_of d ''input_schema'' of None \<Rightarrow> None
                 | Some ps \<Rightarrow> if strict then clean_for_openai_strict ps else Some ps)) of
          (Some fn, Some descr, Some ps) \<Rightarrow> Some [(''type'', JStr ''function''), (''name'', JStr fn),
             (''description'', descr), (''parameters'', ps), (''strict'', JBool strict)]
        | _ \<Rightarrow> None)))"

definition openai_tool_definitions :: "tool_lib \<Rightarrow> settings \<Rightarrow> bool \<Rightarrow> bool \<Rightarrow> dialog_mode option \<Rightarrow> dict list option" where
  "openai_tool_definitions lib cfg server client dm =
     those (map openai_tool_function (neutral_tool_definitions lib cfg server client dm))"

text \<open>A schema in the strict subset: every keyword position holds an allowed keyword.\<close>

fun strict_schema :: "json \<Rightarrow> bool"
  and strict_dict :: "dict \<Rightarrow> bool"
  and strict_key :: "string \<Rightarrow> json \<Rightarrow> bool"
  and strict_values :: "dict \<Rightarrow> bool"
  and strict_list :: "json list \<Rightarrow> bool"
where
  "strict_schema (JObj kvs) = strict_dict kvs"
| "strict_schema JNull = True"
| "strict_schema (JBool b) = True"
| "strict_schema (JInt i) = True"
| "strict_schema (JFloat f) = True"
| "strict_schema (JStr s) = True"
| "strict_schema (JArr vs) = True"
| "strict_dict [] = True"
| "strict_dict ((k, v) # kvs) = (k \<in> set OPENAI_STRICT_ALLOWED_KEYWORDS \<and> strict_key k v \<and> strict_dict kvs)"
| "strict_key k v =
     (if k = ''properties'' \<or> k = ''$defs'' then (case v of JObj m \<Rightarrow> strict_values m | _ \<Rightarrow> False)
      else if k = ''anyOf'' then (case v of JArr vs \<Rightarrow> strict_list vs | _ \<Rightarrow> False)
      else if k = ''items'' then (case v of JArr vs \<Rightarrow> strict_list vs | _ \<Rightarrow> strict_schema v)
      else if k = ''additionalProperties'' then strict_schema v else True)"
| "strict_values [] = True"
| "strict_values ((k, v) # kvs) = (strict_schema v \<and> strict_values kvs)"
| "strict_list [] = True"
| "strict_list (v # vs) = (strict_schema v \<and> strict_list vs)"

lemma strict_list_strs: "strict_list (map (\<lambda>(k, v). JStr k) m) \<and> strict_list (map (\<lambda>c. JStr [c]) s)"
  by (induction m; induction s) auto

lemma clean_strict:
  "clean_for_openai_strict v = Some v' \<Longrightarrow> strict_schema v'"
  "clean_schema kvs = Some kvs' \<Longrightarrow> strict_dict kvs'"
  "clean_key k v = Some v' \<Longrightarrow> strict_key k v'"
  "clean_values ms = Some ms' \<Longrightarrow> strict_values ms'"
  "clean_list vs = Some vs' \<Longrightarrow> strict_list vs'"
proof (induction v and kvs and k v and ms and vs arbitrary: v' and kvs' and v' and ms' and vs'
    rule: clean_for_openai_strict_clean_schema_clean_key_clean_values_clean_list.induct)
  case (9 k v kvs)
  then show ?case by (auto simp del: clean_key.simps strict_key.simps split: if_splits option.splits)
next
  case (10 k v)
  note IH = "10.IH" and P = "10.prems"
  consider "k = ''properties'' \<or> k = ''$defs''" | "k = ''anyOf''" | "k = ''items''" | "k = ''additionalProperties''"
    | "k \<notin> {''properties'', ''$defs'', ''anyOf'', ''items'', ''additionalProperties''}" by blast
  then show ?case
  proof cases
    case 1
    then have "v = JObj m \<Longrightarrow> clean_values m = Some z \<Longrightarrow> strict_values z" for m z using IH(1) by blast
    with 1 P show ?thesis by (cases v) auto
  next
    case 2
    then have "v = JArr m \<Longrightarrow> clean_list m = Some z \<Longrightarrow> strict_list z" for m z using IH(2) by simp
    with 2 P show ?thesis by (cases v) (auto simp: strict_list_strs)
  next
    case 3
    with P show ?thesis
    proof (cases "\<exists>vs. v = JArr vs")
      case True
      have "v = JArr m \<Longrightarrow> clean_list m = Some z \<Longrightarrow> strict_list z" for m z using IH(8) 3 by simp
      with True 3 P show ?thesis by auto
    next
      case False
      with 3 P have "clean_for_openai_strict v = Some v'" by (cases v) auto
      with 3 False have "strict_schema v'" using IH(3-7,9) by (cases v) auto
      moreover have "\<nexists>vs. v' = JArr vs" using \<open>clean_for_openai_strict v = Some v'\<close> False by (cases v) auto
      ultimately show ?thesis using 3 by (cases v') auto
    qed
  next
    case 4
    with P IH(10) show ?thesis by simp
  next
    case 5
    with P show ?thesis by simp
  qed
qed (auto split: option.splits)

lemma strict_clean:
  "strict_schema v \<Longrightarrow> clean_for_openai_strict v = Some v"
  "strict_dict kvs \<Longrightarrow> clean_schema kvs = Some kvs"
  "strict_key k v \<Longrightarrow> clean_key k v = Some v"
  "strict_values ms \<Longrightarrow> clean_values ms = Some ms"
  "strict_list vs \<Longrightarrow> clean_list vs = Some vs"
proof (induction v and kvs and k v and ms and vs
    rule: strict_schema_strict_dict_strict_key_strict_values_strict_list.induct)
  case (9 k v kvs)
  then show ?case by (simp del: clean_key.simps strict_key.simps)
next
  case (10 k v)
  then show ?case by (cases v) (auto split: if_splits)
qed auto

text \<open>
  the schema cleaner is a projection onto the strict subset. Whatever schema it accepts, the result
  has only keywords of the allowlist at every schema position, properties and definitions keep
  their names, and cleaning it again changes nothing; a schema already in the subset is kept as it is.
\<close>

lemma openai_schema_projection:
  assumes "clean_for_openai_strict v = Some v'"
  shows "strict_schema v' \<and> clean_for_openai_strict v' = Some v' \<and> (strict_schema v \<longrightarrow> v' = v)"
  using clean_strict(1)[OF assms] strict_clean(1) assms by fastforce

definition demo_schema :: json where
  "demo_schema = JObj [(''type'', JStr ''object''), (''title'', JStr ''t''),
     (''properties'', JObj [(''title'', JObj [(''type'', JStr ''string''), (''maxLength'', JInt 5)])]),
     (''required'', JArr [JStr ''title'']), (''additionalProperties'', JBool False)]"

theorem openai_schema_projection_witness:
  "\<exists>v. clean_for_openai_strict demo_schema = Some v \<and> v \<noteq> demo_schema \<and> strict_schema v
    \<and> clean_for_openai_strict v = Some v"
proof -
  have c: "clean_for_openai_strict demo_schema = Some (JObj [(''type'', JStr ''object''),
     (''properties'', JObj [(''title'', JObj [(''type'', JStr ''string'')])]),
     (''required'', JArr [JStr ''title'']), (''additionalProperties'', JBool False)])"
    by code_simp
  from openai_schema_projection[OF c] c show ?thesis by (auto simp: demo_schema_def)
qed

end
