(* ===== verification/ServerTools.thy ===== *)
theory ServerTools
  imports Sites Redaction ChatTools Calendar
begin

text \<open>
  The tools the backend executes itself: the site tools of \<^verbatim>\<open>app/website/tools.py\<close> on the file store of
  \<^verbatim>\<open>Sites\<close>, the project-independent tools of \<^verbatim>\<open>app/chat/global_tools.py\<close>, and the image generator
  client (\<^verbatim>\<open>app/chat/image_client.py\<close>). UTF-8 decoding, the time zone database, the text Pydantic
  reports for a failed quiz and the OpenAI call are parameters.
\<close>

section \<open>Outcomes\<close>

datatype tool_execution = ToolOk dict | ToolError string string

fun is_error :: "tool_execution \<Rightarrow> bool" where
  "is_error (ToolOk r) = False"
| "is_error (ToolError c m) = True"

fun to_tool_result_payload :: "tool_execution \<Rightarrow> dict" where
  "to_tool_result_payload (ToolOk r) = [(''result'', JObj r)]"
| "to_tool_result_payload (ToolError c m) = [(''error'', JObj [(''code'', JStr c), (''message'', JStr m)])]"

section \<open>Site tools\<close>

record tool_env = site_env +
  te_lib :: tool_lib
  te_utf8 :: "bytes \<Rightarrow> string option"
  te_zone :: "string \<Rightarrow> (string \<times> (int \<Rightarrow> int)) option"
    \<comment> \<open>\<^verbatim>\<open>ZoneInfo(name)\<close>: its key and its offset at an instant, in microseconds\<close>
  te_quiz_reasons :: "dict \<Rightarrow> string"
  te_image_api :: "string \<Rightarrow> string \<Rightarrow> string \<Rightarrow> string \<Rightarrow> (string option option) + (string option list)"
    \<comment> \<open>\<^verbatim>\<open>images.generate\<close> of a prompt, size, quality and format: the code of a bad request (\<^verbatim>\<open>Some code\<close>)
       or another failure (\<^verbatim>\<open>None\<close>), or the \<^verbatim>\<open>b64_json\<close> of the returned images\<close>
  te_image_configured :: bool

definition str_arg :: "dict \<Rightarrow> string \<Rightarrow> string" where
  "str_arg args k = (case obj_get args k of JStr s \<Rightarrow> s | _ \<Rightarrow> [])"

definition utf8_encode :: "string \<Rightarrow> bytes" where
  "utf8_encode s = concat (map (\<lambda>c. let n = (of_char c :: nat) in
     if n < 128 then [of_nat n] else [of_nat (192 + n div 64), of_nat (128 + n mod 64)]) s)"

definition decode_content :: "string \<Rightarrow> string \<Rightarrow> bytes option" where
  "decode_content content encoding = (if encoding = ''utf8'' then Some (utf8_encode content) else b64_decode_strict content)"

fun site_code_str :: "site_code \<Rightarrow> string" where
  "site_code_str InvalidPath = ''invalid_path''"
| "site_code_str InvalidContentType = ''invalid_content_type''"
| "site_code_str FileTooLarge = ''file_too_large''"
| "site_code_str ProjectTooLarge = ''project_too_large''"
| "site_code_str TooManyFiles = ''too_many_files''"
| "site_code_str ProjectUnresolved = ''project_unresolved''"

text \<open>The message of the \<^verbatim>\<open>InvalidPathError\<close> raised for a path, in the order of the checks.\<close>

definition path_message :: "string \<Rightarrow> string" where
  "path_message raw =
    (if raw = [] then ''path must not be empty''
     else if CHR 0x00 \<in> set raw then ''path must not contain NUL''
     else if CHR 0x5C \<in> set raw then ''path must not contain backslash''
     else if starts_with ''/'' raw then ''path must be relative, not absolute''
     else if ''..'' \<in> set (split_on CHR ''/'' raw) then ''path must not contain '..' traversal''
     else ''path resolves to empty'')"

text \<open>\<^verbatim>\<open>str(exc)\<close> of a \<^verbatim>\<open>SiteFileError\<close>, from the path and content type of the request.\<close>

fun site_message :: "site_code \<Rightarrow> string \<Rightarrow> string \<Rightarrow> string" where
  "site_message InvalidPath path ct = path_message path"
| "site_message InvalidContentType path ct = ''content_type not allowed: '' @ ct"
| "site_message FileTooLarge path ct = ''file exceeds the per-file size limit''"
| "site_message ProjectTooLarge path ct = ''project exceeds the total size limit''"
| "site_message TooManyFiles path ct = ''project exceeds the maximum number of files''"
| "site_message ProjectUnresolved path ct = ''project could not be resolved''"

definition lift_site :: "'a db_act \<Rightarrow> 'a site_act" where
  "lift_site m = (\<lambda>db. case m db of (Inl e, db') \<Rightarrow> (Inl (SiteRaise e), db') | (Inr x, db') \<Rightarrow> (Inr x, db'))"

definition site_write_file :: "tool_env \<Rightarrow> dict \<Rightarrow> uuid \<Rightarrow> string \<Rightarrow> uuid option \<Rightarrow> tool_execution site_act" where
  "site_write_file env args uid ext sid = (case decode_content (str_arg args ''content'') (str_arg args ''encoding'') of
     None \<Rightarrow> ret (ToolError ''invalid_encoding'' ''content is not valid base64'')
   | Some content \<Rightarrow>
     bind_act (resolve_project uid ext) (\<lambda>project.
     bind_act (write_file (site_env.truncate env) (pr_id project) (str_arg args ''path'') content (str_arg args ''contentType'')) (\<lambda>r.
     bind_act (lift_site (audit_record uid sid EVENT_TOOL_MUTATION
       [(''toolName'', JStr TOOL_SITE_WRITE_FILE), (''projectId'', JStr (str_uuid (pr_id project))),
        (''path'', JStr (wr_path r)), (''bytesWritten'', JInt (wr_bytes r))])) (\<lambda>_.
     ret (ToolOk [(''path'', JStr (wr_path r)), (''bytesWritten'', JInt (wr_bytes r)),
       (''fileCount'', JInt (wr_file_count r)), (''projectBytes'', JInt (wr_project_bytes r))])))))"

definition DEFAULT_ENTRY :: string where "DEFAULT_ENTRY = ''index.html''"

definition site_preview :: "tool_env \<Rightarrow> int \<Rightarrow> dict \<Rightarrow> uuid \<Rightarrow> string \<Rightarrow> tool_execution site_act" where
  "site_preview env now args uid ext = (\<lambda>db. case get_existing_project uid ext db of
     None \<Rightarrow> (Inr (ToolError ''project_not_found'' ''no project to preview''), db)
   | Some project \<Rightarrow>
      (let entry = (case obj_get args ''entry'' of JStr e \<Rightarrow> if e \<noteq> [] then e else DEFAULT_ENTRY | _ \<Rightarrow> DEFAULT_ENTRY) in
       case build_token (site_env.truncate env) now (pr_id project) uid of
         None \<Rightarrow> (Inr (ToolError ''preview_unavailable'' ''PREVIEW_URL_SECRET is not configured''), db)
       | Some sp \<Rightarrow>
          (let domain = normalized_service_domain (sv_cfg env);
               link = ''/v1/preview/'' @ str_uuid (pr_id project) @ ''/'' @ sp_token sp @ ''/'' @ entry;
               url = (if domain \<noteq> [] then ''https://'' @ domain @ link else link) in
           case isoformat (sp_expires sp * 1000000) 0 of
             None \<Rightarrow> (Inl (SiteRaise PyError), db)
           | Some e \<Rightarrow> (Inr (ToolOk [(''url'', JStr url), (''expiresAt'', JStr e)]), db))))"

definition site_list :: "tool_env \<Rightarrow> uuid \<Rightarrow> string \<Rightarrow> tool_execution site_act" where
  "site_list env uid ext = (\<lambda>db. case get_existing_project uid ext db of
     None \<Rightarrow> (Inr (ToolOk [(''files'', JArr []), (''fileCount'', JInt 0), (''projectBytes'', JInt 0)]), db)
   | Some project \<Rightarrow> (let (metas, count, total) = list_files (site_env.truncate env) (pr_id project) db in
       (Inr (ToolOk [(''files'', JArr (map (\<lambda>(p, ct, n).
            JObj [(''path'', JStr p), (''contentType'', JStr ct), (''size'', JInt n)]) metas)),
          (''fileCount'', JInt count), (''projectBytes'', JInt total)]), db)))"

definition file_text :: "tool_env \<Rightarrow> file_content \<Rightarrow> string \<times> string" where
  "file_text env f =
    (if starts_with ''text/'' (fc_content_type f) \<or> fc_content_type f = ''application/json''
     then (case te_utf8 env (fc_content f) of Some s \<Rightarrow> (s, ''utf8'') | None \<Rightarrow> (b64_encode (fc_content f), ''base64''))
     else (b64_encode (fc_content f), ''base64''))"

definition site_read :: "tool_env \<Rightarrow> dict \<Rightarrow> uuid \<Rightarrow> string \<Rightarrow> tool_execution site_act" where
  "site_read env args uid ext = (\<lambda>db.
     case (case get_existing_project uid ext db of None \<Rightarrow> None
           | Some project \<Rightarrow> read_file (pr_id project) (str_arg args ''path'') db) of
       None \<Rightarrow> (Inr (ToolError ''file_not_found'' ''file not found''), db)
     | Some f \<Rightarrow> (let (content, encoding) = file_text env f in
         (Inr (ToolOk [(''path'', JStr (fc_path f)), (''content'', JStr content), (''encoding'', JStr encoding),
            (''contentType'', JStr (fc_content_type f)), (''size'', JInt (fc_size f))]), db)))"

definition site_delete :: "dict \<Rightarrow> uuid \<Rightarrow> string \<Rightarrow> uuid option \<Rightarrow> tool_execution site_act" where
  "site_delete args uid ext sid = bind_act get_st (\<lambda>db. case get_existing_project uid ext db of
     None \<Rightarrow> ret (ToolOk [(''path'', JStr (str_arg args ''path'')), (''deleted'', JBool False),
       (''fileCount'', JInt 0), (''projectBytes'', JInt 0)])
   | Some project \<Rightarrow>
     bind_act (delete_file (pr_id project) (str_arg args ''path'')) (\<lambda>(deleted, count, total).
     bind_act (lift_site (audit_record uid sid EVENT_TOOL_MUTATION
       [(''toolName'', JStr TOOL_SITE_DELETE), (''projectId'', JStr (str_uuid (pr_id project))),
        (''path'', JStr (str_arg args ''path'')), (''deleted'', JBool deleted)])) (\<lambda>_.
     ret (ToolOk [(''path'', JStr (str_arg args ''path'')), (''deleted'', JBool deleted),
       (''fileCount'', JInt count), (''projectBytes'', JInt total)]))))"

text \<open>\<^verbatim>\<open>execute\<close> answers a \<^verbatim>\<open>SiteFileError\<close> as a tool error and keeps what was written before it.\<close>

definition site_execute ::
  "tool_env \<Rightarrow> int \<Rightarrow> string \<Rightarrow> dict \<Rightarrow> uuid \<Rightarrow> string \<Rightarrow> uuid option \<Rightarrow> tool_execution db_act" where
  "site_execute env now name args uid ext sid = (\<lambda>db.
    case (if name = TOOL_SITE_WRITE_FILE then site_write_file env args uid ext sid
          else if name = TOOL_SITE_PREVIEW then site_preview env now args uid ext
          else if name = TOOL_SITE_LIST then site_list env uid ext
          else if name = TOOL_SITE_READ then site_read env args uid ext
          else if name = TOOL_SITE_DELETE then site_delete args uid ext sid
          else ret (ToolError ''unknown_tool'' (''unknown server-side tool: '' @ name))) db of
      (Inl (SiteErr c), db') \<Rightarrow>
        (Inr (ToolError (site_code_str c) (site_message c (str_arg args ''path'') (str_arg args ''contentType''))), db')
    | (Inl (SiteRaise e), db') \<Rightarrow> (Inl e, db')
    | (Inr x, db') \<Rightarrow> (Inr x, db'))"

section \<open>Global tools\<close>

definition WEEKDAYS :: "string list" where
  "WEEKDAYS = [''Monday'', ''Tuesday'', ''Wednesday'', ''Thursday'', ''Friday'', ''Saturday'', ''Sunday'']"

text \<open>\<^verbatim>\<open>Inl\<close> where \<^verbatim>\<open>isoformat\<close> has no date. A clock is in the years 1 to 9999, but an offset may leave them.\<close>

definition time_now :: "tool_env \<Rightarrow> time \<Rightarrow> dict \<Rightarrow> app_error + tool_execution" where
  "time_now env now args = (case isoformat now 0 of
     None \<Rightarrow> Inl PyError
   | Some utc \<Rightarrow>
     (let r = [(''utc'', JStr utc),
               (''unix'', JInt (if now < 0 then - ((- now) div 1000000) else now div 1000000)),
               (''weekday'', JStr (WEEKDAYS ! weekday now))] in
      case obj_get args ''tz'' of
        JStr z \<Rightarrow>
          if TIME_NOW_TZ_MAX_LENGTH < length z
          then Inr (ToolError ''invalid_timezone'' ''timezone name exceeds the 64-character limit'')
          else (case te_zone env z of
             None \<Rightarrow> Inr (ToolError ''invalid_timezone'' (''unknown or unavailable timezone: '' @ z))
           | Some (zkey, off) \<Rightarrow> (case isoformat now (off now) of
               None \<Rightarrow> Inl PyError
             | Some loc \<Rightarrow> Inr (ToolOk (r @ [(''timezone'', JStr zkey), (''local'', JStr loc)]))))
      | _ \<Rightarrow> Inr (ToolOk r)))"

definition quiz_generate :: "tool_env \<Rightarrow> dict \<Rightarrow> tool_execution" where
  "quiz_generate env args = (case QuizGenerateArgs (tl_int (te_lib env)) args of
     None \<Rightarrow> ToolError ''invalid_quiz'' (''quiz arguments are invalid; regenerate the whole quiz pool within the limits ''
       @ ''(3-10 questions; each: 2-10 options; question<=1000, each option<=400, ''
       @ ''explanation<=2000 chars; 0 <= correctIndex < number of options). ''
       @ ''Failed constraints: '' @ te_quiz_reasons env args)
   | Some validated \<Rightarrow> ToolOk validated)"

definition global_execute :: "tool_env \<Rightarrow> time \<Rightarrow> string \<Rightarrow> dict \<Rightarrow> app_error + tool_execution" where
  "global_execute env now name args =
    (if name = TOOL_TIME_NOW then time_now env now args
     else if name = TOOL_QUIZ_GENERATE then Inr (quiz_generate env args)
     else Inr (ToolError ''unknown_tool'' (''unknown global server-side tool: '' @ name)))"

section \<open>Image generation\<close>

text \<open>The failure of a generation: refused by the content policy or any other.\<close>

datatype image_failure = ImagePolicy | ImageFailed

definition output_mime :: "string \<Rightarrow> string" where
  "output_mime f = (case map_of [(''png'', ''image/png''), (''jpeg'', ''image/jpeg''), (''webp'', ''image/webp'')] f of
     Some m \<Rightarrow> m | None \<Rightarrow> ''image/png'')"

definition image_generate :: "tool_env \<Rightarrow> string \<Rightarrow> string option \<Rightarrow> string option \<Rightarrow> image_failure + (bytes \<times> string)" where
  "image_generate env prompt sz quality =
    (let cfg = sv_cfg env;
         rsize = (case sz of Some s \<Rightarrow> if s \<noteq> [] then s else resolved_image_size cfg | None \<Rightarrow> resolved_image_size cfg);
         rquality = (case quality of Some s \<Rightarrow> if s \<noteq> [] then s else resolved_image_quality cfg
           | None \<Rightarrow> resolved_image_quality cfg);
         format = resolved_image_output_format cfg in
     case te_image_api env prompt rsize rquality format of
       Inl (Some code) \<Rightarrow> if code = Some ''moderation_blocked'' then Inl ImagePolicy else Inl ImageFailed
     | Inl None \<Rightarrow> Inl ImageFailed
     | Inr [] \<Rightarrow> Inl ImageFailed
     | Inr (None # _) \<Rightarrow> Inl ImageFailed
     | Inr (Some b64 # _) \<Rightarrow>
         (if b64 = [] then Inl ImageFailed
          else case b64_decode_strict b64 of
            None \<Rightarrow> Inl ImageFailed
          | Some raw \<Rightarrow> if image_max_bytes cfg < int (length raw) then Inl ImageFailed
              else Inr (raw, output_mime format)))"

text \<open>The handler's \<^verbatim>\<open>generate_image\<close>: without a generator it fails like a failed generation.\<close>

definition generate_image :: "tool_env \<Rightarrow> string \<Rightarrow> string option \<Rightarrow> string option \<Rightarrow> image_failure + (bytes \<times> string)" where
  "generate_image env prompt sz quality =
    (if \<not> te_image_configured env then Inl ImageFailed else image_generate env prompt sz quality)"

end
