(* ===== verification/LlmClients.thy ===== *)
theory LlmClients
  imports ChatTools Redaction
begin

text \<open>
  The provider-neutral contract (\<^verbatim>\<open>app/chat/llm_client.py\<close>) and its two implementations, the Anthropic
  client (\<^verbatim>\<open>anthropic_client.py\<close>) and the OpenAI Responses client (\<^verbatim>\<open>openai_client.py\<close>): how a neutral
  history becomes a request, and how a reply becomes a neutral result. The HTTP calls of the two SDKs, \<^verbatim>\<open>json.dumps\<close> and
  \<^verbatim>\<open>json.loads\<close> are parameters. Logging and metrics are left out.
\<close>

section \<open>Neutral types\<close>

datatype stop_reason = StopToolUse | StopMaxTokens | StopEndTurn

record llm_usage =
  lu_input :: int
  lu_output :: int
  lu_model :: string
  lu_cache_read :: int
  lu_cache_write :: int

definition usage_dict :: "llm_usage \<Rightarrow> dict" where
  "usage_dict u = [(''inputTokens'', JInt (lu_input u)), (''outputTokens'', JInt (lu_output u)),
     (''model'', JStr (lu_model u)), (''cacheReadTokens'', JInt (lu_cache_read u)),
     (''cacheWriteTokens'', JInt (lu_cache_write u))]"

record tool_use =
  tu_id :: string
  tu_name :: string
  tu_input :: dict

record llm_result =
  lr_stop :: stop_reason
  lr_content :: "json list"
  lr_usage :: llm_usage
  lr_text :: string
  lr_tool_uses :: "tool_use list"

record neutral_message =
  nm_role :: role
  nm_content :: "json list"
  nm_provider_id :: string
  nm_result :: json
  nm_error :: json

record generation_options =
  go_dialog :: "dialog_mode option"
  go_temporary :: bool

datatype key_validation = KeyValid | KeyInvalid | KeyOffline

text \<open>How a call of an SDK may fail: an authentication error, or a timeout, connection or status error.\<close>

datatype sdk_failure = SdkAuth | SdkOther

text \<open>How a call of a client may fail: the client's authentication error, or an exception.\<close>

datatype llm_failure = LlmAuth | LlmRaise app_error

record llm_lib =
  ll_tools :: tool_lib
  ll_dumps :: "json \<Rightarrow> string"
  ll_loads :: "string \<Rightarrow> json option"
  ll_str :: "json \<Rightarrow> string"
    \<comment> \<open>\<^verbatim>\<open>str\<close> of a value that is no string\<close>

definition py_str :: "llm_lib \<Rightarrow> json \<Rightarrow> string" where
  "py_str ll v = (case v of JStr s \<Rightarrow> s | _ \<Rightarrow> ll_str ll v)"

definition dict_get :: "json \<Rightarrow> string \<Rightarrow> json" where
  "dict_get v k = (case v of JObj kvs \<Rightarrow> obj_get kvs k | _ \<Rightarrow> JNull)"

definition has_type :: "string \<Rightarrow> json \<Rightarrow> bool" where
  "has_type t v = (dict_get v ''type'' = JStr t)"

section \<open>Anthropic\<close>

definition to_neutral_stop_reason :: "string option \<Rightarrow> stop_reason" where
  "to_neutral_stop_reason s = (case s of None \<Rightarrow> StopEndTurn
     | Some w \<Rightarrow> if w = ''tool_use'' then StopToolUse else if w = ''max_tokens'' then StopMaxTokens else StopEndTurn)"

definition BLOCK_WIRE_FIELDS :: "(string \<times> string list) list" where
  "BLOCK_WIRE_FIELDS = [(''text'', [''type'', ''text'']), (''image'', [''type'', ''source'']),
     (''document'', [''type'', ''source'']), (''tool_use'', [''type'', ''id'', ''name'', ''input'']),
     (''thinking'', [''type'', ''thinking'', ''signature'']), (''redacted_thinking'', [''type'', ''data''])]"

definition pick_fields :: "string list \<Rightarrow> dict \<Rightarrow> dict" where
  "pick_fields ks kvs = concat (map (\<lambda>k. case map_of kvs k of Some v \<Rightarrow> [(k, v)] | None \<Rightarrow> []) ks)"

definition normalize_block :: "dict \<Rightarrow> dict" where
  "normalize_block block = (case (case obj_get block ''type'' of JStr t \<Rightarrow> map_of BLOCK_WIRE_FIELDS t | _ \<Rightarrow> None) of
     Some allowed \<Rightarrow> pick_fields allowed block
   | None \<Rightarrow> filter (\<lambda>(k, v). k \<noteq> ''caller'') block)"

text \<open>A neutral message as wire messages; the tool result carries the provider's own identifier.\<close>

definition anthropic_message :: "llm_lib \<Rightarrow> neutral_message \<Rightarrow> dict" where
  "anthropic_message ll m = (case nm_role m of
     RUser \<Rightarrow> [(''role'', JStr ''user''), (''content'', JArr (nm_content m))]
   | RAssistant \<Rightarrow> [(''role'', JStr ''assistant''), (''content'', JArr (nm_content m))]
   | RTool \<Rightarrow> [(''role'', JStr ''user''), (''content'', JArr [JObj [(''type'', JStr ''tool_result''),
        (''tool_use_id'', JStr (nm_provider_id m)),
        (''content'', JStr (if nm_error m \<noteq> JNull
            then (case nm_error m of JObj kvs \<Rightarrow> (case map_of kvs ''message'' of Some v \<Rightarrow> py_str ll v | None \<Rightarrow> ''tool error'')
                  | _ \<Rightarrow> ''tool error'')
            else ll_dumps ll (nm_result m))),
        (''is_error'', JBool (nm_error m \<noteq> JNull))]])])"

definition anthropic_messages :: "llm_lib \<Rightarrow> neutral_message list \<Rightarrow> dict list" where
  "anthropic_messages ll ms = map (anthropic_message ll) ms"

text \<open>\<^verbatim>\<open>None\<close> where the name table raises.\<close>

definition anthropic_tool :: "dict \<Rightarrow> dict option" where
  "anthropic_tool t = (let name = (case obj_get t ''name'' of JStr n \<Rightarrow> n | _ \<Rightarrow> []) in
     map_option (\<lambda>a. [(''name'', JStr a), (''description'', obj_get t ''description''), (''input_schema'', obj_get t ''input_schema'')])
       (if CHR ''.'' \<in> set name then to_anthropic_tool_name name else Some name))"

definition put_last :: "('a \<Rightarrow> bool) \<Rightarrow> ('a \<Rightarrow> 'a) \<Rightarrow> 'a list \<Rightarrow> 'a list" where
  "put_last P f xs = (case dropWhile (\<lambda>x. \<not> P x) (rev xs) of [] \<Rightarrow> xs
     | x # rest \<Rightarrow> rev rest @ [f x] @ drop (Suc (length rest)) xs)"

definition extend_content :: "json list \<Rightarrow> dict \<Rightarrow> dict" where
  "extend_content blocks m = dict_put m ''content''
     (JArr ((case obj_get m ''content'' of JArr vs \<Rightarrow> vs | _ \<Rightarrow> []) @ blocks))"

definition inject_anthropic :: "json list option \<Rightarrow> dict list \<Rightarrow> dict list" where
  "inject_anthropic att ms = (case att of None \<Rightarrow> ms
     | Some blocks \<Rightarrow> if blocks = [] then ms
         else put_last (\<lambda>m. obj_get m ''role'' = JStr ''user'') (extend_content blocks) ms)"

definition cache_last :: "dict list \<Rightarrow> dict list" where
  "cache_last ts = (if ts = [] then [] else butlast ts
     @ [dict_put (last ts) ''cache_control'' (JObj [(''type'', JStr ''ephemeral'')])])"

record anthropic_request =
  ar_model :: string
  ar_system :: "json list"
  ar_tools :: "dict list"
  ar_messages :: "dict list"
  ar_key :: "string option"

text \<open>A reply: its content blocks as \<^verbatim>\<open>model_dump\<close> gives them, its stop reason and its usage counts.\<close>

record anthropic_reply =
  an_content :: "dict list"
  an_stop :: "string option"
  an_input :: int
  an_output :: int
  an_cache_read :: int
  an_cache_write :: int

definition build_system :: "string \<Rightarrow> json list" where
  "build_system p = [JObj [(''type'', JStr ''text''), (''text'', JStr p),
     (''cache_control'', JObj [(''type'', JStr ''ephemeral'')])]]"

definition str_of :: "json \<Rightarrow> string" where
  "str_of v = (case v of JStr s \<Rightarrow> s | _ \<Rightarrow> [])"

definition dict_of :: "json \<Rightarrow> dict" where
  "dict_of v = (case v of JObj kvs \<Rightarrow> kvs | _ \<Rightarrow> [])"

text \<open>The tool uses of the reply under their domain names, \<^verbatim>\<open>None\<close> when a name is not in the table.\<close>

definition anthropic_tool_uses :: "dict list \<Rightarrow> tool_use list option" where
  "anthropic_tool_uses blocks = those (map (\<lambda>b. map_option (\<lambda>d. \<lparr>tu_id = str_of (obj_get b ''id''), tu_name = d,
       tu_input = dict_of (obj_get b ''input'')\<rparr>) (to_domain_tool_name (str_of (obj_get b ''name''))))
     (filter (\<lambda>b. obj_get b ''type'' = JStr ''tool_use'') blocks))"

definition anthropic_result :: "string \<Rightarrow> anthropic_reply \<Rightarrow> llm_result option" where
  "anthropic_result model r = map_option (\<lambda>uses. \<lparr>lr_stop = to_neutral_stop_reason (an_stop r),
       lr_content = map (\<lambda>b. JObj (normalize_block b)) (an_content r),
       lr_usage = \<lparr>lu_input = an_input r, lu_output = an_output r, lu_model = model,
         lu_cache_read = an_cache_read r, lu_cache_write = an_cache_write r\<rparr>,
       lr_text = concat (map (\<lambda>b. str_of (obj_get b ''text''))
         (filter (\<lambda>b. obj_get b ''type'' = JStr ''text'') (an_content r))),
       lr_tool_uses = uses\<rparr>) (anthropic_tool_uses (an_content r))"

definition anthropic_create_message ::
  "llm_lib \<Rightarrow> settings \<Rightarrow> (anthropic_request \<Rightarrow> sdk_failure + anthropic_reply) \<Rightarrow> string \<Rightarrow> neutral_message list \<Rightarrow> dict list
   \<Rightarrow> json list option \<Rightarrow> string option \<Rightarrow> string option \<Rightarrow> llm_failure + llm_result" where
  "anthropic_create_message ll cfg api system ms tools att key model =
    (let m = (case model of Some m \<Rightarrow> m | None \<Rightarrow> anthropic_model cfg) in
     case those (map anthropic_tool tools) of
       None \<Rightarrow> Inl (LlmRaise PyError)
     | Some ts \<Rightarrow>
       (case api \<lparr>ar_model = m, ar_system = build_system system, ar_tools = cache_last ts,
            ar_messages = inject_anthropic att (anthropic_messages ll ms), ar_key = key\<rparr> of
          Inl SdkAuth \<Rightarrow> Inl LlmAuth
        | Inl SdkOther \<Rightarrow> Inl (LlmRaise UpstreamError)
        | Inr r \<Rightarrow> (case anthropic_result m r of None \<Rightarrow> Inl (LlmRaise ValidationFailedError) | Some x \<Rightarrow> Inr x)))"

definition validation_of :: "sdk_failure + 'a \<Rightarrow> key_validation" where
  "validation_of r = (case r of Inr _ \<Rightarrow> KeyValid | Inl SdkAuth \<Rightarrow> KeyInvalid | Inl SdkOther \<Rightarrow> KeyOffline)"

section \<open>OpenAI\<close>

definition user_item :: "json list \<Rightarrow> dict" where
  "user_item blocks = [(''type'', JStr ''message''), (''role'', JStr ''user''),
     (''content'', JArr (concat (map (\<lambda>b. if has_type ''text'' b then
        (case dict_get b ''text'' of JStr s \<Rightarrow> [JObj [(''type'', JStr ''input_text''), (''text'', JStr s)]] | _ \<Rightarrow> [])
        else []) blocks)))]"

definition openai_items :: "llm_lib \<Rightarrow> neutral_message \<Rightarrow> json list" where
  "openai_items ll m = (case nm_role m of
     RAssistant \<Rightarrow> nm_content m
   | RUser \<Rightarrow> [JObj (user_item (nm_content m))]
   | RTool \<Rightarrow> [JObj [(''type'', JStr ''function_call_output''), (''call_id'', JStr (nm_provider_id m)),
       (''output'', JStr (ll_dumps ll (if nm_error m \<noteq> JNull then nm_error m else nm_result m)))]])"

definition openai_input :: "llm_lib \<Rightarrow> neutral_message list \<Rightarrow> json list" where
  "openai_input ll ms = concat (map (openai_items ll) ms)"

definition inject_openai :: "json list option \<Rightarrow> json list \<Rightarrow> json list" where
  "inject_openai att items = (case att of None \<Rightarrow> items
     | Some blocks \<Rightarrow> if blocks = [] then items
         else put_last (\<lambda>i. has_type ''message'' i \<and> dict_get i ''role'' = JStr ''user'')
           (\<lambda>i. JObj (extend_content blocks (dict_of i))) items)"

record openai_request =
  or_model :: string
  or_instructions :: string
  or_input :: "json list"
  or_tools :: "dict list"
  or_store :: "bool option"
  or_reasoning :: "string option"
  or_include :: "string list"
  or_deep_timeout :: bool
  or_key :: "string option"

text \<open>A reply: its output items as \<^verbatim>\<open>model_dump(exclude_none)\<close> gives them, whether its status is incomplete for
  \<^verbatim>\<open>max_output_tokens\<close>, and its usage counts.\<close>

record openai_reply =
  oa_output :: "json list"
  oa_truncated :: bool
  oa_input :: int
  oa_output_tokens :: int
  oa_cached :: int

definition openai_text :: "json list \<Rightarrow> string" where
  "openai_text items = concat (map (\<lambda>i. if has_type ''message'' i then
     (case dict_get i ''content'' of JArr ps \<Rightarrow>
        concat (map (\<lambda>p. if has_type ''output_text'' p then str_of (dict_get p ''text'') else []) ps) | _ \<Rightarrow> []) else []) items)"

definition openai_tool_use :: "llm_lib \<Rightarrow> json \<Rightarrow> tool_use option" where
  "openai_tool_use ll i = (case to_domain_tool_name (str_of (dict_get i ''name'')) of None \<Rightarrow> None
     | Some d \<Rightarrow>
       (let a = str_of (dict_get i ''arguments'') in
        case (if a = [] then Some (JObj []) else ll_loads ll a) of
          Some (JObj args) \<Rightarrow> Some \<lparr>tu_id = str_of (dict_get i ''call_id''), tu_name = d, tu_input = args\<rparr>
        | _ \<Rightarrow> None))"

definition to_stop_reason :: "bool \<Rightarrow> bool \<Rightarrow> stop_reason" where
  "to_stop_reason truncated has_call =
     (if has_call then StopToolUse else if truncated then StopMaxTokens else StopEndTurn)"

definition openai_result :: "llm_lib \<Rightarrow> string \<Rightarrow> openai_reply \<Rightarrow> llm_result option" where
  "openai_result ll model r =
    (let calls = filter (has_type ''function_call'') (oa_output r) in
     map_option (\<lambda>uses. \<lparr>lr_stop = to_stop_reason (oa_truncated r) (calls \<noteq> []), lr_content = oa_output r,
       lr_usage = \<lparr>lu_input = oa_input r, lu_output = oa_output_tokens r, lu_model = model,
         lu_cache_read = oa_cached r, lu_cache_write = 0\<rparr>,
       lr_text = openai_text (oa_output r), lr_tool_uses = uses\<rparr>) (those (map (openai_tool_use ll) calls)))"

definition openai_create_message ::
  "llm_lib \<Rightarrow> settings \<Rightarrow> (openai_request \<Rightarrow> sdk_failure + openai_reply) \<Rightarrow> string \<Rightarrow> neutral_message list \<Rightarrow> dict list
   \<Rightarrow> json list option \<Rightarrow> string option \<Rightarrow> string option \<Rightarrow> generation_options \<Rightarrow> llm_failure + llm_result" where
  "openai_create_message ll cfg api system ms tools att key model opts =
    (let m = (case model of Some m \<Rightarrow> m | None \<Rightarrow> openai_model cfg);
         deep = (go_dialog opts = Some DmDeepThinking) in
     case those (map openai_tool_function tools) of
       None \<Rightarrow> Inl (LlmRaise PyError)
     | Some ts \<Rightarrow>
       (case api \<lparr>or_model = m, or_instructions = system, or_input = inject_openai att (openai_input ll ms),
            or_tools = ts @ (if go_dialog opts = Some DmSearch
              then [[(''type'', JStr ''web_search''), (''search_context_size'', JStr (resolved_search_context_size cfg))]] else []),
            or_store = (if go_temporary opts \<or> deep then Some False else None),
            or_reasoning = (if deep then Some (resolved_deep_thinking_effort cfg) else None),
            or_include = (if deep then [''reasoning.encrypted_content''] else []),
            or_deep_timeout = deep, or_key = key\<rparr> of
          Inl SdkAuth \<Rightarrow> Inl LlmAuth
        | Inl SdkOther \<Rightarrow> Inl (LlmRaise UpstreamError)
        | Inr r \<Rightarrow> (case openai_result ll m r of None \<Rightarrow> Inl (LlmRaise ValidationFailedError) | Some x \<Rightarrow> Inr x)))"

section \<open>The identifiers of a result\<close>

text \<open>The tool-use identifiers a provider looks for when stored content is replayed to it.\<close>

definition anthropic_ids :: "json list \<Rightarrow> string list" where
  "anthropic_ids content = map (\<lambda>b. str_of (dict_get b ''id'')) (filter (has_type ''tool_use'') content)"

definition openai_ids :: "json list \<Rightarrow> string list" where
  "openai_ids content = map (\<lambda>b. str_of (dict_get b ''call_id'')) (filter (has_type ''function_call'') content)"

lemma those_map_map:
  "those (map (\<lambda>x. map_option (g x) (f x)) xs) = Some ys \<Longrightarrow> (\<And>x z. h (g x z) = k x) \<Longrightarrow> map h ys = map k xs"
  by (induction xs arbitrary: ys) (auto split: option.splits)

lemma pick_get: "map_of (pick_fields ks kvs) k = (if k \<in> set ks then map_of kvs k else None)"
  by (induction ks) (auto simp: pick_fields_def map_add_def split: option.splits)

lemma filter_get: "map_of (filter (\<lambda>(k, v). k \<noteq> c) kvs) k = (if k = c then None else map_of kvs k)"
  by (induction kvs) auto

lemma normalize_type: "has_type t (JObj (normalize_block b)) = (obj_get b ''type'' = JStr t)"
proof -
  have k: "map_of BLOCK_WIRE_FIELDS u = Some ks \<Longrightarrow> ''type'' \<in> set ks" for u ks
    by (auto simp: BLOCK_WIRE_FIELDS_def split: if_splits)
  have "obj_get (normalize_block b) ''type'' = obj_get b ''type''"
    by (auto simp: normalize_block_def obj_get_def pick_get filter_get dest: k split: option.splits json.splits)
  then show ?thesis by (simp add: has_type_def dict_get_def)
qed

lemma normalize_id:
  "obj_get b ''type'' = JStr ''tool_use'' \<Longrightarrow> obj_get (normalize_block b) ''id'' = obj_get b ''id''"
  by (simp add: normalize_block_def BLOCK_WIRE_FIELDS_def obj_get_def pick_get)

text \<open>Both clients report exactly the tool uses their stored content holds, in its order and under the
  identifiers the provider will ask for.\<close>

lemma anthropic_result_ids:
  assumes "anthropic_result model r = Some x"
  shows "map tu_id (lr_tool_uses x) = anthropic_ids (lr_content x)"
proof -
  let ?calls = "filter (\<lambda>b. obj_get b ''type'' = JStr ''tool_use'') (an_content r)"
  obtain uses where u: "anthropic_tool_uses (an_content r) = Some uses"
    "x = \<lparr>lr_stop = to_neutral_stop_reason (an_stop r), lr_content = map (\<lambda>b. JObj (normalize_block b)) (an_content r),
       lr_usage = lr_usage x, lr_text = lr_text x, lr_tool_uses = uses\<rparr>"
    using assms by (auto simp: anthropic_result_def)
  have "map tu_id uses = map (\<lambda>b. str_of (obj_get b ''id'')) ?calls"
    using u(1) unfolding anthropic_tool_uses_def by (rule those_map_map) simp
  moreover have "anthropic_ids (map (\<lambda>b. JObj (normalize_block b)) bs)
      = map (\<lambda>b. str_of (obj_get b ''id'')) (filter (\<lambda>b. obj_get b ''type'' = JStr ''tool_use'') bs)" for bs
    by (induction bs) (auto simp: anthropic_ids_def normalize_type dict_get_def normalize_id)
  ultimately show ?thesis by (subst (1 2) u(2)) simp
qed

lemma openai_result_ids:
  assumes "openai_result ll model r = Some x"
  shows "map tu_id (lr_tool_uses x) = openai_ids (lr_content x)"
proof -
  have u: "openai_tool_use ll i = Some u \<Longrightarrow> tu_id u = str_of (dict_get i ''call_id'')" for i u
    by (auto simp: openai_tool_use_def Let_def split: option.splits json.splits if_splits)
  have "those (map (openai_tool_use ll) is) = Some us \<Longrightarrow> map tu_id us = map (\<lambda>i. str_of (dict_get i ''call_id'')) is" for "is" us
    by (induction "is" arbitrary: us) (auto split: option.splits dest: u)
  with assms show ?thesis by (auto simp: openai_result_def Let_def openai_ids_def)
qed

text \<open>Every reported tool is a registered one.\<close>

lemma domain_name_known: "to_domain_tool_name a = Some d \<Longrightarrow> d \<in> set ALL_TOOL_NAMES"
  by (auto simp: to_domain_tool_name_def ANTHROPIC_TO_DOMAIN_def DOMAIN_TO_ANTHROPIC_def ALL_TOOL_NAMES_def
      SERVER_SIDE_TOOLS_def GLOBAL_SERVER_SIDE_TOOLS_def split: if_splits)

end
