(* ===== verification/ChatStore.thy ===== *)
theory ChatStore
  imports LlmClients
begin

text \<open>
  Chat persistence: the repository of sessions, steps and tool calls (\<^verbatim>\<open>app/chat/repository.py\<close>) and
  its in-memory replacement for temporary chats (\<^verbatim>\<open>ephemeral_repository.py\<close>). The state of a request
  is the last committed database, the open transaction, what the in-memory repository holds and, for the
  record, the requests sent to providers so far; the
  application's clock and PostgreSQL's \<^verbatim>\<open>now()\<close> are one here.
\<close>

section \<open>State of a chat request\<close>

record llm_call =
  lc_provider :: string
  lc_system :: string
  lc_messages :: "neutral_message list"
  lc_tools :: "dict list"
  lc_attachments :: "json list option"
  lc_key :: "string option"
  lc_model :: "string option"
  lc_options :: generation_options

record chat_st =
  ch_saved :: db
  ch_db :: db
  ch_mem_steps :: "step_row list"
  ch_mem_calls :: "tool_call_row list"
  ch_sent :: "llm_call list"

type_synonym 'a chat_act = "(app_error, chat_st, 'a) act"

definition on_db :: "'a db_act \<Rightarrow> 'a chat_act" where
  "on_db m = (\<lambda>s. case m (ch_db s) of (r, db) \<Rightarrow> (r, s\<lparr>ch_db := db\<rparr>))"

definition commit :: "unit chat_act" where
  "commit = upd_st (\<lambda>s. s\<lparr>ch_saved := ch_db s\<rparr>)"

definition rollback :: "unit chat_act" where
  "rollback = upd_st (\<lambda>s. s\<lparr>ch_db := ch_saved s\<rparr>)"

lemma on_db_app: "m (ch_db s) = (r, db) \<Longrightarrow> on_db m s = (r, s\<lparr>ch_db := db\<rparr>)"
  by (simp add: on_db_def)

lemma on_db_Inr: "on_db m s = (Inr x, s') \<longleftrightarrow> (\<exists>db. m (ch_db s) = (Inr x, db) \<and> s' = s\<lparr>ch_db := db\<rparr>)"
  by (auto simp: on_db_def split: prod.splits)

section \<open>Titles\<close>

text \<open>\<^verbatim>\<open>s.split()\<close>: the maximal runs of characters that are no white space.\<close>

fun split_spaces :: "string \<Rightarrow> string list" where
  "split_spaces [] = [[]]"
| "split_spaces (c # cs) =
     (if is_space c then [] # split_spaces cs
      else (case split_spaces cs of [] \<Rightarrow> [[c]] | w # ws \<Rightarrow> (c # w) # ws))"

definition py_words :: "string \<Rightarrow> string list" where
  "py_words s = filter (\<lambda>w. w \<noteq> []) (split_spaces s)"

definition normalize_spaces :: "string \<Rightarrow> string" where
  "normalize_spaces s = join_with '' '' (py_words s)"

definition TITLE_MAX_CHARS :: nat where "TITLE_MAX_CHARS = 60"

definition derive_title :: "string \<Rightarrow> string option" where
  "derive_title message = (let n = normalize_spaces message in if n = [] then None else Some (take TITLE_MAX_CHARS n))"

section \<open>Sessions\<close>

definition mark_trial_used :: "uuid \<Rightarrow> bool db_act" where
  "mark_trial_used uid = (\<lambda>db. case users db uid of
     None \<Rightarrow> (Inr False, db)
   | Some u \<Rightarrow> if u_trial_used u then (Inr False, db)
       else (Inr True, db\<lparr>users := (users db)(uid \<mapsto> u\<lparr>u_trial_used := True\<rparr>)\<rparr>))"

definition get_session :: "uuid \<Rightarrow> uuid \<Rightarrow> db \<Rightarrow> session_row option" where
  "get_session sid uid db = find (\<lambda>r. cs_id r = sid \<and> cs_user r = uid) (sessions db)"

definition is_expired :: "settings \<Rightarrow> time \<Rightarrow> session_row \<Rightarrow> bool" where
  "is_expired cfg now r = (session_soft_ttl_seconds cfg * 1000000 < now - cs_updated r)"

record new_session =
  ns_project :: "string option"
  ns_mode :: mode
  ns_assistant :: assistant_mode
  ns_dialog :: dialog_mode
  ns_title :: "string option"
  ns_model :: "string option"
  ns_workspace :: "uuid option"

definition session_of :: "uuid \<Rightarrow> uuid \<Rightarrow> new_session \<Rightarrow> time \<Rightarrow> session_row" where
  "session_of sid uid n now = \<lparr>cs_id = sid, cs_user = uid, cs_project = ns_project n, cs_mode = ns_mode n,
     cs_model = ns_model n, cs_title = ns_title n, cs_assistant_mode = ns_assistant n,
     cs_dialog_mode = ns_dialog n, cs_workspace = ns_workspace n, cs_pinned = False,
     cs_created = now, cs_updated = now\<rparr>"

definition insert_session :: "uuid \<Rightarrow> new_session \<Rightarrow> session_row db_act" where
  "insert_session uid n = (\<lambda>db.
     if users db uid = None \<or> \<not> text_ok (ns_project n) \<or> \<not> text_ok (ns_title n) \<or> \<not> text_ok (ns_model n)
        \<or> (case ns_workspace n of None \<Rightarrow> False | Some w \<Rightarrow> find (\<lambda>r. ws_id r = w) (workspaces db) = None)
        \<or> find_session db (db_gen db (db_next db)) \<noteq> None
     then (Inl DbError, db)
     else (let r = session_of (db_gen db (db_next db)) uid n (db_now db) in
       (Inr r, db\<lparr>db_next := Suc (db_next db), sessions := sessions db @ [r]\<rparr>)))"

text \<open>The session with the flag whether it is new.\<close>

definition get_or_create_session ::
  "settings \<Rightarrow> uuid \<Rightarrow> uuid option \<Rightarrow> new_session \<Rightarrow> (session_row \<times> bool) db_act" where
  "get_or_create_session cfg uid sid n = (\<lambda>db.
     case (case sid of None \<Rightarrow> None | Some i \<Rightarrow> get_session i uid db) of
       Some r \<Rightarrow> if \<not> is_expired cfg (db_now db) r then (Inr (r, False), db)
         else bind_act (insert_session uid n) (\<lambda>r. ret (r, True)) db
     | None \<Rightarrow> bind_act (insert_session uid n) (\<lambda>r. ret (r, True)) db)"

definition touch_session :: "uuid \<Rightarrow> unit db_act" where
  "touch_session sid = upd_st (\<lambda>db. db\<lparr>sessions :=
     map (\<lambda>r. if cs_id r = sid then r\<lparr>cs_updated := db_now db\<rparr> else r) (sessions db)\<rparr>)"

section \<open>Steps and tool calls in the database\<close>

definition opt_jsonb :: "json option \<Rightarrow> bool" where
  "opt_jsonb j = (case j of None \<Rightarrow> True | Some v \<Rightarrow> jsonb_ok v)"

definition db_add_step :: "uuid \<Rightarrow> uuid \<Rightarrow> role \<Rightarrow> dict \<Rightarrow> json option \<Rightarrow> uuid option db_act" where
  "db_add_step sid mid ro payload usage = (\<lambda>db.
     if find_session db sid = None \<or> \<not> jsonb_ok (JObj payload) \<or> \<not> opt_jsonb usage then (Inl DbError, db)
     else (let i = db_gen db (db_next db) in
       (Inr (Some i), db\<lparr>db_next := Suc (db_next db), next_seq := next_seq db + 1, steps := steps db @
          [\<lparr>st_id = i, st_seq = next_seq db, st_session = sid, st_message_step = mid, st_role = ro,
            st_payload = JObj payload, st_usage = usage, st_created = db_now db\<rparr>]\<rparr>)))"

definition db_list_steps :: "uuid \<Rightarrow> db \<Rightarrow> step_row list" where
  "db_list_steps sid db = sort_key st_seq (filter (\<lambda>r. st_session r = sid) (steps db))"

definition pending_call :: "uuid \<Rightarrow> uuid \<Rightarrow> uuid \<Rightarrow> string \<Rightarrow> dict \<Rightarrow> string \<Rightarrow> time \<Rightarrow> tool_call_row" where
  "pending_call tcid sid mid name args provider now = \<lparr>tc_id = tcid, tc_session = sid, tc_message_step = mid,
     tc_tool_name = name, tc_provider_id = provider, tc_args = JObj args, tc_status = TcPending,
     tc_result = None, tc_created = now, tc_completed = None\<rparr>"

definition db_get_tool_call :: "uuid \<Rightarrow> db \<Rightarrow> tool_call_row option" where
  "db_get_tool_call tcid db = find (\<lambda>r. tc_id r = tcid) (tool_calls db)"

definition db_create_tool_call :: "uuid \<Rightarrow> uuid \<Rightarrow> string \<Rightarrow> dict \<Rightarrow> uuid \<Rightarrow> string \<Rightarrow> unit db_act" where
  "db_create_tool_call sid mid name args tcid provider = (\<lambda>db.
     if find_session db sid = None \<or> \<not> jsonb_ok (JObj args) \<or> CHR 0x00 \<in> set name \<or> CHR 0x00 \<in> set provider
        \<or> db_get_tool_call tcid db \<noteq> None
     then (Inl DbError, db)
     else (Inr (), db\<lparr>tool_calls := tool_calls db @ [pending_call tcid sid mid name args provider (db_now db)]\<rparr>))"

definition db_list_tool_calls :: "uuid \<Rightarrow> uuid \<Rightarrow> db \<Rightarrow> tool_call_row list" where
  "db_list_tool_calls sid mid db = sort_by (\<lambda>a b. tc_created a < tc_created b \<or> (tc_created a = tc_created b \<and> tc_id a \<le> tc_id b))
     (filter (\<lambda>r. tc_session r = sid \<and> tc_message_step r = mid) (tool_calls db))"

definition done_call :: "tool_call_row \<Rightarrow> bool" where
  "done_call r = (tc_status r = TcCompleted \<or> tc_status r = TcErrored)"

definition db_complete_tool_call :: "uuid \<Rightarrow> tc_status \<Rightarrow> json option \<Rightarrow> bool db_act" where
  "db_complete_tool_call tcid status result = (\<lambda>db.
     if \<not> opt_jsonb result then (Inl DbError, db)
     else case find (\<lambda>r. tc_id r = tcid \<and> tc_status r = TcPending) (tool_calls db) of
       None \<Rightarrow> (Inr False, db)
     | Some _ \<Rightarrow> (Inr True, db\<lparr>tool_calls := map (\<lambda>r. if tc_id r = tcid \<and> tc_status r = TcPending
         then r\<lparr>tc_status := status, tc_result := result, tc_completed := Some (db_now db)\<rparr> else r) (tool_calls db)\<rparr>))"

text \<open>The number of deleted steps; \<^verbatim>\<open>None\<close> without an anchor.\<close>

definition truncate_anchor :: "uuid \<Rightarrow> uuid \<Rightarrow> db \<Rightarrow> int option" where
  "truncate_anchor sid mid db =
     (case filter (\<lambda>r. st_session r = sid \<and> st_message_step r = mid \<and> st_role r = RUser) (steps db) of
        [] \<Rightarrow> None | r # rs \<Rightarrow> Some (fold (\<lambda>x m. min m (st_seq x)) rs (st_seq r)))"

definition truncate_from_message_step :: "uuid \<Rightarrow> uuid \<Rightarrow> nat option db_act" where
  "truncate_from_message_step sid mid = (\<lambda>db. case truncate_anchor sid mid db of
     None \<Rightarrow> (Inr None, db)
   | Some anchor \<Rightarrow>
      (let gone = filter (\<lambda>r. st_session r = sid \<and> anchor \<le> st_seq r) (steps db);
           turns = map st_message_step gone in
       (Inr (Some (length gone)),
        db\<lparr>tool_calls := filter (\<lambda>r. \<not> (tc_session r = sid \<and> tc_message_step r \<in> set turns)) (tool_calls db),
           steps := filter (\<lambda>r. \<not> (st_session r = sid \<and> anchor \<le> st_seq r)) (steps db)\<rparr>)))"

definition last_by :: "('a \<Rightarrow> int) \<Rightarrow> 'a list \<Rightarrow> 'a option" where
  "last_by f xs = (case rev (sort_key f xs) of [] \<Rightarrow> None | x # _ \<Rightarrow> Some x)"

definition first_by :: "('a \<Rightarrow> int) \<Rightarrow> 'a list \<Rightarrow> 'a option" where
  "first_by f xs = (case sort_key f xs of [] \<Rightarrow> None | x # _ \<Rightarrow> Some x)"

definition assistant_tool_step_id :: "uuid \<Rightarrow> uuid \<Rightarrow> db \<Rightarrow> uuid option" where
  "assistant_tool_step_id sid mid db = map_option st_id (last_by st_seq
     (filter (\<lambda>r. st_session r = sid \<and> st_message_step r = mid \<and> st_role r = RAssistant) (steps db)))"

definition payload_get :: "json \<Rightarrow> string \<Rightarrow> json" where
  "payload_get p k = (case p of JObj kvs \<Rightarrow> obj_get kvs k | _ \<Rightarrow> JNull)"

definition next_step_after :: "uuid \<Rightarrow> uuid \<Rightarrow> uuid \<Rightarrow> db \<Rightarrow> step_row option" where
  "next_step_after sid mid tcid db =
    (let turn = filter (\<lambda>r. st_session r = sid \<and> st_message_step r = mid) (steps db);
         answers = filter (\<lambda>r. st_role r = RAssistant) turn in
     case first_by st_seq (filter (\<lambda>r. st_role r = RTool
            \<and> payload_get (st_payload r) ''toolCallId'' = JStr (str_uuid tcid)) turn) of
       Some anchor \<Rightarrow> first_by st_seq (filter (\<lambda>r. st_seq anchor < st_seq r) answers)
     | None \<Rightarrow> last_by st_seq answers)"

section \<open>The in-memory repository\<close>

text \<open>Steps are never flushed, so they have no identifier; the transcript is seeded in the replay shape
  of the active provider.\<close>

datatype temporary_turn = Turn role string

definition history_blocks :: "role \<Rightarrow> string \<Rightarrow> string \<Rightarrow> json list" where
  "history_blocks ro content provider =
    (if ro = RAssistant \<and> provider = ''openai''
     then [JObj [(''role'', JStr ''assistant''), (''content'', JStr content)]]
     else [JObj [(''type'', JStr ''text''), (''text'', JStr content)]])"

definition mem_step :: "uuid \<Rightarrow> uuid \<Rightarrow> role \<Rightarrow> dict \<Rightarrow> json option \<Rightarrow> step_row" where
  "mem_step sid mid ro payload usage = \<lparr>st_id = 0, st_seq = 0, st_session = sid, st_message_step = mid,
     st_role = ro, st_payload = JObj payload, st_usage = usage, st_created = 0\<rparr>"

fun seed_steps :: "uuid \<Rightarrow> string \<Rightarrow> temporary_turn list \<Rightarrow> step_row list db_act" where
  "seed_steps sid provider [] = ret []"
| "seed_steps sid provider (Turn ro content # ts) =
     bind_act fresh_uuid (\<lambda>mid.
     bind_act (seed_steps sid provider ts) (\<lambda>rows.
     ret (mem_step sid mid ro [(''content'', JArr (history_blocks ro content provider))] None # rows)))"

text \<open>The constructor of \<^verbatim>\<open>EphemeralChatRepository\<close>; its value is the synthetic session identifier.\<close>

definition ephemeral_init :: "temporary_turn list \<Rightarrow> string \<Rightarrow> uuid chat_act" where
  "ephemeral_init seed provider =
     bind_act (on_db fresh_uuid) (\<lambda>sid.
     bind_act (on_db (seed_steps sid provider seed)) (\<lambda>rows.
     bind_act (upd_st (\<lambda>s. s\<lparr>ch_mem_steps := rows, ch_mem_calls := []\<rparr>)) (\<lambda>_. ret sid)))"

definition mem_complete :: "uuid \<Rightarrow> tc_status \<Rightarrow> json option \<Rightarrow> bool chat_act" where
  "mem_complete tcid status result = (\<lambda>s. case find (\<lambda>r. tc_id r = tcid) (ch_mem_calls s) of
     None \<Rightarrow> (Inr False, s)
   | Some r \<Rightarrow> if done_call r then (Inr False, s)
       else (Inr True, s\<lparr>ch_mem_calls := map (\<lambda>r. if tc_id r = tcid
         then r\<lparr>tc_status := status, tc_result := result\<rparr> else r) (ch_mem_calls s)\<rparr>))"

definition mem_put_call :: "tool_call_row \<Rightarrow> tool_call_row list \<Rightarrow> tool_call_row list" where
  "mem_put_call r rs = (if find (\<lambda>q. tc_id q = tc_id r) rs = None then rs @ [r]
     else map (\<lambda>q. if tc_id q = tc_id r then r else q) rs)"

section \<open>The repository of a request\<close>

text \<open>The flag selects the repository the request runs on.\<close>

definition add_step :: "bool \<Rightarrow> uuid \<Rightarrow> uuid \<Rightarrow> role \<Rightarrow> dict \<Rightarrow> json option \<Rightarrow> uuid option chat_act" where
  "add_step tmp sid mid ro payload usage =
     (if tmp then bind_act (upd_st (\<lambda>s. s\<lparr>ch_mem_steps := ch_mem_steps s @ [mem_step sid mid ro payload usage]\<rparr>))
        (\<lambda>_. ret None)
      else on_db (db_add_step sid mid ro payload usage))"

definition list_steps :: "bool \<Rightarrow> uuid \<Rightarrow> chat_st \<Rightarrow> step_row list" where
  "list_steps tmp sid s = (if tmp then ch_mem_steps s else db_list_steps sid (ch_db s))"

definition get_tool_call :: "bool \<Rightarrow> uuid \<Rightarrow> chat_st \<Rightarrow> tool_call_row option" where
  "get_tool_call tmp tcid s = (if tmp then find (\<lambda>r. tc_id r = tcid) (ch_mem_calls s)
     else db_get_tool_call tcid (ch_db s))"

definition create_tool_call :: "bool \<Rightarrow> uuid \<Rightarrow> uuid \<Rightarrow> string \<Rightarrow> dict \<Rightarrow> uuid \<Rightarrow> string \<Rightarrow> unit chat_act" where
  "create_tool_call tmp sid mid name args tcid provider =
     (if tmp then upd_st (\<lambda>s. s\<lparr>ch_mem_calls :=
        mem_put_call (pending_call tcid sid mid name args provider 0) (ch_mem_calls s)\<rparr>)
      else on_db (db_create_tool_call sid mid name args tcid provider))"

definition list_tool_calls :: "bool \<Rightarrow> uuid \<Rightarrow> uuid \<Rightarrow> chat_st \<Rightarrow> tool_call_row list" where
  "list_tool_calls tmp sid mid s =
     (if tmp then filter (\<lambda>r. tc_session r = sid \<and> tc_message_step r = mid) (ch_mem_calls s)
      else db_list_tool_calls sid mid (ch_db s))"

definition complete_tool_call :: "bool \<Rightarrow> uuid \<Rightarrow> tc_status \<Rightarrow> json option \<Rightarrow> bool chat_act" where
  "complete_tool_call tmp tcid status result =
     (if tmp then mem_complete tcid status result else on_db (db_complete_tool_call tcid status result))"

end
