(* ===== verification/Byok.thy ===== *)
theory Byok
  imports ServerTools LlmClients Policy
begin

text \<open>
  Keys of users (\<^verbatim>\<open>app/byok/service.py\<close>, \<^verbatim>\<open>provider_detect.py\<close>): envelope encryption, validation with the
  provider of the key, switching on and off, and the key for a generation. AES-GCM, the key management
  service, the validation calls, UTF-8 decoding and the random bytes are parameters.
\<close>

section \<open>The provider of a key\<close>

definition detect_byok_provider :: "string \<Rightarrow> string option" where
  "detect_byok_provider api_key = (let key = py_strip api_key in
     if starts_with ''sk-ant-'' key then Some ''anthropic''
     else if starts_with ''sk-proj-'' key then Some ''openai''
     else if starts_with ''sk-'' key then Some ''openai''
     else None)"

section \<open>The service\<close>

record byok_env =
  by_cfg :: settings
  by_encrypt :: "bytes \<Rightarrow> bytes \<Rightarrow> bytes \<Rightarrow> bytes"
    \<comment> \<open>\<^verbatim>\<open>AESGCM(dek).encrypt(nonce, data)\<close>\<close>
  by_decrypt :: "bytes \<Rightarrow> bytes \<Rightarrow> bytes \<Rightarrow> bytes option"
  by_wrap :: "bytes \<Rightarrow> bytes"
  by_unwrap :: "bytes \<Rightarrow> bytes option"
  by_utf8 :: "bytes \<Rightarrow> string option"
  by_validate :: "string \<Rightarrow> string \<Rightarrow> key_validation"
    \<comment> \<open>\<^verbatim>\<open>llm_client_for(provider).validate_key\<close>\<close>

record byok_result =
  br_enabled :: bool
  br_status :: key_status
  br_model :: "string option"

definition active_model_for :: "settings \<Rightarrow> key_status \<Rightarrow> string option \<Rightarrow> string option" where
  "active_model_for cfg st provider = (if st \<noteq> KsValid then None
     else Some (byok_default_model_for cfg (case provider of None \<Rightarrow> norm_name (llm_provider cfg) | Some p \<Rightarrow> p)))"

fun key_status_str :: "key_status \<Rightarrow> string" where
  "key_status_str KsValid = ''valid''"
| "key_status_str KsInvalid = ''invalid''"
| "key_status_str KsMissing = ''missing''"
| "key_status_str KsValidating = ''validating''"
| "key_status_str KsOffline = ''offline''"
| "key_status_str KsExpired = ''expired''"

fun status_of_validation :: "key_validation \<Rightarrow> key_status" where
  "status_of_validation KeyValid = KsValid"
| "status_of_validation KeyInvalid = KsInvalid"
| "status_of_validation KeyOffline = KsOffline"

definition byok_put :: "uuid \<Rightarrow> byok_row \<Rightarrow> unit db_act" where
  "byok_put uid r = (\<lambda>db. if users db uid = None then (Inl DbError, db)
     else (Inr (), db\<lparr>byok_keys := (byok_keys db)(uid \<mapsto> r)\<rparr>))"

definition store_key :: "byok_env \<Rightarrow> bytes \<Rightarrow> bytes \<Rightarrow> uuid \<Rightarrow> string \<Rightarrow> key_status \<Rightarrow> string option \<Rightarrow> byok_result db_act" where
  "store_key env dek nonce uid api_key st provider =
    bind_act get_st (\<lambda>db.
    let enabled = (case byok_keys db uid of None \<Rightarrow> False | Some r \<Rightarrow> b_enabled r \<and> st = KsValid) in
    bind_act (byok_put uid \<lparr>b_encrypted_key = by_encrypt env dek nonce (utf8_encode api_key),
        b_encrypted_dek = by_wrap env dek, b_nonce = nonce, b_status = st, b_enabled = enabled,
        b_provider = provider, b_updated = db_now db\<rparr>) (\<lambda>_.
    bind_act (audit_record uid None EVENT_BYOK_CHANGE [(''action'', JStr ''set''),
        (''keyStatus'', JStr (key_status_str st)), (''byokEnabled'', JBool enabled)]) (\<lambda>_.
    ret \<lparr>br_enabled = enabled, br_status = st, br_model = active_model_for (by_cfg env) st provider\<rparr>)))"

definition set_key :: "byok_env \<Rightarrow> bytes \<Rightarrow> bytes \<Rightarrow> uuid \<Rightarrow> string \<Rightarrow> byok_result db_act" where
  "set_key env dek nonce uid api_key = (case detect_byok_provider api_key of
     None \<Rightarrow> store_key env dek nonce uid api_key KsInvalid None
   | Some p \<Rightarrow> store_key env dek nonce uid api_key (status_of_validation (by_validate env p api_key)) (Some p))"

definition no_key :: byok_result where
  "no_key = \<lparr>br_enabled = False, br_status = KsMissing, br_model = None\<rparr>"

definition toggle :: "byok_env \<Rightarrow> uuid \<Rightarrow> bool \<Rightarrow> byok_result db_act" where
  "toggle env uid enabled = bind_act get_st (\<lambda>db. case byok_keys db uid of
     None \<Rightarrow> ret no_key
   | Some r \<Rightarrow>
      (let model = active_model_for (by_cfg env) (b_status r) (b_provider r) in
       if enabled \<and> b_status r \<noteq> KsValid then
         bind_act (audit_record uid None EVENT_BYOK_CHANGE [(''action'', JStr ''toggle_rejected''),
             (''requested'', JBool enabled), (''keyStatus'', JStr (key_status_str (b_status r)))]) (\<lambda>_.
         ret \<lparr>br_enabled = False, br_status = b_status r, br_model = model\<rparr>)
       else
         bind_act (byok_put uid (r\<lparr>b_enabled := enabled\<rparr>)) (\<lambda>_.
         bind_act (audit_record uid None EVENT_BYOK_CHANGE [(''action'', JStr ''toggle''),
             (''byokEnabled'', JBool enabled), (''keyStatus'', JStr (key_status_str (b_status r)))]) (\<lambda>_.
         ret \<lparr>br_enabled = enabled, br_status = b_status r, br_model = model\<rparr>))))"

definition delete_key :: "uuid \<Rightarrow> byok_result db_act" where
  "delete_key uid =
    bind_act (upd_st (\<lambda>db. db\<lparr>byok_keys := (byok_keys db)(uid := None)\<rparr>)) (\<lambda>_.
    bind_act (audit_record uid None EVENT_BYOK_CHANGE [(''action'', JStr ''delete''),
        (''byokEnabled'', JBool False), (''keyStatus'', JStr ''missing'')]) (\<lambda>_.
    ret no_key))"

definition get_status :: "byok_env \<Rightarrow> uuid \<Rightarrow> db \<Rightarrow> byok_result" where
  "get_status env uid db = (case byok_keys db uid of
     None \<Rightarrow> no_key
   | Some r \<Rightarrow> \<lparr>br_enabled = b_enabled r, br_status = b_status r,
       br_model = active_model_for (by_cfg env) (b_status r) (b_provider r)\<rparr>)"

text \<open>The stored key in clear; an exception where the key service, AES-GCM or the decoding fails.\<close>

definition plaintext_of :: "byok_env \<Rightarrow> byok_row \<Rightarrow> string option" where
  "plaintext_of env r = (case by_unwrap env (b_encrypted_dek r) of None \<Rightarrow> None
     | Some dek \<Rightarrow> (case by_decrypt env dek (b_nonce r) (b_encrypted_key r) of None \<Rightarrow> None
         | Some data \<Rightarrow> by_utf8 env data))"

definition get_plaintext_key_with_provider ::
  "byok_env \<Rightarrow> uuid \<Rightarrow> db \<Rightarrow> app_error + (string \<times> string option) option" where
  "get_plaintext_key_with_provider env uid db = (case byok_keys db uid of
     None \<Rightarrow> Inr None
   | Some r \<Rightarrow> (case plaintext_of env r of None \<Rightarrow> Inl PyError
       | Some key \<Rightarrow> Inr (Some (key, (case b_provider r of Some p \<Rightarrow> Some p | None \<Rightarrow> detect_byok_provider key)))))"

definition get_plaintext_key :: "byok_env \<Rightarrow> uuid \<Rightarrow> db \<Rightarrow> app_error + string option" where
  "get_plaintext_key env uid db = (case byok_keys db uid of
     None \<Rightarrow> Inr None
   | Some r \<Rightarrow> (case plaintext_of env r of None \<Rightarrow> Inl PyError | Some key \<Rightarrow> Inr (Some key)))"

definition demote :: "key_status \<Rightarrow> string \<Rightarrow> uuid \<Rightarrow> unit db_act" where
  "demote st action uid = bind_act get_st (\<lambda>db. case byok_keys db uid of
     None \<Rightarrow> ret ()
   | Some r \<Rightarrow>
     bind_act (byok_put uid (r\<lparr>b_status := st, b_enabled := False\<rparr>)) (\<lambda>_.
     audit_record uid None EVENT_BYOK_CHANGE [(''action'', JStr action), (''keyStatus'', JStr (key_status_str st))]))"

definition mark_invalid :: "uuid \<Rightarrow> unit db_act" where
  "mark_invalid uid = demote KsInvalid ''runtime_invalidate'' uid"

definition mark_expired :: "uuid \<Rightarrow> unit db_act" where
  "mark_expired uid = demote KsExpired ''runtime_expire'' uid"

section \<open>Only a valid key is ever switched on\<close>

datatype byok_op = SetKey bytes bytes uuid string | Toggle uuid bool | DeleteKey uuid | MarkInvalid uuid | MarkExpired uuid

fun byok_step :: "byok_env \<Rightarrow> byok_op \<Rightarrow> db \<Rightarrow> db" where
  "byok_step env (SetKey dek nonce uid k) db = snd (transaction (set_key env dek nonce uid k) db)"
| "byok_step env (Toggle uid b) db = snd (transaction (toggle env uid b) db)"
| "byok_step env (DeleteKey uid) db = snd (transaction (delete_key uid) db)"
| "byok_step env (MarkInvalid uid) db = snd (transaction (mark_invalid uid) db)"
| "byok_step env (MarkExpired uid) db = snd (transaction (mark_expired uid) db)"

definition byok_inv :: "db \<Rightarrow> bool" where
  "byok_inv db \<longleftrightarrow> (\<forall>u r. byok_keys db u = Some r \<longrightarrow> b_enabled r \<longrightarrow> b_status r = KsValid)"

lemma audit_keeps_keys: "audit_record u s e p db = (r, db') \<Longrightarrow> byok_keys db' = byok_keys db"
  by (rule audit_record_frame)

lemma byok_put_Inr: "byok_put uid r db = (Inr x, db') \<longleftrightarrow> users db uid \<noteq> None \<and> db' = db\<lparr>byok_keys := (byok_keys db)(uid \<mapsto> r)\<rparr>"
  by (auto simp: byok_put_def)

lemma store_key_Inr:
  assumes "store_key env dek nonce uid k st p db = (Inr res, db')"
  shows "byok_keys db' = (byok_keys db)(uid \<mapsto> \<lparr>b_encrypted_key = by_encrypt env dek nonce (utf8_encode k),
        b_encrypted_dek = by_wrap env dek, b_nonce = nonce, b_status = st,
        b_enabled = (case byok_keys db uid of None \<Rightarrow> False | Some r \<Rightarrow> b_enabled r \<and> st = KsValid),
        b_provider = p, b_updated = db_now db\<rparr>)"
    "br_status res = st" "br_model res = active_model_for (by_cfg env) st p"
  using assms by (auto simp: store_key_def Let_def byok_put_Inr elim!: bind_act_Inr_E dest!: audit_keeps_keys)

lemma key_status_text: "CHR 0x00 \<notin> set (key_status_str st)"
  by (cases st) simp_all

lemma store_key_ok:
  "users db uid \<noteq> None \<Longrightarrow> text_ok (db_rid db) \<Longrightarrow>
   \<exists>res db'. store_key env dek nonce uid k st p db = (Inr res, db')"
  by (auto simp: store_key_def Let_def byok_put_def bind_act_def audit_record_def audit_payload_ok key_status_text)

lemma set_key_Inr:
  assumes "set_key env dek nonce uid k db = (Inr res, db')"
  obtains st where "(detect_byok_provider k = None \<and> st = KsInvalid) \<or>
      (\<exists>p. detect_byok_provider k = Some p \<and> st = status_of_validation (by_validate env p k))"
    "byok_keys db' = (byok_keys db)(uid \<mapsto> \<lparr>b_encrypted_key = by_encrypt env dek nonce (utf8_encode k),
        b_encrypted_dek = by_wrap env dek, b_nonce = nonce, b_status = st,
        b_enabled = (case byok_keys db uid of None \<Rightarrow> False | Some r \<Rightarrow> b_enabled r \<and> st = KsValid),
        b_provider = detect_byok_provider k, b_updated = db_now db\<rparr>)"
    "br_status res = st"
proof (cases "detect_byok_provider k")
  case None
  with assms show thesis by (auto simp: set_key_def intro: that[OF _ store_key_Inr(1,2)])
next
  case (Some p)
  with assms show thesis by (auto simp: set_key_def intro: that[OF _ store_key_Inr(1,2)])
qed

lemma toggle_Inr:
  assumes "toggle env uid b db = (Inr res, db')"
  shows "byok_keys db' = byok_keys db \<or>
    (\<exists>r. byok_keys db uid = Some r \<and> (b \<longrightarrow> b_status r = KsValid) \<and> byok_keys db' = (byok_keys db)(uid \<mapsto> r\<lparr>b_enabled := b\<rparr>))"
  using assms by (auto simp: toggle_def Let_def byok_put_Inr elim!: bind_act_Inr_E dest!: audit_keeps_keys
      split: option.splits if_splits)

lemma demote_Inr:
  assumes "demote st a uid db = (Inr x, db')"
  shows "byok_keys db' = (case byok_keys db uid of None \<Rightarrow> byok_keys db
     | Some r \<Rightarrow> (byok_keys db)(uid \<mapsto> r\<lparr>b_status := st, b_enabled := False\<rparr>))"
  using assms by (auto simp: demote_def byok_put_Inr elim!: bind_act_Inr_E dest!: audit_keeps_keys split: option.splits)

lemma delete_key_Inr: "delete_key uid db = (Inr x, db') \<Longrightarrow> byok_keys db' = (byok_keys db)(uid := None)"
  by (auto simp: delete_key_def elim!: bind_act_Inr_E dest!: audit_keeps_keys)

lemma byok_inv_upd:
  "\<lbrakk>byok_inv db; byok_keys db' = (byok_keys db)(uid \<mapsto> r); b_enabled r \<longrightarrow> b_status r = KsValid\<rbrakk> \<Longrightarrow> byok_inv db'"
  by (auto simp: byok_inv_def split: if_splits)

lemma byok_inv_del: "\<lbrakk>byok_inv db; byok_keys db' = (byok_keys db)(uid := None)\<rbrakk> \<Longrightarrow> byok_inv db'"
  by (auto simp: byok_inv_def split: if_splits)

lemma byok_inv_same: "\<lbrakk>byok_inv db; byok_keys db' = byok_keys db\<rbrakk> \<Longrightarrow> byok_inv db'"
  by (simp add: byok_inv_def)

lemma set_key_keeps: "\<lbrakk>byok_inv db; set_key env dek nonce uid k db = (Inr res, db')\<rbrakk> \<Longrightarrow> byok_inv db'"
  by (erule set_key_Inr, erule (1) byok_inv_upd) (simp split: option.splits)

lemma toggle_keeps:
  assumes "byok_inv db" "toggle env uid b db = (Inr res, db')"
  shows "byok_inv db'"
  using toggle_Inr[OF assms(2)] byok_inv_same[OF assms(1)] byok_inv_upd[OF assms(1)] by fastforce

lemma demote_keeps:
  assumes "byok_inv db" "demote st a uid db = (Inr x, db')"
  shows "byok_inv db'"
  using demote_Inr[OF assms(2)] byok_inv_same[OF assms(1)] byok_inv_upd[OF assms(1)]
  by (auto split: option.splits)

lemma delete_keeps: "\<lbrakk>byok_inv db; delete_key uid db = (Inr res, db')\<rbrakk> \<Longrightarrow> byok_inv db'"
  by (blast intro: byok_inv_del dest: delete_key_Inr)

lemma byok_step_inv:
  assumes inv: "byok_inv db"
  shows "byok_inv (byok_step env op db)"
proof (cases op)
  case (SetKey dek nonce uid k)
  show ?thesis unfolding SetKey byok_step.simps by (rule transaction_keeps[of byok_inv, OF inv set_key_keeps[OF inv]])
next
  case (Toggle uid b)
  show ?thesis unfolding Toggle byok_step.simps by (rule transaction_keeps[of byok_inv, OF inv toggle_keeps[OF inv]])
next
  case (DeleteKey uid)
  show ?thesis unfolding DeleteKey byok_step.simps by (rule transaction_keeps[of byok_inv, OF inv delete_keeps[OF inv]])
next
  case (MarkInvalid uid)
  show ?thesis unfolding MarkInvalid byok_step.simps mark_invalid_def
    by (rule transaction_keeps[of byok_inv, OF inv demote_keeps[OF inv]])
next
  case (MarkExpired uid)
  show ?thesis unfolding MarkExpired byok_step.simps mark_expired_def
    by (rule transaction_keeps[of byok_inv, OF inv demote_keeps[OF inv]])
qed

lemma byok_run_inv: "byok_inv db \<Longrightarrow> byok_inv (fold (byok_step env) ops db)"
  by (induction ops arbitrary: db) (simp_all add: byok_step_inv)

section \<open>Properties\<close>

text \<open>
  Whatever keys are set, switched, deleted, or demoted by a generation that the provider rejected, a key
  is switched on only while its status is valid; so every lookup that hands out an enabled status
  reports a valid key.
\<close>

lemma byok_enabled_only_valid:
  assumes "byok_inv db"
  shows "byok_inv (fold (byok_step env) ops db) \<and>
    (br_enabled (get_status env uid (fold (byok_step env) ops db)) \<longrightarrow>
      br_status (get_status env uid (fold (byok_step env) ops db)) = KsValid)"
  using byok_run_inv[OF assms] by (auto simp: get_status_def no_key_def byok_inv_def split: option.splits)

definition demo_byok :: byok_env where
  "demo_byok = \<lparr>by_cfg = demo_cfg, by_encrypt = (\<lambda>dek nonce data. data), by_decrypt = (\<lambda>dek nonce data. Some data),
     by_wrap = id, by_unwrap = Some, by_utf8 = (\<lambda>bs. Some (map (\<lambda>b. char_of (unat b)) bs)),
     by_validate = (\<lambda>p k. KeyValid)\<rparr>"

lemma byok_enabled_only_valid_witness:
  "byok_inv (fold (byok_step demo_byok) [SetKey [1] [2] 7 ''sk-a'', Toggle 7 True, MarkExpired 7] (empty_db of_nat 0))"
  by (rule byok_enabled_only_valid[THEN conjunct1]) (simp add: byok_inv_def empty_db_def)

text \<open>
  A key that was accepted comes back: after \<^verbatim>\<open>set_key\<close> commits, the key a generation uses is the key the
  user sent, attributed to the provider its prefix names, and the reported status is the verdict of that
  provider (invalid where no provider is recognised), under the inversion laws of AES-GCM, of the key
  service and of UTF-8.
\<close>

lemma byok_key_roundtrip:
  assumes "\<And>data. by_decrypt env dek nonce (by_encrypt env dek nonce data) = Some data"
    and "by_unwrap env (by_wrap env dek) = Some dek"
    and "by_utf8 env (utf8_encode api_key) = Some api_key"
    and "set_key env dek nonce uid api_key db = (Inr res, db')"
  shows "get_plaintext_key_with_provider env uid db' = Inr (Some (api_key, detect_byok_provider api_key)) \<and>
    br_status res = (case detect_byok_provider api_key of None \<Rightarrow> KsInvalid
      | Some p \<Rightarrow> status_of_validation (by_validate env p api_key))"
  using assms(4)
  by (rule set_key_Inr)
    (auto simp: get_plaintext_key_with_provider_def plaintext_of_def assms(1-3) split: option.splits)

definition demo_byok_db :: db where
  "demo_byok_db = (empty_db of_nat 0)\<lparr>users := [7 \<mapsto> \<lparr>u_created = 0, u_trial_used = False, u_display_name = None\<rparr>]\<rparr>"

lemma demo_set_key: "\<exists>res db'. set_key demo_byok [1] [2] 7 ''sk-ant-x'' demo_byok_db = (Inr res, db')"
  using store_key_ok[of demo_byok_db 7]
  by (simp add: set_key_def demo_byok_db_def empty_db_def split: option.splits)

lemma demo_key_bytes: "by_utf8 demo_byok (utf8_encode ''sk-ant-x'') = Some ''sk-ant-x''"
  by code_simp

lemma byok_key_roundtrip_witness:
  "\<exists>res db'. set_key demo_byok [1] [2] 7 ''sk-ant-x'' demo_byok_db = (Inr res, db') \<and>
    get_plaintext_key_with_provider demo_byok 7 db' = Inr (Some (''sk-ant-x'', detect_byok_provider ''sk-ant-x''))"
proof -
  obtain res db' where r: "set_key demo_byok [1] [2] 7 ''sk-ant-x'' demo_byok_db = (Inr res, db')"
    using demo_set_key by blast
  have "get_plaintext_key_with_provider demo_byok 7 db' = Inr (Some (''sk-ant-x'', detect_byok_provider ''sk-ant-x''))"
    by (rule byok_key_roundtrip[OF _ _ demo_key_bytes r, THEN conjunct1]) (simp_all add: demo_byok_def)
  with r show ?thesis by blast
qed

end
