(* ===== verification/Attachments.thy ===== *)
theory Attachments
  imports Config Base64 Errors
begin

text \<open>
  Inline attachments of a chat turn (\<^verbatim>\<open>app/chat/attachments.py\<close>): the checks made before and after
  decoding, and the content block of each provider. UTF-8, \<^verbatim>\<open>json.loads\<close>, pypdf and the Cyrillic end of
  the placeholder are parameters.
\<close>

section \<open>Parameters and data\<close>

text \<open>What pypdf says of a document: encrypted, its number of pages, an error the code handles
  (\<^verbatim>\<open>PdfReadError\<close>, \<^verbatim>\<open>ValueError\<close>, \<^verbatim>\<open>OSError\<close>), or another exception.\<close>

datatype pdf_answer = PdfEncrypted | PdfPages int | PdfUnreadable | PdfCrash

record attach_env =
  al_utf8 :: "8 word list \<Rightarrow> string option"
  al_loads :: json_loads
  al_pdf :: "8 word list \<Rightarrow> pdf_answer"
  al_note :: string

record attachment_in =
  at_type :: string
  at_media :: string
  at_filename :: "string option"
  at_data :: string

record prepared_attachments =
  pa_blocks :: "json list"
  pa_placeholders :: "json list"

section \<open>Checks\<close>

definition IMAGE_TYPES :: "string list" where
  "IMAGE_TYPES = [''image/jpeg'', ''image/png'', ''image/gif'', ''image/webp'']"

definition DOCUMENT_TYPES :: "string list" where "DOCUMENT_TYPES = [''application/pdf'']"

definition TEXT_TYPES :: "string list" where
  "TEXT_TYPES = [''text/plain'', ''text/markdown'', ''text/csv'', ''application/json'']"

definition ATTACHMENT_ALLOWLIST :: "(string \<times> string list) list" where
  "ATTACHMENT_ALLOWLIST = [(''image'', IMAGE_TYPES), (''document'', DOCUMENT_TYPES), (''text'', TEXT_TYPES)]"

definition type_allowed :: "string \<Rightarrow> string \<Rightarrow> bool" where
  "type_allowed ty media = (case map_of ATTACHMENT_ALLOWLIST ty of None \<Rightarrow> False | Some ms \<Rightarrow> media \<in> set ms)"

definition MAGIC_PREFIXES :: "(string \<times> 8 word list list) list" where
  "MAGIC_PREFIXES = [(''image/jpeg'', [[255, 216, 255]]),
     (''image/png'', [[137, 80, 78, 71, 13, 10, 26, 10]]),
     (''image/gif'', [[71, 73, 70, 56, 55, 97], [71, 73, 70, 56, 57, 97]]),
     (''application/pdf'', [[37, 80, 68, 70, 45]])]"

definition max_bytes_for :: "settings \<Rightarrow> string \<Rightarrow> int" where
  "max_bytes_for cfg ty = (if ty = ''document'' then attachment_max_bytes_document cfg else attachment_max_bytes_image cfg)"

definition decoded_len_from_base64 :: "string \<Rightarrow> int" where
  "decoded_len_from_base64 data =
    (let stripped = py_strip data; n = length stripped in
     if n = 0 then 0
     else int n div 4 * 3 - int (length (filter (\<lambda>c. c = CHR ''='') (drop (n - 2) stripped))))"

definition decode_base64 :: "string \<Rightarrow> app_error + 8 word list" where
  "decode_base64 data = (case b64_decode_strict data of None \<Rightarrow> Inl ValidationFailedError | Some bs \<Rightarrow> Inr bs)"

definition magic_ok :: "string \<Rightarrow> 8 word list \<Rightarrow> bool" where
  "magic_ok media decoded =
    (if media = ''image/webp'' then take 4 decoded = [82, 73, 70, 70] \<and> take 4 (drop 8 decoded) = [87, 69, 66, 80]
     else case map_of MAGIC_PREFIXES media of
       None \<Rightarrow> True | Some ms \<Rightarrow> list_ex (\<lambda>p. starts_with p decoded) ms)"

definition check_magic_bytes :: "string \<Rightarrow> 8 word list \<Rightarrow> app_error + unit" where
  "check_magic_bytes media decoded = (if magic_ok media decoded then Inr () else Inl ValidationFailedError)"

definition decode_text :: "attach_env \<Rightarrow> string \<Rightarrow> 8 word list \<Rightarrow> app_error + string" where
  "decode_text env media decoded = (case al_utf8 env decoded of
     None \<Rightarrow> Inl ValidationFailedError
   | Some text \<Rightarrow> if media = ''application/json'' \<and> al_loads env text = None then Inl ValidationFailedError else Inr text)"

definition check_pdf_pages :: "attach_env \<Rightarrow> settings \<Rightarrow> 8 word list \<Rightarrow> app_error + unit" where
  "check_pdf_pages env cfg decoded = (case al_pdf env decoded of
     PdfEncrypted \<Rightarrow> Inl ValidationFailedError
   | PdfUnreadable \<Rightarrow> Inl ValidationFailedError
   | PdfCrash \<Rightarrow> Inl PyError
   | PdfPages n \<Rightarrow> if attachment_pdf_max_pages cfg < n then Inl ValidationFailedError else Inr ())"

section \<open>Blocks\<close>

definition attachment_name :: "attachment_in \<Rightarrow> string" where
  "attachment_name att = (case at_filename att of None \<Rightarrow> ''file'' | Some f \<Rightarrow> if f = [] then ''file'' else f)"

definition placeholder :: "attach_env \<Rightarrow> attachment_in \<Rightarrow> nat \<Rightarrow> json" where
  "placeholder env att n = JObj [(''type'', JStr ''text''),
     (''text'', JStr (''[attachment: '' @ at_media att @ '' '' @ [CHR 0x22] @ attachment_name att @ [CHR 0x22] @ '', '' @ str_nat n
        @ ''B '' @ al_note env @ '']''))]"

definition fenced :: "attachment_in \<Rightarrow> string option \<Rightarrow> string" where
  "fenced att text = (let body = (case text of Some t \<Rightarrow> t | None \<Rightarrow> []) in
     attachment_name att @ [CHR 0x0A] @ ''```'' @ [CHR 0x0A] @ body @ [CHR 0x0A] @ ''```'')"

definition base64_source :: "string \<Rightarrow> string \<Rightarrow> json" where
  "base64_source media data = JObj [(''type'', JStr ''base64''), (''media_type'', JStr media), (''data'', JStr data)]"

definition data_uri :: "string \<Rightarrow> string \<Rightarrow> string" where
  "data_uri media data = ''data:'' @ media @ '';base64,'' @ data"

definition anthropic_content_block :: "attachment_in \<Rightarrow> string option \<Rightarrow> json" where
  "anthropic_content_block att text =
    (if at_type att = ''image'' then JObj [(''type'', JStr ''image''), (''source'', base64_source (at_media att) (at_data att))]
     else if at_type att = ''document''
       then JObj [(''type'', JStr ''document''), (''source'', base64_source ''application/pdf'' (at_data att))]
     else JObj [(''type'', JStr ''text''), (''text'', JStr (fenced att text))])"

definition openai_content_block :: "attachment_in \<Rightarrow> string option \<Rightarrow> json" where
  "openai_content_block att text =
    (if at_type att = ''image''
       then JObj [(''type'', JStr ''input_image''), (''image_url'', JStr (data_uri (at_media att) (at_data att))),
         (''detail'', JStr ''auto'')]
     else if at_type att = ''document''
       then JObj [(''type'', JStr ''input_file''), (''filename'', JStr (attachment_name att)),
         (''file_data'', JStr (data_uri (at_media att) (at_data att)))]
     else JObj [(''type'', JStr ''input_text''), (''text'', JStr (fenced att text))])"

definition content_block :: "attachment_in \<Rightarrow> string option \<Rightarrow> string \<Rightarrow> json" where
  "content_block att text provider =
    (if provider = ''openai'' then openai_content_block att text else anthropic_content_block att text)"

section \<open>The pipeline\<close>

text \<open>The checks of one attachment that has passed the limits: the decoded bytes and, for text, their text.\<close>

definition check_content :: "attach_env \<Rightarrow> settings \<Rightarrow> attachment_in \<Rightarrow> app_error + 8 word list \<times> string option" where
  "check_content env cfg att = (case decode_base64 (at_data att) of
     Inl e \<Rightarrow> Inl e
   | Inr decoded \<Rightarrow>
     (if at_type att = ''image'' then
        (case check_magic_bytes (at_media att) decoded of Inl e \<Rightarrow> Inl e | Inr _ \<Rightarrow> Inr (decoded, None))
      else if at_type att = ''document'' then
        (case check_magic_bytes (at_media att) decoded of Inl e \<Rightarrow> Inl e
         | Inr _ \<Rightarrow> (case check_pdf_pages env cfg decoded of Inl e \<Rightarrow> Inl e | Inr _ \<Rightarrow> Inr (decoded, None)))
      else (case decode_text env (at_media att) decoded of Inl e \<Rightarrow> Inl e | Inr t \<Rightarrow> Inr (decoded, Some t))))"

fun prepare_loop :: "attach_env \<Rightarrow> settings \<Rightarrow> string \<Rightarrow> int \<Rightarrow> attachment_in list \<Rightarrow> app_error + prepared_attachments" where
  "prepare_loop env cfg provider tot [] = Inr \<lparr>pa_blocks = [], pa_placeholders = []\<rparr>"
| "prepare_loop env cfg provider tot (att # atts) =
    (if \<not> type_allowed (at_type att) (at_media att) then Inl ValidationFailedError
     else if max_bytes_for cfg (at_type att) < decoded_len_from_base64 (at_data att) then Inl ValidationFailedError
     else if attachment_total_bytes cfg < tot + decoded_len_from_base64 (at_data att) then Inl ValidationFailedError
     else (case check_content env cfg att of
        Inl e \<Rightarrow> Inl e
      | Inr (decoded, text) \<Rightarrow>
        (case prepare_loop env cfg provider (tot + decoded_len_from_base64 (at_data att)) atts of
           Inl e \<Rightarrow> Inl e
         | Inr p \<Rightarrow> Inr \<lparr>pa_blocks = content_block att text provider # pa_blocks p,
             pa_placeholders = placeholder env att (length decoded) # pa_placeholders p\<rparr>)))"

definition prepare_attachments ::
  "attach_env \<Rightarrow> settings \<Rightarrow> string \<Rightarrow> attachment_in list \<Rightarrow> app_error + prepared_attachments" where
  "prepare_attachments env cfg provider atts =
    (if attachment_max_count cfg < int (length atts) then Inl ValidationFailedError
     else prepare_loop env cfg provider 0 atts)"

section \<open>The length computed before decoding\<close>

lemma b64_val_space: "b64_val c = Some v \<Longrightarrow> \<not> is_space c"
  by (auto simp: b64_val_def is_space_def Let_def split: if_splits)

lemma pad_no_space: "\<not> is_space CHR ''=''" "b64_val CHR ''='' = None"
  by code_simp+

lemma quads_cases:
  assumes "b64_quads (c1 # c2 # c3 # c4 # cs) = Some bs"
  obtains (quad) u v w x ds where "b64_val c1 = Some u" "b64_val c2 = Some v" "b64_val c3 = Some w"
      "b64_val c4 = Some x" "b64_quads cs = Some ds" "length bs = 3 + length ds"
  | (pad1) u v w where "b64_val c1 = Some u" "b64_val c2 = Some v" "b64_val c3 = Some w" "c4 = CHR ''=''"
      "cs = []" "length bs = 2"
  | (pad2) u v where "b64_val c1 = Some u" "b64_val c2 = Some v" "c3 = CHR ''=''" "c4 = CHR ''=''"
      "cs = []" "length bs = 1"
  | (rest) "bs = []" "set (c1 # c2 # c3 # c4 # cs) = {CHR ''=''}"
proof (cases "c1 = CHR ''=''")
  case True
  with assms have "bs = []" "list_all (\<lambda>c. c = CHR ''='') (c2 # c3 # c4 # cs)" by (auto split: if_splits)
  with True rest show ?thesis by (auto simp: list_all_iff)
next
  case False
  with assms quad pad1 pad2 show ?thesis by (auto split: option.splits if_splits)
qed

lemma quads_no_space: "b64_quads s = Some bs \<Longrightarrow> c \<in> set s \<Longrightarrow> \<not> is_space c"
proof (induction s arbitrary: bs rule: b64_quads.induct)
  case (1 c1 c2 c3 c4 cs)
  from 1(2) show ?case
  proof (cases rule: quads_cases)
    case (quad u v w x ds)
    then have "c1 \<noteq> CHR ''=''" using pad_no_space(2) by auto
    from 1(1)[OF this refl quad(1) refl quad(2) refl quad(3,4,5)] 1(3) quad show ?thesis
      by (auto dest: b64_val_space)
  next
    case rest
    with 1(3) pad_no_space(1) show ?thesis by (metis singletonD)
  qed (use 1(3) pad_no_space(1) in \<open>auto dest: b64_val_space\<close>)
qed (use pad_no_space(1) in \<open>auto split: if_splits\<close>)

lemma quads_length: "b64_quads s = Some bs \<Longrightarrow> length bs \<le> 3 * (length s div 4)"
proof (induction s arbitrary: bs rule: b64_quads.induct)
  case (1 c1 c2 c3 c4 cs)
  from 1(2) show ?case
  proof (cases rule: quads_cases)
    case (quad u v w x ds)
    then have "c1 \<noteq> CHR ''=''" using pad_no_space(2) by auto
    from 1(1)[OF this refl quad(1) refl quad(2) refl quad(3,4,5)] quad(6) show ?thesis by (simp add: div_add_self1)
  qed simp_all
qed (auto split: if_splits)

lemma strip_nop:
  assumes "\<And>c. c \<in> set s \<Longrightarrow> \<not> is_space c"
  shows "py_strip s = s"
proof -
  have d: "dropWhile is_space t = t" if "\<And>c. c \<in> set t \<Longrightarrow> \<not> is_space c" for t
    using that by (cases t) auto
  show ?thesis using assms d[of s] d[of "rev s"] by (simp add: py_strip_def py_lstrip_def py_rstrip_def)
qed

text \<open>The estimate is no upper bound: padding after a complete quad, which the decoder reads over, is subtracted
  for bytes that are there. It is short by two bytes at most.\<close>

lemma decoded_len_bound:
  assumes "b64_decode_strict s = Some bs"
  shows "int (length bs) \<le> decoded_len_from_base64 s + 2"
proof -
  have q: "b64_quads s = Some bs" using assms by (simp add: b64_decode_strict_def split: if_splits)
  have s: "py_strip s = s" by (rule strip_nop) (rule quads_no_space[OF q])
  have "length (filter (\<lambda>c. c = CHR ''='') (drop (length s - 2) s)) \<le> 2"
    by (rule order_trans[OF length_filter_le]) simp
  moreover have "int (length bs) \<le> int (length s div 4) * 3" using quads_length[OF q] by linarith
  then have "int (length bs) \<le> int (length s) div 4 * 3" by (simp add: zdiv_int)
  ultimately show ?thesis by (auto simp: decoded_len_from_base64_def s Let_def)
qed

lemma decoded_len_short:
  "b64_decode_strict ''aGkx=='' = Some [104, 105, 49]" "decoded_len_from_base64 ''aGkx=='' = 1"
  by code_simp+

section \<open>Properties\<close>

text \<open>What holds of a decoded attachment that was let through.\<close>

definition content_ok :: "attach_env \<Rightarrow> settings \<Rightarrow> attachment_in \<Rightarrow> 8 word list \<Rightarrow> bool" where
  "content_ok env cfg att d =
    (type_allowed (at_type att) (at_media att) \<and> b64_decode_strict (at_data att) = Some d
     \<and> int (length d) \<le> max_bytes_for cfg (at_type att) + 2
     \<and> (if at_type att = ''text''
        then (\<exists>t. al_utf8 env d = Some t \<and> (at_media att = ''application/json'' \<longrightarrow> al_loads env t \<noteq> None))
        else magic_ok (at_media att) d)
     \<and> (at_type att = ''document'' \<longrightarrow> (\<exists>n. al_pdf env d = PdfPages n \<and> n \<le> attachment_pdf_max_pages cfg)))"

lemma type_allowed_cases:
  "type_allowed ty media \<Longrightarrow> ty = ''image'' \<or> ty = ''document'' \<or> ty = ''text''"
  by (auto simp: type_allowed_def ATTACHMENT_ALLOWLIST_def split: if_splits)

lemma check_content_ok:
  assumes "check_content env cfg att = Inr (d, tx)" "type_allowed (at_type att) (at_media att)"
    and "decoded_len_from_base64 (at_data att) \<le> max_bytes_for cfg (at_type att)"
  shows "content_ok env cfg att d" "int (length d) \<le> decoded_len_from_base64 (at_data att) + 2"
proof -
  have d: "b64_decode_strict (at_data att) = Some d"
    using assms(1) by (auto simp: check_content_def decode_base64_def split: option.splits sum.splits if_splits)
  show l: "int (length d) \<le> decoded_len_from_base64 (at_data att) + 2" by (rule decoded_len_bound[OF d])
  show "content_ok env cfg att d"
    using type_allowed_cases[OF assms(2)] assms d l
    by (auto simp: content_ok_def check_content_def decode_base64_def check_magic_bytes_def check_pdf_pages_def
        decode_text_def split: option.splits sum.splits if_splits pdf_answer.splits)
qed

lemma prepare_loop_ok:
  assumes "prepare_loop env cfg provider tot atts = Inr p"
  shows "\<exists>ds. list_all2 (content_ok env cfg) atts ds
    \<and> (atts \<noteq> [] \<longrightarrow> tot + (\<Sum>d\<leftarrow>ds. int (length d)) \<le> attachment_total_bytes cfg + 2 * int (length atts))
    \<and> length (pa_blocks p) = length atts
    \<and> pa_placeholders p = map2 (\<lambda>att d. placeholder env att (length d)) atts ds"
  using assms
proof (induction atts arbitrary: tot p)
  case (Cons att atts)
  then obtain d tx q where c: "type_allowed (at_type att) (at_media att)"
    "decoded_len_from_base64 (at_data att) \<le> max_bytes_for cfg (at_type att)"
    "tot + decoded_len_from_base64 (at_data att) \<le> attachment_total_bytes cfg"
    "check_content env cfg att = Inr (d, tx)"
    "prepare_loop env cfg provider (tot + decoded_len_from_base64 (at_data att)) atts = Inr q"
    "p = \<lparr>pa_blocks = content_block att tx provider # pa_blocks q,
      pa_placeholders = placeholder env att (length d) # pa_placeholders q\<rparr>"
    by (auto split: if_splits sum.splits prod.splits)
  note k = check_content_ok[OF c(4,1,2)]
  from Cons.IH[OF c(5)] obtain ds where "list_all2 (content_ok env cfg) atts ds"
    "atts \<noteq> [] \<longrightarrow> tot + decoded_len_from_base64 (at_data att) + (\<Sum>d\<leftarrow>ds. int (length d))
      \<le> attachment_total_bytes cfg + 2 * int (length atts)"
    "length (pa_blocks q) = length atts"
    "pa_placeholders q = map2 (\<lambda>att d. placeholder env att (length d)) atts ds"
    by auto
  then show ?case using c(3,6) k by (intro exI[of _ "d # ds"]) (cases atts; auto)
qed auto

text \<open>
  Attachments that are let through obey the limits up to the two bytes each of which the estimate can be
  short: their number, the size of each and of all together; each has a media type of its class and
  content that begins, parses or decodes as that type requires. What is stored in their place is a note
  of name, type and size, never their data.
\<close>

lemma attachments_checked:
  assumes "prepare_attachments env cfg provider atts = Inr p"
  shows "int (length atts) \<le> attachment_max_count cfg \<and> length (pa_blocks p) = length atts \<and>
    (\<exists>ds. list_all2 (content_ok env cfg) atts ds
      \<and> (if atts = [] then True else (\<Sum>d\<leftarrow>ds. int (length d)) \<le> attachment_total_bytes cfg + 2 * int (length atts))
      \<and> pa_placeholders p = map2 (\<lambda>att d. placeholder env att (length d)) atts ds)"
  using assms prepare_loop_ok[of env cfg provider 0 atts p]
  by (auto simp: prepare_attachments_def split: if_splits)

definition demo_attach :: attach_env where
  "demo_attach = \<lparr>al_utf8 = (\<lambda>bs. Some (map (\<lambda>b. char_of (unat b)) bs)), al_loads = (\<lambda>s. None),
     al_pdf = (\<lambda>bs. PdfPages 1), al_note = ''sent''\<rparr>"

definition demo_attachments :: "attachment_in list" where
  "demo_attachments = [\<lparr>at_type = ''text'', at_media = ''text/plain'', at_filename = None, at_data = ''aGk=''\<rparr>]"

theorem attachments_checked_witness:
  "\<exists>p. prepare_attachments demo_attach demo_cfg ''openai'' demo_attachments = Inr p \<and>
    (\<exists>ds. list_all2 (content_ok demo_attach demo_cfg) demo_attachments ds \<and>
      pa_placeholders p = map2 (\<lambda>att d. placeholder demo_attach att (length d)) demo_attachments ds)"
proof -
  have "isl (prepare_attachments demo_attach demo_cfg ''openai'' demo_attachments) = False"
    by code_simp
  then obtain p where p: "prepare_attachments demo_attach demo_cfg ''openai'' demo_attachments = Inr p"
    by (cases "prepare_attachments demo_attach demo_cfg ''openai'' demo_attachments") auto
  from attachments_checked[OF p] p show ?thesis by blast
qed

end
