(* ===== verification/ChatPrompt.thy ===== *)
theory ChatPrompt
  imports ChatStore Attachments ServerTools Policy
begin

text \<open>
  What the orchestrator makes of a request before any provider is called (the module-level functions of
  \<^verbatim>\<open>app/chat/orchestrator.py\<close>): system prompts, the block of conversation settings put before the
  user's text, merging of attachments, the model guard, the compact summary of a tool execution and the
  billing plan.
\<close>

section \<open>System prompts\<close>

definition TIME_NOW_INSTRUCTION :: string where
  "TIME_NOW_INSTRUCTION = ''You do not have built-in knowledge of the current date or time. If the user's request ''
     @ ''depends on the current date, time, or day of the week, call the time.now tool to get it; ''
     @ ''do not guess.''"

definition SYSTEM_PROMPT_CHAT :: string where
  "SYSTEM_PROMPT_CHAT = ''You are a helpful assistant integrated into an iOS app. Use tools when needed and ''
     @ ''respond concisely. '' @ TIME_NOW_INSTRUCTION"

definition SYSTEM_PROMPT_CODE :: string where
  "SYSTEM_PROMPT_CODE = ''You are a coding assistant integrated into an iOS app. Favor precise, technical answers: ''
     @ ''produce correct, idiomatic code with brief explanations. You can use server-side site ''
     @ ''tools to build websites. Use tools when needed and respond concisely. '' @ TIME_NOW_INSTRUCTION"

definition system_prompt_for :: "assistant_mode \<Rightarrow> string" where
  "system_prompt_for am = (if am = AmCode then SYSTEM_PROMPT_CODE else SYSTEM_PROMPT_CHAT)"

definition LF :: string where "LF = [CHR 0x0A]"

definition DIALOG_MODE_PROMPT_SUFFIX :: "dialog_mode \<Rightarrow> string option" where
  "DIALOG_MODE_PROMPT_SUFFIX dm = (case dm of
     DmStudyLearn \<Rightarrow> Some (''You are in Study & Learn mode. Teach the user: explain concepts step by step in a clear, ''
        @ ''didactic style, check understanding, and encourage active recall. Keep explanations ''
        @ ''accurate and concise. When you quiz the learner, deliver the questions as a POOL only via ''
        @ ''the quiz.generate tool (a single call with all questions); do not repeat the questions ''
        @ ''and do not reveal or hint at the correct answers or explanations in your normal text.'')
   | DmSearch \<Rightarrow> Some (''You are in Search mode. When the user's request depends on current, factual, or ''
        @ ''external information, use the web_search tool and ground your answer in the results. ''
        @ ''Cite the sources you relied on.'')
   | _ \<Rightarrow> None)"

definition system_prompt_with_dialog_mode :: "string \<Rightarrow> dialog_mode \<Rightarrow> string" where
  "system_prompt_with_dialog_mode base dm = (case DIALOG_MODE_PROMPT_SUFFIX dm of
     None \<Rightarrow> base | Some sfx \<Rightarrow> base @ LF @ LF @ sfx)"

definition system_prompt_with_workspace :: "assistant_mode \<Rightarrow> string option \<Rightarrow> string" where
  "system_prompt_with_workspace am instructions = (let base = system_prompt_for am in
     case instructions of
       None \<Rightarrow> base
     | Some i \<Rightarrow> if py_strip i = [] then base else base @ LF @ LF @ py_strip i)"

section \<open>Conversation settings\<close>

definition CONTEXT_FREE_STRING_MAX :: "(string \<times> nat) list" where
  "CONTEXT_FREE_STRING_MAX = [(''codeLanguage'', 40), (''tone'', 40), (''locale'', 35)]"

definition CONTEXT_ENUMS :: "(string \<times> string list) list" where
  "CONTEXT_ENUMS = [(''responseStyle'', [''concise'', ''balanced'', ''detailed'']),
     (''verbosity'', [''low'', ''medium'', ''high''])]"

definition CONTEXT_LOCALE_CHARS :: string where
  "CONTEXT_LOCALE_CHARS = ''abcdefghijklmnopqrstuvwxyzABCDEFGHIJKLMNOPQRSTUVWXYZ0123456789_-''"

definition CONTEXT_KEY_ORDER :: "string list" where
  "CONTEXT_KEY_ORDER = [''codeLanguage'', ''responseStyle'', ''verbosity'', ''tone'', ''locale'']"

definition blank_char :: "char \<Rightarrow> char" where
  "blank_char c = (if c = CHR 0x0A \<or> c = CHR 0x0D \<or> c = CHR '';'' \<or> c = CHR ''='' then CHR '' '' else c)"

definition sanitize_context_value :: "string \<Rightarrow> string" where
  "sanitize_context_value v = normalize_spaces (map blank_char v)"

definition validated_context_value :: "string \<Rightarrow> json \<Rightarrow> string option" where
  "validated_context_value key raw = (case raw of
     JStr s \<Rightarrow>
       (let v = py_strip s in
        if v = [] then None
        else (case map_of CONTEXT_ENUMS key of
          Some vs \<Rightarrow> (let l = py_lower v in if l \<in> set vs then Some l else None)
        | None \<Rightarrow>
          (case map_of CONTEXT_FREE_STRING_MAX key of
             None \<Rightarrow> None
           | Some n \<Rightarrow>
             if n < length v then None
             else if key = ''locale'' then (if list_all (\<lambda>c. c \<in> set CONTEXT_LOCALE_CHARS) v then Some v else None)
             else (let w = sanitize_context_value v in if w = [] then None else Some w))))
   | _ \<Rightarrow> None)"

text \<open>The valid settings of a request, in the fixed order.\<close>

definition context_parts :: "dict \<Rightarrow> (string \<times> string) list" where
  "context_parts ctx = concat (map (\<lambda>k. case map_of ctx k of
     None \<Rightarrow> []
   | Some raw \<Rightarrow> (case validated_context_value k raw of None \<Rightarrow> [] | Some v \<Rightarrow> [(k, v)])) CONTEXT_KEY_ORDER)"

definition CONTEXT_OPEN :: string where "CONTEXT_OPEN = ''[Conversation settings for this message: ''"

definition render_context_block :: "dict option \<Rightarrow> string option" where
  "render_context_block context = (case context of
     None \<Rightarrow> None
   | Some ctx \<Rightarrow> (let parts = context_parts ctx in
       if parts = [] then None
       else Some (CONTEXT_OPEN @ join_with ''; '' (map (\<lambda>(k, v). k @ ''='' @ v) parts) @ '']'')))"

definition compose_turn0_text :: "string option \<Rightarrow> string \<Rightarrow> string" where
  "compose_turn0_text block msg =
    (if py_strip msg = [] then (case block of None \<Rightarrow> [] | Some b \<Rightarrow> b)
     else (case block of Some b \<Rightarrow> b @ LF @ LF @ msg | None \<Rightarrow> msg))"

section \<open>Attachments, models, summaries, billing\<close>

definition PROVIDER_GATED_DIALOG_MODES :: "dialog_mode list" where
  "PROVIDER_GATED_DIALOG_MODES = [DmDeepThinking, DmStudyLearn, DmSearch]"

definition merge_attachments :: "prepared_attachments option \<Rightarrow> prepared_attachments option \<Rightarrow> prepared_attachments option" where
  "merge_attachments chat workspace = (case (chat, workspace) of
     (None, None) \<Rightarrow> None
   | _ \<Rightarrow> Some \<lparr>pa_blocks = (case workspace of None \<Rightarrow> [] | Some w \<Rightarrow> pa_blocks w)
            @ (case chat of None \<Rightarrow> [] | Some c \<Rightarrow> pa_blocks c),
         pa_placeholders = (case chat of None \<Rightarrow> [] | Some c \<Rightarrow> pa_placeholders c)\<rparr>)"

definition active_provider :: "settings \<Rightarrow> string" where
  "active_provider cfg = norm_name (llm_provider cfg)"

definition model_for_provider :: "json_loads \<Rightarrow> settings \<Rightarrow> string option \<Rightarrow> string \<Rightarrow> string option" where
  "model_for_provider loads cfg model provider = (case model of
     None \<Rightarrow> None
   | Some m \<Rightarrow> if map_of (allowed_models_for loads cfg provider) m \<noteq> None then Some m else None)"

definition SUMMARY_MAX_CHARS :: nat where "SUMMARY_MAX_CHARS = 120"

definition server_tool_summary :: "tool_execution \<Rightarrow> string" where
  "server_tool_summary ex = (case ex of
     ToolError code m \<Rightarrow> take SUMMARY_MAX_CHARS (if code = [] then ''errored'' else code)
   | ToolOk r \<Rightarrow> ''ok'')"

record billing_plan =
  bp_debit :: bool
  bp_trial :: bool

definition billing_plan_of :: "mode \<Rightarrow> policy_state \<Rightarrow> billing_plan" where
  "billing_plan_of m state =
    (if m = ModeByok then \<lparr>bp_debit = False, bp_trial = False\<rparr>
     else if ps_subscription state = SubActive then \<lparr>bp_debit = True, bp_trial = False\<rparr>
     else if ps_subscription state = SubNone \<and> \<not> ps_trial_used state then \<lparr>bp_debit = False, bp_trial = True\<rparr>
     else \<lparr>bp_debit = False, bp_trial = False\<rparr>)"

section \<open>The settings block is unambiguous\<close>

lemma py_words_no_space: "w \<in> set (split_spaces s) \<Longrightarrow> c \<in> set w \<Longrightarrow> \<not> is_space c \<and> c \<in> set s"
proof (induction s arbitrary: w)
  case (Cons d s)
  show ?case
  proof (cases "split_spaces s")
    case Nil
    then show ?thesis using Cons.prems by (auto split: if_splits)
  next
    case (Cons x xs)
    then show ?thesis using Cons.prems Cons.IH[of x] Cons.IH[of w] by (auto split: if_splits)
  qed
qed simp

lemma join_chars: "c \<in> set (join_with sep ps) \<Longrightarrow> c \<in> set sep \<or> (\<exists>p\<in>set ps. c \<in> set p)"
  by (induction ps rule: induct_list012) auto

lemma normalize_chars: "c \<in> set (normalize_spaces s) \<Longrightarrow> c = CHR '' '' \<or> (\<not> is_space c \<and> c \<in> set s)"
  unfolding normalize_spaces_def py_words_def by (drule join_chars) (auto dest: py_words_no_space)

text \<open>Characters that would break the block.\<close>

definition block_safe :: "string \<Rightarrow> bool" where
  "block_safe v \<longleftrightarrow> v \<noteq> [] \<and> CHR '';'' \<notin> set v \<and> CHR ''='' \<notin> set v \<and> CHR 0x0A \<notin> set v \<and> CHR 0x0D \<notin> set v"

lemma blank_char_neq: "blank_char c \<noteq> CHR '';''" "blank_char c \<noteq> CHR ''=''"
  by (auto simp: blank_char_def)

lemma newline_space: "is_space CHR 0x0A" "is_space CHR 0x0D"
  by code_simp+

lemma sanitized_safe:
  assumes "sanitize_context_value v \<noteq> []"
  shows "block_safe (sanitize_context_value v)"
proof -
  have "c \<noteq> CHR '';'' \<and> c \<noteq> CHR ''='' \<and> c \<noteq> CHR 0x0A \<and> c \<noteq> CHR 0x0D" if "c \<in> set (sanitize_context_value v)" for c
    using normalize_chars[OF that[unfolded sanitize_context_value_def]] newline_space blank_char_neq by fastforce
  with assms show ?thesis unfolding block_safe_def by blast
qed

lemma enum_safe: "map_of CONTEXT_ENUMS k = Some ws \<Longrightarrow> w \<in> set ws \<Longrightarrow> block_safe w"
  by (auto simp: CONTEXT_ENUMS_def block_safe_def split: if_splits)

lemma locale_safe:
  assumes "list_all (\<lambda>c. c \<in> set CONTEXT_LOCALE_CHARS) w" "w \<noteq> []"
  shows "block_safe w"
proof -
  have "c \<notin> set CONTEXT_LOCALE_CHARS" if "c \<in> {CHR '';'', CHR ''='', CHR 0x0A, CHR 0x0D}" for c
    using that by (auto simp: CONTEXT_LOCALE_CHARS_def)
  with assms show ?thesis unfolding block_safe_def list_all_iff by blast
qed

lemma validated_safe:
  assumes "validated_context_value k raw = Some v"
  shows "block_safe v"
proof -
  obtain s where s: "raw = JStr s" "py_strip s \<noteq> []"
    using assms by (auto simp: validated_context_value_def Let_def split: json.splits if_splits)
  show ?thesis
  proof (cases "map_of CONTEXT_ENUMS k")
    case (Some ws)
    then show ?thesis using assms s by (auto simp: validated_context_value_def Let_def intro: enum_safe split: if_splits)
  next
    case None
    then obtain n where "map_of CONTEXT_FREE_STRING_MAX k = Some n"
      using assms s by (auto simp: validated_context_value_def Let_def split: option.splits)
    then show ?thesis using assms s None
      by (simp add: validated_context_value_def Let_def locale_safe sanitized_safe split: if_splits)
        (metis sanitized_safe locale_safe)+
  qed
qed

lemma context_parts_safe: "(k, v) \<in> set (context_parts ctx) \<Longrightarrow> k \<in> set CONTEXT_KEY_ORDER \<and> block_safe v"
  by (auto simp: context_parts_def dest: validated_safe[OF sym] split: option.splits)

text \<open>Reading the inside of a block back: at the semicolons, less the space that follows each, then at the equals sign.\<close>

definition parse_settings :: "string \<Rightarrow> string list list" where
  "parse_settings s = map (\<lambda>p. split_on CHR ''='' (py_lstrip p)) (split_on CHR '';'' s)"

lemma split_join_gap:
  assumes "ps \<noteq> []" "\<forall>p\<in>set ps. CHR '';'' \<notin> set p \<and> py_lstrip p = p"
  shows "map py_lstrip (split_on CHR '';'' (join_with ''; '' ps)) = ps"
  using assms
proof (induction ps rule: induct_list012)
  case (2 p)
  then show ?case by (simp add: split_on_single)
next
  case (3 p q ps)
  have s: "is_space CHR '' ''" by code_simp
  obtain r rs where r: "split_on CHR '';'' (join_with ''; '' (q # ps)) = r # rs"
    by (cases "split_on CHR '';'' (join_with ''; '' (q # ps))") auto
  have "split_on CHR '';'' (p @ ''; '' @ join_with ''; '' (q # ps)) = p # (CHR '' '' # r) # rs"
    using 3 r by (simp add: split_on_append)
  then show ?case using 3 r s by (simp add: py_lstrip_def)
qed simp

lemma key_chars:
  "k \<in> set CONTEXT_KEY_ORDER \<Longrightarrow> CHR '';'' \<notin> set k \<and> CHR ''='' \<notin> set k \<and> py_lstrip (k @ t) = k @ t"
  by (auto simp: CONTEXT_KEY_ORDER_def py_lstrip_def is_space_def)

lemma setting_split:
  assumes "(k, v) \<in> set (context_parts ctx)"
  shows "split_on CHR ''='' (k @ ''='' @ v) = [k, v]" "CHR '';'' \<notin> set (k @ ''='' @ v)"
    "py_lstrip (k @ ''='' @ v) = k @ ''='' @ v"
  using context_parts_safe[OF assms] key_chars[of k "''='' @ v"]
  by (simp_all add: split_on_append split_on_single block_safe_def)

lemma parse_parts:
  assumes "context_parts ctx \<noteq> []"
  shows "parse_settings (join_with ''; '' (map (\<lambda>(k, v). k @ ''='' @ v) (context_parts ctx)))
    = map (\<lambda>(k, v). [k, v]) (context_parts ctx)"
proof -
  let ?ps = "map (\<lambda>(k, v). k @ ''='' @ v) (context_parts ctx)"
  have ps: "\<forall>p\<in>set ?ps. CHR '';'' \<notin> set p \<and> py_lstrip p = p"
    using setting_split(2,3) by fastforce
  have j: "map py_lstrip (split_on CHR '';'' (join_with ''; '' ?ps)) = ?ps"
    by (rule split_join_gap[OF _ ps]) (use assms in simp)
  have "parse_settings s = map (split_on CHR ''='') (map py_lstrip (split_on CHR '';'' s))" for s
    by (simp add: parse_settings_def)
  from this[of "join_with ''; '' ?ps", unfolded j]
  have "parse_settings (join_with ''; '' ?ps) = map (split_on CHR ''='') ?ps" .
  also have "\<dots> = map (\<lambda>(k, v). [k, v]) (context_parts ctx)"
    using setting_split(1) by (auto simp del: append.simps)
  finally show ?thesis .
qed

text \<open>
  The settings a client sends with a message become one line before it, and only the listed settings with
  valid values take part: reading the line back at its delimiters gives exactly those pairs in the
  fixed order, whatever the values were, so no value can add a setting, end the block's line or change
  another one. Without a valid setting the message is sent unchanged.
\<close>

lemma context_block_exact:
  "(if context_parts ctx = [] then render_context_block (Some ctx) = None \<and>
       compose_turn0_text (render_context_block (Some ctx)) msg = (if py_strip msg = [] then [] else msg)
    else (\<exists>inner. render_context_block (Some ctx) = Some (CONTEXT_OPEN @ inner @ '']'')
       \<and> parse_settings inner = map (\<lambda>(k, v). [k, v]) (context_parts ctx)
       \<and> CHR 0x0A \<notin> set inner \<and> CHR 0x0D \<notin> set inner))
   \<and> map fst (context_parts ctx) = filter (\<lambda>k. case map_of ctx k of None \<Rightarrow> False
       | Some raw \<Rightarrow> validated_context_value k raw \<noteq> None) CONTEXT_KEY_ORDER"
proof -
  have keys: "map fst (concat (map (\<lambda>k. case map_of ctx k of None \<Rightarrow> []
      | Some raw \<Rightarrow> (case validated_context_value k raw of None \<Rightarrow> [] | Some v \<Rightarrow> [(k, v)])) ks))
    = filter (\<lambda>k. case map_of ctx k of None \<Rightarrow> False | Some raw \<Rightarrow> validated_context_value k raw \<noteq> None) ks" for ks
    by (induction ks) (auto split: option.splits)
  have nl: "c \<notin> set (join_with ''; '' (map (\<lambda>(k, v). k @ ''='' @ v) (context_parts ctx)))"
    if c: "c = CHR 0x0A \<or> c = CHR 0x0D" for c
  proof
    assume "c \<in> set (join_with ''; '' (map (\<lambda>(k, v). k @ ''='' @ v) (context_parts ctx)))"
    then obtain k v where kv: "(k, v) \<in> set (context_parts ctx)" "c \<in> set (k @ ''='' @ v)"
      using c by (auto dest!: join_chars)
    from context_parts_safe[OF kv(1)] kv(2) c show False
      by (auto simp: block_safe_def CONTEXT_KEY_ORDER_def)
  qed
  show ?thesis
    using keys[of CONTEXT_KEY_ORDER] parse_parts nl
    by (auto simp: render_context_block_def Let_def compose_turn0_text_def context_parts_def[symmetric])
qed

end
