(* ===== verification/Workspaces.thy ===== *)
theory Workspaces
  imports Attachments Store
begin

text \<open>
  Workspaces and their knowledge files (\<^verbatim>\<open>app/workspaces/service.py\<close>, \<^verbatim>\<open>repository.py\<close>,
  \<^verbatim>\<open>text_extract.py\<close>): creation, change and deletion, upload with text extraction, and the context a
  chat of the workspace is given. Every operation ends with the commit of its request, so each is one
  transaction here. The text pypdf extracts and the Cyrillic label are parameters.
\<close>

section \<open>Upload checks\<close>

datatype pdf_text = PdfTexts "string list" | PdfTextUnreadable | PdfTextCrash

record ws_env = attach_env +
  wk_cfg :: settings
  wk_pdf_text :: "8 word list \<Rightarrow> pdf_text"
  wk_label :: string

record file_upload =
  up_type :: string
  up_media :: string
  up_filename :: string
  up_data :: string

record extracted_file =
  ex_content :: bytes
  ex_text :: "string option"
  ex_size :: int

definition extract_pdf_text :: "ws_env \<Rightarrow> bytes \<Rightarrow> app_error + string" where
  "extract_pdf_text env decoded = (case wk_pdf_text env decoded of
     PdfTexts parts \<Rightarrow> Inr (py_strip (join_with [CHR 0x0A, CHR 0x0A] (filter (\<lambda>p. p \<noteq> []) parts)))
   | PdfTextUnreadable \<Rightarrow> Inl ValidationFailedError
   | PdfTextCrash \<Rightarrow> Inl PyError)"

definition extract_text :: "ws_env \<Rightarrow> file_upload \<Rightarrow> bytes \<Rightarrow> app_error + string option" where
  "extract_text env req decoded =
    (if up_type req = ''image'' then
       (case check_magic_bytes (up_media req) decoded of Inl e \<Rightarrow> Inl e | Inr _ \<Rightarrow> Inr None)
     else if up_type req = ''document'' then
       (case check_magic_bytes (up_media req) decoded of Inl e \<Rightarrow> Inl e
        | Inr _ \<Rightarrow> (case check_pdf_pages (attach_env.truncate env) (wk_cfg env) decoded of Inl e \<Rightarrow> Inl e
            | Inr _ \<Rightarrow> (case extract_pdf_text env decoded of Inl e \<Rightarrow> Inl e | Inr t \<Rightarrow> Inr (Some t))))
     else (case decode_text (attach_env.truncate env) (up_media req) decoded of Inl e \<Rightarrow> Inl e | Inr t \<Rightarrow> Inr (Some t)))"

definition validate_and_extract :: "ws_env \<Rightarrow> file_upload \<Rightarrow> app_error + extracted_file" where
  "validate_and_extract env req =
    (if \<not> type_allowed (up_type req) (up_media req) then Inl ValidationFailedError
     else if workspace_file_max_bytes (wk_cfg env) < decoded_len_from_base64 (up_data req) then Inl PayloadTooLargeError
     else (case decode_base64 (up_data req) of
        Inl e \<Rightarrow> Inl e
      | Inr decoded \<Rightarrow>
        (if workspace_file_max_bytes (wk_cfg env) < int (length decoded) then Inl PayloadTooLargeError
         else (case extract_text env req decoded of
            Inl e \<Rightarrow> Inl e
          | Inr t \<Rightarrow> Inr \<lparr>ex_content = decoded, ex_text = t, ex_size = int (length decoded)\<rparr>))))"

section \<open>Workspaces\<close>

definition find_workspace :: "uuid \<Rightarrow> db \<Rightarrow> workspace_row option" where
  "find_workspace wid db = find (\<lambda>w. ws_id w = wid) (workspaces db)"

definition get_workspace :: "uuid \<Rightarrow> uuid \<Rightarrow> db \<Rightarrow> workspace_row option" where
  "get_workspace wid uid db = find (\<lambda>w. ws_id w = wid \<and> ws_user w = uid) (workspaces db)"

definition create_workspace :: "uuid \<Rightarrow> string \<Rightarrow> string option \<Rightarrow> string option \<Rightarrow> workspace_row db_act" where
  "create_workspace uid name desc instr = (\<lambda>db.
     if users db uid = None \<or> \<not> text_ok (Some name) \<or> \<not> text_ok desc \<or> \<not> text_ok instr
        \<or> find_workspace (db_gen db (db_next db)) db \<noteq> None
     then (Inl DbError, db)
     else (let w = \<lparr>ws_id = db_gen db (db_next db), ws_user = uid, ws_name = py_strip name, ws_description = desc,
            ws_instructions = instr, ws_created = db_now db, ws_updated = db_now db\<rparr> in
       (Inr w, db\<lparr>db_next := Suc (db_next db), workspaces := workspaces db @ [w]\<rparr>)))"

definition require_workspace :: "uuid \<Rightarrow> uuid \<Rightarrow> workspace_row db_act" where
  "require_workspace wid uid = bind_act get_st (\<lambda>db. case get_workspace wid uid db of
     None \<Rightarrow> raise NotFoundError | Some w \<Rightarrow> ret w)"

text \<open>The files of a workspace, oldest first.\<close>

definition workspace_files_of :: "uuid \<Rightarrow> db \<Rightarrow> workspace_file_row list" where
  "workspace_files_of wid db = sort_by (\<lambda>a b. wf_created a < wf_created b \<or> (wf_created a = wf_created b \<and> wf_id a \<le> wf_id b))
     (filter (\<lambda>f. wf_workspace f = wid) (workspace_files db))"

definition file_count :: "uuid \<Rightarrow> db \<Rightarrow> int" where
  "file_count wid db = int (length (filter (\<lambda>f. wf_workspace f = wid) (workspace_files db)))"

definition total_bytes :: "uuid \<Rightarrow> db \<Rightarrow> int" where
  "total_bytes wid db = sum_list (map wf_size (filter (\<lambda>f. wf_workspace f = wid) (workspace_files db)))"

definition get_detail :: "uuid \<Rightarrow> uuid \<Rightarrow> (workspace_row \<times> workspace_file_row list) db_act" where
  "get_detail wid uid = bind_act (require_workspace wid uid) (\<lambda>w.
     bind_act get_st (\<lambda>db. ret (w, workspace_files_of wid db)))"

text \<open>A patch: the new name, and for the two optional texts whether they are set and to what.\<close>

definition update_workspace ::
  "uuid \<Rightarrow> uuid \<Rightarrow> string option \<Rightarrow> string option option \<Rightarrow> string option option
   \<Rightarrow> (workspace_row \<times> workspace_file_row list) db_act" where
  "update_workspace wid uid name desc instr = bind_act (require_workspace wid uid) (\<lambda>w.
     let w' = w\<lparr>ws_name := (case name of None \<Rightarrow> ws_name w | Some n \<Rightarrow> py_strip n),
            ws_description := (case desc of None \<Rightarrow> ws_description w | Some d \<Rightarrow> d),
            ws_instructions := (case instr of None \<Rightarrow> ws_instructions w | Some i \<Rightarrow> i)\<rparr> in
     if \<not> text_ok (Some (ws_name w')) \<or> \<not> text_ok (ws_description w') \<or> \<not> text_ok (ws_instructions w')
     then raise DbError
     else bind_act get_st (\<lambda>db.
       let w'' = w'\<lparr>ws_updated := db_now db\<rparr> in
       bind_act (upd_st (\<lambda>db. db\<lparr>workspaces := map (\<lambda>x. if ws_id x = wid then w'' else x) (workspaces db)\<rparr>)) (\<lambda>_.
       ret (w'', workspace_files_of wid db))))"

text \<open>The foreign keys delete the files and unbind the chats.\<close>

definition delete_workspace :: "uuid \<Rightarrow> uuid \<Rightarrow> unit db_act" where
  "delete_workspace wid uid = bind_act get_st (\<lambda>db. case get_workspace wid uid db of
     None \<Rightarrow> raise NotFoundError
   | Some _ \<Rightarrow> upd_st (\<lambda>db. db\<lparr>workspaces := filter (\<lambda>w. ws_id w \<noteq> wid) (workspaces db),
       workspace_files := filter (\<lambda>f. wf_workspace f \<noteq> wid) (workspace_files db),
       sessions := map (\<lambda>s. if cs_workspace s = Some wid then s\<lparr>cs_workspace := None\<rparr> else s) (sessions db)\<rparr>))"

definition owns_workspace :: "uuid \<Rightarrow> uuid \<Rightarrow> db \<Rightarrow> bool" where
  "owns_workspace wid uid db = (get_workspace wid uid db \<noteq> None)"

section \<open>Knowledge files\<close>

definition add_file :: "uuid \<Rightarrow> file_upload \<Rightarrow> extracted_file \<Rightarrow> workspace_file_row db_act" where
  "add_file wid req ex = (\<lambda>db.
     if find_workspace wid db = None \<or> \<not> text_ok (Some (up_filename req)) \<or> \<not> text_ok (ex_text ex)
        \<or> find (\<lambda>f. wf_id f = db_gen db (db_next db)) (workspace_files db) \<noteq> None
     then (Inl DbError, db)
     else (let f = \<lparr>wf_id = db_gen db (db_next db), wf_workspace = wid, wf_filename = up_filename req,
            wf_content = ex_content ex, wf_media_type = up_media req, wf_size = ex_size ex,
            wf_text = ex_text ex, wf_created = db_now db\<rparr> in
       (Inr f, db\<lparr>db_next := Suc (db_next db), workspace_files := workspace_files db @ [f]\<rparr>)))"

definition upload_file :: "ws_env \<Rightarrow> uuid \<Rightarrow> uuid \<Rightarrow> file_upload \<Rightarrow> workspace_file_row db_act" where
  "upload_file env wid uid req =
     bind_act (require_workspace wid uid) (\<lambda>_.
     bind_act get_st (\<lambda>db.
     if workspace_file_max_count (wk_cfg env) \<le> file_count wid db then raise ValidationFailedError
     else (case validate_and_extract env req of
        Inl e \<Rightarrow> raise e
      | Inr ex \<Rightarrow>
        if workspace_files_total_bytes (wk_cfg env) < total_bytes wid db + ex_size ex then raise ValidationFailedError
        else add_file wid req ex)))"

definition list_workspace_files :: "uuid \<Rightarrow> uuid \<Rightarrow> workspace_file_row list db_act" where
  "list_workspace_files wid uid = bind_act (require_workspace wid uid) (\<lambda>_.
     bind_act get_st (\<lambda>db. ret (workspace_files_of wid db)))"

definition delete_workspace_file :: "uuid \<Rightarrow> uuid \<Rightarrow> uuid \<Rightarrow> unit db_act" where
  "delete_workspace_file wid uid fid = bind_act (require_workspace wid uid) (\<lambda>_.
     bind_act get_st (\<lambda>db.
     if find (\<lambda>f. wf_id f = fid \<and> wf_workspace f = wid) (workspace_files db) = None then raise NotFoundError
     else upd_st (\<lambda>db. db\<lparr>workspace_files :=
       filter (\<lambda>f. \<not> (wf_id f = fid \<and> wf_workspace f = wid)) (workspace_files db)\<rparr>)))"

section \<open>The context of a chat\<close>

record workspace_context =
  wx_instructions :: "string option"
  wx_attachments :: "prepared_attachments option"

definition image_block :: "string \<Rightarrow> workspace_file_row \<Rightarrow> json" where
  "image_block provider f = (let data = b64_encode (wf_content f) in
     if provider = ''openai''
     then JObj [(''type'', JStr ''input_image''), (''image_url'', JStr (data_uri (wf_media_type f) data)),
       (''detail'', JStr ''auto'')]
     else JObj [(''type'', JStr ''image''), (''source'', base64_source (wf_media_type f) data)])"

definition text_block :: "ws_env \<Rightarrow> string \<Rightarrow> workspace_file_row \<Rightarrow> string \<Rightarrow> json" where
  "text_block env provider f snippet = (let label = wk_label env @ wf_filename f @ '']'' @ [CHR 0x0A] @ snippet in
     if provider = ''openai'' then JObj [(''type'', JStr ''input_text''), (''text'', JStr label)]
     else JObj [(''type'', JStr ''text''), (''text'', JStr label)])"

fun file_blocks :: "ws_env \<Rightarrow> string \<Rightarrow> int \<Rightarrow> workspace_file_row list \<Rightarrow> json list" where
  "file_blocks env provider used [] = []"
| "file_blocks env provider used (f # fs) =
    (if wf_media_type f \<in> set IMAGE_TYPES then image_block provider f # file_blocks env provider used fs
     else (case wf_text f of
        None \<Rightarrow> file_blocks env provider used fs
      | Some t \<Rightarrow>
        (if t = [] \<or> workspace_context_max_chars (wk_cfg env) \<le> used then file_blocks env provider used fs
         else (let snippet = take (nat (workspace_context_max_chars (wk_cfg env) - used)) t in
           text_block env provider f snippet # file_blocks env provider (used + int (length snippet)) fs))))"

definition build_file_attachments :: "ws_env \<Rightarrow> string \<Rightarrow> workspace_file_row list \<Rightarrow> prepared_attachments option" where
  "build_file_attachments env provider fs =
    (let bs = file_blocks env provider 0 fs in if bs = [] then None else Some \<lparr>pa_blocks = bs, pa_placeholders = []\<rparr>)"

definition context_for_session :: "ws_env \<Rightarrow> uuid \<Rightarrow> uuid \<Rightarrow> string \<Rightarrow> db \<Rightarrow> workspace_context option" where
  "context_for_session env wid uid provider db = (case get_workspace wid uid db of
     None \<Rightarrow> None
   | Some w \<Rightarrow> Some \<lparr>wx_instructions = (case ws_instructions w of Some i \<Rightarrow> if i = [] then None else Some i | None \<Rightarrow> None),
       wx_attachments = build_file_attachments env provider (workspace_files_of wid db)\<rparr>)"

section \<open>Limits\<close>

definition of_workspace :: "uuid \<Rightarrow> workspace_file_row list \<Rightarrow> workspace_file_row list" where
  "of_workspace wid fs = filter (\<lambda>f. wf_workspace f = wid) fs"

definition files_inv :: "ws_env \<Rightarrow> workspace_file_row list \<Rightarrow> bool" where
  "files_inv env fs \<longleftrightarrow>
    (\<forall>f\<in>set fs. wf_size f = int (length (wf_content f)) \<and> wf_size f \<le> workspace_file_max_bytes (wk_cfg env))
    \<and> (\<forall>wid. int (length (of_workspace wid fs)) \<le> max 0 (workspace_file_max_count (wk_cfg env))
          \<and> sum_list (map wf_size (of_workspace wid fs)) \<le> max 0 (workspace_files_total_bytes (wk_cfg env)))"

lemma files_inv_filter:
  assumes "files_inv env fs"
  shows "files_inv env (filter P fs)"
proof -
  have o: "of_workspace wid (filter P fs) = filter P (of_workspace wid fs)" for wid
    by (simp add: of_workspace_def conj_commute)
  have "length (filter P (of_workspace wid fs)) \<le> length (of_workspace wid fs)" for wid
    by (rule length_filter_le)
  moreover have "sum_list (map wf_size (filter P (of_workspace wid fs))) \<le> sum_list (map wf_size (of_workspace wid fs))" for wid
    by (rule sum_filter_le) (use assms in \<open>auto simp: files_inv_def of_workspace_def\<close>)
  ultimately show ?thesis using assms unfolding files_inv_def o
    by (meson filter_is_subset in_mono of_nat_le_iff order_trans)
qed

lemma files_inv_add:
  assumes "files_inv env fs" "wf_size f = int (length (wf_content f))" "wf_size f \<le> workspace_file_max_bytes (wk_cfg env)"
    and "int (length (of_workspace (wf_workspace f) fs)) < workspace_file_max_count (wk_cfg env)"
    and "sum_list (map wf_size (of_workspace (wf_workspace f) fs)) + wf_size f \<le> workspace_files_total_bytes (wk_cfg env)"
  shows "files_inv env (fs @ [f])"
  using assms by (auto simp: files_inv_def of_workspace_def)

lemma validate_sound:
  "validate_and_extract env req = Inr ex \<Longrightarrow>
   ex_size ex = int (length (ex_content ex)) \<and> ex_size ex \<le> workspace_file_max_bytes (wk_cfg env)
   \<and> b64_decode_strict (up_data req) = Some (ex_content ex) \<and> type_allowed (up_type req) (up_media req)"
  by (auto simp: validate_and_extract_def decode_base64_def split: if_splits sum.splits option.splits)

lemma require_workspace_Inr:
  "require_workspace wid uid db = (Inr w, db') \<longleftrightarrow> get_workspace wid uid db = Some w \<and> db' = db"
  by (auto simp: require_workspace_def split: option.splits)

lemma upload_Inr:
  assumes "upload_file env wid uid req db = (Inr f, db')"
  shows "get_workspace wid uid db \<noteq> None" "workspace_files db' = workspace_files db @ [f]" "wf_workspace f = wid"
    "files_inv env (workspace_files db) \<Longrightarrow> files_inv env (workspace_files db')"
    "b64_decode_strict (up_data req) = Some (wf_content f)"
proof -
  obtain ex where ex: "get_workspace wid uid db \<noteq> None" "validate_and_extract env req = Inr ex"
    "\<not> workspace_file_max_count (wk_cfg env) \<le> file_count wid db"
    "\<not> workspace_files_total_bytes (wk_cfg env) < total_bytes wid db + ex_size ex"
    "add_file wid req ex db = (Inr f, db')"
    using assms by (auto simp: upload_file_def require_workspace_Inr elim!: bind_act_Inr_E split: if_splits sum.splits)
  then show "get_workspace wid uid db \<noteq> None" by simp
  have f: "workspace_files db' = workspace_files db @ [f]" "wf_workspace f = wid" "wf_size f = ex_size ex"
    "wf_content f = ex_content ex"
    using ex(5) by (auto simp: add_file_def Let_def split: if_splits)
  then show "workspace_files db' = workspace_files db @ [f]" "wf_workspace f = wid" by simp_all
  show "b64_decode_strict (up_data req) = Some (wf_content f)" using validate_sound[OF ex(2)] f(4) by simp
  show "files_inv env (workspace_files db')" if "files_inv env (workspace_files db)"
    using files_inv_add[OF that, of f] ex(3,4) f validate_sound[OF ex(2)]
    by (simp add: file_count_def total_bytes_def of_workspace_def)
qed

datatype ws_op = CreateWs uuid string "string option" "string option"
  | UpdateWs uuid uuid "string option" "string option option" "string option option"
  | DeleteWs uuid uuid | UploadFile uuid uuid file_upload | DeleteFile uuid uuid uuid

fun ws_step :: "ws_env \<Rightarrow> ws_op \<Rightarrow> db \<Rightarrow> db" where
  "ws_step env (CreateWs uid n d i) db = snd (transaction (create_workspace uid n d i) db)"
| "ws_step env (UpdateWs wid uid n d i) db = snd (transaction (update_workspace wid uid n d i) db)"
| "ws_step env (DeleteWs wid uid) db = snd (transaction (delete_workspace wid uid) db)"
| "ws_step env (UploadFile wid uid req) db = snd (transaction (upload_file env wid uid req) db)"
| "ws_step env (DeleteFile wid uid fid) db = snd (transaction (delete_workspace_file wid uid fid) db)"

text \<open>The workspace an operation addresses and its caller.\<close>

fun ws_target :: "ws_op \<Rightarrow> (uuid \<times> uuid) option" where
  "ws_target (CreateWs uid n d i) = None"
| "ws_target (UpdateWs wid uid n d i) = Some (wid, uid)"
| "ws_target (DeleteWs wid uid) = Some (wid, uid)"
| "ws_target (UploadFile wid uid req) = Some (wid, uid)"
| "ws_target (DeleteFile wid uid fid) = Some (wid, uid)"

lemma create_Inr: "create_workspace uid n d i db = (Inr w, db') \<Longrightarrow> workspace_files db' = workspace_files db"
  by (auto simp: create_workspace_def Let_def split: if_splits)

lemma update_Inr: "update_workspace wid uid n d i db = (Inr r, db') \<Longrightarrow> workspace_files db' = workspace_files db"
  by (auto simp: update_workspace_def Let_def require_workspace_Inr elim!: bind_act_Inr_E split: if_splits)

lemma delete_Inr:
  "delete_workspace wid uid db = (Inr r, db') \<Longrightarrow>
   workspace_files db' = filter (\<lambda>f. wf_workspace f \<noteq> wid) (workspace_files db)"
  by (auto simp: delete_workspace_def split: option.splits)

lemma ws_delete_file_Inr:
  "delete_workspace_file wid uid fid db = (Inr r, db') \<Longrightarrow>
   workspace_files db' = filter (\<lambda>f. \<not> (wf_id f = fid \<and> wf_workspace f = wid)) (workspace_files db)"
  by (auto simp: delete_workspace_file_def require_workspace_Inr elim!: bind_act_Inr_E split: if_splits)

lemma ws_step_inv:
  assumes "files_inv env (workspace_files db)"
  shows "files_inv env (workspace_files (ws_step env op db))"
proof -
  have keep: "files_inv env (workspace_files (snd (transaction m db)))"
    if "\<And>a db'. m db = (Inr a, db') \<Longrightarrow> files_inv env (workspace_files db')" for m :: "'z db_act"
    using transaction_keeps[of "\<lambda>db. files_inv env (workspace_files db)" db m] assms that by blast
  show ?thesis
    by (cases op) (auto intro!: keep files_inv_filter simp: assms dest!: create_Inr update_Inr delete_Inr
        ws_delete_file_Inr intro: upload_Inr(4)[OF _ assms])
qed

lemma ws_run_inv: "files_inv env (workspace_files db) \<Longrightarrow> files_inv env (workspace_files (fold (ws_step env) ops db))"
  by (induction ops arbitrary: db) (simp_all add: ws_step_inv)

text \<open>An operation of a caller who does not own the addressed workspace changes nothing.\<close>

lemma ws_step_foreign:
  assumes "ws_target op = Some (wid, uid)" "get_workspace wid uid db = None"
  shows "ws_step env op db = db"
  using assms by (cases op) (auto simp: update_workspace_def delete_workspace_def upload_file_def
      delete_workspace_file_def require_workspace_def transaction_def bind_act_def)

text \<open>
  C28: Whatever workspaces are created, changed, deleted, filled and emptied, no workspace ever holds more
  files or more bytes than configured and no file is larger than allowed; an operation on a workspace of
  somebody else changes nothing at all.
\<close>

theorem workspace_limits_kept:
  assumes "files_inv env (workspace_files db)"
  shows "files_inv env (workspace_files (fold (ws_step env) ops db)) \<and>
    (if ws_target op = Some (wid, uid) \<and> get_workspace wid uid db = None then ws_step env op db = db else True)"
  using ws_run_inv[OF assms] ws_step_foreign by auto

definition demo_ws :: ws_env where
  "demo_ws = attach_env.extend demo_attach \<lparr>wk_cfg = demo_cfg, wk_pdf_text = (\<lambda>bs. PdfTexts []), wk_label = ''[File: ''\<rparr>"

theorem workspace_limits_kept_witness:
  "files_inv demo_ws (workspace_files (fold (ws_step demo_ws)
     [CreateWs 7 ''n'' None None, UploadFile 0 7 \<lparr>up_type = ''text'', up_media = ''text/plain'', up_filename = ''a'', up_data = ''aGk=''\<rparr>]
     (empty_db of_nat 0))) \<and> ws_step demo_ws (DeleteWs 0 7) (empty_db of_nat 0) = empty_db of_nat 0"
proof -
  have i: "files_inv demo_ws (workspace_files (empty_db of_nat 0))"
    by (simp add: files_inv_def of_workspace_def empty_db_def)
  have f: "get_workspace 0 7 (empty_db of_nat 0) = None" by (simp add: get_workspace_def empty_db_def)
  show ?thesis
    using workspace_limits_kept[OF i, of "[CreateWs 7 ''n'' None None, UploadFile 0 7 \<lparr>up_type = ''text'',
      up_media = ''text/plain'', up_filename = ''a'', up_data = ''aGk=''\<rparr>]" "DeleteWs 0 7" 0 7] f
    by (simp del: fold_simps)
qed

section \<open>The budget of the context\<close>

text \<open>The text a file contributes, and the part of it that is injected.\<close>

definition file_text_of :: "workspace_file_row \<Rightarrow> string" where
  "file_text_of f = (if wf_media_type f \<in> set IMAGE_TYPES then [] else case wf_text f of Some t \<Rightarrow> t | None \<Rightarrow> [])"

text \<open>The blocks of a list of files given the part of each text that fits.\<close>

fun blocks_with :: "ws_env \<Rightarrow> string \<Rightarrow> (workspace_file_row \<times> string) list \<Rightarrow> json list" where
  "blocks_with env provider [] = []"
| "blocks_with env provider ((f, s) # fs) =
    (if wf_media_type f \<in> set IMAGE_TYPES then image_block provider f # blocks_with env provider fs
     else if s = [] then blocks_with env provider fs else text_block env provider f s # blocks_with env provider fs)"

fun cut_texts :: "nat \<Rightarrow> workspace_file_row list \<Rightarrow> (workspace_file_row \<times> string) list" where
  "cut_texts n [] = []"
| "cut_texts n (f # fs) = (f, take n (file_text_of f)) # cut_texts (n - length (file_text_of f)) fs"

lemma cut_texts_take: "concat (map snd (cut_texts n fs)) = take n (concat (map file_text_of fs))"
  by (induction n fs rule: cut_texts.induct) auto

lemma file_blocks_cut:
  "file_blocks env provider used fs = blocks_with env provider (cut_texts (nat (workspace_context_max_chars (wk_cfg env) - used)) fs)"
proof (induction fs arbitrary: used)
  case (Cons f fs)
  let ?n = "nat (workspace_context_max_chars (wk_cfg env) - used)"
  have n: "nat (workspace_context_max_chars (wk_cfg env) - (used + int (length (take ?n t)))) = ?n - length t" for t :: string
    by simp
  show ?case using Cons.IH n by (auto simp: file_text_of_def Let_def split: option.splits)
qed simp

text \<open>
  The knowledge a chat is given is bounded exactly: the texts of the files, oldest first, cut after the
  configured number of characters of all of them together. What is injected of the files is a
  prefix of their concatenated texts, the images come in between regardless of the budget, and a
  workspace of another user contributes nothing.
\<close>

lemma context_budget:
  "concat (map snd (cut_texts n fs)) = take n (concat (map file_text_of fs)) \<and>
   build_file_attachments env provider fs =
     (let bs = blocks_with env provider (cut_texts (nat (workspace_context_max_chars (wk_cfg env))) fs) in
      if bs = [] then None else Some \<lparr>pa_blocks = bs, pa_placeholders = []\<rparr>) \<and>
   (if \<exists>w. get_workspace wid uid db = Some w then context_for_session env wid uid provider db \<noteq> None
    else context_for_session env wid uid provider db = None)"
  using file_blocks_cut[of env provider 0 fs]
  by (auto simp: cut_texts_take build_file_attachments_def context_for_session_def Let_def)

end
