(* ===== verification/Orchestrator.thy ===== *)
theory Orchestrator
  imports ChatPrompt Byok Wallet Workspaces
begin

text \<open>
  The chat orchestrator (\<^verbatim>\<open>app/chat/orchestrator.py\<close>, with \<^verbatim>\<open>image_sweep.py\<close>): one user message or one
  batch of tool results becomes a bounded loop of provider calls, the tools the backend executes
  between them, and one answer. The request commits before every provider call and at the end; what
  other requests commit while a provider is thinking is the parameter \<^verbatim>\<open>ce_others\<close>. The reply of the
  \<^verbatim>\<open>k\<close>-th call is whatever \<^verbatim>\<open>ce_anthropic\<close> or \<^verbatim>\<open>ce_openai\<close> gives for \<^verbatim>\<open>k\<close> and the request built. Metrics
  and logs are left out.
\<close>

section \<open>Parameters and results\<close>

record chat_env =
  ce_tool :: tool_env
  ce_llm :: llm_lib
  ce_byok :: byok_env
  ce_ws :: ws_env
  ce_loads :: json_loads
  ce_anthropic :: "nat \<Rightarrow> anthropic_request \<Rightarrow> sdk_failure + anthropic_reply"
  ce_openai :: "nat \<Rightarrow> openai_request \<Rightarrow> sdk_failure + openai_reply"
  ce_others :: "nat \<Rightarrow> db \<Rightarrow> db"
  ce_sweep_lock :: bool
    \<comment> \<open>whether Redis grants the throttle of the image sweep\<close>

definition ce_cfg :: "chat_env \<Rightarrow> settings" where
  "ce_cfg env = sv_cfg (ce_tool env)"

datatype out_status = OutAssistant | OutToolCall | OutBlocked

record tool_call_out =
  to_id :: string
  to_name :: string
  to_args :: dict

record server_tool_out =
  so_call :: uuid
  so_name :: string
  so_status :: tc_status
  so_summary :: string

record tool_result_in =
  ti_call :: uuid
  ti_result :: "json option"
  ti_error :: "json option"

record image_out =
  io_id :: uuid
  io_type :: string
  io_size :: int

record chat_run_out =
  co_status :: out_status
  co_session :: uuid
  co_message :: "string option"
  co_tool_calls :: "tool_call_out list"
  co_block :: "block_reason option"
  co_usage :: "json option"
  co_turn :: "uuid option"
  co_step :: "uuid option"
  co_server_tools :: "server_tool_out list"
  co_quiz :: "dict option"
  co_images :: "image_out list"

text \<open>What the rounds of one call accumulate.\<close>

record turn_acc =
  ac_tools :: "server_tool_out list"
  ac_quiz :: "dict list"
  ac_images :: "image_out list"

definition no_acc :: turn_acc where
  "no_acc = \<lparr>ac_tools = [], ac_quiz = [], ac_images = []\<rparr>"

text \<open>The identifiers every method of a turn is given; the project is that of the session.\<close>

record turn_ctx =
  tx_user :: uuid
  tx_session :: uuid
  tx_turn :: uuid
  tx_tmp :: bool
  tx_project :: "string option"

datatype turn_outcome = TurnContinue | TurnClient chat_run_out | TurnBlocked chat_run_out

fun block_reason_value :: "block_reason \<Rightarrow> string" where
  "block_reason_value TrialUsed = ''trial_used''"
| "block_reason_value SubscriptionRequired = ''subscription_required''"
| "block_reason_value SubscriptionExpired = ''subscription_expired''"
| "block_reason_value CreditsEmpty = ''credits_empty''"
| "block_reason_value ByokDisabledReason = ''byok_disabled''"
| "block_reason_value ByokInvalidReason = ''byok_invalid''"
| "block_reason_value RateLimitedReason = ''rate_limited''"
| "block_reason_value PolicyDenied = ''policy_denied''"
| "block_reason_value MaxTokens = ''max_tokens''"
| "block_reason_value ImageCreditsEmpty = ''image_credits_empty''"

definition mode_value :: "mode \<Rightarrow> string" where
  "mode_value m = (if m = ModeByok then ''byok'' else ''credits'')"

definition status_value :: "tc_status \<Rightarrow> string" where
  "status_value st = (case st of TcPending \<Rightarrow> ''pending'' | TcCompleted \<Rightarrow> ''completed'' | TcErrored \<Rightarrow> ''errored'')"

section \<open>Helpers of the orchestrator\<close>

definition fk_session_id :: "turn_ctx \<Rightarrow> uuid option" where
  "fk_session_id c = (if tx_tmp c then None else Some (tx_session c))"

definition turn_audit :: "turn_ctx \<Rightarrow> string \<Rightarrow> dict \<Rightarrow> unit chat_act" where
  "turn_audit c event payload = on_db (audit_record (tx_user c) (fk_session_id c) event payload)"

definition turn_step :: "turn_ctx \<Rightarrow> role \<Rightarrow> dict \<Rightarrow> json option \<Rightarrow> uuid option chat_act" where
  "turn_step c ro payload usage = add_step (tx_tmp c) (tx_session c) (tx_turn c) ro payload usage"

definition blocked_out :: "uuid \<Rightarrow> block_reason option \<Rightarrow> chat_run_out" where
  "blocked_out sid reason = \<lparr>co_status = OutBlocked, co_session = sid, co_message = None, co_tool_calls = [],
     co_block = Some (case reason of Some r \<Rightarrow> r | None \<Rightarrow> PolicyDenied), co_usage = None, co_turn = None,
     co_step = None, co_server_tools = [], co_quiz = None, co_images = []\<rparr>"

definition evaluate_turn :: "turn_ctx \<Rightarrow> mode \<Rightarrow> (decision \<times> policy_state) chat_act" where
  "evaluate_turn c m = bind_act get_st (\<lambda>s.
     let state = load_policy_state (db_now (ch_db s)) (tx_user c) (ch_db s);
         d = evaluate state m in
     bind_act (turn_audit c EVENT_POLICY_DECISION [(''mode'', JStr (mode_value m)),
         (''decision'', JStr (if d_allow d then ''allow'' else ''blocked'')),
         (''blockReason'', opt_str (map_option block_reason_value (d_reason d)))]) (\<lambda>_.
     ret (d, state)))"

definition resolve_api_key :: "chat_env \<Rightarrow> uuid \<Rightarrow> mode \<Rightarrow> (string option \<times> string option) chat_act" where
  "resolve_api_key env uid m = bind_act get_st (\<lambda>s.
     if m = ModeByok then
       (case get_plaintext_key_with_provider (ce_byok env) uid (ch_db s) of
          Inl e \<Rightarrow> raise e
        | Inr None \<Rightarrow> raise ValidationFailedError
        | Inr (Some (key, provider)) \<Rightarrow> ret (Some key, provider))
     else ret (None, None))"

definition will_create_session :: "chat_env \<Rightarrow> bool \<Rightarrow> uuid \<Rightarrow> uuid option \<Rightarrow> db \<Rightarrow> bool" where
  "will_create_session env tmp uid sid db = (case sid of None \<Rightarrow> True
     | Some i \<Rightarrow> if tmp then True
         else (case get_session i uid db of None \<Rightarrow> True | Some r \<Rightarrow> is_expired (ce_cfg env) (db_now db) r))"

definition content_of :: "json \<Rightarrow> json list" where
  "content_of p = (case payload_get p ''content'' of JArr bs \<Rightarrow> bs | _ \<Rightarrow> [])"

definition message_of_step :: "step_row \<Rightarrow> neutral_message" where
  "message_of_step r = (let p = st_payload r in
     case st_role r of
       RUser \<Rightarrow> \<lparr>nm_role = RUser, nm_content = content_of p @ (case payload_get p ''actionPrompt'' of
           JStr a \<Rightarrow> if a = [] then [] else [JObj [(''type'', JStr ''text''), (''text'', JStr a)]] | _ \<Rightarrow> []),
         nm_provider_id = [], nm_result = JNull, nm_error = JNull\<rparr>
     | RAssistant \<Rightarrow> \<lparr>nm_role = RAssistant, nm_content = content_of p, nm_provider_id = [], nm_result = JNull, nm_error = JNull\<rparr>
     | RTool \<Rightarrow> \<lparr>nm_role = RTool, nm_content = [], nm_provider_id = str_of (payload_get p ''providerToolUseId''),
         nm_result = payload_get p ''result'', nm_error = payload_get p ''error''\<rparr>)"

definition build_messages :: "bool \<Rightarrow> uuid \<Rightarrow> chat_st \<Rightarrow> neutral_message list" where
  "build_messages tmp sid s = map message_of_step (list_steps tmp sid s)"

text \<open>An exception handled where it is raised, with what was written before it still in the transaction.\<close>

definition catch_act :: "'e \<Rightarrow> ('e, 's, 'a) act \<Rightarrow> ('e, 's, 'a) act \<Rightarrow> ('e, 's, 'a) act" where
  "catch_act e m h = (\<lambda>s. case m s of (Inl x, s') \<Rightarrow> if x = e then h s' else (Inl x, s') | (Inr a, s') \<Rightarrow> (Inr a, s'))"

section \<open>Calling a provider\<close>

definition llm_client_for :: "string \<Rightarrow> string option" where
  "llm_client_for provider = (let n = norm_name provider in
     if n = ''openai'' then Some ''openai'' else if n = ''anthropic'' then Some ''anthropic'' else None)"

definition get_llm_client :: "settings \<Rightarrow> string" where
  "get_llm_client cfg = (if active_provider cfg = ''openai'' then ''openai'' else ''anthropic'')"

definition create_message :: "chat_env \<Rightarrow> nat \<Rightarrow> llm_call \<Rightarrow> llm_failure + llm_result" where
  "create_message env k c =
    (if lc_provider c = ''openai''
     then openai_create_message (ce_llm env) (ce_cfg env) (ce_openai env k) (lc_system c) (lc_messages c) (lc_tools c)
       (lc_attachments c) (lc_key c) (lc_model c) (lc_options c)
     else anthropic_create_message (ce_llm env) (ce_cfg env) (ce_anthropic env k) (lc_system c) (lc_messages c) (lc_tools c)
       (lc_attachments c) (lc_key c) (lc_model c))"

definition call_llm :: "chat_env \<Rightarrow> llm_call \<Rightarrow> (llm_failure + llm_result) chat_act" where
  "call_llm env c = (\<lambda>s. let k = length (ch_sent s); db = ce_others env k (ch_saved s) in
     (Inr (create_message env k c), s\<lparr>ch_sent := ch_sent s @ [c], ch_saved := db, ch_db := db\<rparr>))"

section \<open>Executing the tools of a turn\<close>

definition outcome_status :: "tool_execution \<Rightarrow> tc_status" where
  "outcome_status ex = (if is_error ex then TcErrored else TcCompleted)"

definition tool_step_payload :: "uuid \<Rightarrow> string \<Rightarrow> string \<Rightarrow> json \<Rightarrow> json \<Rightarrow> dict" where
  "tool_step_payload tcid pid name result err = [(''toolCallId'', JStr (str_uuid tcid)), (''providerToolUseId'', JStr pid),
     (''toolName'', JStr name), (''result'', result), (''error'', err)]"

text \<open>Every executed tool is completed, gets its step in the history and an audit event, whose payload may
  carry one more entry.\<close>

definition persist_outcome ::
  "turn_ctx \<Rightarrow> uuid \<Rightarrow> string \<Rightarrow> string \<Rightarrow> tool_execution \<Rightarrow> dict \<Rightarrow> turn_acc \<Rightarrow> turn_acc chat_act" where
  "persist_outcome c tcid name pid ex extra acc =
    (let payload = to_tool_result_payload ex; st = outcome_status ex in
     bind_act (complete_tool_call (tx_tmp c) tcid st (Some (JObj payload))) (\<lambda>_.
     bind_act (turn_step c RTool (tool_step_payload tcid pid name (obj_get payload ''result'') (obj_get payload ''error'')) None) (\<lambda>_.
     bind_act (turn_audit c EVENT_TOOL_CALL_COMPLETED ([(''toolCallId'', JStr (str_uuid tcid)),
         (''toolName'', JStr name), (''status'', JStr (status_value st))] @ extra)) (\<lambda>_.
     ret (acc\<lparr>ac_tools := ac_tools acc @
       [\<lparr>so_call = tcid, so_name = name, so_status = st, so_summary = server_tool_summary ex\<rparr>]\<rparr>)))))"

definition external_project_id :: "turn_ctx \<Rightarrow> string chat_act" where
  "external_project_id c = (if tx_tmp c then raise NotFoundError
     else (case tx_project c of None \<Rightarrow> raise UpstreamError | Some p \<Rightarrow> ret p))"

definition execute_server_side_tool ::
  "chat_env \<Rightarrow> turn_ctx \<Rightarrow> string \<Rightarrow> uuid \<Rightarrow> string \<Rightarrow> dict \<Rightarrow> string \<Rightarrow> turn_acc \<Rightarrow> turn_acc chat_act" where
  "execute_server_side_tool env c ext tcid name args pid acc =
     bind_act get_st (\<lambda>s.
     bind_act (on_db (site_execute (ce_tool env) (db_now (ch_db s) div 1000000) name args (tx_user c) ext (Some (tx_session c)))) (\<lambda>ex.
     persist_outcome c tcid name pid ex [] acc))"

definition execute_global_tool ::
  "chat_env \<Rightarrow> turn_ctx \<Rightarrow> uuid \<Rightarrow> string \<Rightarrow> dict \<Rightarrow> string \<Rightarrow> turn_acc \<Rightarrow> turn_acc chat_act" where
  "execute_global_tool env c tcid name args pid acc =
     bind_act get_st (\<lambda>s.
     case global_execute (ce_tool env) (db_now (ch_db s)) name args of
       Inl e \<Rightarrow> raise e
     | Inr ex \<Rightarrow>
       persist_outcome c tcid name pid ex []
         (case ex of ToolOk r \<Rightarrow> if name = TOOL_QUIZ_GENERATE then acc\<lparr>ac_quiz := ac_quiz acc @ [r]\<rparr> else acc
          | ToolError _ _ \<Rightarrow> acc))"

section \<open>Image generation\<close>

text \<open>The bytes are generated before anything is written: by provider id, a later block of the same id replacing
  an earlier one.\<close>

type_synonym pregen = "(string \<times> (image_failure + (bytes \<times> string))) list"

definition opt_arg :: "dict \<Rightarrow> string \<Rightarrow> string option" where
  "opt_arg args k = (case obj_get args k of JStr s \<Rightarrow> Some s | _ \<Rightarrow> None)"

fun pregenerate_images :: "chat_env \<Rightarrow> tool_use list \<Rightarrow> pregen \<Rightarrow> app_error + pregen" where
  "pregenerate_images env [] acc = Inr acc"
| "pregenerate_images env (tu # tus) acc =
    (if tu_name tu \<noteq> TOOL_IMAGE_GENERATE then pregenerate_images env tus acc
     else (case validate_tool_args (tl_int (te_lib (ce_tool env))) TOOL_IMAGE_GENERATE (tu_input tu) of
        None \<Rightarrow> Inl ValidationFailedError
      | Some args \<Rightarrow> pregenerate_images env tus
          ((tu_id tu, generate_image (ce_tool env) (str_arg args ''prompt'') (opt_arg args ''size'') (opt_arg args ''quality'')) # acc)))"

definition insert_generated_image ::
  "chat_env \<Rightarrow> turn_ctx \<Rightarrow> uuid \<Rightarrow> bytes \<Rightarrow> string \<Rightarrow> string \<Rightarrow> uuid db_act" where
  "insert_generated_image env c tcid content content_type prompt = (\<lambda>db.
     if users db (tx_user c) = None \<or> (case fk_session_id c of None \<Rightarrow> False | Some i \<Rightarrow> find_session db i = None)
        \<or> \<not> text_ok (Some prompt) \<or> \<not> text_ok (Some content_type)
     then (Inl DbError, db)
     else (case find (\<lambda>r. gi_tool_call r = Some tcid) (generated_images db) of
        Some r \<Rightarrow> (Inr (gi_id r), db)
      | None \<Rightarrow>
        (let i = db_gen db (db_next db) in
         (Inr i, db\<lparr>db_next := Suc (db_next db), generated_images := generated_images db @
            [\<lparr>gi_id = i, gi_user = tx_user c, gi_session = fk_session_id c, gi_message_step = Some (tx_turn c),
              gi_tool_call = Some tcid, gi_content = content, gi_content_type = content_type,
              gi_size = int (length content), gi_prompt = Some prompt, gi_created = db_now db,
              gi_expires = (if tx_tmp c then Some (db_now db + temporary_image_ttl_seconds (ce_cfg env) * 1000000) else None)\<rparr>]\<rparr>))))"

definition image_error :: "image_failure \<Rightarrow> tool_execution" where
  "image_error f = (case f of
     ImagePolicy \<Rightarrow> ToolError ''content_policy'' (''the image prompt was rejected by the content policy; adjust the prompt '' @ ''and try again'')
   | ImageFailed \<Rightarrow> ToolError ''image_generation_failed'' ''image generation is temporarily unavailable; try again later'')"

text \<open>The blocked answer, or the accumulated results.\<close>

definition execute_image_generate_tool ::
  "chat_env \<Rightarrow> turn_ctx \<Rightarrow> uuid \<Rightarrow> dict \<Rightarrow> string \<Rightarrow> image_failure + (bytes \<times> string) \<Rightarrow> turn_acc
   \<Rightarrow> (chat_run_out option \<times> turn_acc) chat_act" where
  "execute_image_generate_tool env c tcid args pid pre acc = (case pre of
     Inl f \<Rightarrow> bind_act (persist_outcome c tcid TOOL_IMAGE_GENERATE pid (image_error f) [] acc) (\<lambda>acc'. ret (None, acc'))
   | Inr (content, media) \<Rightarrow>
     bind_act (catch_act InsufficientCreditsError
       (bind_act (on_db (consume (tx_user c) (image_credits_cost (ce_cfg env)) (str_uuid tcid)
          (JObj [(''kind'', JStr ''image''), (''contentType'', JStr media)]) (fk_session_id c))) (\<lambda>_. ret True))
       (bind_act rollback (\<lambda>_. ret False))) (\<lambda>paid.
     if \<not> paid then ret (Some (blocked_out (tx_session c) (Some ImageCreditsEmpty)), acc)
     else
       bind_act (on_db (insert_generated_image env c tcid content media (str_arg args ''prompt''))) (\<lambda>image_id.
       bind_act (persist_outcome c tcid TOOL_IMAGE_GENERATE pid
           (ToolOk [(''imageId'', JStr (str_uuid image_id)), (''contentType'', JStr media), (''size'', JInt (int (length content)))])
           [(''imageId'', JStr (str_uuid image_id))]
           (acc\<lparr>ac_images := ac_images acc @ [\<lparr>io_id = image_id, io_type = media, io_size = int (length content)\<rparr>]\<rparr>)) (\<lambda>acc'.
       ret (None, acc')))))"

section \<open>One round of tool use\<close>

definition block_args :: "chat_env \<Rightarrow> tool_use \<Rightarrow> app_error + dict" where
  "block_args env tu = (case validate_tool_args (tl_int (te_lib (ce_tool env))) (tu_name tu) (tu_input tu) of
     Some args \<Rightarrow> Inr args
   | None \<Rightarrow> if tu_name tu \<noteq> TOOL_QUIZ_GENERATE then Inl ValidationFailedError else Inr (tu_input tu))"

definition handle_block ::
  "chat_env \<Rightarrow> turn_ctx \<Rightarrow> string option \<Rightarrow> pregen \<Rightarrow> tool_use \<Rightarrow> turn_acc \<Rightarrow> tool_call_out list
   \<Rightarrow> (chat_run_out option \<times> turn_acc \<times> tool_call_out list) chat_act" where
  "handle_block env c ext pre tu acc outs =
    (if tu_name tu \<in> set SERVER_SIDE_TOOLS \<and> tx_project c = None then raise UpstreamError
     else (case block_args env tu of
        Inl e \<Rightarrow> raise e
      | Inr args \<Rightarrow>
        bind_act (on_db fresh_uuid) (\<lambda>tcid.
        bind_act (create_tool_call (tx_tmp c) (tx_session c) (tx_turn c) (tu_name tu) args tcid (tu_id tu)) (\<lambda>_.
        bind_act (turn_audit c EVENT_TOOL_CALL_INITIATED [(''toolCallId'', JStr (str_uuid tcid)), (''toolName'', JStr (tu_name tu))]) (\<lambda>_.
        if tu_name tu = TOOL_IMAGE_GENERATE then
          (case map_of pre (tu_id tu) of
             None \<Rightarrow> raise PyError
           | Some p \<Rightarrow> bind_act (execute_image_generate_tool env c tcid args (tu_id tu) p acc) (\<lambda>(b, acc'). ret (b, acc', outs)))
        else if tu_name tu \<in> set GLOBAL_SERVER_SIDE_TOOLS then
          bind_act (execute_global_tool env c tcid (tu_name tu) args (tu_id tu) acc) (\<lambda>acc'. ret (None, acc', outs))
        else if tu_name tu \<in> set SERVER_SIDE_TOOLS then
          (case ext of
             None \<Rightarrow> raise PyError
           | Some p \<Rightarrow> bind_act (execute_server_side_tool env c p tcid (tu_name tu) args (tu_id tu) acc) (\<lambda>acc'. ret (None, acc', outs)))
        else if tx_tmp c then raise UpstreamError
        else ret (None, acc, outs @ [\<lparr>to_id = str_uuid tcid, to_name = tu_name tu, to_args = args\<rparr>]))))))"

fun handle_blocks ::
  "chat_env \<Rightarrow> turn_ctx \<Rightarrow> string option \<Rightarrow> pregen \<Rightarrow> tool_use list \<Rightarrow> turn_acc \<Rightarrow> tool_call_out list
   \<Rightarrow> (chat_run_out option \<times> turn_acc \<times> tool_call_out list) chat_act" where
  "handle_blocks env c ext pre [] acc outs = ret (None, acc, outs)"
| "handle_blocks env c ext pre (tu # tus) acc outs =
     bind_act (handle_block env c ext pre tu acc outs) (\<lambda>(b, acc', outs').
     case b of Some out \<Rightarrow> ret (Some out, acc', outs') | None \<Rightarrow> handle_blocks env c ext pre tus acc' outs')"

definition usage_json :: "llm_result \<Rightarrow> json" where
  "usage_json r = JObj (usage_dict (lr_usage r))"

definition non_empty :: "string \<Rightarrow> string option" where
  "non_empty s = (if s = [] then None else Some s)"

definition last_opt :: "'a list \<Rightarrow> 'a option" where
  "last_opt xs = (if xs = [] then None else Some (last xs))"

definition client_out :: "turn_ctx \<Rightarrow> llm_result \<Rightarrow> uuid option \<Rightarrow> turn_acc \<Rightarrow> tool_call_out list \<Rightarrow> chat_run_out" where
  "client_out c r sid acc outs = \<lparr>co_status = OutToolCall, co_session = tx_session c, co_message = non_empty (lr_text r),
     co_tool_calls = outs, co_block = None, co_usage = Some (usage_json r), co_turn = Some (tx_turn c), co_step = sid,
     co_server_tools = ac_tools acc, co_quiz = last_opt (ac_quiz acc), co_images = ac_images acc\<rparr>"

definition handle_tool_use :: "chat_env \<Rightarrow> turn_ctx \<Rightarrow> llm_result \<Rightarrow> turn_acc \<Rightarrow> (turn_outcome \<times> turn_acc) chat_act" where
  "handle_tool_use env c r acc = (case pregenerate_images env (lr_tool_uses r) [] of
     Inl e \<Rightarrow> raise e
   | Inr pre \<Rightarrow>
     bind_act (turn_step c RAssistant [(''content'', JArr (lr_content r))] (Some (usage_json r))) (\<lambda>sid.
     bind_act (if tx_project c \<noteq> None then bind_act (external_project_id c) (\<lambda>p. ret (Some p)) else ret None) (\<lambda>ext.
     bind_act (handle_blocks env c ext pre (lr_tool_uses r) acc []) (\<lambda>(b, acc', outs).
     ret (case b of Some out \<Rightarrow> TurnBlocked out
        | None \<Rightarrow> if outs \<noteq> [] then TurnClient (client_out c r sid acc' outs) else TurnContinue, acc')))))"

section \<open>The end of a turn\<close>

definition debit_turn :: "turn_ctx \<Rightarrow> json \<Rightarrow> unit chat_act" where
  "debit_turn c usage = bind_act (on_db (consume (tx_user c) 1 (str_uuid (tx_turn c))
     (JObj [(''usage'', usage), (''model'', payload_get usage ''model'')]) (fk_session_id c))) (\<lambda>_. ret ())"

definition assistant_out :: "turn_ctx \<Rightarrow> llm_result \<Rightarrow> uuid option \<Rightarrow> turn_acc \<Rightarrow> chat_run_out" where
  "assistant_out c r sid acc = \<lparr>co_status = OutAssistant, co_session = tx_session c, co_message = Some (lr_text r),
     co_tool_calls = [], co_block = None, co_usage = Some (usage_json r), co_turn = Some (tx_turn c), co_step = sid,
     co_server_tools = ac_tools acc, co_quiz = last_opt (ac_quiz acc), co_images = ac_images acc\<rparr>"

definition chat_step_event :: "turn_ctx \<Rightarrow> dict \<Rightarrow> json \<Rightarrow> dict" where
  "chat_step_event c extra usage = [(''sessionId'', JStr (str_uuid (tx_session c))), (''role'', JStr ''assistant'')] @ extra
     @ [(''model'', payload_get usage ''model''), (''usage'', usage)]"

definition finalize_assistant :: "turn_ctx \<Rightarrow> billing_plan \<Rightarrow> llm_result \<Rightarrow> turn_acc \<Rightarrow> chat_run_out chat_act" where
  "finalize_assistant c plan r acc =
     bind_act (turn_step c RAssistant [(''content'', JArr (lr_content r))] (Some (usage_json r))) (\<lambda>sid.
     bind_act (turn_audit c EVENT_CHAT_STEP (chat_step_event c [] (usage_json r))) (\<lambda>_.
     bind_act (if bp_debit plan
       then catch_act InsufficientCreditsError (bind_act (debit_turn c (usage_json r)) (\<lambda>_. ret True))
         (bind_act rollback (\<lambda>_. ret False))
       else if bp_trial plan then bind_act (on_db (mark_trial_used (tx_user c))) (\<lambda>_. ret True)
       else ret True) (\<lambda>paid.
     if \<not> paid then ret (blocked_out (tx_session c) (Some CreditsEmpty))
     else
       bind_act (if tx_tmp c then ret () else on_db (touch_session (tx_session c))) (\<lambda>_.
       bind_act commit (\<lambda>_.
       ret (assistant_out c r sid acc))))))"

definition max_tokens_out :: "turn_ctx \<Rightarrow> llm_result \<Rightarrow> uuid option \<Rightarrow> turn_acc \<Rightarrow> chat_run_out" where
  "max_tokens_out c r sid acc = \<lparr>co_status = OutBlocked, co_session = tx_session c, co_message = non_empty (lr_text r),
     co_tool_calls = [], co_block = Some MaxTokens, co_usage = Some (usage_json r), co_turn = Some (tx_turn c), co_step = sid,
     co_server_tools = ac_tools acc, co_quiz = last_opt (ac_quiz acc), co_images = ac_images acc\<rparr>"

definition handle_max_tokens :: "turn_ctx \<Rightarrow> llm_result \<Rightarrow> turn_acc \<Rightarrow> chat_run_out chat_act" where
  "handle_max_tokens c r acc =
     bind_act (turn_step c RAssistant [(''content'', JArr (lr_content r))] (Some (usage_json r))) (\<lambda>sid.
     bind_act (turn_audit c EVENT_CHAT_STEP (chat_step_event c [(''blockReason'', JStr ''max_tokens'')] (usage_json r))) (\<lambda>_.
     bind_act commit (\<lambda>_.
     ret (max_tokens_out c r sid acc))))"

section \<open>The loop\<close>

record gen_params =
  gp_mode :: mode
  gp_billing :: billing_plan
  gp_key :: "string option"
  gp_client :: string
  gp_model :: "string option"
  gp_system :: string
  gp_dialog :: dialog_mode

definition round_call :: "chat_env \<Rightarrow> turn_ctx \<Rightarrow> gen_params \<Rightarrow> json list option \<Rightarrow> neutral_message list \<Rightarrow> llm_call" where
  "round_call env c g att ms = \<lparr>lc_provider = gp_client g, lc_system = gp_system g, lc_messages = ms,
     lc_tools = neutral_tool_definitions (te_lib (ce_tool env)) (ce_cfg env) (tx_project c \<noteq> None) (\<not> tx_tmp c) (Some (gp_dialog g)),
     lc_attachments = att, lc_key = gp_key g, lc_model = gp_model g,
     lc_options = \<lparr>go_dialog = Some (gp_dialog g), go_temporary = tx_tmp c\<rparr>\<rparr>"

definition rounds_exceeded :: "chat_env \<Rightarrow> turn_ctx \<Rightarrow> chat_run_out chat_act" where
  "rounds_exceeded env c =
     bind_act (turn_audit c EVENT_CHAT_STEP [(''sessionId'', JStr (str_uuid (tx_session c))),
         (''error'', JStr ''max_server_tool_rounds_exceeded''), (''maxRounds'', JInt (max_server_tool_rounds (ce_cfg env)))]) (\<lambda>_.
     bind_act commit (\<lambda>_. raise UpstreamError))"

definition key_rejected :: "turn_ctx \<Rightarrow> gen_params \<Rightarrow> chat_run_out chat_act" where
  "key_rejected c g =
    (if gp_mode g = ModeByok then
       bind_act (on_db (mark_expired (tx_user c))) (\<lambda>_.
       bind_act commit (\<lambda>_. ret (blocked_out (tx_session c) (Some ByokInvalidReason))))
     else raise PyError)"

fun llm_rounds :: "chat_env \<Rightarrow> turn_ctx \<Rightarrow> gen_params \<Rightarrow> nat \<Rightarrow> json list option \<Rightarrow> turn_acc \<Rightarrow> chat_run_out chat_act" where
  "llm_rounds env c g 0 att acc = rounds_exceeded env c"
| "llm_rounds env c g (Suc n) att acc =
     bind_act get_st (\<lambda>s.
     bind_act commit (\<lambda>_.
     bind_act (call_llm env (round_call env c g att (build_messages (tx_tmp c) (tx_session c) s))) (\<lambda>reply.
     case reply of
       Inl LlmAuth \<Rightarrow> key_rejected c g
     | Inl (LlmRaise e) \<Rightarrow> raise e
     | Inr r \<Rightarrow>
       if lr_stop r = StopMaxTokens then handle_max_tokens c r acc
       else if lr_stop r = StopToolUse \<and> lr_tool_uses r \<noteq> [] then
         bind_act (handle_tool_use env c r acc) (\<lambda>(outcome, acc').
         case outcome of
           TurnBlocked out \<Rightarrow> ret out
         | TurnClient out \<Rightarrow> bind_act commit (\<lambda>_. ret out)
         | TurnContinue \<Rightarrow> bind_act commit (\<lambda>_. llm_rounds env c g n None acc'))
       else finalize_assistant c (gp_billing g) r acc)))"

text \<open>The client and the model of a generation; the model of a foreign provider is never sent to a user's key.\<close>

definition effective_model :: "chat_env \<Rightarrow> mode \<Rightarrow> string option \<Rightarrow> string option \<Rightarrow> dialog_mode \<Rightarrow> string option" where
  "effective_model env m byok_provider model dm =
    (if dm = DmDeepThinking then Some (deep_thinking_model (ce_cfg env))
     else if m = ModeByok then
       (case model_for_provider (ce_loads env) (ce_cfg env) model (case byok_provider of Some p \<Rightarrow> p | None \<Rightarrow> []) of
          Some x \<Rightarrow> Some x
        | None \<Rightarrow> Some (byok_default_model_for (ce_cfg env) (case byok_provider of Some p \<Rightarrow> p | None \<Rightarrow> [])))
     else model_for_provider (ce_loads env) (ce_cfg env) model (active_provider (ce_cfg env)))"

definition generate_loop ::
  "chat_env \<Rightarrow> turn_ctx \<Rightarrow> mode \<Rightarrow> billing_plan \<Rightarrow> string option \<times> string option \<Rightarrow> string
   \<Rightarrow> prepared_attachments option \<Rightarrow> string option \<Rightarrow> dialog_mode \<Rightarrow> chat_run_out chat_act" where
  "generate_loop env c m plan keys system att model dm =
    (let (key, byok_provider) = keys;
         go = (\<lambda>client. llm_rounds env c \<lparr>gp_mode = m, gp_billing = plan, gp_key = key, gp_client = client,
                 gp_model = effective_model env m byok_provider model dm, gp_system = system, gp_dialog = dm\<rparr>
               (nat (max_server_tool_rounds (ce_cfg env) + 1)) (map_option pa_blocks att) no_acc) in
     if m = ModeByok then
       (case byok_provider of
          None \<Rightarrow> bind_act commit (\<lambda>_. ret (blocked_out (tx_session c) (Some ByokInvalidReason)))
        | Some p \<Rightarrow> (case llm_client_for p of None \<Rightarrow> raise PyError | Some client \<Rightarrow> go client))
     else go (get_llm_client (ce_cfg env)))"

section \<open>The image sweep\<close>

definition expired_image :: "db \<Rightarrow> image_row \<Rightarrow> bool" where
  "expired_image db r = (case gi_expires r of None \<Rightarrow> False | Some t \<Rightarrow> t \<le> db_now db)"

text \<open>One batch of expired rows; which of them \<^verbatim>\<open>LIMIT\<close> picks is left open by SQL, here the first.\<close>

definition maybe_sweep_expired_images :: "chat_env \<Rightarrow> unit chat_act" where
  "maybe_sweep_expired_images env = (if \<not> ce_sweep_lock env then ret ()
     else bind_act (upd_st (\<lambda>s. let db = ch_db s;
         gone = map gi_id (take (nat (max 1 (image_sweep_batch_size (ce_cfg env)))) (filter (expired_image db) (generated_images db))) in
         s\<lparr>ch_db := db\<lparr>generated_images := filter (\<lambda>r. gi_id r \<notin> set gone) (generated_images db)\<rparr>\<rparr>)) (\<lambda>_. commit))"

definition sweep_if_images :: "chat_env \<Rightarrow> chat_run_out \<Rightarrow> unit chat_act" where
  "sweep_if_images env out = (if co_images out \<noteq> [] then maybe_sweep_expired_images env else ret ())"

section \<open>A user message\<close>

record run_request =
  rq_user :: uuid
  rq_project :: "string option"
  rq_session :: "uuid option"
  rq_message :: string
  rq_mode :: mode
  rq_assistant :: "assistant_mode option"
  rq_dialog :: "string option"
  rq_attachments :: "attachment_in list"
  rq_model :: "string option"
  rq_workspace :: "uuid option"
  rq_context :: "dict option"
  rq_action_prompt :: "string option"
  rq_edit :: "uuid option"
  rq_temporary :: bool
  rq_history :: "temporary_turn list"

definition DIALOG_MODE :: "(string \<times> dialog_mode) list" where
  "DIALOG_MODE = [(''smart'', DmSmart), (''deep_thinking'', DmDeepThinking), (''study_learn'', DmStudyLearn), (''search'', DmSearch)]"

definition default_assistant_mode :: "uuid \<Rightarrow> db \<Rightarrow> assistant_mode" where
  "default_assistant_mode uid db = (case preferences db uid of None \<Rightarrow> AmChat | Some p \<Rightarrow> up_assistant p)"

definition default_dialog_mode :: "uuid \<Rightarrow> db \<Rightarrow> dialog_mode" where
  "default_dialog_mode uid db = (case preferences db uid of None \<Rightarrow> DmSmart | Some p \<Rightarrow> up_dialog p)"

text \<open>The dialog mode of the request or of the preferences; \<^verbatim>\<open>None\<close> for a name that is none.\<close>

definition resolved_dialog_mode :: "run_request \<Rightarrow> db \<Rightarrow> dialog_mode option" where
  "resolved_dialog_mode rq db = (case rq_dialog rq of
     None \<Rightarrow> Some (default_dialog_mode (rq_user rq) db) | Some s \<Rightarrow> map_of DIALOG_MODE s)"

text \<open>The checks made only when a session is created; they read the database and write nothing.\<close>

definition creation_checks :: "chat_env \<Rightarrow> run_request \<Rightarrow> db \<Rightarrow> app_error option" where
  "creation_checks env rq db =
    (if (case rq_model rq of None \<Rightarrow> False | Some m \<Rightarrow> map_of (allowed_models (ce_loads env) (ce_cfg env)) (py_strip m) = None)
     then Some UnsupportedModelError
     else if (case rq_workspace rq of None \<Rightarrow> False | Some w \<Rightarrow> \<not> owns_workspace w (rq_user rq) db)
     then Some WorkspaceNotFoundError
     else (case resolved_dialog_mode rq db of
        None \<Rightarrow> Some UnsupportedDialogModeError
      | Some dm \<Rightarrow> if dm \<in> set PROVIDER_GATED_DIALOG_MODES \<and> active_provider (ce_cfg env) \<noteq> ''openai''
          then Some UnsupportedDialogModeError else None))"

text \<open>Outside creation the resolved dialog mode is not used, so its default here has no effect.\<close>

definition new_session_of :: "run_request \<Rightarrow> bool \<Rightarrow> db \<Rightarrow> new_session" where
  "new_session_of rq create db = \<lparr>ns_project = rq_project rq, ns_mode = rq_mode rq,
     ns_assistant = (case rq_assistant rq of Some a \<Rightarrow> a | None \<Rightarrow> default_assistant_mode (rq_user rq) db),
     ns_dialog = (case resolved_dialog_mode rq db of Some dm \<Rightarrow> dm | None \<Rightarrow> DmSmart),
     ns_title = derive_title (rq_message rq), ns_model = map_option py_strip (rq_model rq),
     ns_workspace = (if create then rq_workspace rq else None)\<rparr>"

text \<open>The session of the request: in memory for a temporary chat, otherwise resumed or inserted.\<close>

definition request_session :: "chat_env \<Rightarrow> run_request \<Rightarrow> uuid option \<Rightarrow> bool \<Rightarrow> (session_row \<times> bool) chat_act" where
  "request_session env rq synthetic create = bind_act get_st (\<lambda>s. case synthetic of
     Some sid \<Rightarrow> ret (session_of sid (rq_user rq) (new_session_of rq create (ch_db s)) 0, True)
   | None \<Rightarrow> on_db (get_or_create_session (ce_cfg env) (rq_user rq) (rq_session rq) (new_session_of rq create (ch_db s))))"

definition edit_history :: "run_request \<Rightarrow> session_row \<Rightarrow> bool \<Rightarrow> unit chat_act" where
  "edit_history rq sess is_new = (case rq_edit rq of
     None \<Rightarrow> ret ()
   | Some mid \<Rightarrow>
       if is_new then raise MessageNotFoundError
       else bind_act (on_db (truncate_from_message_step (cs_id sess) mid)) (\<lambda>deleted.
         case deleted of None \<Rightarrow> raise MessageNotFoundError | Some n \<Rightarrow> ret ()))"

text \<open>The system prompt and the knowledge files of the session, as they are now.\<close>

definition session_prompt :: "chat_env \<Rightarrow> uuid \<Rightarrow> session_row \<Rightarrow> db \<Rightarrow> string \<times> prepared_attachments option" where
  "session_prompt env uid sess db =
    (let wx = (case cs_workspace sess of None \<Rightarrow> None
               | Some w \<Rightarrow> context_for_session (ce_ws env) w uid (active_provider (ce_cfg env)) db);
         base = (case wx of None \<Rightarrow> system_prompt_for (cs_assistant_mode sess)
               | Some x \<Rightarrow> system_prompt_with_workspace (cs_assistant_mode sess) (wx_instructions x))
     in (system_prompt_with_dialog_mode base (cs_dialog_mode sess),
         case wx of None \<Rightarrow> None | Some x \<Rightarrow> wx_attachments x))"

definition request_attachments :: "chat_env \<Rightarrow> run_request \<Rightarrow> app_error + prepared_attachments option" where
  "request_attachments env rq = (if rq_attachments rq = [] then Inr None
     else (case prepare_attachments (attach_env.truncate (ce_ws env)) (ce_cfg env) (active_provider (ce_cfg env)) (rq_attachments rq) of
        Inl e \<Rightarrow> Inl e | Inr p \<Rightarrow> Inr (Some p)))"

definition user_payload :: "run_request \<Rightarrow> prepared_attachments option \<Rightarrow> dict" where
  "user_payload rq prepared =
    (let msg = compose_turn0_text (render_context_block (rq_context rq)) (rq_message rq);
         blocks = (if msg = [] then [] else [JObj [(''type'', JStr ''text''), (''text'', JStr msg)]])
           @ (case prepared of None \<Rightarrow> [] | Some p \<Rightarrow> pa_placeholders p) in
     [(''content'', JArr blocks)] @ (case rq_action_prompt rq of
        None \<Rightarrow> [] | Some a \<Rightarrow> if py_strip a = [] then [] else [(''actionPrompt'', JStr a)]))"

definition ctx_of :: "uuid \<Rightarrow> uuid \<Rightarrow> bool \<Rightarrow> session_row \<Rightarrow> turn_ctx" where
  "ctx_of uid turn tmp sess = \<lparr>tx_user = uid, tx_session = cs_id sess, tx_turn = turn, tx_tmp = tmp, tx_project = cs_project sess\<rparr>"

definition session_model :: "session_row \<Rightarrow> string option" where
  "session_model sess = (case cs_model sess of None \<Rightarrow> None | Some m \<Rightarrow> if m = [] then None else Some m)"

text \<open>From the policy decision on, a message and a batch of tool results are answered the same way.\<close>

definition answer_turn ::
  "chat_env \<Rightarrow> turn_ctx \<Rightarrow> session_row \<Rightarrow> (db \<Rightarrow> string \<times> prepared_attachments option) \<Rightarrow> chat_run_out chat_act" where
  "answer_turn env c sess prompt =
     bind_act (evaluate_turn c (cs_mode sess)) (\<lambda>(d, state).
     if \<not> d_allow d then ret (blocked_out (cs_id sess) (d_reason d))
     else
       bind_act (resolve_api_key env (tx_user c) (cs_mode sess)) (\<lambda>keys.
       bind_act get_st (\<lambda>s.
       let (system, att) = prompt (ch_db s) in
       bind_act (generate_loop env c (cs_mode sess) (billing_plan_of (cs_mode sess) state) keys system att
           (session_model sess) (cs_dialog_mode sess)) (\<lambda>out.
       bind_act (sweep_if_images env out) (\<lambda>_. ret out)))))"

definition run_opened :: "chat_env \<Rightarrow> run_request \<Rightarrow> uuid \<Rightarrow> session_row \<Rightarrow> bool \<Rightarrow> chat_run_out chat_act" where
  "run_opened env rq turn sess is_new =
     bind_act (edit_history rq sess is_new) (\<lambda>_.
     bind_act get_st (\<lambda>s.
     let (system, knowledge) = session_prompt env (rq_user rq) sess (ch_db s);
         c = ctx_of (rq_user rq) turn (rq_temporary rq) sess in
     case request_attachments env rq of
       Inl e \<Rightarrow> raise e
     | Inr prepared \<Rightarrow>
       bind_act (turn_step c RUser (user_payload rq prepared) None) (\<lambda>_.
       answer_turn env c sess (\<lambda>db. (system, merge_attachments prepared knowledge)))))"

definition run_turn :: "chat_env \<Rightarrow> run_request \<Rightarrow> uuid \<Rightarrow> uuid option \<Rightarrow> chat_run_out chat_act" where
  "run_turn env rq turn synthetic = bind_act get_st (\<lambda>s.
     let create = will_create_session env (rq_temporary rq) (rq_user rq) (rq_session rq) (ch_db s) in
     case (if create then creation_checks env rq (ch_db s) else None) of
       Some e \<Rightarrow> raise e
     | None \<Rightarrow>
       bind_act (request_session env rq synthetic create) (\<lambda>(sess, is_new). run_opened env rq turn sess is_new))"

definition run :: "chat_env \<Rightarrow> run_request \<Rightarrow> chat_run_out chat_act" where
  "run env rq =
     bind_act (on_db fresh_uuid) (\<lambda>turn.
     bind_act (if rq_temporary rq
       then bind_act (ephemeral_init (rq_history rq) (active_provider (ce_cfg env))) (\<lambda>sid. ret (Some sid)) else ret None)
     (run_turn env rq turn))"

section \<open>Tool results\<close>

text \<open>Each item with the tool call it names, and the turn all of them belong to.\<close>

fun resolve_results ::
  "uuid \<Rightarrow> tool_result_in list \<Rightarrow> uuid option \<Rightarrow> chat_st
   \<Rightarrow> app_error + (tool_result_in \<times> tool_call_row) list \<times> uuid option" where
  "resolve_results sid [] turn s = Inr ([], turn)"
| "resolve_results sid (i # is) turn s =
    (case get_tool_call False (ti_call i) s of
       None \<Rightarrow> Inl NotFoundError
     | Some tc \<Rightarrow>
       if tc_session tc \<noteq> sid then Inl NotFoundError
       else if (case turn of None \<Rightarrow> False | Some t \<Rightarrow> tc_message_step tc \<noteq> t) then Inl ValidationFailedError
       else (case resolve_results sid is (Some (tc_message_step tc)) s of
          Inl e \<Rightarrow> Inl e | Inr (rs, t) \<Rightarrow> Inr ((i, tc) # rs, t)))"

definition opt_json :: "json option \<Rightarrow> json" where
  "opt_json j = (case j of None \<Rightarrow> JNull | Some v \<Rightarrow> v)"

definition apply_tool_result :: "turn_ctx \<Rightarrow> tool_call_row \<Rightarrow> json option \<Rightarrow> json option \<Rightarrow> unit chat_act" where
  "apply_tool_result c tc result err =
    (let st = (if err \<noteq> None then TcErrored else TcCompleted);
         event = [(''toolCallId'', JStr (str_uuid (tc_id tc))), (''toolName'', JStr (tc_tool_name tc)),
                  (''status'', JStr (status_value st))] in
     bind_act (complete_tool_call (tx_tmp c) (tc_id tc) st (if result \<noteq> None then result else err)) (\<lambda>transitioned.
     if \<not> transitioned then ret ()
     else
       bind_act (turn_step c RTool (tool_step_payload (tc_id tc) (tc_provider_id tc) (tc_tool_name tc) (opt_json result) (opt_json err)) None) (\<lambda>_.
       bind_act (if tc_tool_name tc \<in> set MUTATING_TOOLS then turn_audit c EVENT_TOOL_MUTATION event else ret ()) (\<lambda>_.
       turn_audit c EVENT_TOOL_CALL_COMPLETED event))))"

fun apply_results :: "turn_ctx \<Rightarrow> (tool_result_in \<times> tool_call_row) list \<Rightarrow> unit chat_act" where
  "apply_results c [] = ret ()"
| "apply_results c ((i, tc) # rs) =
     bind_act (if done_call tc then ret () else apply_tool_result c tc (ti_result i) (ti_error i)) (\<lambda>_. apply_results c rs)"

definition waiting_out :: "turn_ctx \<Rightarrow> tool_call_row list \<Rightarrow> uuid option \<Rightarrow> chat_run_out" where
  "waiting_out c pending step = \<lparr>co_status = OutToolCall, co_session = tx_session c, co_message = None,
     co_tool_calls = map (\<lambda>tc. \<lparr>to_id = str_uuid (tc_id tc), to_name = tc_tool_name tc,
       to_args = (case tc_args tc of JObj kvs \<Rightarrow> kvs | _ \<Rightarrow> [])\<rparr>) pending,
     co_block = None, co_usage = None, co_turn = Some (tx_turn c), co_step = step, co_server_tools = [],
     co_quiz = None, co_images = []\<rparr>"

definition render_saved_step :: "turn_ctx \<Rightarrow> step_row \<Rightarrow> chat_run_out" where
  "render_saved_step c r = \<lparr>co_status = OutAssistant, co_session = tx_session c,
     co_message = Some (concat (map (\<lambda>b. if has_type ''text'' b then str_of (dict_get b ''text'') else []) (content_of (st_payload r)))),
     co_tool_calls = [], co_block = None, co_usage = st_usage r, co_turn = Some (tx_turn c), co_step = Some (st_id r),
     co_server_tools = [], co_quiz = None, co_images = []\<rparr>"

text \<open>The barrier reads the tool calls of the turn again, which also refreshes the rows of the batch.\<close>

definition client_pending :: "turn_ctx \<Rightarrow> chat_st \<Rightarrow> tool_call_row list" where
  "client_pending c s = filter (\<lambda>tc. is_client_side (tc_tool_name tc) \<and> \<not> done_call tc)
     (list_tool_calls (tx_tmp c) (tx_session c) (tx_turn c) s)"

definition all_already_done :: "(tool_result_in \<times> tool_call_row) list \<Rightarrow> chat_st \<Rightarrow> bool" where
  "all_already_done rs s = list_all (\<lambda>(i, tc). case get_tool_call False (tc_id tc) s of
     None \<Rightarrow> done_call tc | Some now \<Rightarrow> done_call now) rs"

definition tool_result :: "chat_env \<Rightarrow> uuid \<Rightarrow> uuid \<Rightarrow> tool_result_in list \<Rightarrow> chat_run_out chat_act" where
  "tool_result env uid sid results =
    (if results = [] then raise ValidationFailedError
     else bind_act get_st (\<lambda>s. case get_session sid uid (ch_db s) of
       None \<Rightarrow> raise NotFoundError
     | Some sess \<Rightarrow>
       (case resolve_results sid results None s of
          Inl e \<Rightarrow> raise e
        | Inr (_, None) \<Rightarrow> raise PyError
        | Inr (rs, Some turn) \<Rightarrow>
          (let c = ctx_of uid turn False sess in
           bind_act (apply_results c rs) (\<lambda>_.
           bind_act get_st (\<lambda>s.
           if client_pending c s \<noteq> [] then
             bind_act commit (\<lambda>_. ret (waiting_out c (client_pending c s) (assistant_tool_step_id sid turn (ch_db s))))
           else
             (case next_step_after sid turn (tc_id (snd (hd rs))) (ch_db s) of
                Some saved \<Rightarrow>
                  if all_already_done rs s then ret (render_saved_step c saved)
                  else answer_turn env c sess (\<lambda>db. let (system, knowledge) = session_prompt env uid sess db in
                    (system, merge_attachments None knowledge))
              | None \<Rightarrow>
                  answer_turn env c sess (\<lambda>db. let (system, knowledge) = session_prompt env uid sess db in
                    (system, merge_attachments None knowledge)))))))))"

section \<open>A request\<close>

text \<open>The dependency that opens the session commits what a handler that returned has left uncommitted.\<close>

definition chat_request :: "'a chat_act \<Rightarrow> db \<Rightarrow> (app_error + 'a) \<times> chat_st" where
  "chat_request m db = (case m \<lparr>ch_saved = db, ch_db = db, ch_mem_steps = [], ch_mem_calls = [], ch_sent = []\<rparr> of
     (Inl e, s) \<Rightarrow> (Inl e, s\<lparr>ch_db := ch_saved s\<rparr>)
   | (Inr a, s) \<Rightarrow> (Inr a, s\<lparr>ch_saved := ch_db s\<rparr>))"

end
