(* ===== verification/TurnRules.thy ===== *)
theory TurnRules
  imports Orchestrator
begin

text \<open>
  Rules for reasoning about a chat turn. A fact about the state of a request that survives each single
  statement of a turn survives the turn: the first locale collects the statements of the tools of one reply,
  the second adds the loop of provider calls, the third the end of a turn and the whole request. A request
  that fails is rolled back to its last commit, so of a failing statement nothing is asked beyond that.
\<close>

definition rolled :: "chat_st \<Rightarrow> chat_st" where
  "rolled s = s\<lparr>ch_db := ch_saved s\<rparr>"

definition keeps :: "(chat_st \<Rightarrow> bool) \<Rightarrow> (chat_st \<Rightarrow> bool) \<Rightarrow> ('a \<Rightarrow> bool) \<Rightarrow> 'a chat_act \<Rightarrow> bool" where
  "keeps J E Q m \<longleftrightarrow> (\<forall>s r s'. J s \<longrightarrow> m s = (r, s') \<longrightarrow>
     (case r of Inl e \<Rightarrow> E s' | Inr a \<Rightarrow> J s' \<and> Q a))"

text \<open>A turn either keeps the fact and returns an answer of the given kind, or it ends as described.\<close>

definition ends :: "(chat_st \<Rightarrow> bool) \<Rightarrow> (chat_st \<Rightarrow> bool) \<Rightarrow> ('a \<Rightarrow> bool) \<Rightarrow> (app_error + 'a \<Rightarrow> chat_st \<Rightarrow> bool) \<Rightarrow> 'a chat_act \<Rightarrow> bool" where
  "ends J E Q F m \<longleftrightarrow> (\<forall>s r s'. J s \<longrightarrow> m s = (r, s') \<longrightarrow>
     F r s' \<or> (case r of Inl e \<Rightarrow> E s' | Inr a \<Rightarrow> J s' \<and> Q a))"

lemma rolled_sel [simp]:
  "ch_db (rolled s) = ch_saved s" "ch_saved (rolled s) = ch_saved s" "ch_sent (rolled s) = ch_sent s"
  "ch_mem_steps (rolled s) = ch_mem_steps s" "ch_mem_calls (rolled s) = ch_mem_calls s"
  "rolled (s\<lparr>ch_db := d\<rparr>) = rolled s" "rolled (rolled s) = rolled s"
  by (simp_all add: rolled_def)

lemma keepsI:
  assumes "\<And>s a s'. J s \<Longrightarrow> m s = (Inr a, s') \<Longrightarrow> J s' \<and> Q a"
    and "\<And>s e s'. J s \<Longrightarrow> m s = (Inl e, s') \<Longrightarrow> E s'"
  shows "keeps J E Q m"
  unfolding keeps_def using assms by (auto split: sum.splits)

lemma keeps_Inr: "keeps J E Q m \<Longrightarrow> J s \<Longrightarrow> m s = (Inr a, s') \<Longrightarrow> J s' \<and> Q a"
  unfolding keeps_def by (metis (no_types, lifting) sum.case(2))

lemma keeps_Inl: "keeps J E Q m \<Longrightarrow> J s \<Longrightarrow> m s = (Inl e, s') \<Longrightarrow> E s'"
  unfolding keeps_def by (metis (no_types, lifting) sum.case(1))

lemma endsI:
  assumes "\<And>s a s'. J s \<Longrightarrow> m s = (Inr a, s') \<Longrightarrow> F (Inr a) s' \<or> J s' \<and> Q a"
    and "\<And>s e s'. J s \<Longrightarrow> m s = (Inl e, s') \<Longrightarrow> F (Inl e) s' \<or> E s'"
  shows "ends J E Q F m"
  unfolding ends_def using assms by (auto split: sum.splits)

lemma ends_Inr: "ends J E Q F m \<Longrightarrow> J s \<Longrightarrow> m s = (Inr a, s') \<Longrightarrow> F (Inr a) s' \<or> J s' \<and> Q a"
  unfolding ends_def by (metis (no_types, lifting) sum.case(2))

lemma ends_Inl: "ends J E Q F m \<Longrightarrow> J s \<Longrightarrow> m s = (Inl e, s') \<Longrightarrow> F (Inl e) s' \<or> E s'"
  unfolding ends_def by (metis (no_types, lifting) sum.case(1))

lemma keeps_weaken: "keeps J E Q m \<Longrightarrow> (\<And>a. Q a \<Longrightarrow> R a) \<Longrightarrow> keeps J E R m"
  by (rule keepsI) (blast dest: keeps_Inr keeps_Inl)+

lemma keeps_ret: "Q a \<Longrightarrow> keeps J E Q (ret a)"
  by (rule keepsI) auto

lemma keeps_Pair: "Q a \<Longrightarrow> keeps J E Q (Pair (Inr a))"
  by (rule keepsI) auto

lemma bind_act_Inl_E:
  assumes "bind_act m f s = (Inl e, s'')"
  obtains "m s = (Inl e, s'')" | a s' where "m s = (Inr a, s')" "f a s' = (Inl e, s'')"
  using assms by (auto simp: bind_act_def split: prod.splits sum.splits)

lemma keeps_bind_val:
  assumes "keeps J E R m" "\<And>a. R a \<Longrightarrow> keeps J E Q (f a)"
  shows "keeps J E Q (bind_act m f)"
proof (rule keepsI)
  show "J s' \<and> Q a" if "J s" "bind_act m f s = (Inr a, s')" for s a s'
    using that assms by (blast elim: bind_act_Inr_E dest: keeps_Inr)
  show "E s'" if "J s" "bind_act m f s = (Inl e, s')" for s e s'
    using that assms by (blast elim: bind_act_Inl_E dest: keeps_Inr keeps_Inl)
qed

lemma keeps_if: "(b \<Longrightarrow> keeps J E Q m) \<Longrightarrow> (\<not> b \<Longrightarrow> keeps J E Q n) \<Longrightarrow> keeps J E Q (if b then m else n)"
  by simp

lemma keeps_option:
  "(x = None \<Longrightarrow> keeps J E Q m) \<Longrightarrow> (\<And>y. x = Some y \<Longrightarrow> keeps J E Q (f y)) \<Longrightarrow> keeps J E Q (case x of None \<Rightarrow> m | Some y \<Rightarrow> f y)"
  by (cases x) simp_all

lemma keeps_sum:
  "(\<And>e. x = Inl e \<Longrightarrow> keeps J E Q (g e)) \<Longrightarrow> (\<And>y. x = Inr y \<Longrightarrow> keeps J E Q (f y)) \<Longrightarrow> keeps J E Q (case x of Inl e \<Rightarrow> g e | Inr y \<Rightarrow> f y)"
  by (cases x) simp_all

lemma keeps_prod: "(\<And>a b. x = (a, b) \<Longrightarrow> keeps J E Q (f a b)) \<Longrightarrow> keeps J E Q (case x of (a, b) \<Rightarrow> f a b)"
  by (cases x) simp

lemmas keeps_cases = keeps_if keeps_option keeps_sum keeps_prod

lemmas keeps_bind = keeps_bind_val[where R = "\<lambda>_. True", simplified]

lemma keeps_get: "(\<And>s. keeps J E Q (f s)) \<Longrightarrow> keeps J E Q (bind_act get_st f)"
  by (rule keepsI) (simp; blast dest: keeps_Inr keeps_Inl)+

lemma ends_keeps: "keeps J E Q m \<Longrightarrow> ends J E Q F m"
  by (rule endsI) (blast dest: keeps_Inr keeps_Inl)+

lemma ends_bind_val:
  assumes "keeps J E R m" "\<And>a. R a \<Longrightarrow> ends J E Q F (f a)"
  shows "ends J E Q F (bind_act m f)"
proof (rule endsI)
  show "F (Inr a) s' \<or> J s' \<and> Q a" if "J s" "bind_act m f s = (Inr a, s')" for s a s'
    using that assms by (blast elim: bind_act_Inr_E dest: keeps_Inr ends_Inr)
  show "F (Inl e) s' \<or> E s'" if "J s" "bind_act m f s = (Inl e, s')" for s e s'
    using that(2)
  proof (cases rule: bind_act_Inl_E)
    case 1
    then show ?thesis using keeps_Inl[OF assms(1) that(1)] by blast
  next
    case (2 a t)
    then have "J t \<and> R a" using keeps_Inr[OF assms(1) that(1)] by blast
    then show ?thesis using ends_Inl[OF assms(2) _ 2(2)] by blast
  qed
qed

lemmas ends_bind = ends_bind_val[where R = "\<lambda>_. True", simplified]

lemma ends_get: "(\<And>s. ends J E Q F (f s)) \<Longrightarrow> ends J E Q F (bind_act get_st f)"
  by (rule endsI) (simp; blast dest: ends_Inr ends_Inl)+

definition fits :: "uuid \<Rightarrow> bool \<Rightarrow> turn_ctx \<Rightarrow> bool" where
  "fits uid tmp c \<longleftrightarrow> tx_user c = uid \<and> tx_tmp c = tmp"

definition open_outcome :: "turn_outcome \<Rightarrow> bool" where
  "open_outcome x \<longleftrightarrow> (\<forall>out. x = TurnBlocked out \<or> x = TurnClient out \<longrightarrow> co_status out \<noteq> OutAssistant)"

definition blocked_answer :: "chat_run_out option \<Rightarrow> bool" where
  "blocked_answer b \<longleftrightarrow> (\<forall>out. b = Some out \<longrightarrow> co_status out = OutBlocked)"

lemma answers_simps [simp]:
  "blocked_answer None" "co_status (blocked_out sid reason) = OutBlocked"
  "blocked_answer (Some out) \<longleftrightarrow> co_status out = OutBlocked"
  "open_outcome TurnContinue" "open_outcome (TurnBlocked out) \<longleftrightarrow> co_status out \<noteq> OutAssistant"
  "open_outcome (TurnClient out) \<longleftrightarrow> co_status out \<noteq> OutAssistant"
  "co_status (client_out c r i acc outs) = OutToolCall" "co_status (max_tokens_out c r i acc) = OutBlocked"
  by (auto simp: blocked_answer_def blocked_out_def open_outcome_def client_out_def max_tokens_out_def)

text \<open>A repository call that raises has changed at most the open transaction.\<close>

lemma repository_fails:
  "add_step t sid mid ro sp us s = (Inl e, s') \<Longrightarrow> ch_saved s' = ch_saved s \<and> ch_sent s' = ch_sent s"
  "create_tool_call t sid mid name args tcid pid s = (Inl e, s') \<Longrightarrow> ch_saved s' = ch_saved s \<and> ch_sent s' = ch_sent s"
  "complete_tool_call t tcid st res s = (Inl e, s') \<Longrightarrow> ch_saved s' = ch_saved s \<and> ch_sent s' = ch_sent s"
  by (auto simp: add_step_def create_tool_call_def complete_tool_call_def mem_complete_def on_db_def
      split: if_splits prod.splits option.splits)

section \<open>The statements every request makes\<close>

text \<open>The fact is \<^verbatim>\<open>J\<close>, what is left of it by an exception \<^verbatim>\<open>E\<close>, and \<^verbatim>\<open>own\<close> is what is known of the
  identifiers the request draws.\<close>

locale turn_base =
  fixes J E :: "chat_st \<Rightarrow> bool" and own :: "uuid \<Rightarrow> bool" and env :: chat_env and uid :: uuid and tmp :: bool
  assumes on_fail: "J s \<Longrightarrow> ch_saved s' = ch_saved s \<and> ch_sent s' = ch_sent s \<Longrightarrow> E s'"
    and on_audit: "J s \<Longrightarrow> audit_record uid fs ev pl (ch_db s) = (Inr (), d) \<Longrightarrow> J (s\<lparr>ch_db := d\<rparr>)"
    and on_step: "J s \<Longrightarrow> add_step tmp sid mid ro sp us s = (Inr fs, s') \<Longrightarrow> J s'"
    and on_fresh: "J s \<Longrightarrow> fresh_uuid (ch_db s) = (Inr tcid, d) \<Longrightarrow> J (s\<lparr>ch_db := d\<rparr>) \<and> own tcid"
begin

lemma fits_user: "fits uid tmp c \<Longrightarrow> tx_user c = uid"
  by (simp add: fits_def)

lemma keeps_raise: "keeps J E Q (raise e)"
  by (rule keepsI) (auto intro: on_fail)

lemma keeps_fail: "keeps J E Q (Pair (Inl e))"
  by (rule keepsI) (auto intro: on_fail)

lemmas keeps_end = keeps_ret keeps_Pair keeps_raise keeps_fail

lemma keeps_on_db: "(\<And>s x d. J s \<Longrightarrow> m (ch_db s) = (Inr x, d) \<Longrightarrow> J (s\<lparr>ch_db := d\<rparr>) \<and> Q x) \<Longrightarrow> keeps J E Q (on_db m)"
  by (rule keepsI) (auto simp: on_db_Inr on_db_def split: prod.splits intro: on_fail)

lemma keeps_audit: "fits uid tmp c \<Longrightarrow> keeps J E (\<lambda>_. True) (turn_audit c ev pl)"
  unfolding turn_audit_def fits_def by (rule keeps_on_db) (auto intro: on_audit)

lemma keeps_step: "fits uid tmp c \<Longrightarrow> keeps J E (\<lambda>_. True) (turn_step c ro sp us)"
  unfolding turn_step_def fits_def
  by (rule keepsI) (simp add: on_step, metis on_fail repository_fails(1))

lemma keeps_fresh: "keeps J E own (on_db fresh_uuid)"
  by (rule keeps_on_db) (rule on_fresh)

lemma keeps_evaluate: "fits uid tmp c \<Longrightarrow> keeps J E (\<lambda>_. True) (evaluate_turn c m)"
  unfolding evaluate_turn_def Let_def
  by (intro keeps_get keeps_bind[OF keeps_audit] keeps_end) simp_all

lemma keeps_api_key: "keeps J E (\<lambda>_. True) (resolve_api_key env u m)"
  unfolding resolve_api_key_def
  by (intro keeps_get) (auto split: sum.split option.split intro!: keeps_end)

end

section \<open>Opening a session\<close>

locale request_opening = turn_base +
  assumes on_session: "\<not> tmp \<Longrightarrow> J s \<Longrightarrow> insert_session uid n (ch_db s) = (Inr row, d) \<Longrightarrow> J (s\<lparr>ch_db := d\<rparr>)"
    and on_truncate: "\<not> tmp \<Longrightarrow> J s \<Longrightarrow> truncate_from_message_step sid mid (ch_db s) = (Inr gone, d) \<Longrightarrow> J (s\<lparr>ch_db := d\<rparr>)"
    and on_seed: "tmp \<Longrightarrow> J s \<Longrightarrow> J (s\<lparr>ch_mem_steps := seeded, ch_mem_calls := []\<rparr>)"
begin

lemma keeps_seed: "keeps J E (\<lambda>_. True) (on_db (seed_steps sid provider ts))"
proof (induction ts)
  case Nil
  show ?case by (rule keeps_on_db) auto
next
  case (Cons t ts)
  obtain ro content where "t = Turn ro content" by (cases t)
  then have eq: "on_db (seed_steps sid provider (t # ts)) = bind_act (on_db fresh_uuid) (\<lambda>mid.
     bind_act (on_db (seed_steps sid provider ts)) (\<lambda>rows.
     ret (mem_step sid mid ro [(''content'', JArr (history_blocks ro content provider))] None # rows)))"
    by (auto simp: fun_eq_iff on_db_def bind_act_def split: prod.splits sum.splits)
  show ?case unfolding eq
    by (intro keeps_bind_val[OF keeps_fresh] keeps_bind[OF Cons.IH] keeps_ret) simp
qed

lemma keeps_ephemeral: "tmp \<Longrightarrow> keeps J E (\<lambda>_. True) (ephemeral_init seed provider)"
  unfolding ephemeral_init_def
  by (intro keeps_bind_val[OF keeps_fresh] keeps_bind[OF keeps_seed] keeps_bind keeps_ret)
    (auto intro!: keepsI intro: on_seed)

lemma keeps_request_session:
  assumes "rq_user rq = uid" "synthetic = None \<longrightarrow> \<not> tmp" "synthetic \<noteq> None \<longrightarrow> tmp"
  shows "keeps J E (\<lambda>(sess, is_new). tmp \<longrightarrow> is_new) (request_session env rq synthetic create)"
proof -
  have ins: "J (s\<lparr>ch_db := d\<rparr>)" if "J s" "\<not> tmp" "get_or_create_session cfg uid sid n (ch_db s) = (Inr x, d)" for s d x n cfg sid
    using that on_session
    by (auto simp: get_or_create_session_def split: option.splits if_splits elim!: bind_act_Inr_E)
  show ?thesis
  proof (cases synthetic)
    case None
    with assms show ?thesis unfolding request_session_def
      by (auto intro!: keeps_get keeps_on_db ins)
  next
    case (Some sid)
    then show ?thesis unfolding request_session_def by (auto intro!: keeps_get keeps_end)
  qed
qed

lemma keeps_edit:
  assumes "tmp \<longrightarrow> is_new"
  shows "keeps J E (\<lambda>_. True) (edit_history rq sess is_new)"
  unfolding edit_history_def
  by (intro keeps_cases keeps_bind[OF keeps_on_db] keeps_end) (use assms in \<open>auto intro: on_truncate\<close>)

end

section \<open>The statements of the tools of a reply\<close>

locale turn_writes = turn_base +
  assumes on_undo: "E s \<Longrightarrow> J (rolled s)"
    and on_create: "J s \<Longrightarrow> create_tool_call tmp sid mid name args tcid pid s = (Inr (), s') \<Longrightarrow> J s'"
    and on_complete: "J s \<Longrightarrow> complete_tool_call tmp tcid st res s = (Inr b, s') \<Longrightarrow> J s'"
    and on_site: "J s \<Longrightarrow> site_execute (ce_tool env) now name args uid ext fs (ch_db s) = (Inr ex, d) \<Longrightarrow> J (s\<lparr>ch_db := d\<rparr>)"
    and on_image_debit: "J s \<Longrightarrow> own tcid \<Longrightarrow>
       consume uid (image_credits_cost (ce_cfg env)) (str_uuid tcid) meta fs (ch_db s) = (Inr w, d) \<Longrightarrow> J (s\<lparr>ch_db := d\<rparr>)"
    and on_image: "J s \<Longrightarrow> fits uid tmp c \<Longrightarrow>
       insert_generated_image env c tc content ct prompt (ch_db s) = (Inr tcid, d) \<Longrightarrow> J (s\<lparr>ch_db := d\<rparr>)"
begin

lemma keeps_create: "fits uid tmp c \<Longrightarrow> keeps J E (\<lambda>_. True) (create_tool_call (tx_tmp c) sid mid name args tcid pid)"
  unfolding fits_def by (rule keepsI) (simp add: on_create, metis on_fail repository_fails(2))

lemma keeps_complete: "fits uid tmp c \<Longrightarrow> keeps J E (\<lambda>_. True) (complete_tool_call (tx_tmp c) tcid st res)"
  unfolding fits_def by (rule keepsI) (simp add: on_complete, metis on_fail repository_fails(3))

lemma keeps_outcome:
  assumes "fits uid tmp c"
  shows "keeps J E (\<lambda>_. True) (persist_outcome c tcid name pid ex extra acc)"
  unfolding persist_outcome_def Let_def using assms
  by (auto intro!: keeps_bind keeps_ret keeps_complete keeps_step keeps_audit)

lemma keeps_global:
  assumes "fits uid tmp c"
  shows "keeps J E (\<lambda>_. True) (execute_global_tool env c tcid name args pid acc)"
  unfolding execute_global_tool_def
  by (rule keeps_get) (auto split: sum.split intro!: keeps_raise keeps_outcome[OF assms])

lemma keeps_site:
  assumes "fits uid tmp c"
  shows "keeps J E (\<lambda>_. True) (execute_server_side_tool env c ext tcid name args pid acc)"
  unfolding execute_server_side_tool_def
  by (auto intro!: keeps_get keeps_bind keeps_on_db keeps_outcome[OF assms] simp: fits_user[OF assms] intro: on_site)

lemma J_rolled: "J s \<Longrightarrow> J (rolled s)"
  by (rule on_undo) (auto intro: on_fail)

text \<open>An image the balance does not cover is rolled back to the last commit.\<close>

lemma keeps_pay_or_rollback:
  assumes "\<And>s x d. J s \<Longrightarrow> m (ch_db s) = (Inr x, d) \<Longrightarrow> J (s\<lparr>ch_db := d\<rparr>)"
  shows "keeps J E (\<lambda>_. True) (catch_act e (bind_act (on_db m) (\<lambda>_. ret True)) (bind_act rollback (\<lambda>_. ret False)))"
  by (rule keepsI)
    (auto simp: catch_act_def bind_act_def on_db_def rollback_def rolled_def[symmetric] split: prod.splits sum.splits if_splits
      intro: assms J_rolled on_fail)

lemma keeps_image:
  assumes "fits uid tmp c" "own tcid"
  shows "keeps J E (\<lambda>(b, _). blocked_answer b)
    (execute_image_generate_tool env c tcid args pid pre acc)"
  unfolding execute_image_generate_tool_def
  by (auto split: sum.split prod.split intro!: keeps_bind keeps_ret keeps_outcome[OF assms(1)] keeps_pay_or_rollback keeps_on_db
      intro: on_image_debit[OF _ assms(2)] on_image[OF _ assms(1)] simp: assms(2) fits_user[OF assms(1)])

lemma keeps_image_block:
  assumes "fits uid tmp c" "own tcid"
  shows "keeps J E (\<lambda>(b, _). blocked_answer b)
    (bind_act (execute_image_generate_tool env c tcid args pid pre acc) (\<lambda>(b, acc'). ret (b, acc', outs)))"
  by (rule keeps_bind_val[OF keeps_image[OF assms] ]) (auto intro: keeps_end)

lemma keeps_block:
  assumes "fits uid tmp c"
  shows "keeps J E (\<lambda>(b, _). blocked_answer b) (handle_block env c ext pre tu acc outs)"
  unfolding handle_block_def
  by (intro keeps_cases keeps_bind_val[OF keeps_fresh] keeps_bind[OF keeps_create] keeps_bind[OF keeps_audit]
      keeps_image_block keeps_bind[OF keeps_global] keeps_bind[OF keeps_site] keeps_end assms) simp_all

lemma keeps_blocks:
  assumes "fits uid tmp c"
  shows "keeps J E (\<lambda>(b, _). blocked_answer b) (handle_blocks env c ext pre tus acc outs)"
proof (induction tus arbitrary: acc outs)
  case Nil
  then show ?case by (auto intro: keeps_end)
next
  case (Cons tu tus)
  show ?case unfolding handle_blocks.simps
    by (rule keeps_bind_val[OF keeps_block[OF assms] ]) (auto split: option.split intro!: keeps_end Cons.IH)
qed

lemma keeps_tool_use:
  assumes "fits uid tmp c"
  shows "keeps J E (\<lambda>(x, _). open_outcome x) (handle_tool_use env c r acc)"
proof -
  have p: "keeps J E (\<lambda>_. True) (external_project_id c)"
    unfolding external_project_id_def by (intro keeps_cases keeps_end) simp_all
  have "keeps J E (\<lambda>_. True) (if tx_project c \<noteq> None then bind_act (external_project_id c) (\<lambda>p. ret (Some p)) else ret None)"
    by (intro keeps_cases keeps_bind[OF p] keeps_end) simp_all
  then show ?thesis
    unfolding handle_tool_use_def
    by (intro keeps_cases keeps_bind[OF keeps_step[OF assms] ] keeps_end)
      (auto intro!: p keeps_bind keeps_bind_val[OF keeps_blocks[OF assms] ] keeps_end split: option.split simp del: bind_ret)
qed

end

section \<open>The loop of provider calls\<close>

locale turn_loop = turn_writes +
  assumes on_commit: "J s \<Longrightarrow> J (s\<lparr>ch_saved := ch_db s\<rparr>)"
    and on_call: "J s \<Longrightarrow> ch_saved s = ch_db s \<Longrightarrow> J (snd (call_llm env call s))"
    and on_expire: "J s \<Longrightarrow> mark_expired uid (ch_db s) = (Inr (), d) \<Longrightarrow> J (s\<lparr>ch_db := d\<rparr>)"
begin

lemma keeps_commit: "keeps J E (\<lambda>_. True) commit"
  by (rule keepsI) (auto simp: commit_def on_commit)

text \<open>The database is committed when a provider is called.\<close>

lemma ends_call:
  assumes "\<And>reply. ends J E Q F (f reply)"
  shows "ends J E Q F (bind_act commit (\<lambda>_. bind_act (call_llm env call) f))"
proof -
  have eq: "bind_act commit (\<lambda>_. bind_act (call_llm env call) f) s
      = f (create_message env (length (ch_sent s)) call) (snd (call_llm env call (s\<lparr>ch_saved := ch_db s\<rparr>)))" for s
    by (simp add: commit_def call_llm_def bind_act_def Let_def)
  have J: "J (snd (call_llm env call (s\<lparr>ch_saved := ch_db s\<rparr>)))" if "J s" for s
    using on_call[OF on_commit[OF that] ] by simp
  show ?thesis
    by (rule endsI) (metis eq J ends_Inr[OF assms], metis eq J ends_Inl[OF assms])
qed

lemma keeps_max_tokens: "fits uid tmp c \<Longrightarrow> keeps J E (\<lambda>out. co_status out \<noteq> OutAssistant) (handle_max_tokens c r acc)"
  unfolding handle_max_tokens_def
  by (intro keeps_bind[OF keeps_step] keeps_bind[OF keeps_audit] keeps_bind[OF keeps_commit] keeps_end) simp_all

lemma keeps_key_rejected: "fits uid tmp c \<Longrightarrow> keeps J E (\<lambda>out. co_status out \<noteq> OutAssistant) (key_rejected c g)"
  unfolding key_rejected_def
  by (intro keeps_cases keeps_bind[OF keeps_on_db] keeps_bind[OF keeps_commit] keeps_end) (auto simp: fits_user intro: on_expire)

lemma keeps_exceeded: "fits uid tmp c \<Longrightarrow> keeps J E (\<lambda>out. co_status out \<noteq> OutAssistant) (rounds_exceeded env c)"
  unfolding rounds_exceeded_def
  by (intro keeps_bind[OF keeps_audit] keeps_bind[OF keeps_commit] keeps_end)

text \<open>Every run of the loop ends in the final step of an answer, or keeps the fact and gives no answer.\<close>

lemma rounds_end:
  assumes "fits uid tmp c"
    and fin: "\<And>s lr acc r s'. J s \<Longrightarrow> finalize_assistant c (gp_billing g) lr acc s = (r, s') \<Longrightarrow> F r s'"
  shows "ends J E (\<lambda>out. co_status out \<noteq> OutAssistant) F (llm_rounds env c g n att acc)"
proof (induction n arbitrary: att acc)
  case 0
  show ?case by (simp add: ends_keeps[OF keeps_exceeded] assms(1))
next
  case (Suc n)
  have final: "ends J E (\<lambda>out. co_status out \<noteq> OutAssistant) F (finalize_assistant c (gp_billing g) lr acc)" for lr acc
    unfolding ends_def using fin by blast
  have turn: "ends J E (\<lambda>out. co_status out \<noteq> OutAssistant) F
      (bind_act (handle_tool_use env c lr acc) (\<lambda>(outcome, acc'). case outcome of
           TurnBlocked out \<Rightarrow> ret out
         | TurnClient out \<Rightarrow> bind_act commit (\<lambda>_. ret out)
         | TurnContinue \<Rightarrow> bind_act commit (\<lambda>_. llm_rounds env c g n None acc')))" for lr acc
    by (rule ends_bind_val[OF keeps_tool_use[OF assms(1)] ])
      (auto split: turn_outcome.split intro!: ends_bind[OF keeps_commit] Suc.IH ends_keeps[OF keeps_ret] ends_keeps[OF keeps_Pair])
  show ?case unfolding llm_rounds.simps
    by (intro ends_get ends_call)
      (auto split: sum.split llm_failure.split intro!: turn final ends_keeps[OF keeps_max_tokens[OF assms(1)] ]
        ends_keeps[OF keeps_key_rejected[OF assms(1)] ] ends_keeps[OF keeps_raise] ends_keeps[OF keeps_fail])
qed

lemma generate_end:
  assumes "fits uid tmp c"
    and "\<And>s lr acc r s'. J s \<Longrightarrow> finalize_assistant c plan lr acc s = (r, s') \<Longrightarrow> F r s'"
  shows "ends J E (\<lambda>out. co_status out \<noteq> OutAssistant) F (generate_loop env c m plan keys system att model dm)"
  unfolding generate_loop_def Let_def using assms
  by (auto split: prod.split option.split intro!: rounds_end ends_keeps[OF keeps_raise] ends_keeps[OF keeps_fail]
      ends_keeps[OF keeps_bind[OF keeps_commit] ] keeps_ret keeps_Pair)

end

text \<open>The loop commits first, so what it is started on may as well be committed.\<close>

lemma rounds_commit_first:
  "llm_rounds env c g (Suc n) att acc s = llm_rounds env c g (Suc n) att acc (s\<lparr>ch_saved := ch_db s\<rparr>)"
  by (simp add: bind_act_def commit_def build_messages_def list_steps_def)

section \<open>The whole of a turn\<close>

locale billed_turn = turn_loop +
  assumes on_debit: "J s \<Longrightarrow> consume uid 1 (str_uuid turn) meta fs (ch_db s) = (Inr w, d) \<Longrightarrow> J (s\<lparr>ch_db := d\<rparr>)"
    and on_trial: "J s \<Longrightarrow> mark_trial_used uid (ch_db s) = (Inr b, d) \<Longrightarrow> J (s\<lparr>ch_db := d\<rparr>)"
    and on_touch: "\<not> tmp \<Longrightarrow> J s \<Longrightarrow> touch_session sid (ch_db s) = (Inr (), d) \<Longrightarrow> J (s\<lparr>ch_db := d\<rparr>)"
    and on_sweep: "J s \<Longrightarrow> J (s\<lparr>ch_db := (ch_db s)\<lparr>generated_images := filter P (generated_images (ch_db s))\<rparr>\<rparr>)"
begin

lemma keeps_debit:
  assumes "fits uid tmp c"
  shows "keeps J E (\<lambda>_. True) (catch_act InsufficientCreditsError (bind_act (debit_turn c us) (\<lambda>_. ret True)) (bind_act rollback (\<lambda>_. ret False)))"
proof -
  have "bind_act (debit_turn c us) (\<lambda>_. ret True) = bind_act (on_db (consume uid 1 (str_uuid (tx_turn c))
     (JObj [(''usage'', us), (''model'', payload_get us ''model'')]) (fk_session_id c))) (\<lambda>_. ret True)"
    by (simp only: debit_turn_def bind_act_assoc bind_ret fits_user[OF assms])
  then show ?thesis by (simp only:) (rule keeps_pay_or_rollback, rule on_debit)
qed

lemma keeps_finalize:
  assumes "fits uid tmp c"
  shows "keeps J E (\<lambda>_. True) (finalize_assistant c plan lr acc)"
proof -
  have tmp: "tx_tmp c = tmp" using assms by (simp add: fits_def)
  show ?thesis unfolding finalize_assistant_def
    by (intro keeps_bind[OF keeps_step[OF assms] ] keeps_bind[OF keeps_audit[OF assms] ] keeps_bind[OF keeps_commit] keeps_bind
        keeps_cases keeps_debit[OF assms] keeps_on_db keeps_end)
      (auto simp: fits_user[OF assms] tmp intro: on_trial on_touch)
qed

lemma keeps_generate:
  assumes "fits uid tmp c"
  shows "keeps J E (\<lambda>_. True) (generate_loop env c m plan keys system att model dm)"
proof -
  let ?F = "\<lambda>r s'. case r of Inl e \<Rightarrow> E s' | Inr a \<Rightarrow> J s'"
  have F: "?F r s'" if "J s" "finalize_assistant c plan lr acc s = (r, s')" for s lr acc r s'
    using that keeps_Inr[OF keeps_finalize[OF assms] ] keeps_Inl[OF keeps_finalize[OF assms] ] by (cases r) auto
  have gen: "ends J E (\<lambda>out. co_status out \<noteq> OutAssistant) ?F (generate_loop env c m plan keys system att model dm)"
    by (rule generate_end[OF assms F])
  show ?thesis by (rule keepsI) (use ends_Inr[OF gen] ends_Inl[OF gen] in auto)
qed

lemma keeps_sweep: "keeps J E (\<lambda>_. True) (sweep_if_images env out)"
proof -
  have "keeps J E (\<lambda>_. True) (upd_st (\<lambda>s. s\<lparr>ch_db := (ch_db s)\<lparr>generated_images := filter (P s) (generated_images (ch_db s))\<rparr>\<rparr>))" for P
    by (rule keepsI) (auto intro: on_sweep)
  then show ?thesis unfolding sweep_if_images_def maybe_sweep_expired_images_def Let_def
    by (intro keeps_cases keeps_bind keeps_commit keeps_end) simp_all
qed

lemma keeps_answer:
  assumes "fits uid tmp c"
  shows "keeps J E (\<lambda>_. True) (answer_turn env c sess prompt)"
proof -
  have "keeps J E (\<lambda>_. True) (bind_act (generate_loop env c m plan keys system att model dm) (\<lambda>out. bind_act (sweep_if_images env out) (\<lambda>_. ret out)))"
    for m plan keys system att model dm
    by (intro keeps_bind[OF keeps_generate[OF assms] ] keeps_bind[OF keeps_sweep] keeps_ret) simp
  then show ?thesis unfolding answer_turn_def Let_def
    by (intro keeps_bind[OF keeps_evaluate[OF assms] ])
      (auto split: prod.split intro!: keeps_get keeps_bind[OF keeps_api_key] keeps_end)
qed

end

section \<open>The whole request\<close>

locale request_fact = request_opening + billed_turn
begin

lemma keeps_run:
  assumes rq: "rq_user rq = uid" "rq_temporary rq = tmp"
  shows "keeps J E (\<lambda>_. True) (run env rq)"
proof -
  have fit: "fits uid tmp (ctx_of (rq_user rq) turn (rq_temporary rq) sess)" for turn sess
    by (simp add: fits_def ctx_of_def rq)
  have syn: "keeps J E (\<lambda>x. x = None \<longleftrightarrow> \<not> tmp) (if rq_temporary rq
       then bind_act (ephemeral_init (rq_history rq) (active_provider (ce_cfg env))) (\<lambda>sid. ret (Some sid)) else ret None)"
    by (intro keeps_if keeps_bind[OF keeps_ephemeral] keeps_ret) (use rq in auto)
  have opened: "keeps J E (\<lambda>_. True) (run_opened env rq turn sess is_new)" if "tmp \<longrightarrow> is_new" for turn sess is_new
    unfolding run_opened_def Let_def
    by (intro keeps_bind[OF keeps_edit[OF that] ] keeps_get keeps_cases keeps_bind[OF keeps_step[OF fit] ] keeps_answer[OF fit] keeps_end)
  show ?thesis unfolding run_def run_turn_def Let_def
    by (intro keeps_bind_val[OF keeps_fresh] keeps_bind_val[OF syn] keeps_get keeps_cases keeps_end
        keeps_bind_val[OF keeps_request_session] opened) (use rq in auto)
qed

lemma keeps_results:
  assumes "fits uid tmp c"
  shows "keeps J E (\<lambda>_. True) (apply_results c rs)"
proof (induction rs)
  case Nil
  show ?case by (auto intro: keeps_end)
next
  case (Cons r rs)
  obtain i tc where r: "r = (i, tc)" by (cases r)
  have "keeps J E (\<lambda>_. True) (apply_tool_result c tc x e)" for x e
    unfolding apply_tool_result_def Let_def
    by (intro keeps_bind[OF keeps_complete[OF assms] ] keeps_bind[OF keeps_step[OF assms] ] keeps_bind keeps_cases
        keeps_audit[OF assms] keeps_end) simp_all
  then show ?case unfolding r apply_results.simps
    by (intro keeps_bind keeps_cases Cons.IH keeps_end) simp_all
qed

lemma keeps_tool_result:
  assumes "\<not> tmp"
  shows "keeps J E (\<lambda>_. True) (tool_result env uid sid results)"
proof -
  have fit: "fits uid tmp (ctx_of uid turn False sess)" for turn sess
    using assms by (simp add: fits_def ctx_of_def)
  show ?thesis unfolding tool_result_def Let_def
    by (intro keeps_cases keeps_get keeps_end)
      (auto split: option.split sum.split prod.split
        intro!: keeps_bind[OF keeps_results[OF fit] ] keeps_get keeps_bind[OF keeps_commit] keeps_answer[OF fit] keeps_end)
qed

end

end
