(* ===== verification/Turns.thy ===== *)
theory Turns
  imports TurnRules SiteStore Histories
begin

text \<open>
  What a chat turn does to the tables: which statements leave the money alone, what the site tools may
  touch, and the interpretations of the turn rules on the ledger invariant, on the unpaid state of a turn
  and on the tables of the chats.
\<close>

section \<open>Frames\<close>

text \<open>The site tools and the audit log change projects, site files and audit rows only.\<close>

definition site_erased :: "db \<Rightarrow> db" where
  "site_erased d = d\<lparr>db_next := 0, projects := [], site_files := [], audit_logs := []\<rparr>"

definition calm :: "db \<Rightarrow> db \<Rightarrow> bool" where
  "calm d d' \<longleftrightarrow> db_next d \<le> db_next d' \<and> site_erased d' = site_erased d"

interpretation cm: preordered calm
  by unfold_locales (auto simp: calm_def)

lemma calm_upd:
  "calm d (d\<lparr>audit_logs := as\<rparr>)" "calm d (d\<lparr>site_files := fs\<rparr>)" "calm d (d\<lparr>db_next := Suc (db_next d)\<rparr>)"
  "calm d (d\<lparr>db_next := Suc (db_next d), projects := ps\<rparr>)"
  by (simp_all add: calm_def site_erased_def)

lemma calm_sel:
  assumes "calm d d'"
  shows "wallets d' = wallets d" "ledger d' = ledger d" "users d' = users d" "db_gen d' = db_gen d"
    "sessions d' = sessions d" "steps d' = steps d" "next_seq d' = next_seq d" "tool_calls d' = tool_calls d"
    "generated_images d' = generated_images d" "byok_keys d' = byok_keys d" "subscriptions d' = subscriptions d"
    "db_now d' = db_now d" "db_next d \<le> db_next d'" "workspaces d' = workspaces d" "workspace_files d' = workspace_files d"
    "preferences d' = preferences d"
proof -
  have "wallets (site_erased d') = wallets (site_erased d)" "ledger (site_erased d') = ledger (site_erased d)"
    "users (site_erased d') = users (site_erased d)" "db_gen (site_erased d') = db_gen (site_erased d)"
    "sessions (site_erased d') = sessions (site_erased d)" "steps (site_erased d') = steps (site_erased d)"
    "next_seq (site_erased d') = next_seq (site_erased d)" "tool_calls (site_erased d') = tool_calls (site_erased d)"
    "generated_images (site_erased d') = generated_images (site_erased d)"
    "byok_keys (site_erased d') = byok_keys (site_erased d)" "subscriptions (site_erased d') = subscriptions (site_erased d)"
    "db_now (site_erased d') = db_now (site_erased d)" "workspaces (site_erased d') = workspaces (site_erased d)"
    "workspace_files (site_erased d') = workspace_files (site_erased d)"
    "preferences (site_erased d') = preferences (site_erased d)"
    using assms by (simp_all add: calm_def)
  then show "wallets d' = wallets d" "ledger d' = ledger d" "users d' = users d" "db_gen d' = db_gen d"
    "sessions d' = sessions d" "steps d' = steps d" "next_seq d' = next_seq d" "tool_calls d' = tool_calls d"
    "generated_images d' = generated_images d" "byok_keys d' = byok_keys d" "subscriptions d' = subscriptions d"
    "db_now d' = db_now d" "workspaces d' = workspaces d" "workspace_files d' = workspace_files d"
    "preferences d' = preferences d"
    by (simp_all add: site_erased_def)
  show "db_next d \<le> db_next d'" using assms by (simp add: calm_def)
qed

lemma calm_audit: "moves calm (audit_record uid sid ev pl)"
  by (rule movesI) (auto simp: audit_record_def intro: calm_upd cm.le_refl split: if_splits)

lemma calm_lift: "moves calm m \<Longrightarrow> moves calm (lift_site m)"
  by (auto simp: moves_def lift_site_def split: prod.splits sum.splits)

lemma calm_insert_project: "moves calm (insert_project uid ext)"
  by (rule movesI) (auto simp: insert_project_def intro: calm_upd cm.le_refl split: if_splits)

lemma calm_put_file: "calm d (put_file pid p content ct d)"
  by (auto simp: put_file_def intro: calm_upd)

lemma calm_write_file: "moves calm (write_file env pid path content ct)"
proof (rule movesI)
  fix d r d' assume "write_file env pid path content ct d = (r, d')"
  then show "calm d d'"
    by (cases r) (auto dest: write_file_Inl intro: cm.le_refl calm_put_file elim!: write_file_Inr)
qed

lemma calm_delete_file: "moves calm (delete_file pid path)"
proof (rule movesI)
  fix d r d' assume "delete_file pid path d = (r, d')"
  then show "calm d d'"
    by (cases r) (auto dest: delete_file_Inl intro: cm.le_refl calm_upd elim!: delete_file_Inr)
qed

lemma calm_get: "(\<And>d. moves calm (f d)) \<Longrightarrow> moves calm (bind_act get_st f)"
  by (rule cm.moves_bind[OF cm.moves_get])

lemma calm_site_write: "moves calm (site_write_file env args uid ext sid)"
  unfolding site_write_file_def resolve_project_def
  by (auto split: option.split
      intro!: cm.moves_basic calm_get calm_insert_project calm_write_file calm_lift calm_audit)

lemma calm_site_preview: "moves calm (site_preview env now args uid ext)"
  by (rule movesI) (auto simp: site_preview_def Let_def intro: cm.le_refl split: option.splits if_splits)

lemma calm_site_list: "moves calm (site_list env uid ext)"
  by (rule movesI) (auto simp: site_list_def Let_def intro: cm.le_refl split: option.splits prod.splits)

lemma calm_site_read: "moves calm (site_read env args uid ext)"
  by (rule movesI) (auto simp: site_read_def Let_def intro: cm.le_refl split: option.splits prod.splits)

lemma calm_site_delete: "moves calm (site_delete args uid ext sid)"
  unfolding site_delete_def
  by (auto split: option.split prod.split intro!: cm.moves_basic calm_get calm_delete_file calm_lift calm_audit)

lemma calm_site: "site_execute env now name args uid ext sid d = (r, d') \<Longrightarrow> calm d d'"
  using movesD[OF calm_site_write] movesD[OF calm_site_preview] movesD[OF calm_site_list]
    movesD[OF calm_site_read] movesD[OF calm_site_delete] movesD[OF cm.moves_ret]
  by (auto simp: site_execute_def intro: cm.le_refl split: if_splits prod.splits sum.splits site_exc.splits)

text \<open>The statements that move no money; an account never disappears.\<close>

definition quiet :: "db \<Rightarrow> db \<Rightarrow> bool" where
  "quiet d d' \<longleftrightarrow> wallets d' = wallets d \<and> ledger d' = ledger d \<and> db_gen d' = db_gen d \<and> db_next d \<le> db_next d'
     \<and> (\<forall>u. users d u \<noteq> None \<longrightarrow> users d' u \<noteq> None)"

interpretation qt: preordered quiet
  by unfold_locales (auto simp: quiet_def)

lemma quiet_calm: "calm d d' \<Longrightarrow> quiet d d'"
  by (simp add: quiet_def calm_sel)

lemma quiet_audit: "audit_record uid sid ev pl d = (r, d') \<Longrightarrow> quiet d d'"
  using movesD[OF calm_audit] by (blast intro: quiet_calm)

lemma quiet_fresh: "fresh_uuid d = (r, d') \<Longrightarrow> quiet d d'"
  by (auto simp: fresh_uuid_def quiet_def)

lemma quiet_add_step: "db_add_step sid mid ro pl us d = (r, d') \<Longrightarrow> quiet d d'"
  by (auto simp: db_add_step_def Let_def quiet_def split: if_splits)

lemma quiet_create: "db_create_tool_call sid mid name args tcid pid d = (r, d') \<Longrightarrow> quiet d d'"
  by (auto simp: db_create_tool_call_def quiet_def split: if_splits)

lemma quiet_complete: "db_complete_tool_call tcid st res d = (r, d') \<Longrightarrow> quiet d d'"
  by (auto simp: db_complete_tool_call_def quiet_def split: if_splits option.splits)

lemma quiet_image: "insert_generated_image env c tcid content ct prompt d = (r, d') \<Longrightarrow> quiet d d'"
  by (auto simp: insert_generated_image_def Let_def quiet_def split: if_splits option.splits)

lemma quiet_trial: "mark_trial_used uid d = (r, d') \<Longrightarrow> quiet d d'"
  by (auto simp: mark_trial_used_def quiet_def split: if_splits option.splits)

lemma quiet_touch: "touch_session sid d = (r, d') \<Longrightarrow> quiet d d'"
  by (auto simp: touch_session_def quiet_def)

lemma quiet_expire: "mark_expired uid d = (Inr x, d') \<Longrightarrow> quiet d d'"
  by (auto simp: mark_expired_def demote_def byok_put_Inr quiet_def audit_record_frame
      elim!: bind_act_Inr_E dest!: audit_record_Inr split: option.splits)

lemma quiet_sweep: "quiet d (d\<lparr>generated_images := gs\<rparr>)"
  by (simp add: quiet_def)

lemma quiet_session: "insert_session uid n d = (r, d') \<Longrightarrow> quiet d d'"
  by (auto simp: insert_session_def Let_def quiet_def split: if_splits)

lemma quiet_truncate: "truncate_from_message_step sid mid d = (r, d') \<Longrightarrow> quiet d d'"
  by (auto simp: truncate_from_message_step_def Let_def quiet_def split: option.splits)

text \<open>
  Changes on behalf of one account: no money moves, and the profile, subscription, key, preferences and
  workspaces of every other account that exists stay as they are. The identifiers of workspaces are the
  primary key of their table.
\<close>

definition workspace_rows :: "uuid \<Rightarrow> db \<Rightarrow> workspace_row list" where
  "workspace_rows v d = filter (\<lambda>w. ws_user w = v) (workspaces d)"

definition file_rows :: "uuid \<Rightarrow> db \<Rightarrow> workspace_file_row list" where
  "file_rows v d = filter (\<lambda>f. wf_workspace f \<in> ws_id ` set (workspace_rows v d)) (workspace_files d)"

definition same_account :: "uuid \<Rightarrow> db \<Rightarrow> db \<Rightarrow> bool" where
  "same_account v d d' \<longleftrightarrow> users d' v = users d v \<and> subscriptions d' v = subscriptions d v \<and> byok_keys d' v = byok_keys d v
     \<and> preferences d' v = preferences d v \<and> workspace_rows v d' = workspace_rows v d \<and> file_rows v d' = file_rows v d"

definition mine :: "uuid \<Rightarrow> db \<Rightarrow> db \<Rightarrow> bool" where
  "mine uid d d' \<longleftrightarrow> quiet d d' \<and> (distinct (map ws_id (workspaces d)) \<longrightarrow> distinct (map ws_id (workspaces d'))
     \<and> (\<forall>v. v \<noteq> uid \<longrightarrow> users d v \<noteq> None \<longrightarrow> same_account v d d'))"

lemma mine_quiet: "mine uid d d' \<Longrightarrow> quiet d d'"
  by (simp add: mine_def)

interpretation mn: preordered "mine uid" for uid
proof unfold_locales
  show "mine uid d d" for d by (simp add: mine_def same_account_def qt.le_refl)
next
  fix a b c assume ab: "mine uid a b" and bc: "mine uid b c"
  have "users b v \<noteq> None" if "users a v \<noteq> None" for v using ab that by (auto simp: mine_def quiet_def)
  with ab bc show "mine uid a c" unfolding mine_def same_account_def by (auto intro: qt.le_trans)
qed

lemma mineI:
  assumes "quiet d d'" "workspaces d' = workspaces d" "workspace_files d' = workspace_files d"
    and "\<And>v. v \<noteq> uid \<Longrightarrow> users d v \<noteq> None \<Longrightarrow> users d' v = users d v \<and> subscriptions d' v = subscriptions d v
      \<and> byok_keys d' v = byok_keys d v \<and> preferences d' v = preferences d v"
  shows "mine uid d d'"
  using assms by (simp add: mine_def same_account_def workspace_rows_def file_rows_def)

lemma mine_calm: "calm d d' \<Longrightarrow> mine uid d d'"
  by (rule mineI) (simp_all add: quiet_calm calm_sel)

lemma mine_audit: "audit_record u sid ev pl d = (r, d') \<Longrightarrow> mine uid d d'"
  using movesD[OF calm_audit] by (blast intro: mine_calm)

lemma mine_fresh: "fresh_uuid d = (r, d') \<Longrightarrow> mine uid d d'"
  by (rule mineI[OF quiet_fresh]) (auto simp: fresh_uuid_def)

lemma mine_add_step: "db_add_step sid mid ro pl us d = (r, d') \<Longrightarrow> mine uid d d'"
  by (rule mineI[OF quiet_add_step]) (auto simp: db_add_step_def Let_def split: if_splits)

lemma mine_create: "db_create_tool_call sid mid name args tcid pid d = (r, d') \<Longrightarrow> mine uid d d'"
  by (rule mineI[OF quiet_create]) (auto simp: db_create_tool_call_def split: if_splits)

lemma mine_complete: "db_complete_tool_call tcid st res d = (r, d') \<Longrightarrow> mine uid d d'"
  by (rule mineI[OF quiet_complete]) (auto simp: db_complete_tool_call_def split: if_splits option.splits)

lemma mine_image: "insert_generated_image env c tcid content ct prompt d = (r, d') \<Longrightarrow> mine uid d d'"
  by (rule mineI[OF quiet_image]) (auto simp: insert_generated_image_def Let_def split: if_splits option.splits)

lemma mine_trial: "mark_trial_used uid d = (r, d') \<Longrightarrow> mine uid d d'"
  by (rule mineI[OF quiet_trial]) (auto simp: mark_trial_used_def split: if_splits option.splits)

lemma mine_touch: "touch_session sid d = (r, d') \<Longrightarrow> mine uid d d'"
  by (rule mineI[OF quiet_touch]) (auto simp: touch_session_def)

lemma mine_expire: "mark_expired uid d = (Inr x, d') \<Longrightarrow> mine uid d d'"
  by (rule mineI[OF quiet_expire]) (auto simp: mark_expired_def demote_def byok_put_Inr
      elim!: bind_act_Inr_E dest!: mine_audit audit_record_Inr split: option.splits)

lemma mine_sweep: "mine uid d (d\<lparr>generated_images := gs\<rparr>)"
  by (rule mineI[OF quiet_sweep]) simp_all

lemma mine_session: "insert_session u n d = (r, d') \<Longrightarrow> mine uid d d'"
  by (rule mineI[OF quiet_session]) (auto simp: insert_session_def Let_def split: if_splits)

lemma mine_truncate: "truncate_from_message_step sid mid d = (r, d') \<Longrightarrow> mine uid d d'"
  by (rule mineI[OF quiet_truncate]) (auto simp: truncate_from_message_step_def Let_def split: option.splits)

text \<open>The repository either leaves the database alone or makes such a change.\<close>

lemma repository_db:
  "add_step tmp sid mid ro sp us s = (Inr i, s') \<Longrightarrow> mine uid (ch_db s) (ch_db s') \<and> ch_saved s' = ch_saved s \<and> ch_sent s' = ch_sent s"
  "create_tool_call tmp sid mid name args tcid pid s = (Inr x, s') \<Longrightarrow> mine uid (ch_db s) (ch_db s') \<and> ch_saved s' = ch_saved s \<and> ch_sent s' = ch_sent s"
  "complete_tool_call tmp tcid st res s = (Inr b, s') \<Longrightarrow> mine uid (ch_db s) (ch_db s') \<and> ch_saved s' = ch_saved s \<and> ch_sent s' = ch_sent s"
  by (auto simp: add_step_def create_tool_call_def complete_tool_call_def mem_complete_def on_db_Inr
      intro: mn.le_refl mine_add_step mine_create mine_complete split: if_splits option.splits)

section \<open>Facts about the money\<close>

text \<open>A fact about a database that changes for the account, image debits and the other requests of the time keep.\<close>

locale ledger_fact =
  fixes I :: "db \<Rightarrow> bool" and own :: "uuid \<Rightarrow> bool" and env :: chat_env and uid :: uuid
  assumes I_mine: "I d \<Longrightarrow> mine uid d d' \<Longrightarrow> I d'"
    and I_fresh: "I d \<Longrightarrow> own (db_gen d (db_next d))"
    and I_image: "I d \<Longrightarrow> own tcid \<Longrightarrow>
      consume uid (image_credits_cost (ce_cfg env)) (str_uuid tcid) meta fs d = (Inr w, d') \<Longrightarrow> I d'"

definition relies :: "(db \<Rightarrow> bool) \<Rightarrow> chat_env \<Rightarrow> bool" where
  "relies I env \<longleftrightarrow> (\<forall>k d. I d \<longrightarrow> I (ce_others env k d))"

definition both :: "(db \<Rightarrow> bool) \<Rightarrow> chat_env \<Rightarrow> chat_st \<Rightarrow> bool" where
  "both I env s \<longleftrightarrow> (relies I env \<longrightarrow> I (ch_db s) \<and> I (ch_saved s))"

definition saved :: "(db \<Rightarrow> bool) \<Rightarrow> chat_env \<Rightarrow> chat_st \<Rightarrow> bool" where
  "saved I env s \<longleftrightarrow> (relies I env \<longrightarrow> I (ch_saved s))"

lemma both_fail: "both I env s \<Longrightarrow> ch_saved s' = ch_saved s \<and> ch_sent s' = ch_sent s \<Longrightarrow> saved I env s'"
  by (simp add: both_def saved_def)

lemma saved_undo: "saved I env s \<Longrightarrow> both I env (rolled s)"
  by (simp add: both_def saved_def)

lemma both_call: "both I env s \<Longrightarrow> ch_saved s = ch_db s \<Longrightarrow> both I env (snd (call_llm env call s))"
  by (auto simp: both_def relies_def call_llm_def Let_def)

lemma both_commit: "both I env s \<Longrightarrow> both I env (s\<lparr>ch_saved := ch_db s\<rparr>)"
  by (simp add: both_def)

lemma both_mine:
  assumes "both I env s" "\<And>d d'. I d \<Longrightarrow> mine u d d' \<Longrightarrow> I d'" "mine u (ch_db s) (ch_db s')" "ch_saved s' = ch_saved s"
  shows "both I env s'"
  using assms by (auto simp: both_def)

sublocale ledger_fact \<subseteq> turn: turn_loop "both I env" "saved I env" "\<lambda>i. relies I env \<longrightarrow> own i" env uid tmp for tmp
proof unfold_locales
  fix s d fs ev pl assume "both I env s" "audit_record uid fs ev pl (ch_db s) = (Inr (), d)"
  then show "both I env (s\<lparr>ch_db := d\<rparr>)" by (auto intro: both_mine[OF _ I_mine] dest!: mine_audit)
next
  fix s sid mid ro sp us fs s' assume "both I env s" "add_step tmp sid mid ro sp us s = (Inr fs, s')"
  then show "both I env s'" by (auto intro: both_mine[OF _ I_mine] dest!: repository_db)
next
  fix s sid mid name args tcid pid s'
  assume "both I env s" "create_tool_call tmp sid mid name args tcid pid s = (Inr (), s')"
  then show "both I env s'" by (auto intro: both_mine[OF _ I_mine] dest!: repository_db)
next
  fix s tcid st res b s' assume "both I env s" "complete_tool_call tmp tcid st res s = (Inr b, s')"
  then show "both I env s'" by (auto intro: both_mine[OF _ I_mine] dest!: repository_db)
next
  fix s tcid d assume a: "both I env s" "fresh_uuid (ch_db s) = (Inr tcid, d)"
  then have "both I env (s\<lparr>ch_db := d\<rparr>)" by (auto intro: both_mine[OF _ I_mine] dest!: mine_fresh)
  with a show "both I env (s\<lparr>ch_db := d\<rparr>) \<and> (relies I env \<longrightarrow> own tcid)"
    by (auto simp: both_def fresh_uuid_def dest: I_fresh)
next
  fix s now name args ext fs ex d
  assume "both I env s" "site_execute (ce_tool env) now name args uid ext fs (ch_db s) = (Inr ex, d)"
  then show "both I env (s\<lparr>ch_db := d\<rparr>)" by (auto intro: both_mine[OF _ I_mine] dest!: calm_site mine_calm)
next
  fix s tcid meta fs w d
  assume "both I env s" "relies I env \<longrightarrow> own tcid"
    "consume uid (image_credits_cost (ce_cfg env)) (str_uuid tcid) meta fs (ch_db s) = (Inr w, d)"
  then show "both I env (s\<lparr>ch_db := d\<rparr>)" by (auto simp: both_def intro: I_image)
next
  fix s c tc content ct prompt tcid d
  assume "both I env s" "insert_generated_image env c tc content ct prompt (ch_db s) = (Inr tcid, d)"
  then show "both I env (s\<lparr>ch_db := d\<rparr>)" by (auto intro: both_mine[OF _ I_mine] dest!: mine_image)
next
  fix s d assume "both I env s" "mark_expired uid (ch_db s) = (Inr (), d)"
  then show "both I env (s\<lparr>ch_db := d\<rparr>)" by (auto intro: both_mine[OF _ I_mine] dest!: mine_expire)
qed (auto intro: both_fail saved_undo both_commit both_call)

text \<open>With the debit of the turn as well, the fact survives every request.\<close>

locale ledger_invariant = ledger_fact +
  assumes I_debit: "I d \<Longrightarrow> consume uid 1 (str_uuid turn) meta fs d = (Inr w, d') \<Longrightarrow> I d'"

sublocale ledger_invariant \<subseteq> req: request_fact "both I env" "saved I env" "\<lambda>i. relies I env \<longrightarrow> own i" env uid tmp for tmp
proof unfold_locales
  fix s turn meta fs w d
  assume "both I env s" "consume uid 1 (str_uuid turn) meta fs (ch_db s) = (Inr w, d)"
  then show "both I env (s\<lparr>ch_db := d\<rparr>)" by (auto simp: both_def intro: I_debit)
next
  fix s b d assume "both I env s" "mark_trial_used uid (ch_db s) = (Inr b, d)"
  then show "both I env (s\<lparr>ch_db := d\<rparr>)" by (auto intro: both_mine[OF _ I_mine] dest!: mine_trial)
next
  fix s sid d assume "both I env s" "touch_session sid (ch_db s) = (Inr (), d)"
  then show "both I env (s\<lparr>ch_db := d\<rparr>)" by (auto intro: both_mine[OF _ I_mine] dest!: mine_touch)
next
  fix s P assume "both I env s"
  then show "both I env (s\<lparr>ch_db := (ch_db s)\<lparr>generated_images := filter P (generated_images (ch_db s))\<rparr>\<rparr>)"
    by (rule both_mine[OF _ I_mine]) (simp_all add: mine_sweep)
next
  fix s n row d assume "both I env s" "insert_session uid n (ch_db s) = (Inr row, d)"
  then show "both I env (s\<lparr>ch_db := d\<rparr>)" by (auto intro: both_mine[OF _ I_mine] dest!: mine_session)
next
  fix s sid mid gone d assume "both I env s" "truncate_from_message_step sid mid (ch_db s) = (Inr gone, d)"
  then show "both I env (s\<lparr>ch_db := d\<rparr>)" by (auto intro: both_mine[OF _ I_mine] dest!: mine_truncate)
next
  fix s seeded assume "both I env s"
  then show "both I env (s\<lparr>ch_mem_steps := seeded, ch_mem_calls := []\<rparr>)" by (simp add: both_def)
qed

subsection \<open>The ledger invariant\<close>

lemma wallet_inv_quiet: "wallet_inv d \<Longrightarrow> quiet d d' \<Longrightarrow> wallet_inv d'"
  by (rule wallet_inv_users[of d]) (simp_all add: quiet_def)

interpretation wlf: ledger_invariant wallet_inv "\<lambda>_. True" env uid for env uid
  by unfold_locales (auto intro: wallet_inv_quiet mine_quiet consume_keeps_inv)

subsection \<open>A turn that is not billed yet\<close>

definition unbilled :: "(nat \<Rightarrow> uuid) \<Rightarrow> nat \<Rightarrow> uuid \<Rightarrow> db \<Rightarrow> bool" where
  "unbilled g n uid d \<longleftrightarrow> (\<forall>i>n. g i \<noteq> g n) \<and> db_gen d = g \<and> n < db_next d \<and> ledger_entry d uid (str_uuid (g n)) = None"

lemma consume_other_key:
  assumes "consume uid amount key meta fs d = (Inr w, d')" "l \<noteq> key"
  shows "ledger_entry d' v l = ledger_entry d v l" "db_gen d' = db_gen d" "db_next d \<le> db_next d'"
proof -
  consider "fresh_outcome uid Debit amount meta key d w d'" | "replay_outcome uid Debit amount key d w d'"
    using consume_Inr[OF assms(1)] by blast
  then have "ledger_entry d' v l = ledger_entry d v l \<and> db_gen d' = db_gen d \<and> db_next d \<le> db_next d'"
  proof cases
    case 1
    then have "ledger_entry d' v l = ledger_entry d v l" using fresh_entry(3)[OF 1, of v l] assms(2) by blast
    with 1 show ?thesis by (auto simp: fresh_outcome_def posted_def)
  qed (auto simp: replay_outcome_def ledger_entry_def)
  then show "ledger_entry d' v l = ledger_entry d v l" "db_gen d' = db_gen d" "db_next d \<le> db_next d'" by auto
qed

lemma unbilled_quiet: "unbilled g n uid d \<Longrightarrow> quiet d d' \<Longrightarrow> unbilled g n uid d'"
  by (auto simp: unbilled_def quiet_def ledger_entry_def existing_tx_def)

interpretation unb: ledger_fact "unbilled g n uid" "\<lambda>i. i \<noteq> g n" env uid for g n env uid
proof unfold_locales
  fix d tcid meta fs w d'
  assume a: "unbilled g n uid d" "tcid \<noteq> g n"
    "consume uid (image_credits_cost (ce_cfg env)) (str_uuid tcid) meta fs d = (Inr w, d')"
  have "str_uuid (g n) \<noteq> str_uuid tcid" using a(2) by (metis str_uuid_inj)
  note other = consume_other_key[OF a(3) this]
  show "unbilled g n uid d'"
    using a(1) other(2) less_le_trans[OF _ other(3)] unfolding unbilled_def other(1) by blast
next
  fix d assume "unbilled g n uid d"
  then show "db_gen d (db_next d) \<noteq> g n" by (auto simp: unbilled_def)
qed (blast intro: unbilled_quiet mine_quiet)

end
