(* ===== verification/ChatBilling.thy ===== *)
theory ChatBilling
  imports Turns
begin

text \<open>
  The money of a chat request: the ledger invariant across a request and whatever runs beside it, and that
  a message is charged exactly once, when it is answered and the plan says so. The identifiers a request
  draws are those of \<^verbatim>\<open>db_gen\<close>; that of the turn is taken not to be drawn again, as random UUIDs are not.
\<close>

section \<open>From the request to its turn\<close>

text \<open>What opening a session may change: nothing a policy decision or the ledger reads.\<close>

definition opened :: "db \<Rightarrow> db \<Rightarrow> bool" where
  "opened d d' \<longleftrightarrow> wallets d' = wallets d \<and> ledger d' = ledger d \<and> users d' = users d \<and> subscriptions d' = subscriptions d
     \<and> byok_keys d' = byok_keys d \<and> db_now d' = db_now d \<and> db_gen d' = db_gen d \<and> db_next d \<le> db_next d'"

lemma opened_calm: "calm d d' \<Longrightarrow> opened d d'"
  by (simp add: opened_def calm_sel)

interpretation op: preordered opened
  by unfold_locales (auto simp: opened_def)

lemma opened_step: "add_step tmp sid mid ro sp us s = (Inr i, s') \<Longrightarrow>
    opened (ch_db s) (ch_db s') \<and> ch_saved s' = ch_saved s \<and> ch_sent s' = ch_sent s"
  by (auto simp: add_step_def on_db_Inr db_add_step_def Let_def opened_def split: if_splits)

lemma opened_audit: "audit_record uid sid ev pl d = (r, d') \<Longrightarrow> opened d d'"
  using movesD[OF calm_audit] by (blast intro: opened_calm)

lemma opened_fresh: "fresh_uuid d = (r, d') \<Longrightarrow> opened d d'"
  by (auto simp: fresh_uuid_def opened_def)

lemma opened_session: "insert_session uid n d = (r, d') \<Longrightarrow> opened d d'"
  by (auto simp: insert_session_def Let_def opened_def split: if_splits)

lemma opened_truncate: "truncate_from_message_step sid mid d = (r, d') \<Longrightarrow> opened d d'"
  by (auto simp: truncate_from_message_step_def Let_def opened_def split: option.splits)

definition begun :: "db \<Rightarrow> llm_call list \<Rightarrow> db \<Rightarrow> chat_st \<Rightarrow> bool" where
  "begun X Y B s \<longleftrightarrow> ch_saved s = X \<and> ch_sent s = Y \<and> opened B (ch_db s)"

definition untouched :: "db \<Rightarrow> llm_call list \<Rightarrow> chat_st \<Rightarrow> bool" where
  "untouched X Y s \<longleftrightarrow> ch_saved s = X \<and> ch_sent s = Y"

lemma begun_change:
  "begun X Y B s \<Longrightarrow> opened (ch_db s) (ch_db s') \<Longrightarrow> ch_saved s' = ch_saved s \<Longrightarrow> ch_sent s' = ch_sent s \<Longrightarrow> begun X Y B s'"
  by (auto simp: begun_def intro: op.le_trans)

interpretation opn: request_opening "begun X Y B" "untouched X Y" "\<lambda>_. True" env uid tmp for X Y B env uid tmp
proof unfold_locales
  fix s d fs ev pl assume "begun X Y B s" "audit_record uid fs ev pl (ch_db s) = (Inr (), d)"
  then show "begun X Y B (s\<lparr>ch_db := d\<rparr>)" by (auto intro: begun_change dest!: opened_audit)
next
  fix s sid mid ro sp us fs s' assume "begun X Y B s" "add_step tmp sid mid ro sp us s = (Inr fs, s')"
  then show "begun X Y B s'" by (auto intro: begun_change dest!: opened_step)
next
  fix s tcid d assume "begun X Y B s" "fresh_uuid (ch_db s) = (Inr tcid, d)"
  then show "begun X Y B (s\<lparr>ch_db := d\<rparr>) \<and> True" by (auto intro: begun_change dest!: opened_fresh)
next
  fix s n row d assume "begun X Y B s" "insert_session uid n (ch_db s) = (Inr row, d)"
  then show "begun X Y B (s\<lparr>ch_db := d\<rparr>)" by (auto intro: begun_change dest!: opened_session)
next
  fix s sid mid gone d assume "begun X Y B s" "truncate_from_message_step sid mid (ch_db s) = (Inr gone, d)"
  then show "begun X Y B (s\<lparr>ch_db := d\<rparr>)" by (auto intro: begun_change dest!: opened_truncate)
qed (auto simp: begun_def untouched_def)

text \<open>The mode of the session a message is sent to.\<close>

definition request_mode :: "chat_env \<Rightarrow> run_request \<Rightarrow> db \<Rightarrow> mode" where
  "request_mode env rq db =
    (if will_create_session env (rq_temporary rq) (rq_user rq) (rq_session rq) db then rq_mode rq
     else (case rq_session rq of None \<Rightarrow> rq_mode rq
       | Some i \<Rightarrow> (case get_session i (rq_user rq) db of None \<Rightarrow> rq_mode rq | Some r \<Rightarrow> cs_mode r)))"

definition drawn :: "db \<Rightarrow> db" where
  "drawn d = d\<lparr>db_next := Suc (db_next d)\<rparr>"

lemma seed_frame: "seed_steps sid provider ts d = (r, d') \<Longrightarrow> sessions d' = sessions d \<and> db_now d' = db_now d"
proof (induction ts arbitrary: d r d')
  case (Cons t ts)
  obtain ro content where "t = Turn ro content" by (cases t)
  with Cons.prems Cons.IH show ?case
    by (fastforce simp: bind_act_def fresh_uuid_def split: prod.splits sum.splits)
qed simp

lemma ephemeral_frame:
  "ephemeral_init ts provider s = (r, s') \<Longrightarrow> sessions (ch_db s') = sessions (ch_db s) \<and> db_now (ch_db s') = db_now (ch_db s)"
  by (auto simp: ephemeral_init_def bind_act_def on_db_def fresh_uuid_def dest!: seed_frame split: prod.splits sum.splits)

lemma request_mode_cong:
  assumes "sessions d' = sessions d" "db_now d' = db_now d"
  shows "request_mode env rq d' = request_mode env rq d"
proof -
  have "get_session i u d' = get_session i u d" for i u using assms by (simp add: get_session_def)
  then show ?thesis unfolding request_mode_def will_create_session_def assms(2) by presburger
qed

lemma request_session_mode:
  assumes "request_session env rq synthetic create s = (Inr (sess, is_new), s')" "synthetic \<noteq> None \<longleftrightarrow> rq_temporary rq"
    and "create = will_create_session env (rq_temporary rq) (rq_user rq) (rq_session rq) (ch_db s)"
  shows "cs_mode sess = request_mode env rq (ch_db s)"
proof -
  have new: "cs_mode row = rq_mode rq" if "insert_session uid (new_session_of rq b db) d = (Inr row, d')" for row uid d d' db b
    using that by (auto simp: insert_session_def Let_def session_of_def new_session_of_def split: if_splits)
  show ?thesis
  proof (cases synthetic)
    case (Some sid)
    with assms show ?thesis
      by (auto simp: request_session_def session_of_def new_session_of_def request_mode_def will_create_session_def split: option.splits)
  next
    case None
    with assms have "get_or_create_session (ce_cfg env) (rq_user rq) (rq_session rq) (new_session_of rq create (ch_db s)) (ch_db s)
        = (Inr (sess, is_new), ch_db s')"
      by (auto simp: request_session_def on_db_Inr)
    with None assms(2,3) show ?thesis
      by (auto simp: get_or_create_session_def request_mode_def will_create_session_def
          split: option.splits if_splits elim!: bind_act_Inr_E dest: new)
  qed
qed

text \<open>A request either fails before its turn starts, and has committed and sent nothing, or it is its turn,
  started on a database in which a session has been opened.\<close>

definition turn_of :: "chat_env \<Rightarrow> run_request \<Rightarrow> uuid \<Rightarrow> mode \<Rightarrow> (chat_st \<Rightarrow> bool) \<Rightarrow> app_error + chat_run_out \<Rightarrow> chat_st \<Rightarrow> bool" where
  "turn_of env rq turn m J r s' \<longleftrightarrow> (\<exists>sess prompt s1. J s1 \<and> cs_mode sess = m
     \<and> answer_turn env (ctx_of (rq_user rq) turn (rq_temporary rq) sess) sess prompt s1 = (r, s'))"

lemma opened_ends:
  assumes "rq_temporary rq \<longrightarrow> is_new" "cs_mode sess = m"
  shows "ends (begun X Y B) (untouched X Y) (\<lambda>_. False) (turn_of env rq turn m (begun X Y B)) (run_opened env rq turn sess is_new)"
proof -
  have fit: "fits (rq_user rq) (rq_temporary rq) (ctx_of (rq_user rq) turn (rq_temporary rq) sess)" for sess
    by (simp add: fits_def ctx_of_def)
  have fin: "ends (begun X Y B) (untouched X Y) (\<lambda>_. False) (turn_of env rq turn m (begun X Y B))
      (answer_turn env (ctx_of (rq_user rq) turn (rq_temporary rq) sess) sess prompt)" for prompt
    unfolding ends_def turn_of_def using assms(2) by blast
  show ?thesis unfolding run_opened_def Let_def
    by (intro ends_bind[OF opn.keeps_edit[OF assms(1)] ] ends_get)
      (auto split: prod.split sum.split intro!: ends_bind[OF opn.keeps_step[OF fit] ] fin ends_keeps[OF opn.keeps_raise])
qed

lemma run_turn_cases:
  assumes "run_turn env rq turn synthetic s = (r, s')" "begun X Y B s" "synthetic \<noteq> None \<longleftrightarrow> rq_temporary rq"
  shows "(\<exists>e. r = Inl e) \<and> untouched X Y s' \<or> turn_of env rq turn (request_mode env rq (ch_db s)) (begun X Y B) r s'"
proof -
  let ?create = "will_create_session env (rq_temporary rq) (rq_user rq) (rq_session rq) (ch_db s)"
  note un = assms(2)[unfolded begun_def]
  show ?thesis
  proof (cases "if ?create then creation_checks env rq (ch_db s) else None")
    case (Some e)
    with assms(1) have "r = Inl e" "s' = s" by (simp_all add: run_turn_def Let_def)
    then show ?thesis using un by (simp add: untouched_def)
  next
    case None
    with assms(1) have go: "bind_act (request_session env rq synthetic ?create) (\<lambda>(sess, is_new). run_opened env rq turn sess is_new) s = (r, s')"
      by (simp add: run_turn_def Let_def)
    have keeps: "keeps (begun X Y B) (untouched X Y) (\<lambda>(sess, is_new). rq_temporary rq \<longrightarrow> is_new) (request_session env rq synthetic ?create)"
      by (rule opn.keeps_request_session) (use assms(3) in auto)
    obtain x s1 where rs: "request_session env rq synthetic ?create s = (x, s1)" by fastforce
    show ?thesis
    proof (cases x)
      case (Inl e)
      with go rs keeps_Inl[OF keeps assms(2)] show ?thesis by (auto simp: bind_act_def)
    next
      case (Inr y)
      obtain sess is_new where y: "y = (sess, is_new)" by (cases y)
      have k: "begun X Y B s1" "rq_temporary rq \<longrightarrow> is_new"
        using keeps_Inr[OF keeps assms(2) rs[unfolded Inr y] ] by auto
      have m: "cs_mode sess = request_mode env rq (ch_db s)"
        using request_session_mode[OF rs[unfolded Inr y] ] assms(3) by simp
      have "run_opened env rq turn sess is_new s1 = (r, s')" using go rs by (simp add: Inr y bind_act_def)
      with ends_Inr[OF opened_ends[OF k(2) m] k(1)] ends_Inl[OF opened_ends[OF k(2) m] k(1)] show ?thesis
        by (cases r) blast+
    qed
  qed
qed

lemma run_cases:
  assumes "run env rq s = (r, s')"
  shows "(\<exists>e. r = Inl e) \<and> untouched (ch_saved s) (ch_sent s) s'
    \<or> turn_of env rq (db_gen (ch_db s) (db_next (ch_db s))) (request_mode env rq (ch_db s))
        (begun (ch_saved s) (ch_sent s) (drawn (ch_db s))) r s'"
proof -
  let ?X = "ch_saved s" and ?Y = "ch_sent s" and ?B = "drawn (ch_db s)"
  let ?turn = "db_gen (ch_db s) (db_next (ch_db s))" and ?s0 = "s\<lparr>ch_db := drawn (ch_db s)\<rparr>"
  let ?m = "if rq_temporary rq
       then bind_act (ephemeral_init (rq_history rq) (active_provider (ce_cfg env))) (\<lambda>sid. ret (Some sid)) else ret None"
  have start: "begun ?X ?Y ?B ?s0" by (simp add: begun_def op.le_refl)
  have run: "bind_act ?m (run_turn env rq ?turn) ?s0 = (r, s')"
    using assms by (simp add: run_def bind_act_def on_db_def fresh_uuid_def drawn_def)
  have keeps: "keeps (begun ?X ?Y ?B) (untouched ?X ?Y) (\<lambda>x. x \<noteq> None \<longleftrightarrow> rq_temporary rq) ?m"
    by (intro keeps_if keeps_bind[OF opn.keeps_ephemeral] keeps_ret) auto
  obtain x s1 where x: "?m ?s0 = (x, s1)" by fastforce
  show ?thesis
  proof (cases x)
    case (Inl e)
    with run x keeps_Inl[OF keeps start] show ?thesis by (auto simp: bind_act_def)
  next
    case (Inr syn)
    have frame: "sessions (ch_db s1) = sessions (ch_db s)" "db_now (ch_db s1) = db_now (ch_db s)"
      using x by (auto simp: Inr bind_act_def drawn_def dest!: ephemeral_frame split: if_splits prod.splits sum.splits)
    have "run_turn env rq ?turn syn s1 = (r, s')" using run x by (simp add: Inr bind_act_def)
    from run_turn_cases[OF this] keeps_Inr[OF keeps start x[unfolded Inr] ] show ?thesis
      by (simp add: request_mode_cong[OF frame])
  qed
qed

section \<open>A message is charged once\<close>

definition charged :: "billing_plan \<Rightarrow> uuid \<Rightarrow> string \<Rightarrow> app_error + chat_run_out \<Rightarrow> db \<Rightarrow> bool" where
  "charged plan uid key r d \<longleftrightarrow> ledger_entry d uid key = (case r of
     Inl e \<Rightarrow> None
   | Inr out \<Rightarrow> if co_status out = OutAssistant \<and> bp_debit plan then Some (Debit, 1) else None)"

text \<open>What is committed, and what the answered request has in its transaction, are charged alike.\<close>

definition settled :: "billing_plan \<Rightarrow> uuid \<Rightarrow> string \<Rightarrow> app_error + chat_run_out \<Rightarrow> chat_st \<Rightarrow> bool" where
  "settled plan uid key r s \<longleftrightarrow> charged plan uid key r (ch_saved s)
     \<and> (if r \<in> range Inr then charged plan uid key r (ch_db s) else True)"

lemma consume_entry:
  assumes "consume uid amount key meta fs d = (Inr w, d')" "ledger_entry d uid key = None"
  shows "ledger_entry d' uid key = Some (Debit, amount)"
  using consume_Inr[OF assms(1)] assms(2) fresh_entry(2) replay_entry by fastforce

lemma ledger_entry_quiet: "quiet d d' \<Longrightarrow> ledger_entry d' u k = ledger_entry d u k"
  by (simp add: quiet_def ledger_entry_def existing_tx_def)

lemma unbilled_both:
  "relies (unbilled g n uid) env \<Longrightarrow> both (unbilled g n uid) env s \<Longrightarrow>
   ledger_entry (ch_db s) uid (str_uuid (g n)) = None \<and> ledger_entry (ch_saved s) uid (str_uuid (g n)) = None"
  by (simp add: both_def unbilled_def)

definition pay_turn :: "turn_ctx \<Rightarrow> billing_plan \<Rightarrow> json \<Rightarrow> bool chat_act" where
  "pay_turn c plan us = (if bp_debit plan
       then catch_act InsufficientCreditsError (bind_act (debit_turn c us) (\<lambda>_. ret True)) (bind_act rollback (\<lambda>_. ret False))
       else if bp_trial plan then bind_act (on_db (mark_trial_used (tx_user c))) (\<lambda>_. ret True) else ret True)"

lemma pay_turn_cases:
  assumes "pay_turn c plan us s = (x, s')" "ledger_entry (ch_db s) (tx_user c) (str_uuid (tx_turn c)) = None"
  shows "ch_saved s' = ch_saved s"
    "x = Inr False \<Longrightarrow> ch_db s' = ch_saved s"
    "x = Inr True \<Longrightarrow> ledger_entry (ch_db s') (tx_user c) (str_uuid (tx_turn c)) = (if bp_debit plan then Some (Debit, 1) else None)"
  using assms
  by (auto simp: pay_turn_def debit_turn_def catch_act_def bind_act_def on_db_def rollback_def
      split: if_splits prod.splits sum.splits dest: consume_entry
      dest!: quiet_trial[THEN ledger_entry_quiet[of _ _ "tx_user c" "str_uuid (tx_turn c)"]])

lemma close_turn:
  assumes "bind_act (if tx_tmp c then ret () else on_db (touch_session (tx_session c))) (\<lambda>_. bind_act commit (\<lambda>_. ret out)) s = (r, s')"
  shows "r = Inr out" "quiet (ch_db s) (ch_db s')" "ch_saved s' = ch_db s'"
  using assms
  by (auto simp: bind_act_def on_db_def commit_def touch_session_def quiet_def split: if_splits prod.splits sum.splits)

lemma finalize_settled:
  assumes rely: "relies (unbilled g n uid) env" and start: "both (unbilled g n uid) env s"
    and c: "fits uid tmp c" "tx_turn c = g n" and fin: "finalize_assistant c plan lr acc s = (r, s')"
  shows "settled plan uid (str_uuid (g n)) r s'"
proof -
  let ?J = "both (unbilled g n uid) env" and ?E = "saved (unbilled g n uid) env" and ?key = "str_uuid (g n)"
  have user: "tx_user c = uid" using c(1) by (simp add: fits_def)
  define rest where "rest sid = bind_act (pay_turn c plan (usage_json lr)) (\<lambda>paid.
     if \<not> paid then ret (blocked_out (tx_session c) (Some CreditsEmpty))
     else bind_act (if tx_tmp c then ret () else on_db (touch_session (tx_session c))) (\<lambda>_.
       bind_act commit (\<lambda>_. ret (assistant_out c lr sid acc))))" for sid
  have "settled plan uid ?key x t'" if J: "?J t" and run: "rest sid t = (x, t')" for x sid t t'
  proof -
    note none = unbilled_both[OF rely J]
    obtain y u where pay: "pay_turn c plan (usage_json lr) t = (y, u)" by fastforce
    note P = pay_turn_cases[OF pay, unfolded user c(2), OF conjunct1[OF none] ]
    consider (err) e where "y = Inl e" | (unpaid) "y = Inr False" | (paid) "y = Inr True"
      by (cases y) auto
    then show ?thesis
    proof cases
      case err
      with run pay P(1) none show ?thesis by (auto simp: rest_def bind_act_def settled_def charged_def)
    next
      case unpaid
      with run pay P(1,2) none show ?thesis by (auto simp: rest_def bind_act_def settled_def charged_def)
    next
      case paid
      with run pay have "bind_act (if tx_tmp c then ret () else on_db (touch_session (tx_session c))) (\<lambda>_.
          bind_act commit (\<lambda>_. ret (assistant_out c lr sid acc))) u = (x, t')"
        by (simp add: rest_def bind_act_def)
      note C = close_turn[OF this]
      show ?thesis using P(3)[OF paid] C(1,3) ledger_entry_quiet[OF C(2)]
        by (simp add: settled_def charged_def assistant_out_def)
    qed
  qed
  moreover have "finalize_assistant c plan lr acc = bind_act (turn_step c RAssistant [(''content'', JArr (lr_content lr))] (Some (usage_json lr))) (\<lambda>sid.
     bind_act (turn_audit c EVENT_CHAT_STEP (chat_step_event c [] (usage_json lr))) (\<lambda>_. rest sid))"
    by (simp add: finalize_assistant_def rest_def pay_turn_def)
  moreover have "ends ?J ?E (\<lambda>_. False) (settled plan uid ?key) (bind_act (turn_step c RAssistant [(''content'', JArr (lr_content lr))] (Some (usage_json lr))) (\<lambda>sid.
     bind_act (turn_audit c EVENT_CHAT_STEP (chat_step_event c [] (usage_json lr))) (\<lambda>_. rest sid)))"
    by (intro ends_bind[OF unb.turn.keeps_step[OF c(1)] ] ends_bind[OF unb.turn.keeps_audit[OF c(1)] ])
      (use calculation(1) in \<open>auto simp: ends_def\<close>)
  ultimately have e: "ends ?J ?E (\<lambda>_. False) (settled plan uid ?key) (finalize_assistant c plan lr acc)" by simp
  show ?thesis
  proof (cases r)
    case (Inl e)
    with ends_Inl[OF e start fin[unfolded Inl] ] rely show ?thesis
      by (auto simp: settled_def charged_def saved_def unbilled_def)
  next
    case (Inr out)
    with ends_Inr[OF e start fin[unfolded Inr] ] show ?thesis by simp
  qed
qed

lemma generate_settled:
  assumes rely: "relies (unbilled g n uid) env" and start: "both (unbilled g n uid) env s"
    and c: "fits uid tmp c" "tx_turn c = g n"
    and gen: "generate_loop env c m plan keys system att model dm s = (r, s')"
  shows "settled plan uid (str_uuid (g n)) r s'"
proof -
  have e: "ends (both (unbilled g n uid) env) (saved (unbilled g n uid) env) (\<lambda>out. co_status out \<noteq> OutAssistant)
      (settled plan uid (str_uuid (g n))) (generate_loop env c m plan keys system att model dm)"
    by (rule unb.turn.generate_end[OF c(1)]) (rule finalize_settled[OF rely _ c])
  show ?thesis
  proof (cases r)
    case (Inl x)
    with ends_Inl[OF e start gen[unfolded Inl] ] rely show ?thesis
      by (auto simp: settled_def charged_def saved_def unbilled_def)
  next
    case (Inr out)
    with ends_Inr[OF e start gen[unfolded Inr] ] unbilled_both[OF rely, of s'] show ?thesis
      by (auto simp: settled_def charged_def)
  qed
qed

text \<open>A generation that does not fail at once commits what it is started on.\<close>

lemma exceeded_commits:
  "rounds_exceeded env c s = (r, s') \<Longrightarrow> \<exists>e. r = Inl e \<and> (ch_saved s' = ch_saved s \<or> rounds_exceeded env c (s\<lparr>ch_saved := ch_db s\<rparr>) = (r, s'))"
  by (auto simp: rounds_exceeded_def turn_audit_def on_db_def bind_act_def commit_def split: prod.splits sum.splits)

lemma generate_form:
  "(\<exists>g k at acc. generate_loop env c m plan keys system att model dm = llm_rounds env c g k at acc)
   \<or> generate_loop env c m plan keys system att model dm = raise PyError
   \<or> (\<exists>out. generate_loop env c m plan keys system att model dm = bind_act commit (\<lambda>_. ret out))"
proof (cases "m = ModeByok")
  case True
  show ?thesis
  proof (cases "snd keys")
    case None
    with True show ?thesis by (simp add: generate_loop_def split_beta) blast
  next
    case (Some p)
    with True show ?thesis by (cases "llm_client_for p") (simp_all add: generate_loop_def split_beta, blast)
  qed
next
  case False
  then show ?thesis by (simp add: generate_loop_def split_beta) blast
qed

lemma generate_commits:
  assumes "generate_loop env c m plan keys system att model dm s = (r, s')"
  shows "(\<exists>e. r = Inl e) \<and> ch_saved s' = ch_saved s
    \<or> generate_loop env c m plan keys system att model dm (s\<lparr>ch_saved := ch_db s\<rparr>) = (r, s')"
proof -
  have rounds: "(\<exists>e. r = Inl e) \<and> ch_saved s' = ch_saved s \<or> llm_rounds env c g k at acc (s\<lparr>ch_saved := ch_db s\<rparr>) = (r, s')"
    if "llm_rounds env c g k at acc s = (r, s')" for g k at acc
  proof (cases k)
    case 0
    with that exceeded_commits[of env c s r s'] show ?thesis by auto
  next
    case (Suc j)
    with that show ?thesis using rounds_commit_first[of env c g j at acc s] by simp
  qed
  consider g k at acc where "generate_loop env c m plan keys system att model dm = llm_rounds env c g k at acc"
    | "generate_loop env c m plan keys system att model dm = raise PyError"
    | out where "generate_loop env c m plan keys system att model dm = bind_act commit (\<lambda>_. ret out)"
    using generate_form by metis
  then show ?thesis
  proof cases
    case 1
    with assms rounds show ?thesis by metis
  next
    case 2
    with assms show ?thesis by auto
  next
    case 3
    with assms show ?thesis by (auto simp: commit_def)
  qed
qed

lemma sweep_settled:
  assumes "settled plan uid key (Inr out) s" "bind_act (sweep_if_images env out) (\<lambda>_. ret out) s = (r, s')"
  shows "r = Inr out" "settled plan uid key r s'"
proof -
  have "r = Inr out \<and> quiet (ch_db s) (ch_db s') \<and> (ch_saved s' = ch_saved s \<or> ch_saved s' = ch_db s')"
    using assms(2) by (auto simp: sweep_if_images_def maybe_sweep_expired_images_def bind_act_def commit_def Let_def quiet_sweep
        intro: qt.le_refl split: if_splits)
  then show "r = Inr out" "settled plan uid key r s'"
    using assms(1) ledger_entry_quiet[of "ch_db s" "ch_db s'"] by (auto simp: settled_def charged_def)
qed

text \<open>The plan of a turn is that of the policy state in which it starts.\<close>

definition plan_of :: "uuid \<Rightarrow> mode \<Rightarrow> db \<Rightarrow> billing_plan" where
  "plan_of uid m db = billing_plan_of m (load_policy_state (db_now db) uid db)"

lemma plan_of_opened: "opened d d' \<Longrightarrow> plan_of uid m d' = plan_of uid m d"
  by (simp add: plan_of_def opened_def load_policy_state_cong[of d' uid d])

lemma answer_settled:
  assumes rely: "relies (unbilled g n uid) env" and db: "unbilled g n uid (ch_db s)"
    and sv: "ledger_entry (ch_saved s) uid (str_uuid (g n)) = None"
    and c: "fits uid tmp c" "tx_turn c = g n" and run: "answer_turn env c sess prompt s = (r, s')"
  shows "settled (plan_of uid (cs_mode sess) (ch_db s)) uid (str_uuid (g n)) r s'"
proof -
  let ?plan = "plan_of uid (cs_mode sess) (ch_db s)" and ?key = "str_uuid (g n)"
  have err: "settled ?plan uid ?key (Inl e) t" if "ch_saved t = ch_saved s" for e t
    using that sv by (auto simp: settled_def charged_def)
  let ?state = "load_policy_state (db_now (ch_db s)) uid (ch_db s)"
  obtain y s1 where au: "evaluate_turn c (cs_mode sess) s = (y, s1)" by fastforce
  have ev: "opened (ch_db s) (ch_db s1) \<and> ch_saved s1 = ch_saved s \<and> (\<forall>d st. y = Inr (d, st) \<longrightarrow> st = ?state)"
    using au c(1) by (auto simp: evaluate_turn_def turn_audit_def on_db_def bind_act_def fits_def Let_def
        dest!: opened_audit split: prod.splits sum.splits)
  have J1: "unbilled g n uid (ch_db s1)"
    using ev db by (auto simp: opened_def unbilled_def ledger_entry_def existing_tx_def)
  show ?thesis
  proof (cases y)
    case (Inl e)
    with run au have "r = Inl e" "s' = s1" by (simp_all add: answer_turn_def bind_act_def)
    with ev show ?thesis by (simp add: err)
  next
    case (Inr dec)
    obtain d where dec: "dec = (d, ?state)" using ev Inr by (cases dec) auto
    show ?thesis
    proof (cases "d_allow d")
      case False
      with run au Inr dec have "r = Inr (blocked_out (cs_id sess) (d_reason d))" "s' = s1"
        by (simp_all add: answer_turn_def bind_act_def)
      with J1 ev sv show ?thesis by (auto simp: settled_def charged_def unbilled_def)
    next
      case True
      obtain k s2 where key: "resolve_api_key env (tx_user c) (cs_mode sess) s1 = (k, s2)" by fastforce
      have s2: "s2 = s1" using key by (auto simp: resolve_api_key_def split: if_splits sum.splits option.splits)
      show ?thesis
      proof (cases k)
        case (Inl e)
        with run au dec True key s2 \<open>y = Inr dec\<close> have "r = Inl e" "s' = s1"
          by (simp_all add: answer_turn_def bind_act_def)
        with ev show ?thesis by (simp add: err)
      next
        case (Inr keys)
        obtain system att where pr: "prompt (ch_db s1) = (system, att)" by fastforce
        let ?gen = "generate_loop env c (cs_mode sess) ?plan keys system att (session_model sess) (cs_dialog_mode sess)"
        from run au dec True key s2 pr have go: "bind_act ?gen (\<lambda>out. bind_act (sweep_if_images env out) (\<lambda>_. ret out)) s1 = (r, s')"
          by (simp add: answer_turn_def bind_act_def \<open>y = Inr dec\<close> Inr plan_of_def)
        obtain z s3 where gen: "?gen s1 = (z, s3)" by fastforce
        have "settled ?plan uid ?key z s3"
          using generate_commits[OF gen]
        proof (elim disjE conjE exE)
          fix e assume "z = Inl e" "ch_saved s3 = ch_saved s1"
          with ev show ?thesis by (auto intro: err)
        next
          assume "?gen (s1\<lparr>ch_saved := ch_db s1\<rparr>) = (z, s3)"
          from generate_settled[OF rely _ c this] J1 show ?thesis by (simp add: both_def)
        qed
        with go gen show ?thesis
          by (cases z) (auto simp: bind_act_def dest: sweep_settled)
      qed
    qed
  qed
qed

text \<open>
  C1: A message is charged exactly once, and only for an answer. The turn of a request is the first identifier
  it draws; when the request is over, the ledger has one debit of a single credit under that identifier if
  the request returned the assistant's answer and the user's plan, at the start of the request, pays by credits, and has no entry under it
  after any other outcome: a policy block, a truncated reply, an empty balance, a rejected key, or an
  exception of any kind, however many tools and images the turn went through before. The hypotheses are that the identifier is not drawn again,
  that it was not used as a key before, and that requests of the same time do not book under this one's.
\<close>

theorem chat_turn_charged_once:
  assumes "chat_request (run env rq) db = (r, s)" "\<forall>i>db_next db. db_gen db i \<noteq> db_gen db (db_next db)"
    and "ledger_entry db (rq_user rq) (str_uuid (db_gen db (db_next db))) = None"
    and "relies (unbilled (db_gen db) (db_next db) (rq_user rq)) env"
  shows "ledger_entry (ch_saved s) (rq_user rq) (str_uuid (db_gen db (db_next db))) = (case r of
     Inl e \<Rightarrow> None
   | Inr out \<Rightarrow> if co_status out = OutAssistant
         \<and> bp_debit (billing_plan_of (request_mode env rq db) (load_policy_state (db_now db) (rq_user rq) db))
       then Some (Debit, 1) else None)"
proof -
  let ?s0 = "\<lparr>ch_saved = db, ch_db = db, ch_mem_steps = [], ch_mem_calls = [], ch_sent = []\<rparr>"
  let ?n = "db_next db" and ?uid = "rq_user rq" and ?m = "request_mode env rq db"
  let ?key = "str_uuid (db_gen db ?n)"
  obtain x s' where run: "run env rq ?s0 = (x, s')" by fastforce
  have s: "r = x" "ch_saved s = (if x \<in> range Inr then ch_db s' else ch_saved s')"
    using assms(1) run by (auto simp: chat_request_def split: sum.splits)
  have "charged (plan_of ?uid ?m db) ?uid ?key x (ch_saved s)"
    using run_cases[OF run]
  proof (elim disjE conjE exE)
    fix e assume "x = Inl e" "untouched (ch_saved ?s0) (ch_sent ?s0) s'"
    then show ?thesis using assms(3) s by (auto simp: untouched_def charged_def)
  next
    assume "turn_of env rq (db_gen (ch_db ?s0) (db_next (ch_db ?s0))) (request_mode env rq (ch_db ?s0))
        (begun (ch_saved ?s0) (ch_sent ?s0) (drawn (ch_db ?s0))) x s'"
    then obtain sess prompt s1 where b: "begun db [] (drawn db) s1" and m: "cs_mode sess = ?m"
      and ans: "answer_turn env (ctx_of ?uid (db_gen db ?n) (rq_temporary rq) sess) sess prompt s1 = (x, s')"
      by (auto simp: turn_of_def)
    have o: "opened (drawn db) (ch_db s1)" "ch_saved s1 = db" using b by (simp_all add: begun_def)
    have "unbilled (db_gen db) ?n ?uid (ch_db s1)"
      using o(1) assms(2,3) by (auto simp: unbilled_def opened_def drawn_def ledger_entry_def existing_tx_def)
    moreover have "plan_of ?uid ?m (ch_db s1) = plan_of ?uid ?m db"
      using plan_of_opened[OF o(1)] plan_of_opened[of db "drawn db"] by (simp add: opened_def drawn_def)
    ultimately have "settled (plan_of ?uid ?m db) ?uid ?key x s'"
      using answer_settled[OF assms(4) _ _ _ _ ans, of "rq_temporary rq"] assms(3) o(2) m
      by (simp add: fits_def ctx_of_def)
    then show ?thesis by (auto simp: s settled_def)
  qed
  then show ?thesis by (simp add: charged_def plan_of_def s(1))
qed

section \<open>A concrete request\<close>

text \<open>A subscriber with ten credits asks once; the provider first asks for the time and then answers.\<close>

definition demo_tools :: tool_env where
  "demo_tools = site_env.extend demo_site \<lparr>te_lib = \<lparr>tl_int = (\<lambda>j. case j of JInt i \<Rightarrow> Some i | _ \<Rightarrow> None),
       tl_schema = (\<lambda>n. []), tl_description = (\<lambda>n. n)\<rparr>,
     te_utf8 = (\<lambda>bs. Some (map (\<lambda>b. char_of (unat b)) bs)), te_zone = (\<lambda>z. None), te_quiz_reasons = (\<lambda>a. []),
     te_image_api = (\<lambda>p s q f. Inl None), te_image_configured = False\<rparr>"

definition demo_reply :: "nat \<Rightarrow> anthropic_reply" where
  "demo_reply k = (if k = 0
     then \<lparr>an_content = [[(''type'', JStr ''tool_use''), (''id'', JStr ''t1''), (''name'', JStr ''time_now''), (''input'', JObj [])]],
        an_stop = Some ''tool_use'', an_input = 1, an_output = 1, an_cache_read = 0, an_cache_write = 0\<rparr>
     else \<lparr>an_content = [[(''type'', JStr ''text''), (''text'', JStr ''hi'')]],
        an_stop = Some ''end_turn'', an_input = 1, an_output = 1, an_cache_read = 0, an_cache_write = 0\<rparr>)"

definition demo_chat :: chat_env where
  "demo_chat = \<lparr>ce_tool = demo_tools,
     ce_llm = \<lparr>ll_tools = te_lib demo_tools, ll_dumps = (\<lambda>j. ''x''), ll_loads = (\<lambda>s. None), ll_str = (\<lambda>j. ''x'')\<rparr>,
     ce_byok = demo_byok, ce_ws = demo_ws, ce_loads = (\<lambda>s. Some (JObj [])),
     ce_anthropic = (\<lambda>k q. Inr (demo_reply k)), ce_openai = (\<lambda>k q. Inl SdkOther),
     ce_others = (\<lambda>k d. d), ce_sweep_lock = False\<rparr>"

definition demo_chat_db :: db where
  "demo_chat_db = (empty_db (\<lambda>i. if i = 0 then 1 else 2 * of_nat i) 0)\<lparr>
     users := [7 \<mapsto> \<lparr>u_created = 0, u_trial_used = False, u_display_name = None\<rparr>],
     subscriptions := [7 \<mapsto> \<lparr>s_status = SubActive, s_plan = None, s_expires = None, s_updated = 0\<rparr>],
     wallets := [7 \<mapsto> 10]\<rparr>"

definition demo_request :: run_request where
  "demo_request = \<lparr>rq_user = 7, rq_project = None, rq_session = None, rq_message = ''hello'', rq_mode = ModeCredits,
     rq_assistant = None, rq_dialog = None, rq_attachments = [], rq_model = None, rq_workspace = None, rq_context = None,
     rq_action_prompt = None, rq_edit = None, rq_temporary = False, rq_history = []\<rparr>"

lemma demo_supply: "\<forall>i>db_next demo_chat_db. db_gen demo_chat_db i \<noteq> db_gen demo_chat_db (db_next demo_chat_db)"
proof (intro allI impI)
  fix i assume i: "db_next demo_chat_db < i"
  have "2 * x \<noteq> (1::uuid)" for x by (metis dvd_triv_left odd_one)
  with i show "db_gen demo_chat_db i \<noteq> db_gen demo_chat_db (db_next demo_chat_db)"
    by (simp add: demo_chat_db_def empty_db_def)
qed

theorem chat_turn_charged_once_witness:
  "ledger_entry (ch_saved (snd (chat_request (run demo_chat demo_request) demo_chat_db))) 7 (str_uuid 1) =
    (case fst (chat_request (run demo_chat demo_request) demo_chat_db) of
       Inl e \<Rightarrow> None
     | Inr out \<Rightarrow> if co_status out = OutAssistant
           \<and> bp_debit (billing_plan_of (request_mode demo_chat demo_request demo_chat_db) (load_policy_state 0 7 demo_chat_db))
         then Some (Debit, 1) else None)"
proof -
  have d: "rq_user demo_request = 7" "db_gen demo_chat_db (db_next demo_chat_db) = 1" "db_now demo_chat_db = 0"
    by (simp_all add: demo_request_def demo_chat_db_def empty_db_def)
  have none: "ledger_entry demo_chat_db (rq_user demo_request) (str_uuid (db_gen demo_chat_db (db_next demo_chat_db))) = None"
    by (simp add: ledger_entry_def existing_tx_def demo_chat_db_def empty_db_def)
  have rely: "relies P demo_chat" for P by (simp add: relies_def demo_chat_def)
  from chat_turn_charged_once[OF surjective_pairing demo_supply none rely]
  show ?thesis by (simp only: d)
qed

section \<open>The ledger across requests\<close>

lemma request_both:
  assumes "keeps (both I env) (saved I env) (\<lambda>_. True) m" "I db" "relies I env"
  shows "I (ch_saved (snd (chat_request m db)))"
proof -
  let ?s0 = "\<lparr>ch_saved = db, ch_db = db, ch_mem_steps = [], ch_mem_calls = [], ch_sent = []\<rparr>"
  obtain r s' where m: "m ?s0 = (r, s')" by fastforce
  have start: "both I env ?s0" using assms(2) by (simp add: both_def)
  show ?thesis
  proof (cases r)
    case (Inl e)
    with keeps_Inl[OF assms(1) start m[unfolded Inl] ] m assms(3) show ?thesis by (simp add: chat_request_def saved_def)
  next
    case (Inr a)
    with keeps_Inr[OF assms(1) start m[unfolded Inr] ] m assms(3) show ?thesis by (simp add: chat_request_def both_def)
  qed
qed

end
