(* ===== verification/ChatCalls.thy ===== *)
theory ChatCalls
  imports ChatBilling
begin

text \<open>
  What leaves the backend during a chat request, and what a temporary chat leaves behind: how many provider
  calls a request makes and what they carry, which key reaches which provider, and that the tables of
  the chats are not touched when nothing is to be kept.
\<close>

section \<open>Actions that call no provider\<close>

interpretation sd: preordered "\<lambda>s s'. ch_sent s' = (ch_sent s :: llm_call list)"
  by unfold_locales auto

abbreviation silent :: "'a chat_act \<Rightarrow> bool" where
  "silent \<equiv> moves (\<lambda>s s'. ch_sent s' = ch_sent s)"

interpretation snt: turn_writes "\<lambda>s. ch_sent s = X" "\<lambda>s. ch_sent s = X" "\<lambda>_. True" env uid tmp for X env uid tmp
  by unfold_locales (auto dest!: repository_db)

lemma silent_on_db: "silent (on_db m)"
  by (rule movesI) (auto simp: on_db_def split: prod.splits)

lemma silent_upd: "(\<And>s. ch_sent (f s) = ch_sent s) \<Longrightarrow> silent (upd_st f)"
  by (rule movesI) auto

lemma silent_commit: "silent commit" "silent rollback"
  by (auto simp: commit_def rollback_def intro!: silent_upd)

lemma silent_step: "silent (turn_step c ro pl us)"
  by (auto simp: turn_step_def add_step_def intro!: sd.moves_basic silent_on_db silent_upd)

lemma silent_audit: "silent (turn_audit c ev pl)"
  by (simp add: turn_audit_def silent_on_db)

lemma silent_catch: "silent m \<Longrightarrow> silent h \<Longrightarrow> silent (catch_act e m h)"
  unfolding moves_def catch_act_def by (fastforce split: prod.splits sum.splits if_splits)

lemmas silent_basic = sd.moves_basic silent_on_db silent_commit silent_step silent_audit silent_catch

lemma silent_finalize: "silent (finalize_assistant c plan r acc)"
  unfolding finalize_assistant_def debit_turn_def by (auto intro!: silent_basic)

lemma silent_max_tokens: "silent (handle_max_tokens c r acc)"
  unfolding handle_max_tokens_def by (auto intro!: silent_basic)

lemma silent_key_rejected: "silent (key_rejected c g)"
  unfolding key_rejected_def by (auto intro!: silent_basic)

lemma silent_exceeded: "silent (rounds_exceeded env c)"
  unfolding rounds_exceeded_def by (auto intro!: silent_basic)

lemma silent_tool_use: "silent (handle_tool_use env c r acc)"
proof (rule movesI)
  fix s x s' assume run: "handle_tool_use env c r acc s = (x, s')"
  have k: "keeps (\<lambda>t. ch_sent t = ch_sent s) (\<lambda>t. ch_sent t = ch_sent s) (\<lambda>(x, _). open_outcome x) (handle_tool_use env c r acc)"
    by (rule snt.keeps_tool_use[of "tx_user c" "tx_tmp c"]) (simp add: fits_def)
  show "ch_sent s' = ch_sent s"
    using keeps_Inr[OF k refl] keeps_Inl[OF k refl] run by (cases x) blast+
qed

lemma silent_sweep: "silent (sweep_if_images env out)"
  unfolding sweep_if_images_def maybe_sweep_expired_images_def Let_def
  by (auto intro!: silent_basic silent_upd)

lemma silent_api_key: "silent (resolve_api_key env u m)"
  by (rule movesI) (auto simp: resolve_api_key_def split: if_splits sum.splits option.splits)

lemma silent_evaluate: "silent (evaluate_turn c m)"
  unfolding evaluate_turn_def Let_def by (auto intro!: silent_basic)

section \<open>The calls of a generation\<close>

text \<open>The calls of one generation: at most so many, all alike but for their messages, the attachments
  with the first only.\<close>

definition calls_of :: "turn_ctx \<Rightarrow> gen_params \<Rightarrow> nat \<Rightarrow> json list option \<Rightarrow> llm_call list \<Rightarrow> bool" where
  "calls_of c g n att cs \<longleftrightarrow> length cs \<le> n
     \<and> list_all (\<lambda>x. lc_provider x = gp_client g \<and> lc_key x = gp_key g \<and> lc_model x = gp_model g \<and> lc_system x = gp_system g
         \<and> lc_options x = \<lparr>go_dialog = Some (gp_dialog g), go_temporary = tx_tmp c\<rparr>) cs
     \<and> (cs = [] \<or> lc_attachments (hd cs) = att) \<and> list_all (\<lambda>x. lc_attachments x = None) (tl cs)"

lemma calls_Cons:
  assumes "calls_of c g n None cs"
  shows "calls_of c g (Suc n) att (round_call env c g att ms # cs)"
  using assms by (cases cs) (auto simp: calls_of_def round_call_def)

lemma silentD: "silent m \<Longrightarrow> m s = (r, s') \<Longrightarrow> ch_sent s' = ch_sent s"
  by (rule movesD)

lemma rounds_calls:
  "llm_rounds env c g n att acc s = (r, s') \<Longrightarrow> \<exists>cs. ch_sent s' = ch_sent s @ cs \<and> calls_of c g n att cs \<and> (cs = [] \<longrightarrow> n = 0)"
proof (induction n arbitrary: att acc s)
  case 0
  then show ?case using silentD[OF silent_exceeded] by (auto simp: calls_of_def)
next
  case (Suc n)
  let ?call = "round_call env c g att (build_messages (tx_tmp c) (tx_session c) s)"
  let ?s1 = "snd (call_llm env ?call (s\<lparr>ch_saved := ch_db s\<rparr>))"
  have sent: "ch_sent ?s1 = ch_sent s @ [?call]" by (simp add: call_llm_def Let_def)
  have one: "calls_of c g (Suc n) att [?call]" by (simp add: calls_of_def round_call_def)
  have fin: "\<exists>cs. ch_sent s' = ch_sent s @ cs \<and> calls_of c g (Suc n) att cs \<and> (cs = [] \<longrightarrow> Suc n = 0)" if "ch_sent s' = ch_sent ?s1"
    using that sent one by auto
  define rest where "rest reply = (case reply of
       Inl LlmAuth \<Rightarrow> key_rejected c g
     | Inl (LlmRaise e) \<Rightarrow> raise e
     | Inr r \<Rightarrow>
       if lr_stop r = StopMaxTokens then handle_max_tokens c r acc
       else if lr_stop r = StopToolUse \<and> lr_tool_uses r \<noteq> [] then
         bind_act (handle_tool_use env c r acc) (\<lambda>(outcome, acc').
         case outcome of
           TurnBlocked out \<Rightarrow> ret out
         | TurnClient out \<Rightarrow> bind_act commit (\<lambda>_. ret out)
         | TurnContinue \<Rightarrow> bind_act commit (\<lambda>_. llm_rounds env c g n None acc'))
       else finalize_assistant c (gp_billing g) r acc)" for reply :: "llm_failure + llm_result"
  obtain reply where run: "rest reply ?s1 = (r, s')"
    using Suc.prems by (auto simp: rest_def bind_act_def commit_def call_llm_def Let_def)
  have silent: "\<exists>cs. ch_sent s' = ch_sent s @ cs \<and> calls_of c g (Suc n) att cs \<and> (cs = [] \<longrightarrow> Suc n = 0)" if "silent (rest reply)"
    by (rule fin) (rule silentD[OF that run])
  show ?case
  proof (cases reply)
    case (Inl f)
    then have "silent (rest reply)"
      by (cases f) (auto simp: rest_def intro!: silent_key_rejected sd.moves_raise)
    then show ?thesis by (rule silent)
  next
    case (Inr lr)
    show ?thesis
    proof (cases "lr_stop lr = StopToolUse \<and> lr_tool_uses lr \<noteq> []")
      case False
      then have "silent (rest reply)"
        by (auto simp: rest_def Inr intro!: silent_max_tokens silent_finalize)
      then show ?thesis by (rule silent)
    next
      case True
      obtain z s2 where use: "handle_tool_use env c lr acc ?s1 = (z, s2)" by fastforce
      have s2: "ch_sent s2 = ch_sent ?s1" by (rule silentD[OF silent_tool_use use])
      show ?thesis
      proof (cases "\<exists>acc'. z = Inr (TurnContinue, acc')")
        case False
        with run use True s2 have "ch_sent s' = ch_sent ?s1"
          by (auto simp: rest_def Inr bind_act_def commit_def split: sum.splits turn_outcome.splits)
        then show ?thesis by (rule fin)
      next
        case cont: True
        then obtain acc' where z: "z = Inr (TurnContinue, acc')" by blast
        have "llm_rounds env c g n None acc' (s2\<lparr>ch_saved := ch_db s2\<rparr>) = (r, s')"
          using run use True by (simp add: rest_def Inr bind_act_def commit_def z)
        from Suc.IH[OF this] obtain cs where "ch_sent s' = ch_sent s2 @ cs" "calls_of c g n None cs" by auto
        then show ?thesis using s2 sent calls_Cons by (intro exI[of _ "?call # cs"]) auto
      qed
    qed
  qed
qed

text \<open>Where a request may go and what key and model it may carry.\<close>

definition model_fits :: "chat_env \<Rightarrow> string \<Rightarrow> string option \<Rightarrow> llm_call \<Rightarrow> bool" where
  "model_fits env provider fallback x =
    (if go_dialog (lc_options x) = Some DmDeepThinking then lc_model x = Some (deep_thinking_model (ce_cfg env))
     else lc_model x = fallback
       \<or> (case lc_model x of None \<Rightarrow> False | Some m \<Rightarrow> m \<in> fst ` set (allowed_models_for (ce_loads env) (ce_cfg env) provider)))"

definition call_routed :: "chat_env \<Rightarrow> uuid \<Rightarrow> mode \<Rightarrow> db \<Rightarrow> llm_call \<Rightarrow> bool" where
  "call_routed env uid m db x = (case m of
     ModeCredits \<Rightarrow> lc_key x = None \<and> lc_provider x = get_llm_client (ce_cfg env)
       \<and> model_fits env (active_provider (ce_cfg env)) None x
   | ModeByok \<Rightarrow> (case get_plaintext_key_with_provider (ce_byok env) uid db of
       Inr (Some (key, Some p)) \<Rightarrow> lc_key x = Some key \<and> llm_client_for p = Some (lc_provider x)
         \<and> model_fits env p (Some (byok_default_model_for (ce_cfg env) p)) x
     | _ \<Rightarrow> False))"

lemma model_for_provider_fits:
  "model_for_provider loads cfg model p = Some x \<Longrightarrow> x \<in> fst ` set (allowed_models_for loads cfg p)"
  by (auto simp: model_for_provider_def dest: map_of_SomeD split: option.splits if_splits intro: rev_image_eqI)

text \<open>The calls of a turn, bounded in number, with the attachments of the message in the first one only.\<close>

definition turn_calls :: "chat_env \<Rightarrow> uuid \<Rightarrow> mode \<Rightarrow> db \<Rightarrow> bool \<Rightarrow> llm_call list \<Rightarrow> bool" where
  "turn_calls env uid m db tmp cs \<longleftrightarrow> length cs \<le> nat (max_server_tool_rounds (ce_cfg env) + 1)
     \<and> list_all (call_routed env uid m db) cs \<and> list_all (\<lambda>x. lc_attachments x = None) (tl cs)
     \<and> list_all (\<lambda>x. go_temporary (lc_options x) = tmp) cs"

lemma turn_calls_Nil: "turn_calls env uid m db tmp []"
  by (simp add: turn_calls_def)

definition routing :: "chat_env \<Rightarrow> uuid \<Rightarrow> mode \<Rightarrow> db \<Rightarrow> string option \<times> string option \<Rightarrow> bool" where
  "routing env uid m db keys \<longleftrightarrow> (case m of
     ModeCredits \<Rightarrow> fst keys = None
   | ModeByok \<Rightarrow> (\<exists>key p. keys = (Some key, p) \<and> get_plaintext_key_with_provider (ce_byok env) uid db = Inr (Some (key, p))))"

lemma generate_calls:
  assumes "generate_loop env c m plan keys system att model dm s = (r, s')" "routing env uid m db keys"
  shows "\<exists>cs. ch_sent s' = ch_sent s @ cs \<and> turn_calls env uid m db (tx_tmp c) cs"
proof -
  let ?g = "\<lambda>client. \<lparr>gp_mode = m, gp_billing = plan, gp_key = fst keys, gp_client = client,
      gp_model = effective_model env m (snd keys) model dm, gp_system = system, gp_dialog = dm\<rparr>"
  let ?n = "nat (max_server_tool_rounds (ce_cfg env) + 1)" and ?att = "map_option pa_blocks att"
  have calls: "\<exists>cs. ch_sent s' = ch_sent s @ cs \<and> turn_calls env uid m db (tx_tmp c) cs"
    if run: "llm_rounds env c (?g client) ?n ?att no_acc s = (r, s')"
      and ok: "\<And>x :: llm_call. lc_key x = fst keys \<Longrightarrow> lc_provider x = client \<Longrightarrow> lc_model x = effective_model env m (snd keys) model dm
        \<Longrightarrow> go_dialog (lc_options x) = Some dm \<Longrightarrow> call_routed env uid m db x" for client
  proof -
    obtain cs where cs: "ch_sent s' = ch_sent s @ cs" "calls_of c (?g client) ?n ?att cs"
      using rounds_calls[OF run] by blast
    have "list_all (call_routed env uid m db) cs"
      using cs(2) ok by (auto simp: calls_of_def list_all_iff)
    with cs show ?thesis by (auto simp: turn_calls_def calls_of_def list_all_iff)
  qed
  show ?thesis
  proof (cases m)
    case ModeCredits
    have "llm_rounds env c (?g (get_llm_client (ce_cfg env))) ?n ?att no_acc s = (r, s')"
      using assms(1) by (simp add: generate_loop_def ModeCredits split_beta)
    then show ?thesis
    proof (rule calls)
      fix x :: llm_call assume "lc_key x = fst keys" "lc_provider x = get_llm_client (ce_cfg env)"
        "lc_model x = effective_model env m (snd keys) model dm" "go_dialog (lc_options x) = Some dm"
      then show "call_routed env uid m db x" using assms(2)
        by (auto simp: call_routed_def routing_def ModeCredits model_fits_def effective_model_def
            split: option.split dest: model_for_provider_fits)
    qed
  next
    case ModeByok
    then obtain key p where k: "keys = (Some key, p)" "get_plaintext_key_with_provider (ce_byok env) uid db = Inr (Some (key, p))"
      using assms(2) by (auto simp: routing_def)
    show ?thesis
    proof (cases "\<exists>q client. p = Some q \<and> llm_client_for q = Some client")
      case False
      with assms(1) have "ch_sent s' = ch_sent s"
        by (cases p) (auto simp: generate_loop_def ModeByok k(1) bind_act_def commit_def split: option.splits)
      then show ?thesis using turn_calls_Nil by auto
    next
      case True
      then obtain q client where q: "p = Some q" "llm_client_for q = Some client" by blast
      have "llm_rounds env c (?g client) ?n ?att no_acc s = (r, s')"
        using assms(1) by (simp add: generate_loop_def ModeByok k(1) q)
      then show ?thesis
      proof (rule calls)
        fix x :: llm_call assume "lc_key x = fst keys" "lc_provider x = client"
          "lc_model x = effective_model env m (snd keys) model dm" "go_dialog (lc_options x) = Some dm"
        then show "call_routed env uid m db x" using k q
          by (auto simp: call_routed_def ModeByok model_fits_def effective_model_def
              split: option.split dest: model_for_provider_fits)
      qed
    qed
  qed
qed

lemma api_key_routing:
  assumes "resolve_api_key env uid m s = (Inr keys, s')"
  shows "routing env uid m (ch_db s) keys"
  using assms by (cases m) (auto simp: resolve_api_key_def routing_def split: sum.splits option.splits)

lemma routed_cong:
  assumes "byok_keys d' = byok_keys d"
  shows "turn_calls env uid m d' tmp cs = turn_calls env uid m d tmp cs"
proof -
  have "get_plaintext_key_with_provider (ce_byok env) uid d' = get_plaintext_key_with_provider (ce_byok env) uid d"
    using assms by (simp add: get_plaintext_key_with_provider_def)
  then have "call_routed env uid m d' = call_routed env uid m d"
    by (intro ext) (simp only: call_routed_def)
  then show ?thesis by (simp add: turn_calls_def)
qed

lemma answer_calls:
  assumes "answer_turn env c sess prompt s = (r, s')"
  shows "\<exists>cs. ch_sent s' = ch_sent s @ cs \<and> turn_calls env (tx_user c) (cs_mode sess) (ch_db s) (tx_tmp c) cs"
proof -
  have none: ?thesis if "ch_sent s' = ch_sent s" using that turn_calls_Nil by auto
  obtain y s1 where au: "evaluate_turn c (cs_mode sess) s = (y, s1)" by fastforce
  have s1: "ch_sent s1 = ch_sent s" by (rule silentD[OF silent_evaluate au])
  have b: "byok_keys (ch_db s1) = byok_keys (ch_db s)"
    using au by (auto simp: evaluate_turn_def turn_audit_def on_db_def bind_act_def Let_def audit_record_frame
        split: prod.splits sum.splits)
  show ?thesis
  proof (cases "\<exists>d st. y = Inr (d, st) \<and> d_allow d")
    case False
    with assms au s1 have "ch_sent s' = ch_sent s"
      by (auto simp: answer_turn_def bind_act_def split: sum.splits)
    then show ?thesis by (rule none)
  next
    case True
    then obtain d st where y: "y = Inr (d, st)" "d_allow d" by blast
    obtain k s2 where key: "resolve_api_key env (tx_user c) (cs_mode sess) s1 = (k, s2)" by fastforce
    have s2: "s2 = s1" using key by (auto simp: resolve_api_key_def split: if_splits sum.splits option.splits)
    show ?thesis
    proof (cases k)
      case (Inl e)
      with assms au y key s2 s1 have "ch_sent s' = ch_sent s" by (simp add: answer_turn_def bind_act_def)
      then show ?thesis by (rule none)
    next
      case (Inr keys)
      obtain system att where pr: "prompt (ch_db s1) = (system, att)" by fastforce
      let ?gen = "generate_loop env c (cs_mode sess) (billing_plan_of (cs_mode sess) st) keys system att (session_model sess) (cs_dialog_mode sess)"
      from assms au y key s2 pr have go: "bind_act ?gen (\<lambda>out. bind_act (sweep_if_images env out) (\<lambda>_. ret out)) s1 = (r, s')"
        by (simp add: answer_turn_def bind_act_def Inr)
      obtain z s3 where gen: "?gen s1 = (z, s3)" by fastforce
      have "silent (bind_act (sweep_if_images env out) (\<lambda>_. ret out))" for out
        by (intro sd.moves_bind silent_sweep sd.moves_ret)
      then have s3: "ch_sent s' = ch_sent s3"
        using go gen by (cases z) (auto simp: bind_act_def dest: silentD)
      have "routing env (tx_user c) (cs_mode sess) (ch_db s1) keys"
        using api_key_routing key s2 Inr by blast
      from generate_calls[OF gen this] obtain cs where "ch_sent s3 = ch_sent s1 @ cs"
        "turn_calls env (tx_user c) (cs_mode sess) (ch_db s1) (tx_tmp c) cs" by blast
      then show ?thesis using s3 s1 routed_cong[OF b] by auto
    qed
  qed
qed

text \<open>
  C6: A request calls providers a bounded number of times and sends each key only where it belongs. A
  message makes at most one call more than the configured number of tool rounds, whatever the
  provider answers, so the request always ends. In credits mode every call goes to the provider of the instance without a
  user's key; in BYOK mode every call carries the user's stored key, to the provider that key
  belongs to and to no other. Outside the deep-thinking mode, which always names its own model, a call names no model that is not
  in the list, or the default, of the provider it goes to. The attachments travel with the first call only, and
  a temporary chat says so in every call.
\<close>

theorem provider_calls_bounded:
  "turn_calls env (rq_user rq) (request_mode env rq db) db (rq_temporary rq) (ch_sent (snd (chat_request (run env rq) db)))"
proof -
  let ?s0 = "\<lparr>ch_saved = db, ch_db = db, ch_mem_steps = [], ch_mem_calls = [], ch_sent = []\<rparr>"
  obtain x s' where run: "run env rq ?s0 = (x, s')" by fastforce
  have s: "ch_sent (snd (chat_request (run env rq) db)) = ch_sent s'"
    using run by (auto simp: chat_request_def split: sum.splits)
  show ?thesis unfolding s using run_cases[OF run]
  proof (elim disjE conjE exE)
    assume "untouched (ch_saved ?s0) (ch_sent ?s0) s'"
    then show "turn_calls env (rq_user rq) (request_mode env rq db) db (rq_temporary rq) (ch_sent s')"
      by (simp add: untouched_def turn_calls_Nil)
  next
    assume "turn_of env rq (db_gen (ch_db ?s0) (db_next (ch_db ?s0))) (request_mode env rq (ch_db ?s0))
        (begun (ch_saved ?s0) (ch_sent ?s0) (drawn (ch_db ?s0))) x s'"
    then obtain sess prompt s1 where b: "begun db [] (drawn db) s1" and m: "cs_mode sess = request_mode env rq db"
      and ans: "answer_turn env (ctx_of (rq_user rq) (db_gen db (db_next db)) (rq_temporary rq) sess) sess prompt s1 = (x, s')"
      by (auto simp: turn_of_def)
    have "ch_sent s1 = []" "byok_keys (ch_db s1) = byok_keys db"
      using b by (simp_all add: begun_def opened_def drawn_def)
    with answer_calls[OF ans] m routed_cong[of "ch_db s1" db]
    show "turn_calls env (rq_user rq) (request_mode env rq db) db (rq_temporary rq) (ch_sent s')"
      by (simp add: ctx_of_def)
  qed
qed

section \<open>A request that fails early\<close>

lemma generate_early:
  assumes "generate_loop env c m plan keys system att model dm s = (Inl e, s')" "ch_sent s' = ch_sent s"
    and "0 \<le> max_server_tool_rounds (ce_cfg env)"
  shows "ch_saved s' = ch_saved s"
proof -
  let ?n = "nat (max_server_tool_rounds (ce_cfg env) + 1)"
  have rounds: "llm_rounds env c g ?n at acc s \<noteq> (Inl e, s')" for g at acc
    using rounds_calls[of env c g ?n at acc s "Inl e" s'] assms(2,3) by auto
  show ?thesis using assms(1) rounds
    by (auto simp: generate_loop_def Let_def split_beta bind_act_def commit_def split: if_splits option.splits)
qed

lemma answer_early:
  assumes "answer_turn env c sess prompt s = (Inl e, s')" "ch_sent s' = ch_sent s"
    and "0 \<le> max_server_tool_rounds (ce_cfg env)"
  shows "ch_saved s' = ch_saved s"
proof -
  obtain y s1 where au: "evaluate_turn c (cs_mode sess) s = (y, s1)" by fastforce
  have s1: "ch_sent s1 = ch_sent s" "ch_saved s1 = ch_saved s"
    using au by (auto simp: evaluate_turn_def turn_audit_def on_db_def bind_act_def Let_def split: prod.splits sum.splits)
  show ?thesis
  proof (cases "\<exists>d st. y = Inr (d, st) \<and> d_allow d")
    case False
    with assms(1) au s1 show ?thesis by (auto simp: answer_turn_def bind_act_def split: sum.splits)
  next
    case True
    then obtain d st where y: "y = Inr (d, st)" "d_allow d" by blast
    obtain k s2 where key: "resolve_api_key env (tx_user c) (cs_mode sess) s1 = (k, s2)" by fastforce
    have s2: "s2 = s1" using key by (auto simp: resolve_api_key_def split: if_splits sum.splits option.splits)
    show ?thesis
    proof (cases k)
      case (Inl e')
      with assms(1) au y key s2 s1 show ?thesis by (simp add: answer_turn_def bind_act_def)
    next
      case (Inr keys)
      obtain system att where pr: "prompt (ch_db s1) = (system, att)" by fastforce
      let ?gen = "generate_loop env c (cs_mode sess) (billing_plan_of (cs_mode sess) st) keys system att (session_model sess) (cs_dialog_mode sess)"
      from assms(1) au y key s2 pr have go: "bind_act ?gen (\<lambda>out. bind_act (sweep_if_images env out) (\<lambda>_. ret out)) s1 = (Inl e, s')"
        by (simp add: answer_turn_def bind_act_def Inr)
      have "fst (bind_act (sweep_if_images env out) (\<lambda>_. ret out) t) \<noteq> Inl e" for out t
        by (simp add: sweep_if_images_def maybe_sweep_expired_images_def bind_act_def Let_def commit_def)
      then have "?gen s1 = (Inl e, s')" using go
        by (auto simp: bind_act_def[of ?gen] split: prod.splits sum.splits) (metis fst_conv)
      then show ?thesis using generate_early assms(2,3) s1 by metis
    qed
  qed
qed

text \<open>
  C7: A message that fails before any provider was called leaves the database exactly as it was: no session,
  no step, no truncated history, no trace in the audit log, whichever check, validation, policy or key
  lookup raised.
\<close>

theorem early_failure_leaves_nothing:
  assumes "chat_request (run env rq) db = (Inl e, s)" "ch_sent s = []" "0 \<le> max_server_tool_rounds (ce_cfg env)"
  shows "ch_saved s = db \<and> ch_db s = db"
proof -
  let ?s0 = "\<lparr>ch_saved = db, ch_db = db, ch_mem_steps = [], ch_mem_calls = [], ch_sent = []\<rparr>"
  obtain s' where run: "run env rq ?s0 = (Inl e, s')" and s: "s = s'\<lparr>ch_db := ch_saved s'\<rparr>"
    using assms(1) by (auto simp: chat_request_def split: prod.splits sum.splits)
  have "ch_saved s' = db" using run_cases[OF run]
  proof (elim disjE conjE exE)
    assume "untouched (ch_saved ?s0) (ch_sent ?s0) s'"
    then show ?thesis by (simp add: untouched_def)
  next
    assume "turn_of env rq (db_gen (ch_db ?s0) (db_next (ch_db ?s0))) (request_mode env rq (ch_db ?s0))
        (begun (ch_saved ?s0) (ch_sent ?s0) (drawn (ch_db ?s0))) (Inl e) s'"
    then obtain c sess prompt s1 where "begun db [] (drawn db) s1" "answer_turn env c sess prompt s1 = (Inl e, s')"
      by (auto simp: turn_of_def)
    then show ?thesis using answer_early assms(2,3) s by (fastforce simp: begun_def)
  qed
  then show ?thesis by (simp add: s)
qed

lemma demo_unsupported:
  "chat_request (run demo_chat (demo_request\<lparr>rq_model := Some ''x''\<rparr>)) demo_chat_db =
    (Inl UnsupportedModelError, \<lparr>ch_saved = demo_chat_db, ch_db = demo_chat_db, ch_mem_steps = [], ch_mem_calls = [], ch_sent = []\<rparr>)"
proof -
  have m: "map_of (allowed_models (ce_loads demo_chat) (ce_cfg demo_chat)) (py_strip ''x'') = None"
    by code_simp
  show ?thesis
    by (simp add: chat_request_def run_def on_db_def fresh_uuid_def bind_act_def demo_request_def run_turn_def
        will_create_session_def creation_checks_def m)
qed

lemma early_failure_leaves_nothing_witness:
  "ch_saved (snd (chat_request (run demo_chat (demo_request\<lparr>rq_model := Some ''x''\<rparr>)) demo_chat_db)) = demo_chat_db"
proof -
  have "0 \<le> max_server_tool_rounds (ce_cfg demo_chat)"
    by (simp add: ce_cfg_def demo_chat_def demo_tools_def site_env.extend_def demo_site_def demo_cfg_def)
  from early_failure_leaves_nothing[OF demo_unsupported _ this] show ?thesis
    by (simp add: demo_unsupported)
qed

section \<open>A temporary chat\<close>

text \<open>The tables of the chats: nothing of a temporary chat is in them.\<close>

definition chat_tables :: "db \<Rightarrow> session_row list \<times> step_row list \<times> int \<times> tool_call_row list" where
  "chat_tables d = (sessions d, steps d, next_seq d, tool_calls d)"

lemma chat_tables_calm: "calm d d' \<Longrightarrow> chat_tables d' = chat_tables d"
  by (simp add: chat_tables_def calm_sel)

lemma chat_tables_consume:
  assumes "consume uid amount key meta fs d = (Inr w, d')"
  shows "chat_tables d' = chat_tables d"
proof -
  have "\<exists>W L A n. d' = d\<lparr>wallets := W, ledger := L, audit_logs := A, db_next := n\<rparr>"
  proof -
    consider "fresh_outcome uid Debit amount meta key d w d'" | "replay_outcome uid Debit amount key d w d'"
      using consume_Inr[OF assms] by blast
    then show ?thesis
    proof cases
      case 1
      then obtain log where "d' = posted uid Debit amount meta key log d" by (auto simp: fresh_outcome_def)
      then show ?thesis unfolding posted_def by (intro exI) (rule db.equality; simp)
    next
      case 2
      then have "d' = touched uid d" by (simp add: replay_outcome_def)
      then show ?thesis unfolding touched_def
        by (intro exI[of _ "(wallets d)(uid \<mapsto> current_balance uid d)"] exI[of _ "ledger d"] exI[of _ "audit_logs d"] exI[of _ "db_next d"])
          simp
    qed
  qed
  then show ?thesis by (auto simp: chat_tables_def)
qed

lemma chat_tables_expire: "mark_expired uid d = (Inr x, d') \<Longrightarrow> chat_tables d' = chat_tables d"
  by (auto simp: mark_expired_def demote_def byok_put_Inr chat_tables_def
      elim!: bind_act_Inr_E dest!: audit_record_Inr split: option.splits)

lemma chat_tables_frames:
  "insert_generated_image env c tc content ct prompt d = (r, d') \<Longrightarrow> chat_tables d' = chat_tables d"
  "mark_trial_used uid d = (q, d') \<Longrightarrow> chat_tables d' = chat_tables d"
  "chat_tables (d\<lparr>generated_images := gs\<rparr>) = chat_tables d"
  by (auto simp: insert_generated_image_def mark_trial_used_def Let_def chat_tables_def split: if_splits option.splits)

lemma both_same_tables:
  assumes "both (\<lambda>d. K (chat_tables d)) env s" "chat_tables (ch_db s') = chat_tables (ch_db s)" "ch_saved s' = ch_saved s"
  shows "both (\<lambda>d. K (chat_tables d)) env s'"
  using assms by (simp add: both_def)

interpretation tmpf: request_fact "both (\<lambda>d. K (chat_tables d)) env" "saved (\<lambda>d. K (chat_tables d)) env" "\<lambda>_. True" env uid True
  for K env uid
proof unfold_locales
  fix s d fs ev pl assume "both (\<lambda>d. K (chat_tables d)) env s" "audit_record uid fs ev pl (ch_db s) = (Inr (), d)"
  then show "both (\<lambda>d. K (chat_tables d)) env (s\<lparr>ch_db := d\<rparr>)"
    by (auto elim!: both_same_tables dest!: movesD[OF calm_audit] intro: chat_tables_calm)
next
  fix s tcid d assume "both (\<lambda>d. K (chat_tables d)) env s" "fresh_uuid (ch_db s) = (Inr tcid, d)"
  then show "both (\<lambda>d. K (chat_tables d)) env (s\<lparr>ch_db := d\<rparr>) \<and> True"
    using chat_tables_calm[OF calm_upd(3)[of "ch_db s"] ] by (auto elim!: both_same_tables simp: fresh_uuid_def)
next
  fix s now name args ext fs ex d
  assume "both (\<lambda>d. K (chat_tables d)) env s" "site_execute (ce_tool env) now name args uid ext fs (ch_db s) = (Inr ex, d)"
  then show "both (\<lambda>d. K (chat_tables d)) env (s\<lparr>ch_db := d\<rparr>)"
    by (auto elim!: both_same_tables dest!: calm_site intro: chat_tables_calm)
next
  fix s tcid meta fs w d
  assume "both (\<lambda>d. K (chat_tables d)) env s"
    "consume uid (image_credits_cost (ce_cfg env)) (str_uuid tcid) meta fs (ch_db s) = (Inr w, d)"
  then show "both (\<lambda>d. K (chat_tables d)) env (s\<lparr>ch_db := d\<rparr>)"
    by (auto elim!: both_same_tables dest: chat_tables_consume)
next
  fix s turn meta fs w d
  assume "both (\<lambda>d. K (chat_tables d)) env s" "consume uid 1 (str_uuid turn) meta fs (ch_db s) = (Inr w, d)"
  then show "both (\<lambda>d. K (chat_tables d)) env (s\<lparr>ch_db := d\<rparr>)"
    by (auto elim!: both_same_tables dest: chat_tables_consume)
next
  fix s c tc content ct prompt tcid d
  assume "both (\<lambda>d. K (chat_tables d)) env s" "insert_generated_image env c tc content ct prompt (ch_db s) = (Inr tcid, d)"
  then show "both (\<lambda>d. K (chat_tables d)) env (s\<lparr>ch_db := d\<rparr>)"
    by (auto elim!: both_same_tables dest: chat_tables_frames(1,2))
next
  fix s d assume "both (\<lambda>d. K (chat_tables d)) env s" "mark_expired uid (ch_db s) = (Inr (), d)"
  then show "both (\<lambda>d. K (chat_tables d)) env (s\<lparr>ch_db := d\<rparr>)"
    by (auto elim!: both_same_tables dest: chat_tables_expire)
next
  fix s b d assume "both (\<lambda>d. K (chat_tables d)) env s" "mark_trial_used uid (ch_db s) = (Inr b, d)"
  then show "both (\<lambda>d. K (chat_tables d)) env (s\<lparr>ch_db := d\<rparr>)"
    by (auto elim!: both_same_tables dest: chat_tables_frames(1,2))
next
  fix s sid mid ro sp us fs s'
  assume "both (\<lambda>d. K (chat_tables d)) env s" "add_step True sid mid ro sp us s = (Inr fs, s')"
  then show "both (\<lambda>d. K (chat_tables d)) env s'" by (auto elim!: both_same_tables simp: add_step_def)
next
  fix s sid mid name args tcid pid s'
  assume "both (\<lambda>d. K (chat_tables d)) env s" "create_tool_call True sid mid name args tcid pid s = (Inr (), s')"
  then show "both (\<lambda>d. K (chat_tables d)) env s'" by (auto elim!: both_same_tables simp: create_tool_call_def)
next
  fix s tcid st res b s'
  assume "both (\<lambda>d. K (chat_tables d)) env s" "complete_tool_call True tcid st res s = (Inr b, s')"
  then show "both (\<lambda>d. K (chat_tables d)) env s'"
    by (auto elim!: both_same_tables simp: complete_tool_call_def mem_complete_def split: option.splits if_splits)
next
  fix s P assume "both (\<lambda>d. K (chat_tables d)) env s"
  then show "both (\<lambda>d. K (chat_tables d)) env (s\<lparr>ch_db := (ch_db s)\<lparr>generated_images := filter P (generated_images (ch_db s))\<rparr>\<rparr>)"
    by (auto elim!: both_same_tables simp: chat_tables_frames)
next
  fix s seeded assume "both (\<lambda>d. K (chat_tables d)) env s"
  then show "both (\<lambda>d. K (chat_tables d)) env (s\<lparr>ch_mem_steps := seeded, ch_mem_calls := []\<rparr>)"
    by (auto elim!: both_same_tables)
qed (auto intro: both_fail saved_undo both_commit both_call)

text \<open>
  C8: A temporary chat leaves no trace in the chat history. Whatever is true of the tables of sessions, steps and
  tool calls, and stays true of them under what other requests commit meanwhile, is true of them after a
  temporary message as well, whatever the provider answers and whichever tools and images the turn goes through:
  in particular, when nobody else writes them, they are unchanged.
\<close>

theorem temporary_chat_unrecorded:
  assumes "rq_temporary rq" "K (chat_tables db)" "\<And>k d. K (chat_tables d) \<Longrightarrow> K (chat_tables (ce_others env k d))"
  shows "K (chat_tables (ch_saved (snd (chat_request (run env rq) db))))"
proof -
  have "keeps (both (\<lambda>d. K (chat_tables d)) env) (saved (\<lambda>d. K (chat_tables d)) env) (\<lambda>_. True) (run env rq)"
    by (rule tmpf.keeps_run[OF refl]) (simp add: assms(1))
  moreover have "relies (\<lambda>d. K (chat_tables d)) env" using assms(3) by (simp add: relies_def)
  ultimately show ?thesis using request_both[of "\<lambda>d. K (chat_tables d)" env] assms(2) by blast
qed

lemma temporary_chat_unrecorded_witness:
  "chat_tables (ch_saved (snd (chat_request (run demo_chat (demo_request\<lparr>rq_temporary := True\<rparr>)) demo_chat_db))) = ([], [], 1, [])"
  by (rule temporary_chat_unrecorded[where K = "\<lambda>t. t = ([], [], 1, [])"])
    (simp_all add: chat_tables_def demo_chat_db_def empty_db_def demo_chat_def)

end
