(* ===== verification/Pagination.thy ===== *)
theory Pagination
  imports ServerTools
begin

text \<open>
  Keyset pagination as the list endpoints do it: the opaque cursors of chats, workspaces and images
  (\<^verbatim>\<open>app/chats/cursor.py\<close>, \<^verbatim>\<open>app/workspaces/cursor.py\<close>, \<^verbatim>\<open>app/chat/image_cursor.py\<close>), the cut of a
  page out of one row more than asked for, and the contract that makes a walk over the pages complete:
  the cursor of a row continues right behind that row. UTF-8 decoding and \<^verbatim>\<open>datetime.fromisoformat\<close> are
  parameters.
\<close>

section \<open>Opaque cursors\<close>

record cursor_env =
  cu_utf8 :: "bytes \<Rightarrow> string option"
  cu_iso :: from_iso

text \<open>\<^verbatim>\<open>raw.split("|", n)\<close>.\<close>

fun split_limit :: "nat \<Rightarrow> string \<Rightarrow> string list" where
  "split_limit 0 s = [s]"
| "split_limit (Suc n) s = (case split_on CHR ''|'' s of
     p # q # ps \<Rightarrow> p # split_limit n (join_with ''|'' (q # ps)) | _ \<Rightarrow> [s])"

definition cursor_text :: "string \<Rightarrow> string" where
  "cursor_text raw = map url_char (b64_encode (utf8_encode raw))"

definition cursor_raw :: "'a cursor_env_scheme \<Rightarrow> string \<Rightarrow> string option" where
  "cursor_raw env value = (if list_all (\<lambda>c. (of_char c :: nat) < 128) value
     then (case b64_decode (map std_char value) of None \<Rightarrow> None | Some bs \<Rightarrow> cu_utf8 env bs) else None)"

record chat_cursor =
  cc_pinned :: bool
  cc_updated :: time
  cc_id :: uuid

text \<open>\<^verbatim>\<open>None\<close> for an instant without a date.\<close>

definition chat_cursor_encode :: "chat_cursor \<Rightarrow> string option" where
  "chat_cursor_encode c = map_option (\<lambda>iso. cursor_text
     (str_int (if cc_pinned c then 1 else 0) @ ''|'' @ iso @ ''|'' @ str_uuid (cc_id c))) (isoformat (cc_updated c) 0)"

definition chat_cursor_decode :: "'a cursor_env_scheme \<Rightarrow> string \<Rightarrow> chat_cursor option" where
  "chat_cursor_decode env value = (case cursor_raw env value of
     None \<Rightarrow> None
   | Some raw \<Rightarrow> (case split_limit 2 raw of
       [pinned_str, updated_str, id_str] \<Rightarrow> (case cu_iso env updated_str of
           None \<Rightarrow> None
         | Some updated \<Rightarrow> (case (py_int pinned_str, parse_uuid id_str) of
             (Some p, Some i) \<Rightarrow> Some \<lparr>cc_pinned = (p \<noteq> 0), cc_updated = as_utc updated, cc_id = i\<rparr>
           | _ \<Rightarrow> None))
     | _ \<Rightarrow> None))"

text \<open>The cursors of workspaces and images have the same code over a pair of an instant and an identifier.\<close>

definition pair_cursor_encode :: "time \<times> uuid \<Rightarrow> string option" where
  "pair_cursor_encode c = map_option (\<lambda>iso. cursor_text (iso @ ''|'' @ str_uuid (snd c))) (isoformat (fst c) 0)"

definition pair_cursor_decode :: "'a cursor_env_scheme \<Rightarrow> string \<Rightarrow> (time \<times> uuid) option" where
  "pair_cursor_decode env value = (case cursor_raw env value of
     None \<Rightarrow> None
   | Some raw \<Rightarrow> (case split_limit 1 raw of
       [time_str, id_str] \<Rightarrow> (case cu_iso env time_str of
           None \<Rightarrow> None
         | Some t \<Rightarrow> map_option (\<lambda>i. (as_utc t, i)) (parse_uuid id_str))
     | _ \<Rightarrow> None))"

text \<open>Where the cursor of an instant is read back: UTF-8 decodes what was encoded, and \<^verbatim>\<open>fromisoformat\<close>
  reads what \<^verbatim>\<open>isoformat\<close> wrote.\<close>

definition time_token_ok :: "'a cursor_env_scheme \<Rightarrow> time \<Rightarrow> bool" where
  "time_token_ok env t = (case isoformat t 0 of None \<Rightarrow> False | Some s \<Rightarrow> cu_iso env s = Some (Aware t))"

definition utf8_ok :: "'a cursor_env_scheme \<Rightarrow> bool" where
  "utf8_ok env \<longleftrightarrow> (\<forall>s. cu_utf8 env (utf8_encode s) = Some s)"

lemma url_std: "map std_char (map url_char (b64_encode bs)) = b64_encode bs"
  and url_ascii: "list_all (\<lambda>c. (of_char c :: nat) < 128) (map url_char (b64_encode bs))"
proof -
  obtain xs n where x: "map url_char (b64_encode bs) = xs @ replicate n CHR ''=''"
    "list_all (\<lambda>c. (of_char c :: nat) < 128) xs" "map std_char (xs @ replicate n CHR ''='') = b64_encode bs"
    using encode_split by blast
  have "(of_char CHR ''='' :: nat) < 128" by code_simp
  with x show "map std_char (map url_char (b64_encode bs)) = b64_encode bs"
    "list_all (\<lambda>c. (of_char c :: nat) < 128) (map url_char (b64_encode bs))" by (auto simp: list_all_iff)
qed

lemma cursor_raw_text: "utf8_ok env \<Longrightarrow> cursor_raw env (cursor_text raw) = Some raw"
  using url_std url_ascii by (simp add: cursor_raw_def cursor_text_def b64_decode_encode utf8_ok_def)

lemma cursor_text_nonempty:
  assumes "utf8_ok env" "raw \<noteq> []"
  shows "cursor_text raw \<noteq> []"
proof
  assume "cursor_text raw = []"
  moreover have "cursor_text [] = []" by (simp add: cursor_text_def utf8_encode_def)
  ultimately have "Some raw = Some []" using cursor_raw_text[OF assms(1)] by metis
  with assms(2) show False by simp
qed

lemma str_nat_plain: "CHR ''|'' \<notin> set (str_nat n)"
proof -
  have "dec_val CHR ''|'' = None" by code_simp
  moreover have "\<forall>c \<in> set (str_nat n). dec_val c \<noteq> None"
    using str_nat_digits[of n, THEN conjunct2, THEN conjunct2] unfolding list_all_iff by blast
  ultimately show ?thesis by metis
qed

lemma pad_plain: "CHR ''|'' \<notin> set (pad_int w i)"
  using str_nat_plain by (simp add: pad_int_def Let_def)

lemma offset_plain: "CHR ''|'' \<notin> set (iso_offset off)"
  unfolding iso_offset_def Let_def by (simp only: set_append Un_iff pad_plain split: if_split) simp

lemma iso_plain:
  assumes "isoformat t off = Some s"
  shows "CHR ''|'' \<notin> set s"
proof -
  obtain y m d where "civil ((t + off) div US_PER_DAY) = (y, m, d)" by (metis prod_cases3)
  with assms show ?thesis by (clarsimp simp: isoformat_def Let_def pad_plain offset_plain split: if_splits)
qed

lemma uuid_plain: "CHR ''|'' \<notin> set (str_uuid u)"
  using str_uuid_chars[of u] by auto

lemma split_fields:
  "CHR ''|'' \<notin> set a \<Longrightarrow> CHR ''|'' \<notin> set b \<Longrightarrow> split_limit 1 (a @ ''|'' @ b) = [a, b]"
  "CHR ''|'' \<notin> set a \<Longrightarrow> CHR ''|'' \<notin> set b \<Longrightarrow> CHR ''|'' \<notin> set c \<Longrightarrow>
     split_limit 2 (a @ ''|'' @ b @ ''|'' @ c) = [a, b, c]"
  by (simp_all add: split_on_append split_on_single numeral_2_eq_2)

lemma flag_int: "py_int (str_int 0) = Some 0" "py_int (str_int 1) = Some 1"
  by code_simp+

lemma flag_plain: "CHR ''|'' \<notin> set (str_int 0)" "CHR ''|'' \<notin> set (str_int 1)"
  by code_simp+

lemma chat_cursor_roundtrip:
  assumes "utf8_ok env" "time_token_ok env (cc_updated c)"
  shows "\<exists>s. chat_cursor_encode c = Some s \<and> s \<noteq> [] \<and> chat_cursor_decode env s = Some c"
proof -
  obtain iso where iso: "isoformat (cc_updated c) 0 = Some iso" "cu_iso env iso = Some (Aware (cc_updated c))"
    using assms(2) by (auto simp: time_token_ok_def split: option.splits)
  let ?p = "if cc_pinned c then 1 else (0 :: int)"
  let ?raw = "str_int ?p @ ''|'' @ iso @ ''|'' @ str_uuid (cc_id c)"
  have p: "py_int (str_int ?p) = Some ?p" using flag_int by simp
  have "split_limit 2 ?raw = [str_int ?p, iso, str_uuid (cc_id c)]"
    by (rule split_fields(2)) (use iso_plain[OF iso(1)] uuid_plain flag_plain in auto)
  moreover have "cursor_text ?raw \<noteq> []"
    by (rule cursor_text_nonempty[OF assms(1)]) simp
  ultimately show ?thesis
    using iso p cursor_raw_text[OF assms(1)] by (simp add: chat_cursor_encode_def chat_cursor_decode_def as_utc_def del: append.simps)
qed

lemma pair_cursor_roundtrip:
  assumes "utf8_ok env" "time_token_ok env (fst c)"
  shows "\<exists>s. pair_cursor_encode c = Some s \<and> s \<noteq> [] \<and> pair_cursor_decode env s = Some c"
proof -
  obtain iso where iso: "isoformat (fst c) 0 = Some iso" "cu_iso env iso = Some (Aware (fst c))"
    using assms(2) by (auto simp: time_token_ok_def split: option.splits)
  let ?raw = "iso @ ''|'' @ str_uuid (snd c)"
  have "split_limit 1 ?raw = [iso, str_uuid (snd c)]"
    by (rule split_fields(1)) (use iso_plain[OF iso(1)] uuid_plain in auto)
  moreover have "cursor_text ?raw \<noteq> []"
    by (rule cursor_text_nonempty[OF assms(1)]) simp
  ultimately show ?thesis
    using iso cursor_raw_text[OF assms(1)] by (simp add: pair_cursor_encode_def pair_cursor_decode_def as_utc_def del: append.simps)
qed

section \<open>Pages\<close>

text \<open>The page cut out of the fetched rows, at most one more than asked for, and the cursor of its last row
  when there is more.\<close>

definition cut_page :: "('r \<Rightarrow> string option) \<Rightarrow> nat \<Rightarrow> 'r list \<Rightarrow> 'r list \<times> string option" where
  "cut_page token limit rows = (let page_rows = take limit rows in
     (page_rows, if limit < length rows \<and> page_rows \<noteq> [] then token (last page_rows) else None))"

text \<open>A client that follows the cursors, with a bound on the number of requests.\<close>

fun follow :: "(string option \<Rightarrow> 'e + 'r list \<times> string option) \<Rightarrow> nat \<Rightarrow> string option \<Rightarrow> 'e + 'r list list" where
  "follow request 0 cursor = Inr []"
| "follow request (Suc n) cursor = (case request cursor of
     Inl e \<Rightarrow> Inl e
   | Inr (rs, None) \<Rightarrow> Inr [rs]
   | Inr (rs, Some next_cursor) \<Rightarrow> (case follow request n (Some next_cursor) of Inl e \<Rightarrow> Inl e | Inr ps \<Rightarrow> Inr (rs # ps)))"

text \<open>Rows strictly behind a row in a strictly sorted list.\<close>

lemma behind_row:
  assumes "sorted_wrt before (as @ r # bs)" "\<And>x. \<not> before x x" "\<And>x y z. before x y \<Longrightarrow> before y z \<Longrightarrow> before x z"
  shows "filter (before r) (as @ r # bs) = bs"
proof -
  have "\<not> before r a" if "a \<in> set as" for a
    using assms that by (metis list.set_intros(1) sorted_wrt_append)
  then show ?thesis using assms(1,2) by (auto simp: sorted_wrt_append filter_id_conv filter_empty_conv)
qed

text \<open>A strict version of an order the rows are sorted by, where no two rows are equal in it.\<close>

lemma sorted_strict:
  assumes "sorted_wrt le rs" "distinct (map key rs)"
    and "\<And>a b. a \<in> set rs \<Longrightarrow> b \<in> set rs \<Longrightarrow> le a b \<Longrightarrow> key a \<noteq> key b \<Longrightarrow> before a b"
  shows "sorted_wrt before rs"
  using assms by (induction rs) (auto simp: image_iff)

text \<open>A query filters and then sorts; the rows of the sorted list are filtered alike.\<close>

lemma filter_insert_by:
  assumes "\<And>a b c. le a b \<Longrightarrow> le b c \<Longrightarrow> le a c" "sorted_wrt le ys"
  shows "filter P (insert_by le x ys) = (if P x then insert_by le x (filter P ys) else filter P ys)"
  using assms(2)
proof (induction ys)
  case (Cons y ys)
  have "insert_by le x (filter P ys) = x # filter P ys" if "le x y"
  proof (cases "filter P ys")
    case (Cons z zs)
    have "z \<in> set (filter P ys)" unfolding Cons by simp
    then have "z \<in> set ys" by simp
    then show ?thesis using Cons.prems assms(1)[OF that] Cons \<open>sorted_wrt le (y # ys)\<close> by simp
  qed simp
  with Cons show ?case by auto
qed simp

lemma filter_sort_by:
  assumes "\<And>a b. le a b \<or> le b a" "\<And>a b c. le a b \<Longrightarrow> le b c \<Longrightarrow> le a c"
  shows "sort_by le (filter P xs) = filter P (sort_by le xs)"
proof (induction xs)
  case (Cons x xs)
  show ?case using filter_insert_by[of le "sort_by le xs" P x, OF assms(2) sort_by_sorted[OF assms]] Cons by simp
qed simp

lemma cut_page_fetched: "cut_page token n (take (n + 1) rows) = cut_page token n rows"
  by (simp add: cut_page_def min_def)

lemma cut_page_map: "cut_page token n (map f rows) = apfst (map f) (cut_page (\<lambda>r. token (f r)) n rows)"
  by (simp add: cut_page_def Let_def take_map last_map)

text \<open>
  The contract of a list endpoint: without a cursor it lists from the first row, with the cursor of a row
  from the row behind it.
\<close>

locale keyset_list =
  fixes good :: "'s \<Rightarrow> bool" and rows :: "'s \<Rightarrow> 'r list" and token :: "'r \<Rightarrow> string option"
    and request :: "'s \<Rightarrow> nat \<Rightarrow> string option \<Rightarrow> 'e + 'r list \<times> string option"
  assumes token_some: "good s \<Longrightarrow> r \<in> set (rows s) \<Longrightarrow> token r \<noteq> None"
    and from_start: "good s \<Longrightarrow> request s n None = Inr (cut_page token n (rows s))"
    and from_token: "good s \<Longrightarrow> rows s = as @ r # bs \<Longrightarrow> request s n (token r) = Inr (cut_page token n bs)"
begin

lemma cut_cases:
  assumes "0 < n" "\<And>r. r \<in> set rs \<Longrightarrow> token r \<noteq> None"
  obtains "length rs \<le> n" "cut_page token n rs = (rs, None)"
  | ys r zs where "rs = ys @ r # zs" "length ys = n - 1" "cut_page token n rs = (ys @ [r], token r)" "token r \<noteq> None"
proof (cases "length rs \<le> n")
  case True
  then show thesis by (intro that(1)) (simp_all add: cut_page_def)
next
  case False
  let ?p = "take n rs"
  have ne: "?p \<noteq> []" using False assms(1) by auto
  then have p: "?p = butlast ?p @ [last ?p]" by simp
  have rs: "rs = butlast ?p @ last ?p # drop n rs"
    using p by (metis append_Cons append_assoc append_take_drop_id self_append_conv2)
  show thesis
  proof (rule that(2)[OF rs])
    show "length (butlast ?p) = n - 1" using False by simp
    show "cut_page token n rs = (butlast ?p @ [last ?p], token (last ?p))"
      using False ne by (simp add: cut_page_def Let_def)
    show "token (last ?p) \<noteq> None" using assms(2) rs by (metis in_set_conv_decomp)
  qed
qed

lemma follow_rows:
  assumes "good s" "0 < n" "rows s = as @ rs" "length rs < f"
    and "request s n c = Inr (cut_page token n rs)"
  shows "\<exists>ps. follow (request s n) f c = Inr ps \<and> concat ps = rs
    \<and> (\<forall>p \<in> set (butlast ps). length p = n) \<and> (\<forall>p \<in> set ps. length p \<le> n)"
  using assms(3-)
proof (induction f arbitrary: as rs c)
  case (Suc f)
  have tk: "\<And>r. r \<in> set rs \<Longrightarrow> token r \<noteq> None" using token_some[OF assms(1)] Suc.prems(1) by simp
  show ?case
  proof (rule cut_cases[OF assms(2) tk])
    assume "length rs \<le> n" "cut_page token n rs = (rs, None)"
    then show ?thesis using Suc.prems(3) by simp
  next
    fix ys r zs
    assume c: "rs = ys @ r # zs" "length ys = n - 1" "cut_page token n rs = (ys @ [r], token r)" "token r \<noteq> None"
    then obtain t where t: "token r = Some t" by blast
    have d: "rows s = (as @ ys) @ r # zs" using Suc.prems(1) c(1) by simp
    have "request s n (Some t) = Inr (cut_page token n zs)" using from_token[OF assms(1) d] t by simp
    moreover have "rows s = ((as @ ys) @ [r]) @ zs" using d by simp
    moreover have "length zs < f" using Suc.prems(2) c(1) by simp
    ultimately obtain ps where ps: "follow (request s n) f (Some t) = Inr ps" "concat ps = zs"
      "\<forall>p \<in> set (butlast ps). length p = n" "\<forall>p \<in> set ps. length p \<le> n"
      using Suc.IH by blast
    then show ?thesis using c t Suc.prems(3) assms(2) by (intro exI[of _ "(ys @ [r]) # ps"]) auto
  qed
qed simp

text \<open>Following the cursors from the start lists every row exactly once, in the order of the list, on full
  pages but the last.\<close>

lemma walk_complete:
  assumes "good s" "0 < n" "length (rows s) < f"
  shows "\<exists>ps. follow (request s n) f None = Inr ps \<and> concat ps = rows s
    \<and> (\<forall>p \<in> set (butlast ps). length p = n) \<and> (\<forall>p \<in> set ps. length p \<le> n)"
  by (rule follow_rows[OF assms(1,2) _ assms(3) from_start[OF assms(1)], of "[]"]) simp

end

section \<open>UTF-8 of characters up to 255\<close>

fun latin_utf8 :: "bytes \<Rightarrow> string option" where
  "latin_utf8 [] = Some []"
| "latin_utf8 [b] = (if unat b < 128 then Some [char_of (unat b)] else None)"
| "latin_utf8 (b # c # cs) =
    (if unat b < 128 then map_option (Cons (char_of (unat b))) (latin_utf8 (c # cs))
     else map_option (Cons (char_of ((unat b - 192) * 64 + (unat c - 128)))) (latin_utf8 cs))"

lemma latin_utf8_encode: "latin_utf8 (utf8_encode s) = Some s"
proof (induction s)
  case (Cons c s)
  let ?n = "of_char c :: nat"
  have n: "?n < 256" by (rule nat_of_char_less_256)
  show ?case
  proof (cases "?n < 128")
    case True
    have "latin_utf8 (of_nat ?n # utf8_encode s) = Some (c # s)"
      using Cons True n by (cases "utf8_encode s") (simp_all add: unsigned_of_nat take_bit_nat_eq_self)
    with True show ?thesis by (simp add: utf8_encode_def Let_def)
  next
    case False
    have "?n < 4096" using n by linarith
    then have u: "unat (of_nat (192 + ?n div 64) :: 8 word) = 192 + ?n div 64"
      "unat (of_nat (128 + ?n mod 64) :: 8 word) = 128 + ?n mod 64"
      by (simp_all only: unsigned_of_nat) (simp_all add: take_bit_nat_eq_self)
    have "latin_utf8 (of_nat (192 + ?n div 64) # of_nat (128 + ?n mod 64) # utf8_encode s) = Some (c # s)"
      using Cons u by (simp only: latin_utf8.simps) simp
    with False show ?thesis by (simp add: utf8_encode_def Let_def)
  qed
qed (simp add: utf8_encode_def)

section \<open>Lists ordered by an instant and an identifier\<close>

definition pair_order :: "time \<times> uuid \<Rightarrow> time \<times> uuid \<Rightarrow> bool" where
  "pair_order a b = (fst b < fst a \<or> (fst a = fst b \<and> snd b \<le> snd a))"

definition after_pair :: "time \<times> uuid \<Rightarrow> time \<times> uuid \<Rightarrow> bool" where
  "after_pair c k = (fst k < fst c \<or> (fst k = fst c \<and> snd k < snd c))"

definition pair_sorted :: "('r \<Rightarrow> time \<times> uuid) \<Rightarrow> 'r list \<Rightarrow> 'r list" where
  "pair_sorted key rs = sort_by (\<lambda>a b. pair_order (key a) (key b)) rs"

lemma pair_order_total: "pair_order a b \<or> pair_order b a"
  by (auto simp: pair_order_def)

lemma pair_order_trans: "pair_order a b \<Longrightarrow> pair_order b c \<Longrightarrow> pair_order a c"
  by (auto simp: pair_order_def)

lemma pair_sorted_set [simp]: "set (pair_sorted key rs) = set rs" "length (pair_sorted key rs) = length rs"
  by (simp_all add: pair_sorted_def)

lemma map_insert_by_distinct: "distinct (map f (insert_by le x xs)) \<longleftrightarrow> distinct (map f (x # xs))"
  by (induction xs) auto

lemma map_sort_by_distinct: "distinct (map f (sort_by le xs)) \<longleftrightarrow> distinct (map f xs)"
  by (induction xs) (auto simp: map_insert_by_distinct)

lemma pair_sorted_resume:
  assumes "distinct (map (\<lambda>r. snd (key r)) xs)" "pair_sorted key (filter P xs) = as @ r # bs"
  shows "pair_sorted key (filter (\<lambda>x. P x \<and> after_pair (key r) (key x)) xs) = bs"
proof -
  let ?le = "\<lambda>a b. pair_order (key a) (key b)" and ?before = "\<lambda>a b. after_pair (key a) (key b)"
  have s: "sorted_wrt ?le (as @ r # bs)" unfolding assms(2)[symmetric] pair_sorted_def
    by (rule sort_by_sorted[OF pair_order_total pair_order_trans])
  have d: "distinct (map (\<lambda>r. snd (key r)) (as @ r # bs))"
    unfolding assms(2)[symmetric] pair_sorted_def map_sort_by_distinct using assms(1) by (simp add: distinct_map_filter)
  have "sorted_wrt ?before (as @ r # bs)"
    by (rule sorted_strict[OF s d]) (auto simp: pair_order_def after_pair_def)
  then have "filter (?before r) (as @ r # bs) = bs" by (rule behind_row) (auto simp: after_pair_def)
  moreover have "filter (\<lambda>x. P x \<and> after_pair (key r) (key x)) xs = filter (?before r) (filter P xs)"
    by (simp add: conj_commute)
  ultimately show ?thesis using assms(2) filter_sort_by[of ?le "?before r" "filter P xs", OF pair_order_total pair_order_trans]
    by (simp add: pair_sorted_def)
qed

end
