(* ===== verification/Chats.thy ===== *)
theory Chats
  imports Pagination ChatPrompt Workspaces
begin

text \<open>
  The user's chats (\<^verbatim>\<open>app/chats/repository.py\<close>, \<^verbatim>\<open>service.py\<close>): the searchable, paginated list with its
  previews, the history as it is shown (provider identifiers, the hidden action prompt and the settings
  block removed), the steps view, rename, pin and workspace binding, and deletion. Every statement is
  scoped to the owner; a foreign chat is a missing one. \<^verbatim>\<open>ILIKE\<close>, the text PostgreSQL and Python make of
  a JSON value that is no string, and the Cyrillic labels are parameters.
\<close>

record chats_env = cursor_env +
  cv_ilike :: "string \<Rightarrow> string \<Rightarrow> bool"
    \<comment> \<open>value and pattern\<close>
  cv_jsonb_text :: "json \<Rightarrow> string"
  cv_str :: "json \<Rightarrow> string"
  cv_call :: string
  cv_some_call :: string
  cv_result :: string
  cv_some_result :: string

section \<open>Text of a step\<close>

text \<open>The conversation settings block \<^verbatim>\<open>_CONTEXT_BLOCK_RE\<close> matches, removed at the start of the text.\<close>

definition strip_context_block :: "string \<Rightarrow> string" where
  "strip_context_block s =
    (if starts_with CONTEXT_OPEN s
     then (case dropWhile (\<lambda>c. c \<noteq> CHR '']'') (drop (length CONTEXT_OPEN) s) of
         [] \<Rightarrow> s
       | _ # r \<Rightarrow> if r = [] then [] else if starts_with (LF @ LF) r then drop 2 r else s)
     else s)"

definition py_str :: "chats_env \<Rightarrow> json \<Rightarrow> string" where
  "py_str env v = (case v of JStr s \<Rightarrow> s | _ \<Rightarrow> cv_str env v)"

text \<open>Iteration over \<^verbatim>\<open>payload.get("content", [])\<close>: the keys of an object and the characters of a string are
  no blocks, any other value that is no list raises.\<close>

definition content_blocks :: "dict \<Rightarrow> app_error + json list" where
  "content_blocks payload = (case map_of payload ''content'' of
     None \<Rightarrow> Inr []
   | Some (JArr bs) \<Rightarrow> Inr bs
   | Some (JObj kvs) \<Rightarrow> Inr []
   | Some (JStr s) \<Rightarrow> Inr []
   | Some _ \<Rightarrow> Inl PyError)"

definition block_is :: "string \<Rightarrow> json \<Rightarrow> bool" where
  "block_is ty b = (case b of JObj kvs \<Rightarrow> obj_get kvs ''type'' = JStr ty | _ \<Rightarrow> False)"

definition block_text :: "chats_env \<Rightarrow> json \<Rightarrow> string" where
  "block_text env b = (case b of
     JObj kvs \<Rightarrow> (case map_of kvs ''text'' of None \<Rightarrow> [] | Some v \<Rightarrow> py_str env v) | _ \<Rightarrow> [])"

definition joined_text :: "chats_env \<Rightarrow> json list \<Rightarrow> string" where
  "joined_text env bs = join_with '' '' (filter (\<lambda>p. p \<noteq> []) (map (block_text env) (filter (block_is ''text'') bs)))"

definition PREVIEW_MAX_CHARS :: nat where "PREVIEW_MAX_CHARS = 160"

definition truncate_text :: "nat \<Rightarrow> string \<Rightarrow> string" where
  "truncate_text limit s = take limit (normalize_spaces s)"

text \<open>A payload is always an object.\<close>

definition payload_of :: "step_row \<Rightarrow> dict" where
  "payload_of r = (case st_payload r of JObj kvs \<Rightarrow> kvs | _ \<Rightarrow> [])"

definition text_from_payload :: "chats_env \<Rightarrow> dict \<Rightarrow> app_error + string" where
  "text_from_payload env payload = (case content_blocks payload of
     Inl e \<Rightarrow> Inl e | Inr bs \<Rightarrow> Inr (py_strip (joined_text env bs)))"

definition newest_first :: "step_row \<Rightarrow> step_row \<Rightarrow> bool" where
  "newest_first a b = (st_created b < st_created a \<or> (st_created a = st_created b \<and> st_id b \<le> st_id a))"

definition oldest_first :: "step_row \<Rightarrow> step_row \<Rightarrow> bool" where
  "oldest_first a b = (st_created a < st_created b \<or> (st_created a = st_created b \<and> st_id a \<le> st_id b))"

definition preview :: "chats_env \<Rightarrow> uuid \<Rightarrow> db \<Rightarrow> app_error + string option" where
  "preview env sid db =
    (case sort_by newest_first (filter (\<lambda>r. st_session r = sid \<and> (st_role r = RUser \<or> st_role r = RAssistant)) (steps db)) of
       [] \<Rightarrow> Inr None
     | step # _ \<Rightarrow> (case text_from_payload env (payload_of step) of
         Inl e \<Rightarrow> Inl e
       | Inr t \<Rightarrow> (let t' = (if st_role step = RUser \<and> t \<noteq> [] then strip_context_block t else t) in
           Inr (if t' = [] then None else Some (truncate_text PREVIEW_MAX_CHARS t')))))"

section \<open>The list\<close>

record chat_list_item =
  li_session :: session_row
  li_preview :: "string option"

text \<open>\<^verbatim>\<open>payload -> 'content' -> 0 ->> 'text'\<close>.\<close>

definition json_field :: "json \<Rightarrow> string \<Rightarrow> json option" where
  "json_field v k = (case v of JObj kvs \<Rightarrow> map_of kvs k | _ \<Rightarrow> None)"

definition first_block_text :: "chats_env \<Rightarrow> json \<Rightarrow> string option" where
  "first_block_text env payload = (case json_field payload ''content'' of
     Some (JArr (b # _)) \<Rightarrow> (case json_field b ''text'' of
         Some (JStr s) \<Rightarrow> Some s | Some JNull \<Rightarrow> None | Some v \<Rightarrow> Some (cv_jsonb_text env v) | None \<Rightarrow> None)
   | _ \<Rightarrow> None)"

definition search_matches :: "chats_env \<Rightarrow> string option \<Rightarrow> db \<Rightarrow> session_row \<Rightarrow> bool" where
  "search_matches env query db s = (case query of
     None \<Rightarrow> True
   | Some q \<Rightarrow> q = [] \<or> (let like = ''%'' @ q @ ''%'' in
       (case cs_title s of None \<Rightarrow> False | Some t \<Rightarrow> cv_ilike env t like)
       \<or> list_ex (\<lambda>r. st_session r = cs_id s \<and> st_role r = RUser
           \<and> (case first_block_text env (st_payload r) of None \<Rightarrow> False | Some t \<Rightarrow> cv_ilike env t like)) (steps db)))"

definition chat_selected :: "chats_env \<Rightarrow> uuid \<Rightarrow> string option \<Rightarrow> uuid option \<Rightarrow> db \<Rightarrow> session_row \<Rightarrow> bool" where
  "chat_selected env uid query workspace db s =
    (cs_user s = uid \<and> (case workspace of None \<Rightarrow> True | Some w \<Rightarrow> cs_workspace s = Some w)
     \<and> search_matches env query db s)"

definition pinned_ord :: "bool \<Rightarrow> int" where "pinned_ord b = (if b then 1 else 0)"

definition after_chat_cursor :: "chat_cursor \<Rightarrow> session_row \<Rightarrow> bool" where
  "after_chat_cursor c s =
    (pinned_ord (cs_pinned s) < pinned_ord (cc_pinned c)
     \<or> (pinned_ord (cs_pinned s) = pinned_ord (cc_pinned c) \<and> cs_updated s < cc_updated c)
     \<or> (pinned_ord (cs_pinned s) = pinned_ord (cc_pinned c) \<and> cs_updated s = cc_updated c \<and> cs_id s < cc_id c))"

definition chat_order :: "session_row \<Rightarrow> session_row \<Rightarrow> bool" where
  "chat_order a b =
    (pinned_ord (cs_pinned b) < pinned_ord (cs_pinned a)
     \<or> (cs_pinned a = cs_pinned b \<and> (cs_updated b < cs_updated a \<or> (cs_updated a = cs_updated b \<and> cs_id b \<le> cs_id a))))"

definition row_cursor :: "session_row \<Rightarrow> chat_cursor" where
  "row_cursor s = \<lparr>cc_pinned = cs_pinned s, cc_updated = cs_updated s, cc_id = cs_id s\<rparr>"

fun preview_items :: "chats_env \<Rightarrow> db \<Rightarrow> session_row list \<Rightarrow> app_error + chat_list_item list" where
  "preview_items env db [] = Inr []"
| "preview_items env db (s # ss) = (case preview env (cs_id s) db of
     Inl e \<Rightarrow> Inl e
   | Inr p \<Rightarrow> (case preview_items env db ss of
       Inl e \<Rightarrow> Inl e | Inr items \<Rightarrow> Inr (\<lparr>li_session = s, li_preview = p\<rparr> # items)))"

text \<open>A search text with a NUL is no parameter PostgreSQL takes.\<close>

definition repo_list_chats ::
  "chats_env \<Rightarrow> uuid \<Rightarrow> string option \<Rightarrow> chat_cursor option \<Rightarrow> nat \<Rightarrow> uuid option \<Rightarrow> db
   \<Rightarrow> app_error + chat_list_item list \<times> string option" where
  "repo_list_chats env uid query cursor limit workspace db =
    (if \<not> text_ok query then Inl DbError
     else let rows = take (limit + 1) (sort_by chat_order (filter (\<lambda>s. chat_selected env uid query workspace db s
            \<and> (case cursor of None \<Rightarrow> True | Some c \<Rightarrow> after_chat_cursor c s)) (sessions db)));
         (page_rows, next_cursor) = cut_page (\<lambda>s. chat_cursor_encode (row_cursor s)) limit rows in
     case preview_items env db page_rows of Inl e \<Rightarrow> Inl e | Inr items \<Rightarrow> Inr (items, next_cursor))"

definition list_chats ::
  "chats_env \<Rightarrow> uuid \<Rightarrow> string option \<Rightarrow> string option \<Rightarrow> nat \<Rightarrow> uuid option \<Rightarrow> db
   \<Rightarrow> app_error + chat_list_item list \<times> string option" where
  "list_chats env uid query cursor limit workspace db = (case cursor of
     None \<Rightarrow> repo_list_chats env uid query None limit workspace db
   | Some [] \<Rightarrow> repo_list_chats env uid query None limit workspace db
   | Some value \<Rightarrow> (case chat_cursor_decode env value of
       None \<Rightarrow> Inl ValidationFailedError
     | Some c \<Rightarrow> repo_list_chats env uid query (Some c) limit workspace db))"

section \<open>The history\<close>

record chat_step_view =
  sv_id :: uuid
  sv_message_step :: uuid
  sv_role :: role
  sv_payload :: json
  sv_usage :: "json option"
  sv_created :: time

record chat_history =
  hv_id :: uuid
  hv_title :: "string option"
  hv_assistant_mode :: assistant_mode
  hv_mode :: mode
  hv_steps :: "chat_step_view list"

definition require_session :: "uuid \<Rightarrow> uuid \<Rightarrow> session_row db_act" where
  "require_session sid uid = bind_act get_st (\<lambda>db. case get_session sid uid db of
     None \<Rightarrow> raise NotFoundError | Some s \<Rightarrow> ret s)"

definition history_steps :: "uuid \<Rightarrow> db \<Rightarrow> step_row list" where
  "history_steps sid db = sort_by oldest_first (filter (\<lambda>r. st_session r = sid) (steps db))"

text \<open>\<^verbatim>\<open>dict(rows)\<close>: of two calls with one provider identifier the later one counts.\<close>

definition provider_id_to_domain_id :: "uuid \<Rightarrow> db \<Rightarrow> string \<Rightarrow> uuid option" where
  "provider_id_to_domain_id sid db =
    map_of (rev (map (\<lambda>t. (tc_provider_id t, tc_id t)) (filter (\<lambda>t. tc_session t = sid) (tool_calls db))))"

definition put_domain_id :: "(string \<Rightarrow> uuid option) \<Rightarrow> string \<Rightarrow> dict \<Rightarrow> dict" where
  "put_domain_id ids key block = (case obj_get block key of
     JStr p \<Rightarrow> (case ids p of Some i \<Rightarrow> dict_put block key (JStr (str_uuid i)) | None \<Rightarrow> block)
   | _ \<Rightarrow> block)"

definition put_domain_name :: "dict \<Rightarrow> dict" where
  "put_domain_name block = (case obj_get block ''name'' of
     JStr n \<Rightarrow> (case to_domain_tool_name n of Some d \<Rightarrow> dict_put block ''name'' (JStr d) | None \<Rightarrow> block)
   | _ \<Rightarrow> block)"

definition normalize_history_block :: "(string \<Rightarrow> uuid option) \<Rightarrow> json \<Rightarrow> json" where
  "normalize_history_block ids b = (case b of
     JObj kvs \<Rightarrow>
       (if block_is ''tool_use'' b then JObj (put_domain_id ids ''id'' (put_domain_name kvs))
        else if block_is ''tool_result'' b then JObj (put_domain_id ids ''tool_use_id'' kvs)
        else b)
   | _ \<Rightarrow> b)"

text \<open>The first text block of a user step.\<close>

fun strip_leading_block :: "chats_env \<Rightarrow> json list \<Rightarrow> json list" where
  "strip_leading_block env [] = []"
| "strip_leading_block env (b # bs) = (case b of
     JObj kvs \<Rightarrow> if block_is ''text'' b
       then JObj (dict_put kvs ''text'' (JStr (strip_context_block (block_text env b)))) # bs
       else b # strip_leading_block env bs
   | _ \<Rightarrow> b # strip_leading_block env bs)"

definition HIDDEN_KEYS :: "string list" where
  "HIDDEN_KEYS = [''providerToolUseId'', ''actionPrompt'']"

definition normalize_step_payload :: "chats_env \<Rightarrow> (string \<Rightarrow> uuid option) \<Rightarrow> step_row \<Rightarrow> dict" where
  "normalize_step_payload env ids step =
    (let payload = filter (\<lambda>(k, v). k \<notin> set HIDDEN_KEYS) (payload_of step) in
     case obj_get payload ''content'' of
       JArr content \<Rightarrow> dict_put payload ''content'' (JArr (map (normalize_history_block ids)
         (if st_role step = RUser then strip_leading_block env content else content)))
     | _ \<Rightarrow> payload)"

definition step_view :: "chats_env \<Rightarrow> (string \<Rightarrow> uuid option) \<Rightarrow> step_row \<Rightarrow> chat_step_view" where
  "step_view env ids r = \<lparr>sv_id = st_id r, sv_message_step = st_message_step r, sv_role = st_role r,
     sv_payload = JObj (normalize_step_payload env ids r), sv_usage = st_usage r, sv_created = st_created r\<rparr>"

definition get_history :: "chats_env \<Rightarrow> uuid \<Rightarrow> uuid \<Rightarrow> chat_history db_act" where
  "get_history env sid uid = bind_act (require_session sid uid) (\<lambda>s. bind_act get_st (\<lambda>db.
     ret \<lparr>hv_id = cs_id s, hv_title = cs_title s, hv_assistant_mode = cs_assistant_mode s, hv_mode = cs_mode s,
       hv_steps = map (step_view env (provider_id_to_domain_id sid db)) (history_steps sid db)\<rparr>))"

section \<open>The steps view\<close>

datatype step_kind = KReasoning | KToolCall | KToolResult | KAssistantMessage

record steps_view_step =
  vs_kind :: step_kind
  vs_tool :: json
  vs_summary :: string
  vs_created :: time

record message_steps_view =
  vv_message_step :: uuid
  vv_count :: int
  vv_steps :: "steps_view_step list"

definition STEP_SUMMARY_MAX_CHARS :: nat where "STEP_SUMMARY_MAX_CHARS = 120"

definition latest_message_step_id :: "uuid \<Rightarrow> db \<Rightarrow> uuid option" where
  "latest_message_step_id sid db = (case sort_by newest_first (filter (\<lambda>r. st_session r = sid) (steps db)) of
     [] \<Rightarrow> None | r # _ \<Rightarrow> Some (st_message_step r))"

definition steps_for_message :: "uuid \<Rightarrow> uuid \<Rightarrow> db \<Rightarrow> step_row list" where
  "steps_for_message sid mid db = sort_by oldest_first
     (filter (\<lambda>r. st_session r = sid \<and> st_message_step r = mid) (steps db))"

definition tool_calls_for_message :: "uuid \<Rightarrow> uuid \<Rightarrow> db \<Rightarrow> tool_call_row list" where
  "tool_calls_for_message sid mid db = filter (\<lambda>t. tc_session t = sid \<and> tc_message_step t = mid) (tool_calls db)"

definition call_summary :: "chats_env \<Rightarrow> tool_call_row option \<Rightarrow> step_row \<Rightarrow> steps_view_step" where
  "call_summary env call step = (let name = (case call of None \<Rightarrow> None | Some t \<Rightarrow> Some (tc_tool_name t)) in
     \<lparr>vs_kind = KToolCall, vs_tool = opt_str name,
      vs_summary = (case name of None \<Rightarrow> cv_some_call env | Some n \<Rightarrow> if n = [] then cv_some_call env else cv_call env @ n),
      vs_created = st_created step\<rparr>)"

definition render_step :: "chats_env \<Rightarrow> tool_call_row list \<Rightarrow> step_row \<Rightarrow> app_error + steps_view_step list" where
  "render_step env calls step =
    (if st_role step = RAssistant then (case content_blocks (payload_of step) of
        Inl e \<Rightarrow> Inl e
      | Inr content \<Rightarrow>
        (let uses = filter (block_is ''tool_use'') content;
             summary = truncate_text STEP_SUMMARY_MAX_CHARS (joined_text env content) in
         Inr ((if summary = [] then []
               else [\<lparr>vs_kind = (if uses \<noteq> [] then KReasoning else KAssistantMessage), vs_tool = JNull,
                      vs_summary = summary, vs_created = st_created step\<rparr>])
            @ map (\<lambda>b. call_summary env (find (\<lambda>t. tc_provider_id t
                  = py_str env (case b of JObj kvs \<Rightarrow> obj_get kvs ''id'' | _ \<Rightarrow> JNull)) (rev calls)) step) uses)))
     else if st_role step = RTool then
       (let tool_call_id = obj_get (payload_of step) ''toolCallId'';
            given = obj_get (payload_of step) ''toolName'';
            tool_name = (if given = JNull \<and> tool_call_id \<noteq> JNull
              then (case parse_uuid (py_str env tool_call_id) of
                  None \<Rightarrow> JNull
                | Some i \<Rightarrow> (case find (\<lambda>t. tc_id t = i) calls of None \<Rightarrow> JNull | Some t \<Rightarrow> JStr (tc_tool_name t)))
              else given) in
        Inr [\<lparr>vs_kind = KToolResult, vs_tool = tool_name,
              vs_summary = (if truthy tool_name then cv_result env @ py_str env tool_name else cv_some_result env),
              vs_created = st_created step\<rparr>])
     else Inr [])"

fun render_steps :: "chats_env \<Rightarrow> tool_call_row list \<Rightarrow> step_row list \<Rightarrow> app_error + steps_view_step list" where
  "render_steps env calls [] = Inr []"
| "render_steps env calls (r # rs) = (case render_step env calls r of
     Inl e \<Rightarrow> Inl e
   | Inr vs \<Rightarrow> (case render_steps env calls rs of Inl e \<Rightarrow> Inl e | Inr ws \<Rightarrow> Inr (vs @ ws)))"

definition steps_view :: "chats_env \<Rightarrow> uuid \<Rightarrow> uuid \<Rightarrow> uuid option \<Rightarrow> message_steps_view db_act" where
  "steps_view env sid uid message_step = bind_act (require_session sid uid) (\<lambda>_. bind_act get_st (\<lambda>db.
     case (case message_step of Some m \<Rightarrow> Some m | None \<Rightarrow> latest_message_step_id sid db) of
       None \<Rightarrow> raise NotFoundError
     | Some target \<Rightarrow>
       (let rows = steps_for_message sid target db in
        if rows = [] then raise NotFoundError
        else (case render_steps env (tool_calls_for_message sid target db) rows of
          Inl e \<Rightarrow> raise e
        | Inr vs \<Rightarrow> ret \<lparr>vv_message_step = target, vv_count = int (length vs), vv_steps = vs\<rparr>))))"

section \<open>Changing and deleting a chat\<close>

record chat_patch =
  cp_title :: "string option option"
    \<comment> \<open>\<^verbatim>\<open>None\<close>: not in the body\<close>
  cp_pinned :: "bool option"
  cp_workspace :: "uuid option option"

definition patched_session :: "chat_patch \<Rightarrow> time \<Rightarrow> session_row \<Rightarrow> session_row" where
  "patched_session p now s = s\<lparr>
     cs_title := (case cp_title p of None \<Rightarrow> cs_title s | Some t \<Rightarrow> t),
     cs_pinned := (case cp_pinned p of None \<Rightarrow> cs_pinned s | Some b \<Rightarrow> b),
     cs_workspace := (case cp_workspace p of None \<Rightarrow> cs_workspace s | Some w \<Rightarrow> w),
     cs_updated := now\<rparr>"

definition update_metadata :: "session_row \<Rightarrow> chat_patch \<Rightarrow> session_row db_act" where
  "update_metadata s p = (\<lambda>db. let s' = patched_session p (db_now db) s in
     if \<not> text_ok (cs_title s') then (Inl DbError, db)
     else (Inr s', db\<lparr>sessions := map (\<lambda>r. if cs_id r = cs_id s then s' else r) (sessions db)\<rparr>))"

definition rename_or_pin :: "uuid \<Rightarrow> uuid \<Rightarrow> chat_patch \<Rightarrow> session_row db_act" where
  "rename_or_pin sid uid p = bind_act (require_session sid uid) (\<lambda>s. bind_act get_st (\<lambda>db.
     case cp_workspace p of
       Some (Some w) \<Rightarrow> if owns_workspace w uid db then update_metadata s p else raise WorkspaceNotFoundError
     | _ \<Rightarrow> update_metadata s p))"

text \<open>The foreign keys delete the steps and tool calls and clear the references of audit rows and images.\<close>

definition delete_session :: "uuid \<Rightarrow> uuid \<Rightarrow> bool db_act" where
  "delete_session sid uid = (\<lambda>db. if get_session sid uid db = None then (Inr False, db)
     else (Inr True, db\<lparr>sessions := filter (\<lambda>s. cs_id s \<noteq> sid) (sessions db),
       steps := filter (\<lambda>r. st_session r \<noteq> sid) (steps db),
       tool_calls := filter (\<lambda>t. tc_session t \<noteq> sid) (tool_calls db),
       audit_logs := map (\<lambda>a. if a_session a = Some sid then a\<lparr>a_session := None\<rparr> else a) (audit_logs db),
       generated_images := map (\<lambda>g. if gi_session g = Some sid then g\<lparr>gi_session := None\<rparr> else g) (generated_images db)\<rparr>))"

definition delete_chat :: "uuid \<Rightarrow> uuid \<Rightarrow> unit db_act" where
  "delete_chat sid uid = bind_act (delete_session sid uid) (\<lambda>deleted. guard_act deleted NotFoundError)"

section \<open>The list is complete\<close>

definition chat_item :: "chats_env \<Rightarrow> db \<Rightarrow> session_row \<Rightarrow> chat_list_item" where
  "chat_item env db s = \<lparr>li_session = s, li_preview = (case preview env (cs_id s) db of Inr p \<Rightarrow> p | Inl _ \<Rightarrow> None)\<rparr>"

definition chat_token :: "chat_list_item \<Rightarrow> string option" where
  "chat_token it = chat_cursor_encode (row_cursor (li_session it))"

type_synonym chat_query = "chats_env \<times> uuid \<times> string option \<times> uuid option \<times> db"

text \<open>Sessions have distinct identifiers, and the previews and cursors of the user's chats are defined.\<close>

definition chats_listable :: "chats_env \<Rightarrow> uuid \<Rightarrow> db \<Rightarrow> bool" where
  "chats_listable env uid db \<longleftrightarrow> utf8_ok env \<and> distinct (map cs_id (sessions db))
    \<and> (\<forall>s \<in> set (sessions db). cs_user s = uid \<longrightarrow> time_token_ok env (cs_updated s) \<and> (\<exists>p. preview env (cs_id s) db = Inr p))"

definition chat_rows :: "chat_query \<Rightarrow> session_row list" where
  "chat_rows = (\<lambda>(env, uid, query, workspace, db).
     sort_by chat_order (filter (chat_selected env uid query workspace db) (sessions db)))"

lemma chat_order_total: "chat_order a b \<or> chat_order b a"
  by (auto simp: chat_order_def pinned_ord_def split: if_splits)

lemma chat_order_trans: "chat_order a b \<Longrightarrow> chat_order b c \<Longrightarrow> chat_order a c"
  by (auto simp: chat_order_def pinned_ord_def split: if_splits)

lemma after_irrefl: "\<not> after_chat_cursor (row_cursor a) a"
  by (simp add: after_chat_cursor_def row_cursor_def)

lemma after_trans:
  "after_chat_cursor (row_cursor a) b \<Longrightarrow> after_chat_cursor (row_cursor b) c \<Longrightarrow> after_chat_cursor (row_cursor a) c"
  by (auto simp: after_chat_cursor_def row_cursor_def)

lemma order_after: "chat_order a b \<Longrightarrow> cs_id a \<noteq> cs_id b \<Longrightarrow> after_chat_cursor (row_cursor a) b"
  by (auto simp: chat_order_def after_chat_cursor_def row_cursor_def)

lemma chat_rows_props:
  shows "set (chat_rows (env, uid, query, workspace, db)) = {s \<in> set (sessions db). chat_selected env uid query workspace db s}"
    and "sorted_wrt chat_order (chat_rows (env, uid, query, workspace, db))"
  by (auto simp: chat_rows_def sort_by_sorted[OF chat_order_total chat_order_trans])

lemma chat_rows_after:
  assumes "distinct (map cs_id (sessions db))"
  shows "sorted_wrt (\<lambda>a b. after_chat_cursor (row_cursor a) b) (chat_rows (env, uid, query, workspace, db))"
proof (rule sorted_strict[where le = chat_order and key = cs_id])
  have "distinct (map cs_id (filter P (sessions db)))" for P
    using assms by (simp add: distinct_map_filter)
  then show "distinct (map cs_id (chat_rows (env, uid, query, workspace, db)))" by (simp add: chat_rows_def map_sort_by_distinct)
qed (use chat_rows_props(2) order_after in auto)

lemma preview_items_map:
  "(\<And>s. s \<in> set ss \<Longrightarrow> \<exists>p. preview env (cs_id s) db = Inr p) \<Longrightarrow> preview_items env db ss = Inr (map (chat_item env db) ss)"
proof (induction ss)
  case (Cons s ss)
  then obtain p where "preview env (cs_id s) db = Inr p" by auto
  with Cons show ?case by (simp add: chat_item_def)
qed simp

lemma repo_page:
  assumes "chats_listable env uid db"
    and "sort_by chat_order (filter (\<lambda>s. chat_selected env uid query workspace db s
            \<and> (case c of None \<Rightarrow> True | Some c \<Rightarrow> after_chat_cursor c s)) (sessions db)) = ss"
    and "set ss \<subseteq> set (chat_rows (env, uid, query, workspace, db))"
    and "text_ok query"
  shows "repo_list_chats env uid query c n workspace db = Inr (cut_page chat_token n (map (chat_item env db) ss))"
proof -
  have "s \<in> set ss \<Longrightarrow> \<exists>p. preview env (cs_id s) db = Inr p" for s
    using assms(1,3) chat_rows_props(1)[of env uid query workspace db]
    by (auto simp: chats_listable_def chat_selected_def)
  then have "preview_items env db (take n ss) = Inr (map (chat_item env db) (take n ss))"
    by (meson in_set_takeD preview_items_map)
  then show ?thesis
    by (simp add: repo_list_chats_def assms(2,4) cut_page_fetched cut_page_map)
      (simp add: cut_page_def Let_def chat_token_def chat_item_def)
qed

interpretation chl: keyset_list "\<lambda>(env, uid, query, workspace, db). chats_listable env uid db \<and> text_ok query"
  "\<lambda>s. map (chat_item (fst s) (snd (snd (snd (snd s))))) (chat_rows s)" chat_token
  "\<lambda>(env, uid, query, workspace, db) n c. list_chats env uid query c n workspace db"
proof (unfold_locales, goal_cases)
  case (1 s r)
  obtain env uid query workspace db where s: "s = (env, uid, query, workspace, db)" by (cases s)
  with 1 obtain x where x: "r = chat_item env db x" "x \<in> set (sessions db)" "cs_user x = uid"
    using chat_rows_props(1)[of env uid query workspace db] by (auto simp: chat_selected_def)
  then have "time_token_ok env (cs_updated x)" using 1 s by (simp add: chats_listable_def)
  then show ?case
    by (auto simp: x chat_token_def chat_item_def chat_cursor_encode_def row_cursor_def time_token_ok_def split: option.splits)
next
  case (2 s n)
  obtain env uid query workspace db where s: "s = (env, uid, query, workspace, db)" by (cases s)
  show ?case using 2 repo_page[of env uid db query workspace None "chat_rows s" n]
    by (simp add: s list_chats_def) (simp add: chat_rows_def)
next
  case (3 s as r bs n)
  obtain env uid query workspace db where s: "s = (env, uid, query, workspace, db)" by (cases s)
  with 3 have l: "chats_listable env uid db" "text_ok query" by simp_all
  obtain xs x ys where x: "chat_rows s = xs @ x # ys" "r = chat_item env db x" "bs = map (chat_item env db) ys"
    using 3(2) by (auto simp: s map_eq_append_conv)
  have u: "x \<in> set (sessions db)" "cs_user x = uid"
    using chat_rows_props(1)[of env uid query workspace db] x(1) by (auto simp: s chat_selected_def)
  then have "time_token_ok env (cc_updated (row_cursor x))" "utf8_ok env" using l(1) by (auto simp: chats_listable_def row_cursor_def)
  then obtain t where t: "chat_cursor_encode (row_cursor x) = Some t" "t \<noteq> []" "chat_cursor_decode env t = Some (row_cursor x)"
    using chat_cursor_roundtrip by blast
  have "filter (after_chat_cursor (row_cursor x)) (chat_rows s) = ys"
    unfolding x(1) by (rule behind_row[where before = "\<lambda>a b. after_chat_cursor (row_cursor a) b", OF _ after_irrefl after_trans])
      (use chat_rows_after[of db env uid query workspace] l(1) x(1) in \<open>auto simp: s chats_listable_def\<close>)
  then have "sort_by chat_order (filter (\<lambda>s. chat_selected env uid query workspace db s
            \<and> (case Some (row_cursor x) of None \<Rightarrow> True | Some c \<Rightarrow> after_chat_cursor c s)) (sessions db)) = ys"
    by (simp add: s chat_rows_def filter_sort_by[OF chat_order_total chat_order_trans, symmetric] conj_commute)
  from repo_page[OF l(1) this _ l(2)] have "repo_list_chats env uid query (Some (row_cursor x)) n workspace db
      = Inr (cut_page chat_token n bs)" using x by (auto simp: s)
  then show ?case using t by (cases t) (simp_all add: s x(2) list_chats_def chat_token_def chat_item_def)
qed

text \<open>
  C29: Following the cursors of the chat list from its start shows every chat of the user that matches the
  search and the workspace exactly once and nothing else, pinned ones first, then by recency, on full
  pages but the last one, whatever the page size; no chat is skipped or repeated at a page boundary even
  where update times are equal. No more requests are needed than there are chats, plus one. A search text with
  a NUL character is the exception: the database refuses it, and the first page is an internal error.
\<close>

theorem chat_pages_complete:
  assumes "chats_listable env uid db" "0 < n" "length (sessions db) < f"
  shows "if text_ok query
    then \<exists>ps. follow (\<lambda>c. list_chats env uid query c n workspace db) f None = Inr ps
      \<and> concat ps = map (chat_item env db) (sort_by chat_order (filter (chat_selected env uid query workspace db) (sessions db)))
      \<and> (\<forall>p \<in> set (butlast ps). length p = n)
    else list_chats env uid query None n workspace db = Inl DbError"
proof (cases "text_ok query")
  case True
  let ?s = "(env, uid, query, workspace, db)"
  have "length (filter (chat_selected env uid query workspace db) (sessions db)) < f"
    using assms(3) length_filter_le[of _ "sessions db"] by (meson le_less_trans)
  then have "length (chat_rows ?s) < f" by (simp add: chat_rows_def)
  from chl.walk_complete[of ?s n f] this assms(1,2) True show ?thesis by (auto simp: chat_rows_def)
qed (simp add: list_chats_def repo_list_chats_def)

definition demo_chats_env :: chats_env where
  "demo_chats_env = \<lparr>cu_utf8 = latin_utf8,
     cu_iso = (\<lambda>s. if s = ''1970-01-01T00:00:00+00:00'' then Some (Aware 0) else None),
     cv_ilike = (\<lambda>s p. False), cv_jsonb_text = (\<lambda>v. []), cv_str = (\<lambda>v. []), cv_call = ''call '',
     cv_some_call = ''call'', cv_result = ''result '', cv_some_result = ''result''\<rparr>"

definition demo_session :: "uuid \<Rightarrow> uuid \<Rightarrow> bool \<Rightarrow> session_row" where
  "demo_session sid uid pinned = \<lparr>cs_id = sid, cs_user = uid, cs_project = None, cs_mode = ModeCredits, cs_model = None,
     cs_title = None, cs_assistant_mode = AmChat, cs_dialog_mode = DmSmart, cs_workspace = None,
     cs_pinned = pinned, cs_created = 0, cs_updated = 0\<rparr>"

definition demo_chats_db :: db where
  "demo_chats_db = (empty_db (\<lambda>n. of_nat n) 0)\<lparr>sessions := [demo_session 1 7 False, demo_session 2 7 True,
     demo_session 3 8 False, demo_session 4 7 False]\<rparr>"

lemma demo_listable: "chats_listable demo_chats_env 7 demo_chats_db"
proof -
  have "isoformat 0 0 = Some ''1970-01-01T00:00:00+00:00''" by code_simp
  then have "time_token_ok demo_chats_env 0" by (simp add: time_token_ok_def demo_chats_env_def)
  moreover have "utf8_ok demo_chats_env" by (simp add: utf8_ok_def demo_chats_env_def latin_utf8_encode)
  ultimately show ?thesis
    by (simp add: chats_listable_def demo_chats_db_def demo_session_def preview_def empty_db_def)
qed

lemma chat_pages_complete_witness:
  "\<exists>ps. follow (\<lambda>c. list_chats demo_chats_env 7 None c 2 None demo_chats_db) 5 None = Inr ps
    \<and> map (cs_id \<circ> li_session) (concat ps) = [2, 4, 1]"
proof -
  have len: "length (sessions demo_chats_db) < 5" by (simp add: demo_chats_db_def)
  have "map cs_id (sort_by chat_order (filter (chat_selected demo_chats_env 7 None None demo_chats_db) (sessions demo_chats_db))) = [2, 4, 1]"
    by code_simp
  then show ?thesis
    using chat_pages_complete[OF demo_listable zero_less_numeral[of "num.Bit0 num.One"] len, of None None]
    by (auto simp: comp_def chat_item_def)
qed

section \<open>The settings block stays hidden\<close>

lemma strip_block:
  assumes "CHR '']'' \<notin> set inner" "rest = [] \<or> (\<exists>msg. rest = LF @ LF @ msg)"
  shows "strip_context_block (CONTEXT_OPEN @ inner @ '']'' @ rest) = drop 2 rest"
proof -
  have "dropWhile (\<lambda>c. c \<noteq> CHR '']'') (inner @ CHR '']'' # rest) = CHR '']'' # rest"
    using assms(1) by (subst dropWhile_append2) auto
  then show ?thesis using assms(2)
    by (auto simp: strip_context_block_def LF_def)
qed

lemma strip_block_none:
  assumes "CHR '']'' \<notin> set pre" "rest \<noteq> []" "\<not> starts_with (LF @ LF) rest"
  shows "strip_context_block (CONTEXT_OPEN @ pre @ '']'' @ rest) = CONTEXT_OPEN @ pre @ '']'' @ rest"
proof -
  have "dropWhile (\<lambda>c. c \<noteq> CHR '']'') (pre @ CHR '']'' # rest) = CHR '']'' # rest"
    using assms(1) by (subst dropWhile_append2) auto
  then show ?thesis using assms(2,3) by (simp add: strip_context_block_def)
qed

text \<open>A text that opens with a settings block, and what comes after the block.\<close>

definition opens_with_block :: "string \<Rightarrow> string \<Rightarrow> bool" where
  "opens_with_block t r \<longleftrightarrow> (\<exists>inner. CHR '']'' \<notin> set inner
     \<and> (t = CONTEXT_OPEN @ inner @ '']'' @ LF @ LF @ r \<or> (t = CONTEXT_OPEN @ inner @ '']'' \<and> r = [])))"

lemma strip_opens: "opens_with_block t r \<Longrightarrow> strip_context_block t = r"
  using strip_block[of _ "LF @ LF @ r"] strip_block[of _ "[]"] by (auto simp: opens_with_block_def LF_def)

lemma strip_not_opening:
  assumes "\<nexists>r. opens_with_block t r"
  shows "strip_context_block t = t"
proof (cases "starts_with CONTEXT_OPEN t")
  case True
  then obtain u where u: "t = CONTEXT_OPEN @ u" by (auto simp: starts_with_iff)
  show ?thesis
  proof (cases "CHR '']'' \<in> set u")
    case True
    then obtain pre rest where s: "u = pre @ CHR '']'' # rest" "CHR '']'' \<notin> set pre" by (blast dest: split_list_first)
    then have "rest \<noteq> []" "\<not> starts_with (LF @ LF) rest"
      using assms by (auto simp: opens_with_block_def u starts_with_iff)
    from strip_block_none[OF s(2) this] show ?thesis by (simp add: u s(1))
  next
    case False
    then have d: "dropWhile (\<lambda>c. c \<noteq> CHR '']'') u = []" by auto
    show ?thesis by (simp add: strip_context_block_def u d)
  qed
qed (simp add: strip_context_block_def)

definition settings_of :: "dict option \<Rightarrow> (string \<times> string) list" where
  "settings_of ctx = (case ctx of None \<Rightarrow> [] | Some c \<Rightarrow> context_parts c)"

definition settings_line :: "(string \<times> string) list \<Rightarrow> string" where
  "settings_line parts = join_with ''; '' (map (\<lambda>(k, v). k @ ''='' @ v) parts)"

lemma render_settings:
  "render_context_block ctx = (if settings_of ctx = [] then None
     else Some (CONTEXT_OPEN @ settings_line (settings_of ctx) @ '']''))"
  by (simp add: render_context_block_def settings_of_def settings_line_def Let_def split: option.split)

lemma join_has: "p \<in> set ps \<Longrightarrow> set p \<subseteq> set (join_with sep ps)"
  by (induction ps rule: induct_list012) auto

lemma settings_key: "(k, v) \<in> set (settings_of ctx) \<Longrightarrow> k \<in> set CONTEXT_KEY_ORDER \<and> block_safe v"
  using context_parts_safe by (auto simp: settings_of_def split: option.splits)

lemma settings_line_bracket:
  "CHR '']'' \<in> set (settings_line (settings_of ctx)) \<longleftrightarrow> (\<exists>(k, v) \<in> set (settings_of ctx). CHR '']'' \<in> set v)"
proof
  assume "CHR '']'' \<in> set (settings_line (settings_of ctx))"
  then obtain k v where "(k, v) \<in> set (settings_of ctx)" "CHR '']'' \<in> set (k @ ''='' @ v)"
    unfolding settings_line_def by (auto dest!: join_chars)
  with settings_key[of k v ctx] show "\<exists>(k, v) \<in> set (settings_of ctx). CHR '']'' \<in> set v"
    by (auto simp: CONTEXT_KEY_ORDER_def)
next
  assume "\<exists>(k, v) \<in> set (settings_of ctx). CHR '']'' \<in> set v"
  then obtain k v where kv: "(k, v) \<in> set (settings_of ctx)" "CHR '']'' \<in> set v" by auto
  have "set (k @ ''='' @ v) \<subseteq> set (settings_line (settings_of ctx))"
    unfolding settings_line_def by (rule join_has) (use kv(1) in force)
  with kv(2) show "CHR '']'' \<in> set (settings_line (settings_of ctx))" by auto
qed

lemma settings_line_feed: "CHR 0x0A \<notin> set (settings_line (settings_of ctx))"
proof
  assume "CHR 0x0A \<in> set (settings_line (settings_of ctx))"
  then obtain k v where "(k, v) \<in> set (settings_of ctx)" "CHR 0x0A \<in> set (k @ ''='' @ v)"
    unfolding settings_line_def by (auto dest!: join_chars)
  with settings_key[of k v ctx] show False by (auto simp: CONTEXT_KEY_ORDER_def block_safe_def)
qed

lemma strip_bracketed:
  assumes "CHR '']'' \<in> set (settings_line (settings_of ctx))" "rest = [] \<or> starts_with LF rest"
  shows "strip_context_block (CONTEXT_OPEN @ settings_line (settings_of ctx) @ '']'' @ rest)
    = CONTEXT_OPEN @ settings_line (settings_of ctx) @ '']'' @ rest"
proof -
  obtain pre post where s: "settings_line (settings_of ctx) = pre @ CHR '']'' # post" "CHR '']'' \<notin> set pre"
    using assms(1) by (blast dest: split_list_first)
  then have "CHR 0x0A \<notin> set post" using settings_line_feed[of ctx] by auto
  then have "\<not> starts_with (LF @ LF) (post @ '']'' @ rest)" by (cases post) (auto simp: starts_with_iff LF_def)
  from strip_block_none[OF s(2) _ this] show ?thesis by (simp add: s(1))
qed

text \<open>
  C31: What a user reads of an own message in the history, for every message and every settings sent with
  it. Where some setting is valid and no valid value has a closing bracket: exactly the text the user
  sent, empty when that was blank. Where a valid value has a closing bracket, which the validation lets
  through: the whole settings line stays before the message, always. Where no setting is valid nothing was put
  before the message, and the text is shown as sent unless it opens with a line of the block's own
  form: then that opening is taken for a settings block and cut. Only the first text block of the step is
  looked at.
\<close>

theorem settings_block_hidden:
  "let sent = (if py_strip msg = [] then [] else msg);
       stored = compose_turn0_text (render_context_block ctx) msg;
       shown = strip_context_block stored in
   (if settings_of ctx = [] then stored = sent \<and> (if \<exists>r. opens_with_block sent r then opens_with_block sent shown else shown = sent)
    else if \<exists>(k, v) \<in> set (settings_of ctx). CHR '']'' \<in> set v
    then shown = CONTEXT_OPEN @ settings_line (settings_of ctx) @ '']'' @ (if sent = [] then [] else LF @ LF @ sent)
    else shown = sent)
   \<and> strip_leading_block env (JObj [(''type'', JStr ''text''), (''text'', JStr stored)] # bs)
      = JObj [(''type'', JStr ''text''), (''text'', JStr shown)] # bs"
proof -
  let ?line = "settings_line (settings_of ctx)"
  have blank: "py_strip [] = []" by (simp add: py_strip_def py_lstrip_def py_rstrip_def)
  have plain: "\<exists>r. opens_with_block x r \<Longrightarrow> opens_with_block x (strip_context_block x)" for x
    using strip_opens by metis
  note cut = strip_block[of ?line "[]"] strip_block[of ?line "LF @ LF @ msg"]
    strip_bracketed[of ctx "[]"] strip_bracketed[of ctx "LF @ LF @ msg"]
  have "strip_leading_block env (JObj [(''type'', JStr ''text''), (''text'', JStr s)] # bs)
      = JObj [(''type'', JStr ''text''), (''text'', JStr (strip_context_block s))] # bs" for s
    by (simp add: block_is_def obj_get_def block_text_def py_str_def dict_put_def)
  then show ?thesis
    using cut plain strip_not_opening settings_line_bracket[of ctx] blank
    by (auto simp: Let_def compose_turn0_text_def render_settings LF_def starts_with_iff)
qed

section \<open>What the history shows\<close>

text \<open>A provider identifier of a tool call of the chat is shown as the identifier of such a call.\<close>

definition id_shown :: "uuid \<Rightarrow> db \<Rightarrow> json \<Rightarrow> json \<Rightarrow> bool" where
  "id_shown sid db v v' \<longleftrightarrow>
    (let calls = (\<lambda>p. {t \<in> set (tool_calls db). tc_session t = sid \<and> JStr (tc_provider_id t) = p}) in
     if calls v = {} then v' = v else (\<exists>t \<in> calls v. v' = JStr (str_uuid (tc_id t))))"

definition name_shown :: "json \<Rightarrow> json \<Rightarrow> bool" where
  "name_shown v v' \<longleftrightarrow> (case v of JStr n \<Rightarrow> v' = (case to_domain_tool_name n of Some d \<Rightarrow> JStr d | None \<Rightarrow> v) | _ \<Rightarrow> v' = v)"

definition same_but :: "string set \<Rightarrow> dict \<Rightarrow> dict \<Rightarrow> bool" where
  "same_but ks kvs kvs' \<longleftrightarrow> (\<forall>k. k \<notin> ks \<longrightarrow> map_of kvs' k = map_of kvs k)"

definition block_shown :: "uuid \<Rightarrow> db \<Rightarrow> json \<Rightarrow> json \<Rightarrow> bool" where
  "block_shown sid db b b' \<longleftrightarrow> (case b of
     JObj kvs \<Rightarrow> (\<exists>kvs'. b' = JObj kvs' \<and>
       (if block_is ''tool_use'' b then id_shown sid db (obj_get kvs ''id'') (obj_get kvs' ''id'')
           \<and> name_shown (obj_get kvs ''name'') (obj_get kvs' ''name'') \<and> same_but {''id'', ''name''} kvs kvs'
        else if block_is ''tool_result'' b then id_shown sid db (obj_get kvs ''tool_use_id'') (obj_get kvs' ''tool_use_id'')
           \<and> same_but {''tool_use_id''} kvs kvs'
        else kvs' = kvs))
   | _ \<Rightarrow> b' = b)"

definition step_shown :: "chats_env \<Rightarrow> uuid \<Rightarrow> db \<Rightarrow> step_row \<Rightarrow> chat_step_view \<Rightarrow> bool" where
  "step_shown env sid db r v \<longleftrightarrow>
    sv_id v = st_id r \<and> sv_message_step v = st_message_step r \<and> sv_role v = st_role r
    \<and> sv_usage v = st_usage r \<and> sv_created v = st_created r
    \<and> (\<exists>kvs. sv_payload v = JObj kvs
        \<and> map_of kvs ''providerToolUseId'' = None \<and> map_of kvs ''actionPrompt'' = None
        \<and> same_but {''providerToolUseId'', ''actionPrompt'', ''content''} (payload_of r) kvs
        \<and> (case map_of (payload_of r) ''content'' of
             Some (JArr bs) \<Rightarrow> (\<exists>bs'. map_of kvs ''content'' = Some (JArr bs')
               \<and> list_all2 (block_shown sid db) (if st_role r = RUser then strip_leading_block env bs else bs) bs')
           | c \<Rightarrow> map_of kvs ''content'' = c))"

lemma obj_get_put: "obj_get (dict_put kvs k v) k' = (if k' = k then v else obj_get kvs k')"
  by (simp add: obj_get_def)

lemma map_of_drop_keys: "map_of (filter (\<lambda>(k, v). k \<notin> S) kvs) k = (if k \<in> S then None else map_of kvs k)"
  by (induction kvs) auto

lemma provider_map_Some:
  "provider_id_to_domain_id sid db p = Some i \<Longrightarrow>
   \<exists>t \<in> set (tool_calls db). tc_session t = sid \<and> tc_provider_id t = p \<and> tc_id t = i"
  unfolding provider_id_to_domain_id_def by (drule map_of_SomeD) auto

lemma provider_map_None:
  "provider_id_to_domain_id sid db p = None \<Longrightarrow> t \<in> set (tool_calls db) \<Longrightarrow> tc_session t = sid \<Longrightarrow> tc_provider_id t \<noteq> p"
  unfolding provider_id_to_domain_id_def map_of_eq_None_iff by force

lemma put_domain_id_shown:
  "id_shown sid db (obj_get kvs k) (obj_get (put_domain_id (provider_id_to_domain_id sid db) k kvs) k)"
proof (cases "\<exists>p i. obj_get kvs k = JStr p \<and> provider_id_to_domain_id sid db p = Some i")
  case True
  then obtain p i where p: "obj_get kvs k = JStr p" "provider_id_to_domain_id sid db p = Some i" by blast
  obtain t where t: "t \<in> set (tool_calls db)" "tc_session t = sid" "tc_provider_id t = p" "tc_id t = i"
    using provider_map_Some[OF p(2)] by blast
  have o: "obj_get (put_domain_id (provider_id_to_domain_id sid db) k kvs) k = JStr (str_uuid (tc_id t))"
    unfolding put_domain_id_def p json.case option.case obj_get_put t(4) by (rule if_P) (rule refl)
  have c: "t \<in> {t \<in> set (tool_calls db). tc_session t = sid \<and> JStr (tc_provider_id t) = JStr p}" using t by simp
  then have "{t \<in> set (tool_calls db). tc_session t = sid \<and> JStr (tc_provider_id t) = JStr p} \<noteq> {}" by blast
  then show ?thesis unfolding id_shown_def Let_def p(1) o by (subst if_not_P) (assumption, rule bexI[OF refl c])
next
  case False
  then have "put_domain_id (provider_id_to_domain_id sid db) k kvs = kvs"
    by (auto simp: put_domain_id_def split: json.splits option.splits)
  moreover have "JStr (tc_provider_id t) \<noteq> obj_get kvs k" if t: "t \<in> set (tool_calls db)" "tc_session t = sid" for t
  proof
    assume "JStr (tc_provider_id t) = obj_get kvs k"
    then have "provider_id_to_domain_id sid db (tc_provider_id t) = None" using False by (metis not_None_eq)
    from provider_map_None[OF this t] show False by simp
  qed
  then have "{t \<in> set (tool_calls db). tc_session t = sid \<and> JStr (tc_provider_id t) = obj_get kvs k} = {}" by blast
  ultimately show ?thesis unfolding id_shown_def Let_def by simp
qed

lemma put_domain_id_other: "k' \<noteq> k \<Longrightarrow> map_of (put_domain_id ids k kvs) k' = map_of kvs k'"
  by (auto simp: put_domain_id_def split: json.splits option.splits)

lemma put_domain_name_other: "k \<noteq> ''name'' \<Longrightarrow> map_of (put_domain_name kvs) k = map_of kvs k"
  by (auto simp: put_domain_name_def split: json.splits option.splits)

lemma put_domain_name_shown: "name_shown (obj_get kvs ''name'') (obj_get (put_domain_name kvs) ''name'')"
  by (auto simp: name_shown_def put_domain_name_def obj_get_put split: json.splits option.splits)

lemma obj_get_cong: "map_of kvs k = map_of kvs' k \<Longrightarrow> obj_get kvs k = obj_get kvs' k"
  by (simp add: obj_get_def)

lemma normalize_history_block_shown: "block_shown sid db b (normalize_history_block (provider_id_to_domain_id sid db) b)"
proof (cases b)
  case (JObj kvs)
  let ?ids = "provider_id_to_domain_id sid db" and ?n = "put_domain_name kvs"
  have "obj_get ?n ''id'' = obj_get kvs ''id''" by (rule obj_get_cong) (simp add: put_domain_name_other)
  moreover have "obj_get (put_domain_id ?ids ''id'' ?n) ''name'' = obj_get ?n ''name''"
    by (rule obj_get_cong) (simp add: put_domain_id_other)
  ultimately have "id_shown sid db (obj_get kvs ''id'') (obj_get (put_domain_id ?ids ''id'' ?n) ''id'')"
    "name_shown (obj_get kvs ''name'') (obj_get (put_domain_id ?ids ''id'' ?n) ''name'')"
    using put_domain_id_shown[of sid db ?n "''id''"] put_domain_name_shown[of kvs] by simp_all
  then show ?thesis using put_domain_id_shown
    by (simp add: JObj block_shown_def normalize_history_block_def same_but_def put_domain_id_other put_domain_name_other)
qed (simp_all add: block_shown_def normalize_history_block_def)

lemma payload_shown: "step_shown env sid db r (step_view env (provider_id_to_domain_id sid db) r)"
proof -
  let ?ids = "provider_id_to_domain_id sid db"
  let ?p = "filter (\<lambda>(k, v). k \<notin> set HIDDEN_KEYS) (payload_of r)"
  have k: "map_of ?p k = (if k = ''providerToolUseId'' \<or> k = ''actionPrompt'' then None else map_of (payload_of r) k)" for k
    unfolding map_of_drop_keys by (simp add: HIDDEN_KEYS_def)
  have all: "list_all2 (block_shown sid db) bs (map (normalize_history_block ?ids) bs)" for bs
    by (simp add: list_all2_conv_all_nth normalize_history_block_shown)
  show ?thesis
  proof (cases "\<exists>bs. map_of (payload_of r) ''content'' = Some (JArr bs)")
    case True
    then obtain bs where "map_of (payload_of r) ''content'' = Some (JArr bs)" by blast
    then show ?thesis using all by (simp add: step_shown_def step_view_def normalize_step_payload_def obj_get_def k same_but_def)
  next
    case False
    then have "normalize_step_payload env ?ids r = ?p"
      by (auto simp: normalize_step_payload_def Let_def obj_get_def k split: json.splits option.splits)
    then show ?thesis using False
      by (auto simp: step_shown_def step_view_def k same_but_def split: option.splits json.splits)
  qed
qed

text \<open>
  An item of a provider that names its call in another field keeps the provider's identifier: the
  \<^verbatim>\<open>function_call\<close> items the client of OpenAI stores with an answer.
\<close>

lemma function_call_kept:
  "obj_get kvs ''type'' = JStr ''function_call'' \<Longrightarrow> normalize_history_block ids (JObj kvs) = JObj kvs"
  by (simp add: normalize_history_block_def block_is_def)

text \<open>
  C30: The history of a chat is exactly this view of what is stored. Every step of the chat is shown in order, with
  its own role, usage and times and its own payload, except for four things: the stored
  \<^verbatim>\<open>providerToolUseId\<close> and the hidden action prompt are absent; in a \<^verbatim>\<open>tool_use\<close> block the tool has its public
  name and the id, when it is the provider's identifier of a call of this chat, is the call's own
  identifier; so is \<^verbatim>\<open>tool_use_id\<close> in a \<^verbatim>\<open>tool_result\<close> block; and the first text block of a user's step is
  cut by \<^verbatim>\<open>strip_context_block\<close>. Every other block is shown as stored: so is a \<^verbatim>\<open>function_call\<close> item of OpenAI, whose
  \<^verbatim>\<open>call_id\<close>, the provider's identifier of the call, is not replaced. Reading changes nothing that is
  stored, and somebody else's chat is not found.
\<close>

theorem history_view_exact:
  "case get_history env sid uid db of (r, db') \<Rightarrow> db' = db \<and> (case get_session sid uid db of
     None \<Rightarrow> r = Inl NotFoundError
   | Some s \<Rightarrow> (\<exists>h. r = Inr h \<and> hv_id h = cs_id s \<and> hv_title h = cs_title s
       \<and> list_all2 (step_shown env sid db) (history_steps sid db) (hv_steps h)))"
  by (auto simp: get_history_def require_session_def bind_act_def list_all2_conv_all_nth payload_shown split: option.splits)

section \<open>Changes stay with the owner\<close>

datatype chat_op = PatchChat uuid chat_patch | DeleteChat uuid

fun chat_step :: "uuid \<Rightarrow> chat_op \<Rightarrow> db \<Rightarrow> db" where
  "chat_step uid (PatchChat sid p) db = snd (transaction (rename_or_pin sid uid p) db)"
| "chat_step uid (DeleteChat sid) db = snd (transaction (delete_chat sid uid) db)"

definition session_ids :: "db \<Rightarrow> uuid set" where
  "session_ids db = cs_id ` set (sessions db)"

text \<open>Primary key and foreign keys of the chat tables.\<close>

definition chat_refs :: "db \<Rightarrow> bool" where
  "chat_refs db \<longleftrightarrow> distinct (map cs_id (sessions db))
    \<and> st_session ` set (steps db) \<subseteq> session_ids db \<and> tc_session ` set (tool_calls db) \<subseteq> session_ids db
    \<and> (\<forall>a \<in> set (audit_logs db). \<forall>sid. a_session a = Some sid \<longrightarrow> sid \<in> session_ids db)
    \<and> (\<forall>g \<in> set (generated_images db). \<forall>sid. gi_session g = Some sid \<longrightarrow> sid \<in> session_ids db)"

definition foreign_chats :: "uuid \<Rightarrow> db \<Rightarrow> session_row list \<times> step_row list \<times> tool_call_row list" where
  "foreign_chats uid db = (let ss = filter (\<lambda>s. cs_user s \<noteq> uid) (sessions db); ids = cs_id ` set ss in
     (ss, filter (\<lambda>r. st_session r \<in> ids) (steps db), filter (\<lambda>t. tc_session t \<in> ids) (tool_calls db)))"

definition money :: "db \<Rightarrow> (uuid \<Rightarrow> int option) \<times> ledger_row list \<times> (uuid \<Rightarrow> sub_row option)" where
  "money db = (wallets db, ledger db, subscriptions db)"

lemma filter_map_same:
  "(\<And>x. x \<in> set xs \<Longrightarrow> P (f x) = P x \<and> (P x \<longrightarrow> f x = x)) \<Longrightarrow> filter P (map f xs) = filter P xs"
  by (induction xs) auto

lemma get_session_Some:
  "get_session sid uid db = Some s \<Longrightarrow> s \<in> set (sessions db) \<and> cs_id s = sid \<and> cs_user s = uid"
  by (auto simp: get_session_def find_Some_iff)

lemma same_id:
  assumes "chat_refs db" "r \<in> set (sessions db)" "s \<in> set (sessions db)" "cs_id r = cs_id s"
  shows "r = s"
  using assms by (auto simp: chat_refs_def distinct_map dest: inj_onD)

lemma require_session_Inr: "require_session sid uid db = (Inr s, db') \<longleftrightarrow> get_session sid uid db = Some s \<and> db' = db"
  by (auto simp: require_session_def split: option.splits)

lemma rename_Inr:
  assumes "rename_or_pin sid uid p db = (Inr s', db')"
  obtains s where "get_session sid uid db = Some s" "s' = patched_session p (db_now db) s"
    "db' = db\<lparr>sessions := map (\<lambda>r. if cs_id r = sid then s' else r) (sessions db)\<rparr>"
    "case cp_workspace p of Some (Some w) \<Rightarrow> owns_workspace w uid db | _ \<Rightarrow> True"
proof -
  obtain s where s: "get_session sid uid db = Some s" "update_metadata s p db = (Inr s', db')"
    "case cp_workspace p of Some (Some w) \<Rightarrow> owns_workspace w uid db | _ \<Rightarrow> True"
    using assms by (auto simp: rename_or_pin_def require_session_Inr elim!: bind_act_Inr_E split: option.splits if_splits)
  show thesis
  proof (rule that[OF s(1) _ _ s(3)])
    show "s' = patched_session p (db_now db) s"
      "db' = db\<lparr>sessions := map (\<lambda>r. if cs_id r = sid then s' else r) (sessions db)\<rparr>"
      using s(2) get_session_Some[OF s(1)] by (auto simp: update_metadata_def Let_def split: if_splits)
  qed
qed

lemma delete_chat_Inr:
  assumes "delete_chat sid uid db = (Inr u, db')"
  shows "get_session sid uid db \<noteq> None"
    "db' = db\<lparr>sessions := filter (\<lambda>s. cs_id s \<noteq> sid) (sessions db),
       steps := filter (\<lambda>r. st_session r \<noteq> sid) (steps db),
       tool_calls := filter (\<lambda>t. tc_session t \<noteq> sid) (tool_calls db),
       audit_logs := map (\<lambda>a. if a_session a = Some sid then a\<lparr>a_session := None\<rparr> else a) (audit_logs db),
       generated_images := map (\<lambda>g. if gi_session g = Some sid then g\<lparr>gi_session := None\<rparr> else g) (generated_images db)\<rparr>"
  using assms by (auto simp: delete_chat_def delete_session_def bind_act_def split: if_splits)

definition chats_kept :: "uuid \<Rightarrow> db \<Rightarrow> db \<Rightarrow> bool" where
  "chats_kept uid db db' \<longleftrightarrow> chat_refs db' \<and> foreign_chats uid db' = foreign_chats uid db \<and> money db' = money db"

lemma rename_keeps:
  assumes "chat_refs db" "rename_or_pin sid uid p db = (Inr s', db')"
  shows "chats_kept uid db db'"
proof -
  obtain s where s: "get_session sid uid db = Some s" "s' = patched_session p (db_now db) s"
    "db' = db\<lparr>sessions := map (\<lambda>r. if cs_id r = sid then s' else r) (sessions db)\<rparr>"
    using assms(2) by (rule rename_Inr)
  note g = get_session_Some[OF s(1)]
  have s': "cs_id s' = sid" "cs_user s' = uid" using g by (simp_all add: s(2) patched_session_def)
  let ?f = "\<lambda>r. if cs_id r = sid then s' else r"
  have ids: "map cs_id (map ?f (sessions db)) = map cs_id (sessions db)" using s' by simp
  have "session_ids db' = set (map cs_id (map ?f (sessions db)))" unfolding session_ids_def set_map s(3) by simp
  also have "\<dots> = session_ids db" unfolding ids by (simp add: session_ids_def)
  finally have sids: "session_ids db' = session_ids db" .
  have "filter (\<lambda>s. cs_user s \<noteq> uid) (map ?f (sessions db)) = filter (\<lambda>s. cs_user s \<noteq> uid) (sessions db)"
    by (rule filter_map_same) (use same_id[OF assms(1)] g s' in metis)
  moreover have "distinct (map cs_id (sessions db'))" proof -
    have "sessions db' = map ?f (sessions db)" by (simp add: s(3))
    then show ?thesis using assms(1) ids unfolding chat_refs_def by (simp only:)
  qed
  ultimately show ?thesis using assms(1) sids unfolding chats_kept_def chat_refs_def foreign_chats_def money_def
    by (simp add: s(3))
qed

lemma delete_chat_keeps:
  assumes "chat_refs db" "delete_chat sid uid db = (Inr u, db')"
  shows "chats_kept uid db db'"
proof -
  obtain s where s: "s \<in> set (sessions db)" "cs_id s = sid" "cs_user s = uid"
    using delete_chat_Inr(1)[OF assms(2)] get_session_Some by (metis not_None_eq)
  note d = delete_chat_Inr(2)[OF assms(2)]
  have own: "cs_user r = uid" if "r \<in> set (sessions db)" "cs_id r = sid" for r
    using same_id[OF assms(1) that(1) s(1)] that s by simp
  then have f: "filter (\<lambda>s. cs_user s \<noteq> uid \<and> cs_id s \<noteq> sid) (sessions db) = filter (\<lambda>s. cs_user s \<noteq> uid) (sessions db)"
    by (intro filter_cong) auto
  have nf: "i \<noteq> sid" if "i \<in> cs_id ` set (filter (\<lambda>s. cs_user s \<noteq> uid) (sessions db))" for i
    using that own by auto
  have "foreign_chats uid db' = foreign_chats uid db"
    using nf by (auto simp: foreign_chats_def Let_def d f conj_commute intro!: filter_cong)
  moreover have "session_ids db' = session_ids db - {sid}" by (auto simp: session_ids_def d)
  then have "chat_refs db'"
    using assms(1) unfolding chat_refs_def by (auto simp: d distinct_map_filter split: if_splits)
  moreover have "money db' = money db" by (simp add: money_def d)
  ultimately show ?thesis by (simp add: chats_kept_def)
qed

lemma chat_step_kept:
  assumes "chat_refs db"
  shows "chats_kept uid db (chat_step uid op db)"
proof -
  have refl: "chats_kept uid db db" using assms by (simp add: chats_kept_def)
  show ?thesis
  proof (cases op)
    case (PatchChat sid p)
    show ?thesis unfolding PatchChat chat_step.simps
      by (rule transaction_keeps[of "chats_kept uid db", OF refl]) (rule rename_keeps[OF assms])
  next
    case (DeleteChat sid)
    show ?thesis unfolding DeleteChat chat_step.simps
      by (rule transaction_keeps[of "chats_kept uid db", OF refl]) (rule delete_chat_keeps[OF assms])
  qed
qed

lemma chat_steps_kept: "chat_refs db \<Longrightarrow> chats_kept uid db (fold (chat_step uid) ops db)"
proof (induction ops arbitrary: db)
  case (Cons op ops)
  have s: "chats_kept uid db (chat_step uid op db)" by (rule chat_step_kept[OF Cons.prems])
  moreover have "chats_kept uid (chat_step uid op db) (fold (chat_step uid) ops (chat_step uid op db))"
    using Cons.IH s by (simp add: chats_kept_def)
  ultimately show ?case by (simp add: chats_kept_def)
qed (simp add: chats_kept_def)

definition chat_gone :: "uuid \<Rightarrow> db \<Rightarrow> bool" where
  "chat_gone sid db \<longleftrightarrow> find_session db sid = None \<and> sid \<notin> st_session ` set (steps db) \<and> sid \<notin> tc_session ` set (tool_calls db)
    \<and> Some sid \<notin> a_session ` set (audit_logs db) \<and> Some sid \<notin> gi_session ` set (generated_images db)"

text \<open>
  C32: However a user renames, pins, moves and deletes chats, by whatever identifiers, the chats, steps and
  tool calls of all other users stay as they are, every step, tool call, audit row and image still belongs
  to an existing chat, and no balance, ledger row or subscription changes. A deletion succeeds exactly for
  an own chat and leaves no row that refers to it.
\<close>

theorem chat_changes_isolated:
  assumes "chat_refs db"
  shows "chat_refs (fold (chat_step uid) ops db)
    \<and> foreign_chats uid (fold (chat_step uid) ops db) = foreign_chats uid db
    \<and> money (fold (chat_step uid) ops db) = money db
    \<and> (case delete_chat sid uid db of
         (Inl e, db') \<Rightarrow> e = NotFoundError \<and> db' = db \<and> get_session sid uid db = None
       | (Inr _, db') \<Rightarrow> get_session sid uid db \<noteq> None \<and> chat_gone sid db')"
proof (intro conjI)
  show "chat_refs (fold (chat_step uid) ops db)" "foreign_chats uid (fold (chat_step uid) ops db) = foreign_chats uid db"
    "money (fold (chat_step uid) ops db) = money db"
    using chat_steps_kept[OF assms] by (auto simp: chats_kept_def)
  show "case delete_chat sid uid db of
         (Inl e, db') \<Rightarrow> e = NotFoundError \<and> db' = db \<and> get_session sid uid db = None
       | (Inr _, db') \<Rightarrow> get_session sid uid db \<noteq> None \<and> chat_gone sid db'"
    by (auto simp: delete_chat_def delete_session_def bind_act_def chat_gone_def find_session_def find_None_iff
        split: prod.splits sum.splits if_splits)
qed

lemma chat_changes_isolated_witness:
  "foreign_chats 7 (fold (chat_step 7) [DeleteChat 1, PatchChat 3 \<lparr>cp_title = Some None, cp_pinned = None, cp_workspace = None\<rparr>]
     demo_chats_db) = foreign_chats 7 demo_chats_db"
proof -
  have "chat_refs demo_chats_db"
    by (simp add: chat_refs_def demo_chats_db_def demo_session_def empty_db_def session_ids_def)
  from chat_changes_isolated[OF this] show ?thesis by blast
qed

end
