(* ===== verification/WorkspaceList.thy ===== *)
theory WorkspaceList
  imports Pagination Workspaces
begin

text \<open>
  The paginated list of workspaces with the number of files and chats of each
  (\<^verbatim>\<open>list_workspaces\<close> of \<^verbatim>\<open>app/workspaces/service.py\<close> and \<^verbatim>\<open>repository.py\<close>).
\<close>

record workspace_item =
  wi_workspace :: workspace_row
  wi_files :: int
  wi_chats :: int

definition workspace_key :: "workspace_row \<Rightarrow> time \<times> uuid" where
  "workspace_key w = (ws_updated w, ws_id w)"

definition chat_count :: "uuid \<Rightarrow> db \<Rightarrow> int" where
  "chat_count wid db = int (length (filter (\<lambda>s. cs_workspace s = Some wid) (sessions db)))"

definition workspace_item_of :: "db \<Rightarrow> workspace_row \<Rightarrow> workspace_item" where
  "workspace_item_of db w = \<lparr>wi_workspace = w, wi_files = file_count (ws_id w) db, wi_chats = chat_count (ws_id w) db\<rparr>"

definition repo_list_workspaces ::
  "uuid \<Rightarrow> (time \<times> uuid) option \<Rightarrow> nat \<Rightarrow> db \<Rightarrow> workspace_item list \<times> string option" where
  "repo_list_workspaces uid cursor limit db =
    (let rows = take (limit + 1) (pair_sorted workspace_key (filter (\<lambda>w. ws_user w = uid
            \<and> (case cursor of None \<Rightarrow> True | Some c \<Rightarrow> after_pair c (workspace_key w))) (workspaces db)));
         (page_rows, next_cursor) = cut_page (\<lambda>w. pair_cursor_encode (workspace_key w)) limit rows in
     (map (workspace_item_of db) page_rows, next_cursor))"

definition list_workspaces ::
  "'a cursor_env_scheme \<Rightarrow> uuid \<Rightarrow> string option \<Rightarrow> nat \<Rightarrow> db \<Rightarrow> app_error + workspace_item list \<times> string option" where
  "list_workspaces env uid cursor limit db = (case cursor of
     None \<Rightarrow> Inr (repo_list_workspaces uid None limit db)
   | Some [] \<Rightarrow> Inr (repo_list_workspaces uid None limit db)
   | Some value \<Rightarrow> (case pair_cursor_decode env value of
       None \<Rightarrow> Inl ValidationFailedError | Some c \<Rightarrow> Inr (repo_list_workspaces uid (Some c) limit db)))"

definition workspace_token :: "workspace_item \<Rightarrow> string option" where
  "workspace_token it = pair_cursor_encode (workspace_key (wi_workspace it))"

definition own_workspaces :: "uuid \<Rightarrow> db \<Rightarrow> workspace_item list" where
  "own_workspaces uid db = map (workspace_item_of db) (pair_sorted workspace_key (filter (\<lambda>w. ws_user w = uid) (workspaces db)))"

definition workspaces_listable :: "'a cursor_env_scheme \<Rightarrow> uuid \<Rightarrow> db \<Rightarrow> bool" where
  "workspaces_listable env uid db \<longleftrightarrow> utf8_ok env \<and> distinct (map ws_id (workspaces db))
    \<and> (\<forall>w \<in> set (workspaces db). ws_user w = uid \<longrightarrow> time_token_ok env (ws_updated w))"

lemma repo_workspaces_page:
  assumes "pair_sorted workspace_key (filter (\<lambda>w. ws_user w = uid
            \<and> (case c of None \<Rightarrow> True | Some c \<Rightarrow> after_pair c (workspace_key w))) (workspaces db)) = ws"
  shows "repo_list_workspaces uid c n db = cut_page workspace_token n (map (workspace_item_of db) ws)"
  by (simp add: repo_list_workspaces_def assms cut_page_fetched cut_page_map)
    (simp add: cut_page_def Let_def workspace_token_def workspace_item_of_def)

interpretation wkl: keyset_list "\<lambda>(env, uid, db). workspaces_listable env uid db"
  "\<lambda>(env, uid, db). own_workspaces uid db" workspace_token
  "\<lambda>(env, uid, db) n c. list_workspaces env uid c n db"
proof (unfold_locales, goal_cases)
  case (1 s r)
  then show ?case
    by (cases s) (auto simp: own_workspaces_def workspaces_listable_def workspace_token_def workspace_item_of_def
        workspace_key_def pair_cursor_encode_def time_token_ok_def split: option.splits)
next
  case (2 s n)
  then show ?case using repo_workspaces_page[of _ None _ _ n]
    by (cases s) (simp add: list_workspaces_def own_workspaces_def)
next
  case (3 s as r bs n)
  obtain env uid db where s: "s = (env, uid, db)" by (cases s)
  with 3 have l: "workspaces_listable env uid db" by simp
  obtain xs x ys where x: "pair_sorted workspace_key (filter (\<lambda>w. ws_user w = uid) (workspaces db)) = xs @ x # ys"
    "r = workspace_item_of db x" "bs = map (workspace_item_of db) ys"
    using 3(2) by (auto simp: s own_workspaces_def map_eq_append_conv)
  have "x \<in> set (pair_sorted workspace_key (filter (\<lambda>w. ws_user w = uid) (workspaces db)))" by (simp add: x(1))
  then have "x \<in> set (workspaces db)" "ws_user x = uid" by auto
  then have "time_token_ok env (fst (workspace_key x))" "utf8_ok env" using l by (auto simp: workspaces_listable_def workspace_key_def)
  then obtain t where t: "pair_cursor_encode (workspace_key x) = Some t" "t \<noteq> []" "pair_cursor_decode env t = Some (workspace_key x)"
    using pair_cursor_roundtrip by blast
  have "distinct (map (\<lambda>r. snd (workspace_key r)) (workspaces db))" using l by (simp add: workspaces_listable_def workspace_key_def)
  from pair_sorted_resume[OF this x(1)] have "repo_list_workspaces uid (Some (workspace_key x)) n db = cut_page workspace_token n bs"
    using repo_workspaces_page[of uid "Some (workspace_key x)" db ys n] x(3) by simp
  then show ?case using t by (cases t) (simp_all add: s x(2) list_workspaces_def workspace_token_def workspace_item_of_def)
qed

lemma workspace_pages_complete:
  assumes "workspaces_listable env uid db" "0 < n" "length (workspaces db) < f"
  shows "\<exists>ps. follow (\<lambda>c. list_workspaces env uid c n db) f None = Inr ps \<and> concat ps = own_workspaces uid db
    \<and> (\<forall>p \<in> set (butlast ps). length p = n)"
proof -
  have "length (own_workspaces uid db) < f"
    using assms(3) by (simp add: own_workspaces_def le_less_trans[OF length_filter_le])
  then show ?thesis using wkl.walk_complete[of "(env, uid, db)" n f] assms(1,2) by auto
qed

end
