(* ===== verification/Images.thy ===== *)
theory Images
  imports Pagination Orchestrator
begin

text \<open>
  The images the user's chats generated (\<^verbatim>\<open>app/api_gateway/routers/images.py\<close>): the paginated gallery,
  fetch and deletion, each scoped to the owner and to images that have not expired, after the opportunistic
  sweep of expired rows. Whether the rate limiter lets the request pass is an argument.
\<close>

record image_item =
  ii_id :: uuid
  ii_content_type :: string
  ii_size :: int
  ii_created :: time
  ii_session :: "uuid option"

datatype image_response = ImageBytes bytes string | ImageDeleted | ImageNotFound

text \<open>Owner isolation and freshness.\<close>

definition image_visible :: "uuid \<Rightarrow> db \<Rightarrow> image_row \<Rightarrow> bool" where
  "image_visible uid db r = (gi_user r = uid \<and> (case gi_expires r of None \<Rightarrow> True | Some t \<Rightarrow> db_now db < t))"

definition image_key :: "image_row \<Rightarrow> time \<times> uuid" where
  "image_key r = (gi_created r, gi_id r)"

definition image_item_of :: "image_row \<Rightarrow> image_item" where
  "image_item_of r = \<lparr>ii_id = gi_id r, ii_content_type = gi_content_type r, ii_size = gi_size r,
     ii_created = gi_created r, ii_session = gi_session r\<rparr>"

definition image_page :: "uuid \<Rightarrow> (time \<times> uuid) option \<Rightarrow> nat \<Rightarrow> db \<Rightarrow> image_item list \<times> string option" where
  "image_page uid cursor limit db =
    (let rows = take (limit + 1) (pair_sorted image_key (filter (\<lambda>r. image_visible uid db r
            \<and> (case cursor of None \<Rightarrow> True | Some c \<Rightarrow> after_pair c (image_key r))) (generated_images db)));
         (page_rows, next_cursor) = cut_page (\<lambda>r. pair_cursor_encode (image_key r)) limit rows in
     (map image_item_of page_rows, next_cursor))"

definition list_images ::
  "'a cursor_env_scheme \<Rightarrow> chat_env \<Rightarrow> bool \<Rightarrow> uuid \<Rightarrow> string option \<Rightarrow> nat \<Rightarrow> (image_item list \<times> string option) chat_act" where
  "list_images cenv env admitted uid cursor limit =
     bind_act (guard_act admitted RateLimitedError) (\<lambda>_.
     bind_act (maybe_sweep_expired_images env) (\<lambda>_.
     bind_act get_st (\<lambda>s.
     case cursor of
       None \<Rightarrow> ret (image_page uid None limit (ch_db s))
     | Some [] \<Rightarrow> ret (image_page uid None limit (ch_db s))
     | Some value \<Rightarrow> (case pair_cursor_decode cenv value of
         None \<Rightarrow> raise ValidationFailedError
       | Some c \<Rightarrow> ret (image_page uid (Some c) limit (ch_db s))))))"

definition get_image :: "chat_env \<Rightarrow> uuid \<Rightarrow> uuid \<Rightarrow> image_response chat_act" where
  "get_image env uid iid =
     bind_act (maybe_sweep_expired_images env) (\<lambda>_.
     bind_act get_st (\<lambda>s.
     case find (\<lambda>r. gi_id r = iid \<and> image_visible uid (ch_db s) r) (generated_images (ch_db s)) of
       None \<Rightarrow> ret ImageNotFound
     | Some r \<Rightarrow> ret (ImageBytes (gi_content r) (gi_content_type r))))"

definition delete_image :: "chat_env \<Rightarrow> bool \<Rightarrow> uuid \<Rightarrow> uuid \<Rightarrow> image_response chat_act" where
  "delete_image env admitted uid iid =
     bind_act (guard_act admitted RateLimitedError) (\<lambda>_.
     bind_act (maybe_sweep_expired_images env) (\<lambda>_.
     bind_act get_st (\<lambda>s.
     let gone = filter (\<lambda>r. gi_id r = iid \<and> image_visible uid (ch_db s) r) (generated_images (ch_db s)) in
     bind_act (upd_st (\<lambda>s. s\<lparr>ch_db := (ch_db s)\<lparr>generated_images :=
       filter (\<lambda>r. \<not> (gi_id r = iid \<and> image_visible uid (ch_db s) r)) (generated_images (ch_db s))\<rparr>\<rparr>)) (\<lambda>_.
     bind_act commit (\<lambda>_. ret (if gone = [] then ImageNotFound else ImageDeleted))))))"

section \<open>The sweep hides nothing that is visible\<close>

lemma sweep_result:
  obtains gs where "maybe_sweep_expired_images env s = (Inr (), snd (maybe_sweep_expired_images env s))"
    "ch_db (snd (maybe_sweep_expired_images env s)) = (ch_db s)\<lparr>generated_images := gs\<rparr>"
    "distinct (map gi_id (generated_images (ch_db s))) \<longrightarrow>
       (\<forall>P. (\<forall>r. P r \<longrightarrow> \<not> expired_image (ch_db s) r) \<longrightarrow> filter P gs = filter P (generated_images (ch_db s)))"
proof (cases "ce_sweep_lock env")
  case False
  then show thesis by (intro that[of "generated_images (ch_db s)"]) (simp_all add: maybe_sweep_expired_images_def)
next
  case True
  let ?db = "ch_db s"
  let ?gone = "map gi_id (take (nat (max 1 (image_sweep_batch_size (ce_cfg env)))) (filter (expired_image ?db) (generated_images ?db)))"
  let ?gs = "filter (\<lambda>r. gi_id r \<notin> set ?gone) (generated_images ?db)"
  have "filter P ?gs = filter P (generated_images ?db)"
    if d: "distinct (map gi_id (generated_images ?db))" and P: "\<And>r. P r \<Longrightarrow> \<not> expired_image ?db r" for P
  proof -
    have "gi_id r \<notin> set ?gone" if r: "r \<in> set (generated_images ?db)" "P r" for r
    proof
      assume "gi_id r \<in> set ?gone"
      then obtain q where "q \<in> set (generated_images ?db)" "expired_image ?db q" "gi_id q = gi_id r"
        by (auto dest!: in_set_takeD)
      then show False using d r P by (metis distinct_map inj_onD)
    qed
    then show ?thesis by (auto intro!: filter_cong)
  qed
  then show thesis by (intro that[of ?gs]) (auto simp: True maybe_sweep_expired_images_def commit_def Let_def)
qed

lemma visible_not_expired: "image_visible uid db r \<Longrightarrow> \<not> expired_image db r"
  by (auto simp: image_visible_def expired_image_def split: option.splits)

lemma visible_expires: "image_visible uid (db\<lparr>generated_images := gs\<rparr>) r = image_visible uid db r"
  by (cases "gi_expires r") (simp_all add: image_visible_def)

text \<open>Every query that selects visible rows reads the same rows before and after a sweep.\<close>

lemma sweep_visible:
  assumes "distinct (map gi_id (generated_images (ch_db s)))"
  obtains s' gs where "maybe_sweep_expired_images env s = (Inr (), s')" "ch_db s' = (ch_db s)\<lparr>generated_images := gs\<rparr>"
    "\<forall>P. filter (\<lambda>r. image_visible uid (ch_db s) r \<and> P r) gs
        = filter (\<lambda>r. image_visible uid (ch_db s) r \<and> P r) (generated_images (ch_db s))"
proof -
  obtain gs where gs: "maybe_sweep_expired_images env s = (Inr (), snd (maybe_sweep_expired_images env s))"
    "ch_db (snd (maybe_sweep_expired_images env s)) = (ch_db s)\<lparr>generated_images := gs\<rparr>"
    "distinct (map gi_id (generated_images (ch_db s))) \<longrightarrow>
       (\<forall>P. (\<forall>r. P r \<longrightarrow> \<not> expired_image (ch_db s) r) \<longrightarrow> filter P gs = filter P (generated_images (ch_db s)))"
    by (rule sweep_result)
  show thesis
    by (rule that[OF gs(1,2)], intro allI, rule gs(3)[rule_format, OF assms]) (auto dest: visible_not_expired)
qed

section \<open>The gallery\<close>

definition image_token :: "image_item \<Rightarrow> string option" where
  "image_token it = pair_cursor_encode (ii_created it, ii_id it)"

definition own_images :: "uuid \<Rightarrow> db \<Rightarrow> image_item list" where
  "own_images uid db = map image_item_of (pair_sorted image_key (filter (image_visible uid db) (generated_images db)))"

definition images_listable :: "'a cursor_env_scheme \<Rightarrow> uuid \<Rightarrow> db \<Rightarrow> bool" where
  "images_listable cenv uid db \<longleftrightarrow> utf8_ok cenv \<and> distinct (map gi_id (generated_images db))
    \<and> (\<forall>r \<in> set (generated_images db). gi_user r = uid \<longrightarrow> time_token_ok cenv (gi_created r))"

lemma image_page_cut:
  assumes "pair_sorted image_key (filter (\<lambda>r. image_visible uid db r
            \<and> (case c of None \<Rightarrow> True | Some c \<Rightarrow> after_pair c (image_key r))) (generated_images db)) = rs"
  shows "image_page uid c n db = cut_page image_token n (map image_item_of rs)"
  by (simp add: image_page_def assms cut_page_fetched cut_page_map)
    (simp add: cut_page_def Let_def image_token_def image_item_of_def image_key_def)

lemma image_page_swept:
  assumes "\<And>P. filter (\<lambda>r. image_visible uid db r \<and> P r) gs = filter (\<lambda>r. image_visible uid db r \<and> P r) (generated_images db)"
  shows "image_page uid c n (db\<lparr>generated_images := gs\<rparr>) = image_page uid c n db"
  by (simp add: image_page_def visible_expires assms)

lemma list_images_page:
  assumes "distinct (map gi_id (generated_images (ch_db s)))"
  shows "fst (list_images cenv env True uid c n s) = (case c of
     None \<Rightarrow> Inr (image_page uid None n (ch_db s))
   | Some [] \<Rightarrow> Inr (image_page uid None n (ch_db s))
   | Some v \<Rightarrow> (case pair_cursor_decode cenv v of None \<Rightarrow> Inl ValidationFailedError
      | Some p \<Rightarrow> Inr (image_page uid (Some p) n (ch_db s))))"
proof -
  obtain s' gs where s': "maybe_sweep_expired_images env s = (Inr (), s')" "ch_db s' = (ch_db s)\<lparr>generated_images := gs\<rparr>"
    "\<forall>P. filter (\<lambda>r. image_visible uid (ch_db s) r \<and> P r) gs
        = filter (\<lambda>r. image_visible uid (ch_db s) r \<and> P r) (generated_images (ch_db s))"
    by (rule sweep_visible[OF assms, of env uid])
  note page = image_page_swept[OF s'(3)[rule_format]]
  show ?thesis
  proof (cases c)
    case None
    then show ?thesis by (simp add: list_images_def bind_act_def s'(1) s'(2) page)
  next
    case (Some v)
    show ?thesis
    proof (cases "v = []")
      case True
      with Some show ?thesis by (simp add: list_images_def bind_act_def s'(1) s'(2) page)
    next
      case False
      with Some show ?thesis
        by (cases "pair_cursor_decode cenv v"; cases v) (simp_all add: list_images_def bind_act_def s'(1) s'(2) page)
    qed
  qed
qed

interpretation iml: keyset_list "\<lambda>(cenv, env, uid, s). images_listable cenv uid (ch_db s)"
  "\<lambda>(cenv, env, uid, s). own_images uid (ch_db s)" image_token
  "\<lambda>(cenv, env, uid, s) n c. fst (list_images cenv env True uid c n s)"
proof (unfold_locales, goal_cases)
  case (1 q r)
  then show ?case
    by (cases q) (auto simp: own_images_def images_listable_def image_token_def image_item_of_def image_visible_def
        pair_cursor_encode_def time_token_ok_def split: option.splits)
next
  case (2 q n)
  then show ?case using image_page_cut[of _ _ None _ n]
    by (cases q) (simp add: list_images_page images_listable_def own_images_def)
next
  case (3 q as r bs n)
  obtain cenv env uid s where q: "q = (cenv, env, uid, s)" by (cases q)
  with 3 have l: "images_listable cenv uid (ch_db s)" by simp
  obtain xs x ys where x: "pair_sorted image_key (filter (image_visible uid (ch_db s)) (generated_images (ch_db s))) = xs @ x # ys"
    "r = image_item_of x" "bs = map image_item_of ys"
    using 3(2) by (auto simp: q own_images_def map_eq_append_conv)
  have "x \<in> set (pair_sorted image_key (filter (image_visible uid (ch_db s)) (generated_images (ch_db s))))" by (simp add: x(1))
  then have "x \<in> set (generated_images (ch_db s))" "gi_user x = uid" by (auto simp: image_visible_def)
  then have "time_token_ok cenv (fst (image_key x))" "utf8_ok cenv" using l by (auto simp: images_listable_def image_key_def)
  then obtain t where t: "pair_cursor_encode (image_key x) = Some t" "t \<noteq> []" "pair_cursor_decode cenv t = Some (image_key x)"
    using pair_cursor_roundtrip by blast
  have d: "distinct (map (\<lambda>r. snd (image_key r)) (generated_images (ch_db s)))" "distinct (map gi_id (generated_images (ch_db s)))"
    using l by (simp_all add: images_listable_def image_key_def)
  from pair_sorted_resume[OF d(1) x(1)] have "image_page uid (Some (image_key x)) n (ch_db s) = cut_page image_token n bs"
    using image_page_cut[of uid "ch_db s" "Some (image_key x)" ys n] x(3) by simp
  then show ?case using t d(2)
    by (cases t) (simp_all add: q x(2) list_images_page image_token_def image_item_of_def image_key_def)
qed

lemma find_filter: "find P xs = (case filter P xs of [] \<Rightarrow> None | x # _ \<Rightarrow> Some x)"
  by (induction xs) auto

lemma find_conj_distinct:
  assumes "distinct (map k xs)"
  shows "find (\<lambda>x. k x = i \<and> P x) xs = (case find (\<lambda>x. k x = i) xs of None \<Rightarrow> None | Some x \<Rightarrow> if P x then Some x else None)"
  using assms
proof (induction xs)
  case (Cons x xs)
  show ?case
  proof (cases "k x = i")
    case True
    then have "i \<notin> k ` set xs" using Cons.prems by auto
    then have "find (\<lambda>x. k x = i \<and> P x) xs = None" unfolding find_None_iff by (metis image_eqI)
    with True show ?thesis by simp
  qed (use Cons in simp)
qed simp

lemma find_visible:
  assumes "distinct (map gi_id (generated_images db))"
    and "\<And>P. filter (\<lambda>r. image_visible uid db r \<and> P r) gs = filter (\<lambda>r. image_visible uid db r \<and> P r) (generated_images db)"
  shows "find (\<lambda>r. gi_id r = iid \<and> image_visible uid db r) gs
    = (case find (\<lambda>r. gi_id r = iid) (generated_images db) of None \<Rightarrow> None
       | Some r \<Rightarrow> if image_visible uid db r then Some r else None)"
proof -
  have "find (\<lambda>r. gi_id r = iid \<and> image_visible uid db r) gs
      = find (\<lambda>r. gi_id r = iid \<and> image_visible uid db r) (generated_images db)"
    using assms(2)[of "\<lambda>r. gi_id r = iid"] by (simp add: find_filter conj_commute)
  then show ?thesis by (simp add: find_conj_distinct[OF assms(1)])
qed

text \<open>A deletion removes the one visible image it names and no image anyone else can see.\<close>

lemma delete_image_exact:
  assumes "distinct (map gi_id (generated_images (ch_db s)))"
  shows "filter (image_visible v (ch_db s)) (generated_images (ch_db (snd (delete_image env True uid iid s))))
      = filter (\<lambda>r. image_visible v (ch_db s) r \<and> \<not> (gi_id r = iid \<and> v = uid)) (generated_images (ch_db s))"
proof -
  obtain s' gs where s': "maybe_sweep_expired_images env s = (Inr (), s')" "ch_db s' = (ch_db s)\<lparr>generated_images := gs\<rparr>"
    "\<forall>P. filter (\<lambda>r. image_visible v (ch_db s) r \<and> P r) gs
        = filter (\<lambda>r. image_visible v (ch_db s) r \<and> P r) (generated_images (ch_db s))"
    by (rule sweep_visible[OF assms, of env v])
  have e: "(\<lambda>r. (gi_id r = iid \<longrightarrow> \<not> image_visible uid (ch_db s) r) \<and> image_visible v (ch_db s) r)
      = (\<lambda>r. image_visible v (ch_db s) r \<and> (gi_id r = iid \<longrightarrow> v \<noteq> uid))"
    by (auto simp: image_visible_def)
  show ?thesis
    by (simp add: delete_image_def bind_act_def s'(1,2) visible_expires commit_def Let_def e s'(3)[rule_format])
qed

text \<open>
  C33: The gallery and the image endpoints show a user every own image that has not expired, and no other:
  following the cursors lists each of them exactly once, newest first; a fetch returns the bytes exactly
  of such an image and answers not found for every other identifier; and none of this depends on whether
  the sweep of expired rows ran before the query.
\<close>

theorem images_private:
  assumes "images_listable cenv uid (ch_db s)" "0 < n" "length (generated_images (ch_db s)) < f"
  shows "(\<exists>ps. follow (\<lambda>c. fst (list_images cenv env True uid c n s)) f None = Inr ps
      \<and> concat ps = own_images uid (ch_db s) \<and> (\<forall>p \<in> set (butlast ps). length p = n))
    \<and> fst (get_image env uid iid s) = Inr (case find (\<lambda>r. gi_id r = iid) (generated_images (ch_db s)) of
        None \<Rightarrow> ImageNotFound
      | Some r \<Rightarrow> if gi_user r = uid \<and> \<not> expired_image (ch_db s) r then ImageBytes (gi_content r) (gi_content_type r)
          else ImageNotFound)"
proof
  have "length (own_images uid (ch_db s)) < f"
    using assms(3) by (simp add: own_images_def le_less_trans[OF length_filter_le])
  then show "\<exists>ps. follow (\<lambda>c. fst (list_images cenv env True uid c n s)) f None = Inr ps
      \<and> concat ps = own_images uid (ch_db s) \<and> (\<forall>p \<in> set (butlast ps). length p = n)"
    using iml.walk_complete[of "(cenv, env, uid, s)" n f] assms(1,2) by auto
  have d: "distinct (map gi_id (generated_images (ch_db s)))" using assms(1) by (simp add: images_listable_def)
  obtain s' gs where s': "maybe_sweep_expired_images env s = (Inr (), s')" "ch_db s' = (ch_db s)\<lparr>generated_images := gs\<rparr>"
    "\<forall>P. filter (\<lambda>r. image_visible uid (ch_db s) r \<and> P r) gs
        = filter (\<lambda>r. image_visible uid (ch_db s) r \<and> P r) (generated_images (ch_db s))"
    by (rule sweep_visible[OF d, of env uid])
  have v: "image_visible uid (ch_db s) r \<longleftrightarrow> gi_user r = uid \<and> \<not> expired_image (ch_db s) r" for r
    by (auto simp: image_visible_def expired_image_def split: option.splits)
  show "fst (get_image env uid iid s) = Inr (case find (\<lambda>r. gi_id r = iid) (generated_images (ch_db s)) of
        None \<Rightarrow> ImageNotFound
      | Some r \<Rightarrow> if gi_user r = uid \<and> \<not> expired_image (ch_db s) r then ImageBytes (gi_content r) (gi_content_type r)
          else ImageNotFound)"
    by (cases "find (\<lambda>r. gi_id r = iid) (generated_images (ch_db s))")
      (simp_all add: get_image_def bind_act_def s'(1) s'(2) visible_expires find_visible[OF d s'(3)[rule_format], unfolded v] v)
qed

text \<open>Two images of one user, one of them expired, and one of another user.\<close>

definition demo_image :: "uuid \<Rightarrow> uuid \<Rightarrow> time option \<Rightarrow> image_row" where
  "demo_image iid uid expires = \<lparr>gi_id = iid, gi_user = uid, gi_session = None, gi_message_step = None, gi_tool_call = None,
     gi_content = [1], gi_content_type = ''image/png'', gi_size = 1, gi_prompt = None, gi_created = 0, gi_expires = expires\<rparr>"

definition demo_images :: chat_st where
  "demo_images = (let db = (empty_db (\<lambda>n. of_nat n) 0)\<lparr>generated_images :=
       [demo_image 1 7 None, demo_image 2 7 (Some 0), demo_image 3 8 None, demo_image 4 7 (Some 5)]\<rparr> in
     \<lparr>ch_saved = db, ch_db = db, ch_mem_steps = [], ch_mem_calls = [], ch_sent = []\<rparr>)"

definition demo_cursor_env :: cursor_env where
  "demo_cursor_env = \<lparr>cu_utf8 = latin_utf8,
     cu_iso = (\<lambda>s. if s = ''1970-01-01T00:00:00+00:00'' then Some (Aware 0) else None)\<rparr>"

lemma images_private_witness:
  "\<forall>env. \<exists>ps. follow (\<lambda>c. fst (list_images demo_cursor_env env True 7 c 1 demo_images)) 5 None = Inr ps
      \<and> map ii_id (concat ps) = [4, 1]"
proof
  fix env
  have "isoformat 0 0 = Some ''1970-01-01T00:00:00+00:00''" by code_simp
  then have "time_token_ok demo_cursor_env 0" by (simp add: time_token_ok_def demo_cursor_env_def)
  moreover have "utf8_ok demo_cursor_env" by (simp add: utf8_ok_def demo_cursor_env_def latin_utf8_encode)
  ultimately have l: "images_listable demo_cursor_env 7 (ch_db demo_images)"
    by (simp add: images_listable_def demo_images_def demo_image_def empty_db_def Let_def)
  have len: "length (generated_images (ch_db demo_images)) < 5" by (simp add: demo_images_def Let_def)
  have "map ii_id (own_images 7 (ch_db demo_images)) = [4, 1]" by code_simp
  with images_private[OF l zero_less_one len, of env 4]
  show "\<exists>ps. follow (\<lambda>c. fst (list_images demo_cursor_env env True 7 c 1 demo_images)) 5 None = Inr ps
      \<and> map ii_id (concat ps) = [4, 1]" by metis
qed

end
