(* ===== verification/Profiles.thy ===== *)
theory Profiles
  imports Redaction ServerTools Orchestrator
begin

text \<open>
  What belongs to the account itself: the display profile with its derived identifier
  (\<^verbatim>\<open>app/profile\<close>), the user's preferences (\<^verbatim>\<open>app/preferences/service.py\<close> and the validation of
  \<^verbatim>\<open>schemas/preferences.py\<close>) and the localised prompt presets (\<^verbatim>\<open>app/chat/presets.py\<close> and the choice of
  the locale in \<^verbatim>\<open>routers/presets.py\<close>). SHA-256, \<^verbatim>\<open>json.dumps\<close> and the Russian texts are parameters.
\<close>

section \<open>The display identifier\<close>

definition ALPHANUM :: string where "ALPHANUM = ''ABCDEFGHJKLMNPQRSTUVWXYZ23456789''"

definition from_bytes_big :: "bytes \<Rightarrow> nat" where
  "from_bytes_big bs = foldl (\<lambda>n b. 256 * n + unat b) 0 bs"

fun trailing_chars :: "nat \<Rightarrow> nat \<Rightarrow> string" where
  "trailing_chars 0 v = []"
| "trailing_chars (Suc n) v = ALPHANUM ! (v mod length ALPHANUM) # trailing_chars n (v div length ALPHANUM)"

definition account_id :: "(bytes \<Rightarrow> bytes) \<Rightarrow> uuid \<Rightarrow> string" where
  "account_id sha256 uid =
    (let digest = sha256 (utf8_encode (str_uuid uid));
         g1 = from_bytes_big (take 4 digest) mod 10000;
         g2 = from_bytes_big (take 4 (drop 4 digest)) mod 10000;
         v = from_bytes_big (take 8 (drop 8 digest)) in
     pad_int 4 (int g1) @ ''-'' @ pad_int 4 (int g2) @ ''-'' @ trailing_chars 5 v)"

section \<open>The profile\<close>

record profile_view =
  pv_account :: string
  pv_name :: "string option"
  pv_created :: time

definition profile_view_of :: "(bytes \<Rightarrow> bytes) \<Rightarrow> uuid \<Rightarrow> user_row \<Rightarrow> profile_view" where
  "profile_view_of sha256 uid u =
    \<lparr>pv_account = account_id sha256 uid, pv_name = u_display_name u, pv_created = u_created u\<rparr>"

definition get_profile :: "(bytes \<Rightarrow> bytes) \<Rightarrow> uuid \<Rightarrow> profile_view db_act" where
  "get_profile sha256 uid = bind_act get_st (\<lambda>db. case users db uid of
     None \<Rightarrow> raise NotFoundError | Some u \<Rightarrow> ret (profile_view_of sha256 uid u))"

definition update_display_name :: "(bytes \<Rightarrow> bytes) \<Rightarrow> uuid \<Rightarrow> string option \<Rightarrow> profile_view db_act" where
  "update_display_name sha256 uid name = bind_act get_st (\<lambda>db. case users db uid of
     None \<Rightarrow> raise NotFoundError
   | Some u \<Rightarrow>
       if \<not> text_ok name then raise DbError
       else (let u' = u\<lparr>u_display_name := name\<rparr> in
         bind_act (upd_st (\<lambda>db. db\<lparr>users := (users db)(uid \<mapsto> u')\<rparr>)) (\<lambda>_. ret (profile_view_of sha256 uid u'))))"

definition DISPLAY_NAME_MAX :: nat where "DISPLAY_NAME_MAX = 80"

text \<open>The body of a profile update: its length is limited before white space is cut off; an empty name clears it.\<close>

definition profile_update :: "string \<Rightarrow> app_error + string option" where
  "profile_update display_name = (if DISPLAY_NAME_MAX < length display_name then Inl ValidationFailedError
     else (let stripped = py_strip display_name in Inr (if stripped = [] then None else Some stripped)))"

section \<open>Preferences\<close>

record prefs_view =
  vf_assistant :: assistant_mode
  vf_dialog :: dialog_mode
  vf_notifications :: bool
  vf_code :: json

definition default_prefs :: prefs_view where
  "default_prefs = \<lparr>vf_assistant = AmChat, vf_dialog = DmSmart, vf_notifications = False, vf_code = JObj []\<rparr>"

definition prefs_view_of :: "prefs_row \<Rightarrow> prefs_view" where
  "prefs_view_of r = \<lparr>vf_assistant = up_assistant r, vf_dialog = up_dialog r,
     vf_notifications = up_notifications r, vf_code = up_code_defaults r\<rparr>"

definition get_preferences :: "uuid \<Rightarrow> db \<Rightarrow> prefs_view" where
  "get_preferences uid db = (case preferences db uid of None \<Rightarrow> default_prefs | Some r \<Rightarrow> prefs_view_of r)"

record prefs_patch =
  pf_assistant :: "assistant_mode option"
  pf_dialog :: "dialog_mode option"
  pf_notifications :: "bool option"
  pf_code :: "dict option"

definition or_else :: "'a option \<Rightarrow> 'a \<Rightarrow> 'a" where
  "or_else x d = (case x of None \<Rightarrow> d | Some v \<Rightarrow> v)"

definition patched_prefs :: "prefs_patch \<Rightarrow> time \<Rightarrow> prefs_row option \<Rightarrow> prefs_row" where
  "patched_prefs p now old = (case old of
     None \<Rightarrow> \<lparr>up_assistant = or_else (pf_assistant p) (vf_assistant default_prefs),
       up_dialog = or_else (pf_dialog p) (vf_dialog default_prefs),
       up_notifications = or_else (pf_notifications p) (vf_notifications default_prefs),
       up_code_defaults = or_else (map_option JObj (pf_code p)) (vf_code default_prefs), up_updated = now\<rparr>
   | Some r \<Rightarrow> r\<lparr>up_assistant := or_else (pf_assistant p) (up_assistant r), up_dialog := or_else (pf_dialog p) (up_dialog r),
       up_notifications := or_else (pf_notifications p) (up_notifications r),
       up_code_defaults := or_else (map_option JObj (pf_code p)) (up_code_defaults r)\<rparr>)"

definition patch_preferences :: "uuid \<Rightarrow> prefs_patch \<Rightarrow> prefs_view db_act" where
  "patch_preferences uid p = (\<lambda>db.
     let row = patched_prefs p (db_now db) (preferences db uid) in
     if (preferences db uid = None \<and> users db uid = None) \<or> \<not> jsonb_ok (up_code_defaults row) then (Inl DbError, db)
     else (Inr (prefs_view_of row), db\<lparr>preferences := (preferences db)(uid \<mapsto> row)\<rparr>))"

fun has_sensitive_keys :: "json \<Rightarrow> bool"
  and has_sensitive_list :: "json list \<Rightarrow> bool"
  and has_sensitive_dict :: "dict \<Rightarrow> bool"
where
  "has_sensitive_keys (JObj kvs) = has_sensitive_dict kvs"
| "has_sensitive_keys (JArr vs) = has_sensitive_list vs"
| "has_sensitive_keys JNull = False"
| "has_sensitive_keys (JBool b) = False"
| "has_sensitive_keys (JInt i) = False"
| "has_sensitive_keys (JFloat f) = False"
| "has_sensitive_keys (JStr s) = False"
| "has_sensitive_list [] = False"
| "has_sensitive_list (v # vs) = (has_sensitive_keys v \<or> has_sensitive_list vs)"
| "has_sensitive_dict [] = False"
| "has_sensitive_dict ((k, v) # kvs) = (is_sensitive_key k \<or> has_sensitive_keys v \<or> has_sensitive_dict kvs)"

definition CODE_DEFAULTS_MAX_BYTES :: nat where "CODE_DEFAULTS_MAX_BYTES = 8 * 1024"

definition check_prefs_patch :: "(json \<Rightarrow> string) \<Rightarrow> prefs_patch \<Rightarrow> bool" where
  "check_prefs_patch dumps p =
    (\<not> (pf_assistant p = None \<and> pf_dialog p = None \<and> pf_notifications p = None \<and> pf_code p = None)
     \<and> (case pf_code p of
          None \<Rightarrow> True
        | Some kvs \<Rightarrow> length (utf8_encode (dumps (JObj kvs))) \<le> CODE_DEFAULTS_MAX_BYTES \<and> \<not> has_sensitive_keys (JObj kvs)))"

text \<open>The request: validated, then applied in one transaction.\<close>

definition preferences_request :: "(json \<Rightarrow> string) \<Rightarrow> uuid \<Rightarrow> prefs_patch \<Rightarrow> prefs_view db_act" where
  "preferences_request dumps uid p =
    (if check_prefs_patch dumps p then transaction (patch_preferences uid p) else raise ValidationFailedError)"

section \<open>Presets\<close>

definition SUPPORTED_PRESET_LOCALES :: "string list" where "SUPPORTED_PRESET_LOCALES = [''en'', ''ru'']"
definition DEFAULT_PRESET_LOCALE :: string where "DEFAULT_PRESET_LOCALE = ''en''"

record preset =
  ps_id :: string
  ps_icon :: string
  ps_title :: "(string \<times> string) list"
  ps_prompt :: "(string \<times> string) list"

text \<open>The Russian title and prompt of a preset are given by the parameter.\<close>

definition preset_of :: "(string \<Rightarrow> string \<times> string) \<Rightarrow> string \<Rightarrow> string \<Rightarrow> string \<Rightarrow> string \<Rightarrow> preset" where
  "preset_of ru i icon title prompt = \<lparr>ps_id = i, ps_icon = icon, ps_title = [(''en'', title), (''ru'', fst (ru i))],
     ps_prompt = [(''en'', prompt), (''ru'', snd (ru i))]\<rparr>"

definition PRESETS :: "(string \<Rightarrow> string \<times> string) \<Rightarrow> preset list" where
  "PRESETS ru = [
     preset_of ru ''plan_week'' ''calendar'' ''Plan Week''
       (''Help me plan my upcoming week. Ask me about my priorities, deadlines, and ''
        @ ''commitments, then propose a balanced day-by-day schedule.''),
     preset_of ru ''meeting_notes'' ''person.2'' ''Meeting Notes''
       (''Turn my raw meeting notes into a clean summary with key decisions, action items ''
        @ ''(with owners), and open questions. I'll paste the notes next.''),
     preset_of ru ''tasks_from_photo'' ''camera'' ''Tasks from Photo''
       (''I'll attach a photo of a note, whiteboard, or list. Extract every actionable task ''
        @ ''from it and return them as a clear checklist.''),
     preset_of ru ''design_brief'' ''paintbrush'' ''Design Brief''
       (''Help me write a concise design brief. Ask me about the goal, audience, scope, ''
        @ ''constraints, and success criteria, then draft the brief.''),
     preset_of ru ''daily_review'' ''checklist'' ''Daily Review''
       (''Guide me through a short daily review: what I accomplished, what's still open, ''
        @ ''and the top 3 priorities for tomorrow.''),
     preset_of ru ''summarize_text'' ''doc.text'' ''Summarize Text''
       (''Summarize the text I provide. Give a 3-sentence overview, then key points as ''
        @ ''bullets. I'll paste the text next.''),
     preset_of ru ''project_structure'' ''folder'' ''Project Structure''
       (''Help me design a project structure. Ask about the project type and goals, then ''
        @ ''propose a folder/file layout with a short rationale.'')]"

record preset_entry =
  pe_id :: string
  pe_title :: string
  pe_icon :: string
  pe_prompt :: string

text \<open>\<^verbatim>\<open>texts.get(locale) or texts["en"]\<close>; \<^verbatim>\<open>None\<close> where that raises.\<close>

definition localized :: "(string \<times> string) list \<Rightarrow> string \<Rightarrow> string option" where
  "localized texts locale = (case map_of texts locale of
     Some s \<Rightarrow> if s = [] then map_of texts DEFAULT_PRESET_LOCALE else Some s
   | None \<Rightarrow> map_of texts DEFAULT_PRESET_LOCALE)"

fun preset_catalog :: "string \<Rightarrow> preset list \<Rightarrow> preset_entry list option" where
  "preset_catalog locale [] = Some []"
| "preset_catalog locale (p # ps) =
    (case (localized (ps_title p) locale, localized (ps_prompt p) locale, preset_catalog locale ps) of
       (Some t, Some q, Some es) \<Rightarrow> Some (\<lparr>pe_id = ps_id p, pe_title = t, pe_icon = ps_icon p, pe_prompt = q\<rparr> # es)
     | _ \<Rightarrow> None)"

definition resolved_presets_default_locale :: "string \<Rightarrow> string" where
  "resolved_presets_default_locale configured = (let normalized = py_lower (py_strip configured) in
     if normalized \<in> set SUPPORTED_PRESET_LOCALES then normalized else DEFAULT_PRESET_LOCALE)"

definition primary_subtag :: "string \<Rightarrow> string" where
  "primary_subtag part = hd (split_on CHR ''-'' (py_lower (py_strip (hd (split_on CHR '';'' part)))))"

definition first_supported_language :: "string option \<Rightarrow> string option" where
  "first_supported_language accept = (case accept of
     None \<Rightarrow> None
   | Some h \<Rightarrow> find (\<lambda>t. t \<in> set SUPPORTED_PRESET_LOCALES) (map primary_subtag (split_on CHR '','' h)))"

definition resolve_presets_locale :: "string option \<Rightarrow> string option \<Rightarrow> string \<Rightarrow> app_error + string" where
  "resolve_presets_locale query accept default_locale = (case query of
     Some q \<Rightarrow> (let normalized = py_lower (py_strip q) in
       if normalized \<in> set SUPPORTED_PRESET_LOCALES then Inr normalized else Inl ValidationFailedError)
   | None \<Rightarrow> (case first_supported_language accept of
       Some l \<Rightarrow> Inr l
     | None \<Rightarrow> Inr (if default_locale \<in> set SUPPORTED_PRESET_LOCALES then default_locale else DEFAULT_PRESET_LOCALE)))"

section \<open>The account identifier has one form\<close>

lemma pad_digits: "0 \<le> i \<Longrightarrow> i < 10000 \<Longrightarrow> length (pad_int 4 i) = 4"
proof -
  assume i: "0 \<le> i" "i < 10000"
  have "nat i < 10 ^ Suc 3" using i by simp
  from str_nat_length[OF this] have "length (str_nat (nat i)) \<le> 4" by simp
  then show ?thesis by (simp add: pad_int_def Let_def)
qed

lemma trailing_chars_form: "length (trailing_chars n v) = n \<and> set (trailing_chars n v) \<subseteq> set ALPHANUM"
proof (induction n arbitrary: v)
  case (Suc n)
  have "v mod length ALPHANUM < length ALPHANUM" by (rule mod_less_divisor) (simp add: ALPHANUM_def)
  with Suc show ?case by simp
qed simp

lemma account_id_form:
  "\<exists>g1 g2 g3. account_id sha256 uid = g1 @ ''-'' @ g2 @ ''-'' @ g3 \<and> length g1 = 4 \<and> length g2 = 4 \<and> length g3 = 5
     \<and> set g3 \<subseteq> set ALPHANUM"
proof -
  have g: "length (pad_int 4 (int (n mod 10000))) = 4" for n by (rule pad_digits) auto
  show ?thesis unfolding account_id_def Let_def
    by (intro exI conjI, rule refl) (use g trailing_chars_form in blast)+
qed

section \<open>Preferences refine a record of defaults\<close>

definition merged :: "prefs_patch \<Rightarrow> prefs_view \<Rightarrow> prefs_view" where
  "merged p v = \<lparr>vf_assistant = or_else (pf_assistant p) (vf_assistant v), vf_dialog = or_else (pf_dialog p) (vf_dialog v),
     vf_notifications = or_else (pf_notifications p) (vf_notifications v),
     vf_code = or_else (map_option JObj (pf_code p)) (vf_code v)\<rparr>"

text \<open>No stored code defaults hold a key that looks like a secret.\<close>

definition no_stored_secrets :: "db \<Rightarrow> bool" where
  "no_stored_secrets db \<longleftrightarrow> (\<forall>u r. preferences db u = Some r \<longrightarrow> \<not> has_sensitive_keys (up_code_defaults r))"

lemma patched_view: "prefs_view_of (patched_prefs p now (preferences db uid)) = merged p (get_preferences uid db)"
  by (cases "preferences db uid") (simp_all add: patched_prefs_def prefs_view_of_def merged_def get_preferences_def default_prefs_def)

lemma patch_Inr:
  assumes "patch_preferences uid p db = (Inr v, db')"
  obtains r where "preferences db' = (preferences db)(uid \<mapsto> r)" "v = prefs_view_of r" "v = merged p (get_preferences uid db)"
  using assms patched_view[of p "db_now db" db uid]
  by (auto simp: patch_preferences_def Let_def split: if_splits)

lemma patch_Inl: "patch_preferences uid p db = (Inl e, db') \<Longrightarrow> e = DbError"
  by (auto simp: patch_preferences_def Let_def split: if_splits)

lemma secrets_upd:
  assumes "no_stored_secrets db" "preferences db' = (preferences db)(uid \<mapsto> r)" "\<not> has_sensitive_keys (up_code_defaults r)"
  shows "no_stored_secrets db'"
  using assms by (auto simp: no_stored_secrets_def)

lemma merged_code:
  assumes "check_prefs_patch dumps p" "no_stored_secrets db"
  shows "\<not> has_sensitive_keys (vf_code (merged p (get_preferences uid db)))"
proof (cases "pf_code p")
  case None
  then show ?thesis using assms(2)
    by (auto simp: merged_def or_else_def get_preferences_def default_prefs_def prefs_view_of_def no_stored_secrets_def
        split: option.splits)
next
  case (Some kvs)
  then show ?thesis using assms(1) by (auto simp: merged_def or_else_def check_prefs_patch_def)
qed

text \<open>
  C34: A change of preferences overrides exactly the given fields of what the user would have read before
  (the defaults when nothing was stored), returns what a later read returns, touches no other user, and is
  what new chats start from; a request that is refused or that the database rejects changes nothing.
  Defaults for code never come to hold a key that looks like a secret.
\<close>

theorem preferences_refine:
  "case preferences_request dumps uid p db of (r, db') \<Rightarrow>
     (case r of
        Inr v \<Rightarrow> v = merged p (get_preferences uid db) \<and> get_preferences uid db' = v
          \<and> default_assistant_mode uid db' = vf_assistant v \<and> default_dialog_mode uid db' = vf_dialog v
      | Inl e \<Rightarrow> db' = db \<and> (e = ValidationFailedError \<longleftrightarrow> \<not> check_prefs_patch dumps p))
     \<and> preferences db' = (preferences db)(uid := preferences db' uid)
     \<and> (if no_stored_secrets db then no_stored_secrets db' else True)"
proof (cases "preferences_request dumps uid p db")
  case (Pair r db')
  show ?thesis
  proof (cases r)
    case (Inl e)
    have "db' = db" "e = ValidationFailedError \<longleftrightarrow> \<not> check_prefs_patch dumps p"
      using Pair Inl by (auto simp: preferences_request_def transaction_Inl_iff dest: patch_Inl split: if_splits)
    then show ?thesis using Pair Inl by simp
  next
    case (Inr v)
    then have c: "check_prefs_patch dumps p" and "patch_preferences uid p db = (Inr v, db')"
      using Pair by (auto simp: preferences_request_def transaction_Inr_iff split: if_splits)
    then obtain q where q: "preferences db' = (preferences db)(uid \<mapsto> q)" "v = prefs_view_of q"
      "v = merged p (get_preferences uid db)"
      by (auto elim: patch_Inr)
    have "vf_code v = up_code_defaults q" using q(2) by (simp add: prefs_view_of_def)
    with merged_code[OF c] q(3) have "no_stored_secrets db \<Longrightarrow> \<not> has_sensitive_keys (up_code_defaults q)" by metis
    then have "no_stored_secrets db \<Longrightarrow> no_stored_secrets db'" using secrets_upd[OF _ q(1)] by blast
    moreover have "get_preferences uid db' = v" "default_assistant_mode uid db' = vf_assistant v"
      "default_dialog_mode uid db' = vf_dialog v"
      by (simp_all add: get_preferences_def default_assistant_mode_def default_dialog_mode_def q(1,2) prefs_view_of_def)
    ultimately show ?thesis using q(1,3) by (simp add: Pair Inr)
  qed
qed

section \<open>Every resolved locale has a full catalogue\<close>

lemma resolved_supported:
  "resolve_presets_locale query accept def_locale = Inr l \<Longrightarrow> l \<in> set SUPPORTED_PRESET_LOCALES"
  by (auto simp: resolve_presets_locale_def first_supported_language_def Let_def DEFAULT_PRESET_LOCALE_def
      SUPPORTED_PRESET_LOCALES_def find_Some_iff split: option.splits if_splits)

text \<open>Where a title and a prompt exist in English, no entry of a catalogue is empty, whatever the translations.\<close>

lemma catalog_full:
  assumes "\<forall>p \<in> set ps. \<exists>t q. map_of (ps_title p) ''en'' = Some t \<and> t \<noteq> [] \<and> map_of (ps_prompt p) ''en'' = Some q \<and> q \<noteq> []"
  shows "\<exists>es. preset_catalog l ps = Some es \<and> map pe_id es = map ps_id ps \<and> list_all (\<lambda>e. pe_title e \<noteq> [] \<and> pe_prompt e \<noteq> []) es"
  using assms
proof (induction ps)
  case (Cons p ps)
  then obtain es where es: "preset_catalog l ps = Some es" "map pe_id es = map ps_id ps"
    "list_all (\<lambda>e. pe_title e \<noteq> [] \<and> pe_prompt e \<noteq> []) es" by auto
  obtain t q where "map_of (ps_title p) ''en'' = Some t" "t \<noteq> []" "map_of (ps_prompt p) ''en'' = Some q" "q \<noteq> []"
    using Cons.prems by auto
  then have "\<exists>s. localized (ps_title p) l = Some s \<and> s \<noteq> []" "\<exists>s. localized (ps_prompt p) l = Some s \<and> s \<noteq> []"
    by (auto simp: localized_def DEFAULT_PRESET_LOCALE_def split: option.splits)
  with es show ?case by auto
qed simp

lemma preset_en:
  "title \<noteq> [] \<Longrightarrow> prompt \<noteq> [] \<Longrightarrow> \<exists>t q. map_of (ps_title (preset_of ru i icon title prompt)) ''en'' = Some t \<and> t \<noteq> []
     \<and> map_of (ps_prompt (preset_of ru i icon title prompt)) ''en'' = Some q \<and> q \<noteq> []"
  by (simp add: preset_of_def)

lemma PRESETS_length: "length (PRESETS ru) = 7"
  unfolding PRESETS_def by (simp only: list.size)

lemma presets_full:
  "\<exists>es. preset_catalog l (PRESETS ru) = Some es \<and> length es = 7 \<and> list_all (\<lambda>e. pe_title e \<noteq> [] \<and> pe_prompt e \<noteq> []) es"
proof -
  have "\<exists>es. preset_catalog l (PRESETS ru) = Some es \<and> map pe_id es = map ps_id (PRESETS ru)
      \<and> list_all (\<lambda>e. pe_title e \<noteq> [] \<and> pe_prompt e \<noteq> []) es"
  proof (rule catalog_full)
    show "\<forall>p \<in> set (PRESETS ru). \<exists>t q. map_of (ps_title p) ''en'' = Some t \<and> t \<noteq> [] \<and> map_of (ps_prompt p) ''en'' = Some q \<and> q \<noteq> []"
      unfolding PRESETS_def list.set ball_simps by (intro conjI TrueI preset_en; simp only: append_is_Nil_conv list.distinct; simp)
  qed
  then obtain es where es: "preset_catalog l (PRESETS ru) = Some es" "map pe_id es = map ps_id (PRESETS ru)"
    "list_all (\<lambda>e. pe_title e \<noteq> [] \<and> pe_prompt e \<noteq> []) es" by blast
  from arg_cong[OF es(2), of length] have "length es = 7" unfolding length_map PRESETS_length .
  with es show ?thesis by blast
qed

end
