(* ===== verification/Gateway.thy ===== *)
theory Gateway
  imports RateLimit Tokens Sites
begin

text \<open>
  The edge of the API: the middlewares of \<^verbatim>\<open>app/api_gateway/middleware.py\<close> in the order
  \<^verbatim>\<open>app/main.py\<close> stacks them, the error envelope, and the client address behind trusted proxies
  (\<^verbatim>\<open>client_ip\<close> of \<^verbatim>\<open>app/deps.py\<close>). Header names are in lower case; the addresses and networks of
  \<^verbatim>\<open>ipaddress\<close> and the messages of errors are parameters.
\<close>

section \<open>Requests and responses\<close>

type_synonym headers = "string \<Rightarrow> string option"

record http_request =
  hr_path :: string
  hr_headers :: headers
  hr_peer :: "string option"

datatype http_body = ErrorBody string string "string option" | OtherBody json

record http_response =
  hs_status :: nat
  hs_headers :: headers
  hs_body :: http_body

text \<open>
  What a route can end with beside a response: an exception. \<^verbatim>\<open>RequestInvalid\<close> is FastAPI's
  \<^verbatim>\<open>RequestValidationError\<close>; \<^verbatim>\<open>Raised DbError\<close> and \<^verbatim>\<open>Raised PyError\<close> are the exceptions outside the
  application's hierarchy.
\<close>

datatype route_exception = Raised app_error | RequestInvalid

text \<open>
  What handles a request, given the request id the middlewares around it have set (\<^verbatim>\<open>get_request_id\<close>, a
  context variable, \<^verbatim>\<open>None\<close> outside of them) and the state of the server.
\<close>

type_synonym 's handler = "string option \<Rightarrow> http_request \<Rightarrow> 's \<Rightarrow> (route_exception + http_response) \<times> 's"

record size_limits =
  size_limit_body :: int
  attachment_request_body_limit :: int
  workspace_request_body_limit :: int

section \<open>Middlewares\<close>

definition CHAT_RUN_PATH :: string where "CHAT_RUN_PATH = ''/v1/chat/run''"
definition WORKSPACES_PREFIX :: string where "WORKSPACES_PREFIX = ''/v1/workspaces/''"
definition FILES_SUFFIX :: string where "FILES_SUFFIX = ''/files''"
definition PREVIEW_PREFIX :: string where "PREVIEW_PREFIX = ''/v1/preview/''"

definition limit_for :: "size_limits \<Rightarrow> string \<Rightarrow> int" where
  "limit_for lims path =
    (if path = CHAT_RUN_PATH then attachment_request_body_limit lims
     else if starts_with WORKSPACES_PREFIX path \<and> ends_with FILES_SUFFIX path then workspace_request_body_limit lims
     else size_limit_body lims)"

definition too_large :: "string option \<Rightarrow> http_response" where
  "too_large rid = \<lparr>hs_status = 413, hs_headers = (\<lambda>_. None),
     hs_body = ErrorBody ''payload_too_large'' ''request body exceeds limit'' rid\<rparr>"

definition size_limit :: "size_limits \<Rightarrow> 's handler \<Rightarrow> 's handler" where
  "size_limit lims call_next rid req s = (case hr_headers req ''content-length'' of
     None \<Rightarrow> call_next rid req s
   | Some text \<Rightarrow> (case py_int text of
       None \<Rightarrow> call_next rid req s
     | Some n \<Rightarrow> if limit_for lims (hr_path req) < n then (Inr (too_large rid), s) else call_next rid req s))"

definition set_header :: "string \<Rightarrow> string \<Rightarrow> http_response \<Rightarrow> http_response" where
  "set_header name value resp = resp\<lparr>hs_headers := (hs_headers resp)(name \<mapsto> value)\<rparr>"

text \<open>What a middleware does to the response of \<^verbatim>\<open>call_next\<close>; an exception passes it by.\<close>

definition on_response ::
  "(http_response \<Rightarrow> http_response) \<Rightarrow> (route_exception + http_response) \<times> 's \<Rightarrow> (route_exception + http_response) \<times> 's" where
  "on_response f outcome = map_prod (map_sum id f) id outcome"

text \<open>The identifier is the client's own or the text of a fresh UUID.\<close>

definition request_id_of :: "uuid \<Rightarrow> http_request \<Rightarrow> string" where
  "request_id_of fresh req = (case hr_headers req ''x-request-id'' of
     None \<Rightarrow> str_uuid fresh | Some v \<Rightarrow> if v = [] then str_uuid fresh else v)"

definition correlation_id :: "uuid \<Rightarrow> 's handler \<Rightarrow> 's handler" where
  "correlation_id fresh call_next rid req s =
    (let r = request_id_of fresh req in on_response (set_header ''x-request-id'' r) (call_next (Some r) req s))"

definition default_headers :: "http_request \<Rightarrow> http_response \<Rightarrow> http_response" where
  "default_headers req resp = (if starts_with PREVIEW_PREFIX (hr_path req) then resp
     else set_header ''strict-transport-security'' ''max-age=63072000; includeSubDomains''
       (set_header ''x-frame-options'' ''DENY'' (set_header ''x-content-type-options'' ''nosniff'' resp)))"

definition security_headers :: "'s handler \<Rightarrow> 's handler" where
  "security_headers call_next rid req s = on_response (default_headers req) (call_next rid req s)"

section \<open>Errors\<close>

definition error_response :: "nat \<Rightarrow> string \<Rightarrow> string \<Rightarrow> string option \<Rightarrow> http_response" where
  "error_response status code message rid = \<lparr>hs_status = status, hs_headers = (\<lambda>_. None),
     hs_body = ErrorBody code message rid\<rparr>"

definition app_error_handler :: "(app_error \<Rightarrow> string) \<Rightarrow> app_error \<Rightarrow> string option \<Rightarrow> http_response option" where
  "app_error_handler message e rid = (if e = DbError \<or> e = PyError then None
     else Some (error_response (status_code e) (error_code e) (message e) rid))"

definition validation_handler :: "string option \<Rightarrow> http_response" where
  "validation_handler rid = error_response 422 ''validation_error'' ''request validation failed'' rid"

text \<open>
  Starlette runs the handlers of particular exception classes directly around the routes, inside the
  middlewares, and the handler of \<^verbatim>\<open>Exception\<close> outside of everything: what no inner handler takes leaves
  the middlewares as an exception, and the answer is built where no request id is set.
\<close>

definition exception_handlers :: "(app_error \<Rightarrow> string) \<Rightarrow> 's handler \<Rightarrow> 's handler" where
  "exception_handlers message routes rid req s = (case routes rid req s of
     (Inl RequestInvalid, s') \<Rightarrow> (Inr (validation_handler rid), s')
   | (Inl (Raised e), s') \<Rightarrow> (case app_error_handler message e rid of
         None \<Rightarrow> (Inl (Raised e), s') | Some resp \<Rightarrow> (Inr resp, s'))
   | (Inr resp, s') \<Rightarrow> (Inr resp, s'))"

definition unhandled :: "string option \<Rightarrow> http_response" where
  "unhandled rid = error_response 500 ''internal_error'' ''internal error'' rid"

definition server_errors :: "'s handler \<Rightarrow> http_request \<Rightarrow> 's \<Rightarrow> http_response \<times> 's" where
  "server_errors app req s = (case app None req s of
     (Inl e, s') \<Rightarrow> (unhandled None, s') | (Inr resp, s') \<Rightarrow> (resp, s'))"

text \<open>\<^verbatim>\<open>add_middleware\<close> puts each one around those added before.\<close>

definition app_stack ::
  "(app_error \<Rightarrow> string) \<Rightarrow> size_limits \<Rightarrow> uuid \<Rightarrow> 's handler \<Rightarrow> http_request \<Rightarrow> 's \<Rightarrow> http_response \<times> 's" where
  "app_stack message lims fresh routes =
     server_errors (size_limit lims (correlation_id fresh (security_headers (exception_handlers message routes))))"

section \<open>The client address\<close>

record ('a, 'n) ip_lib =
  ip_address :: "string \<Rightarrow> 'a option"
  ip_network :: "string \<Rightarrow> 'n option"
  ip_in :: "'a \<Rightarrow> 'n \<Rightarrow> bool"

definition trusted_proxy_networks :: "('a, 'n) ip_lib \<Rightarrow> string \<Rightarrow> 'n list" where
  "trusted_proxy_networks lib trusted_proxy_ips =
     List.map_filter (\<lambda>raw. let entry = py_strip raw in if entry = [] then None else ip_network lib entry)
       (split_on CHR '','' trusted_proxy_ips)"

definition is_trusted_proxy :: "('a, 'n) ip_lib \<Rightarrow> string \<Rightarrow> string \<Rightarrow> bool" where
  "is_trusted_proxy lib trusted_proxy_ips ip = (case ip_address lib ip of
     None \<Rightarrow> False | Some a \<Rightarrow> list_ex (ip_in lib a) (trusted_proxy_networks lib trusted_proxy_ips))"

definition forwarded_hops :: "string \<Rightarrow> string list" where
  "forwarded_hops s = filter (\<lambda>h. h \<noteq> []) (map py_strip (split_on CHR '','' s))"

definition real_ip_or_peer :: "http_request \<Rightarrow> string \<Rightarrow> string option" where
  "real_ip_or_peer req peer = (case hr_headers req ''x-real-ip'' of
     None \<Rightarrow> Some peer | Some r \<Rightarrow> if r = [] then Some peer else Some (py_strip r))"

definition client_ip :: "('a, 'n) ip_lib \<Rightarrow> string \<Rightarrow> settings \<Rightarrow> http_request \<Rightarrow> string option" where
  "client_ip lib trusted_proxy_ips cfg req = (case hr_peer req of
     None \<Rightarrow> None
   | Some peer \<Rightarrow>
     if \<not> is_trusted_proxy lib trusted_proxy_ips peer then Some peer
     else (case hr_headers req ''x-forwarded-for'' of
         None \<Rightarrow> real_ip_or_peer req peer
       | Some forwarded_for \<Rightarrow>
         (let hops = forwarded_hops forwarded_for in
          if hops = [] then real_ip_or_peer req peer
          else (let hop_count = max (trusted_proxy_hop_count cfg) 1; index = int (length hops) - hop_count - 1 in
            Some (hops ! nat (if index < 0 then 0 else index))))))"

section \<open>What the stack guarantees\<close>

definition over_limit :: "size_limits \<Rightarrow> http_request \<Rightarrow> bool" where
  "over_limit lims req = (case hr_headers req ''content-length'' of None \<Rightarrow> False
     | Some s \<Rightarrow> (case py_int s of None \<Rightarrow> False | Some n \<Rightarrow> limit_for lims (hr_path req) < n))"

text \<open>An answer that carries what the middlewares add to a response of the routes.\<close>

definition served :: "string \<Rightarrow> http_request \<Rightarrow> http_response \<Rightarrow> http_response \<Rightarrow> bool" where
  "served r req inner resp \<longleftrightarrow>
     hs_status resp = hs_status inner \<and> hs_body resp = hs_body inner
     \<and> hs_headers resp ''x-request-id'' = Some r
     \<and> (if starts_with PREVIEW_PREFIX (hr_path req)
        then hs_headers resp = (hs_headers inner)(''x-request-id'' \<mapsto> r)
        else hs_headers resp ''x-frame-options'' = Some ''DENY''
          \<and> hs_headers resp ''x-content-type-options'' = Some ''nosniff''
          \<and> hs_headers resp ''strict-transport-security'' = Some ''max-age=63072000; includeSubDomains'')"

lemma on_response_simps [simp]:
  "on_response f (Inr resp, s) = (Inr (f resp), s)" "on_response f (Inl e, s) = (Inl e, s)"
  by (simp_all add: on_response_def)

lemma headers_served: "served r req inner (set_header ''x-request-id'' r (default_headers req inner))"
  by (simp add: served_def default_headers_def set_header_def)

lemma app_stack_over: "over_limit lims req \<Longrightarrow> app_stack message lims fresh routes req s = (too_large None, s)"
  by (auto simp: app_stack_def server_errors_def size_limit_def over_limit_def split: option.splits if_splits)

lemma app_stack_within:
  "\<not> over_limit lims req \<Longrightarrow> app_stack message lims fresh routes req s =
     server_errors (correlation_id fresh (security_headers (exception_handlers message routes))) req s"
  by (auto simp: app_stack_def server_errors_def size_limit_def over_limit_def split: option.splits if_splits)

lemma app_error_answered:
  "e \<noteq> DbError \<Longrightarrow> e \<noteq> PyError \<Longrightarrow>
   app_error_handler message e rid = Some (error_response (status_code e) (error_code e) (message e) rid)"
  by (simp add: app_error_handler_def)

lemma inner_response:
  assumes "exception_handlers message routes (Some (request_id_of fresh req)) req s = (Inr inner, s')"
  shows "\<exists>answer. server_errors (correlation_id fresh (security_headers (exception_handlers message routes))) req s = (answer, s')
    \<and> served (request_id_of fresh req) req inner answer"
  by (simp add: server_errors_def correlation_id_def security_headers_def assms headers_served Let_def)

lemma inner_exception:
  assumes "exception_handlers message routes (Some (request_id_of fresh req)) req s = (Inl e, s')"
  shows "server_errors (correlation_id fresh (security_headers (exception_handlers message routes))) req s = (unhandled None, s')"
  by (simp add: server_errors_def correlation_id_def security_headers_def assms Let_def)

lemma bare_headers [simp]: "hs_headers (too_large rid) = (\<lambda>_. None)" "hs_headers (unhandled rid) = (\<lambda>_. None)"
  by (simp_all add: too_large_def unhandled_def error_response_def)

lemma served_named: "served r req inner answer \<Longrightarrow> hs_headers answer ''x-request-id'' = Some r"
  by (simp add: served_def)

text \<open>
  C35: A request that declares a body over the limit of its path never reaches a route (the state of the
  server is untouched), and its 413 carries no request id and no security header, even when the client
  sent an id, because the size check is around the other layers. Every other request, also one that
  declares no length or an unreadable one, reaches its route once, with the client's request id or a
  fresh one. What the route answers, a failed validation (422) and every error of the application's
  hierarchy (with the status and code of its class, and the same id in the body) carry that id in the
  header and, outside the preview, the security headers. An exception outside the hierarchy, a
  database error say, leaves all the middlewares: its 500 names no request, in the body or in a header,
  and has no security header. So an answer without a request id is exactly one of these two.
\<close>

theorem gateway_stack:
  "case (app_stack message lims fresh routes req s, routes (Some (request_id_of fresh req)) req s) of
     ((answer, s'), (outcome, t)) \<Rightarrow>
       (if over_limit lims req then answer = too_large None \<and> s' = s
        else s' = t \<and> (case outcome of
            Inr inner \<Rightarrow> served (request_id_of fresh req) req inner answer
          | Inl RequestInvalid \<Rightarrow> served (request_id_of fresh req) req
              (error_response 422 ''validation_error'' ''request validation failed'' (Some (request_id_of fresh req))) answer
          | Inl (Raised e) \<Rightarrow> if e \<in> {DbError, PyError} then answer = unhandled None
              else served (request_id_of fresh req) req
                (error_response (status_code e) (error_code e) (message e) (Some (request_id_of fresh req))) answer))
       \<and> (if over_limit lims req \<or> outcome \<in> {Inl (Raised DbError), Inl (Raised PyError)}
          then hs_headers answer = (\<lambda>_. None)
          else hs_headers answer ''x-request-id'' = Some (request_id_of fresh req))"
proof (cases "over_limit lims req")
  case True
  then show ?thesis by (simp add: app_stack_over split: prod.splits)
next
  case False
  obtain outcome t where r: "routes (Some (request_id_of fresh req)) req s = (outcome, t)" by fastforce
  consider (answered) inner where "exception_handlers message routes (Some (request_id_of fresh req)) req s = (Inr inner, t)"
      "inner = (case outcome of Inr resp \<Rightarrow> resp | Inl RequestInvalid \<Rightarrow> validation_handler (Some (request_id_of fresh req))
        | Inl (Raised e) \<Rightarrow> error_response (status_code e) (error_code e) (message e) (Some (request_id_of fresh req)))"
      "outcome \<noteq> Inl (Raised DbError)" "outcome \<noteq> Inl (Raised PyError)"
    | (raised) e where "exception_handlers message routes (Some (request_id_of fresh req)) req s = (Inl (Raised e), t)"
      "outcome = Inl (Raised e)" "e \<in> {DbError, PyError}"
  proof (cases outcome)
    case (Inr resp)
    with r show thesis by (intro answered) (simp_all add: exception_handlers_def)
  next
    case (Inl exc)
    show thesis
    proof (cases "exc \<in> {Raised DbError, Raised PyError}")
      case True
      with r Inl show thesis by (auto simp: exception_handlers_def app_error_handler_def intro: raised)
    next
      case False
      with r Inl show thesis
        by (intro answered) (auto simp: exception_handlers_def app_error_handler_def split: route_exception.splits)
    qed
  qed
  then show ?thesis
  proof cases
    case answered
    from inner_response[OF answered(1)] obtain answer where
      "app_stack message lims fresh routes req s = (answer, t)" "served (request_id_of fresh req) req inner answer"
      using False by (auto simp: app_stack_within)
    then show ?thesis using answered(2-4) False r served_named
      by (auto simp: validation_handler_def split: sum.splits route_exception.splits)
  next
    case raised
    with inner_exception[OF raised(1)] False r show ?thesis by (auto simp: app_stack_within)
  qed
qed

text \<open>A database error behind the stack: the id the client sent is nowhere in the answer.\<close>

lemma lost_request_id:
  "fst (app_stack message lims fresh (\<lambda>rid req s. (Inl (Raised DbError), s))
     \<lparr>hr_path = ''/v1/wallet'', hr_headers = [''x-request-id'' \<mapsto> ''abc''], hr_peer = None\<rparr> ())
   = \<lparr>hs_status = 500, hs_headers = (\<lambda>_. None), hs_body = ErrorBody ''internal_error'' ''internal error'' None\<rparr>"
  by (simp add: app_stack_def server_errors_def size_limit_def correlation_id_def security_headers_def
      exception_handlers_def app_error_handler_def unhandled_def error_response_def Let_def)

section \<open>Which address counts\<close>

definition trusted_hops :: "settings \<Rightarrow> nat" where
  "trusted_hops cfg = nat (max (trusted_proxy_hop_count cfg) 1)"

text \<open>The entries of \<^verbatim>\<open>X-Forwarded-For\<close>, none where the header is absent.\<close>

definition header_hops :: "http_request \<Rightarrow> string list" where
  "header_hops req = (case hr_headers req ''x-forwarded-for'' of None \<Rightarrow> [] | Some s \<Rightarrow> forwarded_hops s)"

lemma client_ip_trusted:
  assumes "hr_peer req = Some peer" "is_trusted_proxy lib ips peer"
  shows "client_ip lib ips cfg req = (if header_hops req = [] then real_ip_or_peer req peer
    else Some (header_hops req ! (length (header_hops req) - trusted_hops cfg - 1)))"
proof -
  have "nat (if int (length hops) - max (trusted_proxy_hop_count cfg) 1 - 1 < 0 then 0
      else int (length hops) - max (trusted_proxy_hop_count cfg) 1 - 1) = length hops - trusted_hops cfg - 1" for hops :: "string list"
    by (simp add: trusted_hops_def nat_diff_distrib max_def)
  with assms show ?thesis by (auto simp: client_ip_def header_hops_def Let_def split: option.splits)
qed

lemma nth_before:
  assumes "sent @ appended \<noteq> []"
  shows "(sent @ appended) ! (length (sent @ appended) - n - 1) =
    (if n < length appended then appended ! (length appended - n - 1)
     else if sent = [] then hd appended else sent ! (length sent - (n + 1 - length appended)))"
proof -
  have "length sent + length appended - n - 1 = length sent + (length appended - n - 1)" if "n < length appended"
    using that by arith
  moreover have "length sent + length appended - n - 1 = length sent - (n + 1 - length appended)"
    "sent \<noteq> [] \<Longrightarrow> length sent - (n + 1 - length appended) < length sent" if "\<not> n < length appended"
    using that by (cases sent; simp)+
  ultimately show ?thesis using assms by (auto simp: nth_append hd_conv_nth)
qed

text \<open>
  C36: From a peer that is no trusted proxy no header is believed, whichever the client sends, and without
  a peer there is no address. Behind a trusted proxy the address is decided by the entries of
  \<^verbatim>\<open>X-Forwarded-For\<close>: without any, it is \<^verbatim>\<open>X-Real-IP\<close> where that is given and the peer otherwise; else, with
  the configured number n of hops, the entry n + 1 from the right (the first when there are fewer). Let the
  client have sent the first entries and the proxies appended the last ones. Only where more than n were
  appended is the address one of theirs. Where every trusted hop has appended one, the documented
  meaning of the number, or fewer did, the entry is one the client wrote (the last one, for exactly
  n), so a client chooses the address its rate limits are counted under.
\<close>

theorem client_ip_chosen_by_client:
  assumes "header_hops req = sent @ appended"
  shows "case hr_peer req of
      None \<Rightarrow> client_ip lib ips cfg req = None
    | Some peer \<Rightarrow>
      if \<not> is_trusted_proxy lib ips peer
      then client_ip lib ips cfg req = Some peer \<and> client_ip lib ips cfg (req\<lparr>hr_headers := any_headers\<rparr>) = Some peer
      else if sent @ appended = []
      then client_ip lib ips cfg req = Some (case hr_headers req ''x-real-ip'' of None \<Rightarrow> peer
             | Some r \<Rightarrow> if r = [] then peer else py_strip r)
      else if trusted_hops cfg < length appended
      then client_ip lib ips cfg req = Some (appended ! (length appended - trusted_hops cfg - 1))
      else if sent = [] then client_ip lib ips cfg req = Some (hd appended)
      else if length appended = trusted_hops cfg then client_ip lib ips cfg req = Some (last sent)
      else client_ip lib ips cfg req = Some (sent ! (length sent - (trusted_hops cfg + 1 - length appended)))"
proof (cases "hr_peer req")
  case (Some peer)
  show ?thesis
  proof (cases "is_trusted_proxy lib ips peer")
    case True
    show ?thesis
    proof (cases "sent @ appended = []")
      case True
      then show ?thesis using client_ip_trusted[OF Some \<open>is_trusted_proxy lib ips peer\<close>, of cfg]
        by (simp add: assms Some \<open>is_trusted_proxy lib ips peer\<close> real_ip_or_peer_def split: option.splits)
    next
      case False
      then have "client_ip lib ips cfg req = Some ((sent @ appended) ! (length (sent @ appended) - trusted_hops cfg - 1))"
        using client_ip_trusted[OF Some \<open>is_trusted_proxy lib ips peer\<close>, of cfg]
        by (simp add: assms del: append_is_Nil_conv length_append)
      from this[unfolded nth_before[OF False]] show ?thesis
        using False by (simp add: Some \<open>is_trusted_proxy lib ips peer\<close> last_conv_nth split: if_splits)
    qed
  qed (simp add: client_ip_def Some)
qed (simp add: client_ip_def)

definition demo_ips :: "(string, string) ip_lib" where
  "demo_ips = \<lparr>ip_address = Some, ip_network = Some, ip_in = (=)\<rparr>"

definition demo_http :: http_request where
  "demo_http = \<lparr>hr_path = ''/v1/chat/run'', hr_headers = [''x-forwarded-for'' \<mapsto> ''6.6.6.6, 1.2.3.4''],
     hr_peer = Some ''10.0.0.1''\<rparr>"

lemma client_ip_chosen_by_client_witness:
  "client_ip demo_ips ''10.0.0.1'' demo_cfg demo_http = Some ''6.6.6.6''"
proof -
  have "forwarded_hops ''6.6.6.6, 1.2.3.4'' = [''6.6.6.6''] @ [''1.2.3.4'']" by code_simp
  then have h: "header_hops demo_http = [''6.6.6.6''] @ [''1.2.3.4'']" by (simp add: header_hops_def demo_http_def)
  have "is_trusted_proxy demo_ips ''10.0.0.1'' ''10.0.0.1''" by code_simp
  moreover have "trusted_hops demo_cfg = 1" by (simp add: trusted_hops_def demo_cfg_def)
  ultimately show ?thesis
    using client_ip_chosen_by_client[OF h, of demo_ips "''10.0.0.1''" demo_cfg] by (simp add: demo_http_def)
qed

end
