(* ===== verification/ChatApi.thy ===== *)
theory ChatApi
  imports ChatCalls RateLimit Tokens
begin

text \<open>
  The chat endpoints: the bodies of \<^verbatim>\<open>schemas/chat.py\<close> with the validators in their order, the answer schema,
  and the handlers of \<^verbatim>\<open>api_gateway/routers/chat.py\<close> that put the owner check and the rate limits before the
  orchestrator and build the answer after it. \<^verbatim>\<open>json.dumps\<close>, \<^verbatim>\<open>str\<close> of a claim that rs no string and the lax
  integers of Pydantic are parameters; that a field has its declared type rs the type of the record.
\<close>

section \<open>Bodies\<close>

record chat_run_body =
  cb_user :: uuid
  cb_project :: "string option"
  cb_session :: "uuid option"
  cb_workspace :: "uuid option"
  cb_model :: "string option"
  cb_message :: string
  cb_mode :: mode
  cb_assistant :: "assistant_mode option"
  cb_dialog :: "string option"
  cb_attachments :: "attachment_in list option"
  cb_context :: "dict option"
  cb_action_prompt :: "string option"
  cb_edit :: "uuid option"
  cb_temporary :: bool
  cb_history :: "temporary_turn list option"

record chat_limits =
  size_limit_message :: int
  size_limit_context :: int
  size_limit_action_prompt :: int
  size_limit_tool_result :: int

definition byte_len :: "string \<Rightarrow> int" where
  "byte_len s = int (length (utf8_encode s))"

definition blank :: "string \<Rightarrow> bool" where
  "blank s = (py_strip s = [])"

text \<open>The constraints of the fields themselves.\<close>

definition ATTACHMENT_MEDIA_TYPES :: "string list" where
  "ATTACHMENT_MEDIA_TYPES = [''image/jpeg'', ''image/png'', ''image/gif'', ''image/webp'', ''application/pdf'', ''text/plain'',
     ''text/markdown'', ''text/csv'', ''application/json'']"

definition attachment_field :: "attachment_in \<Rightarrow> bool" where
  "attachment_field a = (at_type a \<in> {''image'', ''document'', ''text''} \<and> at_media a \<in> set ATTACHMENT_MEDIA_TYPES
     \<and> (case at_filename a of None \<Rightarrow> True | Some f \<Rightarrow> length f \<le> 512) \<and> at_data a \<noteq> [])"

fun turn_role :: "temporary_turn \<Rightarrow> role" where "turn_role (Turn r c) = r"
fun turn_content :: "temporary_turn \<Rightarrow> string" where "turn_content (Turn r c) = c"

definition turn_field :: "temporary_turn \<Rightarrow> bool" where
  "turn_field t = (turn_role t \<in> {RUser, RAssistant} \<and> turn_content t \<noteq> [])"

definition run_fields :: "chat_run_body \<Rightarrow> bool" where
  "run_fields b = ((case cb_attachments b of None \<Rightarrow> True | Some as \<Rightarrow> list_all attachment_field as)
     \<and> (case cb_history b of None \<Rightarrow> True | Some ts \<Rightarrow> list_all turn_field ts))"

definition opt_blank :: "string option \<Rightarrow> bool" where
  "opt_blank s = (case s of None \<Rightarrow> False | Some t \<Rightarrow> blank t)"

definition has_action_prompt :: "chat_run_body \<Rightarrow> bool" where
  "has_action_prompt b = (case cb_action_prompt b of None \<Rightarrow> False | Some a \<Rightarrow> \<not> blank a)"

definition over :: "int \<Rightarrow> string option \<Rightarrow> bool" where
  "over limit s = (case s of None \<Rightarrow> False | Some t \<Rightarrow> limit < byte_len t)"

text \<open>The message of the first check that fails.\<close>

definition run_check_sizes :: "chat_limits \<Rightarrow> (json \<Rightarrow> string) \<Rightarrow> chat_run_body \<Rightarrow> string option" where
  "run_check_sizes lims dumps b =
    (if cb_temporary b \<and> cb_session b \<noteq> None then Some ''temporary chat cannot be resumed (sessionId not allowed)''
     else if cb_temporary b \<and> cb_edit b \<noteq> None then Some ''temporary chat cannot edit a message (editMessageStepId)''
     else if cb_temporary b \<and> cb_project b \<noteq> None then Some ''temporary chat cannot use a projectId''
     else if cb_temporary b \<and> cb_workspace b \<noteq> None then Some ''temporary chat cannot use a workspaceProjectId''
     else if cb_history b \<noteq> None \<and> \<not> cb_temporary b then Some ''history is only allowed for a temporary chat (temporary=true)''
     else if (case cb_history b of Some (t # ts) \<Rightarrow> turn_role t \<noteq> RUser | _ \<Rightarrow> False) then Some ''history must start with a user turn''
     else if (case cb_history b of Some ts \<Rightarrow> size_limit_context lims < sum_list (map (byte_len \<circ> turn_content) ts) | None \<Rightarrow> False)
       then Some ''history exceeds size limit''
     else if cb_edit b \<noteq> None \<and> cb_session b = None then Some ''editMessageStepId requires sessionId''
     else if opt_blank (cb_project b) then Some ''projectId must be a non-empty string when provided''
     else if opt_blank (cb_model b) then Some ''model must be a non-empty string when provided''
     else if opt_blank (cb_dialog b) then Some ''dialogMode must be a non-empty string when provided''
     else if over (size_limit_action_prompt lims) (cb_action_prompt b) then Some ''actionPrompt exceeds size limit''
     else if cb_temporary b \<and> has_action_prompt b \<and> blank (cb_message b)
       then Some ''temporary chat with actionPrompt requires a non-empty message''
     else if blank (cb_message b) \<and> (case cb_attachments b of None \<Rightarrow> True | Some as \<Rightarrow> as = []) \<and> \<not> has_action_prompt b
       then Some ''message, actionPrompt or at least one attachment is required''
     else if size_limit_message lims < byte_len (cb_message b) then Some ''message exceeds size limit''
     else if over (size_limit_context lims) (map_option (dumps \<circ> JObj) (cb_context b)) then Some ''context exceeds size limit''
     else None)"

definition run_body_ok :: "chat_limits \<Rightarrow> (json \<Rightarrow> string) \<Rightarrow> chat_run_body \<Rightarrow> bool" where
  "run_body_ok lims dumps b = (run_fields b \<and> run_check_sizes lims dumps b = None)"

definition items :: "'a list option \<Rightarrow> 'a list" where
  "items xs = (case xs of None \<Rightarrow> [] | Some ys \<Rightarrow> ys)"

text \<open>The arguments of \<^verbatim>\<open>orchestrator.run\<close>, for the user of the token.\<close>

definition run_request_of :: "uuid \<Rightarrow> chat_run_body \<Rightarrow> run_request" where
  "run_request_of uid b = \<lparr>rq_user = uid, rq_project = cb_project b, rq_session = cb_session b, rq_message = cb_message b,
     rq_mode = cb_mode b, rq_assistant = cb_assistant b, rq_dialog = cb_dialog b, rq_attachments = items (cb_attachments b),
     rq_model = cb_model b, rq_workspace = cb_workspace b, rq_context = cb_context b, rq_action_prompt = cb_action_prompt b,
     rq_edit = cb_edit b, rq_temporary = cb_temporary b, rq_history = items (cb_history b)\<rparr>"

record tool_result_item =
  tr_call :: uuid
  tr_result :: "dict option"
  tr_error :: "(string \<times> string) option"

definition result_over :: "chat_limits \<Rightarrow> (json \<Rightarrow> string) \<Rightarrow> dict option \<Rightarrow> bool" where
  "result_over lims dumps r = over (size_limit_tool_result lims) (map_option (dumps \<circ> JObj) r)"

definition check_one_of :: "chat_limits \<Rightarrow> (json \<Rightarrow> string) \<Rightarrow> tool_result_item \<Rightarrow> string option" where
  "check_one_of lims dumps i =
    (if (tr_result i = None) = (tr_error i = None) then Some ''exactly one of result/error is required per item''
     else if result_over lims dumps (tr_result i) then Some ''result exceeds size limit'' else None)"

record tool_result_body =
  tb_user :: uuid
  tb_session :: uuid
  tb_results :: "tool_result_item list option"
  tb_call :: "uuid option"
  tb_result :: "dict option"
  tb_error :: "(string \<times> string) option"

definition tool_check :: "chat_limits \<Rightarrow> (json \<Rightarrow> string) \<Rightarrow> tool_result_body \<Rightarrow> string option" where
  "tool_check lims dumps b =
    (let has_batch = (tb_results b \<noteq> None);
         has_single = (tb_call b \<noteq> None \<or> tb_result b \<noteq> None \<or> tb_error b \<noteq> None) in
     if has_batch = has_single
       then Some (''exactly one of batch form (results) or single form '' @ ''(toolCallId + result/error) is required'')
     else (case tb_results b of
         Some rs \<Rightarrow>
           if rs = [] then Some ''results must be a non-empty list''
           else if \<not> distinct (map tr_call rs) then Some ''duplicate toolCallId in batch'' else None
       | None \<Rightarrow>
           if tb_call b = None then Some ''toolCallId is required in single form''
           else if (tb_result b = None) = (tb_error b = None) then Some ''exactly one of result/error is required''
           else if result_over lims dumps (tb_result b) then Some ''result exceeds size limit'' else None))"

definition tool_body_ok :: "chat_limits \<Rightarrow> (json \<Rightarrow> string) \<Rightarrow> tool_result_body \<Rightarrow> bool" where
  "tool_body_ok lims dumps b = (list_all (\<lambda>i. check_one_of lims dumps i = None) (items (tb_results b)) \<and> tool_check lims dumps b = None)"

text \<open>\<^verbatim>\<open>None\<close> where the assertion or the validator of the item raises.\<close>

definition normalized_results :: "chat_limits \<Rightarrow> (json \<Rightarrow> string) \<Rightarrow> tool_result_body \<Rightarrow> tool_result_item list option" where
  "normalized_results lims dumps b = (case tb_results b of
     Some rs \<Rightarrow> Some rs
   | None \<Rightarrow> (case tb_call b of
       None \<Rightarrow> None
     | Some c \<Rightarrow> (let i = \<lparr>tr_call = c, tr_result = tb_result b, tr_error = tb_error b\<rparr> in
         if check_one_of lims dumps i = None then Some [i] else None)))"

definition tool_result_in_of :: "tool_result_item \<Rightarrow> tool_result_in" where
  "tool_result_in_of i = \<lparr>ti_call = tr_call i, ti_result = map_option JObj (tr_result i),
     ti_error = map_option (\<lambda>(code, message). JObj [(''code'', JStr code), (''message'', JStr message)]) (tr_error i)\<rparr>"

section \<open>Answers\<close>

definition option_strings :: "dict \<Rightarrow> string list option" where
  "option_strings kvs = (case map_of kvs ''options'' of
     Some (JArr vs) \<Rightarrow> if 2 \<le> length vs \<and> length vs \<le> 10
       then those (map (\<lambda>v. case v of JStr s \<Rightarrow> Some s | _ \<Rightarrow> None) vs) else None
   | _ \<Rightarrow> None)"

definition lax_int_field :: "(json \<Rightarrow> int option) \<Rightarrow> dict \<Rightarrow> string \<Rightarrow> int option" where
  "lax_int_field lax kvs k = (case map_of kvs k of Some (JInt i) \<Rightarrow> Some i | Some v \<Rightarrow> lax v | None \<Rightarrow> None)"

record quiz_question =
  qq_question :: string
  qq_options :: "string list"
  qq_correct :: int
  qq_explanation :: string

definition quiz_question_schema :: "(json \<Rightarrow> int option) \<Rightarrow> json \<Rightarrow> quiz_question option" where
  "quiz_question_schema lax v = (case v of
     JObj kvs \<Rightarrow> if \<not> only_keys [''question'', ''options'', ''correctIndex'', ''explanation''] kvs then None
       else (case (str_field kvs ''question'', option_strings kvs, lax_int_field lax kvs ''correctIndex'', str_field kvs ''explanation'') of
           (Some q, Some opts, Some i, Some e) \<Rightarrow> if i < 0 \<or> int (length opts) \<le> i then None
             else Some \<lparr>qq_question = q, qq_options = opts, qq_correct = i, qq_explanation = e\<rparr>
         | _ \<Rightarrow> None)
   | _ \<Rightarrow> None)"

definition quiz_schema :: "(json \<Rightarrow> int option) \<Rightarrow> dict \<Rightarrow> quiz_question list option" where
  "quiz_schema lax kvs = (if \<not> only_keys [''questions''] kvs then None
     else (case map_of kvs ''questions'' of
       Some (JArr vs) \<Rightarrow> if 3 \<le> length vs \<and> length vs \<le> 10 then those (map (quiz_question_schema lax) vs) else None
     | _ \<Rightarrow> None))"

record chat_response =
  cr_status :: out_status
  cr_session :: uuid
  cr_turn :: "uuid option"
  cr_step :: "uuid option"
  cr_message :: "string option"
  cr_tool_calls :: "tool_call_out list option"
  cr_tool_call :: "tool_call_out option"
  cr_block :: "block_reason option"
  cr_usage :: "json option"
  cr_server_tools :: "server_tool_out list"
  cr_quiz :: "quiz_question list option"
  cr_images :: "image_out list option"

definition given :: "'a list \<Rightarrow> 'a list option" where
  "given xs = (if xs = [] then None else Some xs)"

text \<open>\<^verbatim>\<open>None\<close> where the schema of the answer refuses a value.\<close>

definition to_response :: "(json \<Rightarrow> int option) \<Rightarrow> chat_run_out \<Rightarrow> chat_response option" where
  "to_response lax out =
    (case (case co_quiz out of None \<Rightarrow> Some None | Some q \<Rightarrow> map_option Some (quiz_schema lax q)) of
       None \<Rightarrow> None
     | Some quiz \<Rightarrow>
       if list_all (\<lambda>i. 0 \<le> io_size i) (co_images out) \<and> list_all (\<lambda>t. so_status t \<in> {TcCompleted, TcErrored}) (co_server_tools out)
       then Some \<lparr>cr_status = co_status out, cr_session = co_session out, cr_turn = co_turn out, cr_step = co_step out,
         cr_message = (if quiz \<noteq> None then None else co_message out),
         cr_tool_calls = given (co_tool_calls out),
         cr_tool_call = (case co_tool_calls out of [] \<Rightarrow> None | t # ts \<Rightarrow> Some t),
         cr_block = co_block out, cr_usage = co_usage out, cr_server_tools = co_server_tools out, cr_quiz = quiz,
         cr_images = given (co_images out)\<rparr>
       else None)"


section \<open>The handlers\<close>

text \<open>\<^verbatim>\<open>x_device_id or current.device_id\<close>: the claim may be any JSON value; a value that rs false rs not counted.\<close>

definition request_device :: "(json \<Rightarrow> string) \<Rightarrow> string option \<Rightarrow> json \<Rightarrow> string option" where
  "request_device str_of_claim header claim = (case header of
     Some h \<Rightarrow> if h \<noteq> [] then Some h else if truthy claim then Some (str_of_claim claim) else None
   | None \<Rightarrow> if truthy claim then Some (str_of_claim claim) else None)"

record api_env =
  ap_limits :: chat_limits
  ap_dumps :: "json \<Rightarrow> string"
  ap_str :: "json \<Rightarrow> string"
  ap_up :: "string \<Rightarrow> bool"
  ap_clock :: int

text \<open>What both handlers do before the orchestrator: \<^verbatim>\<open>None\<close> lets the request pass.\<close>

definition chat_admission ::
  "api_env \<Rightarrow> settings \<Rightarrow> authenticated_user \<Rightarrow> string option \<Rightarrow> string option \<Rightarrow> bool \<Rightarrow> uuid \<Rightarrow> redis \<Rightarrow> app_error option \<times> redis" where
  "chat_admission ap cfg current x_device_id ip valid body_user rs =
    (if \<not> valid then (Some ValidationFailedError, rs)
     else (case require_owner body_user current of
       Some e \<Rightarrow> (Some e, rs)
     | None \<Rightarrow> (case enforce_chat_limits cfg (ap_up ap) (ap_clock ap) (au_user current)
           (request_device (ap_str ap) x_device_id (au_device current)) ip rs of
         (ok, rs') \<Rightarrow> (if ok then None else Some RateLimitedError, rs'))))"

definition respond :: "(json \<Rightarrow> int option) \<Rightarrow> chat_run_out chat_act \<Rightarrow> chat_response chat_act" where
  "respond lax m = bind_act m (\<lambda>out. case to_response lax out of None \<Rightarrow> raise PyError | Some r \<Rightarrow> ret r)"

definition lax_of :: "chat_env \<Rightarrow> json \<Rightarrow> int option" where
  "lax_of env = tl_int (te_lib (ce_tool env))"

definition admitted :: "app_error option \<times> redis \<Rightarrow> 'a chat_act \<Rightarrow> db \<Rightarrow> (app_error + 'a) \<times> db \<times> redis" where
  "admitted verdict m db = (case verdict of
     (Some e, rs) \<Rightarrow> (Inl e, db, rs)
   | (None, rs) \<Rightarrow> (case chat_request m db of (r, s) \<Rightarrow> (r, ch_saved s, rs)))"

definition chat_run ::
  "api_env \<Rightarrow> chat_env \<Rightarrow> authenticated_user \<Rightarrow> string option \<Rightarrow> string option \<Rightarrow> chat_run_body \<Rightarrow> db \<Rightarrow> redis
   \<Rightarrow> (app_error + chat_response) \<times> db \<times> redis" where
  "chat_run ap env current x_device_id ip body db rs =
     admitted (chat_admission ap (ce_cfg env) current x_device_id ip (run_body_ok (ap_limits ap) (ap_dumps ap) body) (cb_user body) rs)
       (respond (lax_of env) (run env (run_request_of (au_user current) body))) db"

definition chat_tool_result ::
  "api_env \<Rightarrow> chat_env \<Rightarrow> authenticated_user \<Rightarrow> string option \<Rightarrow> string option \<Rightarrow> tool_result_body \<Rightarrow> db \<Rightarrow> redis
   \<Rightarrow> (app_error + chat_response) \<times> db \<times> redis" where
  "chat_tool_result ap env current x_device_id ip body db rs =
     admitted (chat_admission ap (ce_cfg env) current x_device_id ip (tool_body_ok (ap_limits ap) (ap_dumps ap) body) (tb_user body) rs)
       (respond (lax_of env) (case normalized_results (ap_limits ap) (ap_dumps ap) body of
          None \<Rightarrow> raise PyError
        | Some rs \<Rightarrow> tool_result env (au_user current) (tb_session body) (map tool_result_in_of rs))) db"

section \<open>What the validators let through\<close>

lemma chain_None: "(if b then Some m else x) = None \<longleftrightarrow> \<not> b \<and> x = None"
  by simp

lemmas run_checks_passed = run_check_sizes_def[THEN arg_cong[where f = "\<lambda>x. x = None"], unfolded chain_None]

lemma check_one_of_passed:
  "check_one_of lims dumps i = None \<longleftrightarrow> (tr_result i = None) \<noteq> (tr_error i = None)
     \<and> (case tr_result i of None \<Rightarrow> True | Some r \<Rightarrow> byte_len (dumps (JObj r)) \<le> size_limit_tool_result lims)"
  unfolding check_one_of_def chain_None result_over_def over_def by (cases "tr_result i") (simp_all add: not_less)

lemma normalized_ok:
  assumes "tool_body_ok lims dumps b"
  obtains rs where "normalized_results lims dumps b = Some rs" "rs \<noteq> []" "distinct (map tr_call rs)"
    "list_all (\<lambda>i. check_one_of lims dumps i = None) rs"
proof (cases "tb_results b")
  case None
  with assms obtain c where "tb_call b = Some c" by (auto simp: tool_body_ok_def tool_check_def Let_def split: if_splits)
  moreover from this assms None have "check_one_of lims dumps \<lparr>tr_call = c, tr_result = tb_result b, tr_error = tb_error b\<rparr> = None"
    by (auto simp: tool_body_ok_def tool_check_def check_one_of_def Let_def split: if_splits)
  ultimately show ?thesis using None
    by (intro that[of "[\<lparr>tr_call = c, tr_result = tb_result b, tr_error = tb_error b\<rparr>]"]) (simp_all add: normalized_results_def Let_def)
next
  case (Some rs)
  with assms show ?thesis
    by (intro that[of rs]) (auto simp: tool_body_ok_def tool_check_def normalized_results_def items_def Let_def split: if_splits)
qed

text \<open>
  A body of tool results that the endpoint accepts, in either form, is normalised without failing to a
  non-empty list of results for distinct tool calls, each with exactly one of result and error and no
  result over the size limit; the normalised body is accepted again and normalised to itself.
\<close>

lemma accepted_results_normalised:
  assumes "tool_body_ok lims dumps b"
  shows "case normalized_results lims dumps b of
     None \<Rightarrow> False
   | Some rs \<Rightarrow> rs \<noteq> [] \<and> distinct (map tr_call rs)
       \<and> list_all (\<lambda>i. (tr_result i = None) \<noteq> (tr_error i = None)
           \<and> (case tr_result i of None \<Rightarrow> True | Some r \<Rightarrow> byte_len (dumps (JObj r)) \<le> size_limit_tool_result lims)) rs
       \<and> list_all (\<lambda>i. (ti_result i = None) \<noteq> (ti_error i = None)) (map tool_result_in_of rs)
       \<and> (let b' = \<lparr>tb_user = tb_user b, tb_session = tb_session b, tb_results = Some rs, tb_call = None, tb_result = None, tb_error = None\<rparr>
          in tool_body_ok lims dumps b' \<and> normalized_results lims dumps b' = Some rs)"
proof -
  obtain rs where rs: "normalized_results lims dumps b = Some rs" "rs \<noteq> []" "distinct (map tr_call rs)"
    "list_all (\<lambda>i. check_one_of lims dumps i = None) rs" using assms by (rule normalized_ok)
  have one: "list_all (\<lambda>i. (tr_result i = None) \<noteq> (tr_error i = None)
      \<and> (case tr_result i of None \<Rightarrow> True | Some r \<Rightarrow> byte_len (dumps (JObj r)) \<le> size_limit_tool_result lims)) rs"
    using rs(4) by (simp only: check_one_of_passed)
  have "list_all (\<lambda>i. (ti_result i = None) \<noteq> (ti_error i = None)) (map tool_result_in_of rs)"
    using one by (auto simp: list_all_iff tool_result_in_of_def)
  with rs one show ?thesis
    by (simp add: tool_body_ok_def tool_check_def normalized_results_def items_def)
qed


text \<open>
  C38: A message the endpoint accepts always gives the model something to read: the user step that is stored for
  it has a content block or carries the action prompt, and in a temporary chat, whose transcript the client
  keeps, it has a visible block. Its transcript starts with the user, and the sizes of message, settings,
  transcript and action prompt are within their limits, counted in UTF-8 bytes, the settings as the JSON
  text they are dumped to. A temporary chat names no session, message to edit, project or workspace.
\<close>

theorem accepted_message_has_content:
  assumes "run_body_ok lims dumps b" "request_attachments env (run_request_of uid b) = Inr prepared"
  shows "let payload = user_payload (run_request_of uid b) prepared in
     (obj_get payload ''content'' = JArr [] \<longrightarrow> (\<exists>a. cb_action_prompt b = Some a \<and> obj_get payload ''actionPrompt'' = JStr a \<and> \<not> blank a)
        \<and> \<not> cb_temporary b)
     \<and> (case items (cb_history b) of [] \<Rightarrow> True | t # ts \<Rightarrow> turn_role t = RUser \<and> cb_temporary b)
     \<and> byte_len (cb_message b) \<le> size_limit_message lims
     \<and> sum_list (map (byte_len \<circ> turn_content) (items (cb_history b))) \<le> max 0 (size_limit_context lims)
     \<and> (case cb_action_prompt b of None \<Rightarrow> True | Some a \<Rightarrow> byte_len a \<le> size_limit_action_prompt lims)
     \<and> (case cb_context b of None \<Rightarrow> True | Some c \<Rightarrow> byte_len (dumps (JObj c)) \<le> size_limit_context lims)
     \<and> (if cb_temporary b then cb_session b = None \<and> cb_edit b = None \<and> cb_project b = None \<and> cb_workspace b = None else True)"
proof -
  let ?rq = "run_request_of uid b"
  have ok: "run_check_sizes lims dumps b = None" using assms(1) by (simp add: run_body_ok_def)
  note passed = ok[unfolded run_checks_passed]
  have tmp: "\<not> (cb_temporary b \<and> has_action_prompt b \<and> blank (cb_message b))" using passed by (elim conjE)
  have some: "\<not> (blank (cb_message b) \<and> (case cb_attachments b of None \<Rightarrow> True | Some as \<Rightarrow> as = []) \<and> \<not> has_action_prompt b)"
    using passed by (elim conjE)
  have only: "\<not> (cb_history b \<noteq> None \<and> \<not> cb_temporary b)" using passed by (elim conjE)
  have first: "\<not> (case cb_history b of Some (t # ts) \<Rightarrow> turn_role t \<noteq> RUser | _ \<Rightarrow> False)" using passed by (elim conjE)
  have hist: "\<not> (case cb_history b of Some ts \<Rightarrow> size_limit_context lims < sum_list (map (byte_len \<circ> turn_content) ts) | None \<Rightarrow> False)"
    using passed by (elim conjE)
  have len: "\<not> size_limit_message lims < byte_len (cb_message b)" using passed by (elim conjE)
  have prompt: "\<not> over (size_limit_action_prompt lims) (cb_action_prompt b)" using passed by (elim conjE)
  have settings: "\<not> over (size_limit_context lims) (map_option (dumps \<circ> JObj) (cb_context b))" using passed by (elim conjE)
  have content: "\<not> blank (cb_message b) \<or> items (cb_attachments b) \<noteq> [] \<or> has_action_prompt b \<and> \<not> cb_temporary b"
    using tmp some by (cases "cb_attachments b") (auto simp: items_def)
  have msg: "compose_turn0_text x m \<noteq> []" if "\<not> blank m" for x m
    using that by (cases "m = []") (auto simp: compose_turn0_text_def blank_def py_strip_def py_lstrip_def py_rstrip_def split: option.split)
  have att: "\<exists>p. prepared = Some p \<and> pa_placeholders p \<noteq> []" if "items (cb_attachments b) \<noteq> []"
  proof -
    from assms(2) that obtain p where p: "prepared = Some p" "\<not> rq_attachments ?rq = []"
      "prepare_attachments (attach_env.truncate (ce_ws env)) (ce_cfg env) (active_provider (ce_cfg env)) (rq_attachments ?rq) = Inr p"
      by (auto simp: request_attachments_def run_request_of_def split: if_splits sum.splits)
    from attachments_checked[OF p(3)] p(2) have "pa_placeholders p \<noteq> []" by (auto dest: list_all2_lengthD)
    with p(1) show ?thesis by blast
  qed
  have "obj_get (user_payload ?rq prepared) ''content'' = JArr [] \<longrightarrow> has_action_prompt b \<and> \<not> cb_temporary b"
    using content msg[of "cb_message b" "render_context_block (cb_context b)"] att
    by (auto simp: user_payload_def obj_get_def run_request_of_def Let_def split: if_splits)
  moreover have "has_action_prompt b \<Longrightarrow> \<exists>a. cb_action_prompt b = Some a \<and> obj_get (user_payload ?rq prepared) ''actionPrompt'' = JStr a \<and> \<not> blank a"
    by (auto simp: has_action_prompt_def blank_def user_payload_def obj_get_def run_request_of_def Let_def split: option.splits)
  moreover have "case items (cb_history b) of [] \<Rightarrow> True | t # ts \<Rightarrow> turn_role t = RUser \<and> cb_temporary b"
    using only first by (auto simp: items_def split: option.splits list.splits)
  moreover have "byte_len (cb_message b) \<le> size_limit_message lims" using len by simp
  moreover have "sum_list (map (byte_len \<circ> turn_content) (items (cb_history b))) \<le> max 0 (size_limit_context lims)"
    using hist by (cases "cb_history b") (simp_all add: items_def)
  moreover have "case cb_action_prompt b of None \<Rightarrow> True | Some a \<Rightarrow> byte_len a \<le> size_limit_action_prompt lims"
    using prompt by (cases "cb_action_prompt b") (simp_all add: over_def)
  moreover have "case cb_context b of None \<Rightarrow> True | Some c \<Rightarrow> byte_len (dumps (JObj c)) \<le> size_limit_context lims"
    using settings by (cases "cb_context b") (simp_all add: over_def)
  moreover have "\<not> (cb_temporary b \<and> cb_session b \<noteq> None) \<and> \<not> (cb_temporary b \<and> cb_edit b \<noteq> None)
    \<and> \<not> (cb_temporary b \<and> cb_project b \<noteq> None) \<and> \<not> (cb_temporary b \<and> cb_workspace b \<noteq> None)"
    using passed by (elim conjE, intro conjI)
  ultimately show ?thesis by (simp add: Let_def)
qed

definition demo_limits :: chat_limits where
  "demo_limits = \<lparr>size_limit_message = 32000, size_limit_context = 16384, size_limit_action_prompt = 16384, size_limit_tool_result = 262144\<rparr>"

definition demo_body :: chat_run_body where
  "demo_body = \<lparr>cb_user = 1, cb_project = None, cb_session = None, cb_workspace = None, cb_model = None, cb_message = '''',
     cb_mode = ModeCredits, cb_assistant = None, cb_dialog = None, cb_attachments = None, cb_context = None,
     cb_action_prompt = Some ''summarise'', cb_edit = None, cb_temporary = False, cb_history = None\<rparr>"

definition demo_results :: tool_result_body where
  "demo_results = \<lparr>tb_user = 1, tb_session = 2, tb_results = None, tb_call = Some 7, tb_result = Some [(''n'', JInt 1)], tb_error = None\<rparr>"

lemma demo_body_ok: "run_body_ok demo_limits (\<lambda>_. []) demo_body" "tool_body_ok demo_limits (\<lambda>_. []) demo_results"
  by code_simp+

lemma accepted_results_normalised_witness:
  "\<exists>rs. normalized_results demo_limits (\<lambda>_. []) demo_results = Some rs \<and> map tr_call rs = [7] \<and> distinct (map tr_call rs)"
proof -
  have n: "normalized_results demo_limits (\<lambda>_. []) demo_results
      = Some [\<lparr>tr_call = 7, tr_result = Some [(''n'', JInt 1)], tr_error = None\<rparr>]" by code_simp
  show ?thesis using accepted_results_normalised[OF demo_body_ok(2)] by (simp add: n)
qed

lemma accepted_message_has_content_witness:
  "obj_get (user_payload (run_request_of 1 demo_body) None) ''actionPrompt'' = JStr ''summarise''"
proof -
  have "request_attachments demo_chat (run_request_of 1 demo_body) = Inr None"
    by (simp add: request_attachments_def run_request_of_def demo_body_def items_def)
  from accepted_message_has_content[OF demo_body_ok(1) this]
  have "obj_get (user_payload (run_request_of 1 demo_body) None) ''content'' = JArr [] \<longrightarrow>
    (\<exists>a. cb_action_prompt demo_body = Some a \<and> obj_get (user_payload (run_request_of 1 demo_body) None) ''actionPrompt'' = JStr a)"
    by (simp only: Let_def) blast
  moreover have "obj_get (user_payload (run_request_of 1 demo_body) None) ''content'' = JArr []"
    by (simp add: user_payload_def run_request_of_def demo_body_def obj_get_def compose_turn0_text_def render_context_block_def
        py_strip_def py_lstrip_def py_rstrip_def)
  ultimately show ?thesis by (auto simp: demo_body_def)
qed

section \<open>Every answer of a turn conforms to the documented states\<close>

text \<open>What the answers of the orchestrator satisfy; the reasons of \<^verbatim>\<open>evaluate\<close> are those of the policy only.\<close>

definition acc_ok :: "(json \<Rightarrow> int option) \<Rightarrow> turn_acc \<Rightarrow> bool" where
  "acc_ok lax acc \<longleftrightarrow> (\<forall>q \<in> set (ac_quiz acc). QuizGenerateArgs lax q = Some q) \<and> (\<forall>i \<in> set (ac_images acc). 0 \<le> io_size i)
     \<and> (\<forall>t \<in> set (ac_tools acc). so_status t \<in> {TcCompleted, TcErrored})"

definition carries :: "(json \<Rightarrow> int option) \<Rightarrow> chat_run_out \<Rightarrow> bool" where
  "carries lax out \<longleftrightarrow> (\<forall>q. co_quiz out = Some q \<longrightarrow> QuizGenerateArgs lax q = Some q) \<and> (\<forall>i \<in> set (co_images out). 0 \<le> io_size i)
     \<and> (\<forall>t \<in> set (co_server_tools out). so_status t \<in> {TcCompleted, TcErrored})"

definition bare :: "chat_run_out \<Rightarrow> bool" where
  "bare out \<longleftrightarrow> co_message out = None \<and> co_usage out = None \<and> co_turn out = None \<and> co_step out = None
     \<and> co_server_tools out = [] \<and> co_quiz out = None \<and> co_images out = []"

definition in_state :: "chat_run_out \<Rightarrow> bool" where
  "in_state out = (case co_status out of
     OutAssistant \<Rightarrow> co_message out \<noteq> None \<and> co_turn out \<noteq> None \<and> co_tool_calls out = [] \<and> co_block out = None
   | OutToolCall \<Rightarrow> co_tool_calls out \<noteq> [] \<and> co_turn out \<noteq> None \<and> co_block out = None
   | OutBlocked \<Rightarrow> co_tool_calls out = [] \<and> (case co_block out of None \<Rightarrow> False
       | Some r \<Rightarrow> if r = MaxTokens then co_usage out \<noteq> None \<and> co_turn out \<noteq> None else bare out))"

definition answer_ok :: "(json \<Rightarrow> int option) \<Rightarrow> chat_run_out \<Rightarrow> bool" where
  "answer_ok lax out \<longleftrightarrow> carries lax out \<and> in_state out"

abbreviation yields :: "('a \<Rightarrow> bool) \<Rightarrow> 'a chat_act \<Rightarrow> bool" where
  "yields Q m \<equiv> keeps (\<lambda>_. True) (\<lambda>_. True) Q m"

lemma yields_any: "yields (\<lambda>_. True) m"
  by (rule keepsI) simp_all

lemmas yields_bind = keeps_bind_val[where J = "\<lambda>_. True" and E = "\<lambda>_. True", OF yields_any, simplified]

lemma yields_fails: "yields Q (raise e)" "yields Q (Pair (Inl e))"
  by (rule keepsI; simp)+

lemmas yields_end = keeps_ret keeps_Pair yields_fails yields_any

lemma blocked_ok: "reason \<noteq> Some MaxTokens \<Longrightarrow> answer_ok lax (blocked_out sid reason)"
  by (auto simp: answer_ok_def carries_def in_state_def bare_def blocked_out_def split: option.split)

lemma evaluate_reason: "d_reason (evaluate st m) \<noteq> Some MaxTokens"
  by (auto simp: evaluate_def blocked_def allowed_def Let_def)

lemma last_opt_Some: "last_opt xs = Some x \<Longrightarrow> x \<in> set xs"
  by (auto simp: last_opt_def split: if_splits)

lemma acc_carries:
  assumes "acc_ok lax acc" "co_quiz out = last_opt (ac_quiz acc)" "co_images out = ac_images acc" "co_server_tools out = ac_tools acc"
  shows "carries lax out"
  using assms by (auto simp: acc_ok_def carries_def dest: last_opt_Some)

lemma assistant_ok: "acc_ok lax acc \<Longrightarrow> answer_ok lax (assistant_out c r sid acc)"
  by (auto simp: answer_ok_def in_state_def assistant_out_def intro: acc_carries)

lemma max_tokens_ok: "acc_ok lax acc \<Longrightarrow> answer_ok lax (max_tokens_out c r sid acc)"
  by (auto simp: answer_ok_def in_state_def max_tokens_out_def intro: acc_carries)

lemma client_ok: "acc_ok lax acc \<Longrightarrow> outs \<noteq> [] \<Longrightarrow> answer_ok lax (client_out c r sid acc outs)"
  by (auto simp: answer_ok_def in_state_def client_out_def intro: acc_carries)

lemma waiting_ok: "pending \<noteq> [] \<Longrightarrow> answer_ok lax (waiting_out c pending step)"
  by (auto simp: answer_ok_def carries_def in_state_def waiting_out_def)

lemma saved_ok: "answer_ok lax (render_saved_step c r)"
  by (auto simp: answer_ok_def carries_def in_state_def render_saved_step_def)

lemma acc_status: "outcome_status ex \<in> {TcCompleted, TcErrored}"
  by (cases ex) (simp_all add: outcome_status_def)

lemma yields_outcome: "acc_ok lax acc \<Longrightarrow> yields (acc_ok lax) (persist_outcome c tcid name pid ex extra acc)"
  unfolding persist_outcome_def Let_def
  by (intro yields_bind keeps_ret) (use acc_status[of ex] in \<open>auto simp: acc_ok_def\<close>)

lemma quiz_accumulates:
  assumes "global_execute env now TOOL_QUIZ_GENERATE args = Inr (ToolOk r)" "acc_ok (tl_int (te_lib env)) acc"
  shows "acc_ok (tl_int (te_lib env)) (acc\<lparr>ac_quiz := ac_quiz acc @ [r]\<rparr>)"
proof -
  have "QuizGenerateArgs (tl_int (te_lib env)) args = Some r"
    using assms(1) by (auto simp: global_execute_def quiz_generate_def tool_names split: option.splits)
  with assms(2) show ?thesis by (auto simp: acc_ok_def dest: quiz_args_again)
qed


lemma yields_global: "acc_ok (lax_of env) acc \<Longrightarrow> yields (acc_ok (lax_of env)) (execute_global_tool env c tcid name args pid acc)"
  unfolding execute_global_tool_def
  by (intro keeps_get keeps_sum yields_outcome yields_end)
    (auto simp: lax_of_def intro: quiz_accumulates split: tool_execution.split)

lemma yields_site: "acc_ok lax acc \<Longrightarrow> yields (acc_ok lax) (execute_server_side_tool env c ext tcid name args pid acc)"
  unfolding execute_server_side_tool_def by (intro keeps_get yields_bind keeps_cases yields_outcome yields_end) simp_all

definition block_ok :: "(json \<Rightarrow> int option) \<Rightarrow> chat_run_out option \<times> turn_acc \<Rightarrow> bool" where
  "block_ok lax x \<longleftrightarrow> (\<forall>out. fst x = Some out \<longrightarrow> answer_ok lax out) \<and> acc_ok lax (snd x)"

lemma yields_image: "acc_ok lax acc \<Longrightarrow> yields (block_ok lax) (execute_image_generate_tool env c tcid args pid pre acc)"
  unfolding execute_image_generate_tool_def
  by (intro keeps_sum keeps_prod keeps_bind_val[OF yields_outcome] yields_bind keeps_if keeps_ret)
    (auto simp: block_ok_def acc_ok_def intro: blocked_ok)

definition round_ok :: "(json \<Rightarrow> int option) \<Rightarrow> chat_run_out option \<times> turn_acc \<times> tool_call_out list \<Rightarrow> bool" where
  "round_ok lax x \<longleftrightarrow> block_ok lax (fst x, fst (snd x))"

lemma yields_block:
  assumes "acc_ok (lax_of env) acc"
  shows "yields (round_ok (lax_of env)) (handle_block env c ext pre tu acc outs)"
  unfolding handle_block_def
  by (intro keeps_if keeps_sum keeps_option yields_bind keeps_bind_val[OF yields_image[OF assms] ] keeps_bind_val[OF yields_global[OF assms] ]
      keeps_bind_val[OF yields_site[OF assms] ] keeps_prod yields_fails keeps_ret)
    (use assms in \<open>auto simp: round_ok_def block_ok_def\<close>)

lemma yields_blocks: "acc_ok (lax_of env) acc \<Longrightarrow> yields (round_ok (lax_of env)) (handle_blocks env c ext pre tus acc outs)"
proof (induction tus arbitrary: acc outs)
  case Nil
  then show ?case by (auto intro!: keeps_Pair simp: round_ok_def block_ok_def)
next
  case (Cons tu tus)
  then show ?case unfolding handle_blocks.simps
    by (intro keeps_bind_val[OF yields_block] keeps_prod keeps_option keeps_ret) (auto simp: round_ok_def block_ok_def)
qed

definition outcome_ok :: "(json \<Rightarrow> int option) \<Rightarrow> turn_outcome \<times> turn_acc \<Rightarrow> bool" where
  "outcome_ok lax x \<longleftrightarrow> (case fst x of TurnContinue \<Rightarrow> True | TurnClient out \<Rightarrow> answer_ok lax out | TurnBlocked out \<Rightarrow> answer_ok lax out)
     \<and> acc_ok lax (snd x)"

lemma yields_tool_use: "acc_ok (lax_of env) acc \<Longrightarrow> yields (outcome_ok (lax_of env)) (handle_tool_use env c r acc)"
  unfolding handle_tool_use_def
  by (intro keeps_sum yields_bind keeps_bind_val[OF yields_blocks] keeps_prod yields_end)
    (auto simp: outcome_ok_def round_ok_def block_ok_def intro: client_ok split: option.split)

lemma yields_finalize: "acc_ok lax acc \<Longrightarrow> yields (answer_ok lax) (finalize_assistant c plan r acc)"
  unfolding finalize_assistant_def
  by (intro yields_bind keeps_if keeps_ret) (auto intro: assistant_ok blocked_ok)

lemma yields_rounds: "acc_ok (lax_of env) acc \<Longrightarrow> yields (answer_ok (lax_of env)) (llm_rounds env c g n att acc)"
proof (induction n arbitrary: att acc)
  case 0
  show ?case by (simp add: rounds_exceeded_def) (intro yields_bind yields_end)
next
  case (Suc n)
  have key: "yields (answer_ok lax) (key_rejected c g)" for lax
    unfolding key_rejected_def by (intro keeps_if yields_bind yields_end) (simp add: blocked_ok)
  have cut: "yields (answer_ok (lax_of env)) (handle_max_tokens c r acc)" for r
    unfolding handle_max_tokens_def by (intro yields_bind keeps_ret) (rule max_tokens_ok[OF Suc.prems])
  have use: "yields (answer_ok (lax_of env)) (case x of TurnBlocked out \<Rightarrow> ret out | TurnClient out \<Rightarrow> bind_act commit (\<lambda>_. ret out)
      | TurnContinue \<Rightarrow> bind_act commit (\<lambda>_. llm_rounds env c g n None a))" if "outcome_ok (lax_of env) (x, a)" for x a
    using that Suc.IH by (cases x) (auto simp: outcome_ok_def intro!: yields_bind keeps_ret)
  show ?case unfolding llm_rounds.simps
    by (intro keeps_get yields_bind keeps_sum keeps_if keeps_bind_val[OF yields_tool_use[OF Suc.prems] ] keeps_prod cut
        yields_finalize[OF Suc.prems] use) (auto intro: key yields_end split: llm_failure.split)
qed


lemma yields_generate: "yields (answer_ok (lax_of env)) (generate_loop env c m plan keys system att model dm)"
proof -
  have "acc_ok (lax_of env) no_acc" by (simp add: acc_ok_def no_acc_def)
  then show ?thesis unfolding generate_loop_def Let_def
    by (intro keeps_prod keeps_if keeps_option yields_bind yields_rounds yields_end) (simp_all add: blocked_ok)
qed

lemma yields_answer: "yields (answer_ok (lax_of env)) (answer_turn env c sess prompt)"
proof -
  have gen: "yields (answer_ok (lax_of env)) (bind_act (generate_loop env c m plan keys system att model dm)
      (\<lambda>out. bind_act (sweep_if_images env out) (\<lambda>_. ret out)))" for m plan keys system att model dm
    by (intro keeps_bind_val[OF yields_generate] yields_bind keeps_ret)
  have "yields (\<lambda>(d, st). d_reason d \<noteq> Some MaxTokens) (evaluate_turn c m)" for m
    unfolding evaluate_turn_def Let_def by (intro keeps_get yields_bind keeps_ret) (simp add: evaluate_reason)
  then show ?thesis unfolding answer_turn_def Let_def
    by (rule keeps_bind_val) (auto intro!: keeps_if keeps_ret blocked_ok yields_bind keeps_get gen split: prod.split)
qed

lemma yields_run: "yields (answer_ok (lax_of env)) (run env rq)"
proof -
  have "yields (answer_ok (lax_of env)) (run_opened env rq turn sess is_new)" for turn sess is_new
    unfolding run_opened_def Let_def
    by (intro yields_bind keeps_get keeps_prod keeps_sum yields_answer yields_end)
  then show ?thesis unfolding run_def run_turn_def Let_def
    by (intro yields_bind keeps_get keeps_option keeps_prod yields_end)
qed

lemma yields_tool_result: "yields (answer_ok (lax_of env)) (tool_result env uid sid results)"
  unfolding tool_result_def Let_def
  by (intro keeps_if keeps_get keeps_option yields_end)
    (auto intro!: keeps_if keeps_get yields_bind keeps_option yields_fails keeps_ret waiting_ok saved_ok yields_answer
      split: option.split sum.split prod.split)

section \<open>The answer can always be built\<close>

definition same_question :: "quiz_question \<Rightarrow> dict \<Rightarrow> bool" where
  "same_question q kvs \<longleftrightarrow> kvs = [(''question'', JStr (qq_question q)), (''options'', JArr (map JStr (qq_options q))),
     (''correctIndex'', JInt (qq_correct q)), (''explanation'', JStr (qq_explanation q))]
     \<and> 0 \<le> qq_correct q \<and> qq_correct q < int (length (qq_options q)) \<and> 2 \<le> length (qq_options q) \<and> length (qq_options q) \<le> 10"

lemma those_strings: "those (map (\<lambda>v. case v of JStr s \<Rightarrow> Some s | _ \<Rightarrow> None) (map JStr ss)) = Some ss"
  by (induction ss) simp_all

lemma question_accepted:
  assumes "QuizQuestionArgs lax v = Some kvs"
  shows "\<exists>q. quiz_question_schema lax (JObj kvs) = Some q \<and> same_question q kvs"
proof -
  obtain kvs0 where v: "v = JObj kvs0" using assms by (cases v) (simp_all add: QuizQuestionArgs_def)
  obtain opts i qn e where *: "options_field kvs0 = Some opts" "0 \<le> i" "i < int (length opts)"
    "kvs = [(''question'', JStr qn), (''options'', JArr (map JStr opts)), (''correctIndex'', JInt i), (''explanation'', JStr e)]"
    using assms unfolding QuizQuestionArgs_def v by (auto split: option.splits if_splits)
  have "2 \<le> length opts \<and> length opts \<le> 10"
    using *(1) by (auto simp: options_field_def option_texts_def QUIZ_MIN_OPTIONS_def QUIZ_MAX_OPTIONS_def
        dest: those_length split: option.splits json.splits if_splits)
  with * show ?thesis
    by (intro exI[of _ "\<lparr>qq_question = qn, qq_options = opts, qq_correct = i, qq_explanation = e\<rparr>"])
      (simp add: quiz_question_schema_def same_question_def only_keys_def str_field_def option_strings_def lax_int_field_def
        those_strings[unfolded map_map])
qed

lemma those_all:
  "list_all (\<lambda>x. \<exists>y. f x = Some y \<and> P y x) xs \<Longrightarrow> \<exists>ys. those (map f xs) = Some ys \<and> list_all2 P ys xs"
  by (induction xs) auto

definition pool_of :: "dict \<Rightarrow> quiz_question list \<Rightarrow> bool" where
  "pool_of d qs \<longleftrightarrow> 3 \<le> length qs \<and> length qs \<le> 10
     \<and> (\<exists>ds. d = [(''questions'', JArr (map JObj ds))] \<and> list_all2 same_question qs ds)"

lemma quiz_accepted:
  assumes "QuizGenerateArgs lax d = Some d"
  obtains qs where "quiz_schema lax d = Some qs" "pool_of d qs"
proof -
  obtain vs ds where *: "those (map (QuizQuestionArgs lax) vs) = Some ds" "3 \<le> length vs" "length vs \<le> 10"
    "d = [(''questions'', JArr (map JObj ds))]"
    using assms unfolding QuizGenerateArgs_def QUIZ_MIN_QUESTIONS_def QUIZ_MAX_QUESTIONS_def
    by (auto split: json.splits option.splits if_splits)
  have "list_all2 (\<lambda>v k. QuizQuestionArgs lax v = Some k) vs ds" using *(1) by (simp add: those_map_Some)
  then have "list_all (\<lambda>k. \<exists>q. (quiz_question_schema lax \<circ> JObj) k = Some q \<and> same_question q k) ds"
    by (induction rule: list_all2_induct) (auto dest: question_accepted)
  from those_all[OF this] obtain qs where qs: "those (map (quiz_question_schema lax) (map JObj ds)) = Some qs" "list_all2 same_question qs ds"
    by (auto simp: comp_def)
  have "length ds = length vs" "length qs = length ds" using those_length[OF *(1)] list_all2_lengthD[OF qs(2)] by simp_all
  with * qs show ?thesis by (intro that[of qs]) (auto simp: quiz_schema_def only_keys_def pool_of_def)
qed

text \<open>What the documentation of the answer promises.\<close>

definition response_ok :: "chat_run_out \<Rightarrow> chat_response \<Rightarrow> bool" where
  "response_ok out r \<longleftrightarrow>
     (case cr_status r of
        OutAssistant \<Rightarrow> (cr_message r = None \<longleftrightarrow> cr_quiz r \<noteq> None) \<and> cr_tool_calls r = None \<and> cr_block r = None \<and> cr_turn r \<noteq> None
      | OutToolCall \<Rightarrow> cr_tool_calls r \<noteq> None \<and> cr_block r = None \<and> cr_turn r \<noteq> None
      | OutBlocked \<Rightarrow> cr_tool_calls r = None \<and> (case cr_block r of None \<Rightarrow> False
          | Some b \<Rightarrow> if b = MaxTokens then cr_usage r \<noteq> None \<and> cr_turn r \<noteq> None
              else cr_message r = None \<and> cr_usage r = None \<and> cr_turn r = None \<and> cr_step r = None \<and> cr_server_tools r = []
                \<and> cr_quiz r = None \<and> cr_images r = None))
     \<and> cr_tool_call r = map_option hd (cr_tool_calls r)
     \<and> (cr_quiz r \<noteq> None \<longrightarrow> cr_message r = None)
     \<and> (case (co_quiz out, cr_quiz r) of
          (None, None) \<Rightarrow> True
        | (Some d, Some qs) \<Rightarrow> pool_of d qs
        | _ \<Rightarrow> False)"

lemma response_form:
  assumes "carries lax out" "(case co_quiz out of None \<Rightarrow> Some None | Some q \<Rightarrow> map_option Some (quiz_schema lax q)) = Some quiz"
  shows "to_response lax out = Some \<lparr>cr_status = co_status out, cr_session = co_session out, cr_turn = co_turn out,
      cr_step = co_step out, cr_message = (if quiz \<noteq> None then None else co_message out), cr_tool_calls = given (co_tool_calls out),
      cr_tool_call = (case co_tool_calls out of [] \<Rightarrow> None | t # ts \<Rightarrow> Some t), cr_block = co_block out, cr_usage = co_usage out,
      cr_server_tools = co_server_tools out, cr_quiz = quiz, cr_images = given (co_images out)\<rparr>"
  using assms by (simp add: to_response_def carries_def list_all_iff)

lemma first_given: "(case xs of [] \<Rightarrow> None | t # ts \<Rightarrow> Some t) = map_option hd (given xs)"
  by (cases xs) (simp_all add: given_def)

lemma response_built:
  assumes "answer_ok lax out"
  shows "case to_response lax out of None \<Rightarrow> False | Some r \<Rightarrow> response_ok out r"
proof -
  have ok: "carries lax out" "in_state out" using assms by (simp_all add: answer_ok_def)
  obtain quiz where q: "(case co_quiz out of None \<Rightarrow> Some None | Some q \<Rightarrow> map_option Some (quiz_schema lax q)) = Some quiz"
    "case (co_quiz out, quiz) of (None, None) \<Rightarrow> True | (Some d, Some qs) \<Rightarrow> pool_of d qs | _ \<Rightarrow> False"
  proof (cases "co_quiz out")
    case None
    then show ?thesis by (intro that[of None]) simp_all
  next
    case (Some d)
    with ok(1) have "QuizGenerateArgs lax d = Some d" by (simp add: carries_def)
    then obtain qs where "quiz_schema lax d = Some qs" "pool_of d qs" by (rule quiz_accepted)
    with Some show ?thesis by (intro that[of "Some qs"]) simp_all
  qed
  have none: "co_quiz out = None \<longleftrightarrow> quiz = None" using q(2) by (cases "co_quiz out"; cases quiz) simp_all
  have given: "given xs = None \<longleftrightarrow> xs = []" for xs :: "'b list" by (simp add: given_def)
  show ?thesis unfolding response_form[OF ok(1) q(1)] response_ok_def first_given
    using ok(2) q(2) none by (cases "co_status out") (auto simp: in_state_def bare_def given split: option.splits if_splits)
qed

text \<open>
  C37: Whatever the orchestrator answers to a message or to tool results, the endpoint can build its response,
  so no committed turn ends in a failure of the answer schema, and the response is in exactly one of the
  three documented states: an answer with a text unless a quiz replaces it, tool calls whose first one is
  repeated in the old field, or a blocked turn that, unless it was cut at the token limit, carries
  nothing else. A quiz has 3 to 10 questions with 2 to 10 options, a correct index within them, exactly
  those the model gave.
\<close>

theorem chat_answers_conform:
  "(case run env rq s of (Inl e, s') \<Rightarrow> True
     | (Inr out, s') \<Rightarrow> (case to_response (lax_of env) out of None \<Rightarrow> False | Some r \<Rightarrow> response_ok out r))
   \<and> (case tool_result env uid sid results s of (Inl e, s') \<Rightarrow> True
     | (Inr out, s') \<Rightarrow> (case to_response (lax_of env) out of None \<Rightarrow> False | Some r \<Rightarrow> response_ok out r))"
proof -
  have built: "case m s of (Inl e, s') \<Rightarrow> True
     | (Inr out, s') \<Rightarrow> (case to_response (lax_of env) out of None \<Rightarrow> False | Some r \<Rightarrow> response_ok out r)"
    if "yields (answer_ok (lax_of env)) m" for m :: "chat_run_out chat_act"
    using keeps_Inr[OF that] response_built[of "lax_of env"] by (cases "m s"; cases "fst (m s)") auto
  show ?thesis by (intro conjI built yields_run yields_tool_result)
qed

end
