(* ===== verification/Routes.thy ===== *)
theory Routes
  imports Adapty AuthSessions Profiles Chats WorkspaceList Purchases RateLimit
begin

text \<open>
  The handlers of \<^verbatim>\<open>app/api_gateway/routers\<close> around the services: the token of the caller, the constraints on
  the body (\<^verbatim>\<open>app/schemas\<close>), the owner check and the rate limit, in the order FastAPI and the handler run
  them, then the call of the service with the user of the token. A request runs in one transaction; the
  verdict of the limiter (\<^verbatim>\<open>rate_limit.py\<close>, modelled in \<^verbatim>\<open>RateLimit\<close>) is an argument.
\<close>

section \<open>What comes before a service\<close>

record route_env =
  rt_lib :: jwt_lib
  rt_verifier :: jwt_verifier
  rt_credentials :: "string option"
  rt_within :: bool
    \<comment> \<open>\<^verbatim>\<open>enforce_other_limits\<close> or, for the public endpoints, the limit of the address\<close>
  rt_cfg :: settings
  rt_now :: time

text \<open>A route for the user of the token; \<^verbatim>\<open>limited\<close> says whether the handler asks the limiter.\<close>

definition user_route :: "route_env \<Rightarrow> bool \<Rightarrow> bool \<Rightarrow> (uuid \<Rightarrow> 'a db_act) \<Rightarrow> 'a db_act" where
  "user_route rt valid limited service = session_scope
     (bind_act (get_current_user (rt_lib rt) (rt_verifier rt) (rt_credentials rt)) (\<lambda>current.
      bind_act (guard_act valid ValidationFailedError) (\<lambda>_.
      bind_act (guard_act (limited \<longrightarrow> rt_within rt) RateLimitedError) (\<lambda>_.
      service (au_user current)))))"

text \<open>A route whose body names its user.\<close>

definition owner_route :: "route_env \<Rightarrow> bool \<Rightarrow> uuid \<Rightarrow> (uuid \<Rightarrow> 'a db_act) \<Rightarrow> 'a db_act" where
  "owner_route rt valid body_user service = session_scope
     (bind_act (get_current_user (rt_lib rt) (rt_verifier rt) (rt_credentials rt)) (\<lambda>current.
      bind_act (guard_act valid ValidationFailedError) (\<lambda>_.
      bind_act (case require_owner body_user current of Some e \<Rightarrow> raise e | None \<Rightarrow> ret ()) (\<lambda>_.
      bind_act (guard_act (rt_within rt) RateLimitedError) (\<lambda>_.
      service (au_user current))))))"

definition char_length :: "nat \<Rightarrow> nat \<Rightarrow> string \<Rightarrow> bool" where
  "char_length least most s = (least \<le> length s \<and> length s \<le> most)"

definition within_length :: "nat \<Rightarrow> string option \<Rightarrow> bool" where
  "within_length most s = (case s of None \<Rightarrow> True | Some t \<Rightarrow> length t \<le> most)"

definition page_limit :: "int \<Rightarrow> bool" where "page_limit limit = (1 \<le> limit \<and> limit \<le> 100)"

section \<open>Wallet, policy and purchases\<close>

definition wallet_consume_body :: "string \<Rightarrow> int \<Rightarrow> bool" where
  "wallet_consume_body request_id amount = (request_id \<noteq> [] \<and> 0 < amount)"

definition wallet_get :: "route_env \<Rightarrow> (int \<times> ledger_row list) db_act" where
  "wallet_get rt = user_route rt True False (\<lambda>uid. get_wallet_view uid (nat (wallet_last_transactions (rt_cfg rt))))"

definition wallet_consume :: "route_env \<Rightarrow> uuid \<Rightarrow> uuid option \<Rightarrow> string \<Rightarrow> int \<Rightarrow> dict \<Rightarrow> wallet_result db_act" where
  "wallet_consume rt body_user session_id request_id amount meta =
     owner_route rt (wallet_consume_body request_id amount) body_user
       (\<lambda>uid. consume uid amount request_id (JObj meta) session_id)"

definition policy_effective :: "route_env \<Rightarrow> effective_policy db_act" where
  "policy_effective rt = user_route rt True False (\<lambda>uid. bind_act get_st (\<lambda>db. ret (effective (rt_now rt) uid db)))"

definition subscription_sync_route :: "storekit \<Rightarrow> route_env \<Rightarrow> uuid \<Rightarrow> string \<Rightarrow> subscription_result db_act" where
  "subscription_sync_route vfy rt body_user jws = owner_route rt (jws \<noteq> []) body_user
     (\<lambda>uid. subscription_sync vfy (rt_cfg rt) (rt_now rt) uid jws)"

definition purchase_tokens :: "storekit \<Rightarrow> json_loads \<Rightarrow> route_env \<Rightarrow> uuid \<Rightarrow> string \<Rightarrow> purchase_result db_act" where
  "purchase_tokens vfy loads rt body_user jws = owner_route rt (jws \<noteq> []) body_user
     (\<lambda>uid. purchase vfy loads (rt_cfg rt) (rt_now rt) uid jws)"

definition list_token_products :: "json_loads \<Rightarrow> route_env \<Rightarrow> (string \<times> int) list db_act" where
  "list_token_products loads rt = user_route rt True False (\<lambda>uid. ret (token_products loads (rt_cfg rt)))"

section \<open>User keys\<close>

definition byok_set_body :: "int \<Rightarrow> string \<Rightarrow> bool" where
  "byok_set_body size_limit_api_key api_key = (api_key \<noteq> [] \<and> int (length (utf8_encode api_key)) \<le> size_limit_api_key)"

definition byok_set :: "byok_env \<Rightarrow> bytes \<Rightarrow> bytes \<Rightarrow> int \<Rightarrow> route_env \<Rightarrow> uuid \<Rightarrow> string \<Rightarrow> byok_result db_act" where
  "byok_set env dek nonce size_limit_api_key rt body_user api_key =
     owner_route rt (byok_set_body size_limit_api_key api_key) body_user (\<lambda>uid. set_key env dek nonce uid api_key)"

definition byok_toggle :: "byok_env \<Rightarrow> route_env \<Rightarrow> uuid \<Rightarrow> bool \<Rightarrow> byok_result db_act" where
  "byok_toggle env rt body_user enabled = owner_route rt True body_user (\<lambda>uid. toggle env uid enabled)"

definition byok_delete :: "route_env \<Rightarrow> uuid \<Rightarrow> byok_result db_act" where
  "byok_delete rt body_user = owner_route rt True body_user delete_key"

section \<open>Profile and preferences\<close>

definition profile_get :: "(bytes \<Rightarrow> bytes) \<Rightarrow> route_env \<Rightarrow> profile_view db_act" where
  "profile_get sha256 rt = user_route rt True True (get_profile sha256)"

definition profile_patch :: "(bytes \<Rightarrow> bytes) \<Rightarrow> route_env \<Rightarrow> string \<Rightarrow> profile_view db_act" where
  "profile_patch sha256 rt display_name = user_route rt (length display_name \<le> DISPLAY_NAME_MAX) True (\<lambda>uid.
     bind_act (from_sum (profile_update display_name)) (update_display_name sha256 uid))"

definition preferences_get :: "route_env \<Rightarrow> prefs_view db_act" where
  "preferences_get rt = user_route rt True True (\<lambda>uid. bind_act get_st (\<lambda>db. ret (get_preferences uid db)))"

definition preferences_patch :: "(json \<Rightarrow> string) \<Rightarrow> route_env \<Rightarrow> prefs_patch \<Rightarrow> prefs_view db_act" where
  "preferences_patch dumps rt p = user_route rt (check_prefs_patch dumps p) True (\<lambda>uid. patch_preferences uid p)"

section \<open>Catalogues\<close>

definition presets_list ::
  "(string \<Rightarrow> string \<times> string) \<Rightarrow> string \<Rightarrow> route_env \<Rightarrow> string option \<Rightarrow> string option \<Rightarrow> (string \<times> preset_entry list) db_act" where
  "presets_list ru configured rt locale accept_language = user_route rt True True (\<lambda>uid.
     bind_act (from_sum (resolve_presets_locale locale accept_language (resolved_presets_default_locale configured))) (\<lambda>resolved.
     case preset_catalog resolved (PRESETS ru) of None \<Rightarrow> raise PyError | Some es \<Rightarrow> ret (resolved, es)))"

definition tools_list :: "tool_lib \<Rightarrow> route_env \<Rightarrow> json list db_act" where
  "tools_list lib rt = user_route rt True True (\<lambda>uid. ret (tool_catalog lib))"

record model_info =
  mi_id :: string
  mi_name :: string
  mi_default :: bool

definition build_models :: "json_loads \<Rightarrow> settings \<Rightarrow> model_info list" where
  "build_models loads cfg =
    (let models = allowed_models loads cfg; default_id = default_model cfg;
         display = (case map_of models default_id of Some d \<Rightarrow> d | None \<Rightarrow> default_id) in
     \<lparr>mi_id = default_id, mi_name = display, mi_default = True\<rparr>
     # map (\<lambda>(i, d). \<lparr>mi_id = i, mi_name = d, mi_default = False\<rparr>) (filter (\<lambda>(i, d). i \<noteq> default_id) models))"

definition models_list :: "json_loads \<Rightarrow> route_env \<Rightarrow> model_info list db_act" where
  "models_list loads rt = user_route rt True True (\<lambda>uid. ret (build_models loads (rt_cfg rt)))"

section \<open>Chats\<close>

definition TITLE_MAX :: nat where "TITLE_MAX = 200"

definition chat_patch_body :: "chat_patch \<Rightarrow> bool" where
  "chat_patch_body p = ((case cp_title p of Some t \<Rightarrow> within_length TITLE_MAX t | None \<Rightarrow> True)
     \<and> \<not> (cp_title p = None \<and> cp_pinned p = None \<and> cp_workspace p = None))"

definition chats_list ::
  "chats_env \<Rightarrow> route_env \<Rightarrow> string option \<Rightarrow> string option \<Rightarrow> int \<Rightarrow> uuid option
   \<Rightarrow> (chat_list_item list \<times> string option) db_act" where
  "chats_list env rt q cursor limit workspace = user_route rt (page_limit limit) True (\<lambda>uid.
     bind_act get_st (\<lambda>db. from_sum (list_chats env uid q cursor (nat limit) workspace db)))"

definition chats_get :: "chats_env \<Rightarrow> route_env \<Rightarrow> uuid \<Rightarrow> chat_history db_act" where
  "chats_get env rt chat_id = user_route rt True True (get_history env chat_id)"

definition chats_steps :: "chats_env \<Rightarrow> route_env \<Rightarrow> uuid \<Rightarrow> uuid option \<Rightarrow> message_steps_view db_act" where
  "chats_steps env rt chat_id message_step = user_route rt True True (\<lambda>uid. steps_view env chat_id uid message_step)"

definition chats_patch :: "route_env \<Rightarrow> uuid \<Rightarrow> chat_patch \<Rightarrow> session_row db_act" where
  "chats_patch rt chat_id p = user_route rt (chat_patch_body p) True (\<lambda>uid. rename_or_pin chat_id uid p)"

definition chats_delete :: "route_env \<Rightarrow> uuid \<Rightarrow> unit db_act" where
  "chats_delete rt chat_id = user_route rt True True (delete_chat chat_id)"


section \<open>Workspaces\<close>

definition WORKSPACE_NAME_MAX :: nat where "WORKSPACE_NAME_MAX = 120"
definition WORKSPACE_DESCRIPTION_MAX :: nat where "WORKSPACE_DESCRIPTION_MAX = 1000"
definition WORKSPACE_INSTRUCTIONS_MAX :: nat where "WORKSPACE_INSTRUCTIONS_MAX = 16000"

definition workspace_create_body :: "string \<Rightarrow> string option \<Rightarrow> string option \<Rightarrow> bool" where
  "workspace_create_body name desc instr = (char_length 1 WORKSPACE_NAME_MAX name
     \<and> within_length WORKSPACE_DESCRIPTION_MAX desc \<and> within_length WORKSPACE_INSTRUCTIONS_MAX instr \<and> py_strip name \<noteq> [])"

text \<open>A patch: each field absent, \<^verbatim>\<open>null\<close> or a text.\<close>

record workspace_patch =
  wp_name :: "string option option"
  wp_description :: "string option option"
  wp_instructions :: "string option option"

definition sent_text :: "string option option \<Rightarrow> string option" where
  "sent_text f = (case f of Some (Some s) \<Rightarrow> Some s | _ \<Rightarrow> None)"

definition workspace_patch_body :: "workspace_patch \<Rightarrow> bool" where
  "workspace_patch_body p = (within_length WORKSPACE_NAME_MAX (sent_text (wp_name p))
     \<and> within_length WORKSPACE_DESCRIPTION_MAX (sent_text (wp_description p))
     \<and> within_length WORKSPACE_INSTRUCTIONS_MAX (sent_text (wp_instructions p))
     \<and> \<not> (wp_name p = None \<and> wp_description p = None \<and> wp_instructions p = None)
     \<and> (case wp_name p of None \<Rightarrow> True | Some None \<Rightarrow> False | Some (Some n) \<Rightarrow> py_strip n \<noteq> []))"

definition UPLOAD_MEDIA_TYPES :: "string list" where
  "UPLOAD_MEDIA_TYPES = IMAGE_TYPES @ DOCUMENT_TYPES @ TEXT_TYPES"

definition workspace_file_body :: "file_upload \<Rightarrow> bool" where
  "workspace_file_body f = (up_type f \<in> {''image'', ''document'', ''text''} \<and> up_media f \<in> set UPLOAD_MEDIA_TYPES
     \<and> char_length 1 512 (up_filename f) \<and> up_data f \<noteq> [] \<and> py_strip (up_filename f) \<noteq> [])"

definition workspaces_create :: "route_env \<Rightarrow> string \<Rightarrow> string option \<Rightarrow> string option \<Rightarrow> workspace_row db_act" where
  "workspaces_create rt name desc instr = user_route rt (workspace_create_body name desc instr) True
     (\<lambda>uid. create_workspace uid name desc instr)"

definition workspaces_list ::
  "'a cursor_env_scheme \<Rightarrow> route_env \<Rightarrow> string option \<Rightarrow> int \<Rightarrow> (workspace_item list \<times> string option) db_act" where
  "workspaces_list env rt cursor limit = user_route rt (page_limit limit) True (\<lambda>uid.
     bind_act get_st (\<lambda>db. from_sum (list_workspaces env uid cursor (nat limit) db)))"

definition workspaces_get :: "route_env \<Rightarrow> uuid \<Rightarrow> (workspace_row \<times> workspace_file_row list) db_act" where
  "workspaces_get rt wid = user_route rt True True (get_detail wid)"

definition workspaces_patch ::
  "route_env \<Rightarrow> uuid \<Rightarrow> workspace_patch \<Rightarrow> (workspace_row \<times> workspace_file_row list) db_act" where
  "workspaces_patch rt wid p = user_route rt (workspace_patch_body p) True
     (\<lambda>uid. update_workspace wid uid (sent_text (wp_name p)) (wp_description p) (wp_instructions p))"

definition workspaces_delete :: "route_env \<Rightarrow> uuid \<Rightarrow> unit db_act" where
  "workspaces_delete rt wid = user_route rt True True (delete_workspace wid)"

definition workspaces_upload :: "ws_env \<Rightarrow> route_env \<Rightarrow> uuid \<Rightarrow> file_upload \<Rightarrow> workspace_file_row db_act" where
  "workspaces_upload env rt wid req = user_route rt (workspace_file_body req) True (\<lambda>uid. upload_file env wid uid req)"

definition workspaces_files :: "route_env \<Rightarrow> uuid \<Rightarrow> workspace_file_row list db_act" where
  "workspaces_files rt wid = user_route rt True True (list_workspace_files wid)"

definition workspaces_delete_file :: "route_env \<Rightarrow> uuid \<Rightarrow> uuid \<Rightarrow> unit db_act" where
  "workspaces_delete_file rt wid fid = user_route rt True True (\<lambda>uid. delete_workspace_file wid uid fid)"

section \<open>Sign-in\<close>

definition device_char :: "char \<Rightarrow> bool" where
  "device_char c = (let n = (of_char c :: nat) in (65 \<le> n \<and> n \<le> 90) \<or> (97 \<le> n \<and> n \<le> 122) \<or> (48 \<le> n \<and> n \<le> 57)
     \<or> c \<in> {CHR ''.'', CHR ''_'', CHR '':'', CHR ''-''})"

definition device_id_ok :: "string \<Rightarrow> bool" where
  "device_id_ok d = (char_length 1 128 d \<and> list_all device_char d)"

definition opt_device_ok :: "string option \<Rightarrow> bool" where
  "opt_device_ok d = (case d of None \<Rightarrow> True | Some x \<Rightarrow> device_id_ok x)"

text \<open>A public route: the body, then the limit of the address.\<close>

definition public_route :: "bool \<Rightarrow> bool \<Rightarrow> 'a db_act \<Rightarrow> 'a db_act" where
  "public_route valid within service = bind_act (guard_act valid ValidationFailedError) (\<lambda>_.
     bind_act (guard_act within RateLimitedError) (\<lambda>_. service))"

definition auth_register :: "auth_env \<Rightarrow> time \<Rightarrow> string \<Rightarrow> bool \<Rightarrow> string option \<Rightarrow> issued_tokens db_act" where
  "auth_register env now tok within device = public_route (opt_device_ok device) within (register_or_token env now tok device)"

definition auth_token :: "auth_env \<Rightarrow> time \<Rightarrow> string \<Rightarrow> bool \<Rightarrow> string \<Rightarrow> issued_tokens db_act" where
  "auth_token env now tok within device = public_route (device_id_ok device) within (register_or_token env now tok (Some device))"

definition auth_refresh :: "auth_env \<Rightarrow> time \<Rightarrow> string \<Rightarrow> bool \<Rightarrow> string \<Rightarrow> issued_tokens db_act" where
  "auth_refresh env now tok within refresh_token = public_route (refresh_token \<noteq> []) within (refresh env now tok refresh_token)"

definition apple_body :: "int \<Rightarrow> string \<Rightarrow> string option \<Rightarrow> bool" where
  "apple_body size_limit_api_key identity_token device = (identity_token \<noteq> []
     \<and> int (length (utf8_encode identity_token)) \<le> size_limit_api_key \<and> opt_device_ok device)"

definition auth_apple ::
  "auth_env \<Rightarrow> time \<Rightarrow> string \<Rightarrow> int \<Rightarrow> bool \<Rightarrow> string \<Rightarrow> string option \<Rightarrow> string option \<Rightarrow> issued_tokens db_act" where
  "auth_apple env now tok size_limit_api_key within identity_token device nonce =
     public_route (apple_body size_limit_api_key identity_token device) within
       (sign_in_with_apple env now tok identity_token device nonce)"

text \<open>The published key; its JWK form is a parameter.\<close>

definition auth_jwks :: "(string \<Rightarrow> string) \<Rightarrow> (string \<Rightarrow> string \<Rightarrow> json) \<Rightarrow> settings \<Rightarrow> bool \<Rightarrow> app_error + json" where
  "auth_jwks pem_file build_jwks cfg within =
    (if \<not> within then Inl RateLimitedError
     else if \<not> auth_jwks_enabled cfg then Inl NotFoundError
     else (let public_key = resolve_public_key pem_file cfg in
       if public_key = [] then Inl NotFoundError else Inr (build_jwks public_key (jwt_kid cfg))))"

section \<open>Operators\<close>

record admin_request =
  aq_token :: "string option"
  aq_length :: "int option"
    \<comment> \<open>the number \<^verbatim>\<open>Content-Length\<close> declares, if it declares one\<close>
  aq_within :: bool

definition admin_route :: "settings \<Rightarrow> int option \<Rightarrow> admin_request \<Rightarrow> bool \<Rightarrow> 'a db_act \<Rightarrow> 'a db_act" where
  "admin_route cfg size_limit rq valid service = session_scope
     (case require_admin cfg (aq_token rq) of
        Some e \<Rightarrow> raise e
      | None \<Rightarrow>
        bind_act (guard_act valid ValidationFailedError) (\<lambda>_.
        bind_act (guard_act (case (size_limit, aq_length rq) of (Some limit, Some n) \<Rightarrow> n \<le> limit | _ \<Rightarrow> True) PayloadTooLargeError) (\<lambda>_.
        bind_act (guard_act (aq_within rq) RateLimitedError) (\<lambda>_. service))))"

definition admin_grant_body :: "int \<Rightarrow> string \<Rightarrow> string \<Rightarrow> bool" where
  "admin_grant_body amount key reason = (0 < amount \<and> char_length 1 128 key \<and> char_length 1 512 reason)"

definition admin_wallet_grant ::
  "settings \<Rightarrow> int \<Rightarrow> admin_request \<Rightarrow> uuid \<Rightarrow> int \<Rightarrow> string \<Rightarrow> string \<Rightarrow> wallet_result db_act" where
  "admin_wallet_grant cfg admin_size_limit_body rq uid amount key reason =
     admin_route cfg (Some admin_size_limit_body) rq (admin_grant_body amount key reason) (admin_grant uid amount key reason)"

record admin_subscription_body =
  ab_user :: uuid
  ab_expires :: "iso_value option"
  ab_days :: "int option"
  ab_plan :: "string option"
  ab_key :: string
  ab_credits :: "int option"

definition check_term :: "time \<Rightarrow> admin_subscription_body \<Rightarrow> bool" where
  "check_term now b = ((ab_expires b \<noteq> None) \<noteq> (ab_days b \<noteq> None)
     \<and> (case ab_expires b of None \<Rightarrow> True | Some (Naive t) \<Rightarrow> False | Some (Aware t) \<Rightarrow> now < t))"

definition admin_subscription_ok :: "time \<Rightarrow> admin_subscription_body \<Rightarrow> bool" where
  "admin_subscription_ok now b = ((case ab_days b of None \<Rightarrow> True | Some d \<Rightarrow> 0 < d) \<and> within_length 128 (ab_plan b)
     \<and> char_length 1 128 (ab_key b) \<and> (case ab_credits b of None \<Rightarrow> True | Some c \<Rightarrow> 0 \<le> c) \<and> check_term now b)"

text \<open>\<^verbatim>\<open>now + timedelta(days=days)\<close>: an \<^verbatim>\<open>OverflowError\<close> beyond the range of \<^verbatim>\<open>timedelta\<close> or of \<^verbatim>\<open>datetime\<close>.\<close>

definition TIMEDELTA_MAX_DAYS :: int where "TIMEDELTA_MAX_DAYS = 999999999"
definition DATETIME_MAX :: time where "DATETIME_MAX = 253402300799999999"

definition granted_until :: "time \<Rightarrow> admin_subscription_body \<Rightarrow> app_error + time" where
  "granted_until now b = (case (ab_expires b, ab_days b) of
     (Some e, _) \<Rightarrow> Inr (as_utc e)
   | (None, Some d) \<Rightarrow> if TIMEDELTA_MAX_DAYS < d \<or> DATETIME_MAX < now + d * US_PER_DAY then Inl PyError else Inr (now + d * US_PER_DAY)
   | (None, None) \<Rightarrow> Inl PyError)"

definition admin_subscription_grant ::
  "(time \<Rightarrow> string) \<Rightarrow> settings \<Rightarrow> int \<Rightarrow> time \<Rightarrow> admin_request \<Rightarrow> admin_subscription_body \<Rightarrow> admin_subscription_result db_act" where
  "admin_subscription_grant isof cfg admin_size_limit_body now rq b =
     admin_route cfg (Some admin_size_limit_body) rq (admin_subscription_ok now b)
       (bind_act (from_sum (granted_until now b)) (\<lambda>expires.
        admin_grant_subscription isof cfg (ab_user b) expires
          (case ab_plan b of Some p \<Rightarrow> p | None \<Rightarrow> ''manual_grant'') (ab_key b) (ab_credits b)))"

definition admin_wallet_get :: "settings \<Rightarrow> admin_request \<Rightarrow> uuid \<Rightarrow> (int \<times> ledger_row list) db_act" where
  "admin_wallet_get cfg rq uid = admin_route cfg None rq True (admin_wallet_view uid (nat (wallet_last_transactions cfg)))"

section \<open>The Adapty webhook\<close>

definition adapty_webhook :: "adapty_env \<Rightarrow> string option \<Rightarrow> time \<Rightarrow> string \<Rightarrow> webhook_outcome db_act" where
  "adapty_webhook env presented now raw = (case require_adapty_webhook (ad_cfg env) presented of
     Some e \<Rightarrow> raise e | None \<Rightarrow> session_scope (adapty_handle env now raw))"

end
