(* ===== verification/Checkout.thy ===== *)
theory Checkout
  imports CloudPayments Routes
begin

text \<open>
  The routes of \<^verbatim>\<open>api_gateway/routers/billing_cloudpayments.py\<close> around the webhook service: the purchase link
  that \<^verbatim>\<open>billing_cloudpayments/checkout.py\<close> asks the payment aggregator for, and the public callback with
  the observation of its \<^verbatim>\<open>Authorization\<close> header (\<^verbatim>\<open>billing_cloudpayments/auth.py\<close>). The aggregator's reply
  is a parameter; the log lines are left out, except what they are computed from.
\<close>

section \<open>The purchase link\<close>

record checkout_result =
  ck_payment_id :: string
  ck_payment_url :: string
  ck_status :: string
  ck_expires_at :: "string option"

text \<open>The fields of the multipart body and the bearer token of the request.\<close>

record link_request =
  lr_app_id :: string
  lr_product_id :: string
  lr_user_id :: string
  lr_customer_email :: string
  lr_bearer :: string

datatype link_reply = LinkTimeout | LinkConnectError | LinkReply int "json option"

record checkout_env =
  ck_cfg :: settings
  ck_loads :: json_loads
  ck_str :: "json \<Rightarrow> string"
  ck_post :: "link_request \<Rightarrow> link_reply"
  ck_up :: "string \<Rightarrow> bool"
  ck_clock :: int

definition validate_product :: "checkout_env \<Rightarrow> string \<Rightarrow> app_error option" where
  "validate_product env product_id =
    (let products = token_products (ck_loads env) (ck_cfg env);
         kind = classify_product product_id None (map fst products) in
     if kind = KindUnknown then Some ValidationFailedError
     else if kind = KindTokens \<and> (case map_of products product_id of None \<Rightarrow> 0 | Some n \<Rightarrow> n) \<le> 0
       then Some ValidationFailedError
     else None)"

definition text_of :: "(json \<Rightarrow> string) \<Rightarrow> json \<Rightarrow> string" where
  "text_of str v = (case v of JNull \<Rightarrow> [] | JStr s \<Rightarrow> s | _ \<Rightarrow> str v)"

definition to_result :: "(json \<Rightarrow> string) \<Rightarrow> json \<Rightarrow> checkout_result option" where
  "to_result str body = (case body of
     JObj kvs \<Rightarrow> (case obj_get kvs ''payment_url'' of
         JStr url \<Rightarrow> if url = [] then None
           else Some \<lparr>ck_payment_id = text_of str (obj_get kvs ''payment_id''), ck_payment_url = url,
             ck_status = text_of str (obj_get kvs ''status''),
             ck_expires_at = (case obj_get kvs ''expires_at'' of JStr s \<Rightarrow> Some s | _ \<Rightarrow> None)\<rparr>
       | _ \<Rightarrow> None)
   | _ \<Rightarrow> None)"

definition link_request_of :: "settings \<Rightarrow> uuid \<Rightarrow> string \<Rightarrow> string \<Rightarrow> link_request" where
  "link_request_of cfg uid product_id email = \<lparr>lr_app_id = cloudpayments_app_id cfg, lr_product_id = product_id,
     lr_user_id = str_uuid uid, lr_customer_email = email, lr_bearer = cloudpayments_api_token cfg\<rparr>"

definition create_payment_link :: "checkout_env \<Rightarrow> uuid \<Rightarrow> string \<Rightarrow> string \<Rightarrow> app_error + checkout_result" where
  "create_payment_link env uid product_id email =
    (case ck_post env (link_request_of (ck_cfg env) uid product_id email) of
       LinkTimeout \<Rightarrow> Inl UpstreamError
     | LinkConnectError \<Rightarrow> Inl UpstreamError
     | LinkReply status body \<Rightarrow>
         if \<not> (200 \<le> status \<and> status < 300) then Inl UpstreamError
         else (case body of
             None \<Rightarrow> Inl UpstreamError
           | Some b \<Rightarrow> (case to_result (ck_str env) b of None \<Rightarrow> Inl UpstreamError | Some r \<Rightarrow> Inr r)))"

text \<open>The handler; which requests it sends is part of its value.\<close>

definition cloudpayments_checkout ::
  "checkout_env \<Rightarrow> uuid \<Rightarrow> string \<Rightarrow> string \<Rightarrow> redis \<Rightarrow> (app_error + checkout_result) \<times> link_request list \<times> redis" where
  "cloudpayments_checkout env uid product_id email rs =
    (if \<not> cloudpayments_checkout_configured (ck_cfg env) then (Inl CloudPaymentsCheckoutNotConfiguredError, [], rs)
     else (case enforce_other_limits (ck_cfg env) (ck_up env) (ck_clock env) uid rs of
       (ok, rs') \<Rightarrow>
         if \<not> ok then (Inl RateLimitedError, [], rs')
         else (case validate_product env product_id of
             Some e \<Rightarrow> (Inl e, [], rs')
           | None \<Rightarrow> (create_payment_link env uid product_id email, [link_request_of (ck_cfg env) uid product_id email], rs'))))"

text \<open>
  The route: the user of the token, the body with a product and an address that \<^verbatim>\<open>EmailStr\<close> (a parameter)
  accepts and normalises, then the handler, in the session of the request.
\<close>

definition checkout_link ::
  "checkout_env \<Rightarrow> (string \<Rightarrow> string option) \<Rightarrow> route_env \<Rightarrow> string \<Rightarrow> string \<Rightarrow> redis \<Rightarrow> checkout_result db_act" where
  "checkout_link env email_of rt product_id email rs =
     user_route rt (product_id \<noteq> [] \<and> email_of email \<noteq> None) False
       (\<lambda>uid. from_sum (fst (cloudpayments_checkout env uid product_id (case email_of email of None \<Rightarrow> email | Some e \<Rightarrow> e) rs)))"

section \<open>The public callback\<close>

text \<open>The first word and what follows it, without the white space between them.\<close>

definition split_first :: "string \<Rightarrow> string \<times> string option" where
  "split_first s = (let word = takeWhile (\<lambda>c. \<not> is_space c) s; rest = py_lstrip (dropWhile (\<lambda>c. \<not> is_space c) s) in
     (word, if rest = [] then None else Some rest))"

definition extract_webhook_credential :: "string option \<Rightarrow> string option" where
  "extract_webhook_credential authorization = (case authorization of
     None \<Rightarrow> None
   | Some header \<Rightarrow> (let value = py_strip header in
       if value = [] then None
       else (case split_first value of
           (word, Some rest) \<Rightarrow> if py_lower word = ''bearer'' \<or> py_lower word = ''token''
             then (if py_strip rest = [] then None else Some (py_strip rest)) else Some value
         | (word, None) \<Rightarrow> Some value)))"

definition auth_scheme_label :: "string option \<Rightarrow> string" where
  "auth_scheme_label authorization = (case authorization of
     None \<Rightarrow> ''none''
   | Some header \<Rightarrow> (let value = py_strip header in
       if value = [] then ''empty''
       else (case split_first value of (word, Some rest) \<Rightarrow> py_lower word | (word, None) \<Rightarrow> ''raw'')))"

definition AUTH_HEADER_ALLOWLIST :: "string list" where
  "AUTH_HEADER_ALLOWLIST = [''authorization'', ''x-api-key'', ''x-signature'', ''x-sign'', ''x-webhook-signature'',
     ''x-content-hmac'', ''content-hmac'', ''signature'']"

record auth_observed =
  ao_matched :: bool
  ao_scheme :: string
  ao_present :: "string list"

definition log_auth_observed :: "string \<Rightarrow> (string \<Rightarrow> string option) \<Rightarrow> app_error + auth_observed" where
  "log_auth_observed webhook_token headers =
    (let header = headers ''authorization'';
         seen = (\<lambda>matched. \<lparr>ao_matched = matched, ao_scheme = auth_scheme_label header,
           ao_present = filter (\<lambda>n. headers n \<noteq> None) AUTH_HEADER_ALLOWLIST\<rparr>) in
     if webhook_token = [] then Inr (seen False)
     else (case compare_digest (case extract_webhook_credential header of None \<Rightarrow> [] | Some c \<Rightarrow> c) webhook_token of
         Inl e \<Rightarrow> Inl e | Inr matched \<Rightarrow> Inr (seen matched)))"

text \<open>The dependency first, then the limit per address, then the service, which commits payment by payment.\<close>

definition cloudpayments_webhook ::
  "cp_env \<Rightarrow> string \<Rightarrow> (string \<Rightarrow> bool) \<Rightarrow> int \<Rightarrow> string option \<Rightarrow> (string \<Rightarrow> string option) \<Rightarrow> string \<Rightarrow> redis \<Rightarrow> db
   \<Rightarrow> (app_error + cp_outcome) \<times> redis \<times> db" where
  "cloudpayments_webhook env webhook_token up now ip headers raw rs db =
    (case log_auth_observed webhook_token headers of
       Inl e \<Rightarrow> (Inl e, rs, db)
     | Inr seen \<Rightarrow> (case enforce_cloudpayments_webhook_limits (cp_cfg env) up now ip rs of
         (ok, rs') \<Rightarrow> if \<not> ok then (Inl RateLimitedError, rs', db)
           else (case cp_handle env raw db of (r, db') \<Rightarrow> (r, rs', db'))))"


section \<open>What a link is made for\<close>

definition token_table :: "checkout_env \<Rightarrow> (string \<times> int) list" where
  "token_table env = token_products (ck_loads env) (ck_cfg env)"

text \<open>A pack of the token table with a positive amount, or, outside the table, a name that reads as a subscription.\<close>

definition sellable :: "checkout_env \<Rightarrow> string \<Rightarrow> bool" where
  "sellable env product_id = (case map_of (token_table env) product_id of
     Some n \<Rightarrow> 0 < n
   | None \<Rightarrow> \<not> tokens_name product_id \<and> looks_like_subscription product_id)"

lemma validate_product_exact:
  "validate_product env product_id = (if sellable env product_id then None else Some ValidationFailedError)"
proof -
  have "product_id \<in> set (map fst (token_table env)) \<longleftrightarrow> map_of (token_table env) product_id \<noteq> None"
    by (simp add: map_of_eq_None_iff)
  then show ?thesis
    by (cases "map_of (token_table env) product_id")
      (simp_all add: validate_product_def sellable_def classify_product_def Let_def flip: token_table_def)
qed

lemma pack_credited:
  assumes "map_of (token_table env) product_id = Some n" "0 < n" "cp_loads cp = ck_loads env" "cp_cfg cp = ck_cfg env"
    and "py_code p = product_id" "py_type p = ''one_time''"
  shows "payment_terms cp p = Some (KindTokens, n, ''cloudpayments_tokens'')"
  using assms by (simp add: payment_terms_def token_table_def)

text \<open>A reply that is turned into a link: a success whose JSON object names the address to pay at.\<close>

definition link_in :: "link_reply \<Rightarrow> string \<Rightarrow> bool" where
  "link_in reply url \<longleftrightarrow> (case reply of
     LinkReply status (Some (JObj kvs)) \<Rightarrow> 200 \<le> status \<and> status < 300 \<and> url \<noteq> [] \<and> obj_get kvs ''payment_url'' = JStr url
   | _ \<Rightarrow> False)"

lemma link_answer:
  "case create_payment_link env uid product_id email of
     Inl e \<Rightarrow> e = UpstreamError \<and> (\<nexists>url. link_in (ck_post env (link_request_of (ck_cfg env) uid product_id email)) url)
   | Inr r \<Rightarrow> link_in (ck_post env (link_request_of (ck_cfg env) uid product_id email)) (ck_payment_url r)"
  by (auto simp: create_payment_link_def to_result_def link_in_def split: link_reply.split option.split json.split if_splits)

text \<open>
  C39: Without configuration the checkout answers that it is not available and counts nothing; otherwise the
  call is counted under the caller's limit, and over it nothing is asked for. Within it, the aggregator is
  asked for a link, once, exactly for a pack of the token table with a positive amount, and then every one-time
  payment of that product which the callback later verifies is credited that amount, or for a product outside the
  table whose name reads as a subscription and not as a token pack; for any other product the answer
  is a validation error and no request is sent. The request names the user of the token and carries the
  configured application and secret. The caller gets a link exactly when the aggregator's success
  carries a non-empty address, and that address; every other reply is the same upstream error.
\<close>

theorem checkout_only_for_creditable:
  "case cloudpayments_checkout env uid product_id email rs of (answer, sent, rs') \<Rightarrow>
     if \<not> cloudpayments_checkout_configured (ck_cfg env)
     then answer = Inl CloudPaymentsCheckoutNotConfiguredError \<and> sent = [] \<and> rs' = rs
     else rs' = snd (enforce_other_limits (ck_cfg env) (ck_up env) (ck_clock env) uid rs)
       \<and> (if \<not> fst (enforce_other_limits (ck_cfg env) (ck_up env) (ck_clock env) uid rs)
          then answer = Inl RateLimitedError \<and> sent = []
          else case map_of (token_table env) product_id of
            Some n \<Rightarrow>
              if n \<le> 0 then answer = Inl ValidationFailedError \<and> sent = []
              else sent = [link_request_of (ck_cfg env) uid product_id email]
                \<and> payment_terms (cp\<lparr>cp_loads := ck_loads env, cp_cfg := ck_cfg env\<rparr>)
                    (p\<lparr>py_code := product_id, py_type := ''one_time''\<rparr>) = Some (KindTokens, n, ''cloudpayments_tokens'')
          | None \<Rightarrow>
              if looks_like_subscription product_id \<and> \<not> tokens_name product_id
              then sent = [link_request_of (ck_cfg env) uid product_id email]
              else answer = Inl ValidationFailedError \<and> sent = [])
       \<and> (if sent = [] then isl answer
          else case answer of
            Inl e \<Rightarrow> e = UpstreamError \<and> (\<nexists>url. link_in (ck_post env (link_request_of (ck_cfg env) uid product_id email)) url)
          | Inr r \<Rightarrow> link_in (ck_post env (link_request_of (ck_cfg env) uid product_id email)) (ck_payment_url r))"
proof (cases "cloudpayments_checkout_configured (ck_cfg env)
    \<and> fst (enforce_other_limits (ck_cfg env) (ck_up env) (ck_clock env) uid rs) \<and> sellable env product_id")
  case True
  then have v: "validate_product env product_id = None" by (simp add: validate_product_exact)
  have "payment_terms (cp\<lparr>cp_loads := ck_loads env, cp_cfg := ck_cfg env\<rparr>) (p\<lparr>py_code := product_id, py_type := ''one_time''\<rparr>)
      = Some (KindTokens, n, ''cloudpayments_tokens'')" if "map_of (token_table env) product_id = Some n" for n
    by (rule pack_credited[OF that]) (use True that in \<open>simp_all add: sellable_def\<close>)
  moreover have "cloudpayments_checkout env uid product_id email rs = (create_payment_link env uid product_id email,
      [link_request_of (ck_cfg env) uid product_id email], snd (enforce_other_limits (ck_cfg env) (ck_up env) (ck_clock env) uid rs))"
    using True v by (cases "enforce_other_limits (ck_cfg env) (ck_up env) (ck_clock env) uid rs")
      (simp add: cloudpayments_checkout_def)
  ultimately show ?thesis using True link_answer[of env uid product_id email]
    by (cases "map_of (token_table env) product_id") (simp_all add: sellable_def not_le)
next
  case False
  then show ?thesis
    by (auto simp: cloudpayments_checkout_def validate_product_exact sellable_def split: prod.splits option.splits)
qed

section \<open>The callback is public\<close>

text \<open>Whether the comparison with the token of the old scheme can be made at all.\<close>

definition comparable :: "string \<Rightarrow> (string \<Rightarrow> string option) \<Rightarrow> bool" where
  "comparable webhook_token headers \<longleftrightarrow> webhook_token = [] \<or> is_ascii webhook_token
     \<and> (case extract_webhook_credential (headers ''authorization'') of None \<Rightarrow> True | Some c \<Rightarrow> is_ascii c)"

text \<open>
  The headers of a callback are only observed: whatever they are, and whether or not they match the old token,
  the callback is limited, verified and answered as without them. The one exception is a credential with
  a character outside ASCII while the old token is configured: the comparison raises and the callback
  fails before the limit is counted or anything is verified.
\<close>

lemma callback_headers_only_observed:
  "cloudpayments_webhook env webhook_token up now ip headers raw rs db =
     (if comparable webhook_token headers then cloudpayments_webhook env [] up now ip (\<lambda>_. None) raw rs db
      else (Inl PyError, rs, db))"
proof -
  have "log_auth_observed webhook_token headers = (if comparable webhook_token headers
      then Inr \<lparr>ao_matched = webhook_token \<noteq> [] \<and> (case extract_webhook_credential (headers ''authorization'') of None \<Rightarrow> [] | Some c \<Rightarrow> c) = webhook_token,
        ao_scheme = auth_scheme_label (headers ''authorization''), ao_present = filter (\<lambda>n. headers n \<noteq> None) AUTH_HEADER_ALLOWLIST\<rparr>
      else Inl PyError)"
    by (auto simp: log_auth_observed_def comparable_def compare_digest_def is_ascii_def Let_def split: option.splits)
  moreover obtain seen where "log_auth_observed [] (\<lambda>_. None) = Inr seen" by (simp add: log_auth_observed_def Let_def)
  ultimately show ?thesis by (simp add: cloudpayments_webhook_def)
qed

end
