(* ===== verification/MoneyFlow.thy ===== *)
theory MoneyFlow
  imports Routes ChatApi Checkout Images
begin

text \<open>
  What a request may do to the accounts. A fact that changes for one account keep, and its debits, credits and
  views, is kept by every service called for that account: the services are checked once, in the locale
  \<^verbatim>\<open>account_fact\<close>; the ledger invariant, everything the other accounts have, and the committed rows of the
  ledger are its instances.
\<close>

section \<open>Services that change the account only\<close>

interpretation aq: auth_moves "mine uid" for uid
proof unfold_locales
  show "moves (mine uid) fresh_uuid" by (rule movesI) (rule mine_fresh)
  show "moves (mine uid) (provision_user u)" for u
    by (rule movesI, rule mineI) (auto simp: provision_user_def quiet_def split: option.splits if_splits)
  show "moves (mine uid) (insert_device u d)" for u d
    by (rule movesI, rule mineI) (auto simp: insert_device_def quiet_def split: if_splits)
  show "moves (mine uid) (upsert_device d u)" for u d
    by (rule movesI, rule mineI) (auto simp: upsert_device_def quiet_def split: if_splits)
  show "moves (mine uid) (insert_identity u s e)" for u s e
    by (rule movesI, rule mineI) (auto simp: insert_identity_def quiet_def split: if_splits option.splits)
  show "moves (mine uid) (insert_refresh u d h x)" for u d h x
    by (rule movesI, rule mineI) (auto simp: insert_refresh_def bind_act_def fresh_uuid_def quiet_def split: if_splits)
  show "mine uid db (mark_used i db)" for db i by (rule mineI) (simp_all add: mark_used_def quiet_def)
  show "mine uid db (revoke_chain u d db)" for db u d by (rule mineI) (simp_all add: revoke_chain_def quiet_def)
qed

lemma mine_upd:
  "moves (mine uid) (upd_st (\<lambda>db. db\<lparr>byok_keys := (byok_keys db)(uid := K)\<rparr>))"
  "moves (mine uid) (upd_st (\<lambda>db. db\<lparr>users := (users db)(uid \<mapsto> U)\<rparr>))"
  by (rule mn.moves_upd, rule mineI; simp add: quiet_def)+

lemma mine_from_sum: "moves (mine uid) (from_sum r)"
  by (rule movesI) (simp add: mn.le_refl)

lemma mine_record: "moves (mine uid) (audit_record u sid ev pl)"
  by (rule movesI) (rule mine_audit)

lemma mine_byok_put: "moves (mine uid) (byok_put uid r)"
  by (rule movesI, rule mineI) (auto simp: byok_put_def quiet_def split: if_splits)

lemmas mine_basic = mn.moves_basic mine_from_sum mine_record mine_byok_put mine_upd

lemma mine_byok: "moves (mine uid) (set_key env dek nonce uid k)" "moves (mine uid) (toggle env uid b)" "moves (mine uid) (delete_key uid)"
  by (auto simp: set_key_def store_key_def toggle_def delete_key_def Let_def split: option.splits intro!: mine_basic)

lemma mine_require: "moves (mine uid) (require_workspace wid u)" "moves (mine uid) (require_session sid u)"
  by (auto simp: require_workspace_def require_session_def split: option.splits intro!: mine_basic)

lemma mine_chats:
  "moves (mine uid) (get_history cenv sid u)" "moves (mine uid) (steps_view cenv sid u m)"
  "moves (mine uid) (rename_or_pin sid u p)" "moves (mine uid) (delete_chat sid u)"
proof -
  have "moves (mine uid) (update_metadata s p)" for s
    by (rule movesI, rule mineI) (auto simp: update_metadata_def Let_def quiet_def split: if_splits)
  then show "moves (mine uid) (rename_or_pin sid u p)"
    unfolding rename_or_pin_def by (auto split: option.splits intro!: mine_basic mine_require)
  have "moves (mine uid) (delete_session sid u)"
    by (rule movesI, rule mineI) (auto simp: delete_session_def quiet_def split: if_splits)
  then show "moves (mine uid) (delete_chat sid u)"
    unfolding delete_chat_def by (auto intro!: mine_basic)
qed (auto simp: get_history_def steps_view_def Let_def split: option.splits sum.splits intro!: mine_basic mine_require)

lemma mine_profile:
  "moves (mine uid) (get_profile sha uid)" "moves (mine uid) (update_display_name sha uid name)" "moves (mine uid) (patch_preferences uid pp)"
proof -
  show "moves (mine uid) (patch_preferences uid pp)"
    by (rule movesI, rule mineI) (auto simp: patch_preferences_def Let_def quiet_def split: if_splits)
qed (auto simp: get_profile_def update_display_name_def Let_def split: option.splits intro!: mine_basic)

lemma mine_subscriptions:
  "moves (mine uid) (put_subscription now uid st pl ex)" "moves (mine uid) (upsert_active_subscription uid plan e)"
  "moves (mine uid) (read_subscription u)"
  by (rule movesI, rule mineI, auto simp: put_subscription_def upsert_active_subscription_def
      read_subscription_def quiet_def split: if_splits option.splits)+

lemma mine_adapty: "pe_user ev = uid \<Longrightarrow> moves (mine uid) (adapty_upsert_subscription now ev sem)"
  by (rule movesI, rule mineI) (auto simp: adapty_upsert_subscription_def Let_def quiet_def split: if_splits option.splits)

lemma mine_journals:
  "moves (mine uid) (insert_adapty_event ev body)" "moves (mine uid) (insert_cp_event p u kind)"
  "moves (mine uid) (require_active_subscription now u)" "moves (mine uid) (require_user_exists u)"
  by (rule movesI, rule mineI, auto simp: insert_adapty_event_def insert_cp_event_def require_active_subscription_def
      require_user_exists_def Let_def quiet_def split: if_splits)+

subsection \<open>Workspaces\<close>

lemma mine_rows:
  assumes "quiet d d'" "users d' = users d" "subscriptions d' = subscriptions d" "byok_keys d' = byok_keys d" "preferences d' = preferences d"
    and "distinct (map ws_id (workspaces d)) \<Longrightarrow> distinct (map ws_id (workspaces d'))
      \<and> (\<forall>v. v \<noteq> uid \<longrightarrow> workspace_rows v d' = workspace_rows v d \<and> file_rows v d' = file_rows v d)"
  shows "mine uid d d'"
  using assms by (simp add: mine_def same_account_def)

text \<open>A workspace found for the user belongs to no one else.\<close>

lemma workspace_owner:
  assumes "distinct (map ws_id (workspaces d))" "get_workspace wid uid d = Some w" "v \<noteq> uid"
  shows "wid \<notin> ws_id ` set (workspace_rows v d)" "ws_id w = wid" "ws_user w = uid"
proof -
  have w: "w \<in> set (workspaces d)" "ws_id w = wid" "ws_user w = uid"
    using assms(2) by (auto simp: get_workspace_def find_Some_iff)
  moreover have "x = w" if "x \<in> set (workspaces d)" "ws_id x = wid" for x
    using that w assms(1) by (metis distinct_map inj_onD)
  ultimately have "ws_id x \<noteq> wid" if "x \<in> set (workspaces d)" "ws_user x = v" for x
    using that assms(3) by blast
  then show "wid \<notin> ws_id ` set (workspace_rows v d)" "ws_id w = wid" "ws_user w = uid"
    using w(2,3) unfolding workspace_rows_def by fastforce+
qed

lemma mine_files:
  assumes "get_workspace wid uid d = Some w" "quiet d d'" "users d' = users d" "subscriptions d' = subscriptions d"
    "byok_keys d' = byok_keys d" "preferences d' = preferences d" "workspaces d' = workspaces d"
    and "\<And>ids. wid \<notin> ids \<Longrightarrow> filter (\<lambda>f. wf_workspace f \<in> ids) (workspace_files d') = filter (\<lambda>f. wf_workspace f \<in> ids) (workspace_files d)"
  shows "mine uid d d'"
proof (rule mine_rows[OF assms(2-6)])
  assume dist: "distinct (map ws_id (workspaces d))"
  have "workspace_rows v d' = workspace_rows v d" for v by (simp add: workspace_rows_def assms(7))
  then show "distinct (map ws_id (workspaces d'))
      \<and> (\<forall>v. v \<noteq> uid \<longrightarrow> workspace_rows v d' = workspace_rows v d \<and> file_rows v d' = file_rows v d)"
    using dist assms(8)[OF workspace_owner(1)[OF dist assms(1)] ] by (simp add: assms(7) file_rows_def)
qed

lemma mine_create_workspace: "moves (mine uid) (create_workspace uid name desc instr)"
proof (rule movesI)
  fix d r d' assume run: "create_workspace uid name desc instr d = (r, d')"
  let ?w = "\<lparr>ws_id = db_gen d (db_next d), ws_user = uid, ws_name = py_strip name, ws_description = desc,
    ws_instructions = instr, ws_created = db_now d, ws_updated = db_now d\<rparr>"
  show "mine uid d d'"
  proof (cases "users d uid = None \<or> \<not> text_ok (Some name) \<or> \<not> text_ok desc \<or> \<not> text_ok instr
      \<or> find_workspace (db_gen d (db_next d)) d \<noteq> None")
    case True
    with run have "d' = d" unfolding create_workspace_def by (simp only: if_True prod.inject)
    then show ?thesis by (simp add: mn.le_refl)
  next
    case False
    with run have d': "d' = d\<lparr>db_next := Suc (db_next d), workspaces := workspaces d @ [?w]\<rparr>"
      unfolding create_workspace_def Let_def by (simp only: if_False prod.inject)
    from False have fresh: "ws_id ?w \<notin> set (map ws_id (workspaces d))"
      by (auto simp: find_workspace_def find_None_iff)
    have rows: "workspace_rows v d' = workspace_rows v d" if "v \<noteq> uid" for v
      using that by (simp add: d' workspace_rows_def)
    show ?thesis
    proof (rule mine_rows)
      assume "distinct (map ws_id (workspaces d))"
      with fresh rows show "distinct (map ws_id (workspaces d'))
          \<and> (\<forall>v. v \<noteq> uid \<longrightarrow> workspace_rows v d' = workspace_rows v d \<and> file_rows v d' = file_rows v d)"
        by (simp add: file_rows_def) (simp add: d')
    qed (simp_all add: d' quiet_def)
  qed
qed

lemma mine_delete_workspace: "moves (mine uid) (delete_workspace wid uid)"
proof (rule movesI)
  fix d r d' assume run: "delete_workspace wid uid d = (r, d')"
  show "mine uid d d'"
  proof (cases "get_workspace wid uid d")
    case None
    with run show ?thesis by (simp add: delete_workspace_def mn.le_refl)
  next
    case (Some w)
    with run have d': "workspaces d' = filter (\<lambda>w. ws_id w \<noteq> wid) (workspaces d)"
        "workspace_files d' = filter (\<lambda>f. wf_workspace f \<noteq> wid) (workspace_files d)"
        "quiet d d'" "users d' = users d" "subscriptions d' = subscriptions d" "byok_keys d' = byok_keys d" "preferences d' = preferences d"
      by (auto simp: delete_workspace_def quiet_def)
    show ?thesis
    proof (rule mine_rows[OF d'(3-7)])
      assume dist: "distinct (map ws_id (workspaces d))"
      have rows: "workspace_rows v d' = workspace_rows v d" if "v \<noteq> uid" for v
        using workspace_owner(1)[OF dist Some that] unfolding workspace_rows_def d'(1) filter_filter
        by (intro filter_cong) auto
      have "file_rows v d' = file_rows v d" if "v \<noteq> uid" for v
        using workspace_owner(1)[OF dist Some that] unfolding file_rows_def rows[OF that] d'(2) filter_filter
        by (intro filter_cong) auto
      with rows dist show "distinct (map ws_id (workspaces d'))
          \<and> (\<forall>v. v \<noteq> uid \<longrightarrow> workspace_rows v d' = workspace_rows v d \<and> file_rows v d' = file_rows v d)"
        by (simp add: d'(1) distinct_map_filter)
    qed
  qed
qed

lemma mine_update_workspace: "moves (mine uid) (update_workspace wid uid n de ins)"
proof (rule movesI)
  fix d r d' assume run: "update_workspace wid uid n de ins d = (r, d')"
  show "mine uid d d'"
  proof (cases "get_workspace wid uid d")
    case None
    with run show ?thesis by (simp add: update_workspace_def require_workspace_def bind_act_def mn.le_refl)
  next
    case (Some w)
    let ?w = "w\<lparr>ws_name := (case n of None \<Rightarrow> ws_name w | Some n \<Rightarrow> py_strip n),
      ws_description := (case de of None \<Rightarrow> ws_description w | Some x \<Rightarrow> x),
      ws_instructions := (case ins of None \<Rightarrow> ws_instructions w | Some i \<Rightarrow> i), ws_updated := db_now d\<rparr>"
    from run Some have "d' = d \<or> d' = d\<lparr>workspaces := map (\<lambda>x. if ws_id x = wid then ?w else x) (workspaces d)\<rparr>"
      by (simp add: update_workspace_def require_workspace_def bind_act_def Let_def split: if_splits)
    then show ?thesis
    proof
      assume d': "d' = d\<lparr>workspaces := map (\<lambda>x. if ws_id x = wid then ?w else x) (workspaces d)\<rparr>"
      show ?thesis
      proof (rule mine_rows)
        assume dist: "distinct (map ws_id (workspaces d))"
        have rows: "workspace_rows v d' = workspace_rows v d" if "v \<noteq> uid" for v
        proof -
          note own = workspace_owner[OF dist Some that]
          have "ws_user x \<noteq> v" if "x \<in> set (workspaces d)" "ws_id x = wid" for x
            using own(1) that unfolding workspace_rows_def by auto
          with own(3) that show ?thesis
            unfolding workspace_rows_def d' by (simp, intro filter_map_same) auto
        qed
        have "ws_id w = wid" using Some by (auto simp: get_workspace_def find_Some_iff)
        then have "map ws_id (workspaces d') = map ws_id (workspaces d)" by (simp add: d')
        with dist rows show "distinct (map ws_id (workspaces d'))
            \<and> (\<forall>v. v \<noteq> uid \<longrightarrow> workspace_rows v d' = workspace_rows v d \<and> file_rows v d' = file_rows v d)"
          by (simp add: file_rows_def) (simp add: d')
      qed (simp_all add: d' quiet_def)
    qed (simp add: mn.le_refl)
  qed
qed

lemma mine_upload_file: "moves (mine uid) (upload_file wenv wid uid req)"
proof (rule movesI)
  fix d r d' assume run: "upload_file wenv wid uid req d = (r, d')"
  show "mine uid d d'"
  proof (cases "get_workspace wid uid d")
    case None
    with run show ?thesis by (simp add: upload_file_def require_workspace_def bind_act_def mn.le_refl)
  next
    case (Some w)
    with run show ?thesis
      by (intro mine_files[OF Some]) (auto simp: upload_file_def require_workspace_def bind_act_def add_file_def Let_def quiet_def
          split: if_splits sum.splits)
  qed
qed

lemma mine_delete_file: "moves (mine uid) (delete_workspace_file wid uid fid)"
proof (rule movesI)
  fix d r d' assume run: "delete_workspace_file wid uid fid d = (r, d')"
  show "mine uid d d'"
  proof (cases "get_workspace wid uid d")
    case None
    with run show ?thesis by (simp add: delete_workspace_file_def require_workspace_def bind_act_def mn.le_refl)
  next
    case (Some w)
    let ?fs = "filter (\<lambda>f. \<not> (wf_id f = fid \<and> wf_workspace f = wid)) (workspace_files d)"
    from Some run have "d' = d \<or> d' = d\<lparr>workspace_files := ?fs\<rparr>"
      by (simp add: delete_workspace_file_def require_workspace_def bind_act_def split: if_splits)
    then show ?thesis
    proof
      assume d': "d' = d\<lparr>workspace_files := ?fs\<rparr>"
      have "filter (\<lambda>f. wf_workspace f \<in> ids) ?fs = filter (\<lambda>f. wf_workspace f \<in> ids) (workspace_files d)" if "wid \<notin> ids" for ids
        unfolding filter_filter using that by (intro filter_cong) auto
      then show ?thesis by (intro mine_files[OF Some]) (simp_all add: d' quiet_def)
    qed (simp add: mn.le_refl)
  qed
qed

lemma mine_workspaces:
  "moves (mine uid) (create_workspace uid name desc instr)" "moves (mine uid) (get_detail wid uid)"
  "moves (mine uid) (update_workspace wid uid n de ins)" "moves (mine uid) (delete_workspace wid uid)"
  "moves (mine uid) (upload_file wenv wid uid req)" "moves (mine uid) (list_workspace_files wid uid)"
  "moves (mine uid) (delete_workspace_file wid uid fid)"
  by (fact mine_create_workspace mine_update_workspace mine_delete_workspace mine_upload_file mine_delete_file
    | auto simp: get_detail_def list_workspace_files_def intro!: mine_basic mine_require)+

section \<open>Facts about money that requests keep\<close>

text \<open>Kept by a statement that succeeds; the transaction around it takes back what a failing one did.\<close>

definition preserves :: "(db \<Rightarrow> bool) \<Rightarrow> 'a db_act \<Rightarrow> bool" where
  "preserves I m \<longleftrightarrow> (\<forall>d a d'. I d \<longrightarrow> m d = (Inr a, d') \<longrightarrow> I d')"

definition upholds :: "(db \<Rightarrow> bool) \<Rightarrow> 'a db_act \<Rightarrow> bool" where
  "upholds I m \<longleftrightarrow> (\<forall>d r d'. I d \<longrightarrow> m d = (r, d') \<longrightarrow> I d')"

lemma preservesI: "(\<And>d a d'. I d \<Longrightarrow> m d = (Inr a, d') \<Longrightarrow> I d') \<Longrightarrow> preserves I m"
  by (auto simp: preserves_def)

lemma upholdsI: "(\<And>d r d'. I d \<Longrightarrow> m d = (r, d') \<Longrightarrow> I d') \<Longrightarrow> upholds I m"
  by (auto simp: upholds_def)

lemma upholds_snd: "upholds I m \<Longrightarrow> I d \<Longrightarrow> I (snd (m d))"
  by (cases "m d") (auto simp: upholds_def)

lemma preserves_ret: "preserves I (ret a)" "preserves I (raise e)" "preserves I get_st" "preserves I (guard_act b e)"
  by (simp_all add: preserves_def split: if_splits)

lemma preserves_from_sum: "preserves I (from_sum r)"
  by (simp add: preserves_def)

lemma preserves_bind: "preserves I m \<Longrightarrow> (\<And>a. preserves I (f a)) \<Longrightarrow> preserves I (bind_act m f)"
  by (rule preservesI, erule bind_act_Inr_E) (unfold preserves_def, blast)

lemma preserves_if: "preserves I m \<Longrightarrow> preserves I n \<Longrightarrow> preserves I (if b then m else n)"
  by simp

lemma preserves_option: "preserves I m \<Longrightarrow> (\<And>x. preserves I (f x)) \<Longrightarrow> preserves I (case v of None \<Rightarrow> m | Some x \<Rightarrow> f x)"
  by (cases v) simp_all

lemma preserves_prod: "(\<And>a b. preserves I (f a b)) \<Longrightarrow> preserves I (case v of (a, b) \<Rightarrow> f a b)"
  by (cases v) simp

lemmas preserves_basic = preserves_ret preserves_from_sum preserves_bind preserves_if preserves_option preserves_prod

lemma scope_upholds: "preserves I m \<Longrightarrow> upholds I (session_scope m)"
  unfolding session_scope_def
  by (rule upholdsI) (auto simp: transaction_def preserves_def split: prod.splits sum.splits)

lemma upholds_guarded:
  "upholds I m \<Longrightarrow> upholds I (bind_act (guard_act b e) (\<lambda>_. m))"
  by (rule upholdsI) (auto simp: upholds_def bind_act_def guard_act_def split: if_splits)

text \<open>A fact that changes for one account keep, and its debits, credits and views.\<close>

locale account_fact =
  fixes I :: "db \<Rightarrow> bool" and uid :: uuid
  assumes I_mine: "I d \<Longrightarrow> mine uid d d' \<Longrightarrow> I d'"
    and I_consume: "I d \<Longrightarrow> consume uid amount key meta sid d = (Inr w, d') \<Longrightarrow> I d'"
    and I_grant: "I d \<Longrightarrow> grant uid amount key meta reason d = (Inr w, d') \<Longrightarrow> I d'"
    and I_view: "I d \<Longrightarrow> get_wallet_view uid n d = (Inr v, d') \<Longrightarrow> I d'"
begin

lemma mine_preserves: "moves (mine uid) m \<Longrightarrow> preserves I m"
  by (rule preservesI) (blast dest: movesD I_mine)

lemma mine_upholds: "moves (mine uid) m \<Longrightarrow> upholds I m"
  by (rule upholdsI) (blast dest: movesD I_mine)

lemma money_preserves:
  "preserves I (consume uid amount key meta sid)" "preserves I (grant uid amount key meta reason)"
  "preserves I (get_wallet_view uid n)"
  by (rule preservesI; blast dest: I_consume I_grant I_view)+

lemma audit_preserves: "preserves I (audit_record u sid ev pl)"
  by (rule preservesI) (blast dest: mine_audit I_mine)

lemma mine_parts:
  "preserves I (put_subscription now uid st pl ex)" "preserves I (upsert_active_subscription uid plan e)" "preserves I (read_subscription u)"
  "preserves I (insert_adapty_event ev body)" "preserves I (insert_cp_event p u kind)"
  "preserves I (require_active_subscription now u)" "preserves I (require_user_exists u)" "preserves I (provision_user u)"
  by (rule mine_preserves, rule mine_subscriptions mine_journals aq.le_provision)+

lemmas parts = preserves_basic money_preserves audit_preserves mine_parts

lemma service_preserves:
  "preserves I (subscription_sync vfy cfg now uid jws)" "preserves I (purchase vfy loads cfg now uid jws)"
  "preserves I (admin_grant uid amount key reason)" "preserves I (admin_wallet_view uid n)"
  "preserves I (admin_grant_subscription isof cfg uid expires plan key credits)"
  unfolding subscription_sync_def purchase_def admin_grant_def admin_wallet_view_def admin_grant_subscription_def Let_def
  by (intro parts)+

lemma adapty_preserves:
  assumes "pe_user ev = uid"
  shows "preserves I (adapty_apply aenv now ev body)"
proof -
  have "preserves I (grant (pe_user ev) amount key meta reason)" for amount key meta reason
    using assms money_preserves(2) by simp
  with mine_preserves[OF mine_adapty[OF assms] ]
  show ?thesis unfolding adapty_apply_def adapty_grant_def Let_def by (intro parts)
qed

lemma payment_preserves: "preserves I (payment_transaction cenv now p uid kind credits reason)"
  unfolding payment_transaction_def cp_upsert_subscription_def Let_def
  by (intro parts)+

lemma payments_uphold: "upholds I (credit_payments cenv i ps uid n)"
proof (rule upholdsI)
  have one: "I d' " if "I d" "apply_payment cenv now p uid d = (r, d')" for now p d r d'
    using that payment_preserves[unfolded preserves_def]
    by (auto simp: apply_payment_def split: option.splits prod.splits sum.splits bool.splits)
  fix d r d' assume "I d" "credit_payments cenv i ps uid n d = (r, d')"
  then show "I d'"
    by (induction ps arbitrary: i n d) (auto split: prod.splits sum.splits dest: one)
qed

end

section \<open>The chat keeps what the account keeps\<close>

sublocale account_fact \<subseteq> chat: ledger_invariant I "\<lambda>_. True" env uid for env
  by unfold_locales (auto intro: I_mine I_consume)

context account_fact
begin

lemma keeps_mine:
  assumes "moves (mine uid) m"
  shows "keeps (both I env) (saved I env) (\<lambda>_. True) (on_db m)"
proof (rule keepsI)
  fix s a s' assume J: "both I env s" and run: "on_db m s = (Inr a, s')"
  then obtain d where d: "m (ch_db s) = (Inr a, d)" "s' = s\<lparr>ch_db := d\<rparr>" by (auto simp: on_db_Inr)
  have "both I env (s\<lparr>ch_db := d\<rparr>)"
    by (rule both_mine[OF J I_mine]) (use movesD[OF assms d(1)] in simp_all)
  with d show "both I env s' \<and> True" by simp
next
  fix s e s' assume "both I env s" "on_db m s = (Inl e, s')"
  then have "both I env s" "ch_saved s' = ch_saved s \<and> ch_sent s' = ch_sent s" by (auto simp: on_db_def split: prod.splits)
  then show "saved I env s'" by (rule both_fail)
qed

lemma keeps_respond: "keeps (both I env) (saved I env) (\<lambda>_. True) m \<Longrightarrow> keeps (both I env) (saved I env) (\<lambda>_. True) (respond lax m)"
  unfolding respond_def by (intro keeps_bind keeps_option keeps_ret chat.turn.keeps_raise) simp_all

lemma keeps_images_sweep: "keeps (both I env) (saved I env) (\<lambda>_. True) (maybe_sweep_expired_images env)"
proof -
  have "sweep_if_images env (out\<lparr>co_images := [img]\<rparr>) = maybe_sweep_expired_images env" for out :: chat_run_out and img
    by (simp add: sweep_if_images_def)
  then show ?thesis using chat.req.keeps_sweep by metis
qed

lemma keeps_images:
  "keeps (both I env) (saved I env) (\<lambda>_. True) (list_images cenv env ok uid cursor limit)"
  "keeps (both I env) (saved I env) (\<lambda>_. True) (get_image env uid iid)"
  "keeps (both I env) (saved I env) (\<lambda>_. True) (delete_image env ok uid iid)"
proof -
  have g: "keeps (both I env) (saved I env) (\<lambda>_. True) (guard_act b e)" for b and e :: app_error
    by (cases b) (simp_all add: guard_act_def chat.turn.keeps_raise keeps_ret)
  have del: "keeps (both I env) (saved I env) (\<lambda>_. True)
      (upd_st (\<lambda>s. s\<lparr>ch_db := (ch_db s)\<lparr>generated_images := filter (P s) (generated_images (ch_db s))\<rparr>\<rparr>))" for P
    by (rule keepsI) (auto intro: chat.req.on_sweep)
  show "keeps (both I env) (saved I env) (\<lambda>_. True) (list_images cenv env ok uid cursor limit)"
    unfolding list_images_def
    by (intro keeps_bind[OF g] keeps_bind[OF keeps_images_sweep] keeps_get)
      (auto split: option.split list.split intro!: keeps_ret chat.turn.keeps_raise)
  show "keeps (both I env) (saved I env) (\<lambda>_. True) (get_image env uid iid)"
    unfolding get_image_def
    by (intro keeps_bind[OF keeps_images_sweep] keeps_get keeps_option keeps_ret) simp_all
  show "keeps (both I env) (saved I env) (\<lambda>_. True) (delete_image env ok uid iid)"
    unfolding delete_image_def Let_def
    by (intro keeps_bind[OF g] keeps_bind[OF keeps_images_sweep] keeps_get keeps_bind[OF del]
        keeps_bind[OF chat.turn.keeps_commit] keeps_ret) simp
qed

end

section \<open>The ledger invariant, the belongings of others, the past of the ledger\<close>

interpretation lg: account_fact wallet_inv uid for uid
  by unfold_locales (auto intro: wallet_inv_quiet mine_quiet consume_keeps_inv grant_keeps_inv get_wallet_view_keeps_inv)

text \<open>The balance and the ledger rows of an account, and what else it has.\<close>

definition money :: "uuid \<Rightarrow> db \<Rightarrow> int \<times> ledger_row list" where
  "money v d = (current_balance v d, filter (\<lambda>r. l_user r = v) (ledger d))"

definition untouched_for :: "uuid \<Rightarrow> db \<Rightarrow> db \<Rightarrow> bool" where
  "untouched_for v d d' \<longleftrightarrow> money v d' = money v d \<and> same_account v d d'"

lemma money_quiet: "quiet d d' \<Longrightarrow> money v d' = money v d"
  by (simp add: money_def quiet_def current_balance_def)

lemma untouched_touched: "untouched_for v d (touched uid d)"
  by (simp add: untouched_for_def same_account_def money_def touched_def current_balance_def workspace_rows_def file_rows_def)

lemma untouched_posted: "uid \<noteq> v \<Longrightarrow> untouched_for v d (posted uid ty amount meta key log d)"
  by (simp add: untouched_for_def same_account_def money_def posted_def current_balance_def workspace_rows_def file_rows_def)

lemma untouched_trans: "untouched_for v a b \<Longrightarrow> untouched_for v b c \<Longrightarrow> untouched_for v a c"
  by (simp add: untouched_for_def same_account_def)

text \<open>The account exists, the keys of the workspaces are unique, and everything it has is as in \<^verbatim>\<open>d0\<close>.\<close>

definition spared :: "uuid \<Rightarrow> db \<Rightarrow> db \<Rightarrow> bool" where
  "spared v d0 d \<longleftrightarrow> users d v \<noteq> None \<and> distinct (map ws_id (workspaces d)) \<and> untouched_for v d0 d"

lemma spared_mine: "spared v d0 d \<Longrightarrow> mine uid d d' \<Longrightarrow> uid \<noteq> v \<Longrightarrow> spared v d0 d'"
  using money_quiet[of d d' v] by (auto simp: spared_def mine_def quiet_def untouched_for_def same_account_def)

lemma spared_untouched:
  "spared v d0 d \<Longrightarrow> untouched_for v d d' \<Longrightarrow> workspaces d' = workspaces d \<Longrightarrow> spared v d0 d'"
  using untouched_trans[of v d0 d d'] by (auto simp: spared_def untouched_for_def same_account_def)

lemma view_touched: "get_wallet_view uid n d = (Inr x, d') \<Longrightarrow> d' = touched uid d"
  by (auto simp: get_wallet_view_def elim!: bind_act_Inr_E dest: ensure_wallet_Inr)

lemma outcome_db:
  "consume uid amount key meta sid d = (Inr w, d') \<Longrightarrow> (\<exists>ty log. d' = posted uid ty amount meta key log d) \<or> d' = touched uid d"
  "grant uid amount key meta reason d = (Inr w, d') \<Longrightarrow> (\<exists>ty log. d' = posted uid ty amount meta key log d) \<or> d' = touched uid d"
  using consume_Inr[of uid amount key meta sid d w d'] grant_Inr[of uid amount key meta reason d w d']
  unfolding fresh_outcome_def replay_outcome_def by blast+

lemma money_step_spared:
  "spared v d0 d \<Longrightarrow> uid \<noteq> v \<Longrightarrow> (\<exists>ty log. d' = posted uid ty amount meta key log d) \<or> d' = touched uid d \<Longrightarrow> spared v d0 d'"
  by (elim disjE exE; hypsubst; rule spared_untouched, assumption)
    (simp_all add: untouched_posted untouched_touched, simp_all add: posted_def touched_def)

interpretation ot: account_fact "\<lambda>d. uid \<noteq> v \<longrightarrow> spared v d0 d" uid for uid v d0
  by unfold_locales (blast intro: spared_mine money_step_spared dest: outcome_db view_touched)+

text \<open>The rows of the ledger are never changed or deleted.\<close>

definition recorded :: "ledger_row list \<Rightarrow> db \<Rightarrow> bool" where
  "recorded rows d \<longleftrightarrow> take (length rows) (ledger d) = rows"

lemma recorded_append: "recorded rows d \<Longrightarrow> ledger d' = ledger d @ rs \<Longrightarrow> recorded rows d'"
  unfolding recorded_def by (metis append.assoc append_eq_conv_conj append_take_drop_id)

lemma recorded_same: "recorded rows d \<Longrightarrow> ledger d' = ledger d \<Longrightarrow> recorded rows d'"
  by (simp add: recorded_def)

interpretation rc: account_fact "recorded rows" uid for rows uid
  by unfold_locales
    (auto simp: mine_def quiet_def posted_def touched_def dest!: outcome_db view_touched intro: recorded_append recorded_same)

end
