(* ===== verification/Api.thy ===== *)
theory Api
  imports MoneyFlow
begin

text \<open>
  The API as one state machine over the committed database: every route that can write is a call, and so are
  the reads of a signed-in user, which may create its row; a history is a sequence of calls. The public
  reads, which never write (the preview of a site, the published key, the health probes), are not calls. While a chat request waits for its provider other calls are served; they form a
  history of their own (\<^verbatim>\<open>ce_others\<close>). Over all histories the ledger stays balanced and only grows, and a
  call moves no money but that of its account.
\<close>

section \<open>Calls\<close>

datatype account_call =
    WalletGet
  | WalletConsume uuid "uuid option" string int dict
  | PolicyEffective
  | SubscriptionSync storekit uuid string
  | PurchaseTokens storekit json_loads uuid string
  | TokenProducts json_loads
  | ByokSet byok_env bytes bytes int uuid string
  | ByokToggle byok_env uuid bool
  | ByokDelete uuid
  | ProfileGet "bytes \<Rightarrow> bytes"
  | ProfilePatch "bytes \<Rightarrow> bytes" string
  | PreferencesGet
  | PreferencesPatch "json \<Rightarrow> string" prefs_patch
  | CheckoutLink checkout_env "string \<Rightarrow> string option" string string redis

datatype content_call =
    PresetsList "string \<Rightarrow> string \<times> string" string "string option" "string option"
  | ToolsList tool_lib
  | ModelsList json_loads
  | ChatsList chats_env "string option" "string option" int "uuid option"
  | ChatsGet chats_env uuid
  | ChatsSteps chats_env uuid "uuid option"
  | ChatsPatch uuid chat_patch
  | ChatsDelete uuid
  | WorkspacesCreate string "string option" "string option"
  | WorkspacesList cursor_env "string option" int
  | WorkspacesGet uuid
  | WorkspacesPatch uuid workspace_patch
  | WorkspacesDelete uuid
  | WorkspacesUpload ws_env uuid file_upload
  | WorkspacesFiles uuid
  | WorkspacesDeleteFile uuid uuid

datatype outside_call =
    AuthRegister auth_env time string bool "string option"
  | AuthToken auth_env time string bool string
  | AuthRefresh auth_env time string bool string
  | AuthApple auth_env time string int bool string "string option" "string option"
  | AdminGrant settings int admin_request uuid int string string
  | AdminSubscription "time \<Rightarrow> string" settings int time admin_request admin_subscription_body
  | AdminWallet settings admin_request uuid
  | AdaptyWebhook adapty_env "string option" time string
  | CloudPaymentsWebhook cp_env string "string \<Rightarrow> bool" int "string option" "string \<Rightarrow> string option" string redis

datatype chat_call =
    ChatRun api_env "string option" "string option" chat_run_body redis
  | ChatToolResult api_env "string option" "string option" tool_result_body redis
  | ImagesList cursor_env bool "string option" nat
  | ImageGet uuid
  | ImageDelete bool uuid

datatype api_call =
    OnAccount route_env account_call
  | OnContent route_env content_call
  | Outside outside_call
  | OnChat chat_env route_env chat_call

fun account_exec :: "route_env \<Rightarrow> account_call \<Rightarrow> db \<Rightarrow> db" where
  "account_exec rt WalletGet db = snd (wallet_get rt db)"
| "account_exec rt (WalletConsume u sid rid amount meta) db = snd (wallet_consume rt u sid rid amount meta db)"
| "account_exec rt PolicyEffective db = snd (policy_effective rt db)"
| "account_exec rt (SubscriptionSync vfy u jws) db = snd (subscription_sync_route vfy rt u jws db)"
| "account_exec rt (PurchaseTokens vfy loads u jws) db = snd (purchase_tokens vfy loads rt u jws db)"
| "account_exec rt (TokenProducts loads) db = snd (list_token_products loads rt db)"
| "account_exec rt (ByokSet env dek nonce n u k) db = snd (byok_set env dek nonce n rt u k db)"
| "account_exec rt (ByokToggle env u b) db = snd (byok_toggle env rt u b db)"
| "account_exec rt (ByokDelete u) db = snd (byok_delete rt u db)"
| "account_exec rt (ProfileGet sha) db = snd (profile_get sha rt db)"
| "account_exec rt (ProfilePatch sha name) db = snd (profile_patch sha rt name db)"
| "account_exec rt PreferencesGet db = snd (preferences_get rt db)"
| "account_exec rt (PreferencesPatch dumps p) db = snd (preferences_patch dumps rt p db)"
| "account_exec rt (CheckoutLink env email_of pid email rs) db = snd (checkout_link env email_of rt pid email rs db)"

fun content_exec :: "route_env \<Rightarrow> content_call \<Rightarrow> db \<Rightarrow> db" where
  "content_exec rt (PresetsList ru configured l a) db = snd (presets_list ru configured rt l a db)"
| "content_exec rt (ToolsList lib) db = snd (tools_list lib rt db)"
| "content_exec rt (ModelsList loads) db = snd (models_list loads rt db)"
| "content_exec rt (ChatsList env q c n w) db = snd (chats_list env rt q c n w db)"
| "content_exec rt (ChatsGet env i) db = snd (chats_get env rt i db)"
| "content_exec rt (ChatsSteps env i m) db = snd (chats_steps env rt i m db)"
| "content_exec rt (ChatsPatch i p) db = snd (chats_patch rt i p db)"
| "content_exec rt (ChatsDelete i) db = snd (chats_delete rt i db)"
| "content_exec rt (WorkspacesCreate n desc instr) db = snd (workspaces_create rt n desc instr db)"
| "content_exec rt (WorkspacesList env c n) db = snd (workspaces_list env rt c n db)"
| "content_exec rt (WorkspacesGet i) db = snd (workspaces_get rt i db)"
| "content_exec rt (WorkspacesPatch i p) db = snd (workspaces_patch rt i p db)"
| "content_exec rt (WorkspacesDelete i) db = snd (workspaces_delete rt i db)"
| "content_exec rt (WorkspacesUpload env i f) db = snd (workspaces_upload env rt i f db)"
| "content_exec rt (WorkspacesFiles i) db = snd (workspaces_files rt i db)"
| "content_exec rt (WorkspacesDeleteFile i f) db = snd (workspaces_delete_file rt i f db)"

fun outside_exec :: "outside_call \<Rightarrow> db \<Rightarrow> db" where
  "outside_exec (AuthRegister env now tok ok d) db = snd (auth_register env now tok ok d db)"
| "outside_exec (AuthToken env now tok ok d) db = snd (auth_token env now tok ok d db)"
| "outside_exec (AuthRefresh env now tok ok t) db = snd (auth_refresh env now tok ok t db)"
| "outside_exec (AuthApple env now tok n ok t d nonce) db = snd (auth_apple env now tok n ok t d nonce db)"
| "outside_exec (AdminGrant cfg n rq u amount key reason) db = snd (admin_wallet_grant cfg n rq u amount key reason db)"
| "outside_exec (AdminSubscription isof cfg n now rq b) db = snd (admin_subscription_grant isof cfg n now rq b db)"
| "outside_exec (AdminWallet cfg rq u) db = snd (admin_wallet_get cfg rq u db)"
| "outside_exec (AdaptyWebhook env presented now raw) db = snd (adapty_webhook env presented now raw db)"
| "outside_exec (CloudPaymentsWebhook env tok up now ip headers raw rs) db =
     snd (snd (cloudpayments_webhook env tok up now ip headers raw rs db))"

text \<open>The user is provisioned in the session the handler uses, before anything is committed.\<close>

definition signed_in ::
  "route_env \<Rightarrow> (authenticated_user \<Rightarrow> app_error option) \<Rightarrow> (authenticated_user \<Rightarrow> 'a chat_act) \<Rightarrow> 'a chat_act" where
  "signed_in rt verdict service =
     bind_act (on_db (get_current_user (rt_lib rt) (rt_verifier rt) (rt_credentials rt))) (\<lambda>current.
       case verdict current of Some e \<Rightarrow> raise e | None \<Rightarrow> service current)"

fun chat_exec :: "chat_env \<Rightarrow> route_env \<Rightarrow> chat_call \<Rightarrow> db \<Rightarrow> db" where
  "chat_exec env rt (ChatRun ap xdev ip body rs) db = ch_saved (snd (chat_request (signed_in rt
     (\<lambda>current. fst (chat_admission ap (ce_cfg env) current xdev ip (run_body_ok (ap_limits ap) (ap_dumps ap) body) (cb_user body) rs))
     (\<lambda>current. respond (lax_of env) (run env (run_request_of (au_user current) body)))) db))"
| "chat_exec env rt (ChatToolResult ap xdev ip body rs) db = ch_saved (snd (chat_request (signed_in rt
     (\<lambda>current. fst (chat_admission ap (ce_cfg env) current xdev ip (tool_body_ok (ap_limits ap) (ap_dumps ap) body) (tb_user body) rs))
     (\<lambda>current. respond (lax_of env) (case normalized_results (ap_limits ap) (ap_dumps ap) body of
          None \<Rightarrow> raise PyError
        | Some its \<Rightarrow> tool_result env (au_user current) (tb_session body) (map tool_result_in_of its)))) db))"
| "chat_exec env rt (ImagesList cenv ok cursor limit) db = ch_saved (snd (chat_request (signed_in rt (\<lambda>_. None)
     (\<lambda>current. list_images cenv env ok (au_user current) cursor limit)) db))"
| "chat_exec env rt (ImageGet i) db = ch_saved (snd (chat_request (signed_in rt (\<lambda>_. None)
     (\<lambda>current. get_image env (au_user current) i)) db))"
| "chat_exec env rt (ImageDelete ok i) db = ch_saved (snd (chat_request (signed_in rt (\<lambda>_. None)
     (\<lambda>current. delete_image env ok (au_user current) i)) db))"

fun api_exec :: "api_call \<Rightarrow> db \<Rightarrow> db" where
  "api_exec (OnAccount rt c) db = account_exec rt c db"
| "api_exec (OnContent rt c) db = content_exec rt c db"
| "api_exec (Outside c) db = outside_exec c db"
| "api_exec (OnChat env rt c) db = chat_exec env rt c db"

text \<open>What is served while the call waits, and the account the call is for.\<close>

fun api_wait :: "api_call \<Rightarrow> nat \<Rightarrow> db \<Rightarrow> db" where
  "api_wait (OnChat env rt c) k db = ce_others env k db"
| "api_wait (OnAccount rt c) k db = db"
| "api_wait (OnContent rt c) k db = db"
| "api_wait (Outside c) k db = db"

definition bearer_user :: "route_env \<Rightarrow> uuid option" where
  "bearer_user rt = (case verify_bearer_token (rt_lib rt) (rt_verifier rt) (map_option (\<lambda>c. ''Bearer '' @ c) (rt_credentials rt)) of
     Inl e \<Rightarrow> None | Inr user \<Rightarrow> Some (au_user user))"

fun outside_account :: "outside_call \<Rightarrow> db \<Rightarrow> uuid option" where
  "outside_account (AdminGrant cfg n rq u amount key reason) db = Some u"
| "outside_account (AdminSubscription isof cfg n now rq b) db = Some (ab_user b)"
| "outside_account (AdminWallet cfg rq u) db = Some u"
| "outside_account (AdaptyWebhook env presented now raw) db = (case adapty_front env raw of Inl out \<Rightarrow> None | Inr (body, eid, etype, u) \<Rightarrow> Some u)"
| "outside_account (CloudPaymentsWebhook env tok up now ip headers raw rs) db =
     (case cp_front env raw of Inl out \<Rightarrow> None | Inr device \<Rightarrow> map_option fst (resolve_user device db))"
| "outside_account (AuthRegister env now tok ok d) db = None"
| "outside_account (AuthToken env now tok ok t) db = None"
| "outside_account (AuthRefresh env now tok ok t) db = None"
| "outside_account (AuthApple env now tok n ok t d nonce) db = None"

fun call_account :: "api_call \<Rightarrow> db \<Rightarrow> uuid option" where
  "call_account (OnAccount rt c) db = bearer_user rt"
| "call_account (OnContent rt c) db = bearer_user rt"
| "call_account (OnChat env rt c) db = bearer_user rt"
| "call_account (Outside c) db = outside_account c db"

inductive served :: "db \<Rightarrow> db \<Rightarrow> bool" where
  served_nil: "served d d"
| served_call: "served d d' \<Longrightarrow> (\<And>k x. served x (api_wait c k x)) \<Longrightarrow> served d (api_exec c d')"

section \<open>One call\<close>

lemma bind_reuse: "bind_act (bind_act m (\<lambda>_. ret u)) f = bind_act m (\<lambda>_. f u)"
  by (rule ext) (simp add: bind_act_def split: prod.split sum.split)

lemma on_db_reuse: "bind_act (on_db (bind_act m (\<lambda>_. ret u))) f = bind_act (on_db m) (\<lambda>_. f u)"
proof (rule ext)
  fix s :: chat_st
  obtain r d where "m (ch_db s) = (r, d)" by (cases "m (ch_db s)")
  then show "bind_act (on_db (bind_act m (\<lambda>_. ret u))) f s = bind_act (on_db m) (\<lambda>_. f u) s"
    by (cases r) (simp_all add: bind_act_def on_db_def)
qed

context account_fact
begin

lemma bearer_preserves:
  assumes "\<And>u. bearer_user rt = Some (au_user u) \<Longrightarrow> preserves I (f u)"
  shows "preserves I (bind_act (get_current_user (rt_lib rt) (rt_verifier rt) (rt_credentials rt)) f)"
proof (cases "verify_bearer_token (rt_lib rt) (rt_verifier rt) (map_option (\<lambda>c. ''Bearer '' @ c) (rt_credentials rt))")
  case (Inl e)
  then show ?thesis by (simp add: get_current_user_def preserves_def bind_act_def)
next
  case (Inr u)
  then have "preserves I (f u)" by (intro assms) (simp add: bearer_user_def)
  then show ?thesis unfolding get_current_user_def Inr sum.case bind_reuse by (intro parts)
qed

lemma route_upholds:
  assumes "bearer_user rt = None \<or> bearer_user rt = Some uid" "preserves I (service uid)"
  shows "upholds I (user_route rt valid limited service)" "upholds I (owner_route rt valid u service)"
proof -
  have s: "preserves I (service (au_user c))" if "bearer_user rt = Some (au_user c)" for c
    using assms that by auto
  show "upholds I (user_route rt valid limited service)"
    unfolding user_route_def by (intro scope_upholds bearer_preserves parts s)
  show "upholds I (owner_route rt valid u service)"
    unfolding owner_route_def by (intro scope_upholds bearer_preserves parts s)
qed

lemma admin_upholds: "preserves I service \<Longrightarrow> upholds I (admin_route cfg limit rq valid service)"
  unfolding admin_route_def by (intro scope_upholds) (auto split: option.split intro!: parts)

lemma public_upholds: "moves (mine uid) service \<Longrightarrow> upholds I (public_route valid within service)"
  unfolding public_route_def by (intro mine_upholds mn.moves_basic)

lemma read_preserves: "preserves I (bind_act get_st (\<lambda>db. from_sum (g db)))" "preserves I (bind_act get_st (\<lambda>db. ret (h db)))"
  by (intro parts)+

lemma account_keeps:
  assumes "I d" "bearer_user rt = None \<or> bearer_user rt = Some uid"
  shows "I (account_exec rt c d)"
  by (cases c) (simp_all only: account_exec.simps wallet_get_def wallet_consume_def policy_effective_def
      subscription_sync_route_def purchase_tokens_def list_token_products_def byok_set_def byok_toggle_def byok_delete_def
      profile_get_def profile_patch_def preferences_get_def preferences_patch_def checkout_link_def,
      (rule upholds_snd[OF route_upholds(1)[OF assms(2)] assms(1)] upholds_snd[OF route_upholds(2)[OF assms(2)] assms(1)];
       rule money_preserves service_preserves read_preserves preserves_ret preserves_from_sum mine_preserves[OF mine_byok(1)]
         mine_preserves[OF mine_byok(2)] mine_preserves[OF mine_byok(3)] mine_preserves[OF mine_profile(1)]
         preserves_bind[OF preserves_from_sum mine_preserves[OF mine_profile(2)] ] mine_preserves[OF mine_profile(3)])+)

lemma content_keeps:
  assumes "I d" "bearer_user rt = None \<or> bearer_user rt = Some uid"
  shows "I (content_exec rt c d)"
  by (cases c) (simp_all only: content_exec.simps presets_list_def tools_list_def models_list_def chats_list_def chats_get_def
      chats_steps_def chats_patch_def chats_delete_def workspaces_create_def workspaces_list_def workspaces_get_def
      workspaces_patch_def workspaces_delete_def workspaces_upload_def workspaces_files_def workspaces_delete_file_def,
      (rule upholds_snd[OF route_upholds(1)[OF assms(2)] assms(1)];
       intro read_preserves preserves_ret mine_preserves[OF mine_chats(1)] mine_preserves[OF mine_chats(2)]
         mine_preserves[OF mine_chats(3)] mine_preserves[OF mine_chats(4)] mine_preserves[OF mine_workspaces(1)]
         mine_preserves[OF mine_workspaces(2)] mine_preserves[OF mine_workspaces(3)] mine_preserves[OF mine_workspaces(4)]
         mine_preserves[OF mine_workspaces(5)] mine_preserves[OF mine_workspaces(6)] mine_preserves[OF mine_workspaces(7)]
         preserves_bind preserves_from_sum preserves_option)+)

lemma adapty_webhook_keeps:
  assumes "I d" "\<And>body eid etype u. adapty_front env raw = Inr (body, eid, etype, u) \<Longrightarrow> u = uid"
  shows "I (snd (adapty_webhook env presented now raw d))"
proof -
  have "preserves I (adapty_handle env now raw)"
  proof (rule preservesI)
    fix db a db' assume i: "I db" and run: "adapty_handle env now raw db = (Inr a, db')"
    then show "I db'"
    proof (cases "adapty_front env raw")
      case (Inr x)
      obtain body eid etype u where x: "x = (body, eid, etype, u)" by (cases x)
      have "pe_user (adapty_event env body eid etype u) = uid"
        using assms(2) Inr x by (simp add: adapty_event_def)
      from adapty_preserves[OF this] i run show ?thesis
        unfolding adapty_handle_def Inr x preserves_def by (auto split: if_splits)
    qed (simp add: adapty_handle_def)
  qed
  from scope_upholds[OF this] assms(1) show ?thesis
    by (simp add: adapty_webhook_def upholds_snd split: option.split)
qed

lemma cloudpayments_webhook_keeps:
  assumes "I d" "\<And>device u via. cp_front env raw = Inr device \<Longrightarrow> resolve_user device d = Some (u, via) \<Longrightarrow> u = uid"
  shows "I (snd (snd (cloudpayments_webhook env tok up now ip headers raw rs d)))"
proof -
  have "I (snd (cp_handle env raw d))"
    using assms payments_uphold[unfolded upholds_def]
    by (auto simp: cp_handle_def split: sum.split prod.split option.split)
  with assms(1) show ?thesis by (auto simp: cloudpayments_webhook_def split: sum.split prod.split)
qed

lemma outside_keeps:
  assumes "I d" "outside_account c d = None \<or> outside_account c d = Some uid"
  shows "I (outside_exec c d)"
proof (cases c)
  case (AdaptyWebhook env presented now raw)
  with assms show ?thesis by (auto intro!: adapty_webhook_keeps)
next
  case (CloudPaymentsWebhook env tok up now ip headers raw rs)
  with assms show ?thesis by (auto intro!: cloudpayments_webhook_keeps)
next
  case (AdminSubscription isof cfg n now rq b)
  with assms(2) have u: "ab_user b = uid" by simp
  show ?thesis
    unfolding AdminSubscription outside_exec.simps admin_subscription_grant_def u
    by (rule upholds_snd[OF admin_upholds assms(1)]) (intro preserves_bind preserves_from_sum service_preserves)
qed (use assms in \<open>auto simp: auth_register_def auth_token_def auth_refresh_def auth_apple_def admin_wallet_grant_def
    admin_subscription_grant_def admin_wallet_get_def
    intro!: upholds_snd[OF public_upholds[OF aq.register_le] ] upholds_snd[OF public_upholds[OF aq.refresh_le] ]
      upholds_snd[OF public_upholds[OF aq.apple_le] ] upholds_snd[OF admin_upholds] service_preserves
      preserves_bind preserves_from_sum\<close>)

lemma signed_in_keeps:
  assumes "I d" "relies I env" "bearer_user rt = None \<or> bearer_user rt = Some uid"
    and "\<And>u. au_user u = uid \<Longrightarrow> keeps (both I env) (saved I env) (\<lambda>_. True) (service u)"
  shows "I (ch_saved (snd (chat_request (signed_in rt verdict service) d)))"
proof (rule request_both[OF _ assms(1,2)])
  let ?lib = "rt_lib rt" and ?jv = "rt_verifier rt"
  show "keeps (both I env) (saved I env) (\<lambda>_. True) (signed_in rt verdict service)"
  proof (cases "verify_bearer_token ?lib ?jv (map_option (\<lambda>c. ''Bearer '' @ c) (rt_credentials rt))")
    case (Inl e)
    then have "signed_in rt verdict service = raise e"
      by (auto simp: signed_in_def get_current_user_def on_db_def bind_act_def)
    then show ?thesis by (simp add: chat.turn.keeps_raise)
  next
    case (Inr u)
    with assms(3) have u: "au_user u = uid" by (simp add: bearer_user_def)
    have "signed_in rt verdict service = bind_act (on_db (provision_user (au_user u)))
        (\<lambda>_. case verdict u of Some e \<Rightarrow> raise e | None \<Rightarrow> service u)"
      unfolding signed_in_def get_current_user_def Inr sum.case on_db_reuse ..
    then show ?thesis
      by (simp only:) (intro keeps_bind[OF keeps_mine[OF aq.le_provision] ] keeps_option chat.turn.keeps_raise assms(4) u)
  qed
qed

lemma chat_keeps:
  assumes "I d" "relies I env" "bearer_user rt = None \<or> bearer_user rt = Some uid"
  shows "I (chat_exec env rt c d)"
proof (cases c)
  case (ChatRun ap xdev ip body rs)
  then show ?thesis
    by (simp only: chat_exec.simps)
      (intro signed_in_keeps[OF assms] keeps_respond chat.req.keeps_run[OF _ refl], simp add: run_request_of_def)
next
  case (ChatToolResult ap xdev ip body rs)
  then show ?thesis
    by (simp only: chat_exec.simps)
      (intro signed_in_keeps[OF assms] keeps_respond keeps_option chat.turn.keeps_raise, simp add: chat.req.keeps_tool_result[of False])
qed (simp_all only: chat_exec.simps, (rule signed_in_keeps[OF assms], simp only:, rule keeps_images)+)

lemma api_keeps:
  assumes "I d" "\<And>k x. I x \<Longrightarrow> I (api_wait c k x)" "call_account c d = None \<or> call_account c d = Some uid"
  shows "I (api_exec c d)"
  using assms account_keeps content_keeps outside_keeps chat_keeps by (cases c) (auto simp: relies_def)

end

section \<open>All histories\<close>

lemma served_invariant:
  assumes "served d d'" "\<And>c d. P d \<Longrightarrow> (\<And>k x. P x \<Longrightarrow> P (api_wait c k x)) \<Longrightarrow> P (api_exec c d)" "P d"
  shows "P d'"
  using assms(1,3)
proof (induction rule: served.induct)
  case (served_call d d' c)
  show ?case by (rule assms(2)) (use served_call.IH served_call.prems in auto)
qed

lemma api_inv:
  assumes "wallet_inv d" "\<And>k x. wallet_inv x \<Longrightarrow> wallet_inv (api_wait c k x)"
  shows "wallet_inv (api_exec c d)"
  using lg.api_keeps[OF assms] by (cases "call_account c d") auto

lemma api_recorded:
  assumes "recorded rows d" "\<And>k x. recorded rows x \<Longrightarrow> recorded rows (api_wait c k x)"
  shows "recorded rows (api_exec c d)"
  using rc.api_keeps[OF assms] by (cases "call_account c d") auto

text \<open>
  C2: In every state any sequence of API calls can reach from the empty database, whatever routes are called,
  by whom, with which tokens and bodies, whichever of them fail, and whatever is served while chat
  requests wait for their provider, each account's balance is the sum of its credits minus the sum of its
  debits, is never negative and fits its column, and no idempotency key of an account has two ledger rows.
\<close>

theorem api_keeps_ledger:
  assumes "served (empty_db gen now) d"
  shows "current_balance u d = ledger_sum u (ledger d) \<and> 0 \<le> current_balance u d \<and> bigint_ok (current_balance u d)
    \<and> distinct (map (\<lambda>r. (l_user r, l_key r)) (ledger d))"
proof -
  have "wallet_inv d" using assms api_inv wallet_inv_empty by (rule served_invariant)
  then show ?thesis using wallet_invD by blast
qed

text \<open>
  C3: A call touches no account but its own: the balance, the ledger rows, the profile, the subscription, the
  stored key, the preferences, the workspaces and the knowledge files of every other existing account are the same
  after it, whatever route it is and however it ends, provided that what is served while it waits leaves them
  alone. The account of a call is the subject of its verified token; for operators it is the user they name,
  for the payment callbacks the user their event resolves to, and sign-in has none.
\<close>

theorem api_isolates_accounts:
  assumes "call_account c d \<noteq> Some v" "users d v \<noteq> None" "distinct (map ws_id (workspaces d))"
    and "\<And>k x. spared v d x \<Longrightarrow> spared v d (api_wait c k x)"
  shows "money v (api_exec c d) = money v d \<and> same_account v d (api_exec c d)"
proof -
  have start: "spared v d d" using assms(2,3) by (simp add: spared_def untouched_for_def same_account_def)
  have "spared v d (api_exec c d)"
  proof (cases "call_account c d")
    case None
    have "v + 1 \<noteq> v" by simp
    with ot.api_keeps[where uid = "v + 1" and v = v and ?d0.0 = d and d = d and c = c] start None assms(4) show ?thesis by simp
  next
    case (Some u)
    with ot.api_keeps[where uid = u and v = v and ?d0.0 = d and d = d and c = c] start assms(1,4) show ?thesis by simp
  qed
  then show ?thesis by (simp add: spared_def untouched_for_def)
qed

text \<open>
  C4: The ledger is append-only: no call of any history, a failing or rolled back one included, changes,
  reorders or deletes a row that was committed before.
\<close>

theorem api_ledger_append_only:
  assumes "served d d'"
  shows "take (length (ledger d)) (ledger d') = ledger d"
proof -
  have "recorded (ledger d) d'"
    by (rule served_invariant[OF assms _]) (rule api_recorded, simp_all add: recorded_def)
  then show ?thesis by (simp add: recorded_def)
qed

section \<open>No token, no effect\<close>

lemma bearer_refused:
  assumes "bearer_user rt = None"
  obtains e where "get_current_user (rt_lib rt) (rt_verifier rt) (rt_credentials rt) = raise e"
  using assms by (auto simp: bearer_user_def get_current_user_def split: sum.splits)

lemma raise_bind: "bind_act (raise e) f = raise e"
  by (rule ext) (simp add: bind_act_def)

lemma refused_routes:
  assumes "bearer_user rt = None"
  shows "snd (user_route rt valid limited service d) = d" "snd (owner_route rt valid u oservice d) = d"
    "ch_saved (snd (chat_request (signed_in rt verdict cservice) d)) = d"
proof -
  obtain e where e: "get_current_user (rt_lib rt) (rt_verifier rt) (rt_credentials rt) = raise e"
    by (rule bearer_refused[OF assms])
  show "snd (user_route rt valid limited service d) = d" "snd (owner_route rt valid u oservice d) = d"
    by (simp_all add: user_route_def owner_route_def e raise_bind session_scope_def transaction_def)
  have "signed_in rt verdict cservice = raise e"
    unfolding signed_in_def e by (rule ext) (simp add: on_db_def bind_act_def)
  then show "ch_saved (snd (chat_request (signed_in rt verdict cservice) d)) = d"
    by (simp add: chat_request_def)
qed

text \<open>
  C5: A call on any route that belongs to a user changes nothing in the database, not even the table of
  users, unless it carries a token that verifies: wallet, policy, purchases, payment links, keys, profile, preferences,
  catalogues, chats, workspaces, messages, tool results and images, whatever the rest of the request is.
\<close>

theorem api_needs_token:
  assumes "bearer_user rt = None"
  shows "account_exec rt ac d = d \<and> content_exec rt cc d = d \<and> chat_exec env rt hc d = d"
proof (intro conjI)
  show "account_exec rt ac d = d"
    by (cases ac) (simp_all only: account_exec.simps wallet_get_def wallet_consume_def policy_effective_def
        subscription_sync_route_def purchase_tokens_def list_token_products_def byok_set_def byok_toggle_def byok_delete_def
        profile_get_def profile_patch_def preferences_get_def preferences_patch_def checkout_link_def refused_routes[OF assms])
  show "content_exec rt cc d = d"
    by (cases cc) (simp_all only: content_exec.simps presets_list_def tools_list_def models_list_def chats_list_def
        chats_get_def chats_steps_def chats_patch_def chats_delete_def workspaces_create_def workspaces_list_def
        workspaces_get_def workspaces_patch_def workspaces_delete_def workspaces_upload_def workspaces_files_def
        workspaces_delete_file_def refused_routes[OF assms])
  show "chat_exec env rt hc d = d"
    by (cases hc) (simp_all only: chat_exec.simps refused_routes[OF assms])
qed

section \<open>Examples\<close>

text \<open>A device registers, an operator grants its user five credits.\<close>

definition demo_grant :: "string \<Rightarrow> api_call" where
  "demo_grant key = Outside (AdminGrant (demo_cfg\<lparr>admin_api_secret := ''s''\<rparr>) 8192
     \<lparr>aq_token = Some ''s'', aq_length = Some 90, aq_within = True\<rparr> 0 5 key ''welcome'')"

definition demo_history :: db where
  "demo_history = api_exec (demo_grant ''k'')
     (api_exec (Outside (AuthRegister demo_auth 0 ''t1'' True (Some ''dev''))) (empty_db of_nat 0))"

lemma outside_served: "served d d' \<Longrightarrow> served d (api_exec (Outside c) d')"
  by (rule served_call) (simp_all add: served_nil)

lemma demo_served: "served (empty_db of_nat 0) demo_history" "served demo_history (api_exec (demo_grant ''k2'') demo_history)"
  unfolding demo_history_def demo_grant_def by (intro outside_served served_nil)+

lemma api_keeps_ledger_witness:
  "current_balance 0 demo_history = ledger_sum 0 (ledger demo_history) \<and> 0 \<le> current_balance 0 demo_history
   \<and> bigint_ok (current_balance 0 demo_history) \<and> distinct (map (\<lambda>r. (l_user r, l_key r)) (ledger demo_history))"
  by (rule api_keeps_ledger[OF demo_served(1)])

lemma demo_user: "users demo_registered 0 \<noteq> None" "distinct (map ws_id (workspaces demo_registered))"
  by (simp_all add: demo_registered_def auth_eval)

lemma api_isolates_accounts_witness:
  "money 0 (api_exec (Outside (AdminGrant (demo_cfg\<lparr>admin_api_secret := ''s''\<rparr>) 8192
     \<lparr>aq_token = Some ''s'', aq_length = Some 90, aq_within = True\<rparr> 1 5 ''k'' ''welcome'')) demo_registered) = money 0 demo_registered"
  by (rule api_isolates_accounts[THEN conjunct1, OF _ demo_user]) simp_all

lemma api_ledger_append_only_witness:
  "take (length (ledger demo_history)) (ledger (api_exec (demo_grant ''k2'') demo_history)) = ledger demo_history"
  by (rule api_ledger_append_only[OF demo_served(2)])

definition demo_anonymous :: route_env where
  "demo_anonymous = \<lparr>rt_lib = demo_lib 0, rt_verifier = make_jwt_verifier (\<lambda>p. ''pem'') demo_cfg, rt_credentials = None,
     rt_within = True, rt_cfg = demo_cfg, rt_now = 0\<rparr>"

lemma api_needs_token_witness:
  "account_exec demo_anonymous WalletGet demo_history = demo_history
   \<and> content_exec demo_anonymous (ChatsDelete 3) demo_history = demo_history
   \<and> chat_exec demo_chat demo_anonymous (ImageDelete True 4) demo_history = demo_history"
  by (rule api_needs_token) (simp add: bearer_user_def demo_anonymous_def verify_bearer_token_def)

end
