(* ===== verification/Operations.thy ===== *)
theory Operations
  imports Redaction Base64
begin

text \<open>
  What serves the operation of the backend: the structured log records (\<^verbatim>\<open>app/observability/logging.py\<close>), the probes
  (\<^verbatim>\<open>app/api_gateway/routers/health.py\<close>) and the local key service (\<^verbatim>\<open>app/byok/kms.py\<close>), whose AES-GCM is a
  parameter.
\<close>

section \<open>Log records\<close>

record log_record =
  lr_level :: string
  lr_logger :: string
  lr_message :: string
  lr_extra :: "dict option"
    \<comment> \<open>\<^verbatim>\<open>extra_fields\<close>, where it is a dictionary\<close>
  lr_exc :: "string option"
    \<comment> \<open>the formatted exception, where one is logged\<close>

record log_context =
  lc_request :: "string option"
  lc_session :: "string option"
  lc_user :: "string option"

definition dict_update :: "dict \<Rightarrow> dict \<Rightarrow> dict" where
  "dict_update base kvs = fold (\<lambda>(k, v) acc. dict_put acc k v) kvs base"

definition log_base :: "log_context \<Rightarrow> log_record \<Rightarrow> dict" where
  "log_base ctx r = [(''level'', JStr (lr_level r)), (''logger'', JStr (lr_logger r)), (''message'', JStr (lr_message r)),
     (''requestId'', opt_str (lc_request ctx)), (''sessionId'', opt_str (lc_session ctx)), (''userId'', opt_str (lc_user ctx))]"

text \<open>The dictionary \<^verbatim>\<open>JsonFormatter.format\<close> prints.\<close>

definition format_payload :: "log_context \<Rightarrow> log_record \<Rightarrow> dict" where
  "format_payload ctx r =
    (let payload = (case lr_extra r of Some extra \<Rightarrow> dict_update (log_base ctx r) (redact_dict extra) | None \<Rightarrow> log_base ctx r);
         with_exc = (case lr_exc r of Some e \<Rightarrow> dict_put payload ''exc'' (JStr e) | None \<Rightarrow> payload) in
     filter (\<lambda>(k, v). v \<noteq> JNull) with_exc)"

definition log_event :: "log_context \<Rightarrow> string \<Rightarrow> string \<Rightarrow> string \<Rightarrow> dict \<Rightarrow> log_record" where
  "log_event ctx logger level message extra = \<lparr>lr_level = level, lr_logger = logger, lr_message = message,
     lr_extra = Some (dict_put extra ''requestId'' (opt_str (lc_request ctx))), lr_exc = None\<rparr>"

text \<open>An entry a redacted dictionary may have.\<close>

definition clean_entry :: "string \<Rightarrow> json \<Rightarrow> bool" where
  "clean_entry k v \<longleftrightarrow> no_secrets_dict [(k, v)]"

lemma clean_cons: "no_secrets_dict ((k, v) # kvs) \<longleftrightarrow> clean_entry k v \<and> no_secrets_dict kvs"
  unfolding clean_entry_def by (cases "is_sensitive_key k"; cases "py_lower k = ''attachments''") simp_all

lemma clean_dict: "no_secrets_dict kvs \<longleftrightarrow> (\<forall>(k, v) \<in> set kvs. clean_entry k v)"
  by (induction kvs) (simp, simp only: clean_cons split_paired_all, simp)

lemma clean_put: "no_secrets_dict kvs \<Longrightarrow> clean_entry k v \<Longrightarrow> no_secrets_dict (dict_put kvs k v)"
  by (auto simp: clean_dict dict_put_def split: if_splits)

lemma clean_update: "no_secrets_dict base \<Longrightarrow> no_secrets_dict kvs \<Longrightarrow> no_secrets_dict (dict_update base kvs)"
  unfolding dict_update_def
proof (induction kvs arbitrary: base)
  case (Cons x kvs)
  obtain k v where x: "x = (k, v)" by (cases x)
  with Cons.prems have "clean_entry k v" "no_secrets_dict kvs" by (simp_all only: clean_cons)
  with Cons.IH[OF clean_put[OF Cons.prems(1)] ] show ?case by (simp add: x)
qed simp

lemma base_keys_plain:
  "\<not> is_sensitive_key ''level''" "\<not> is_sensitive_key ''logger''" "\<not> is_sensitive_key ''message''"
  "\<not> is_sensitive_key ''requestId''" "\<not> is_sensitive_key ''sessionId''" "\<not> is_sensitive_key ''userId''"
  "\<not> is_sensitive_key ''exc''" "py_lower ''exc'' \<noteq> ''attachments''"
  by code_simp+

lemma base_keys_lower:
  "py_lower ''level'' \<noteq> ''attachments''" "py_lower ''logger'' \<noteq> ''attachments''" "py_lower ''message'' \<noteq> ''attachments''"
  "py_lower ''requestId'' \<noteq> ''attachments''" "py_lower ''sessionId'' \<noteq> ''attachments''" "py_lower ''userId'' \<noteq> ''attachments''"
  by code_simp+

lemma opt_str_plain: "no_secrets (opt_str s)"
  by (cases s) (simp_all add: opt_str_def)

text \<open>Whatever fields an event is logged with, the record holds no secret under a sensitive key; the level, the
  message and the identifiers of the context are overwritten by fields of the same name.\<close>

lemma log_record_clean: "no_secrets (JObj (format_payload ctx r))"
proof -
  have base: "no_secrets_dict (log_base ctx r)"
    by (simp add: log_base_def base_keys_plain base_keys_lower opt_str_plain)
  have p: "no_secrets_dict (case lr_extra r of Some extra \<Rightarrow> dict_update (log_base ctx r) (redact_dict extra) | None \<Rightarrow> log_base ctx r)"
    using base redact_no_secrets(3) by (auto split: option.split intro: clean_update)
  have exc: "clean_entry ''exc'' (JStr e)" for e by (simp add: clean_entry_def base_keys_plain)
  have "no_secrets_dict (case lr_exc r of Some e \<Rightarrow> dict_put payload ''exc'' (JStr e) | None \<Rightarrow> payload)"
    if "no_secrets_dict payload" for payload
    using that clean_put exc by (cases "lr_exc r") auto
  from this[OF p] show ?thesis
    unfolding format_payload_def Let_def no_secrets.simps clean_dict by auto
qed

section \<open>Probes\<close>

definition health :: dict where
  "health = [(''status'', JStr ''ok'')]"

definition ready :: "bool \<Rightarrow> bool \<Rightarrow> int \<times> dict" where
  "ready db_ok redis_ok = (if \<not> (db_ok \<and> redis_ok) then 503 else 200,
     [(''db'', JStr (if db_ok then ''ok'' else ''down'')), (''redis'', JStr (if redis_ok then ''ok'' else ''down''))])"

text \<open>\<^verbatim>\<open>None\<close>: answered 403.\<close>

definition metrics :: "string \<Rightarrow> string option \<Rightarrow> 'p \<Rightarrow> 'p option" where
  "metrics metrics_scrape_token x_scrape_token payload =
    (if metrics_scrape_token \<noteq> [] \<and> x_scrape_token \<noteq> Some metrics_scrape_token then None else Some payload)"

section \<open>The local key service\<close>

definition LOCAL_NONCE_LEN :: nat where "LOCAL_NONCE_LEN = 12"

record local_kms =
  km_key :: bytes
  km_encrypt :: "bytes \<Rightarrow> bytes \<Rightarrow> bytes \<Rightarrow> bytes"
    \<comment> \<open>\<^verbatim>\<open>AESGCM(key).encrypt(nonce, data, None)\<close>\<close>
  km_decrypt :: "bytes \<Rightarrow> bytes \<Rightarrow> bytes \<Rightarrow> bytes option"

definition encrypt_dek :: "local_kms \<Rightarrow> bytes \<Rightarrow> bytes \<Rightarrow> bytes" where
  "encrypt_dek kms nonce plaintext_dek = nonce @ km_encrypt kms (km_key kms) nonce plaintext_dek"

definition decrypt_dek :: "local_kms \<Rightarrow> bytes \<Rightarrow> bytes option" where
  "decrypt_dek kms encrypted_dek =
     km_decrypt kms (km_key kms) (take LOCAL_NONCE_LEN encrypted_dek) (drop LOCAL_NONCE_LEN encrypted_dek)"

text \<open>\<^verbatim>\<open>get_kms_client\<close>: \<^verbatim>\<open>None\<close> where it raises, without a master key, for undecodable Base64 and for a key that
  is not of 32 bytes.\<close>

definition get_kms_client ::
  "(bytes \<Rightarrow> bytes \<Rightarrow> bytes \<Rightarrow> bytes) \<Rightarrow> (bytes \<Rightarrow> bytes \<Rightarrow> bytes \<Rightarrow> bytes option) \<Rightarrow> string \<Rightarrow> local_kms option" where
  "get_kms_client enc dec kms_local_master_key =
    (if kms_local_master_key = [] then None
     else case b64_decode kms_local_master_key of
       None \<Rightarrow> None
     | Some key \<Rightarrow> if length key \<noteq> 32 then None else Some \<lparr>km_key = key, km_encrypt = enc, km_decrypt = dec\<rparr>)"

text \<open>A wrapped key is unwrapped by every client made of the same master key.\<close>

lemma dek_roundtrip:
  assumes "get_kms_client enc dec master = Some kms" "get_kms_client enc dec master = Some kms'"
    and "length nonce = LOCAL_NONCE_LEN" "\<And>key data. dec key nonce (enc key nonce data) = Some data"
  shows "decrypt_dek kms' (encrypt_dek kms nonce dek) = Some dek"
  using assms by (auto simp: get_kms_client_def decrypt_dek_def encrypt_dek_def split: if_splits option.splits)

end
