(* ===== verification/Spec2Isabelle.thy ===== *)
theory Spec2Isabelle
  imports Adapty CloudPayments AuthSessions SiteStore RateLimit ServerTools ChatStore LlmClients Byok ChatCalls Chats
    WorkspaceList Images Profiles Gateway ChatApi Checkout Routes Api Operations
begin

text \<open>
  Verification of the backend of an iOS assistant application, the Python package \<^verbatim>\<open>src/src/app\<close>: a FastAPI
  service on PostgreSQL and Redis that lets a user chat with a language model of Anthropic or OpenAI, pays for the
  answers from a credit wallet, lets the model use tools of the phone and of the server, and takes payments
  from the App Store, Adapty and CloudPayments.

  \<^bold>\<open>How the program is put together.\<close> A request passes the middlewares (\<^verbatim>\<open>api_gateway/middleware.py\<close>), the bearer
  token is verified and the user row created on first sight (\<^verbatim>\<open>deps.get_current_user\<close>), the body is validated
  (\<^verbatim>\<open>schemas/\<close>), owner and rate limit are checked (\<^verbatim>\<open>api_gateway/routers/\<close>), and a service runs in the
  request's database transaction (\<^verbatim>\<open>db.py\<close>). All money goes through \<^verbatim>\<open>wallet/service.py\<close>; purchases, operators and the two
  webhooks call its \<^verbatim>\<open>grant\<close>, the wallet endpoint and the chat its \<^verbatim>\<open>consume\<close>. The chat
  orchestrator asks the policy engine, builds the prompt, calls a provider in a bounded loop, executes the
  server-side tools of each reply, hands client-side tools to the phone, and settles the turn at its end; it commits
  before every provider call, so other requests run in between.

  \<^bold>\<open>Common notions.\<close> Theory \<^verbatim>\<open>Prelude\<close> has the monad of the model: a step \<^verbatim>\<open>('e, 's, 'a) act\<close> returns
  a value or an error together with the state reached, dirty or not; \<^verbatim>\<open>transaction\<close> commits or rolls back. JSON values,
  Python string functions and dictionaries as association lists are there as well. \<^verbatim>\<open>Calendar\<close>,
  \<^verbatim>\<open>Base64\<close>: the parts of the standard library that the code uses. \<^verbatim>\<open>Errors\<close>: the exception hierarchy of
  \<^verbatim>\<open>errors.py\<close> with status and code of each. \<^verbatim>\<open>Store\<close>: the tables of \<^verbatim>\<open>models/tables.py\<close> as one record \<^verbatim>\<open>db\<close>, tables read
  by key as maps, tables read in order as lists, with the constraints of the columns as errors.
  \<^verbatim>\<open>Config\<close>: what \<^verbatim>\<open>config.py\<close> derives from the raw settings. \<^verbatim>\<open>LedgerSpec\<close>, \<^verbatim>\<open>FileSpec\<close>, \<^verbatim>\<open>Histories\<close>: abstract contracts,
  see below.

  \<^bold>\<open>Components.\<close>
  \<^item> Money: \<^verbatim>\<open>Wallet\<close> (\<^verbatim>\<open>wallet/service.py\<close>), \<^verbatim>\<open>StoreKit\<close> and \<^verbatim>\<open>Purchases\<close> (\<^verbatim>\<open>subscription/\<close>, \<^verbatim>\<open>token_purchase/\<close>,
    \<^verbatim>\<open>admin/\<close>), \<^verbatim>\<open>Adapty\<close> (\<^verbatim>\<open>billing_adapty/\<close>), \<^verbatim>\<open>CloudPayments\<close> and \<^verbatim>\<open>Checkout\<close> (\<^verbatim>\<open>billing_cloudpayments/\<close>),
    \<^verbatim>\<open>Policy\<close> (\<^verbatim>\<open>policy/\<close>). Balances are \<^verbatim>\<open>wallets\<close>, the ledger is \<^verbatim>\<open>ledger\<close>, the journals of the callbacks
    are \<^verbatim>\<open>adapty_events\<close> and \<^verbatim>\<open>cp_events\<close>. Lemmas: every branch of each operation, the ledger invariant \<^verbatim>\<open>wallet_inv\<close>,
    and that a purchase, a billing period and a payment are credited once in any history.
  \<^item> Identity: \<^verbatim>\<open>Tokens\<close> (\<^verbatim>\<open>auth/issuer.py\<close>, \<^verbatim>\<open>auth/apple.py\<close>, \<^verbatim>\<open>api_gateway/auth.py\<close>), \<^verbatim>\<open>AuthSessions\<close>
    (\<^verbatim>\<open>auth/service.py\<close>): round trip of access tokens, single use of refresh tokens and the race of two refreshes,
    \<^verbatim>\<open>Byok\<close> (\<^verbatim>\<open>byok/\<close>), \<^verbatim>\<open>Profiles\<close> (\<^verbatim>\<open>profile/\<close>, \<^verbatim>\<open>preferences/\<close>, \<^verbatim>\<open>chat/presets.py\<close>).
  \<^item> Gateway: \<^verbatim>\<open>Gateway\<close> (the middlewares and exception handlers of \<^verbatim>\<open>main.py\<close> around any routes, with the exceptions that
    pass them by, and the client address), \<^verbatim>\<open>RateLimit\<close>
    (\<^verbatim>\<open>api_gateway/rate_limit.py\<close>) with its equivalence to a sliding window and what a caller that keeps retrying gets,
    \<^verbatim>\<open>Redaction\<close> (\<^verbatim>\<open>observability/redaction.py\<close>, \<^verbatim>\<open>audit/\<close>), \<^verbatim>\<open>Operations\<close> (log records, probes, the local key service).
  \<^item> Chat: \<^verbatim>\<open>ChatPrompt\<close> (the pure helpers of \<^verbatim>\<open>chat/orchestrator.py\<close>), \<^verbatim>\<open>Attachments\<close>, \<^verbatim>\<open>ChatTools\<close> (\<^verbatim>\<open>chat/tools.py\<close>),
    \<^verbatim>\<open>ServerTools\<close> (\<^verbatim>\<open>website/tools.py\<close>, \<^verbatim>\<open>chat/global_tools.py\<close>, \<^verbatim>\<open>chat/image_client.py\<close>), \<^verbatim>\<open>ChatStore\<close>
    (\<^verbatim>\<open>chat/repository.py\<close>, \<^verbatim>\<open>chat/ephemeral_repository.py\<close>), \<^verbatim>\<open>LlmClients\<close>, \<^verbatim>\<open>Orchestrator\<close> (\<^verbatim>\<open>run\<close>,
    \<^verbatim>\<open>tool_result\<close> and all they call), \<^verbatim>\<open>ChatApi\<close> (bodies, validators and answers of both endpoints). The state of a
    request is \<^verbatim>\<open>chat_st\<close>: the committed and the current database, the rows a temporary chat keeps in memory, and the
    provider calls made. \<^verbatim>\<open>TurnRules\<close>, \<^verbatim>\<open>Turns\<close>, \<^verbatim>\<open>ChatBilling\<close>, \<^verbatim>\<open>ChatCalls\<close> prove what holds of a whole request: the
    charge, the calls and keys that leave, what a failure and a temporary chat leave behind.
  \<^item> Content: \<^verbatim>\<open>Sites\<close> and \<^verbatim>\<open>SiteStore\<close> (\<^verbatim>\<open>website/\<close>, preview endpoint), \<^verbatim>\<open>Pagination\<close>, \<^verbatim>\<open>Chats\<close>
    (\<^verbatim>\<open>chats/\<close>), \<^verbatim>\<open>Workspaces\<close> and \<^verbatim>\<open>WorkspaceList\<close> (\<^verbatim>\<open>workspaces/\<close>), \<^verbatim>\<open>Images\<close> (\<^verbatim>\<open>api_gateway/routers/images.py\<close>).
  \<^item> The whole: \<^verbatim>\<open>Routes\<close> has the remaining handlers with the constraints of their bodies, \<^verbatim>\<open>MoneyFlow\<close> and \<^verbatim>\<open>Api\<close>
    compose every route that can write, and the reads of a signed-in user, into one state machine and prove what
    all histories of calls keep. The public reads (site preview, published key, health probes) write nothing; they are
    modelled in \<^verbatim>\<open>SiteStore\<close>, \<^verbatim>\<open>Routes\<close> and \<^verbatim>\<open>Operations\<close> and are no calls of that machine.

  \<^bold>\<open>Interfaces.\<close>
  \<^item> \<^verbatim>\<open>idem_ledger\<close>: a ledger addressed by idempotency keys, interpreted by the wallet (\<^verbatim>\<open>wl\<close>);
    \<^verbatim>\<open>once_crediting\<close>: a request path that credits under a key of its own, interpreted by the purchases
    (\<^verbatim>\<open>pay\<close>) and the Adapty deliveries (\<^verbatim>\<open>ad\<close>).
  \<^item> \<^verbatim>\<open>file_store\<close>: a bounded finite map under an invariant, interpreted by the website files (\<^verbatim>\<open>fs\<close>).
  \<^item> \<^verbatim>\<open>keyset_list\<close>: following cursors visits every row once, interpreted by chats, workspaces and images
    (\<^verbatim>\<open>chl\<close>, \<^verbatim>\<open>wkl\<close>, \<^verbatim>\<open>iml\<close>).
  \<^item> \<^verbatim>\<open>preordered\<close>: what only moves forward along a preorder of states (\<^verbatim>\<open>cm\<close>, \<^verbatim>\<open>qt\<close>, \<^verbatim>\<open>op\<close>, \<^verbatim>\<open>sd\<close>), extended by
    \<^verbatim>\<open>forward_history\<close> for histories (\<^verbatim>\<open>ah\<close>) and by \<^verbatim>\<open>auth_moves\<close> for sign-in (\<^verbatim>\<open>al\<close>, \<^verbatim>\<open>aq\<close>).
  \<^item> \<^verbatim>\<open>turn_base\<close> to \<^verbatim>\<open>request_fact\<close>: a fact that each statement of a turn keeps is kept by the request. Interpreted on
    the opening of a session (\<^verbatim>\<open>opn\<close>), the calls sent (\<^verbatim>\<open>snt\<close>), the tables of a temporary chat (\<^verbatim>\<open>tmpf\<close>), and through
    \<^verbatim>\<open>ledger_fact\<close> and \<^verbatim>\<open>ledger_invariant\<close> on the unpaid turn (\<^verbatim>\<open>unb\<close>) and the ledger (\<^verbatim>\<open>wlf\<close>).
  \<^item> \<^verbatim>\<open>account_fact\<close>: a fact kept by changes for one account and by its money operations is kept by every call
    for it; a \<^verbatim>\<open>ledger_invariant\<close> for the chat. Interpreted on the ledger invariant (\<^verbatim>\<open>lg\<close>), what the other
    accounts have (\<^verbatim>\<open>ot\<close>) and the past of the ledger (\<^verbatim>\<open>rc\<close>).

  \<^bold>\<open>Bounds and fuel.\<close> Loops over data are structural recursion. The provider loop \<^verbatim>\<open>llm_rounds\<close> gets the fuel
  \<^verbatim>\<open>nat (max_server_tool_rounds + 1)\<close>, which is exactly the number of iterations of the code's bounded loop. Following
  cursors (\<^verbatim>\<open>follow\<close>) is proved to end with any fuel above the number of rows. Integers of Python are
  unbounded; columns of type \<^verbatim>\<open>BIGINT\<close> are checked where they are written, and so is what PostgreSQL does not store: a NUL in a
  text, a NUL or a number that is not finite in \<^verbatim>\<open>JSONB\<close> (\<^verbatim>\<open>text_ok\<close>, \<^verbatim>\<open>jsonb_ok\<close>). UUIDs are 128-bit words, bytes
  8-bit words, times microseconds since 1970.

  \<^bold>\<open>What is assumed.\<close> Strings are Latin-1: texts of the program in Cyrillic are parameters. JSON parsing and printing, RSA,
  HMAC, SHA-256, AES-GCM, PyJWT, certificate paths, pypdf, time zones, \<^verbatim>\<open>ipaddress\<close>, the lax coercions of
  pydantic and the collation of \<^verbatim>\<open>ILIKE\<close> are parameters; what a theorem needs of them is one of its hypotheses. The
  answers of providers, of the image generator and of the payment aggregator are parameters and may be anything. One
  supply of identifiers stands for \<^verbatim>\<open>uuid4\<close> and \<^verbatim>\<open>gen_random_uuid\<close>; where freshness matters it is a hypothesis. A
  transaction has one \<^verbatim>\<open>now()\<close> and runs alone, except where the code commits in the middle: then \<^verbatim>\<open>ce_others\<close> is what
  others committed meanwhile, and the interleaving of refreshes is explicit in \<^verbatim>\<open>AuthSessions\<close>. In \<^verbatim>\<open>Routes\<close> and \<^verbatim>\<open>Images\<close> the
  verdict of the rate limiter is an argument.

  \<^bold>\<open>Not modelled.\<close> The migrations of \<^verbatim>\<open>src/migrations\<close> (their result is the table model), the declaration of the
  settings and of the response fields (they name types, the model's records do the same), the texts of the API
  documentation and \<^verbatim>\<open>openapi_security.py\<close> (documents, no behaviour), metric counters and log calls (no effect on state or
  answers), the engine, pools and singletons of \<^verbatim>\<open>db.py\<close>, \<^verbatim>\<open>deps.py\<close> and \<^verbatim>\<open>main.py\<close> (object wiring), the JWK
  encoding of a public key (arithmetic of the cryptography package), the HTTP of the SDKs.
\<close>

end
